(* ===== verification/Prelude.thy ===== *)
theory Prelude
  imports
    Complex_Main
    "HOL-Library.AList"
    "HOL-Library.Sublist"
    "HOL-Library.Char_ord"
    "HOL-Library.List_Lexorder"
begin

text \<open>
  The shared vocabulary of the development: how the Python values, dictionaries, strings and
  exceptions that the modelled modules use are represented, and the generic lemmas about them.

  \<^item> A Python exception is a value of type \<open>pyexn\<close>. A message is kept as its template (the text
    of the f-string with \<open>{}\<close> for each formatted value) together with the formatted values.
  \<^item> A call that may raise returns \<open>pyexn + 'a\<close>; \<open>bindE\<close> runs the rest of the function when no
    exception was raised.
  \<^item> A value that \<^verbatim>\<open>json.loads\<close> can produce is a \<open>json\<close>; a dictionary is its list of items in
    insertion order, updated with \<^const>\<open>AList.update\<close> as Python updates one (in place, or at
    the end for a new key).
  \<^item> A string is a list of characters, read as the code points below 256.
  \<^item> A float is an exact rational, an infinity or NaN; arithmetic that rounds is a parameter
    wherever a definition uses it.
\<close>

named_theorems dict_simps \<open>lookup after an update of a dictionary\<close>
named_theorems res_splits \<open>case splits and inversions on exception results\<close>

section \<open>Exceptions\<close>

datatype pyfloat = PosInf | NegInf | NaN | Fin rat

datatype json =
    JNull
  | JBool bool
  | JInt int
  | JFloat pyfloat
  | JStr string
  | JList "json list"
  | JObj "(string \<times> json) list"

type_synonym dict = "(string \<times> json) list"

datatype pyexn =
    ValueError string "json list"
  | SystemExit string "json list"
  | RuntimeError string "json list"
  | KeyError string
  | TypeError
  | AttributeError
  | IndexError
  | AssertionError
  | OverflowError
  | OSError
  | RecursionError
  | LibError string
  | RelayError string "json list"

type_synonym 'a res = "pyexn + 'a"

definition bindE :: "'a res \<Rightarrow> ('a \<Rightarrow> 'b res) \<Rightarrow> 'b res" where
  "bindE m f = (case m of Inl e \<Rightarrow> Inl e | Inr x \<Rightarrow> f x)"

lemma bindE_simps [simp]:
  "bindE (Inl e) f = Inl e"
  "bindE (Inr x) f = f x"
  by (simp_all add: bindE_def)

lemma bindE_eq_Inr [simp]: "bindE m f = Inr y \<longleftrightarrow> (\<exists>x. m = Inr x \<and> f x = Inr y)"
  by (cases m) auto

lemma bindE_eq_Inl: "bindE m f = Inl e \<longleftrightarrow> m = Inl e \<or> (\<exists>x. m = Inr x \<and> f x = Inl e)"
  by (cases m) auto

lemma bindE_cong [fundef_cong]:
  "m = m' \<Longrightarrow> (\<And>x. m' = Inr x \<Longrightarrow> f x = f' x) \<Longrightarrow> bindE m f = bindE m' f'"
  by (cases m') auto

definition guardE :: "bool \<Rightarrow> pyexn \<Rightarrow> unit res" where
  "guardE b e = (if b then Inr () else Inl e)"

lemma guardE_simps [simp]:
  "guardE True e = Inr ()"
  "guardE False e = Inl e"
  by (simp_all add: guardE_def)

lemma guardE_eq_Inr [simp]: "guardE b e = Inr u \<longleftrightarrow> b"
  by (simp add: guardE_def)

lemma guardE_eq_Inl [simp]: "guardE b e = Inl e' \<longleftrightarrow> \<not> b \<and> e' = e"
  by (auto simp: guardE_def)

text \<open>A loop that stops at the first exception: over a list, collecting the results.\<close>

fun mapE :: "('a \<Rightarrow> 'b res) \<Rightarrow> 'a list \<Rightarrow> 'b list res" where
  "mapE f [] = Inr []"
| "mapE f (x # xs) = bindE (f x) (\<lambda>y. bindE (mapE f xs) (\<lambda>ys. Inr (y # ys)))"

lemma mapE_cong [fundef_cong]:
  "xs = ys \<Longrightarrow> (\<And>x. x \<in> set ys \<Longrightarrow> f x = g x) \<Longrightarrow> mapE f xs = mapE g ys"
  by (induction ys arbitrary: xs) (auto cong: bindE_cong)

lemma mapE_eq_Inr: "mapE f xs = Inr ys \<longleftrightarrow> list_all2 (\<lambda>x y. f x = Inr y) xs ys"
  by (induction xs arbitrary: ys) (auto simp: list_all2_Cons1)

lemma mapE_Inr_length: "mapE f xs = Inr ys \<Longrightarrow> length ys = length xs"
  by (auto simp: mapE_eq_Inr dest: list_all2_lengthD)

lemma mapE_total: "(\<forall>x\<in>set xs. \<exists>y. f x = Inr y) \<Longrightarrow> \<exists>ys. mapE f xs = Inr ys"
  by (induction xs) auto

lemma mapE_Inr_in_set: "mapE f xs = Inr ys \<Longrightarrow> x \<in> set xs \<Longrightarrow> \<exists>y\<in>set ys. f x = Inr y"
  by (induction xs arbitrary: ys) auto

lemma mapE_Inl: "mapE f xs = Inl e \<Longrightarrow> \<exists>x\<in>set xs. f x = Inl e"
  by (induction xs) (auto simp: bindE_eq_Inl)

lemma mapE_Inr_map: "(\<And>x. x \<in> set xs \<Longrightarrow> f x = Inr (g x)) \<Longrightarrow> mapE f xs = Inr (map g xs)"
  by (induction xs) auto

text \<open>A loop that threads a state and stops at the first exception.\<close>

fun foldE :: "('s \<Rightarrow> 'a \<Rightarrow> 's res) \<Rightarrow> 's \<Rightarrow> 'a list \<Rightarrow> 's res" where
  "foldE f s [] = Inr s"
| "foldE f s (x # xs) = bindE (f s x) (\<lambda>t. foldE f t xs)"

lemma foldE_keeps:
  "foldE f s xs = Inr s' \<Longrightarrow> P s \<Longrightarrow> (\<And>s x s'. x \<in> set xs \<Longrightarrow> P s \<Longrightarrow> f s x = Inr s' \<Longrightarrow> P s') \<Longrightarrow> P s'"
  by (induction xs arbitrary: s) auto

lemma foldE_establishes:
  assumes "foldE f s xs = Inr s'" "x \<in> set xs" "P s"
    and "\<And>s y s'. P s \<Longrightarrow> f s y = Inr s' \<Longrightarrow> P s' \<and> (Q s \<longrightarrow> Q s')"
    and "\<And>s s'. P s \<Longrightarrow> f s x = Inr s' \<Longrightarrow> Q s'"
  shows "Q s'"
  using assms(1-3)
proof (induction xs arbitrary: s)
  case (Cons y ys)
  then obtain s1 where s1: "f s y = Inr s1" "foldE f s1 ys = Inr s'" by auto
  have P1: "P s1" using assms(4) Cons.prems(3) s1(1) by blast
  show ?case
  proof (cases "x \<in> set ys")
    case True
    then show ?thesis using Cons.IH [OF s1(2) _ P1] by simp
  next
    case False
    then have "Q s1" using Cons.prems assms(5) s1(1) by auto
    then have "P s' \<and> Q s'"
      using foldE_keeps [OF s1(2), of "\<lambda>s. P s \<and> Q s"] P1 assms(4) by blast
    then show ?thesis by simp
  qed
qed simp

text \<open>The same loop where each turn extends one list (\<^verbatim>\<open>errors.extend(...)\<close>).\<close>

definition concatE :: "('a \<Rightarrow> 'b list res) \<Rightarrow> 'a list \<Rightarrow> 'b list res" where
  "concatE f xs = bindE (mapE f xs) (\<lambda>yss. Inr (concat yss))"

lemma concatE_cong [fundef_cong]:
  "xs = ys \<Longrightarrow> (\<And>x. x \<in> set ys \<Longrightarrow> f x = g x) \<Longrightarrow> concatE f xs = concatE g ys"
  unfolding concatE_def using mapE_cong [of xs ys f g] by simp

lemma concatE_simps [simp]:
  "concatE f [] = Inr []"
  "concatE f (x # xs) = bindE (f x) (\<lambda>y. bindE (concatE f xs) (\<lambda>ys. Inr (y @ ys)))"
  unfolding concatE_def by (cases "f x"; cases "mapE f xs"; simp)+

lemma concatE_total: "(\<forall>x\<in>set xs. \<exists>y. f x = Inr y) \<Longrightarrow> \<exists>ys. concatE f xs = Inr ys"
  using mapE_total [of xs f] by (auto simp: concatE_def)

lemma concatE_Nil: "concatE f xs = Inr [] \<longleftrightarrow> (\<forall>x\<in>set xs. f x = Inr [])"
  by (induction xs) auto

lemma concatE_part:
  "concatE f xs = Inr ys \<Longrightarrow> x \<in> set xs \<Longrightarrow> \<exists>zs. f x = Inr zs \<and> set zs \<subseteq> set ys"
proof (induction xs arbitrary: ys)
  case (Cons a xs)
  then obtain zs zs' where "f a = Inr zs" "concatE f xs = Inr zs'" "ys = zs @ zs'" by auto
  then show ?case using Cons.IH [of zs'] Cons.prems(2) by auto
qed simp

lemma concatE_in: "concatE f xs = Inr ys \<Longrightarrow> y \<in> set ys \<Longrightarrow> \<exists>x\<in>set xs. \<exists>zs. f x = Inr zs \<and> y \<in> set zs"
  by (induction xs arbitrary: ys) auto

lemma mapE_in: "mapE f xs = Inr ys \<Longrightarrow> y \<in> set ys \<Longrightarrow> \<exists>x\<in>set xs. f x = Inr y"
  by (induction xs arbitrary: ys) auto

section \<open>Strings\<close>

abbreviation startswith :: "string \<Rightarrow> string \<Rightarrow> bool" where
  "startswith s p \<equiv> prefix p s"

abbreviation endswith :: "string \<Rightarrow> string \<Rightarrow> bool" where
  "endswith s p \<equiv> suffix p s"

text \<open>\<open>contains s p\<close> is Python's \<^verbatim>\<open>p in s\<close> on strings.\<close>

fun contains :: "string \<Rightarrow> string \<Rightarrow> bool" where
  "contains [] p = (p = [])"
| "contains (c # cs) p = (prefix p (c # cs) \<or> contains cs p)"

lemma contains_iff: "contains s p \<longleftrightarrow> (\<exists>a b. s = a @ p @ b)"
proof (induction s)
  case Nil
  then show ?case by auto
next
  case (Cons c cs)
  show ?case
  proof
    assume "contains (c # cs) p"
    then consider "prefix p (c # cs)" | "contains cs p" by auto
    then show "\<exists>a b. c # cs = a @ p @ b"
    proof cases
      case 1
      then obtain b where "c # cs = p @ b" by (auto simp: prefix_def)
      then show ?thesis by (metis append_Nil)
    next
      case 2
      then obtain a b where "cs = a @ p @ b" using Cons by auto
      then have "c # cs = (c # a) @ p @ b" by simp
      then show ?thesis by blast
    qed
  next
    assume "\<exists>a b. c # cs = a @ p @ b"
    then obtain a b where ab: "c # cs = a @ p @ b" by blast
    show "contains (c # cs) p"
    proof (cases a)
      case Nil
      then have "prefix p (c # cs)" using ab by (simp add: prefix_def)
      then show ?thesis by simp
    next
      case (Cons d a')
      then have "cs = a' @ p @ b" using ab by simp
      then show ?thesis using Cons.IH by auto
    qed
  qed
qed

definition removeprefix :: "string \<Rightarrow> string \<Rightarrow> string" where
  "removeprefix s p = (if prefix p s then drop (length p) s else s)"

definition removesuffix :: "string \<Rightarrow> string \<Rightarrow> string" where
  "removesuffix s p = (if p \<noteq> [] \<and> suffix p s then take (length s - length p) s else s)"

lemma removeprefix_append [simp]: "removeprefix (p @ s) p = s"
  by (simp add: removeprefix_def)

text \<open>\<^verbatim>\<open>s.split(c)\<close> and \<^verbatim>\<open>sep.join(xs)\<close>.\<close>

fun split_on :: "char \<Rightarrow> string \<Rightarrow> string list" where
  "split_on c [] = [[]]"
| "split_on c (x # xs) =
     (if x = c then [] # split_on c xs
      else (case split_on c xs of [] \<Rightarrow> [[x]] | y # ys \<Rightarrow> (x # y) # ys))"

fun join :: "string \<Rightarrow> string list \<Rightarrow> string" where
  "join sep [] = []"
| "join sep [x] = x"
| "join sep (x # y # ys) = x @ sep @ join sep (y # ys)"

lemma split_on_nonempty [simp]: "split_on c s \<noteq> []"
  by (induction s) (auto split: list.splits)

lemma join_split_on [simp]: "join [c] (split_on c s) = s"
proof (induction s)
  case Nil
  then show ?case by simp
next
  case (Cons x s)
  then show ?case
    by (cases "split_on c s"; cases "tl (split_on c s)") (auto split: list.splits)
qed

lemma split_on_no_sep: "p \<in> set (split_on c s) \<Longrightarrow> c \<notin> set p"
proof (induction s arbitrary: p)
  case Nil
  then show ?case by simp
next
  case (Cons x s)
  then show ?case by (auto split: if_splits list.splits)
qed

lemma split_on_single: "c \<notin> set p \<Longrightarrow> split_on c p = [p]"
  by (induction p) auto

lemma split_on_append: "c \<notin> set p \<Longrightarrow> split_on c (p @ c # s) = p # split_on c s"
  by (induction p) auto

lemma split_on_join:
  "xs \<noteq> [] \<Longrightarrow> (\<forall>x\<in>set xs. c \<notin> set x) \<Longrightarrow> split_on c (join [c] xs) = xs"
proof (induction "[c]" xs rule: join.induct)
  case 1
  then show ?case by simp
next
  case (2 x)
  then show ?case by (simp add: split_on_single)
next
  case (3 x y ys)
  then show ?case by (simp add: split_on_append)
qed

text \<open>\<^verbatim>\<open>s.split()\<close>: the words between runs of white space.\<close>

fun split_by :: "(char \<Rightarrow> bool) \<Rightarrow> string \<Rightarrow> string list" where
  "split_by p [] = [[]]"
| "split_by p (x # xs) =
     (if p x then [] # split_by p xs
      else (case split_by p xs of [] \<Rightarrow> [[x]] | y # ys \<Rightarrow> (x # y) # ys))"

text \<open>
  \<^verbatim>\<open>s.splitlines(keepends)\<close>: line ends are line feed, carriage return (with a line feed after
  it, one end), vertical tab, form feed, the separators 28 to 30 and the code point 133.
\<close>

definition line_end :: "char \<Rightarrow> bool" where
  "line_end c = (let n = (of_char c :: nat) in (10 \<le> n \<and> n \<le> 13) \<or> (28 \<le> n \<and> n \<le> 30) \<or> n = 133)"

abbreviation lf :: char where
  "lf \<equiv> char_of (10::nat)"

abbreviation cr :: char where
  "cr \<equiv> char_of (13::nat)"

fun lines_from :: "bool \<Rightarrow> string \<Rightarrow> string \<Rightarrow> string list" where
  "lines_from keep acc [] = (if acc = [] then [] else [rev acc])"
| "lines_from keep acc (c # cs) =
     (if \<not> line_end c then lines_from keep (c # acc) cs
      else case cs of
             [] \<Rightarrow> [rev acc @ (if keep then [c] else [])]
           | d # ds \<Rightarrow>
               if c = cr \<and> d = lf then (rev acc @ (if keep then [c, d] else [])) # lines_from keep [] ds
               else (rev acc @ (if keep then [c] else [])) # lines_from keep [] (d # ds))"

definition splitlines :: "bool \<Rightarrow> string \<Rightarrow> string list" where
  "splitlines keep s = lines_from keep [] s"

lemma concat_lines_from: "concat (lines_from True acc s) = rev acc @ s"
  by (induction True acc s rule: lines_from.induct) (auto split: list.splits)

lemma concat_splitlines [simp]: "concat (splitlines True s) = s"
  by (simp add: splitlines_def concat_lines_from)

text \<open>\<^verbatim>\<open>data.find(needle, offset)\<close>.\<close>

fun find_first :: "string \<Rightarrow> string \<Rightarrow> nat option" where
  "find_first needle [] = (if needle = [] then Some 0 else None)"
| "find_first needle (c # cs) =
     (if prefix needle (c # cs) then Some 0 else map_option Suc (find_first needle cs))"

definition find_from :: "string \<Rightarrow> string \<Rightarrow> nat \<Rightarrow> nat option" where
  "find_from data needle offset =
     (if length data < offset then None
      else map_option (\<lambda>i. offset + i) (find_first needle (drop offset data)))"

lemma find_first_le: "find_first needle s = Some i \<Longrightarrow> i \<le> length s"
  by (induction s arbitrary: i) (auto split: if_splits)

lemma find_first_spec:
  "find_first needle s = Some i \<longleftrightarrow>
     i \<le> length s \<and> prefix needle (drop i s) \<and> (\<forall>j<i. \<not> prefix needle (drop j s))"
proof (induction s arbitrary: i)
  case Nil
  then show ?case by auto
next
  case (Cons c s)
  show ?case
  proof (cases "prefix needle (c # s)")
    case True
    then show ?thesis by (cases i) auto
  next
    case False
    show ?thesis
    proof (cases i)
      case (Suc k)
      have "(\<forall>j<Suc k. \<not> prefix needle (drop j (c # s))) \<longleftrightarrow> (\<forall>j<k. \<not> prefix needle (drop j s))"
        using False by (metis Suc_less_eq drop0 drop_Suc_Cons not0_implies_Suc)
      then show ?thesis using False Suc by (auto simp: Cons)
    qed (use False in auto)
  qed
qed

lemma find_first_None: "find_first needle s = None \<longleftrightarrow> (\<forall>i\<le>length s. \<not> prefix needle (drop i s))"
proof (induction s)
  case (Cons c s)
  have "(\<forall>i\<le>Suc (length s). \<not> prefix needle (drop i (c # s))) \<longleftrightarrow>
      \<not> prefix needle (c # s) \<and> (\<forall>i\<le>length s. \<not> prefix needle (drop i s))"
    by (metis Suc_le_mono drop0 drop_Suc_Cons not0_implies_Suc zero_le)
  then show ?case using Cons by simp
qed auto

text \<open>Decimal text of a number, \<^verbatim>\<open>str(n)\<close>.\<close>

fun string_of_nat :: "nat \<Rightarrow> string" where
  "string_of_nat n =
     (if n < 10 then [char_of (48 + n)]
      else string_of_nat (n div 10) @ [char_of (48 + n mod 10)])"

declare string_of_nat.simps [simp del]

definition string_of_int :: "int \<Rightarrow> string" where
  "string_of_int i = (if i < 0 then CHR ''-'' # string_of_nat (nat (- i)) else string_of_nat (nat i))"

text \<open>\<^verbatim>\<open>str.isspace\<close> on code points below 256, and \<^verbatim>\<open>strip\<close>.\<close>

definition is_space :: "char \<Rightarrow> bool" where
  "is_space c = (let n = (of_char c :: nat) in
     (9 \<le> n \<and> n \<le> 13) \<or> (28 \<le> n \<and> n \<le> 32) \<or> n = 133 \<or> n = 160)"

definition lstrip :: "string \<Rightarrow> string" where
  "lstrip s = dropWhile is_space s"

definition strip :: "string \<Rightarrow> string" where
  "strip s = rev (dropWhile is_space (rev (lstrip s)))"

definition words_of :: "string \<Rightarrow> string list" where
  "words_of s = filter (\<lambda>w. w \<noteq> []) (split_by is_space s)"

definition rstrip_char :: "char \<Rightarrow> string \<Rightarrow> string" where
  \<comment> \<open>\<^verbatim>\<open>s.rstrip(c)\<close> for one character\<close>
  "rstrip_char c s = rev (dropWhile (\<lambda>x. x = c) (rev s))"

definition is_digit :: "char \<Rightarrow> bool" where
  "is_digit c = (let n = (of_char c :: nat) in 48 \<le> n \<and> n \<le> 57)"

definition digit_value :: "char \<Rightarrow> nat" where
  "digit_value c = of_char c - 48"

text \<open>
  \<^verbatim>\<open>int(text)\<close>: surrounding white space, one sign, digits with single underscores between
  them. \<open>None\<close> is the \<^verbatim>\<open>ValueError\<close>.
\<close>

fun digits_value :: "nat \<Rightarrow> string \<Rightarrow> nat option" where
  "digits_value acc [] = Some acc"
| "digits_value acc [c] = (if is_digit c then Some (10 * acc + digit_value c) else None)"
| "digits_value acc (c # d # cs) =
     (if is_digit c then digits_value (10 * acc + digit_value c) (if d = CHR ''_'' then cs else d # cs)
      else None)"

text \<open>A trailing underscore is refused: an underscore must be followed by a digit.\<close>

definition unsigned_int :: "string \<Rightarrow> nat option" where
  "unsigned_int s = (if s = [] \<or> last s = CHR ''_'' then None else digits_value 0 s)"

definition py_int :: "string \<Rightarrow> int option" where
  "py_int text = (case strip text of
       [] \<Rightarrow> None
     | c # cs \<Rightarrow>
         if c = CHR ''-'' then map_option (\<lambda>n. - int n) (unsigned_int cs)
         else if c = CHR ''+'' then map_option int (unsigned_int cs)
         else map_option int (unsigned_int (c # cs)))"

text \<open>
  \<^verbatim>\<open>repr\<close> of a string of code points below 256: the quote that needs no escape, and escapes
  for the backslash, the quote, line ends, tabs and the unprintable characters.
\<close>

definition hex_digit :: "nat \<Rightarrow> char" where
  "hex_digit n = (if n < 10 then char_of (48 + n) else char_of (87 + n))"

definition repr_char :: "char \<Rightarrow> char \<Rightarrow> string" where
  "repr_char q c = (let n = (of_char c :: nat) in
     if c = q \<or> n = 92 then [char_of (92::nat), c]
     else if n = 9 then [char_of (92::nat), CHR ''t'']
     else if n = 10 then [char_of (92::nat), CHR ''n'']
     else if n = 13 then [char_of (92::nat), CHR ''r'']
     else if n < 32 \<or> (127 \<le> n \<and> n \<le> 160) \<or> n = 173
       then [char_of (92::nat), CHR ''x'', hex_digit (n div 16), hex_digit (n mod 16)]
     else [c])"

definition py_repr :: "string \<Rightarrow> string" where
  "py_repr s = (let sq = char_of (39::nat); dq = char_of (34::nat);
                    q = (if sq \<in> set s \<and> dq \<notin> set s then dq else sq)
                in q # concat (map (repr_char q) s) @ [q])"

section \<open>Dictionaries\<close>

definition dget :: "dict \<Rightarrow> string \<Rightarrow> json" where
  \<comment> \<open>\<^verbatim>\<open>d.get(k)\<close>\<close>
  "dget d k = (case map_of d k of None \<Rightarrow> JNull | Some v \<Rightarrow> v)"

definition ditem :: "dict \<Rightarrow> string \<Rightarrow> json res" where
  \<comment> \<open>\<^verbatim>\<open>d[k]\<close>\<close>
  "ditem d k = (case map_of d k of None \<Rightarrow> Inl (KeyError k) | Some v \<Rightarrow> Inr v)"

definition dhas :: "dict \<Rightarrow> string \<Rightarrow> bool" where
  \<comment> \<open>\<^verbatim>\<open>k in d\<close>\<close>
  "dhas d k = (map_of d k \<noteq> None)"

abbreviation dput :: "string \<Rightarrow> json \<Rightarrow> dict \<Rightarrow> dict" where
  \<comment> \<open>\<^verbatim>\<open>d[k] = v\<close>\<close>
  "dput \<equiv> AList.update"

lemma map_of_dput [simp, dict_simps]: "map_of (dput k v d) = (map_of d)(k \<mapsto> v)"
  by (rule update_conv')

lemma set_update: "set (AList.update k v xs) \<subseteq> insert (k, v) (set xs)"
  by (induction xs) auto

lemma dget_dput [simp, dict_simps]: "dget (dput k v d) k' = (if k' = k then v else dget d k')"
  by (simp add: dget_def)

lemma dget_Cons [dict_simps]: "dget ((k, v) # d) k' = (if k' = k then v else dget d k')"
  by (simp add: dget_def)

lemma dget_Nil [dict_simps]: "dget [] k = JNull"
  by (simp add: dget_def)

lemma ditem_Inr: "ditem d k = Inr v \<longleftrightarrow> map_of d k = Some v"
  by (auto simp: ditem_def split: option.splits)

lemma dget_Some: "map_of d k = Some v \<Longrightarrow> dget d k = v"
  by (simp add: dget_def)

lemma dget_not_null: "dget d k \<noteq> JNull \<Longrightarrow> map_of d k = Some (dget d k)"
  by (auto simp: dget_def split: option.splits)

text \<open>\<^verbatim>\<open>isinstance\<close> tests and the Python truth value.\<close>

fun is_obj :: "json \<Rightarrow> bool" where
  "is_obj (JObj d) = True"
| "is_obj _ = False"

fun is_list :: "json \<Rightarrow> bool" where
  "is_list (JList xs) = True"
| "is_list _ = False"

fun is_str :: "json \<Rightarrow> bool" where
  "is_str (JStr s) = True"
| "is_str _ = False"

lemma is_obj_iff: "is_obj v \<longleftrightarrow> (\<exists>d. v = JObj d)"
  by (cases v) auto

lemma is_list_iff: "is_list v \<longleftrightarrow> (\<exists>xs. v = JList xs)"
  by (cases v) auto

lemma is_str_iff: "is_str v \<longleftrightarrow> (\<exists>s. v = JStr s)"
  by (cases v) auto

fun truthy :: "json \<Rightarrow> bool" where
  "truthy JNull = False"
| "truthy (JBool b) = b"
| "truthy (JInt i) = (i \<noteq> 0)"
| "truthy (JFloat f) = (f \<noteq> Fin 0)"
| "truthy (JStr s) = (s \<noteq> [])"
| "truthy (JList xs) = (xs \<noteq> [])"
| "truthy (JObj d) = (d \<noteq> [])"

text \<open>\<^verbatim>\<open>isinstance(v, str) and v\<close>: a non-empty string.\<close>

definition nonempty_str :: "json \<Rightarrow> bool" where
  "nonempty_str v = (is_str v \<and> truthy v)"

lemma nonempty_str_iff: "nonempty_str v \<longleftrightarrow> (\<exists>s. v = JStr s \<and> s \<noteq> [])"
  by (cases v) (auto simp: nonempty_str_def)

text \<open>
  Python's \<^verbatim>\<open>==\<close> on these values: \<^verbatim>\<open>True == 1 == 1.0\<close>, lists elementwise, dictionaries by
  their items in any order.
\<close>

fun num_value :: "json \<Rightarrow> pyfloat option" where
  "num_value (JBool b) = Some (Fin (if b then 1 else 0))"
| "num_value (JInt i) = Some (Fin (of_int i))"
| "num_value (JFloat f) = Some f"
| "num_value _ = None"

lemma size_assoc_snd [termination_simp]:
  "(k, v) \<in> set d \<Longrightarrow> size v < Suc (size_list (size_prod (\<lambda>_. 0) size) d)"
  by (induction d) auto

fun py_eq :: "json \<Rightarrow> json \<Rightarrow> bool" where
  "py_eq (JStr s) w = (w = JStr s)"
| "py_eq JNull w = (w = JNull)"
| "py_eq (JList xs) w = (case w of JList ys \<Rightarrow> list_all2 py_eq xs ys | _ \<Rightarrow> False)"
| "py_eq (JObj d) w =
     (case w of
        JObj e \<Rightarrow> length d = length e \<and>
          list_all (\<lambda>(k, v). case map_of e k of None \<Rightarrow> False | Some u \<Rightarrow> py_eq v u) d
      | _ \<Rightarrow> False)"
| "py_eq v w = (case (num_value v, num_value w) of
       (Some x, Some y) \<Rightarrow> x = y \<and> x \<noteq> NaN
     | _ \<Rightarrow> False)"

lemma py_eq_str [simp]: "py_eq v (JStr s) \<longleftrightarrow> v = JStr s"
  by (cases v) auto

lemma py_eq_int: "py_eq v (JInt n) \<longleftrightarrow> num_value v = Some (Fin (of_int n))"
  by (cases v) (auto split: if_splits)

end
