(* ===== verification/Template.thy ===== *)
theory Template
  imports Prelude
begin

text \<open>
  The placeholder language shared by \<^verbatim>\<open>plan_schema.py\<close> and \<^verbatim>\<open>plan_executor.py\<close>: the regular
  expression \<^verbatim>\<open>PLACEHOLDER_RE = \{([^{}]+)\}\<close>. \<open>pieces\<close> cuts a template into the characters
  outside every match and the names inside the matches, leftmost first, as \<^verbatim>\<open>finditer\<close> and
  \<^verbatim>\<open>sub\<close> both do.
\<close>

datatype piece = Lit char | Hole string

definition brace :: "char \<Rightarrow> bool" where
  "brace c = (c = CHR ''{'' \<or> c = CHR ''}'')"

text \<open>What follows an opening brace, when it is a match: the name and the rest.\<close>

definition match_name :: "string \<Rightarrow> (string \<times> string) option" where
  "match_name s =
     (let name = takeWhile (\<lambda>c. \<not> brace c) s
      in case dropWhile (\<lambda>c. \<not> brace c) s of
           [] \<Rightarrow> None
         | c # rest \<Rightarrow> if c = CHR ''}'' \<and> name \<noteq> [] then Some (name, rest) else None)"

lemma match_name_Some:
  "match_name s = Some (name, rest) \<longleftrightarrow>
     s = name @ CHR ''}'' # rest \<and> name \<noteq> [] \<and> (\<forall>c\<in>set name. \<not> brace c)"
proof
  assume m: "match_name s = Some (name, rest)"
  let ?p = "\<lambda>c. \<not> brace c"
  from m obtain c where d: "dropWhile ?p s = c # rest" "c = CHR ''}''"
    and n: "name = takeWhile ?p s" "name \<noteq> []"
    by (auto simp: match_name_def Let_def split: list.splits if_splits)
  have "s = name @ CHR ''}'' # rest"
    using takeWhile_dropWhile_id [of ?p s] d n by simp
  then show "s = name @ CHR ''}'' # rest \<and> name \<noteq> [] \<and> (\<forall>c\<in>set name. \<not> brace c)"
    using n by (auto dest: set_takeWhileD)
next
  assume a: "s = name @ CHR ''}'' # rest \<and> name \<noteq> [] \<and> (\<forall>c\<in>set name. \<not> brace c)"
  then show "match_name s = Some (name, rest)"
    by (auto simp: match_name_def brace_def takeWhile_append dropWhile_append)
qed

lemma match_name_length: "match_name s = Some (name, rest) \<Longrightarrow> length rest < length s"
  by (auto simp: match_name_Some)

function pieces :: "string \<Rightarrow> piece list" where
  "pieces [] = []"
| "pieces (c # cs) =
     (if c = CHR ''{'' then
        (case match_name cs of
           Some (name, rest) \<Rightarrow> Hole name # pieces rest
         | None \<Rightarrow> Lit c # pieces cs)
      else Lit c # pieces cs)"
  by pat_completeness auto
termination
  by (relation "measure length") (auto dest: match_name_length)

text \<open>\<^verbatim>\<open>[m.group(1) for m in PLACEHOLDER_RE.finditer(s)]\<close>.\<close>

fun holes :: "piece list \<Rightarrow> string list" where
  "holes [] = []"
| "holes (Lit c # ps) = holes ps"
| "holes (Hole n # ps) = n # holes ps"

definition placeholder_names :: "string \<Rightarrow> string list" where
  "placeholder_names s = holes (pieces s)"

text \<open>\<^verbatim>\<open>PLACEHOLDER_RE.sub(replace, s)\<close> for a replacement function that may raise.\<close>

fun fill :: "(string \<Rightarrow> string res) \<Rightarrow> piece list \<Rightarrow> string res" where
  "fill f [] = Inr []"
| "fill f (Lit c # ps) = bindE (fill f ps) (\<lambda>t. Inr (c # t))"
| "fill f (Hole n # ps) = bindE (f n) (\<lambda>v. bindE (fill f ps) (\<lambda>t. Inr (v @ t)))"

definition placeholder_sub :: "(string \<Rightarrow> string res) \<Rightarrow> string \<Rightarrow> string res" where
  "placeholder_sub f s = fill f (pieces s)"

section \<open>Lemmas\<close>

fun show_piece :: "piece \<Rightarrow> string" where
  "show_piece (Lit c) = [c]"
| "show_piece (Hole n) = CHR ''{'' # n @ [CHR ''}'']"

lemma show_pieces: "concat (map show_piece (pieces s)) = s"
  by (induction s rule: pieces.induct) (auto simp: match_name_Some split: option.splits)

lemma hole_brace_free: "n \<in> set (placeholder_names s) \<Longrightarrow> n \<noteq> [] \<and> (\<forall>c\<in>set n. \<not> brace c)"
  unfolding placeholder_names_def
proof (induction s rule: pieces.induct)
  case 1
  then show ?case by simp
next
  case (2 c cs)
  show ?case
  proof (cases "c = CHR ''{''")
    case True
    show ?thesis
    proof (cases "match_name cs")
      case None
      with True 2 show ?thesis by simp
    next
      case (Some m)
      then obtain name rest where m: "match_name cs = Some (name, rest)" by (cases m) auto
      with True 2(2) [OF True m refl] 2(4) show ?thesis by (auto simp: match_name_Some)
    qed
  next
    case False
    with 2 show ?thesis by simp
  qed
qed

lemma pieces_no_open: "CHR ''{'' \<notin> set s \<Longrightarrow> pieces s = map Lit s"
  by (induction s) auto

lemma pieces_append_Hole:
  assumes "name \<noteq> []" "\<forall>c\<in>set name. \<not> brace c"
  shows "pieces (CHR ''{'' # name @ CHR ''}'' # rest) = Hole name # pieces rest"
proof -
  have "match_name (name @ CHR ''}'' # rest) = Some (name, rest)"
    using assms by (simp add: match_name_Some)
  then show ?thesis by simp
qed

lemma fill_total:
  "(\<forall>n\<in>set (holes ps). \<exists>v. f n = Inr v) \<Longrightarrow> \<exists>t. fill f ps = Inr t"
  by (induction ps rule: holes.induct) auto

lemma fill_Inr_holes: "fill f ps = Inr t \<Longrightarrow> n \<in> set (holes ps) \<Longrightarrow> \<exists>v. f n = Inr v"
  by (induction ps arbitrary: t rule: holes.induct) auto

lemma fill_Inl: "fill f ps = Inl e \<Longrightarrow> \<exists>n\<in>set (holes ps). f n = Inl e"
  by (induction ps rule: holes.induct) (auto simp: bindE_eq_Inl)

lemma sub_total_iff:
  "(\<exists>t. placeholder_sub f s = Inr t) \<longleftrightarrow> (\<forall>n\<in>set (placeholder_names s). \<exists>v. f n = Inr v)"
  using fill_total [of "pieces s" f] fill_Inr_holes [of f "pieces s"]
  by (auto simp: placeholder_sub_def placeholder_names_def)

lemma fill_cong_holes:
  "(\<And>n. n \<in> set (holes ps) \<Longrightarrow> f n = g n) \<Longrightarrow> fill f ps = fill g ps"
  by (induction ps rule: holes.induct) auto

text \<open>A text without an opening brace is its own expansion.\<close>

lemma sub_no_open: "CHR ''{'' \<notin> set s \<Longrightarrow> placeholder_sub f s = Inr s"
proof -
  have "fill f (map Lit t) = Inr t" for t
    by (induction t) auto
  then show "CHR ''{'' \<notin> set s \<Longrightarrow> placeholder_sub f s = Inr s"
    by (simp add: placeholder_sub_def pieces_no_open)
qed

text \<open>Replacing every placeholder by itself gives the template back.\<close>

lemma fill_show: "fill (\<lambda>n. Inr (show_piece (Hole n))) ps = Inr (concat (map show_piece ps))"
  by (induction ps rule: holes.induct) auto

lemma sub_identity: "placeholder_sub (\<lambda>n. Inr (show_piece (Hole n))) s = Inr s"
  by (simp only: placeholder_sub_def fill_show show_pieces)

end
