(* ===== verification/PlanSchema.thy ===== *)
theory PlanSchema
  imports Template
begin

text \<open>
  \<^verbatim>\<open>foundry/native/common/plan_schema.py\<close>: the schema of committed native build plans, the
  validator that interprets it, and the placeholder check. The Python recursion limit is the
  first argument of the validator: it is the number of nested calls the interpreter allows, and
  running out of it is Python's \<open>RecursionError\<close>. Error messages are a datatype with one
  constructor for each message the code formats.
\<close>

section \<open>The committed schema\<close>

definition SCHEMA_VERSION :: int where
  "SCHEMA_VERSION = 1"

definition PROFILES :: "string list" where
  "PROFILES = [''jax'', ''torch'']"

definition LINES :: "string list" where
  "LINES = [''cu129'', ''cu130'']"

definition SUPPORTED_PLACEHOLDERS :: "string list" where
  "SUPPORTED_PLACEHOLDERS =
     [''cuda_home'', ''jobs'', ''nested_build_py_args'', ''nested_disk_cache'', ''nested_distdir'',
      ''nested_repository_cache'', ''out'', ''pcfiledir'', ''prefix_map_flags'', ''rootfs_identity'',
      ''seed'', ''source_archive'', ''source_date_epoch'', ''src'', ''wheel'', ''work'']"

abbreviation jref :: "string \<Rightarrow> json" where
  "jref r \<equiv> JObj [(''$ref'', JStr r)]"

abbreviation jtype :: "string \<Rightarrow> json" where
  "jtype t \<equiv> JObj [(''type'', JStr t)]"

abbreviation jstrs :: "string list \<Rightarrow> json" where
  "jstrs xs \<equiv> JList (map JStr xs)"

abbreviation jarray :: "json \<Rightarrow> json" where
  "jarray item \<equiv> JObj [(''items'', item), (''type'', JStr ''array'')]"

abbreviation jarray1 :: "json \<Rightarrow> json" where
  "jarray1 item \<equiv> JObj [(''items'', item), (''minItems'', JInt 1), (''type'', JStr ''array'')]"

abbreviation jclosed :: "dict \<Rightarrow> string list \<Rightarrow> json" where
  "jclosed props required \<equiv> JObj
     [(''additionalProperties'', JBool False), (''properties'', JObj props),
      (''required'', jstrs required), (''type'', JStr ''object'')]"

abbreviation jmap_of :: "json \<Rightarrow> json" where
  "jmap_of item \<equiv> JObj [(''additionalProperties'', item), (''type'', JStr ''object'')]"

definition schema_v1_determinism :: json where
  "schema_v1_determinism = jclosed
     [(''prefix_map'', JObj
        [(''additionalProperties'', JObj [(''const'', JStr ''.'')]),
         (''propertyNames'', JObj [(''enum'', jstrs [''{work}'', ''{out}''])]),
         (''type'', JStr ''object'')]),
      (''seed'', jtype ''string''),
      (''source_date_epoch'', jtype ''integer'')]
     [''prefix_map'', ''seed'', ''source_date_epoch'']"

definition schema_v1_nested_bazel :: json where
  "schema_v1_nested_bazel = jclosed
     [(''archives'', jarray (jref ''#/$defs/nested_archive'')),
      (''build_py_args'', jarray1 (jtype ''string'')),
      (''distdir_manifest'', jref ''#/$defs/manifest''),
      (''repository_cache_manifest'', jref ''#/$defs/manifest'')]
     [''archives'', ''build_py_args'', ''distdir_manifest'', ''repository_cache_manifest'']"

definition schema_v1_toolchain :: json where
  "schema_v1_toolchain = jclosed
     [(''cc'', jtype ''string''),
      (''cuda'', jtype ''string''),
      (''cxx'', jtype ''string''),
      (''env'', JObj
        [(''additionalProperties'', jtype ''string''),
         (''properties'', JObj
           [(''CC'', jtype ''string''),
            (''CUDAFLAGS'', jtype ''string''),
            (''CXX'', jtype ''string''),
            (''CFLAGS'', jtype ''string''),
            (''CXXFLAGS'', jtype ''string''),
            (''NVCC_FLAGS'', jtype ''string'')]),
         (''required'', jstrs [''CC'', ''CXX'', ''CFLAGS'', ''CXXFLAGS'', ''CUDAFLAGS'', ''NVCC_FLAGS'']),
         (''type'', JStr ''object'')]),
      (''python'', jtype ''string''),
      (''rootfs_identity'', jclosed
         [(''label'', jtype ''string''), (''sha256'', jtype ''string'')] [''label'', ''sha256''])]
     [''cc'', ''cuda'', ''cxx'', ''env'', ''python'', ''rootfs_identity'']"

definition schema_v1_properties :: dict where
  "schema_v1_properties =
     [(''build'', jref ''#/$defs/phase''),
      (''configure'', jref ''#/$defs/phase''),
      (''deps'', jmap_of (jref ''#/$defs/dep'')),
      (''determinism'', schema_v1_determinism),
      (''gpu_archs'', jarray (jtype ''string'')),
      (''inputs'', jarray (jref ''#/$defs/input'')),
      (''install'', jref ''#/$defs/phase''),
      (''line'', JObj [(''enum'', jstrs LINES)]),
      (''live_checks'', jref ''#/$defs/live_checks''),
      (''nested_bazel'', schema_v1_nested_bazel),
      (''outputs'', jarray1 (jref ''#/$defs/output'')),
      (''package'', jclosed [(''name'', jtype ''string''), (''version'', jtype ''string'')]
         [''name'', ''version'']),
      (''profile'', JObj [(''enum'', jstrs PROFILES)]),
      (''schema'', JObj [(''const'', JInt SCHEMA_VERSION)]),
      (''sources'', jarray1 (jref ''#/$defs/source'')),
      (''toolchain'', schema_v1_toolchain)]"

definition schema_v1_required :: "string list" where
  "schema_v1_required =
     [''schema'', ''profile'', ''line'', ''package'', ''sources'', ''toolchain'', ''deps'',
      ''configure'', ''build'', ''install'', ''outputs'', ''inputs'', ''gpu_archs'',
      ''determinism'', ''live_checks'']"

definition schema_v1_defs :: dict where
  "schema_v1_defs =
     [(''live_check_command'', jclosed
         [(''argv'', jarray1 (jtype ''string'')), (''expect_stdout'', jtype ''string''),
          (''name'', jtype ''string'')]
         [''name'', ''argv'', ''expect_stdout'']),
      (''live_checks'', jclosed
         [(''commands'', jarray1 (jref ''#/$defs/live_check_command''))] [''commands'']),
      (''dep'', jclosed
         [(''key'', jtype ''string''), (''label'', jtype ''string''), (''manifest'', jtype ''string'')]
         [''label'', ''key'']),
      (''input'', jclosed
         [(''label'', jtype ''string''), (''path'', jtype ''string''), (''sha256'', jtype ''string'')]
         [''path'', ''sha256'']),
      (''manifest'', jclosed
         [(''label'', jtype ''string''), (''sha256'', jtype ''string'')] [''label'', ''sha256'']),
      (''nested_archive'', jclosed
         [(''name'', jtype ''string''), (''sha256'', jtype ''string''),
          (''urls'', jarray (jtype ''string''))]
         [''name'', ''sha256'', ''urls'']),
      (''output'', jclosed
         [(''kind'', JObj [(''enum'', jstrs [''prefix'', ''wheel''])]), (''path'', jtype ''string'')]
         [''kind'', ''path'']),
      (''patch'', jclosed
         [(''path'', jtype ''string''), (''sha256'', jtype ''string'')] [''path'', ''sha256'']),
      (''phase'', jclosed
         [(''argv'', jarray1 (jtype ''string'')), (''cwd'', jtype ''string''),
          (''env'', jmap_of (jtype ''string''))]
         [''cwd'', ''argv'', ''env'']),
      (''source'', jclosed
         [(''archive'', jtype ''string''), (''name'', jtype ''string''),
          (''patches'', jarray (jref ''#/$defs/patch'')), (''sha256'', jtype ''string''),
          (''strip_prefix'', jtype ''string''), (''urls'', jarray (jtype ''string''))]
         [''name'', ''archive'', ''patches'', ''sha256'', ''strip_prefix'', ''urls''])]"

definition schema_v1 :: dict where
  "schema_v1 =
     [(''$schema'', JStr ''https://json-schema.org/draft/2020-12/schema''),
      (''x-allowed-placeholders'', jstrs SUPPORTED_PLACEHOLDERS),
      (''additionalProperties'', JBool False),
      (''properties'', JObj schema_v1_properties),
      (''required'', jstrs schema_v1_required),
      (''type'', JStr ''object''),
      (''$defs'', JObj schema_v1_defs)]"

section \<open>The schema interpreter\<close>

datatype schema_error =
    MustBe string json
  | MustBeOneOf string json
  | MustBeType string json
  | MissingKey string json
  | UnsupportedField string string
  | TooFewItems string int
  | MissingDependencyPrefix string string
  | MissingSource string string
  | MissingSourceArchive string string
  | UnsupportedPlaceholder string string
  | SeedNotRecorded

text \<open>\<^verbatim>\<open>for x in v\<close> and \<^verbatim>\<open>v in container\<close> on an arbitrary value.\<close>

fun py_iter :: "json \<Rightarrow> json list res" where
  "py_iter (JList xs) = Inr xs"
| "py_iter (JStr s) = Inr (map (\<lambda>c. JStr [c]) s)"
| "py_iter (JObj d) = Inr (map (\<lambda>(k, _). JStr k) d)"
| "py_iter _ = Inl TypeError"

fun hashable :: "json \<Rightarrow> bool" where
  "hashable (JList _) = False"
| "hashable (JObj _) = False"
| "hashable _ = True"

fun py_in :: "json \<Rightarrow> json \<Rightarrow> bool res" where
  "py_in v (JList xs) = Inr (list_ex (py_eq v) xs)"
| "py_in v (JStr s) = (case v of JStr t \<Rightarrow> Inr (contains s t) | _ \<Rightarrow> Inl TypeError)"
| "py_in v (JObj d) =
     (if hashable v then Inr (case v of JStr k \<Rightarrow> dhas d k | _ \<Rightarrow> False) else Inl TypeError)"
| "py_in v _ = Inl TypeError"

fun walk_ref :: "string list \<Rightarrow> json \<Rightarrow> json res" where
  "walk_ref [] node = Inr node"
| "walk_ref (part # parts) node =
     (case node of JObj d \<Rightarrow> bindE (ditem d part) (walk_ref parts) | _ \<Rightarrow> Inl TypeError)"

definition resolve_ref :: "json \<Rightarrow> dict \<Rightarrow> dict res" where
  "resolve_ref ref doc =
     (case ref of
        JStr r \<Rightarrow>
          if \<not> startswith r ''#/'' then Inl (ValueError ''unsupported schema ref {!r}'' [ref])
          else bindE (walk_ref (split_on (CHR ''/'') (removeprefix r ''#/'')) (JObj doc))
            (\<lambda>node. case node of
                JObj d \<Rightarrow> Inr d
              | _ \<Rightarrow> Inl (ValueError ''schema ref {!r} does not resolve to an object'' [ref]))
      | _ \<Rightarrow> Inl AttributeError)"

definition type_matches :: "json \<Rightarrow> json \<Rightarrow> bool" where
  "type_matches value expected =
     (if expected = JStr ''object'' then is_obj value
      else if expected = JStr ''array'' then is_list value
      else if expected = JStr ''string'' then is_str value
      else if expected = JStr ''integer'' then (case value of JInt _ \<Rightarrow> True | _ \<Rightarrow> False)
      else if expected = JStr ''boolean'' then (case value of JBool _ \<Rightarrow> True | _ \<Rightarrow> False)
      else True)"

text \<open>
  What the validator raises when a schema node is not an object: the membership tests work on
  lists and strings, and the first subscript or \<^verbatim>\<open>.get\<close> then fails.
\<close>

fun bad_schema :: "json \<Rightarrow> pyexn" where
  "bad_schema (JList xs) =
     (if list_ex (\<lambda>k. JStr k \<in> set xs) [''$ref'', ''const'', ''enum''] then TypeError else AttributeError)"
| "bad_schema (JStr s) =
     (if list_ex (contains s) [''$ref'', ''const'', ''enum''] then TypeError else AttributeError)"
| "bad_schema _ = TypeError"

definition const_errors :: "dict \<Rightarrow> json \<Rightarrow> string \<Rightarrow> schema_error list" where
  "const_errors schema value path =
     (case map_of schema ''const'' of
        None \<Rightarrow> []
      | Some c \<Rightarrow> if py_eq value c then [] else [MustBe path c])"

definition enum_errors :: "dict \<Rightarrow> json \<Rightarrow> string \<Rightarrow> schema_error list res" where
  "enum_errors schema value path =
     (case map_of schema ''enum'' of
        None \<Rightarrow> Inr []
      | Some e \<Rightarrow> bindE (py_in value e) (\<lambda>b. Inr (if b then [] else [MustBeOneOf path e])))"

definition required_errors :: "dict \<Rightarrow> dict \<Rightarrow> string \<Rightarrow> schema_error list res" where
  "required_errors schema value path =
     bindE (py_iter (case map_of schema ''required'' of None \<Rightarrow> JList [] | Some r \<Rightarrow> r))
       (concatE (\<lambda>key.
          if \<not> hashable key then Inl TypeError
          else Inr (if (case key of JStr k \<Rightarrow> dhas value k | _ \<Rightarrow> False) then []
                    else [MissingKey path key])))"

type_synonym checker = "json \<Rightarrow> json \<Rightarrow> string \<Rightarrow> schema_error list res"

definition property_name_errors :: "checker \<Rightarrow> dict \<Rightarrow> dict \<Rightarrow> string \<Rightarrow> schema_error list res" where
  "property_name_errors rec schema value path =
     (case dget schema ''propertyNames'' of
        JObj names \<Rightarrow>
          concatE (\<lambda>(key, _). rec (JStr key) (JObj names) (path @ '' property name '' @ py_repr key)) value
      | _ \<Rightarrow> Inr [])"

definition property_errors :: "checker \<Rightarrow> dict \<Rightarrow> dict \<Rightarrow> string \<Rightarrow> schema_error list res" where
  "property_errors rec properties value path =
     concatE (\<lambda>(key, child).
       case map_of value key of
         None \<Rightarrow> Inr []
       | Some v \<Rightarrow> rec v child (path @ ''.'' @ key)) properties"

definition additional_errors :: "checker \<Rightarrow> json \<Rightarrow> dict \<Rightarrow> dict \<Rightarrow> string \<Rightarrow> schema_error list res" where
  "additional_errors rec additional properties value path =
     concatE (\<lambda>(key, v).
       if dhas properties key then Inr []
       else (case additional of
               JBool False \<Rightarrow> Inr [UnsupportedField path key]
             | JObj child \<Rightarrow> rec v (JObj child) (path @ ''.'' @ key)
             | _ \<Rightarrow> Inr [])) value"

definition object_errors :: "checker \<Rightarrow> dict \<Rightarrow> dict \<Rightarrow> string \<Rightarrow> schema_error list res" where
  "object_errors rec schema value path =
     bindE (required_errors schema value path) (\<lambda>e1.
     bindE (property_name_errors rec schema value path) (\<lambda>e2.
       case (case map_of schema ''properties'' of None \<Rightarrow> JObj [] | Some p \<Rightarrow> p) of
         JObj properties \<Rightarrow>
           bindE (property_errors rec properties value path) (\<lambda>e3.
           bindE (additional_errors rec
                    (case map_of schema ''additionalProperties'' of None \<Rightarrow> JBool True | Some a \<Rightarrow> a)
                    properties value path) (\<lambda>e4.
             Inr (e1 @ e2 @ e3 @ e4)))
       | _ \<Rightarrow> Inl AttributeError))"

definition min_items_errors :: "dict \<Rightarrow> json list \<Rightarrow> string \<Rightarrow> schema_error list" where
  "min_items_errors schema value path =
     (case dget schema ''minItems'' of
        JInt m \<Rightarrow> if int (length value) < m then [TooFewItems path m] else []
      | JBool b \<Rightarrow> if b \<and> value = [] then [TooFewItems path 1] else []
      | _ \<Rightarrow> [])"

definition array_errors :: "checker \<Rightarrow> dict \<Rightarrow> json list \<Rightarrow> string \<Rightarrow> schema_error list res" where
  "array_errors rec schema value path =
     bindE (case dget schema ''items'' of
              JObj item \<Rightarrow>
                concatE (\<lambda>(i, v). rec v (JObj item) (path @ ''['' @ string_of_nat i @ '']''))
                  (List.enumerate 0 value)
            | _ \<Rightarrow> Inr [])
       (\<lambda>es. Inr (min_items_errors schema value path @ es))"

definition validate_node :: "checker \<Rightarrow> dict \<Rightarrow> json \<Rightarrow> json \<Rightarrow> string \<Rightarrow> schema_error list res" where
  "validate_node rec doc value node path =
     (case node of
        JObj schema \<Rightarrow>
          (case map_of schema ''$ref'' of
             Some ref \<Rightarrow> bindE (resolve_ref ref doc) (\<lambda>target. rec value (JObj target) path)
           | None \<Rightarrow>
               bindE (enum_errors schema value path) (\<lambda>enum.
                 let errors = const_errors schema value path @ enum;
                     expected = dget schema ''type''
                 in if truthy expected \<and> \<not> type_matches value expected
                    then Inr (errors @ [MustBeType path expected])
                    else if expected = JStr ''object'' then
                      (case value of
                         JObj d \<Rightarrow> bindE (object_errors rec schema d path) (\<lambda>es. Inr (errors @ es))
                       | _ \<Rightarrow> Inl AssertionError)
                    else if expected = JStr ''array'' then
                      (case value of
                         JList xs \<Rightarrow> bindE (array_errors rec schema xs path) (\<lambda>es. Inr (errors @ es))
                       | _ \<Rightarrow> Inl AssertionError)
                    else Inr errors))
      | _ \<Rightarrow> Inl (bad_schema node))"

primrec validate_schema :: "nat \<Rightarrow> dict \<Rightarrow> checker" where
  "validate_schema 0 doc value node path = Inl RecursionError"
| "validate_schema (Suc depth) doc value node path =
     validate_node (validate_schema depth doc) doc value node path"

section \<open>Templated values and placeholders\<close>

text \<open>
  \<^verbatim>\<open>_templated_values\<close>: every string of the plan that the executor expands, with its field
  name. The loops iterate whatever the plan holds, so a field of the wrong type raises.
\<close>

definition indexed_field :: "string \<Rightarrow> nat \<Rightarrow> string \<Rightarrow> string" where
  "indexed_field pre i post = pre @ ''['' @ string_of_nat i @ '']'' @ post"

definition iter_field :: "dict \<Rightarrow> string \<Rightarrow> json list res" where
  \<comment> \<open>\<^verbatim>\<open>enumerate(d.get(key, []))\<close>\<close>
  "iter_field d key = (case map_of d key of None \<Rightarrow> Inr [] | Some v \<Rightarrow> py_iter v)"

definition object_strings :: "string \<Rightarrow> string \<Rightarrow> json list \<Rightarrow> (string \<times> string) list" where
  \<comment> \<open>one entry for each element that is an object with a string under \<open>key\<close>\<close>
  "object_strings pre key items =
     concat (map (\<lambda>(i, item).
       case item of
         JObj d \<Rightarrow> (case dget d key of
             JStr s \<Rightarrow> [(indexed_field pre i (''.'' @ key), s)]
           | _ \<Rightarrow> [])
       | _ \<Rightarrow> []) (List.enumerate 0 items))"

definition string_items :: "string \<Rightarrow> json list \<Rightarrow> (string \<times> string) list" where
  "string_items pre items =
     concat (map (\<lambda>(i, item).
       case item of JStr s \<Rightarrow> [(indexed_field pre i [], s)] | _ \<Rightarrow> []) (List.enumerate 0 items))"

definition phase_values :: "dict \<Rightarrow> string \<Rightarrow> (string \<times> string) list res" where
  "phase_values plan name =
     (case dget plan name of
        JObj phase \<Rightarrow>
          bindE (iter_field phase ''argv'') (\<lambda>argv. Inr (
            (case dget phase ''cwd'' of JStr s \<Rightarrow> [(''plan.'' @ name @ ''.cwd'', s)] | _ \<Rightarrow> [])
            @ string_items (''plan.'' @ name @ ''.argv'') argv
            @ (case dget phase ''env'' of
                 JObj env \<Rightarrow> concat (map (\<lambda>(k, v).
                   case v of JStr s \<Rightarrow> [(''plan.'' @ name @ ''.env['' @ k @ '']'', s)] | _ \<Rightarrow> []) env)
               | _ \<Rightarrow> [])))
      | _ \<Rightarrow> Inr [])"

definition PHASES :: "string list" where
  "PHASES = [''configure'', ''build'', ''install'']"

definition templated_values :: "dict \<Rightarrow> (string \<times> string) list res" where
  "templated_values plan =
     bindE (iter_field plan ''sources'') (\<lambda>sources.
     bindE (iter_field plan ''inputs'') (\<lambda>inputs.
     bindE (concatE (phase_values plan) PHASES) (\<lambda>phases.
     bindE (iter_field plan ''outputs'') (\<lambda>outputs.
     bindE (case dget plan ''nested_bazel'' of
              JObj nested \<Rightarrow>
                bindE (iter_field nested ''build_py_args'')
                  (\<lambda>args. Inr (string_items ''plan.nested_bazel.build_py_args'' args))
            | _ \<Rightarrow> Inr []) (\<lambda>nested.
       Inr (object_strings ''plan.sources'' ''archive'' sources
            @ object_strings ''plan.inputs'' ''path'' inputs
            @ phases
            @ object_strings ''plan.outputs'' ''path'' outputs
            @ nested))))))"

definition dep_names :: "dict \<Rightarrow> string list" where
  "dep_names plan = (case dget plan ''deps'' of JObj deps \<Rightarrow> map fst deps | _ \<Rightarrow> [])"

definition source_names :: "dict \<Rightarrow> string list" where
  "source_names plan =
     (case dget plan ''sources'' of
        JList sources \<Rightarrow> concat (map (\<lambda>s. case s of
            JObj d \<Rightarrow> (case dget d ''name'' of JStr n \<Rightarrow> [n] | _ \<Rightarrow> [])
          | _ \<Rightarrow> []) sources)
      | _ \<Rightarrow> [])"

definition allowed_placeholders :: "dict \<Rightarrow> json list res" where
  \<comment> \<open>\<^verbatim>\<open>set(schema.get("x-allowed-placeholders", []))\<close>\<close>
  "allowed_placeholders schema =
     bindE (iter_field schema ''x-allowed-placeholders'') (\<lambda>xs.
       if list_all hashable xs then Inr xs else Inl TypeError)"

definition placeholder_error ::
    "json list \<Rightarrow> string list \<Rightarrow> string list \<Rightarrow> string \<Rightarrow> string \<Rightarrow> schema_error list" where
  "placeholder_error allowed deps sources field name =
     (if startswith name ''prefix:'' then
        (let dep = removeprefix name ''prefix:''
         in if dep \<in> set deps then [] else [MissingDependencyPrefix field dep])
      else if startswith name ''src:'' then
        (let source = removeprefix name ''src:''
         in if source \<in> set sources then [] else [MissingSource field source])
      else if startswith name ''source_archive:'' then
        (let source = removeprefix name ''source_archive:''
         in if source \<in> set sources then [] else [MissingSourceArchive field source])
      else if JStr name \<in> set allowed then []
      else [UnsupportedPlaceholder field name])"

definition validate_placeholders :: "dict \<Rightarrow> dict \<Rightarrow> schema_error list res" where
  "validate_placeholders plan schema =
     bindE (allowed_placeholders schema) (\<lambda>allowed.
     bindE (templated_values plan) (\<lambda>values.
       Inr (concat (map (\<lambda>(field, value).
         concat (map (placeholder_error allowed (dep_names plan) (source_names plan) field)
                   (placeholder_names value))) values))))"

definition seed_errors :: "dict \<Rightarrow> schema_error list" where
  "seed_errors plan =
     (case (case dget plan ''determinism'' of JObj d \<Rightarrow> dget d ''seed'' | _ \<Rightarrow> JNull) of
        JStr seed \<Rightarrow> if startswith seed ''sha256:'' then [] else [SeedNotRecorded]
      | _ \<Rightarrow> [SeedNotRecorded])"

definition validate_plan :: "nat \<Rightarrow> dict \<Rightarrow> dict \<Rightarrow> schema_error list res" where
  "validate_plan depth plan schema =
     bindE (validate_schema depth schema (JObj plan) (JObj schema) ''plan'') (\<lambda>e1.
     bindE (validate_placeholders plan schema) (\<lambda>e2.
       Inr (e1 @ e2 @ seed_errors plan)))"

end
