(* ===== verification/SchemaSpec.thy ===== *)
theory SchemaSpec
  imports PlanSchema
begin

text \<open>
  What the schema validator of \<^verbatim>\<open>plan_schema.py\<close> promises. \<open>conforms\<close> is the depth-free meaning of
  the schema language the validator interprets; \<open>schema_ok\<close> is a static check of a schema
  under which the validator is total. The main results: the validator accepts exactly the
  conforming values, and the committed schema passes the static check, so validating any value
  at all against it terminates without an exception within nine nested calls.
\<close>

section \<open>The meaning of a schema\<close>

definition schema_required :: "dict \<Rightarrow> string list" where
  "schema_required s =
     (case dget s ''required'' of
        JList ks \<Rightarrow> concat (map (\<lambda>k. case k of JStr n \<Rightarrow> [n] | _ \<Rightarrow> []) ks)
      | _ \<Rightarrow> [])"

definition schema_props :: "dict \<Rightarrow> dict" where
  "schema_props s = (case dget s ''properties'' of JObj ps \<Rightarrow> ps | _ \<Rightarrow> [])"

definition const_ok :: "dict \<Rightarrow> json \<Rightarrow> bool" where
  "const_ok s v = (case map_of s ''const'' of None \<Rightarrow> True | Some c \<Rightarrow> py_eq v c)"

definition enum_ok :: "dict \<Rightarrow> json \<Rightarrow> bool" where
  "enum_ok s v = (case map_of s ''enum'' of Some (JList es) \<Rightarrow> list_ex (py_eq v) es | _ \<Rightarrow> True)"

definition type_ok :: "dict \<Rightarrow> json \<Rightarrow> bool" where
  "type_ok s v = (truthy (dget s ''type'') \<longrightarrow> type_matches v (dget s ''type''))"

definition min_items_ok :: "dict \<Rightarrow> json list \<Rightarrow> bool" where
  "min_items_ok s xs =
     (case dget s ''minItems'' of
        JInt m \<Rightarrow> m \<le> int (length xs)
      | JBool b \<Rightarrow> b \<longrightarrow> xs \<noteq> []
      | _ \<Rightarrow> True)"

definition obj_node :: "dict \<Rightarrow> json \<Rightarrow> dict \<Rightarrow> bool" where
  "obj_node s v d = (dget s ''type'' = JStr ''object'' \<and> v = JObj d)"

definition arr_node :: "dict \<Rightarrow> json \<Rightarrow> json list \<Rightarrow> bool" where
  "arr_node s v xs = (dget s ''type'' = JStr ''array'' \<and> v = JList xs)"

inductive conforms :: "dict \<Rightarrow> dict \<Rightarrow> json \<Rightarrow> bool" for doc :: dict where
  conforms_ref:
    "map_of s ''$ref'' = Some r \<Longrightarrow> resolve_ref r doc = Inr t \<Longrightarrow> conforms doc t v \<Longrightarrow> conforms doc s v"
| conforms_node:
    "map_of s ''$ref'' = None \<Longrightarrow> const_ok s v \<Longrightarrow> enum_ok s v \<Longrightarrow> type_ok s v \<Longrightarrow>
     (\<forall>d. obj_node s v d \<longrightarrow> (\<forall>k\<in>set (schema_required s). dhas d k)) \<Longrightarrow>
     (\<forall>d names k w. obj_node s v d \<longrightarrow> dget s ''propertyNames'' = JObj names \<longrightarrow> (k, w) \<in> set d \<longrightarrow>
        conforms doc names (JStr k)) \<Longrightarrow>
     (\<forall>d k child w. obj_node s v d \<longrightarrow> (k, JObj child) \<in> set (schema_props s) \<longrightarrow>
        map_of d k = Some w \<longrightarrow> conforms doc child w) \<Longrightarrow>
     (\<forall>d k w. obj_node s v d \<longrightarrow> (k, w) \<in> set d \<longrightarrow> \<not> dhas (schema_props s) k \<longrightarrow>
        dget s ''additionalProperties'' \<noteq> JBool False) \<Longrightarrow>
     (\<forall>d k w child. obj_node s v d \<longrightarrow> (k, w) \<in> set d \<longrightarrow> \<not> dhas (schema_props s) k \<longrightarrow>
        dget s ''additionalProperties'' = JObj child \<longrightarrow> conforms doc child w) \<Longrightarrow>
     (\<forall>xs. arr_node s v xs \<longrightarrow> min_items_ok s xs) \<Longrightarrow>
     (\<forall>xs item x. arr_node s v xs \<longrightarrow> dget s ''items'' = JObj item \<longrightarrow> x \<in> set xs \<longrightarrow>
        conforms doc item x) \<Longrightarrow>
     conforms doc s v"

inductive_simps conforms_iff: "conforms doc s v"

section \<open>The static check\<close>

definition enum_wf :: "dict \<Rightarrow> bool" where
  "enum_wf s = (case map_of s ''enum'' of None \<Rightarrow> True | Some e \<Rightarrow> is_list e)"

definition required_wf :: "dict \<Rightarrow> bool" where
  "required_wf s = (case map_of s ''required'' of
      None \<Rightarrow> True | Some (JList ks) \<Rightarrow> list_all is_str ks | _ \<Rightarrow> False)"

definition props_wf :: "dict \<Rightarrow> bool" where
  "props_wf s = (case map_of s ''properties'' of None \<Rightarrow> True | Some p \<Rightarrow> is_obj p)"

definition schema_ok_step :: "(dict \<Rightarrow> bool) \<Rightarrow> dict \<Rightarrow> dict \<Rightarrow> bool" where
  "schema_ok_step ok doc s =
     (case map_of s ''$ref'' of
        Some r \<Rightarrow> (case resolve_ref r doc of Inr t \<Rightarrow> ok t | Inl _ \<Rightarrow> False)
      | None \<Rightarrow>
          enum_wf s \<and> required_wf s \<and> props_wf s
          \<and> (case dget s ''propertyNames'' of JObj names \<Rightarrow> ok names | _ \<Rightarrow> True)
          \<and> list_all (\<lambda>(_, c). case c of JObj child \<Rightarrow> ok child | _ \<Rightarrow> False) (schema_props s)
          \<and> (case dget s ''additionalProperties'' of JObj child \<Rightarrow> ok child | _ \<Rightarrow> True)
          \<and> (case dget s ''items'' of JObj item \<Rightarrow> ok item | _ \<Rightarrow> True))"

primrec schema_ok :: "nat \<Rightarrow> dict \<Rightarrow> dict \<Rightarrow> bool" where
  "schema_ok 0 doc s = False"
| "schema_ok (Suc n) doc s = schema_ok_step (schema_ok n doc) doc s"

lemma schema_v1_ok: "schema_ok 8 schema_v1 schema_v1"
  by code_simp

section \<open>The validator accepts exactly the conforming values\<close>

lemma schema_ok_step_mono:
  assumes "\<And>t. f t \<Longrightarrow> g t"
  shows "schema_ok_step f doc s \<Longrightarrow> schema_ok_step g doc s"
proof -
  have "(case c of JObj child \<Rightarrow> f child | _ \<Rightarrow> b) \<Longrightarrow> (case c of JObj child \<Rightarrow> g child | _ \<Rightarrow> b)" for b c
    using assms by (cases c) auto
  then show "schema_ok_step f doc s \<Longrightarrow> schema_ok_step g doc s"
    unfolding schema_ok_step_def using assms
    by (auto simp: list_all_iff split: option.splits sum.splits)
qed

lemma schema_ok_Suc: "schema_ok n doc s \<Longrightarrow> schema_ok (Suc n) doc s"
proof (induction n arbitrary: s)
  case (Suc n)
  from Suc.prems show ?case
    unfolding schema_ok.simps(2) [of "Suc n"] schema_ok.simps(2) [of n]
    by (rule schema_ok_step_mono [rotated]) (use Suc.IH in simp)
qed simp

lemma schema_ok_add: "schema_ok n doc s \<Longrightarrow> schema_ok (n + k) doc s"
  by (induction k) (simp_all add: schema_ok_Suc del: schema_ok.simps)

text \<open>\<open>checks r P\<close>: the check raised nothing and found no error exactly when \<open>P\<close>.\<close>

definition checks :: "'a list res \<Rightarrow> bool \<Rightarrow> bool" where
  "checks r P = (\<exists>es. r = Inr es \<and> (es = [] \<longleftrightarrow> P))"

lemma checks_Inr [simp]: "checks (Inr es) P \<longleftrightarrow> (es = [] \<longleftrightarrow> P)"
  by (simp add: checks_def)

lemma checks_append:
  "checks a P \<Longrightarrow> checks b Q \<Longrightarrow> checks (bindE a (\<lambda>x. bindE b (\<lambda>y. Inr (x @ y)))) (P \<and> Q)"
  by (auto simp: checks_def)

lemma checks_append4:
  "checks a P \<Longrightarrow> checks b Q \<Longrightarrow> checks c R \<Longrightarrow> checks d S \<Longrightarrow>
   checks (bindE a (\<lambda>w. bindE b (\<lambda>x. bindE c (\<lambda>y. bindE d (\<lambda>z. Inr (w @ x @ y @ z))))))
     (P \<and> Q \<and> R \<and> S)"
  by (auto simp: checks_def)

lemma checks_prefix: "checks b Q \<Longrightarrow> checks (bindE b (\<lambda>y. Inr (es @ y))) (es = [] \<and> Q)"
  by (auto simp: checks_def)

lemma checks_concatE:
  "(\<And>x. x \<in> set xs \<Longrightarrow> checks (f x) (P x)) \<Longrightarrow> checks (concatE f xs) (\<forall>x\<in>set xs. P x)"
proof (induction xs)
  case (Cons x xs)
  have "checks (bindE (f x) (\<lambda>a. bindE (concatE f xs) (\<lambda>b. Inr (a @ b)))) (P x \<and> (\<forall>x\<in>set xs. P x))"
    by (rule checks_append) (use Cons in auto)
  then show ?case by simp
qed simp

lemma checks_cong: "checks r P \<Longrightarrow> P = Q \<Longrightarrow> checks r Q"
  by simp

lemma const_checks: "const_errors s v path = [] \<longleftrightarrow> const_ok s v"
  by (simp add: const_errors_def const_ok_def split: option.splits)

lemma enum_checks: "enum_wf s \<Longrightarrow> checks (enum_errors s v path) (enum_ok s v)"
  by (auto simp: enum_errors_def enum_wf_def enum_ok_def is_list_iff split: option.splits)

lemma required_checks:
  assumes "required_wf s"
  shows "checks (required_errors s d path) (\<forall>k\<in>set (schema_required s). dhas d k)"
proof -
  obtain ks where ks: "(case map_of s ''required'' of None \<Rightarrow> JList [] | Some r \<Rightarrow> r) = JList ks"
    "\<forall>k\<in>set ks. is_str k" "schema_required s = concat (map (\<lambda>k. case k of JStr n \<Rightarrow> [n] | _ \<Rightarrow> []) ks)"
    using assms
    by (auto simp: required_wf_def schema_required_def dget_def list_all_iff
        split: option.splits json.splits)
  have "checks (concatE (\<lambda>key. if \<not> hashable key then Inl TypeError
          else Inr (if (case key of JStr k \<Rightarrow> dhas d k | _ \<Rightarrow> False) then [] else [MissingKey path key])) ks)
        (\<forall>k\<in>set ks. \<forall>n. k = JStr n \<longrightarrow> dhas d n)"
    by (rule checks_concatE) (use ks(2) in \<open>auto simp: is_str_iff\<close>)
  moreover have "(\<forall>k\<in>set ks. \<forall>n. k = JStr n \<longrightarrow> dhas d n) = (\<forall>k\<in>set (schema_required s). dhas d k)"
    unfolding ks(3) by (auto split: json.splits)
  ultimately show ?thesis by (simp add: required_errors_def ks(1))
qed

lemma min_items_checks: "min_items_errors s xs path = [] \<longleftrightarrow> min_items_ok s xs"
  by (auto simp: min_items_errors_def min_items_ok_def split: json.splits)

text \<open>
  \<open>rec\<close> checks every node below the current one; \<open>holds\<close> says what it checks. These lemmas
  take one node of the validator apart; \<open>validate_checks\<close> ties the knot by induction on the
  depth.
\<close>

lemma object_checks:
  assumes wf: "required_wf s" "props_wf s"
    and names: "\<And>t v p. dget s ''propertyNames'' = JObj t \<Longrightarrow> checks (rec v (JObj t) p) (holds t v)"
    and props: "\<And>k c v p. (k, c) \<in> set (schema_props s) \<Longrightarrow>
        \<exists>t. c = JObj t \<and> checks (rec v (JObj t) p) (holds t v)"
    and addl: "\<And>t v p. dget s ''additionalProperties'' = JObj t \<Longrightarrow> checks (rec v (JObj t) p) (holds t v)"
  shows "checks (object_errors rec s d path)
    ((\<forall>k\<in>set (schema_required s). dhas d k)
     \<and> (\<forall>t k w. dget s ''propertyNames'' = JObj t \<longrightarrow> (k, w) \<in> set d \<longrightarrow> holds t (JStr k))
     \<and> (\<forall>k t w. (k, JObj t) \<in> set (schema_props s) \<longrightarrow> map_of d k = Some w \<longrightarrow> holds t w)
     \<and> (\<forall>k w. (k, w) \<in> set d \<longrightarrow> \<not> dhas (schema_props s) k \<longrightarrow>
          dget s ''additionalProperties'' \<noteq> JBool False)
     \<and> (\<forall>k w t. (k, w) \<in> set d \<longrightarrow> \<not> dhas (schema_props s) k \<longrightarrow>
          dget s ''additionalProperties'' = JObj t \<longrightarrow> holds t w))"
    (is "checks _ (?R \<and> ?N \<and> ?P \<and> ?A1 \<and> ?A2)")
proof -
  have p: "(case map_of s ''properties'' of None \<Rightarrow> JObj [] | Some q \<Rightarrow> q) = JObj (schema_props s)"
    using wf(2) by (auto simp: props_wf_def schema_props_def dget_def is_obj_iff split: option.splits)
  have n: "checks (property_name_errors rec s d path) ?N"
  proof (cases "\<exists>t. dget s ''propertyNames'' = JObj t")
    case True
    then obtain t where t: "dget s ''propertyNames'' = JObj t" by blast
    have "checks (concatE (\<lambda>(key, _). rec (JStr key) (JObj t)
              (path @ '' property name '' @ py_repr key)) d)
            (\<forall>x\<in>set d. holds t (JStr (fst x)))"
      by (rule checks_concatE) (auto intro: names [OF t])
    then have "checks (property_name_errors rec s d path) (\<forall>x\<in>set d. holds t (JStr (fst x)))"
      by (simp add: property_name_errors_def t)
    then show ?thesis by (rule checks_cong) (use t in auto)
  next
    case False
    then show ?thesis by (auto simp: property_name_errors_def split: json.splits)
  qed
  have pr: "checks (property_errors rec (schema_props s) d path) ?P"
  proof -
    have "checks (property_errors rec (schema_props s) d path)
       (\<forall>x\<in>set (schema_props s). \<forall>t w. snd x = JObj t \<longrightarrow> map_of d (fst x) = Some w \<longrightarrow> holds t w)"
      unfolding property_errors_def
      by (rule checks_concatE) (use props in \<open>fastforce split: option.splits\<close>)
    then show ?thesis by (rule checks_cong) auto
  qed
  let ?a = "case map_of s ''additionalProperties'' of None \<Rightarrow> JBool True | Some a \<Rightarrow> a"
  have a_obj: "?a = JObj t \<longleftrightarrow> dget s ''additionalProperties'' = JObj t" for t
    by (auto simp: dget_def split: option.splits)
  have a_false: "?a = JBool False \<longleftrightarrow> dget s ''additionalProperties'' = JBool False"
    by (auto simp: dget_def split: option.splits)
  have ad: "checks (additional_errors rec ?a (schema_props s) d path) (?A1 \<and> ?A2)"
  proof -
    have "checks (additional_errors rec ?a (schema_props s) d path)
       (\<forall>x\<in>set d. \<not> dhas (schema_props s) (fst x) \<longrightarrow>
          ?a \<noteq> JBool False \<and> (\<forall>t. ?a = JObj t \<longrightarrow> holds t (snd x)))"
      unfolding additional_errors_def
    proof (rule checks_concatE)
      fix x assume "x \<in> set d"
      show "checks (case x of (key, v) \<Rightarrow>
              if dhas (schema_props s) key then Inr []
              else case ?a of JBool False \<Rightarrow> Inr [UnsupportedField path key]
                 | JObj child \<Rightarrow> rec v (JObj child) (path @ ''.'' @ key) | _ \<Rightarrow> Inr [])
            (\<not> dhas (schema_props s) (fst x) \<longrightarrow>
              ?a \<noteq> JBool False \<and> (\<forall>t. ?a = JObj t \<longrightarrow> holds t (snd x)))"
      proof (cases "\<exists>t. ?a = JObj t")
        case True
        then obtain t where t: "?a = JObj t" by blast
        then have "checks (rec v (JObj t) q) (holds t v)" for v q
          using addl a_obj by blast
        with t show ?thesis by (auto split: prod.splits)
      next
        case False
        then show ?thesis by (auto split: prod.splits json.splits bool.splits)
      qed
    qed
    then show ?thesis
      by (rule checks_cong) (use a_obj a_false in \<open>auto simp del: not_None_eq\<close>)
  qed
  show ?thesis
    unfolding object_errors_def p json.case
    by (rule checks_append4 [OF required_checks [OF wf(1)] n pr ad])
qed


lemma array_checks:
  assumes items: "\<And>t v p. dget s ''items'' = JObj t \<Longrightarrow> checks (rec v (JObj t) p) (holds t v)"
  shows "checks (array_errors rec s xs path)
    (min_items_ok s xs \<and> (\<forall>t x. dget s ''items'' = JObj t \<longrightarrow> x \<in> set xs \<longrightarrow> holds t x))"
proof (cases "\<exists>t. dget s ''items'' = JObj t")
  case True
  then obtain t where t: "dget s ''items'' = JObj t" by blast
  let ?f = "\<lambda>(i, v). rec v (JObj t) (path @ ''['' @ string_of_nat i @ '']'')"
  have "checks (concatE ?f (List.enumerate 0 xs)) (\<forall>x\<in>set (List.enumerate 0 xs). holds t (snd x))"
    by (rule checks_concatE) (auto intro: items [OF t])
  then have "checks (array_errors rec s xs path)
      (min_items_errors s xs path = [] \<and> (\<forall>x\<in>set (List.enumerate 0 xs). holds t (snd x)))"
    unfolding array_errors_def t json.case by (rule checks_prefix)
  moreover have "(\<forall>x\<in>set (List.enumerate 0 xs). holds t (snd x)) = (\<forall>x\<in>set xs. holds t x)"
    by (metis (no_types, lifting) image_iff list.set_map map_snd_enumerate)
  ultimately show ?thesis using t by (simp add: min_items_checks Ball_def)
next
  case False
  then have "array_errors rec s xs path = Inr (min_items_errors s xs path)"
    by (auto simp: array_errors_def split: json.splits)
  with False show ?thesis by (simp add: min_items_checks)
qed

lemma type_ok_cases:
  "truthy (dget s ''type'') \<and> \<not> type_matches v (dget s ''type'')
   \<or> (\<exists>d. type_ok s v \<and> dget s ''type'' = JStr ''object'' \<and> v = JObj d)
   \<or> (\<exists>xs. type_ok s v \<and> dget s ''type'' = JStr ''array'' \<and> v = JList xs)
   \<or> type_ok s v \<and> dget s ''type'' \<noteq> JStr ''object'' \<and> dget s ''type'' \<noteq> JStr ''array''"
proof (cases "type_ok s v")
  case True
  then show ?thesis
    by (cases "dget s ''type'' = JStr ''object'' \<or> dget s ''type'' = JStr ''array''")
      (auto simp: type_ok_def type_matches_def is_obj_iff is_list_iff)
qed (simp add: type_ok_def)

lemma schema_ok_stepD:
  assumes "schema_ok_step ok doc s" "map_of s ''$ref'' = None"
  shows "enum_wf s" "required_wf s" "props_wf s"
    and "dget s ''propertyNames'' = JObj t \<Longrightarrow> ok t"
    and "(k, c) \<in> set (schema_props s) \<Longrightarrow> \<exists>t. c = JObj t \<and> ok t"
    and "dget s ''additionalProperties'' = JObj t \<Longrightarrow> ok t"
    and "dget s ''items'' = JObj t \<Longrightarrow> ok t"
proof -
  have step: "enum_wf s \<and> required_wf s \<and> props_wf s
      \<and> (case dget s ''propertyNames'' of JObj names \<Rightarrow> ok names | _ \<Rightarrow> True)
      \<and> list_all (\<lambda>(_, c). case c of JObj child \<Rightarrow> ok child | _ \<Rightarrow> False) (schema_props s)
      \<and> (case dget s ''additionalProperties'' of JObj child \<Rightarrow> ok child | _ \<Rightarrow> True)
      \<and> (case dget s ''items'' of JObj item \<Rightarrow> ok item | _ \<Rightarrow> True)"
    using assms unfolding schema_ok_step_def by simp
  show "enum_wf s" "required_wf s" "props_wf s"
    and "dget s ''propertyNames'' = JObj t \<Longrightarrow> ok t"
    and "dget s ''additionalProperties'' = JObj t \<Longrightarrow> ok t"
    and "dget s ''items'' = JObj t \<Longrightarrow> ok t"
    using step by simp_all
  show "(k, c) \<in> set (schema_props s) \<Longrightarrow> \<exists>t. c = JObj t \<and> ok t"
    using step unfolding list_all_iff by (cases c) fastforce+
qed

lemma validate_checks:
  "schema_ok n doc s \<Longrightarrow> checks (validate_schema n doc v (JObj s) path) (conforms doc s v)"
proof (induction n arbitrary: s v path)
  case 0
  then show ?case by simp
next
  case (Suc n)
  let ?rec = "validate_schema n doc"
  show ?case
  proof (cases "map_of s ''$ref''")
    case (Some r)
    with Suc.prems obtain t where t: "resolve_ref r doc = Inr t" "schema_ok n doc t"
      by (auto simp: schema_ok_step_def split: sum.splits)
    have "conforms doc s v \<longleftrightarrow> conforms doc t v"
      using Some t(1) by (subst conforms_iff) auto
    with Some t Suc.IH [OF t(2)] show ?thesis by (simp add: validate_node_def)
  next
    case None
    have ok: "enum_wf s" "required_wf s" "props_wf s"
      and names: "\<And>t. dget s ''propertyNames'' = JObj t \<Longrightarrow> schema_ok n doc t"
      and props: "\<And>k c. (k, c) \<in> set (schema_props s) \<Longrightarrow> \<exists>t. c = JObj t \<and> schema_ok n doc t"
      and addl: "\<And>t. dget s ''additionalProperties'' = JObj t \<Longrightarrow> schema_ok n doc t"
      and items: "\<And>t. dget s ''items'' = JObj t \<Longrightarrow> schema_ok n doc t"
      using schema_ok_stepD [OF Suc.prems [unfolded schema_ok.simps] None] by blast+
    from enum_checks [OF ok(1), of v path] obtain en where
      en: "enum_errors s v path = Inr en" "en = [] \<longleftrightarrow> enum_ok s v" by (auto simp: checks_def)
    let ?e = "const_errors s v path @ en"
    let ?t = "dget s ''type''"
    have pre: "?e = [] \<longleftrightarrow> const_ok s v \<and> enum_ok s v" using en(2) by (simp add: const_checks)
    consider (bad) "truthy ?t \<and> \<not> type_matches v ?t"
      | (obj) d where "type_ok s v" "?t = JStr ''object''" "v = JObj d"
      | (arr) xs where "type_ok s v" "?t = JStr ''array''" "v = JList xs"
      | (scalar) "type_ok s v" "?t \<noteq> JStr ''object''" "?t \<noteq> JStr ''array''"
      using type_ok_cases [of s v] by blast
    then show ?thesis
    proof cases
      case bad
      then have "\<not> conforms doc s v" using None by (subst conforms_iff) (auto simp: type_ok_def)
      with bad None en show ?thesis by (simp add: validate_node_def Let_def)
    next
      case (obj d)
      have rec: "checks (object_errors ?rec s d path) (
          (\<forall>k\<in>set (schema_required s). dhas d k)
     \<and> (\<forall>t k w. dget s ''propertyNames'' = JObj t \<longrightarrow> (k, w) \<in> set d \<longrightarrow> conforms doc t (JStr k))
     \<and> (\<forall>k t w. (k, JObj t) \<in> set (schema_props s) \<longrightarrow> map_of d k = Some w \<longrightarrow> conforms doc t w)
     \<and> (\<forall>k w. (k, w) \<in> set d \<longrightarrow> \<not> dhas (schema_props s) k \<longrightarrow>
          dget s ''additionalProperties'' \<noteq> JBool False)
     \<and> (\<forall>k w t. (k, w) \<in> set d \<longrightarrow> \<not> dhas (schema_props s) k \<longrightarrow>
          dget s ''additionalProperties'' = JObj t \<longrightarrow> conforms doc t w))"
        (is "checks _ ?Q")
        by (rule object_checks [OF ok(2,3)]) (use names props addl Suc.IH in blast)+
      have "validate_schema (Suc n) doc v (JObj s) path
          = bindE (object_errors ?rec s d path) (\<lambda>es. Inr (?e @ es))"
        using obj None en by (simp add: validate_node_def Let_def type_ok_def)
      moreover have "conforms doc s v \<longleftrightarrow> ?e = [] \<and> ?Q"
        using obj None unfolding pre by (subst conforms_iff) (auto simp: obj_node_def arr_node_def Ball_def)
      ultimately show ?thesis using checks_prefix [OF rec, of ?e] by simp
    next
      case (arr xs)
      have rec: "checks (array_errors ?rec s xs path) (min_items_ok s xs
          \<and> (\<forall>t x. dget s ''items'' = JObj t \<longrightarrow> x \<in> set xs \<longrightarrow> conforms doc t x))"
        (is "checks _ ?Q")
        by (rule array_checks) (use items Suc.IH in blast)
      have "validate_schema (Suc n) doc v (JObj s) path
          = bindE (array_errors ?rec s xs path) (\<lambda>es. Inr (?e @ es))"
        using arr None en by (simp add: validate_node_def Let_def type_ok_def)
      moreover have "conforms doc s v \<longleftrightarrow> ?e = [] \<and> ?Q"
        using arr None unfolding pre by (subst conforms_iff) (auto simp: obj_node_def arr_node_def Ball_def)
      ultimately show ?thesis using checks_prefix [OF rec, of ?e] by simp
    next
      case scalar
      then have "validate_schema (Suc n) doc v (JObj s) path = Inr ?e"
        using None en by (simp add: validate_node_def Let_def type_ok_def)
      then show ?thesis
        using scalar None pre by (subst conforms_iff) (auto simp: obj_node_def arr_node_def)
    qed
  qed
qed
text \<open>
  C2. The validator decides the committed schema. For every JSON value whatsoever, validating
  it against the committed schema returns a list of errors without raising, within eight
  nested calls, and the list is empty exactly when the value conforms to the schema.
\<close>

theorem validator_decides:
  "\<exists>es. validate_schema (8 + k) schema_v1 v (JObj schema_v1) path = Inr es
      \<and> (es = [] \<longleftrightarrow> conforms schema_v1 schema_v1 v)"
  using validate_checks [OF schema_ok_add [OF schema_v1_ok], of k v path] by (simp add: checks_def)

lemma committed_validator:
  "8 \<le> n \<Longrightarrow> \<exists>es. validate_schema n schema_v1 v (JObj schema_v1) path = Inr es
      \<and> (es = [] \<longleftrightarrow> conforms schema_v1 schema_v1 v)"
  using validate_checks [OF schema_ok_add [OF schema_v1_ok], of "n - 8" v path] by (simp add: checks_def)

text \<open>
  The plan check as a whole raises on plans that its schema part has already found wrong:
  the placeholder scan iterates over whatever the fields hold, so a plan whose \<^verbatim>\<open>sources\<close> is
  null ends in a \<open>TypeError\<close> instead of the list of errors.
\<close>

theorem null_sources_raise:
  "validate_plan 20 [(''sources'', JNull)] schema_v1 = Inl TypeError
   \<and> (\<exists>e es. validate_schema 20 schema_v1 (JObj [(''sources'', JNull)]) (JObj schema_v1) ''plan'' = Inr (e # es))"
proof -
  have "validate_plan 20 [(''sources'', JNull)] schema_v1 = Inl TypeError" by code_simp
  moreover have "(case validate_schema 20 schema_v1 (JObj [(''sources'', JNull)]) (JObj schema_v1) ''plan'' of
      Inr es \<Rightarrow> es \<noteq> [] | Inl _ \<Rightarrow> False)" by code_simp
  ultimately show ?thesis by (auto split: sum.splits simp: neq_Nil_conv)
qed

end
