(* ===== verification/PosixPath.thy ===== *)
theory PosixPath
  imports Prelude "HOL-Library.Product_Lexorder"
begin

text \<open>
  The part of \<^verbatim>\<open>pathlib.PurePosixPath\<close> and \<^verbatim>\<open>posixpath\<close> that the modelled modules use. A path is
  its anchor (none, \<^verbatim>\<open>/\<close>, or the \<^verbatim>\<open>//\<close> that POSIX leaves to the implementation) and its names;
  \<open>parse\<close> drops empty and \<^verbatim>\<open>.\<close> components and keeps \<^verbatim>\<open>..\<close>, as pathlib does. Paths are ordered
  as pathlib orders them: by the components of their text.
\<close>

section \<open>Parsing and printing\<close>

datatype anchor = DoubleSlash | Slash | Rel

datatype ppath = PPath (anchor_of: anchor) (names: "string list")

definition splitroot :: "string \<Rightarrow> anchor" where
  "splitroot s =
     (if \<not> prefix ''/'' s then Rel
      else if prefix ''//'' s \<and> \<not> prefix ''///'' s then DoubleSlash
      else Slash)"

definition real_name :: "string \<Rightarrow> bool" where
  "real_name n = (n \<noteq> [] \<and> n \<noteq> ''.'')"

definition parse :: "string \<Rightarrow> ppath" where
  "parse s = PPath (splitroot s) (filter real_name (split_on (CHR ''/'') s))"

fun anchor_text :: "anchor \<Rightarrow> string" where
  "anchor_text DoubleSlash = ''//''"
| "anchor_text Slash = ''/''"
| "anchor_text Rel = []"

definition path_text :: "ppath \<Rightarrow> string" where
  \<comment> \<open>\<^verbatim>\<open>str(p)\<close>\<close>
  "path_text p =
     (if anchor_of p = Rel \<and> names p = [] then ''.''
      else anchor_text (anchor_of p) @ join ''/'' (names p))"

definition absolute :: "ppath \<Rightarrow> bool" where
  "absolute p = (anchor_of p \<noteq> Rel)"

definition joinpath :: "ppath \<Rightarrow> ppath \<Rightarrow> ppath" where
  \<comment> \<open>\<^verbatim>\<open>p / q\<close>\<close>
  "joinpath p q = (if absolute q then q else PPath (anchor_of p) (names p @ names q))"

abbreviation slash :: "ppath \<Rightarrow> string \<Rightarrow> ppath" where
  "slash p s \<equiv> joinpath p (parse s)"

definition parent :: "ppath \<Rightarrow> ppath" where
  "parent p = PPath (anchor_of p) (butlast (names p))"

definition parts :: "ppath \<Rightarrow> string list" where
  "parts p = (if absolute p then anchor_text (anchor_of p) # names p else names p)"

definition final_name :: "ppath \<Rightarrow> string" where
  \<comment> \<open>\<^verbatim>\<open>p.name\<close>\<close>
  "final_name p = (if names p = [] then [] else last (names p))"

definition relative_to :: "ppath \<Rightarrow> ppath \<Rightarrow> bool" where
  \<comment> \<open>\<^verbatim>\<open>p.is_relative_to(q)\<close>\<close>
  "relative_to p q = (anchor_of p = anchor_of q \<and> prefix (names q) (names p))"

definition suffix_of :: "ppath \<Rightarrow> string" where
  \<comment> \<open>\<^verbatim>\<open>p.suffix\<close>: from the last dot, unless it is the first or the last character\<close>
  "suffix_of p =
     (let n = final_name p; ext = takeWhile (\<lambda>c. c \<noteq> CHR ''.'') (rev n)
      in if ext \<noteq> [] \<and> length ext + 1 < length n then CHR ''.'' # rev ext else [])"

text \<open>The paths that \<open>parse\<close> produces.\<close>

definition wf_path :: "ppath \<Rightarrow> bool" where
  "wf_path p = list_all (\<lambda>n. real_name n \<and> CHR ''/'' \<notin> set n) (names p)"

lemma ppath_eqI: "anchor_of p = anchor_of q \<Longrightarrow> names p = names q \<Longrightarrow> p = q"
  by (cases p; cases q) simp

lemma wf_parse [simp, intro]: "wf_path (parse s)"
  by (auto simp: wf_path_def parse_def list_all_iff dest: split_on_no_sep)

lemma wf_joinpath: "wf_path p \<Longrightarrow> wf_path q \<Longrightarrow> wf_path (joinpath p q)"
  by (simp add: wf_path_def joinpath_def)

lemma wf_parent: "wf_path p \<Longrightarrow> wf_path (parent p)"
  by (auto simp: wf_path_def parent_def list_all_iff dest: in_set_butlastD)

lemma joinpath_assoc: "joinpath (joinpath p q) r = joinpath p (joinpath q r)"
  by (simp add: joinpath_def absolute_def)

lemma anchor_joinpath [simp]: "\<not> absolute q \<Longrightarrow> anchor_of (joinpath p q) = anchor_of p"
  by (simp add: joinpath_def)

lemma names_joinpath [simp]: "\<not> absolute q \<Longrightarrow> names (joinpath p q) = names p @ names q"
  by (simp add: joinpath_def)

lemma relative_to_joinpath [simp]: "\<not> absolute q \<Longrightarrow> relative_to (joinpath p q) p"
  by (simp add: relative_to_def)

lemma relative_to_refl [simp]: "relative_to p p"
  by (simp add: relative_to_def)

lemma relative_to_trans: "relative_to p q \<Longrightarrow> relative_to q r \<Longrightarrow> relative_to p r"
  by (auto simp: relative_to_def intro: prefix_order.trans)

lemma relative_to_iff: "relative_to p q \<longleftrightarrow> (\<exists>r. \<not> absolute r \<and> p = joinpath q r)"
proof
  assume "relative_to p q"
  then obtain ns where "anchor_of p = anchor_of q" "names p = names q @ ns"
    by (auto simp: relative_to_def prefix_def)
  then have "p = joinpath q (PPath Rel ns)" by (intro ppath_eqI) (simp_all add: absolute_def)
  then show "\<exists>r. \<not> absolute r \<and> p = joinpath q r"
    by (metis absolute_def ppath.sel(1))
qed auto

lemma real_split: "CHR ''/'' \<notin> set n \<Longrightarrow> real_name n \<Longrightarrow>
  filter real_name (split_on (CHR ''/'') n) = [n]"
  by (simp add: split_on_single)

lemma parse_name: "CHR ''/'' \<notin> set n \<Longrightarrow> real_name n \<Longrightarrow> parse n = PPath Rel [n]"
proof -
  assume n: "CHR ''/'' \<notin> set n" "real_name n"
  then have "\<not> prefix ''/'' n" by (cases n) auto
  then show ?thesis using real_split [OF n] by (simp add: parse_def splitroot_def)
qed

lemma filter_real_join:
  "list_all (\<lambda>n. real_name n \<and> CHR ''/'' \<notin> set n) ns \<Longrightarrow>
   filter real_name (split_on (CHR ''/'') (join ''/'' ns)) = ns"
proof (cases "ns = []")
  case True
  then show ?thesis by (simp add: real_name_def)
next
  case False
  assume a: "list_all (\<lambda>n. real_name n \<and> CHR ''/'' \<notin> set n) ns"
  then have "split_on (CHR ''/'') (join ''/'' ns) = ns"
    using False by (intro split_on_join) (auto simp: list_all_iff)
  with a show ?thesis by (auto simp: list_all_iff)
qed

lemma hd_join: "ns \<noteq> [] \<Longrightarrow> hd ns \<noteq> [] \<Longrightarrow> \<exists>t. join sep ns = hd (hd ns) # t"
  by (cases ns; cases "hd ns"; cases "tl ns") auto

text \<open>Printing a parsed path and parsing it again gives it back.\<close>

lemma parse_path_text: "wf_path p \<Longrightarrow> parse (path_text p) = p"
proof (cases p)
  case (PPath a ns)
  assume wf: "wf_path p"
  then have ns: "list_all (\<lambda>n. real_name n \<and> CHR ''/'' \<notin> set n) ns"
    using PPath by (simp add: wf_path_def)
  show ?thesis
  proof (cases "ns = []")
    case True
    then show ?thesis using PPath
      by (cases a) (simp_all add: path_text_def parse_def splitroot_def real_name_def)
  next
    case False
    then have h: "hd ns \<noteq> []" "CHR ''/'' \<notin> set (hd ns)"
      using ns by (auto simp: list_all_iff real_name_def)
    obtain t where t: "join ''/'' ns = hd (hd ns) # t" using hd_join [OF False h(1)] by blast
    have c: "hd (hd ns) \<noteq> CHR ''/''" using h by (metis list.set_sel(1))
    have f: "filter real_name (split_on (CHR ''/'') (hd (hd ns) # t)) = ns"
      using filter_real_join [OF ns] t by simp
    show ?thesis using PPath False t c f
      by (cases a) (simp_all add: path_text_def parse_def splitroot_def real_name_def)
  qed
qed

section \<open>Order\<close>

fun anchor_rank :: "anchor \<Rightarrow> nat" where
  "anchor_rank DoubleSlash = 0"
| "anchor_rank Slash = 1"
| "anchor_rank Rel = 2"

lemma anchor_rank_inj: "anchor_rank a = anchor_rank b \<longleftrightarrow> a = b"
  by (cases a; cases b) simp_all

definition order_key :: "ppath \<Rightarrow> nat \<times> string list \<times> string list" where
  \<comment> \<open>the components of the text; the last entry tells the empty path from a name \<^verbatim>\<open>.\<close>\<close>
  "order_key p = (anchor_rank (anchor_of p),
     (if anchor_of p = Rel \<and> names p = [] then [''.''] else names p), names p)"

lemma order_key_inj: "order_key p = order_key q \<longleftrightarrow> p = q"
  by (cases p; cases q) (auto simp: order_key_def anchor_rank_inj split: if_splits)

instantiation ppath :: linorder
begin

definition less_eq_ppath :: "ppath \<Rightarrow> ppath \<Rightarrow> bool" where
  "less_eq_ppath p q = (order_key p \<le> order_key q)"

definition less_ppath :: "ppath \<Rightarrow> ppath \<Rightarrow> bool" where
  "less_ppath p q = (order_key p < order_key q)"

instance
  by standard
    (auto simp: less_eq_ppath_def less_ppath_def less_le_not_le order_key_inj [symmetric] intro: order_antisym)

end
section \<open>Normalisation\<close>

text \<open>\<^verbatim>\<open>posixpath.normpath\<close>; the names already kept are in reverse order.\<close>

fun norm_step :: "bool \<Rightarrow> string list \<Rightarrow> string \<Rightarrow> string list" where
  "norm_step rooted kept n =
     (if \<not> real_name n then kept
      else if n \<noteq> ''..'' \<or> (\<not> rooted \<and> kept = []) \<or> (kept \<noteq> [] \<and> hd kept = ''..'') then n # kept
      else tl kept)"

definition norm_names :: "bool \<Rightarrow> string list \<Rightarrow> string list" where
  "norm_names rooted ns = rev (foldl (norm_step rooted) [] ns)"

definition normalised :: "string \<Rightarrow> ppath" where
  "normalised s = PPath (splitroot s)
     (norm_names (splitroot s \<noteq> Rel) (split_on (CHR ''/'') s))"

definition normpath :: "string \<Rightarrow> string" where
  "normpath s = path_text (normalised s)"

text \<open>
  What is kept: with a root, no \<^verbatim>\<open>..\<close> at all; without one, only leading ones.
\<close>

definition normal_names :: "bool \<Rightarrow> string list \<Rightarrow> bool" where
  "normal_names rooted ns =
     (list_all real_name ns \<and> (\<exists>k. ''..'' \<notin> set (drop k ns) \<and> (rooted \<longrightarrow> k = 0)
        \<and> list_all (\<lambda>n. n = ''..'') (take k ns)))"

definition kept_ok :: "bool \<Rightarrow> string list \<Rightarrow> bool" where
  "kept_ok rooted kept =
     (\<exists>ups downs. kept = downs @ ups \<and> list_all real_name kept \<and> list_all (\<lambda>n. n = ''..'') ups
        \<and> ''..'' \<notin> set downs \<and> (rooted \<longrightarrow> ups = []))"

lemma norm_step_ok: "kept_ok rooted kept \<Longrightarrow> kept_ok rooted (norm_step rooted kept n)"
proof -
  assume "kept_ok rooted kept"
  then obtain ups downs where k: "kept = downs @ ups" "list_all real_name kept"
    "list_all (\<lambda>n. n = ''..'') ups" "''..'' \<notin> set downs" "rooted \<longrightarrow> ups = []"
    unfolding kept_ok_def by blast
  show ?thesis
  proof (cases downs)
    case Nil
    then show ?thesis
    proof (cases "real_name n")
      case True
      show ?thesis
      proof (cases "n = ''..''")
        case dots: True
        show ?thesis
        proof (cases "rooted")
          case True
          then show ?thesis using k Nil dots \<open>real_name n\<close> by (auto simp: kept_ok_def)
        next
          case False
          have "norm_step rooted kept n = n # ups"
            using k Nil dots False \<open>real_name n\<close> by (cases ups) auto
          then show ?thesis unfolding kept_ok_def
            using k Nil dots \<open>real_name n\<close> False
            by (intro exI [of _ "n # ups"] exI [of _ "[]"]) auto
        qed
      next
        case False
        then have "norm_step rooted kept n = n # ups" using k Nil True by simp
        then show ?thesis unfolding kept_ok_def
          using k Nil False True by (intro exI [of _ ups] exI [of _ "[n]"]) auto
      qed
    next
      case False
      then show ?thesis using \<open>kept_ok rooted kept\<close> by simp
    qed
  next
    case (Cons d ds)
    then have "norm_step rooted kept n
        = (if \<not> real_name n then kept else if n \<noteq> ''..'' then n # kept else ds @ ups)"
      using k by auto
    moreover have "kept_ok rooted (ds @ ups)" unfolding kept_ok_def
      using k Cons by (intro exI [of _ ups] exI [of _ ds]) auto
    moreover have "real_name n \<Longrightarrow> n \<noteq> ''..'' \<Longrightarrow> kept_ok rooted (n # kept)" unfolding kept_ok_def
      using k Cons by (intro exI [of _ ups] exI [of _ "n # downs"]) auto
    ultimately show ?thesis using \<open>kept_ok rooted kept\<close> by simp
  qed
qed

lemma norm_fold_ok: "kept_ok rooted kept \<Longrightarrow> kept_ok rooted (foldl (norm_step rooted) kept ns)"
  by (induction ns arbitrary: kept) (simp_all add: norm_step_ok del: norm_step.simps)

lemma norm_names_ok:
  obtains ups downs where "norm_names rooted ns = ups @ downs" "list_all (\<lambda>n. n = ''..'') ups"
    "''..'' \<notin> set downs" "rooted \<longrightarrow> ups = []" "list_all real_name (ups @ downs)"
proof -
  have "kept_ok rooted (foldl (norm_step rooted) [] ns)"
    by (rule norm_fold_ok) (simp add: kept_ok_def)
  then obtain ups downs where k: "foldl (norm_step rooted) [] ns = downs @ ups"
    "list_all real_name (downs @ ups)" "list_all (\<lambda>n. n = ''..'') ups" "''..'' \<notin> set downs"
    "rooted \<longrightarrow> ups = []"
    unfolding kept_ok_def by metis
  show thesis
    by (rule that [of "rev ups" "rev downs"]) (use k in \<open>auto simp: norm_names_def list_all_iff\<close>)
qed

text \<open>An absolute path is normalised to one without \<^verbatim>\<open>..\<close>.\<close>

lemma norm_names_rooted: "''..'' \<notin> set (norm_names True ns)"
  by (rule norm_names_ok [of True ns]) auto

text \<open>Normalising twice is normalising once.\<close>

lemma norm_fold_ups:
  "list_all (\<lambda>n. n = ''..'') kept \<Longrightarrow> list_all (\<lambda>n. n = ''..'') us \<Longrightarrow>
   foldl (norm_step False) kept us = rev us @ kept"
proof (induction us arbitrary: kept)
  case (Cons u us)
  then have "norm_step False kept u = u # kept" by (cases kept) (auto simp: real_name_def)
  with Cons show ?case by simp
qed simp

lemma norm_fold_downs:
  "list_all real_name ds \<Longrightarrow> ''..'' \<notin> set ds \<Longrightarrow> foldl (norm_step r) kept ds = rev ds @ kept"
  by (induction ds arbitrary: kept) auto

lemma norm_names_normal:
  assumes "list_all (\<lambda>n. n = ''..'') us" "''..'' \<notin> set ds" "r \<longrightarrow> us = []" "list_all real_name ds"
  shows "norm_names r (us @ ds) = us @ ds"
  using assms norm_fold_ups [of "[]" us] by (cases r) (auto simp: norm_names_def norm_fold_downs)

lemma norm_names_idem: "norm_names r (norm_names r ns) = norm_names r ns"
proof -
  obtain us ds where k: "norm_names r ns = us @ ds" "list_all (\<lambda>n. n = ''..'') us"
    "''..'' \<notin> set ds" "r \<longrightarrow> us = []" "list_all real_name (us @ ds)" by (rule norm_names_ok)
  have "norm_names r (us @ ds) = us @ ds"
    by (rule norm_names_normal) (use k in \<open>auto simp: list_all_iff\<close>)
  then show ?thesis by (simp add: k(1))
qed

lemma norm_step_subset: "set (norm_step r kept n) \<subseteq> insert n (set kept)"
  by (cases kept) auto

lemma norm_fold_subset: "set (foldl (norm_step r) kept ns) \<subseteq> set kept \<union> set ns"
  using norm_step_subset by (induction ns arbitrary: kept) (fastforce simp del: norm_step.simps)+

lemma wf_normalised: "wf_path (normalised s)"
proof -
  have "set (norm_names r ns) \<subseteq> set ns" for r ns
    using norm_fold_subset [of r "[]" ns] by (simp add: norm_names_def)
  moreover have "list_all real_name (norm_names r ns)" for r ns
    by (rule norm_names_ok [of r ns]) simp
  ultimately show ?thesis
    unfolding wf_path_def normalised_def list_all_iff ppath.sel by (meson split_on_no_sep subset_iff)
qed

lemma parse_normpath: "parse (normpath s) = normalised s"
  by (simp add: normpath_def parse_path_text wf_normalised)

lemma splitroot_normpath: "splitroot (normpath s) = splitroot s"
  using arg_cong [OF parse_normpath, of anchor_of] by (simp add: parse_def normalised_def)

end
