(* ===== verification/Effects.thy ===== *)
theory Effects
  imports Prelude
begin

text \<open>
  Operations that touch the machine: an action takes the world and returns a result, or the
  exception it raised, together with the world it leaves. The world survives an exception, so
  that what a program has already done when it fails is part of the model.
\<close>

section \<open>Actions\<close>

type_synonym ('w, 'a) act = "'w \<Rightarrow> 'a res \<times> 'w"

definition pureA :: "'a res \<Rightarrow> ('w, 'a) act" where
  "pureA r w = (r, w)"

definition bindA :: "('w, 'a) act \<Rightarrow> ('a \<Rightarrow> ('w, 'b) act) \<Rightarrow> ('w, 'b) act" where
  "bindA m f w = (case m w of (Inl e, w') \<Rightarrow> (Inl e, w') | (Inr x, w') \<Rightarrow> f x w')"

definition getA :: "('w \<Rightarrow> ('w, 'a) act) \<Rightarrow> ('w, 'a) act" where
  "getA f w = f w w"

fun forA :: "('a \<Rightarrow> ('w, unit) act) \<Rightarrow> 'a list \<Rightarrow> ('w, unit) act" where
  "forA f [] = pureA (Inr ())"
| "forA f (x # xs) = bindA (f x) (\<lambda>_. forA f xs)"

fun mapA :: "('a \<Rightarrow> ('w, 'b) act) \<Rightarrow> 'a list \<Rightarrow> ('w, 'b list) act" where
  "mapA f [] = pureA (Inr [])"
| "mapA f (x # xs) = bindA (f x) (\<lambda>y. bindA (mapA f xs) (\<lambda>ys. pureA (Inr (y # ys))))"

abbreviation fail :: "string \<Rightarrow> json list \<Rightarrow> 'a res" where
  "fail template args \<equiv> Inl (SystemExit template args)"

section \<open>Sequences\<close>

lemma bindA_pureA [simp]: "bindA (pureA (Inr x)) f w = f x w"
  by (simp add: bindA_def pureA_def)

text \<open>What the loops leave behind.\<close>

lemma mapA_Inr: "mapA f xs w = (Inr ys, w') \<Longrightarrow> list_all2 (\<lambda>x y. \<exists>a b. f x a = (Inr y, b)) xs ys"
proof (induction xs arbitrary: ys w)
  case Nil
  then show ?case by (simp add: pureA_def)
next
  case (Cons x xs)
  from Cons.prems obtain y w1 zs where "f x w = (Inr y, w1)" "mapA f xs w1 = (Inr zs, w')" "ys = y # zs"
    by (auto simp: bindA_def pureA_def split: prod.splits sum.splits)
  with Cons.IH show ?case by auto
qed

lemma bindA_Inr:
  "bindA m f w = (Inr y, w') \<longleftrightarrow> (\<exists>x w1. m w = (Inr x, w1) \<and> f x w1 = (Inr y, w'))"
  by (auto simp: bindA_def split: prod.splits sum.splits)

lemma pureA_Inr [simp]: "pureA r w = (Inr y, w') \<longleftrightarrow> r = Inr y \<and> w' = w"
  by (auto simp: pureA_def)

lemma getA_apply [simp]: "getA f w = f w w"
  by (simp add: getA_def)

lemma forA_keeps:
  assumes "\<And>x w r w'. x \<in> set xs \<Longrightarrow> f x w = (r, w') \<Longrightarrow> P w \<Longrightarrow> P w'"
    and "forA f xs w = (r, w')" "P w"
  shows "P w'"
  using assms
proof (induction xs arbitrary: w)
  case (Cons x xs)
  obtain r1 w1 where x: "f x w = (r1, w1)" by (cases "f x w")
  have "P w1" using Cons.prems(1) [of x w r1 w1] x Cons.prems(3) by simp
  moreover have "P w'" if "forA f xs w1 = (r, w')"
    by (rule Cons.IH [OF _ that \<open>P w1\<close>]) (use Cons.prems(1) in auto)
  ultimately show ?case using Cons.prems(2) x by (auto simp: bindA_def split: sum.splits)
qed (simp add: pureA_def)

section \<open>Properties that an action keeps\<close>

text \<open>\<open>keeps P m\<close>: the action leaves \<open>P\<close> as it is, also when it raises.\<close>

definition keeps :: "('w \<Rightarrow> bool) \<Rightarrow> ('w, 'a) act \<Rightarrow> bool" where
  "keeps P m = (\<forall>w. P w \<longrightarrow> P (snd (m w)))"

named_theorems keeps_intros \<open>actions that leave a property of the world\<close>

lemma keeps_iff: "keeps P m \<longleftrightarrow> (\<forall>w r w'. m w = (r, w') \<longrightarrow> P w \<longrightarrow> P w')"
  by (simp add: keeps_def) (metis prod.collapse snd_conv)

lemma keeps_pure [keeps_intros]: "keeps P (pureA r)"
  by (simp add: keeps_def pureA_def)

lemma keeps_bind [keeps_intros]: "keeps P m \<Longrightarrow> (\<And>x. keeps P (f x)) \<Longrightarrow> keeps P (bindA m f)"
  by (fastforce simp: keeps_def bindA_def split: prod.splits sum.splits)

lemma keeps_get [keeps_intros]: "(\<And>w. keeps P (f w)) \<Longrightarrow> keeps P (getA f)"
  by (simp add: keeps_def getA_def)

lemma keeps_if [keeps_intros]:
  "(b \<Longrightarrow> keeps P m) \<Longrightarrow> (\<not> b \<Longrightarrow> keeps P n) \<Longrightarrow> keeps P (if b then m else n)"
  by simp

lemma keeps_for [keeps_intros]: "(\<And>x. x \<in> set xs \<Longrightarrow> keeps P (f x)) \<Longrightarrow> keeps P (forA f xs)"
  by (induction xs) (auto intro: keeps_pure keeps_bind)

end
