(* ===== verification/PlanExecutor.thy ===== *)
theory PlanExecutor
  imports SchemaSpec PosixPath Effects
begin

text \<open>
  \<^verbatim>\<open>foundry/native/common/plan_executor.py\<close>: the executor of native build plans. An operation
  that touches the machine is a state transformer over the world \<open>'w\<close> that also keeps the
  world when it raises, so that the \<^verbatim>\<open>finally\<close> of \<^verbatim>\<open>execute_plan\<close> is part of the model. The
  calls into the operating system and into the archive, hash and JSON libraries are the fields
  of the record \<open>os\<close>; everything else is translated.
\<close>

section \<open>The machine\<close>

record tar_member =
  member_name :: string
  member_issym :: bool
  member_islnk :: bool
  member_linkname :: string

record zip_member =
  zip_name :: string
  zip_is_dir :: bool
  zip_data :: string

type_synonym 'a world_res = "'a res"

record 'w os =
  os_environ :: "string \<Rightarrow> string option"
  os_cpu_count :: nat
    \<comment> \<open>\<^verbatim>\<open>len(os.sched_getaffinity(0))\<close>\<close>
  os_cwd :: ppath
  str_of :: "json \<Rightarrow> string"
    \<comment> \<open>\<^verbatim>\<open>str\<close> of a JSON value that is not a string\<close>
  json_loads :: "string \<Rightarrow> json option"
  os_sha256 :: "'w \<Rightarrow> ppath \<Rightarrow> string res"
  os_read_text :: "'w \<Rightarrow> ppath \<Rightarrow> string res"
  os_read_bytes :: "'w \<Rightarrow> ppath \<Rightarrow> string res"
  os_exists :: "'w \<Rightarrow> ppath \<Rightarrow> bool"
  os_is_file :: "'w \<Rightarrow> ppath \<Rightarrow> bool"
  os_is_dir :: "'w \<Rightarrow> ppath \<Rightarrow> bool"
  os_is_symlink :: "'w \<Rightarrow> ppath \<Rightarrow> bool"
  os_readlink :: "'w \<Rightarrow> ppath \<Rightarrow> string res"
  os_resolve :: "'w \<Rightarrow> ppath \<Rightarrow> ppath"
  os_iterdir :: "'w \<Rightarrow> ppath \<Rightarrow> ppath list res"
  os_rglob :: "'w \<Rightarrow> ppath \<Rightarrow> ppath list"
    \<comment> \<open>everything below a directory\<close>
  os_zip :: "'w \<Rightarrow> ppath \<Rightarrow> zip_member list option"
    \<comment> \<open>the members, when \<^verbatim>\<open>zipfile.is_zipfile\<close>\<close>
  os_tar :: "'w \<Rightarrow> ppath \<Rightarrow> tar_member list res"
    \<comment> \<open>a \<^verbatim>\<open>tarfile.TarError\<close> is \<open>LibError ''TarError''\<close>\<close>
  os_mkdir :: "ppath \<Rightarrow> bool \<Rightarrow> bool \<Rightarrow> 'w \<Rightarrow> unit res \<times> 'w"
    \<comment> \<open>\<^verbatim>\<open>mkdir(parents, exist_ok)\<close>\<close>
  os_rmtree :: "ppath \<Rightarrow> 'w \<Rightarrow> unit res \<times> 'w"
  os_write_text :: "ppath \<Rightarrow> string \<Rightarrow> 'w \<Rightarrow> unit res \<times> 'w"
  os_extractall :: "ppath \<Rightarrow> ppath \<Rightarrow> 'w \<Rightarrow> unit res \<times> 'w"
  os_run :: "string list \<Rightarrow> ppath option \<Rightarrow> (string \<times> string) list option \<Rightarrow> 'w
      \<Rightarrow> (int \<times> string) res \<times> 'w"
    \<comment> \<open>\<^verbatim>\<open>subprocess.run\<close>: argv, cwd, env; the return code and the standard output\<close>

section \<open>Checks of plan fields\<close>

definition read_json :: "'w os \<Rightarrow> 'w \<Rightarrow> ppath \<Rightarrow> dict res" where
  "read_json os w path =
     bindE (os_read_text os w path) (\<lambda>content.
       case json_loads os content of
         None \<Rightarrow> fail ''{}: invalid JSON: {}'' [JStr (path_text path)]
       | Some (JObj d) \<Rightarrow> Inr d
       | Some _ \<Rightarrow> fail ''{}: expected a JSON object'' [JStr (path_text path)])"

definition require_mapping :: "json \<Rightarrow> string \<Rightarrow> dict res" where
  "require_mapping value name =
     (case value of JObj d \<Rightarrow> Inr d | _ \<Rightarrow> fail ''plan field {} must be an object'' [JStr name])"

definition require_string :: "json \<Rightarrow> string \<Rightarrow> string res" where
  "require_string value name =
     (case value of
        JStr s \<Rightarrow> if s \<noteq> [] then Inr s else fail ''plan field {} must be a non-empty string'' [JStr name]
      | _ \<Rightarrow> fail ''plan field {} must be a non-empty string'' [JStr name])"

definition require_list :: "json \<Rightarrow> string \<Rightarrow> json list res" where
  "require_list value name =
     (case value of JList xs \<Rightarrow> Inr xs | _ \<Rightarrow> fail ''plan field {} must be a list'' [JStr name])"

text \<open>\<^verbatim>\<open>v.get(k)\<close> and \<^verbatim>\<open>v[k]\<close> on a value that may not be a dictionary.\<close>

definition py_get :: "json \<Rightarrow> string \<Rightarrow> json res" where
  "py_get v k = (case v of JObj d \<Rightarrow> Inr (dget d k) | _ \<Rightarrow> Inl AttributeError)"

definition py_item :: "json \<Rightarrow> string \<Rightarrow> json res" where
  "py_item v k = (case v of JObj d \<Rightarrow> ditem d k | _ \<Rightarrow> Inl TypeError)"

definition mapping_field :: "dict \<Rightarrow> string \<Rightarrow> string \<Rightarrow> dict res" where
  \<comment> \<open>\<^verbatim>\<open>require_mapping(d[key], name)\<close>\<close>
  "mapping_field d key name = bindE (ditem d key) (\<lambda>v. require_mapping v name)"

definition list_field :: "dict \<Rightarrow> string \<Rightarrow> string \<Rightarrow> json list res" where
  "list_field d key name = bindE (ditem d key) (\<lambda>v. require_list v name)"

definition string_field :: "dict \<Rightarrow> string \<Rightarrow> string \<Rightarrow> string res" where
  "string_field d key name = bindE (ditem d key) (\<lambda>v. require_string v name)"

definition toolchain_env_keys :: "string list" where
  "toolchain_env_keys = [''CC'', ''CXX'', ''CFLAGS'', ''CXXFLAGS'', ''CUDAFLAGS'', ''NVCC_FLAGS'']"

definition validate_package :: "dict \<Rightarrow> unit res" where
  "validate_package plan =
     bindE (mapping_field plan ''package'' ''package'') (\<lambda>package.
     bindE (require_string (dget package ''name'') ''package.name'') (\<lambda>_.
     bindE (require_string (dget package ''version'') ''package.version'') (\<lambda>_. Inr ())))"

definition validate_toolchain :: "dict \<Rightarrow> unit res" where
  "validate_toolchain plan =
     bindE (mapping_field plan ''toolchain'' ''toolchain'') (\<lambda>toolchain.
     bindE (mapE (\<lambda>k. require_string (dget toolchain k) (''toolchain.'' @ k))
              [''cc'', ''cxx'', ''cuda'', ''python'']) (\<lambda>_.
     bindE (require_mapping (dget toolchain ''env'') ''toolchain.env'') (\<lambda>env.
     bindE (mapE (\<lambda>key. if is_str (dget env key) then Inr ()
               else fail ''plan field toolchain.env.{} must be a string'' [JStr key])
              toolchain_env_keys) (\<lambda>_.
     bindE (require_mapping (dget toolchain ''rootfs_identity'') ''toolchain.rootfs_identity'') (\<lambda>identity.
     bindE (require_string (dget identity ''label'') ''toolchain.rootfs_identity.label'') (\<lambda>_.
     bindE (require_string (dget identity ''sha256'') ''toolchain.rootfs_identity.sha256'') (\<lambda>_. Inr ())))))))"

definition exec_source_names :: "dict \<Rightarrow> string list res" where
  "exec_source_names plan =
     bindE (list_field plan ''sources'' ''sources'')
       (mapE (\<lambda>source. bindE (py_get source ''name'') (\<lambda>n. require_string n ''source.name'')))"

definition output_kinds :: "dict \<Rightarrow> string list res" where
  "output_kinds plan =
     bindE (list_field plan ''outputs'' ''outputs'')
       (mapE (\<lambda>out. bindE (require_mapping out ''outputs[]'')
          (\<lambda>entry. require_string (dget entry ''kind'') ''outputs[].kind'')))"

definition all_nonempty :: "json list \<Rightarrow> bool" where
  "all_nonempty xs = list_all nonempty_str xs"

definition validate_archive :: "string list \<Rightarrow> json \<Rightarrow> string list res" where
  \<comment> \<open>one turn of the loop over \<^verbatim>\<open>nested_bazel.archives\<close>; the names seen so far\<close>
  "validate_archive seen archive =
     bindE (require_mapping archive ''nested_bazel.archives[]'') (\<lambda>a.
     bindE (require_string (dget a ''name'') ''nested_bazel.archives[].name'') (\<lambda>name.
     bindE (require_string (dget a ''sha256'') ''nested_bazel.archives[].sha256'') (\<lambda>_.
     bindE (require_list (dget a ''urls'') ''nested_bazel.archives[].urls'') (\<lambda>urls.
       if \<not> all_nonempty urls
       then fail ''plan nested_bazel.archives[].urls must be a non-empty string list'' []
       else if name \<in> set seen
       then fail ''plan nested_bazel.archives has duplicate archive name {!r}'' [JStr name]
       else Inr (name # seen)))))"

definition nested_hole :: string where
  "nested_hole = ''{nested_build_py_args}''"

definition json_contains :: "string \<Rightarrow> json \<Rightarrow> bool res" where
  \<comment> \<open>\<^verbatim>\<open>text in item\<close>\<close>
  "json_contains t item = py_in (JStr t) item"

definition validate_nested :: "dict \<Rightarrow> unit res" where
  "validate_nested plan =
     (case map_of plan ''nested_bazel'' of
        None \<Rightarrow> Inr ()
      | Some nested_value \<Rightarrow>
          bindE (require_mapping nested_value ''nested_bazel'') (\<lambda>nested.
          bindE (require_list (dget nested ''archives'') ''nested_bazel.archives'') (\<lambda>archives.
          if archives = [] then fail ''plan nested_bazel.archives must not be empty'' []
          else
          bindE (foldE validate_archive [] archives) (\<lambda>_.
          bindE (mapE (\<lambda>m.
               bindE (require_mapping (dget nested m) (''nested_bazel.'' @ m)) (\<lambda>manifest.
               bindE (require_string (dget manifest ''label'') (''nested_bazel.'' @ m @ ''.label'')) (\<lambda>_.
                 require_string (dget manifest ''sha256'') (''nested_bazel.'' @ m @ ''.sha256''))))
              [''distdir_manifest'', ''repository_cache_manifest'']) (\<lambda>_.
          bindE (require_list (dget nested ''build_py_args'') ''nested_bazel.build_py_args'') (\<lambda>args.
            if \<not> all_nonempty args
            then fail ''plan nested_bazel.build_py_args must be a non-empty string list'' []
            else bindE (mapE (json_contains nested_hole) args) (\<lambda>found.
              if True \<in> set found
              then fail ''plan nested_bazel.build_py_args must not reference {nested_build_py_args}'' []
              else Inr ())))))))"

text \<open>
  \<^verbatim>\<open>validate_plan\<close> of the executor. The errors of the schema check are joined into one message,
  which is kept here as the number of errors.
\<close>

definition exec_validate_plan :: "nat \<Rightarrow> dict \<Rightarrow> dict \<Rightarrow> unit res" where
  "exec_validate_plan depth plan schema =
     bindE (validate_plan depth plan schema) (\<lambda>errors.
     if errors \<noteq> [] then fail ''{}'' [JInt (int (length errors))]
     else
     bindE (validate_package plan) (\<lambda>_.
     bindE (validate_toolchain plan) (\<lambda>_.
     bindE (exec_source_names plan) (\<lambda>source_names.
     if \<not> distinct source_names then fail ''plan sources must have unique names'' []
     else
     bindE (output_kinds plan) (\<lambda>kinds.
     if \<not> (''prefix'' \<in> set kinds \<or> ''wheel'' \<in> set kinds)
     then fail ''plan outputs must include a prefix or wheel output'' []
     else validate_nested plan)))))"
section \<open>Archives\<close>

definition check_member :: "'w os \<Rightarrow> 'w \<Rightarrow> ppath \<Rightarrow> tar_member \<Rightarrow> unit res" where
  "check_member os w destination m =
     (if \<not> relative_to (os_resolve os w (slash destination (member_name m))) (os_resolve os w destination)
      then fail ''source archive member escapes extraction root: {}'' [JStr (member_name m)]
      else if \<not> (member_issym m \<or> member_islnk m) then Inr ()
      else
        let link = parse (member_linkname m);
            base = (if member_issym m then parent (parse (member_name m)) else parse []);
            resolved = normpath (path_text (joinpath base link))
        in if absolute link
           then fail ''source archive link escapes extraction root: {}'' [JStr (member_name m)]
           else if resolved = ''..'' \<or> startswith resolved ''../''
           then fail ''source archive link escapes extraction root: {}'' [JStr (member_name m)]
           else Inr ())"

definition catch_tar :: "ppath \<Rightarrow> 'a res \<Rightarrow> 'a res" where
  \<comment> \<open>\<^verbatim>\<open>except tarfile.TarError\<close>\<close>
  "catch_tar archive r =
     (if r = Inl (LibError ''TarError'')
      then fail ''failed to extract source archive {}: {}'' [JStr (path_text archive)] else r)"

definition safe_extract_archive :: "'w os \<Rightarrow> ppath \<Rightarrow> ppath \<Rightarrow> ('w, unit) act" where
  "safe_extract_archive os archive destination =
     bindA (os_mkdir os destination True False) (\<lambda>_.
     getA (\<lambda>w. case catch_tar archive (os_tar os w archive) of
         Inl e \<Rightarrow> pureA (Inl e)
       | Inr members \<Rightarrow>
           bindA (pureA (mapE (check_member os w destination) members)) (\<lambda>_ w'.
             case os_extractall os archive destination w' of (r, w'') \<Rightarrow> (catch_tar archive r, w''))))"

section \<open>Values of placeholders\<close>

definition prefix_map_flag_names :: "string list" where
  "prefix_map_flag_names = [''-ffile-prefix-map'', ''-fdebug-prefix-map'', ''-fmacro-prefix-map'']"

definition map_flags :: "string \<Rightarrow> ppath \<Rightarrow> ppath \<Rightarrow> string" where
  "map_flags lead work out =
     join '' '' (concat (map (\<lambda>dir. map (\<lambda>flag. lead @ flag @ ''='' @ path_text dir @ ''=.'')
       prefix_map_flag_names) [work, out]))"

definition prefix_map_flags :: "ppath \<Rightarrow> ppath \<Rightarrow> string" where
  "prefix_map_flags work out = map_flags [] work out"

definition cuda_prefix_map_flags :: "ppath \<Rightarrow> ppath \<Rightarrow> string" where
  "cuda_prefix_map_flags work out = map_flags ''-Xcompiler='' work out"

definition isdecimal :: "string \<Rightarrow> bool" where
  "isdecimal s = (s \<noteq> [] \<and> list_all is_digit s)"

definition job_count :: "'w os \<Rightarrow> string res" where
  "job_count os =
     (case os_environ os ''VASO_ACTION_RESERVED_CPUS'' of
        None \<Rightarrow> Inr (string_of_nat (os_cpu_count os))
      | Some reserved \<Rightarrow>
          if reserved = [] then Inr (string_of_nat (os_cpu_count os))
          else if isdecimal reserved \<and> (case py_int reserved of Some n \<Rightarrow> 1 \<le> n | None \<Rightarrow> False)
          then Inr reserved
          else fail ''VASO_ACTION_RESERVED_CPUS must be a positive integer, got {!r}'' [JStr reserved])"

definition cuda_home :: "dict \<Rightarrow> string" where
  "cuda_home rootfs =
     (case dget rootfs ''components'' of
        JObj components \<Rightarrow>
          (case dget components ''cuda_toolkit'' of
             JObj toolkit \<Rightarrow>
               (case dget toolkit ''install_layout'' of
                  JObj layout \<Rightarrow> (case dget layout ''prefix'' of JStr p \<Rightarrow> p | _ \<Rightarrow> ''/usr/local/cuda'')
                | _ \<Rightarrow> ''/usr/local/cuda'')
           | _ \<Rightarrow> ''/usr/local/cuda'')
      | _ \<Rightarrow> ''/usr/local/cuda'')"

type_synonym paths = "(string \<times> ppath) list"
type_synonym strings = "(string \<times> string) list"

definition lookup :: "(string \<times> 'a) list \<Rightarrow> string \<Rightarrow> 'a res" where
  \<comment> \<open>\<^verbatim>\<open>d[k]\<close> for a dictionary the executor built\<close>
  "lookup d k = (case map_of d k of None \<Rightarrow> Inl (KeyError k) | Some v \<Rightarrow> Inr v)"

record nested_paths =
  nested_distdir :: "ppath option"
  nested_repository_cache :: "ppath option"
  nested_disk_cache :: "ppath option"

definition optional_value :: "string \<Rightarrow> ppath option \<Rightarrow> strings" where
  "optional_value name p = (case p of None \<Rightarrow> [] | Some q \<Rightarrow> [(name, path_text q)])"

definition py_str :: "'w os \<Rightarrow> json \<Rightarrow> string" where
  "py_str os v = (case v of JStr s \<Rightarrow> s | _ \<Rightarrow> str_of os v)"

definition placeholders ::
    "'w os \<Rightarrow> dict \<Rightarrow> paths \<Rightarrow> ppath \<Rightarrow> dict \<Rightarrow> paths \<Rightarrow> ppath \<Rightarrow> ppath \<Rightarrow> ppath option \<Rightarrow> nested_paths
      \<Rightarrow> strings res" where
  "placeholders os plan source_archives rootfs_identity rootfs source_dirs work out wheel nested =
     bindE (mapping_field plan ''determinism'' ''determinism'') (\<lambda>determinism.
     bindE (list_field plan ''sources'' ''sources'') (\<lambda>sources.
     bindE (case sources of [] \<Rightarrow> Inl IndexError | s # _ \<Rightarrow> py_item s ''name'') (\<lambda>name.
     bindE (require_string name ''sources[0].name'') (\<lambda>primary.
     bindE (lookup source_dirs primary) (\<lambda>src.
     bindE (lookup source_archives primary) (\<lambda>source_archive.
     bindE (job_count os) (\<lambda>jobs.
     bindE (string_field determinism ''seed'' ''determinism.seed'') (\<lambda>seed.
     bindE (ditem determinism ''source_date_epoch'') (\<lambda>epoch.
       Inr ([(''src'', path_text src),
             (''work'', path_text work),
             (''out'', path_text out),
             (''source_archive'', path_text source_archive),
             (''rootfs_identity'', path_text rootfs_identity),
             (''cuda_home'', cuda_home rootfs),
             (''jobs'', jobs),
             (''prefix_map_flags'', prefix_map_flags work out),
             (''seed'', removeprefix seed ''sha256:''),
             (''source_date_epoch'', py_str os epoch)]
            @ optional_value ''wheel'' wheel
            @ optional_value ''nested_distdir'' (nested_distdir nested)
            @ optional_value ''nested_repository_cache'' (nested_repository_cache nested)
            @ optional_value ''nested_disk_cache'' (nested_disk_cache nested)))))))))))"

section \<open>Expansion\<close>

text \<open>The four tables that every expansion gets.\<close>

record tables =
  values_of :: strings
  dep_prefixes_of :: strings
  archives_of :: paths
  dirs_of :: paths

definition placeholder_value :: "tables \<Rightarrow> string \<Rightarrow> string res" where
  \<comment> \<open>\<^verbatim>\<open>replace\<close> in \<^verbatim>\<open>resolve_template\<close>\<close>
  "placeholder_value t name =
     (if startswith name ''prefix:'' then
        (let dep = removeprefix name ''prefix:''
         in case map_of (dep_prefixes_of t) dep of
              None \<Rightarrow> fail ''plan references missing dependency prefix {!r}'' [JStr dep]
            | Some p \<Rightarrow> Inr p)
      else if startswith name ''source_archive:'' then
        (let source = removeprefix name ''source_archive:''
         in case map_of (archives_of t) source of
              None \<Rightarrow> fail ''plan references missing source archive {!r}'' [JStr source]
            | Some p \<Rightarrow> Inr (path_text p))
      else if startswith name ''src:'' then
        (let source = removeprefix name ''src:''
         in case map_of (dirs_of t) source of
              None \<Rightarrow> fail ''plan references missing source {!r}'' [JStr source]
            | Some p \<Rightarrow> Inr (path_text p))
      else
        (case map_of (values_of t) name of
           None \<Rightarrow> fail ''plan references unsupported placeholder {{{}}}'' [JStr name]
         | Some v \<Rightarrow> Inr v))"

definition resolve_template :: "tables \<Rightarrow> string \<Rightarrow> string res" where
  "resolve_template t value = placeholder_sub (placeholder_value t) value"

definition resolve_item :: "tables \<Rightarrow> json \<Rightarrow> string res" where
  \<comment> \<open>the same on a value of the plan; \<^verbatim>\<open>re.sub\<close> refuses one that is not a string\<close>
  "resolve_item t v = (case v of JStr s \<Rightarrow> resolve_template t s | _ \<Rightarrow> Inl TypeError)"

definition append_env_flags :: "strings \<Rightarrow> string \<Rightarrow> string \<Rightarrow> strings" where
  "append_env_flags env key flags =
     (let existing = strip (case map_of env key of None \<Rightarrow> [] | Some v \<Rightarrow> v)
      in AList.update key (if existing \<noteq> [] then strip (existing @ '' '' @ flags) else flags) env)"

definition base_env :: "'w os \<Rightarrow> string \<Rightarrow> ppath \<Rightarrow> strings" where
  "base_env os epoch action_tmp =
     (let env = (\<lambda>k d. (k, case os_environ os k of None \<Rightarrow> d | Some v \<Rightarrow> v))
      in [env ''PATH'' ''/usr/bin:/bin'', env ''LC_ALL'' ''C'', env ''PYTHONHASHSEED'' ''0'',
          (''SOURCE_DATE_EPOCH'', epoch)]
         @ map (\<lambda>name. (name, path_text action_tmp)) [''TMPDIR'', ''TMP'', ''TEMP''])"

definition update_env :: "(json \<Rightarrow> string res) \<Rightarrow> strings \<Rightarrow> dict \<Rightarrow> strings res" where
  "update_env f = foldE (\<lambda>env (key, value). bindE (f value) (\<lambda>v. Inr (AList.update key v env)))"

definition compiler_env :: "strings \<Rightarrow> strings \<Rightarrow> ppath \<Rightarrow> ppath \<Rightarrow> strings res" where
  "compiler_env values env work out =
     bindE (lookup values ''seed'') (\<lambda>seed.
     bindE (lookup values ''prefix_map_flags'') (\<lambda>flags.
       let compiler_flags = (if seed \<noteq> [] then flags @ '' -frandom-seed='' @ seed else flags);
           nvcc = cuda_prefix_map_flags work out;
           nvcc_flags = (if seed \<noteq> [] then nvcc @ '' --frandom-seed='' @ seed @ '' --objdir-as-tempdir''
                         else nvcc)
       in Inr (append_env_flags (append_env_flags (append_env_flags (append_env_flags env
                 ''CFLAGS'' compiler_flags) ''CXXFLAGS'' compiler_flags)
                 ''NVCC_FLAGS'' nvcc_flags) ''CUDAFLAGS'' (cuda_prefix_map_flags work out))))"

definition command_env :: "'w os \<Rightarrow> dict \<Rightarrow> dict \<Rightarrow> tables \<Rightarrow> ppath \<Rightarrow> ppath \<Rightarrow> ('w, strings) act" where
  "command_env os plan phase t work out =
     (let action_tmp = slash work ''tmp''
      in bindA (pureA (lookup (values_of t) ''source_date_epoch'')) (\<lambda>epoch.
         bindA (os_mkdir os action_tmp True True) (\<lambda>_. pureA (
           bindE (mapping_field plan ''toolchain'' ''toolchain'') (\<lambda>toolchain.
           bindE (mapping_field toolchain ''env'' ''toolchain.env'') (\<lambda>tool_env.
           bindE (update_env (\<lambda>v. resolve_template t (py_str os v)) (base_env os epoch action_tmp) tool_env) (\<lambda>env1.
           bindE (mapping_field phase ''env'' ''phase.env'') (\<lambda>phase_env.
           bindE (update_env (resolve_item t) env1 phase_env) (\<lambda>env2.
             compiler_env (values_of t) env2 work out)))))))))"

definition resolve_arg :: "tables \<Rightarrow> string list option \<Rightarrow> json \<Rightarrow> string list res" where
  "resolve_arg t nested_args item =
     (if item = JStr nested_hole then
        (case nested_args of
           None \<Rightarrow> fail ''plan references {nested_build_py_args} without nested_bazel.build_py_args'' []
         | Some args \<Rightarrow> Inr args)
      else bindE (json_contains nested_hole item) (\<lambda>found.
        if found then fail ''plan references {nested_build_py_args}; it must occupy a complete argv item'' []
        else bindE (resolve_item t item) (\<lambda>s. Inr [s])))"

definition resolve_argv :: "dict \<Rightarrow> tables \<Rightarrow> string list option \<Rightarrow> string list res" where
  "resolve_argv phase t nested_args =
     bindE (list_field phase ''argv'' ''phase.argv'') (concatE (resolve_arg t nested_args))"
section \<open>Declared inputs\<close>

definition split_eq :: "string \<Rightarrow> string \<times> string" where
  \<comment> \<open>\<^verbatim>\<open>item.split("=", 1)\<close>\<close>
  "split_eq item =
     (takeWhile (\<lambda>c. c \<noteq> CHR ''='') item, drop 1 (dropWhile (\<lambda>c. c \<noteq> CHR ''='') item))"

definition name_path_step :: "string \<Rightarrow> string option \<Rightarrow> paths \<Rightarrow> string \<Rightarrow> paths res" where
  "name_path_step flag default_name paths item =
     bindE (if CHR ''='' \<in> set item then Inr (split_eq item)
            else case default_name of
                   Some d \<Rightarrow> Inr (d, item)
                 | None \<Rightarrow> fail ''{} must be NAME=PATH, got {!r}'' [JStr flag, JStr item])
       (\<lambda>(name, where_at).
          if name = [] then fail ''{} must name a plan entry'' [JStr flag]
          else Inr (AList.update name (parse where_at) paths))"

definition parse_name_path_args :: "string list \<Rightarrow> string \<Rightarrow> string option \<Rightarrow> paths res" where
  "parse_name_path_args items flag default_name = foldE (name_path_step flag default_name) [] items"

definition sorted_strings :: "string set \<Rightarrow> string list" where
  "sorted_strings A = sorted_list_of_set A"

definition comma_names :: "string list \<Rightarrow> json" where
  "comma_names xs = JStr (join '', '' xs)"

definition dep_prefix :: "'w os \<Rightarrow> 'w \<Rightarrow> string list \<Rightarrow> string \<times> ppath \<Rightarrow> (string \<times> string) res" where
  "dep_prefix os w declared entry =
     (case entry of (name, path) \<Rightarrow>
        if name \<notin> set declared
        then fail ''--dep-prefix names undeclared dependency {!r}'' [JStr name]
        else
          let check_path = (if absolute path then path else joinpath (os_cwd os) path)
          in if \<not> os_exists os w check_path
             then fail ''dependency prefix input is missing: {}'' [JStr (path_text path)]
             else Inr (name, path_text (os_resolve os w check_path)))"

definition read_dep_prefixes :: "'w os \<Rightarrow> 'w \<Rightarrow> dict \<Rightarrow> string list \<Rightarrow> strings res" where
  "read_dep_prefixes os w plan items =
     bindE (mapping_field plan ''deps'' ''deps'') (\<lambda>deps.
     bindE (parse_name_path_args items ''--dep-prefix'' None) (\<lambda>paths.
       let missing = sorted_strings (set (map fst deps) - set (map fst paths))
       in if missing \<noteq> []
          then fail ''missing declared dependency prefix input(s): {}'' [comma_names missing]
          else mapE (dep_prefix os w (map fst deps)) (sort_key fst paths)))"

definition verify_input :: "'w os \<Rightarrow> 'w \<Rightarrow> paths \<Rightarrow> json \<Rightarrow> unit res" where
  "verify_input os w paths item =
     bindE (require_mapping item ''inputs[]'') (\<lambda>input.
     bindE (require_string (dget input ''path'') ''inputs[].path'') (\<lambda>logical.
     bindE (require_string (dget input ''sha256'') ''inputs[].sha256'') (\<lambda>expected.
       case map_of paths logical of
         None \<Rightarrow> fail ''missing declared input binding: {}'' [JStr logical]
       | Some path \<Rightarrow>
           if \<not> os_is_file os w path then fail ''declared input is missing: {}'' [JStr logical]
           else bindE (os_sha256 os w path) (\<lambda>actual.
             if actual \<noteq> expected
             then fail ''declared input sha256 mismatch for {}: expected {}, got {}''
                    [JStr logical, JStr expected, JStr actual]
             else Inr ()))))"

definition verify_extra_inputs :: "'w os \<Rightarrow> 'w \<Rightarrow> dict \<Rightarrow> string list \<Rightarrow> unit res" where
  "verify_extra_inputs os w plan input_args =
     bindE (parse_name_path_args input_args ''--input'' None) (\<lambda>paths.
     bindE (list_field plan ''inputs'' ''inputs'') (\<lambda>items.
     bindE (mapE (verify_input os w paths) items) (\<lambda>_. Inr ())))"

definition archive_sha :: "json \<Rightarrow> string res" where
  "archive_sha archive =
     bindE (require_mapping archive ''nested_bazel.archives[]'') (\<lambda>a.
       require_string (dget a ''sha256'') ''nested_bazel.archives[].sha256'')"

definition entry_sha :: "json \<Rightarrow> string list" where
  "entry_sha entry =
     (case entry of
        JObj e \<Rightarrow> (case dget e ''expected_sha256'' of
            JStr sha \<Rightarrow> if dget e ''kind'' = JStr ''archive'' then [sha] else []
          | _ \<Rightarrow> [])
      | _ \<Rightarrow> [])"

definition verify_manifest ::
    "'w os \<Rightarrow> 'w \<Rightarrow> paths \<Rightarrow> string list \<Rightarrow> string \<times> dict \<Rightarrow> unit res" where
  "verify_manifest os w paths expected_archive_shas entry =
     (case entry of (kind, manifest) \<Rightarrow>
        bindE (lookup paths kind) (\<lambda>path.
        if \<not> os_is_file os w path
        then fail ''nested cache manifest input is missing: {}={}'' [JStr kind, JStr (path_text path)]
        else
        bindE (string_field manifest ''sha256'' (''nested_bazel.'' @ kind @ ''_manifest.sha256'')) (\<lambda>expected.
        bindE (os_sha256 os w path) (\<lambda>actual.
        if actual \<noteq> expected
        then fail ''nested cache manifest sha256 mismatch for {}: expected {}, got {}''
               [JStr kind, JStr expected, JStr actual]
        else
        bindE (read_json os w path) (\<lambda>payload.
        if \<not> py_eq (dget payload ''schema_version'') (JInt 1)
        then fail ''nested cache manifest {} must have schema_version=1'' [JStr kind]
        else
          case dget payload ''entries'' of
            JList entries \<Rightarrow>
              if sort (concat (map entry_sha entries)) \<noteq> expected_archive_shas
              then fail ''nested cache manifest {} does not match plan nested_bazel.archives'' [JStr kind]
              else Inr ()
          | _ \<Rightarrow> fail ''nested cache manifest {} must contain an entries list'' [JStr kind])))))"

definition verify_manifests :: "'w os \<Rightarrow> 'w \<Rightarrow> dict \<Rightarrow> paths \<Rightarrow> (string \<times> dict) list \<Rightarrow> paths res" where
  \<comment> \<open>the bindings are exactly the expected kinds, and each manifest is the recorded one\<close>
  "verify_manifests os w nested paths kinds =
     (let missing = sorted_strings (set (map fst kinds) - set (map fst paths));
          extras = sorted_strings (set (map fst paths) - set (map fst kinds))
      in if missing \<noteq> []
         then fail ''missing declared nested cache manifest input(s): {}'' [comma_names missing]
         else if extras \<noteq> []
         then fail ''undeclared nested cache manifest input(s): {}'' [comma_names extras]
         else
           bindE (list_field nested ''archives'' ''nested_bazel.archives'') (\<lambda>archives.
           bindE (mapE archive_sha archives) (\<lambda>shas.
           bindE (mapE (verify_manifest os w paths (sort shas)) (sort_key fst kinds)) (\<lambda>_. Inr paths))))"

definition verify_nested_cache_manifests ::
    "'w os \<Rightarrow> 'w \<Rightarrow> dict \<Rightarrow> string list \<Rightarrow> paths res" where
  "verify_nested_cache_manifests os w plan manifest_args =
     (case map_of plan ''nested_bazel'' of
        None \<Rightarrow>
          if manifest_args \<noteq> []
          then fail ''--nested-cache-manifest was passed but the plan has no nested_bazel section'' []
          else Inr []
      | Some nested_value \<Rightarrow>
          bindE (require_mapping nested_value ''nested_bazel'') (\<lambda>nested.
          bindE (parse_name_path_args manifest_args ''--nested-cache-manifest'' None) (\<lambda>paths.
          bindE (mapping_field nested ''distdir_manifest'' ''nested_bazel.distdir_manifest'') (\<lambda>distdir.
          bindE (mapping_field nested ''repository_cache_manifest'' ''nested_bazel.repository_cache_manifest'') (\<lambda>cache.
            verify_manifests os w nested paths [(''distdir'', distdir), (''repository_cache'', cache)])))))"

definition require_nested_runtime_path :: "dict \<Rightarrow> ppath option \<Rightarrow> string \<Rightarrow> ppath option res" where
  "require_nested_runtime_path plan path flag =
     (if map_of plan ''nested_bazel'' = None then
        (if path \<noteq> None then fail ''{} was passed but the plan has no nested_bazel section'' [JStr flag]
         else Inr None)
      else if path = None then fail ''plan declares nested_bazel but {} was not passed'' [JStr flag]
      else Inr path)"

section \<open>Patches, phases and live checks\<close>

definition apply_patch :: "'w os \<Rightarrow> ppath \<Rightarrow> paths \<Rightarrow> json \<Rightarrow> ('w, unit) act" where
  "apply_patch os src patch_paths patch =
     bindA (pureA (require_mapping patch ''source.patches[]'')) (\<lambda>p.
     bindA (pureA (require_string (dget p ''path'') ''source.patches[].path'')) (\<lambda>logical.
     bindA (pureA (require_string (dget p ''sha256'') ''source.patches[].sha256'')) (\<lambda>expected.
     case map_of patch_paths logical of
       None \<Rightarrow> pureA (fail ''missing declared patch input: {}'' [JStr logical])
     | Some patch_path \<Rightarrow>
         getA (\<lambda>w.
           if \<not> os_is_file os w patch_path
           then pureA (fail ''patch input is missing: {}'' [JStr (path_text patch_path)])
           else
             bindA (pureA (os_sha256 os w patch_path)) (\<lambda>actual.
             if actual \<noteq> expected
             then pureA (fail ''patch sha256 mismatch for {}: expected {}, got {}''
                    [JStr logical, JStr expected, JStr actual])
             else
               bindA (os_run os [''patch'', ''-p1'', ''--input'', path_text (os_resolve os w patch_path)]
                        (Some src) None) (\<lambda>(code, _).
               if code \<noteq> 0
               then pureA (fail ''failed to apply patch {}: exit code {}'' [JStr logical, JInt code])
               else pureA (Inr ())))))))"

definition apply_source_patches :: "'w os \<Rightarrow> dict \<Rightarrow> ppath \<Rightarrow> paths \<Rightarrow> ('w, unit) act" where
  "apply_source_patches os source src patch_paths =
     bindA (pureA (require_list (dget source ''patches'') ''source.patches''))
       (forA (apply_patch os src patch_paths))"

definition run_phase ::
    "'w os \<Rightarrow> dict \<Rightarrow> tables \<Rightarrow> ppath \<Rightarrow> ppath \<Rightarrow> string list option \<Rightarrow> string \<Rightarrow> ('w, unit) act" where
  "run_phase os plan t work out nested_args name =
     bindA (pureA (mapping_field plan name name)) (\<lambda>phase.
     bindA (pureA (resolve_argv phase t nested_args)) (\<lambda>argv.
     bindA (command_env os plan phase t work out) (\<lambda>env.
     bindA (pureA (bindE (string_field phase ''cwd'' (name @ ''.cwd'')) (resolve_template t))) (\<lambda>cwd_text.
     getA (\<lambda>w.
       let cwd = parse cwd_text
       in if \<not> os_is_dir os w cwd
          then pureA (fail ''{} phase cwd is not a directory: {}'' [JStr name, JStr (path_text cwd)])
          else bindA (os_run os argv (Some cwd) (Some env)) (\<lambda>(code, _).
            if code \<noteq> 0
            then pureA (fail ''{} phase failed with exit code {}: {!r}'' [JStr name, JInt code, JList (map JStr argv)])
            else pureA (Inr ())))))))"

definition json_strings :: "json list \<Rightarrow> string list" where
  "json_strings xs = concat (map (\<lambda>x. case x of JStr s \<Rightarrow> [s] | _ \<Rightarrow> []) xs)"

definition live_check_command :: "'w os \<Rightarrow> string \<Rightarrow> json \<Rightarrow> ('w, unit) act" where
  "live_check_command os owner command =
     (case command of
        JObj c \<Rightarrow>
          bindA (pureA (require_string (dget c ''name'') (owner @ ''.live_checks.commands[].name''))) (\<lambda>name.
          bindA (pureA (require_list (dget c ''argv'') (''live_checks.commands['' @ name @ ''].argv''))) (\<lambda>argv.
          if \<not> list_all is_str argv \<or> argv = []
          then pureA (fail ''{} live check {} argv must be a non-empty string list'' [JStr owner, JStr name])
          else
          bindA (pureA (require_string (dget c ''expect_stdout'')
                   (''live_checks.commands['' @ name @ ''].expect_stdout''))) (\<lambda>expected.
          bindA (os_run os (json_strings argv) None None) (\<lambda>(code, stdout).
            let actual = strip stdout
            in if code \<noteq> 0 \<or> actual \<noteq> expected
               then pureA (fail ''live {} mismatch for {}: expected stdout {!r}, got {!r}, exit code {}''
                      [JStr owner, JStr name, JStr expected, JStr actual, JInt code])
               else pureA (Inr ())))))
      | _ \<Rightarrow> pureA (fail ''{} live check must be an object'' [JStr owner]))"

definition check_live_checks :: "'w os \<Rightarrow> string \<Rightarrow> json \<Rightarrow> ('w, unit) act" where
  "check_live_checks os owner live_checks =
     (case live_checks of
        JObj checks_obj \<Rightarrow>
          (case (case map_of checks_obj ''commands'' of None \<Rightarrow> JList [] | Some c \<Rightarrow> c) of
             JList commands \<Rightarrow>
               if commands = []
               then pureA (fail ''{} live_checks.commands must not be empty'' [JStr owner])
               else forA (live_check_command os owner) commands
           | _ \<Rightarrow> pureA (fail ''{} live_checks.commands must be a list'' [JStr owner]))
      | _ \<Rightarrow> pureA (fail ''{} live_checks is required'' [JStr owner]))"
section \<open>Leaks of build paths\<close>

definition FIXED_OUTPUT_BASE_MOUNT :: string where
  "FIXED_OUTPUT_BASE_MOUNT = ''/vaso-bazel-ob''"

definition path_of_parts :: "string list \<Rightarrow> string" where
  \<comment> \<open>\<^verbatim>\<open>str(Path( *parts))\<close>\<close>
  "path_of_parts ps = path_text (foldl slash (parse []) ps)"

fun index_of :: "'a \<Rightarrow> 'a list \<Rightarrow> nat option" where
  "index_of x [] = None"
| "index_of x (y # ys) = (if x = y then Some 0 else map_option Suc (index_of x ys))"

definition execroot_tokens :: "string list \<Rightarrow> string list" where
  "execroot_tokens ps =
     (case index_of ''execroot'' ps of
        None \<Rightarrow> []
      | Some i \<Rightarrow>
          path_of_parts (take (i + 1) ps) #
          (if 0 < i \<and> path_of_parts (take i ps) \<noteq> FIXED_OUTPUT_BASE_MOUNT
           then [path_of_parts (take i ps)] else []))"

definition path_tokens :: "'w os \<Rightarrow> 'w \<Rightarrow> ppath \<Rightarrow> string list" where
  "path_tokens os w path =
     (let resolved = (if os_exists os w path \<or> absolute path then os_resolve os w path
                      else os_resolve os w (joinpath (os_cwd os) path))
      in path_text resolved # execroot_tokens (parts resolved))"

definition action_path_tokens :: "'w os \<Rightarrow> 'w \<Rightarrow> ppath list \<Rightarrow> string set" where
  "action_path_tokens os w paths =
     {token \<in> set (concat (map (path_tokens os w) (os_cwd os # paths)))
               \<union> {''/vaso/lines/'', ''/.vaso-estate'', ''bazel-out/''}.
        token \<noteq> [] \<and> token \<noteq> ''/'' \<and> token \<noteq> FIXED_OUTPUT_BASE_MOUNT}"

text \<open>\<^verbatim>\<open>str.encode("utf-8")\<close> of code points below 256; bytes are characters too.\<close>

definition utf8_char :: "char \<Rightarrow> string" where
  "utf8_char c = (let n = (of_char c :: nat) in
     if n < 128 then [c] else [char_of (192 + n div 64), char_of (128 + n mod 64)])"

definition utf8 :: "string \<Rightarrow> string" where
  "utf8 s = concat (map utf8_char s)"

definition token_bytes :: "string set \<Rightarrow> (string \<times> string) list" where
  "token_bytes forbidden =
     map (\<lambda>token. (token, utf8 token)) (filter (\<lambda>token. token \<noteq> []) (sorted_strings forbidden))"

record leak =
  leak_label :: string
  leak_offset :: nat
  leak_token :: string

function scan_token :: "string \<Rightarrow> string \<Rightarrow> string \<Rightarrow> string \<Rightarrow> nat \<Rightarrow> leak list" where
  "scan_token label data token needle offset =
     (case find_from data needle offset of
        None \<Rightarrow> []
      | Some i \<Rightarrow>
          \<lparr> leak_label = label, leak_offset = i, leak_token = token \<rparr>
          # scan_token label data token needle (i + 1))"
  by pat_completeness auto
termination
proof (relation "measure (\<lambda>(label, data, token, needle, offset). Suc (length data) - offset)")
  fix label data token needle :: string and offset i
  assume "find_from data needle offset = Some i"
  then have "offset \<le> i" "i \<le> length data"
    by (auto simp: find_from_def split: if_splits dest: find_first_le)
  then show "((label, data, token, needle, i + 1), label, data, token, needle, offset)
      \<in> measure (\<lambda>(label, data, token, needle, offset). Suc (length data) - offset)" by simp
qed simp

declare scan_token.simps [simp del]

definition scan_bytes_for_path_leaks :: "string \<Rightarrow> string \<Rightarrow> (string \<times> string) list \<Rightarrow> leak list" where
  "scan_bytes_for_path_leaks label data forbidden =
     concat (map (\<lambda>(token, needle). scan_token label data token needle 0) forbidden)"

definition scan_zip_member :: "ppath \<Rightarrow> (string \<times> string) list \<Rightarrow> zip_member \<Rightarrow> leak list" where
  "scan_zip_member path forbidden info =
     (let label = path_text path @ ''!'' @ zip_name info
      in scan_bytes_for_path_leaks label (utf8 (zip_name info)) forbidden
         @ (if zip_is_dir info then [] else scan_bytes_for_path_leaks label (zip_data info) forbidden))"

definition scan_zip_for_path_leaks :: "ppath \<Rightarrow> zip_member list \<Rightarrow> (string \<times> string) list \<Rightarrow> leak list" where
  "scan_zip_for_path_leaks path members forbidden =
     concat (map (scan_zip_member path forbidden) (sort_key zip_name members))"

definition scan_path :: "'w os \<Rightarrow> 'w \<Rightarrow> (string \<times> string) list \<Rightarrow> ppath \<Rightarrow> leak list res" where
  "scan_path os w forbidden path =
     (if os_is_symlink os w path then
        bindE (os_readlink os w path) (\<lambda>target.
          Inr (scan_bytes_for_path_leaks (''symlink '' @ path_text path) (utf8 target) forbidden))
      else if \<not> os_is_file os w path then Inr []
      else case (if suffix_of path \<in> {''.whl'', ''.zip''} then os_zip os w path else None) of
             Some members \<Rightarrow> Inr (scan_zip_for_path_leaks path members forbidden)
           | None \<Rightarrow>
               bindE (os_read_bytes os w path) (\<lambda>data.
                 Inr (scan_bytes_for_path_leaks (path_text path) data forbidden)))"

definition scan_file_for_path_leaks :: "'w os \<Rightarrow> 'w \<Rightarrow> ppath \<Rightarrow> string set \<Rightarrow> leak list res" where
  "scan_file_for_path_leaks os w path forbidden_tokens =
     (let forbidden = token_bytes forbidden_tokens
      in if forbidden = [] then Inr [] else scan_path os w forbidden path)"

definition scan_output_for_path_leaks :: "'w os \<Rightarrow> 'w \<Rightarrow> ppath \<Rightarrow> string set \<Rightarrow> leak list res" where
  "scan_output_for_path_leaks os w prefix_dir forbidden_tokens =
     (let forbidden = token_bytes forbidden_tokens
      in if forbidden = [] then Inr []
         else concatE (scan_path os w forbidden) (sort (os_rglob os w prefix_dir)))"

definition fail_on_path_leaks :: "leak list \<Rightarrow> unit res" where
  "fail_on_path_leaks hits =
     (if hits \<noteq> [] then fail ''non-relocatable output leak(s):{}'' [JInt (int (length hits))] else Inr ())"

section \<open>Relocatable pkg-config files\<close>

fun common_prefix :: "string list \<Rightarrow> string list \<Rightarrow> nat" where
  "common_prefix (x # xs) (y # ys) = (if x = y then Suc (common_prefix xs ys) else 0)"
| "common_prefix _ _ = 0"

definition relpath :: "ppath \<Rightarrow> ppath \<Rightarrow> string" where
  \<comment> \<open>\<^verbatim>\<open>os.path.relpath(path, start)\<close> of two absolute paths\<close>
  "relpath path start =
     (let p = norm_names True (names path); s = norm_names True (names start); i = common_prefix p s
      in path_text (PPath Rel (replicate (length s - i) ''..'' @ drop i p)))"

definition relocatable_prefix :: "ppath \<Rightarrow> ppath \<Rightarrow> string" where
  "relocatable_prefix prefix_dir pc_file =
     (let rel = relpath prefix_dir (parent pc_file);
          rel_posix = (if rel = ''.'' then ''.'' else path_text (parse rel))
      in if rel_posix = ''.'' then ''${pcfiledir}'' else ''${pcfiledir}/'' @ rel_posix)"

definition rewrite_line :: "string \<Rightarrow> string \<Rightarrow> string" where
  "rewrite_line new_prefix line =
     (let ended = endswith line [lf]; body = (if ended then butlast line else line)
      in if startswith body ''prefix=''
         then ''prefix='' @ new_prefix @ (if ended then [lf] else []) else line)"

definition is_prefix_line :: "string \<Rightarrow> bool" where
  "is_prefix_line line =
     startswith (if endswith line [lf] then butlast line else line) ''prefix=''"

definition rewrite_pc_text :: "string \<Rightarrow> string \<Rightarrow> string option" where
  \<comment> \<open>the new text when a line changed\<close>
  "rewrite_pc_text new_prefix content =
     (let lines = splitlines True content
      in if list_ex is_prefix_line lines then Some (concat (map (rewrite_line new_prefix) lines)) else None)"

definition rewrite_pc_file :: "'w os \<Rightarrow> ppath \<Rightarrow> ppath \<Rightarrow> ('w, unit) act" where
  "rewrite_pc_file os prefix_dir pc_file =
     getA (\<lambda>w.
       if \<not> os_is_file os w pc_file \<or> os_is_symlink os w pc_file then pureA (Inr ())
       else bindA (pureA (os_read_text os w pc_file)) (\<lambda>content.
         case rewrite_pc_text (relocatable_prefix prefix_dir pc_file) content of
           None \<Rightarrow> pureA (Inr ())
         | Some changed \<Rightarrow> os_write_text os pc_file changed))"

definition rewrite_pkg_config_files :: "'w os \<Rightarrow> ppath \<Rightarrow> ('w, unit) act" where
  "rewrite_pkg_config_files os prefix_dir =
     getA (\<lambda>w.
       if \<not> os_is_dir os w prefix_dir then pureA (Inr ())
       else forA (rewrite_pc_file os prefix_dir)
              (sort (filter (\<lambda>p. endswith (final_name p) ''.pc'') (os_rglob os w prefix_dir))))"
section \<open>The whole execution\<close>

record exec_args =
  plan_path :: ppath
  schema_path :: ppath
  source_archive_args :: "string list"
  rootfs_identity_path :: ppath
  prefix_out :: "ppath option"
  wheel_out :: "ppath option"
  patch_args :: "string list"
  dep_prefix_args :: "string list"
  input_args :: "string list"
  nested_cache_manifest_args :: "string list"
  nested_runtime :: nested_paths

definition load_schema :: "'w os \<Rightarrow> 'w \<Rightarrow> ppath \<Rightarrow> dict res" where
  "load_schema os w path =
     bindE (os_read_text os w path) (\<lambda>content.
       case json_loads os content of
         Some (JObj d) \<Rightarrow> Inr d
       | Some _ \<Rightarrow> Inl (ValueError ''{}: expected a JSON schema object'' [JStr (path_text path)])
       | None \<Rightarrow> Inl (ValueError ''{}'' []))"

definition verify_source :: "'w os \<Rightarrow> 'w \<Rightarrow> paths \<Rightarrow> json \<Rightarrow> unit res" where
  "verify_source os w archives source =
     bindE (require_mapping source ''sources[]'') (\<lambda>s.
     bindE (require_string (dget s ''name'') ''sources[].name'') (\<lambda>name.
     case map_of archives name of
       None \<Rightarrow> fail ''missing declared source archive input: {}'' [JStr name]
     | Some archive \<Rightarrow>
         bindE (require_string (dget s ''sha256'') (''sources['' @ name @ ''].sha256'')) (\<lambda>expected.
         bindE (os_sha256 os w archive) (\<lambda>actual.
           if actual \<noteq> expected
           then fail ''source archive sha256 mismatch for {}: expected {}, got {}''
                  [JStr name, JStr expected, JStr actual]
           else Inr ()))))"

definition check_output_bindings :: "exec_args \<Rightarrow> string list \<Rightarrow> unit res" where
  "check_output_bindings args kinds =
     (if ''prefix'' \<in> set kinds \<and> prefix_out args = None
      then fail ''plan declares a prefix output but --prefix-out was not passed'' []
      else if ''wheel'' \<in> set kinds \<and> wheel_out args = None
      then fail ''plan declares a wheel output but --wheel-out was not passed'' []
      else Inr ())"

definition bind_sources :: "'w os \<Rightarrow> 'w \<Rightarrow> exec_args \<Rightarrow> dict \<Rightarrow> paths res" where
  "bind_sources os w args plan =
     bindE (list_field plan ''sources'' ''sources'') (\<lambda>sources.
     bindE (case sources of [] \<Rightarrow> Inl IndexError | s # _ \<Rightarrow> require_mapping s ''sources[0]'') (\<lambda>first.
     bindE (require_string (dget first ''name'') ''sources[0].name'') (\<lambda>primary.
     bindE (parse_name_path_args (source_archive_args args) ''--source-archive'' (Some primary)) (\<lambda>archives.
     bindE (mapE (verify_source os w archives) sources) (\<lambda>_. Inr archives)))))"

definition verify_rootfs :: "'w os \<Rightarrow> 'w \<Rightarrow> exec_args \<Rightarrow> dict \<Rightarrow> dict res" where
  "verify_rootfs os w args plan =
     bindE (mapping_field plan ''toolchain'' ''toolchain'') (\<lambda>toolchain.
     bindE (mapping_field toolchain ''rootfs_identity'' ''toolchain.rootfs_identity'') (\<lambda>identity.
     bindE (string_field identity ''sha256'' ''toolchain.rootfs_identity.sha256'') (\<lambda>expected.
     bindE (os_sha256 os w (rootfs_identity_path args)) (\<lambda>actual.
       if actual \<noteq> expected
       then fail ''rootfs identity sha256 mismatch: expected {}, got {}'' [JStr expected, JStr actual]
       else read_json os w (rootfs_identity_path args)))))"

definition resolve_nested :: "exec_args \<Rightarrow> dict \<Rightarrow> nested_paths res" where
  "resolve_nested args plan =
     (let n = nested_runtime args
      in bindE (require_nested_runtime_path plan (nested_distdir n) ''--nested-distdir'') (\<lambda>d.
         bindE (require_nested_runtime_path plan (nested_repository_cache n) ''--nested-repository-cache'') (\<lambda>r.
         bindE (require_nested_runtime_path plan (nested_disk_cache n) ''--nested-disk-cache'') (\<lambda>k.
           Inr \<lparr> nested_distdir = d, nested_repository_cache = r, nested_disk_cache = k \<rparr>))))"

text \<open>One source: extract, find the stripped directory, apply the patches.\<close>

definition prepare_source ::
    "'w os \<Rightarrow> paths \<Rightarrow> paths \<Rightarrow> ppath \<Rightarrow> json \<Rightarrow> ('w, string \<times> ppath) act" where
  "prepare_source os archives patch_paths work source =
     bindA (pureA (require_mapping source ''sources[]'')) (\<lambda>s.
     bindA (pureA (require_string (dget s ''name'') ''sources[].name'')) (\<lambda>name.
     bindA (pureA (lookup archives name)) (\<lambda>archive.
     let extract_root = slash (slash work ''extract'') name
     in bindA (safe_extract_archive os archive extract_root) (\<lambda>_.
        bindA (pureA (require_string (dget s ''strip_prefix'') (''sources['' @ name @ ''].strip_prefix''))) (\<lambda>strip_prefix.
        getA (\<lambda>w.
          let src = slash extract_root strip_prefix
          in if \<not> os_is_dir os w src
             then pureA (fail ''source archive {} did not contain strip_prefix directory: {}''
                    [JStr name, JStr strip_prefix])
             else bindA (apply_source_patches os s src patch_paths) (\<lambda>_.
                  pureA (Inr (name, src)))))))))"

definition resolve_archives :: "'w os \<Rightarrow> 'w \<Rightarrow> paths \<Rightarrow> paths" where
  "resolve_archives os w archives = map (\<lambda>(n, p). (n, os_resolve os w p)) archives"

definition dict_of :: "(string \<times> 'a) list \<Rightarrow> (string \<times> 'a) list" where
  \<comment> \<open>the dictionary built by assigning the pairs in turn\<close>
  "dict_of kvs = foldl (\<lambda>d (k, v). AList.update k v d) [] kvs"

definition nested_args :: "dict \<Rightarrow> tables \<Rightarrow> string list option res" where
  "nested_args plan t =
     (case map_of plan ''nested_bazel'' of
        None \<Rightarrow> Inr None
      | Some nested_value \<Rightarrow>
          bindE (require_mapping nested_value ''nested_bazel'') (\<lambda>nested.
          bindE (list_field nested ''build_py_args'' ''nested_bazel.build_py_args'') (\<lambda>items.
          bindE (mapE (resolve_item t) items) (\<lambda>args. Inr (Some args)))))"

text \<open>The outputs of an execution: the resolved prefix and wheel, the output root, the work directory.\<close>

record outputs =
  prefix_dir :: "ppath option"
  wheel_file :: "ppath option"
  output_root :: ppath
  work_dir :: ppath

definition out_dir :: "outputs \<Rightarrow> ppath" where
  \<comment> \<open>\<^verbatim>\<open>prefix or output_root\<close>\<close>
  "out_dir o1 = (case prefix_dir o1 of Some p \<Rightarrow> p | None \<Rightarrow> output_root o1)"

text \<open>The first part of the \<^verbatim>\<open>try\<close> block: sources, expansion tables and the three phases.\<close>

definition build_phases ::
    "'w os \<Rightarrow> exec_args \<Rightarrow> dict \<Rightarrow> dict \<Rightarrow> paths \<Rightarrow> nested_paths \<Rightarrow> outputs \<Rightarrow> ('w, unit) act" where
  "build_phases os args plan rootfs archives nested outs =
     bindA (pureA (parse_name_path_args (patch_args args) ''--patch'' None)) (\<lambda>patch_paths.
     bindA (pureA (list_field plan ''sources'' ''sources'')) (\<lambda>sources.
     bindA (mapA (prepare_source os archives patch_paths (work_dir outs)) sources) (\<lambda>dirs.
     getA (\<lambda>w.
       bindA (pureA (placeholders os plan (resolve_archives os w archives)
                (os_resolve os w (rootfs_identity_path args)) rootfs (dict_of dirs)
                (work_dir outs) (out_dir outs) (wheel_file outs) nested)) (\<lambda>values.
       bindA (pureA (read_dep_prefixes os w plan (dep_prefix_args args))) (\<lambda>deps.
       let t = \<lparr> values_of = values, dep_prefixes_of = deps, archives_of = archives, dirs_of = dict_of dirs \<rparr>
       in bindA (pureA (nested_args plan t)) (\<lambda>build_py_args.
          forA (run_phase os plan t (work_dir outs) (out_dir outs) build_py_args) PHASES)))))))"

definition remove_work :: "'w os \<Rightarrow> ppath \<Rightarrow> ('w, bool) act" where
  \<comment> \<open>the value of \<^verbatim>\<open>created_work\<close> afterwards\<close>
  "remove_work os work = getA (\<lambda>w.
     if os_exists os w work then bindA (os_rmtree os work) (\<lambda>_. pureA (Inr False)) else pureA (Inr True))"

definition option_list :: "'a option \<Rightarrow> 'a list" where
  "option_list v = (case v of None \<Rightarrow> [] | Some x \<Rightarrow> [x])"

definition forbidden_tokens :: "'w os \<Rightarrow> exec_args \<Rightarrow> paths \<Rightarrow> paths \<Rightarrow> outputs \<Rightarrow> 'w \<Rightarrow> string set" where
  "forbidden_tokens os args archives manifests outs w =
     (let bound = option_list (prefix_dir outs) @ option_list (wheel_file outs);
          forbidden_paths = [plan_path args, schema_path args, rootfs_identity_path args]
            @ map snd archives @ map snd manifests @ bound
      in insert (path_text (work_dir outs)) (set (map path_text bound))
         \<union> action_path_tokens os w forbidden_paths)"

definition check_leaks :: "'w os \<Rightarrow> exec_args \<Rightarrow> paths \<Rightarrow> paths \<Rightarrow> outputs \<Rightarrow> ('w, unit) act" where
  "check_leaks os args archives manifests outs =
     bindA (case prefix_dir outs of None \<Rightarrow> pureA (Inr ()) | Some p \<Rightarrow> rewrite_pkg_config_files os p) (\<lambda>_.
     getA (\<lambda>w.
       let forbidden = forbidden_tokens os args archives manifests outs w
       in pureA (
         bindE (case prefix_dir outs of
                  None \<Rightarrow> Inr []
                | Some p \<Rightarrow> scan_output_for_path_leaks os w p forbidden) (\<lambda>hits1.
         bindE (case wheel_file outs of
                  None \<Rightarrow> Inr []
                | Some f \<Rightarrow> if os_is_file os w f then scan_file_for_path_leaks os w f forbidden else Inr [])
           (\<lambda>hits2. fail_on_path_leaks (hits1 @ hits2))))))"

definition finally_remove :: "'w os \<Rightarrow> ppath \<Rightarrow> bool \<Rightarrow> unit res \<Rightarrow> ('w, unit) act" where
  "finally_remove os work created r = getA (\<lambda>w.
     if created \<and> os_exists os w work then bindA (os_rmtree os work) (\<lambda>_. pureA r) else pureA r)"

definition run_in_work ::
    "'w os \<Rightarrow> exec_args \<Rightarrow> dict \<Rightarrow> dict \<Rightarrow> paths \<Rightarrow> paths \<Rightarrow> nested_paths \<Rightarrow> outputs \<Rightarrow> ('w, unit) act" where
  \<comment> \<open>\<^verbatim>\<open>try: ... finally: ...\<close>\<close>
  "run_in_work os args plan rootfs archives manifests nested outs w =
     (case bindA (build_phases os args plan rootfs archives nested outs)
                 (\<lambda>_. remove_work os (work_dir outs)) w of
        (Inl e, w1) \<Rightarrow> finally_remove os (work_dir outs) True (Inl e) w1
      | (Inr created, w1) \<Rightarrow>
          (case check_leaks os args archives manifests outs w1 of
             (r, w2) \<Rightarrow> finally_remove os (work_dir outs) created r w2))"

definition resolve_outputs :: "'w os \<Rightarrow> exec_args \<Rightarrow> ('w, outputs) act" where
  "resolve_outputs os args = getA (\<lambda>w.
     let prefix_dir = map_option (os_resolve os w) (prefix_out args);
         wheel_file = map_option (os_resolve os w) (wheel_out args)
     in bindA (case wheel_file of None \<Rightarrow> pureA (Inr ()) | Some f \<Rightarrow> os_mkdir os (parent f) True True) (\<lambda>_.
        case (prefix_dir, wheel_file) of
          (None, None) \<Rightarrow>
            pureA (fail ''plan declares no executable output binding; pass --prefix-out or --wheel-out'' [])
        | (Some p, _) \<Rightarrow>
            pureA (Inr \<lparr> prefix_dir = prefix_dir, wheel_file = wheel_file, output_root = p, work_dir = slash p ''.work'' \<rparr>)
        | (None, Some f) \<Rightarrow>
            pureA (Inr \<lparr> prefix_dir = prefix_dir, wheel_file = wheel_file, output_root = parent f,
                        work_dir = slash (parent f) ''.work'' \<rparr>)))"

definition make_work :: "'w os \<Rightarrow> outputs \<Rightarrow> ('w, unit) act" where
  "make_work os outs = getA (\<lambda>w.
     bindA (pureA (if os_exists os w (work_dir outs) then os_iterdir os w (work_dir outs) else Inr [])) (\<lambda>entries.
     if entries \<noteq> []
     then pureA (fail ''refusing non-empty work dir from a previous action: {}'' [JStr (path_text (work_dir outs))])
     else
       bindA (case prefix_dir outs of
                None \<Rightarrow> os_mkdir os (output_root outs) True True
              | Some p \<Rightarrow>
                  bindA (if os_exists os w p then os_rmtree os p else pureA (Inr ())) (\<lambda>_.
                    os_mkdir os p True False)) (\<lambda>_.
       os_mkdir os (work_dir outs) False False)))"

text \<open>Everything after the validation of the plan.\<close>

definition execute_checked :: "'w os \<Rightarrow> exec_args \<Rightarrow> dict \<Rightarrow> ('w, unit) act" where
  "execute_checked os args plan =
     bindA (pureA (output_kinds plan)) (\<lambda>kinds.
     bindA (pureA (check_output_bindings args kinds)) (\<lambda>_.
     getA (\<lambda>w.
     bindA (pureA (bind_sources os w args plan)) (\<lambda>archives.
     bindA (pureA (verify_rootfs os w args plan)) (\<lambda>rootfs.
     bindA (check_live_checks os ''rootfs identity'' (dget rootfs ''live_checks'')) (\<lambda>_.
     bindA (check_live_checks os ''plan'' (dget plan ''live_checks'')) (\<lambda>_.
     getA (\<lambda>w1.
     bindA (pureA (verify_extra_inputs os w1 plan (input_args args))) (\<lambda>_.
     bindA (pureA (verify_nested_cache_manifests os w1 plan (nested_cache_manifest_args args))) (\<lambda>manifests.
     bindA (pureA (resolve_nested args plan)) (\<lambda>nested.
     bindA (resolve_outputs os args) (\<lambda>outs.
     bindA (make_work os outs) (\<lambda>_.
       run_in_work os args plan rootfs archives manifests nested outs)))))))))))))"

definition execute_plan :: "'w os \<Rightarrow> nat \<Rightarrow> exec_args \<Rightarrow> ('w, unit) act" where
  "execute_plan os depth args =
     getA (\<lambda>w.
     bindA (pureA (read_json os w (plan_path args))) (\<lambda>plan.
     bindA (pureA (load_schema os w (schema_path args))) (\<lambda>schema.
     bindA (pureA (exec_validate_plan depth plan schema)) (\<lambda>_.
       execute_checked os args plan))))"

text \<open>\<^verbatim>\<open>main\<close>: a \<open>SystemExit\<close> becomes the exit code 2; any other exception leaves the program.\<close>

definition main :: "'w os \<Rightarrow> nat \<Rightarrow> exec_args \<Rightarrow> ('w, int) act" where
  "main os depth args w =
     (case execute_plan os depth args w of
        (Inr _, w') \<Rightarrow> (Inr 0, w')
      | (Inl (SystemExit _ _), w') \<Rightarrow> (Inr 2, w')
      | (Inl e, w') \<Rightarrow> (Inl e, w'))"

end
