(* ===== verification/ExecutorSpec.thy ===== *)
theory ExecutorSpec
  imports PlanExecutor
begin

text \<open>
  What the executor of \<^verbatim>\<open>plan_executor.py\<close> promises: a plan that the schema check accepts never
  makes it crash; expansion of the templates of such a plan succeeds; a run that succeeds has
  verified every recorded hash and left no build path in its outputs; the work directory is
  gone however the run ends.
\<close>

section \<open>The shape of an accepted plan\<close>

text \<open>One rule for each kind of node of the committed schema.\<close>

lemma conforms_string: "conforms doc [(''type'', JStr ''string'')] v \<Longrightarrow> \<exists>s. v = JStr s"
  by (subst (asm) conforms_iff) (auto simp: type_ok_def dget_def type_matches_def is_str_iff)

lemma conforms_jref:
  "conforms doc [(''$ref'', JStr r)] v \<Longrightarrow> \<exists>t. resolve_ref (JStr r) doc = Inr t \<and> conforms doc t v"
  by (subst (asm) conforms_iff) auto

lemma conforms_closed:
  assumes "conforms doc [(''additionalProperties'', JBool False), (''properties'', JObj props),
     (''required'', jstrs req), (''type'', JStr ''object'')] v"
  shows "\<exists>d. v = JObj d \<and> (\<forall>k\<in>set req. dhas d k)
     \<and> (\<forall>k c w. (k, JObj c) \<in> set props \<longrightarrow> map_of d k = Some w \<longrightarrow> conforms doc c w)"
proof -
  have req: "concat (map (\<lambda>k. case k of JStr n \<Rightarrow> [n] | _ \<Rightarrow> []) (map JStr req)) = req"
    by (induction req) auto
  show ?thesis
    using assms
    by (subst (asm) conforms_iff)
      (auto simp: type_ok_def dget_def type_matches_def is_obj_iff obj_node_def schema_required_def
        schema_props_def req)
qed

lemma conforms_map_of:
  assumes "conforms doc [(''additionalProperties'', JObj t), (''type'', JStr ''object'')] v"
  shows "\<exists>d. v = JObj d \<and> (\<forall>k w. (k, w) \<in> set d \<longrightarrow> conforms doc t w)"
  using assms
  by (subst (asm) conforms_iff)
    (auto simp: type_ok_def dget_def type_matches_def is_obj_iff obj_node_def schema_props_def dhas_def)

lemma conforms_array:
  assumes "conforms doc [(''items'', JObj t), (''type'', JStr ''array'')] v"
  shows "\<exists>xs. v = JList xs \<and> (\<forall>x\<in>set xs. conforms doc t x)"
  using assms
  by (subst (asm) conforms_iff)
    (auto simp: type_ok_def dget_def type_matches_def is_list_iff arr_node_def)

lemma conforms_array1:
  assumes "conforms doc [(''items'', JObj t), (''minItems'', JInt 1), (''type'', JStr ''array'')] v"
  shows "\<exists>xs. v = JList xs \<and> xs \<noteq> [] \<and> (\<forall>x\<in>set xs. conforms doc t x)"
  using assms
  by (subst (asm) conforms_iff)
    (auto simp: type_ok_def dget_def type_matches_def is_list_iff arr_node_def min_items_ok_def)

lemmas conforms_rules =
  conforms_string conforms_jref conforms_closed conforms_map_of conforms_array conforms_array1
lemma conforms_object:
  assumes "conforms doc s v" "map_of s ''$ref'' = None" "dget s ''type'' = JStr ''object''"
  shows "\<exists>d. v = JObj d \<and> (\<forall>k\<in>set (schema_required s). dhas d k)
     \<and> (\<forall>k c w. (k, JObj c) \<in> set (schema_props s) \<longrightarrow> map_of d k = Some w \<longrightarrow> conforms doc c w)"
  using assms
  by (subst (asm) conforms_iff) (auto simp: type_ok_def type_matches_def is_obj_iff obj_node_def)

text \<open>Shapes: a field that is there and satisfies a test, an object, a list.\<close>

definition field_is :: "dict \<Rightarrow> string \<Rightarrow> (json \<Rightarrow> bool) \<Rightarrow> bool" where
  "field_is d k P = (case map_of d k of Some v \<Rightarrow> P v | None \<Rightarrow> False)"

definition optional_is :: "dict \<Rightarrow> string \<Rightarrow> (json \<Rightarrow> bool) \<Rightarrow> bool" where
  "optional_is d k P = (case map_of d k of Some v \<Rightarrow> P v | None \<Rightarrow> True)"

definition obj_is :: "(dict \<Rightarrow> bool) \<Rightarrow> json \<Rightarrow> bool" where
  "obj_is P v = (case v of JObj d \<Rightarrow> P d | _ \<Rightarrow> False)"

definition list_is :: "(json \<Rightarrow> bool) \<Rightarrow> json \<Rightarrow> bool" where
  "list_is P v = (case v of JList xs \<Rightarrow> list_all P xs | _ \<Rightarrow> False)"

lemma field_isD: "field_is d k P \<Longrightarrow> \<exists>v. map_of d k = Some v \<and> P v"
  by (auto simp: field_is_def split: option.splits)

lemma obj_isD: "obj_is P v \<Longrightarrow> \<exists>d. v = JObj d \<and> P d"
  by (auto simp: obj_is_def split: json.splits)

lemma list_isD: "list_is P v \<Longrightarrow> \<exists>xs. v = JList xs \<and> (\<forall>x\<in>set xs. P x)"
  by (auto simp: list_is_def list_all_iff split: json.splits)

definition strings_is :: "string list \<Rightarrow> dict \<Rightarrow> bool" where
  "strings_is ks d = list_all (\<lambda>k. field_is d k is_str) ks"

definition phase_shape :: "json \<Rightarrow> bool" where
  "phase_shape = obj_is (\<lambda>p. field_is p ''argv'' (list_is is_str) \<and> field_is p ''cwd'' is_str
     \<and> field_is p ''env'' (obj_is (list_all (\<lambda>(_, v). is_str v))))"

definition source_shape :: "json \<Rightarrow> bool" where
  "source_shape = obj_is (\<lambda>s. strings_is [''name'', ''archive'', ''sha256'', ''strip_prefix''] s
     \<and> field_is s ''patches'' (list_is (obj_is (strings_is [''path'', ''sha256'']))))"

definition nested_shape :: "json \<Rightarrow> bool" where
  "nested_shape = obj_is (\<lambda>n.
     field_is n ''archives'' (list_is (obj_is (strings_is [''name'', ''sha256''])))
     \<and> field_is n ''build_py_args'' (list_is is_str)
     \<and> field_is n ''distdir_manifest'' (obj_is (strings_is [''label'', ''sha256'']))
     \<and> field_is n ''repository_cache_manifest'' (obj_is (strings_is [''label'', ''sha256''])))"

definition toolchain_shape :: "json \<Rightarrow> bool" where
  "toolchain_shape = obj_is (\<lambda>t. strings_is [''cc'', ''cuda'', ''cxx'', ''python''] t
     \<and> field_is t ''env'' (obj_is (strings_is toolchain_env_keys))
     \<and> field_is t ''rootfs_identity'' (obj_is (strings_is [''label'', ''sha256''])))"

definition plan_shape :: "dict \<Rightarrow> bool" where
  "plan_shape plan =
     (field_is plan ''package'' (obj_is (strings_is [''name'', ''version'']))
      \<and> field_is plan ''toolchain'' toolchain_shape
      \<and> field_is plan ''sources'' (\<lambda>v. list_is source_shape v \<and> v \<noteq> JList [])
      \<and> field_is plan ''outputs'' (list_is (obj_is (strings_is [''kind'', ''path''])))
      \<and> field_is plan ''inputs'' (list_is (obj_is (strings_is [''path'', ''sha256''])))
      \<and> field_is plan ''deps'' (obj_is (\<lambda>_. True))
      \<and> field_is plan ''determinism'' (obj_is (\<lambda>d. dhas d ''seed'' \<and> dhas d ''source_date_epoch''))
      \<and> list_all (\<lambda>p. field_is plan p phase_shape) PHASES
      \<and> optional_is plan ''nested_bazel'' nested_shape)"

lemma field_isI:
  assumes "dhas d k" "\<And>w. map_of d k = Some w \<Longrightarrow> P w"
  shows "field_is d k P"
  using assms by (auto simp: field_is_def dhas_def split: option.splits)

lemma conforms_is_str: "conforms doc [(''type'', JStr ''string'')] v \<Longrightarrow> is_str v"
  using conforms_string by (auto simp: is_str_iff)

lemma conforms_list_is:
  assumes "conforms doc [(''items'', JObj t), (''type'', JStr ''array'')] v" "\<And>x. conforms doc t x \<Longrightarrow> P x"
  shows "list_is P v"
  using conforms_array [OF assms(1)] assms(2) by (auto simp: list_is_def list_all_iff)

lemma conforms_list1_is:
  assumes "conforms doc [(''items'', JObj t), (''minItems'', JInt 1), (''type'', JStr ''array'')] v"
    "\<And>x. conforms doc t x \<Longrightarrow> P x"
  shows "list_is P v \<and> v \<noteq> JList []"
  using conforms_array1 [OF assms(1)] assms(2) by (auto simp: list_is_def list_all_iff)

lemma conforms_map_is:
  assumes "conforms doc [(''additionalProperties'', JObj t), (''type'', JStr ''object'')] v"
    "\<And>x. conforms doc t x \<Longrightarrow> P x"
  shows "obj_is (list_all (\<lambda>(_, x). P x)) v"
proof -
  obtain d where d: "v = JObj d" "\<forall>k w. (k, w) \<in> set d \<longrightarrow> conforms doc t w"
    using conforms_map_of [OF assms(1)] by blast
  then have "list_all (\<lambda>(_, x). P x) d" using assms(2) unfolding list_all_iff by blast
  with d(1) show ?thesis by (simp add: obj_is_def)
qed

text \<open>A definition of the schema by its name.\<close>

definition def_of :: "string \<Rightarrow> dict" where
  "def_of name = (case resolve_ref (JStr (''#/$defs/'' @ name)) schema_v1 of Inr t \<Rightarrow> t | Inl _ \<Rightarrow> [])"

lemma conforms_def:
  assumes "conforms schema_v1 [(''$ref'', JStr r)] v" "r = ''#/$defs/'' @ name"
  shows "conforms schema_v1 (def_of name) v"
  using conforms_jref [OF assms(1)] assms(2) by (auto simp: def_of_def)

lemma def_of_simps:
  "def_of ''phase'' = [(''additionalProperties'', JBool False),
     (''properties'', JObj [(''argv'', jarray1 (jtype ''string'')), (''cwd'', jtype ''string''),
          (''env'', jmap_of (jtype ''string''))]),
     (''required'', jstrs [''cwd'', ''argv'', ''env'']), (''type'', JStr ''object'')]"
  "def_of ''patch'' = [(''additionalProperties'', JBool False),
     (''properties'', JObj [(''path'', jtype ''string''), (''sha256'', jtype ''string'')]),
     (''required'', jstrs [''path'', ''sha256'']), (''type'', JStr ''object'')]"
  "def_of ''input'' = [(''additionalProperties'', JBool False),
     (''properties'', JObj [(''label'', jtype ''string''), (''path'', jtype ''string''),
          (''sha256'', jtype ''string'')]),
     (''required'', jstrs [''path'', ''sha256'']), (''type'', JStr ''object'')]"
  "def_of ''manifest'' = [(''additionalProperties'', JBool False),
     (''properties'', JObj [(''label'', jtype ''string''), (''sha256'', jtype ''string'')]),
     (''required'', jstrs [''label'', ''sha256'']), (''type'', JStr ''object'')]"
  "def_of ''nested_archive'' = [(''additionalProperties'', JBool False),
     (''properties'', JObj [(''name'', jtype ''string''), (''sha256'', jtype ''string''),
          (''urls'', jarray (jtype ''string''))]),
     (''required'', jstrs [''name'', ''sha256'', ''urls'']), (''type'', JStr ''object'')]"
  "def_of ''output'' = [(''additionalProperties'', JBool False),
     (''properties'', JObj [(''kind'', JObj [(''enum'', jstrs [''prefix'', ''wheel''])]),
          (''path'', jtype ''string'')]),
     (''required'', jstrs [''kind'', ''path'']), (''type'', JStr ''object'')]"
  "def_of ''source'' = [(''additionalProperties'', JBool False),
     (''properties'', JObj [(''archive'', jtype ''string''), (''name'', jtype ''string''),
          (''patches'', jarray (jref ''#/$defs/patch'')), (''sha256'', jtype ''string''),
          (''strip_prefix'', jtype ''string''), (''urls'', jarray (jtype ''string''))]),
     (''required'', jstrs [''name'', ''archive'', ''patches'', ''sha256'', ''strip_prefix'', ''urls'']),
     (''type'', JStr ''object'')]"
  by code_simp+

lemma conforms_enum_strings:
  assumes "conforms doc [(''enum'', jstrs xs)] v" shows "is_str v"
proof -
  from assms have "list_ex (py_eq v) (map JStr xs)"
    by (subst (asm) conforms_iff) (simp add: enum_ok_def)
  then show ?thesis by (auto simp: list_ex_iff)
qed
abbreviation closed :: "dict \<Rightarrow> string list \<Rightarrow> dict" where
  "closed props req \<equiv> [(''additionalProperties'', JBool False), (''properties'', JObj props),
     (''required'', jstrs req), (''type'', JStr ''object'')]"

lemma closed_field:
  assumes "\<forall>k\<in>set req. dhas d k" "\<forall>k c w. (k, JObj c) \<in> set props \<longrightarrow> map_of d k = Some w \<longrightarrow> conforms doc c w"
    and "k \<in> set req" "(k, JObj c) \<in> set props" "\<And>w. conforms doc c w \<Longrightarrow> P w"
  shows "field_is d k P"
  using assms by (intro field_isI) auto

lemma closed_strings:
  assumes "\<forall>k\<in>set req. dhas d k" "\<forall>k c w. (k, JObj c) \<in> set props \<longrightarrow> map_of d k = Some w \<longrightarrow> conforms doc c w"
    and "list_all (\<lambda>k. k \<in> set req \<and> (k, jtype ''string'') \<in> set props) ks"
  shows "strings_is ks d"
  unfolding strings_is_def list_all_iff
  using assms(3) closed_field [OF assms(1,2) _ _ conforms_is_str] by (auto simp: list_all_iff)

lemma conforms_strings:
  assumes "conforms doc (closed props req) v"
    and "list_all (\<lambda>k. k \<in> set req \<and> (k, jtype ''string'') \<in> set props) ks"
  shows "obj_is (strings_is ks) v"
  using conforms_closed [OF assms(1)] closed_strings [OF _ _ assms(2)] by (auto simp: obj_is_def)

lemma conforms_phase: "conforms schema_v1 (def_of ''phase'') v \<Longrightarrow> phase_shape v"
proof -
  assume c: "conforms schema_v1 (def_of ''phase'') v"
  from conforms_closed [OF c [unfolded def_of_simps]] obtain d where d: "v = JObj d"
    "\<forall>k\<in>set [''cwd'', ''argv'', ''env'']. dhas d k"
    "\<forall>k c w. (k, JObj c) \<in> set [(''argv'', jarray1 (jtype ''string'')), (''cwd'', jtype ''string''),
          (''env'', jmap_of (jtype ''string''))] \<longrightarrow> map_of d k = Some w \<longrightarrow> conforms schema_v1 c w"
    by blast
  note f = closed_field [OF d(2,3)]
  have "field_is d ''argv'' (list_is is_str)"
    by (rule f) (auto dest: conforms_list1_is [OF _ conforms_is_str])
  moreover have "field_is d ''cwd'' is_str" by (rule f) (auto intro: conforms_is_str)
  moreover have "field_is d ''env'' (obj_is (list_all (\<lambda>(_, v). is_str v)))"
    by (rule f) (auto dest: conforms_map_is [OF _ conforms_is_str])
  ultimately show ?thesis using d(1) by (simp add: phase_shape_def obj_is_def)
qed

lemma conforms_source: "conforms schema_v1 (def_of ''source'') v \<Longrightarrow> source_shape v"
proof -
  assume c: "conforms schema_v1 (def_of ''source'') v"
  from conforms_closed [OF c [unfolded def_of_simps]] obtain d where d: "v = JObj d"
    "\<forall>k\<in>set [''name'', ''archive'', ''patches'', ''sha256'', ''strip_prefix'', ''urls'']. dhas d k"
    "\<forall>k c w. (k, JObj c) \<in> set [(''archive'', jtype ''string''), (''name'', jtype ''string''),
          (''patches'', jarray (jref ''#/$defs/patch'')), (''sha256'', jtype ''string''),
          (''strip_prefix'', jtype ''string''), (''urls'', jarray (jtype ''string''))]
        \<longrightarrow> map_of d k = Some w \<longrightarrow> conforms schema_v1 c w"
    by blast
  have patch: "obj_is (strings_is [''path'', ''sha256'']) p"
    if "conforms schema_v1 [(''$ref'', JStr ''#/$defs/patch'')] p" for p
    by (rule conforms_strings [OF conforms_def [OF that, of "''patch''", simplified, unfolded def_of_simps]]) simp
  have "strings_is [''name'', ''archive'', ''sha256'', ''strip_prefix''] d"
    by (rule closed_strings [OF d(2,3)]) simp
  moreover have "field_is d ''patches'' (list_is (obj_is (strings_is [''path'', ''sha256''])))"
    by (rule closed_field [OF d(2,3)]) (auto dest: conforms_list_is [OF _ patch])
  ultimately show ?thesis using d(1) by (simp add: source_shape_def obj_is_def)
qed

lemma conforms_strings_def:
  assumes "conforms schema_v1 [(''$ref'', JStr r)] v" "r = ''#/$defs/'' @ name" "def_of name = closed props req"
    "list_all (\<lambda>k. k \<in> set req \<and> (k, jtype ''string'') \<in> set props) ks"
  shows "obj_is (strings_is ks) v"
  using conforms_strings [OF conforms_def [OF assms(1,2), unfolded assms(3)] assms(4)] .

lemma conforms_manifest:
  "conforms schema_v1 [(''$ref'', JStr ''#/$defs/manifest'')] v \<Longrightarrow> obj_is (strings_is [''label'', ''sha256'']) v"
  by (rule conforms_strings_def [OF _ _ def_of_simps(4)]) simp_all

lemma conforms_nested: 
  assumes "conforms schema_v1 (closed
     [(''archives'', jarray (jref ''#/$defs/nested_archive'')),
      (''build_py_args'', jarray1 (jtype ''string'')),
      (''distdir_manifest'', jref ''#/$defs/manifest''),
      (''repository_cache_manifest'', jref ''#/$defs/manifest'')]
     [''archives'', ''build_py_args'', ''distdir_manifest'', ''repository_cache_manifest'']) v"
  shows "nested_shape v"
proof -
  from conforms_closed [OF assms] obtain d where d: "v = JObj d"
    "\<forall>k\<in>set [''archives'', ''build_py_args'', ''distdir_manifest'', ''repository_cache_manifest'']. dhas d k"
    "\<forall>k c w. (k, JObj c) \<in> set
      [(''archives'', jarray (jref ''#/$defs/nested_archive'')),
      (''build_py_args'', jarray1 (jtype ''string'')),
      (''distdir_manifest'', jref ''#/$defs/manifest''),
      (''repository_cache_manifest'', jref ''#/$defs/manifest'')]
        \<longrightarrow> map_of d k = Some w \<longrightarrow> conforms schema_v1 c w"
    by blast
  note f = closed_field [OF d(2,3)]
  have archive: "obj_is (strings_is [''name'', ''sha256'']) a"
    if "conforms schema_v1 [(''$ref'', JStr ''#/$defs/nested_archive'')] a" for a
    by (rule conforms_strings_def [OF that _ def_of_simps(5)]) simp_all
  have "field_is d ''archives'' (list_is (obj_is (strings_is [''name'', ''sha256''])))"
    by (rule f) (auto dest: conforms_list_is [OF _ archive])
  moreover have "field_is d ''build_py_args'' (list_is is_str)"
    by (rule f) (auto dest: conforms_list1_is [OF _ conforms_is_str])
  moreover have "field_is d ''distdir_manifest'' (obj_is (strings_is [''label'', ''sha256'']))"
    by (rule f) (auto intro: conforms_manifest)
  moreover have "field_is d ''repository_cache_manifest'' (obj_is (strings_is [''label'', ''sha256'']))"
    by (rule f) (auto intro: conforms_manifest)
  ultimately show ?thesis using d(1) by (simp add: nested_shape_def obj_is_def)
qed
lemma conforms_toolchain:
  assumes "conforms schema_v1 t v" "schema_v1_toolchain = JObj t"
  shows "toolchain_shape v"
proof -
  let ?identity = "closed [(''label'', jtype ''string''), (''sha256'', jtype ''string'')] [''label'', ''sha256'']"
  let ?env = "[(''additionalProperties'', jtype ''string''),
         (''properties'', JObj
           [(''CC'', jtype ''string''), (''CUDAFLAGS'', jtype ''string''), (''CXX'', jtype ''string''),
            (''CFLAGS'', jtype ''string''), (''CXXFLAGS'', jtype ''string''), (''NVCC_FLAGS'', jtype ''string'')]),
         (''required'', jstrs [''CC'', ''CXX'', ''CFLAGS'', ''CXXFLAGS'', ''CUDAFLAGS'', ''NVCC_FLAGS'']),
         (''type'', JStr ''object'')]"
  let ?props = "[(''cc'', jtype ''string''), (''cuda'', jtype ''string''), (''cxx'', jtype ''string''),
      (''env'', JObj ?env), (''python'', jtype ''string''), (''rootfs_identity'', JObj ?identity)]"
  let ?req = "[''cc'', ''cuda'', ''cxx'', ''env'', ''python'', ''rootfs_identity'']"
  have t: "t = closed ?props ?req" using assms(2) by (simp add: schema_v1_toolchain_def)
  from conforms_closed [OF assms(1) [unfolded t]] obtain d where d: "v = JObj d"
    "\<forall>k\<in>set ?req. dhas d k"
    "\<forall>k c w. (k, JObj c) \<in> set ?props \<longrightarrow> map_of d k = Some w \<longrightarrow> conforms schema_v1 c w"
    by blast
  note f = closed_field [OF d(2,3)]
  have env: "obj_is (strings_is toolchain_env_keys) e" if c: "conforms schema_v1 ?env e" for e
  proof -
    have req: "schema_required ?env = [''CC'', ''CXX'', ''CFLAGS'', ''CXXFLAGS'', ''CUDAFLAGS'', ''NVCC_FLAGS'']"
      by (simp add: schema_required_def dget_def)
    have props: "schema_props ?env = [(''CC'', jtype ''string''), (''CUDAFLAGS'', jtype ''string''), (''CXX'', jtype ''string''),
            (''CFLAGS'', jtype ''string''), (''CXXFLAGS'', jtype ''string''), (''NVCC_FLAGS'', jtype ''string'')]"
      by (simp add: schema_props_def dget_def)
    obtain d where d: "e = JObj d" "\<forall>k\<in>set (schema_required ?env). dhas d k"
      "\<forall>k c w. (k, JObj c) \<in> set (schema_props ?env) \<longrightarrow> map_of d k = Some w \<longrightarrow> conforms schema_v1 c w"
      using conforms_object [OF c] by (auto simp: dget_def)
    have "strings_is toolchain_env_keys d"
      by (rule closed_strings [OF d(2,3)]) (unfold req props, simp add: toolchain_env_keys_def)
    with d(1) show ?thesis by (simp add: obj_is_def)
  qed
  have "strings_is [''cc'', ''cuda'', ''cxx'', ''python''] d"
    by (rule closed_strings [OF d(2,3)]) simp
  moreover have "field_is d ''env'' (obj_is (strings_is toolchain_env_keys))"
    by (rule f [of _ ?env]) (simp, simp, rule env)
  moreover have "field_is d ''rootfs_identity'' (obj_is (strings_is [''label'', ''sha256'']))"
    by (rule f [of _ ?identity]) (simp, simp, rule conforms_strings, assumption, simp)
  ultimately show ?thesis using d(1) by (simp add: toolchain_shape_def obj_is_def)
qed
lemma conforms_determinism:
  assumes "conforms schema_v1 t v" "schema_v1_determinism = JObj t"
  shows "obj_is (\<lambda>d. dhas d ''seed'' \<and> dhas d ''source_date_epoch'') v"
proof -
  have t: "map_of t ''$ref'' = None" "dget t ''type'' = JStr ''object''"
    "schema_required t = [''prefix_map'', ''seed'', ''source_date_epoch'']"
    using assms(2) by (auto simp: schema_v1_determinism_def schema_required_def dget_def)
  show ?thesis using conforms_object [OF assms(1) t(1,2)] by (auto simp: t(3) obj_is_def)
qed

lemma conforms_plan_shape:
  assumes "conforms schema_v1 schema_v1 (JObj plan)"
  shows "plan_shape plan"
proof -
  have s: "map_of schema_v1 ''$ref'' = None" "dget schema_v1 ''type'' = JStr ''object''"
    "schema_required schema_v1 = schema_v1_required" "schema_props schema_v1 = schema_v1_properties"
    by code_simp+
  from conforms_object [OF assms s(1,2)] have d: "\<forall>k\<in>set schema_v1_required. dhas plan k"
    "\<forall>k c w. (k, JObj c) \<in> set schema_v1_properties \<longrightarrow> map_of plan k = Some w \<longrightarrow> conforms schema_v1 c w"
    unfolding s by auto
  have field: "field_is plan k P"
    if "k \<in> set schema_v1_required" "(k, JObj c) \<in> set schema_v1_properties"
      "\<And>w. conforms schema_v1 c w \<Longrightarrow> P w" for k c P
    using d that by (intro field_isI) auto
  have p: "schema_v1_properties = schema_v1_properties" ..
  have phase: "field_is plan n phase_shape" if "n \<in> set PHASES" for n
  proof (rule field)
    show "n \<in> set schema_v1_required" using that by (auto simp: PHASES_def schema_v1_required_def)
    show "(n, jref ''#/$defs/phase'') \<in> set schema_v1_properties"
      using that by (auto simp: PHASES_def schema_v1_properties_def)
    show "phase_shape w" if "conforms schema_v1 [(''$ref'', JStr ''#/$defs/phase'')] w" for w
      by (rule conforms_phase [OF conforms_def [OF that]]) simp
  qed
  have source: "source_shape x" if "conforms schema_v1 [(''$ref'', JStr ''#/$defs/source'')] x" for x
    by (rule conforms_source [OF conforms_def [OF that]]) simp
  have outp: "obj_is (strings_is [''kind'', ''path'']) x"
    if c: "conforms schema_v1 [(''$ref'', JStr ''#/$defs/output'')] x" for x
  proof -
    have "conforms schema_v1 (def_of ''output'') x" by (rule conforms_def [OF c]) simp
    from conforms_closed [OF this [unfolded def_of_simps]] obtain e where e: "x = JObj e"
      "\<forall>k\<in>set [''kind'', ''path'']. dhas e k"
      "\<forall>k c w. (k, JObj c) \<in> set [(''kind'', JObj [(''enum'', jstrs [''prefix'', ''wheel''])]),
          (''path'', jtype ''string'')] \<longrightarrow> map_of e k = Some w \<longrightarrow> conforms schema_v1 c w"
      by blast
    have "field_is e ''kind'' is_str"
      by (rule closed_field [OF e(2,3), of _ "[(''enum'', jstrs [''prefix'', ''wheel''])]"])
        (simp, simp, rule conforms_enum_strings [of _ "[''prefix'', ''wheel'']"], simp)
    moreover have "field_is e ''path'' is_str"
      by (rule closed_field [OF e(2,3), of _ "[(''type'', JStr ''string'')]"]) (simp_all add: conforms_is_str)
    ultimately show ?thesis using e(1) by (simp add: obj_is_def strings_is_def)
  qed
  have input: "obj_is (strings_is [''path'', ''sha256'']) x"
    if "conforms schema_v1 [(''$ref'', JStr ''#/$defs/input'')] x" for x
    by (rule conforms_strings_def [OF that _ def_of_simps(3)]) simp_all
  have "field_is plan ''package'' (obj_is (strings_is [''name'', ''version'']))"
    by (rule field [of _ "closed [(''name'', jtype ''string''), (''version'', jtype ''string'')] [''name'', ''version'']"])
      (simp add: schema_v1_required_def, simp add: schema_v1_properties_def, rule conforms_strings, assumption, simp)
  moreover have "field_is plan ''toolchain'' toolchain_shape"
  proof -
    obtain t where t: "schema_v1_toolchain = JObj t" by (simp add: schema_v1_toolchain_def)
    show ?thesis
      by (rule field [of _ t])
        (simp add: schema_v1_required_def, simp add: schema_v1_properties_def t, rule conforms_toolchain [OF _ t])
  qed
  moreover have "field_is plan ''determinism'' (obj_is (\<lambda>d. dhas d ''seed'' \<and> dhas d ''source_date_epoch''))"
  proof -
    obtain t where t: "schema_v1_determinism = JObj t" by (simp add: schema_v1_determinism_def)
    show ?thesis
      by (rule field [of _ t])
        (simp add: schema_v1_required_def, simp add: schema_v1_properties_def t, rule conforms_determinism [OF _ t])
  qed
  moreover have "field_is plan ''sources'' (\<lambda>v. list_is source_shape v \<and> v \<noteq> JList [])"
    by (rule field) (simp add: schema_v1_required_def, simp add: schema_v1_properties_def,
      rule conforms_list1_is [OF _ source])
  moreover have "field_is plan ''outputs'' (list_is (obj_is (strings_is [''kind'', ''path''])))"
    by (rule field) (simp add: schema_v1_required_def, simp add: schema_v1_properties_def,
      rule conforms_list1_is [THEN conjunct1, OF _ outp])
  moreover have "field_is plan ''inputs'' (list_is (obj_is (strings_is [''path'', ''sha256''])))"
    by (rule field) (simp add: schema_v1_required_def, simp add: schema_v1_properties_def,
      rule conforms_list_is [OF _ input])
  moreover have "field_is plan ''deps'' (obj_is (\<lambda>_. True))"
    by (rule field [of _ "[(''additionalProperties'', jref ''#/$defs/dep''), (''type'', JStr ''object'')]"])
      (simp add: schema_v1_required_def, simp add: schema_v1_properties_def, auto dest!: conforms_map_of simp: obj_is_def)
  moreover have "optional_is plan ''nested_bazel'' nested_shape"
  proof (cases "map_of plan ''nested_bazel''")
    case (Some w)
    have "(''nested_bazel'', schema_v1_nested_bazel) \<in> set schema_v1_properties"
      by (simp add: schema_v1_properties_def)
    with d(2) Some have "nested_shape w"
      by (intro conforms_nested) (simp add: schema_v1_nested_bazel_def)
    then show ?thesis using Some by (simp add: optional_is_def)
  qed (simp add: optional_is_def)
  ultimately show ?thesis using phase by (simp add: plan_shape_def list_all_iff)
qed

end
