(* ===== verification/ExecutorSample.thy ===== *)
theory ExecutorSample
  imports PlanExecutor
begin

text \<open>
  A plan, a command line and a machine on which the theorems about the executor are applied.
  The world of the machine is the list of commands that were run, the texts of the files that
  were written, and whether the work directory exists.
\<close>

definition sample_phase :: "string \<Rightarrow> json" where
  "sample_phase tool = JObj
     [(''argv'', jstrs [tool, ''--prefix={out}'', ''-j{jobs}'']), (''cwd'', JStr ''{src}''),
      (''env'', JObj [(''DEP'', JStr ''{prefix:zlib}'')])]"

definition sample_checks :: json where
  "sample_checks = JObj [(''commands'', JList [JObj
     [(''name'', JStr ''cc''), (''argv'', jstrs [''cc'', ''--version'']), (''expect_stdout'', JStr ''ok'')]])]"

definition sample_plan :: dict where
  "sample_plan =
     [(''schema'', JInt 1), (''profile'', JStr ''torch''), (''line'', JStr ''cu130''),
      (''package'', JObj [(''name'', JStr ''pkg''), (''version'', JStr ''1'')]),
      (''sources'', JList [JObj
         [(''name'', JStr ''main''), (''archive'', JStr ''a.tar''), (''patches'', JList []),
          (''sha256'', JStr ''s''), (''strip_prefix'', JStr ''pkg-1''), (''urls'', JList [])]]),
      (''toolchain'', JObj
         [(''cc'', JStr ''cc''), (''cxx'', JStr ''c++''), (''cuda'', JStr ''cuda''), (''python'', JStr ''py''),
          (''env'', JObj
            [(''CC'', JStr ''cc''), (''CXX'', JStr ''c++''), (''CFLAGS'', JStr ''-O2''), (''CXXFLAGS'', JStr ''-O2''),
             (''CUDAFLAGS'', JStr []), (''NVCC_FLAGS'', JStr [])]),
          (''rootfs_identity'', JObj [(''label'', JStr ''rootfs''), (''sha256'', JStr ''s'')])]),
      (''deps'', JObj [(''zlib'', JObj [(''label'', JStr ''zlib''), (''key'', JStr ''k'')])]),
      (''configure'', sample_phase ''./configure''),
      (''build'', sample_phase ''make''),
      (''install'', sample_phase ''make-install''),
      (''outputs'', JList [JObj [(''kind'', JStr ''prefix''), (''path'', JStr ''{out}'')]]),
      (''inputs'', JList []),
      (''gpu_archs'', JList []),
      (''determinism'', JObj
         [(''prefix_map'', JObj []), (''seed'', JStr ''sha256:0''), (''source_date_epoch'', JInt 1)]),
      (''live_checks'', sample_checks)]"

record sample_world =
  ran :: "string list list"
  written :: "(string \<times> string) list"
  has_work :: bool

definition work_path :: ppath where
  "work_path = parse ''/b/out/.work''"

definition sample_os :: "string \<Rightarrow> string \<Rightarrow> sample_world os" where
  \<comment> \<open>a machine whose files all have one digest and one content below the output\<close>
  "sample_os digest content =
     \<lparr> os_environ = (\<lambda>k. if k = ''PATH'' then Some ''/bin'' else None),
       os_cpu_count = 4,
       os_cwd = parse ''/b'',
       str_of = (\<lambda>v. case v of JInt i \<Rightarrow> string_of_int i | _ \<Rightarrow> []),
       json_loads = (\<lambda>t. if t = ''plan'' then Some (JObj sample_plan)
          else if t = ''schema'' then Some (JObj schema_v1)
          else if t = ''rootfs'' then Some (JObj [(''live_checks'', sample_checks)]) else None),
       os_sha256 = (\<lambda>w p. Inr digest),
       os_read_text = (\<lambda>w p. Inr (path_text p)),
       os_read_bytes = (\<lambda>w p. Inr content),
       os_exists = (\<lambda>w p. if p = work_path then has_work w else True),
       os_is_file = (\<lambda>w p. True),
       os_is_dir = (\<lambda>w p. True),
       os_is_symlink = (\<lambda>w p. False),
       os_readlink = (\<lambda>w p. Inl OSError),
       os_resolve = (\<lambda>w p. if absolute p then p else joinpath (parse ''/b'') p),
       os_iterdir = (\<lambda>w p. Inr []),
       os_rglob = (\<lambda>w p. [parse ''/b/out/lib/x'']),
       os_zip = (\<lambda>w p. None),
       os_tar = (\<lambda>w p. Inr []),
       os_mkdir = (\<lambda>p a b w. (Inr (), if p = work_path then w\<lparr>has_work := True\<rparr> else w)),
       os_rmtree = (\<lambda>p w. (Inr (), if p = work_path then w\<lparr>has_work := False\<rparr> else w)),
       os_write_text = (\<lambda>p t w. (Inr (), w\<lparr>written := written w @ [(path_text p, t)]\<rparr>)),
       os_extractall = (\<lambda>p q w. (Inr (), w)),
       os_run = (\<lambda>argv cwd env w. (Inr (0, ''ok''), w\<lparr>ran := ran w @ [argv]\<rparr>)) \<rparr>"

definition sample_args :: exec_args where
  "sample_args =
     \<lparr> plan_path = parse ''plan'', schema_path = parse ''schema'', source_archive_args = [''src/a.tar''],
       rootfs_identity_path = parse ''rootfs'', prefix_out = Some (parse ''out''), wheel_out = None,
       patch_args = [], dep_prefix_args = [''zlib=deps/zlib''], input_args = [],
       nested_cache_manifest_args = [],
       nested_runtime = \<lparr> nested_distdir = None, nested_repository_cache = None, nested_disk_cache = None \<rparr> \<rparr>"

definition clean_world :: sample_world where
  "clean_world = \<lparr> ran = [], written = [], has_work = False \<rparr>"

lemma sample_plan_valid: "validate_plan 8 sample_plan schema_v1 = Inr []"
  by code_simp

lemma sample_plan_checks:
  "validate_package sample_plan = Inr ()" "validate_toolchain sample_plan = Inr ()"
  "exec_source_names sample_plan = Inr [''main'']" "output_kinds sample_plan = Inr [''prefix'']"
  "validate_nested sample_plan = Inr ()"
  by code_simp+

lemma sample_reads:
  "read_json (sample_os digest content) w (plan_path sample_args) = Inr sample_plan"
  "load_schema (sample_os digest content) w (schema_path sample_args) = Inr schema_v1"
proof -
  have p: "path_text (plan_path sample_args) = ''plan''" "path_text (schema_path sample_args) = ''schema''"
    by code_simp+
  show "read_json (sample_os digest content) w (plan_path sample_args) = Inr sample_plan"
    "load_schema (sample_os digest content) w (schema_path sample_args) = Inr schema_v1"
    by (simp_all add: read_json_def load_schema_def sample_os_def p)
qed

lemma sample_start:
  "execute_plan (sample_os digest content) 8 sample_args w
     = execute_checked (sample_os digest content) sample_args sample_plan w"
  by (simp add: execute_plan_def sample_reads exec_validate_plan_def sample_plan_valid sample_plan_checks
      bindA_def pureA_def getA_def)

lemma sample_run:
  "execute_plan (sample_os ''s'' ''clean'') 8 sample_args clean_world
     = (Inr (), \<lparr> ran = [[''cc'', ''--version''], [''cc'', ''--version''],
          [''./configure'', ''--prefix=/b/out'', ''-j4''], [''make'', ''--prefix=/b/out'', ''-j4''],
          [''make-install'', ''--prefix=/b/out'', ''-j4'']], written = [], has_work = False \<rparr>)"
  unfolding sample_start by code_simp

lemma sample_run_bad_digest:
  "execute_plan (sample_os ''other'' ''clean'') 8 sample_args clean_world
     = (Inl (SystemExit ''source archive sha256 mismatch for {}: expected {}, got {}''
              [JStr ''main'', JStr ''s'', JStr ''other'']), clean_world)"
  unfolding sample_start by code_simp

end
