(* ===== verification/ExecutorCalm.thy ===== *)
theory ExecutorCalm
  imports ExecutorSpec ExecutorSample
begin

text \<open>
  A plan that the schema check accepts cannot make the executor crash: every exception that
  leaves \<^verbatim>\<open>execute_plan\<close> is a \<open>SystemExit\<close> with a message or comes from the machine. \<open>calm\<close> says it
  of a result, \<open>calmA\<close> of an operation on the world; there is one rule for each way of
  composing them and one lemma for each function of the executor.
\<close>

section \<open>Results and operations that cannot crash\<close>

fun crash :: "pyexn \<Rightarrow> bool" where
  "crash (KeyError k) = True"
| "crash TypeError = True"
| "crash AttributeError = True"
| "crash IndexError = True"
| "crash AssertionError = True"
| "crash RecursionError = True"
| "crash _ = False"

definition calm :: "'a res \<Rightarrow> bool" where
  "calm r = (case r of Inl e \<Rightarrow> \<not> crash e | Inr _ \<Rightarrow> True)"

definition calmA :: "('w, 'a) act \<Rightarrow> bool" where
  "calmA m = (\<forall>w. calm (fst (m w)))"

named_theorems calm_intros \<open>composition rules for operations that cannot crash\<close>

lemma calm_Inr [simp]: "calm (Inr x)"
  by (simp add: calm_def)

lemma calm_Inl [simp]: "calm (Inl e) \<longleftrightarrow> \<not> crash e"
  by (simp add: calm_def)

lemma calm_bindE [calm_intros]:
  "calm m \<Longrightarrow> (\<And>x. m = Inr x \<Longrightarrow> calm (f x)) \<Longrightarrow> calm (bindE m f)"
  by (cases m) (auto simp: calm_def)

lemma calm_mapE [calm_intros]: "(\<And>x. x \<in> set xs \<Longrightarrow> calm (f x)) \<Longrightarrow> calm (mapE f xs)"
  by (induction xs) (auto intro!: calm_bindE)

lemma calm_concatE [calm_intros]: "(\<And>x. x \<in> set xs \<Longrightarrow> calm (f x)) \<Longrightarrow> calm (concatE f xs)"
  unfolding concatE_def by (intro calm_bindE calm_mapE) auto

lemma calm_foldE [calm_intros]: "(\<And>s x. x \<in> set xs \<Longrightarrow> calm (f s x)) \<Longrightarrow> calm (foldE f s xs)"
  by (induction xs arbitrary: s) (auto intro!: calm_bindE)

lemma calmA_pureA [calm_intros]: "calm r \<Longrightarrow> calmA (pureA r)"
  by (simp add: calmA_def pureA_def)

lemma calmA_bindA [calm_intros]:
  assumes "calmA m" "\<And>x w w'. m w = (Inr x, w') \<Longrightarrow> calmA (f x)"
  shows "calmA (bindA m f)"
  unfolding calmA_def
proof
  fix w
  show "calm (fst (bindA m f w))"
  proof (cases "m w")
    case (Pair r w')
    show ?thesis
    proof (cases r)
      case (Inl e)
      moreover have "calm (fst (m w))" using assms(1) by (simp add: calmA_def)
      ultimately show ?thesis using Pair by (simp add: bindA_def)
    next
      case (Inr x)
      then have "calmA (f x)" using assms(2) [of w x w'] Pair by simp
      then have "calm (fst (f x w'))" by (simp add: calmA_def)
      then show ?thesis using Pair Inr by (simp add: bindA_def)
    qed
  qed
qed

lemma calmA_getA [calm_intros]: "(\<And>w. calmA (f w)) \<Longrightarrow> calmA (getA f)"
  by (simp add: calmA_def getA_def)

lemma calmA_forA [calm_intros]: "(\<And>x. x \<in> set xs \<Longrightarrow> calmA (f x)) \<Longrightarrow> calmA (forA f xs)"
  by (induction xs) (auto intro!: calmA_bindA calmA_pureA)

lemma calmA_mapA [calm_intros]: "(\<And>x. x \<in> set xs \<Longrightarrow> calmA (f x)) \<Longrightarrow> calmA (mapA f xs)"
  by (induction xs) (auto intro!: calmA_bindA calmA_pureA)

text \<open>
  The machine raises only its own exceptions. This is what the standard library documents of
  these calls; none of them is a lookup in a dictionary of the program.
\<close>

definition os_calm :: "'w os \<Rightarrow> bool" where
  "os_calm os =
     ((\<forall>w p. calm (os_sha256 os w p)) \<and> (\<forall>w p. calm (os_read_text os w p))
      \<and> (\<forall>w p. calm (os_read_bytes os w p)) \<and> (\<forall>w p. calm (os_readlink os w p))
      \<and> (\<forall>w p. calm (os_iterdir os w p)) \<and> (\<forall>w p. calm (os_tar os w p))
      \<and> (\<forall>p a b. calmA (os_mkdir os p a b)) \<and> (\<forall>p. calmA (os_rmtree os p))
      \<and> (\<forall>p t. calmA (os_write_text os p t)) \<and> (\<forall>p q. calmA (os_extractall os p q))
      \<and> (\<forall>argv cwd env. calmA (os_run os argv cwd env)))"

lemma os_calmD [calm_intros]:
  assumes "os_calm os"
  shows "calm (os_sha256 os w p)" "calm (os_read_text os w p)" "calm (os_read_bytes os w p)"
    "calm (os_readlink os w p)" "calm (os_iterdir os w p)" "calm (os_tar os w p)"
    "calmA (os_mkdir os p a b)" "calmA (os_rmtree os p)" "calmA (os_write_text os p t)"
    "calmA (os_extractall os p q)" "calmA (os_run os argv cwd env)"
  using assms by (simp_all add: os_calm_def)

section \<open>The functions of the executor\<close>

lemma calm_require [calm_intros]:
  "calm (require_mapping v n)" "calm (require_string v n)" "calm (require_list v n)"
  by (auto simp: require_mapping_def require_string_def require_list_def split: json.splits)

lemma calm_field [calm_intros]:
  assumes "dhas d k"
  shows "calm (ditem d k)" "calm (mapping_field d k n)" "calm (list_field d k n)" "calm (string_field d k n)"
proof -
  show i: "calm (ditem d k)" using assms by (auto simp: ditem_def dhas_def)
  show "calm (mapping_field d k n)" "calm (list_field d k n)" "calm (string_field d k n)"
    unfolding mapping_field_def list_field_def string_field_def
    by (intro calm_bindE i calm_require)+
qed

lemma dhas_field: "field_is d k P \<Longrightarrow> dhas d k"
  by (auto simp: field_is_def dhas_def split: option.splits)

lemma mapping_field_obj:
  "mapping_field d k n = Inr e \<Longrightarrow> field_is d k (obj_is P) \<Longrightarrow> P e"
  by (auto simp: mapping_field_def ditem_def field_is_def obj_is_def require_mapping_def
      split: option.splits json.splits)

lemma require_Inr [simp]:
  "require_mapping v n = Inr d \<longleftrightarrow> v = JObj d"
  "require_list v n = Inr xs \<longleftrightarrow> v = JList xs"
  "require_string v n = Inr s \<longleftrightarrow> v = JStr s \<and> s \<noteq> []"
  by (cases v; auto simp: require_mapping_def require_list_def require_string_def)+

lemma mapping_field_get: "mapping_field d k n = Inr e \<Longrightarrow> map_of d k = Some (JObj e)"
  by (auto simp: mapping_field_def ditem_Inr)

lemma list_field_get: "list_field d k n = Inr xs \<Longrightarrow> map_of d k = Some (JList xs)"
  by (auto simp: list_field_def ditem_Inr)

lemma list_field_is: "list_field d k n = Inr xs \<Longrightarrow> field_is d k (list_is P) \<Longrightarrow> x \<in> set xs \<Longrightarrow> P x"
  by (auto dest!: list_field_get simp: field_is_def list_is_def list_all_iff)

lemma calm_read_json [calm_intros]: "os_calm os \<Longrightarrow> calm (read_json os w p)"
  unfolding read_json_def
  by (intro calm_bindE) (auto intro: os_calmD split: option.splits json.splits)

lemma calm_parse_name_path_args [calm_intros]: "calm (parse_name_path_args xs flag d)"
  unfolding parse_name_path_args_def name_path_step_def
  by (intro calm_foldE calm_bindE) (auto split: option.splits prod.splits)

lemma calm_live_check [calm_intros]: "os_calm os \<Longrightarrow> calmA (live_check_command os owner c)"
  unfolding live_check_command_def
  by (cases c) (auto intro!: calm_intros split: prod.splits if_splits simp: Let_def)

lemma calm_check_live_checks [calm_intros]: "os_calm os \<Longrightarrow> calmA (check_live_checks os owner v)"
  unfolding check_live_checks_def
  by (auto intro!: calm_intros split: json.splits)

lemma calm_verify_input [calm_intros]: "os_calm os \<Longrightarrow> calm (verify_input os w paths item)"
  unfolding verify_input_def
  by (auto intro!: calm_intros split: option.splits)

lemma calm_verify_extra_inputs [calm_intros]:
  "os_calm os \<Longrightarrow> dhas plan ''inputs'' \<Longrightarrow> calm (verify_extra_inputs os w plan args)"
  unfolding verify_extra_inputs_def by (auto intro!: calm_intros)

lemma calm_archive_sha [calm_intros]: "calm (archive_sha a)"
  unfolding archive_sha_def by (auto intro!: calm_intros)

lemma calm_lookup: "map_of d k \<noteq> None \<Longrightarrow> calm (lookup d k)"
  by (auto simp: lookup_def)

lemma calm_verify_manifest [calm_intros]:
  assumes "os_calm os" "map_of paths kind \<noteq> None" "dhas manifest ''sha256''"
  shows "calm (verify_manifest os w paths shas (kind, manifest))"
  unfolding verify_manifest_def prod.case
  using assms by (auto intro!: calm_intros calm_lookup split: json.splits)

lemma strings_isD: "strings_is ks d \<Longrightarrow> k \<in> set ks \<Longrightarrow> dhas d k"
  by (auto simp: strings_is_def list_all_iff intro: dhas_field)

lemma nested_shapeD:
  assumes "nested_shape v" "require_mapping v n = Inr nested"
  shows "dhas nested ''distdir_manifest''" "dhas nested ''repository_cache_manifest''"
    "dhas nested ''archives''" "field_is nested ''build_py_args'' (list_is is_str)"
    "field_is nested ''distdir_manifest'' (obj_is (strings_is [''label'', ''sha256'']))"
    "field_is nested ''repository_cache_manifest'' (obj_is (strings_is [''label'', ''sha256'']))"
  using assms
  by (auto simp: nested_shape_def obj_is_def require_mapping_def intro: dhas_field split: json.splits)

lemma calm_verify_manifests [calm_intros]:
  assumes "os_calm os" "dhas nested ''archives''" "\<And>k m. (k, m) \<in> set kinds \<Longrightarrow> dhas m ''sha256''"
  shows "calm (verify_manifests os w nested paths kinds)"
proof (cases "set (map fst kinds) - set (map fst paths) = {}")
  case True
  have "calm (verify_manifest os w paths shas x)" if xk: "x \<in> set (sort_key fst kinds)" for shas x
  proof -
    obtain k m where km: "x = (k, m)" by (cases x)
    have x: "(k, m) \<in> set kinds" using xk unfolding km set_sort .
    have "k \<in> set (map fst kinds)" using x by force
    then have "k \<in> fst ` set paths" using True by auto
    then have "map_of paths k \<noteq> None" by (simp only: map_of_eq_None_iff not_not)
    then show ?thesis unfolding km by (intro calm_verify_manifest assms(1) assms(3) [OF x])
  qed
  then show ?thesis
    unfolding verify_manifests_def Let_def
    by (auto intro!: calm_bindE calm_mapE calm_archive_sha calm_field assms(2))
next
  case False
  then show ?thesis by (simp add: verify_manifests_def Let_def sorted_strings_def)
qed

lemma calm_verify_nested [calm_intros]:
  assumes "os_calm os" "optional_is plan ''nested_bazel'' nested_shape"
  shows "calm (verify_nested_cache_manifests os w plan args)"
proof (cases "map_of plan ''nested_bazel''")
  case None
  then show ?thesis by (simp add: verify_nested_cache_manifests_def)
next
  case (Some v)
  then have v: "nested_shape v" using assms(2) by (simp add: optional_is_def)
  show ?thesis
    unfolding verify_nested_cache_manifests_def Some option.case
  proof (rule calm_bindE [OF calm_require(1)])
    fix nested assume "require_mapping v ''nested_bazel'' = Inr nested"
    note n = nested_shapeD [OF v this]
    have m: "dhas m ''sha256''" if "mapping_field nested k name = Inr m"
      "field_is nested k (obj_is (strings_is [''label'', ''sha256'']))" for k name m
      using mapping_field_obj [OF that] by (auto intro: strings_isD)
    show "calm (bindE (parse_name_path_args args ''--nested-cache-manifest'' None) (\<lambda>paths.
        bindE (mapping_field nested ''distdir_manifest'' ''nested_bazel.distdir_manifest'') (\<lambda>distdir.
        bindE (mapping_field nested ''repository_cache_manifest'' ''nested_bazel.repository_cache_manifest'') (\<lambda>cache.
          verify_manifests os w nested paths [(''distdir'', distdir), (''repository_cache'', cache)]))))"
      by (intro calm_bindE calm_parse_name_path_args calm_field n(1,2) calm_verify_manifests assms(1) n(3))
        (use m n(5,6) in auto)
  qed
qed
lemma calm_resolve_nested [calm_intros]: "calm (resolve_nested args plan)"
  unfolding resolve_nested_def require_nested_runtime_path_def Let_def
  by (auto intro!: calm_bindE)

lemma calm_verify_source [calm_intros]: "os_calm os \<Longrightarrow> calm (verify_source os w archives s)"
  unfolding verify_source_def by (auto intro!: calm_intros split: option.splits)

lemma calm_bind_sources [calm_intros]:
  assumes "os_calm os" "field_is plan ''sources'' (\<lambda>v. list_is source_shape v \<and> v \<noteq> JList [])"
  shows "calm (bind_sources os w args plan)"
proof -
  have "xs \<noteq> []" if "list_field plan ''sources'' n = Inr xs" for n xs
    using that assms(2) by (auto dest!: list_field_get simp: field_is_def)
  then have "calm (case xs of [] \<Rightarrow> Inl IndexError | s # _ \<Rightarrow> require_mapping s ''sources[0]'')"
    if "list_field plan ''sources'' ''sources'' = Inr xs" for xs
    using that by (cases xs) (auto intro: calm_require)
  then show ?thesis
    unfolding bind_sources_def
    by (intro calm_bindE calm_field dhas_field [OF assms(2)] calm_require calm_parse_name_path_args
        calm_mapE calm_verify_source assms(1)) simp_all
qed

lemma toolchain_shapeD:
  assumes "field_is plan ''toolchain'' toolchain_shape" "mapping_field plan ''toolchain'' n = Inr t"
  shows "field_is t ''env'' (obj_is (strings_is toolchain_env_keys))"
    "field_is t ''rootfs_identity'' (obj_is (strings_is [''label'', ''sha256'']))"
  using mapping_field_obj [OF assms(2) assms(1) [unfolded toolchain_shape_def]] by simp_all

lemma calm_verify_rootfs [calm_intros]:
  assumes "os_calm os" "field_is plan ''toolchain'' toolchain_shape"
  shows "calm (verify_rootfs os w args plan)"
  unfolding verify_rootfs_def
proof (rule calm_bindE [OF calm_field(2) [OF dhas_field [OF assms(2)]]])
  fix t assume "mapping_field plan ''toolchain'' ''toolchain'' = Inr t"
  note t = toolchain_shapeD(2) [OF assms(2) this]
  have "dhas i ''sha256''" if "mapping_field t ''rootfs_identity'' n = Inr i" for n i
    using mapping_field_obj [OF that t] by (auto intro: strings_isD)
  then show "calm (bindE (mapping_field t ''rootfs_identity'' ''toolchain.rootfs_identity'') (\<lambda>identity.
     bindE (string_field identity ''sha256'' ''toolchain.rootfs_identity.sha256'') (\<lambda>expected.
     bindE (os_sha256 os w (rootfs_identity_path args)) (\<lambda>actual.
       if actual \<noteq> expected
       then fail ''rootfs identity sha256 mismatch: expected {}, got {}'' [JStr expected, JStr actual]
       else read_json os w (rootfs_identity_path args)))))"
    using assms(1) by (auto intro!: calm_bindE calm_field calm_read_json os_calmD dhas_field [OF t])
qed

lemma calm_resolve_outputs [calm_intros]: "os_calm os \<Longrightarrow> calmA (resolve_outputs os args)"
  unfolding resolve_outputs_def Let_def
  by (auto intro!: calm_intros split: option.splits prod.splits)

lemma calm_make_work [calm_intros]: "os_calm os \<Longrightarrow> calmA (make_work os outs)"
  unfolding make_work_def
  by (auto intro!: calm_intros split: option.splits)

lemma calm_catch_tar: "calm r \<Longrightarrow> calm (catch_tar a r)"
  by (auto simp: catch_tar_def)

lemma calm_check_member [calm_intros]: "calm (check_member os w d m)"
  by (simp add: check_member_def Let_def)

lemma calm_safe_extract [calm_intros]:
  assumes "os_calm os" shows "calmA (safe_extract_archive os archive destination)"
  unfolding safe_extract_archive_def
proof (intro calmA_bindA calmA_getA os_calmD assms)
  fix w
  have x: "calmA (\<lambda>w'. case os_extractall os archive destination w' of (r, w'') \<Rightarrow> (catch_tar archive r, w''))"
  proof -
    have "calm (catch_tar archive (fst (os_extractall os archive destination w')))" for w'
      using os_calmD(10) [OF assms, of archive destination] by (intro calm_catch_tar) (simp add: calmA_def)
    then show ?thesis by (simp add: calmA_def case_prod_beta)
  qed
  have t: "calm (catch_tar archive (os_tar os w archive))"
    by (intro calm_catch_tar os_calmD assms)
  show "calmA (case catch_tar archive (os_tar os w archive) of
         Inl e \<Rightarrow> pureA (Inl e)
       | Inr members \<Rightarrow>
           bindA (pureA (mapE (check_member os w destination) members)) (\<lambda>_ w'.
             case os_extractall os archive destination w' of (r, w'') \<Rightarrow> (catch_tar archive r, w'')))"
    using t by (cases "catch_tar archive (os_tar os w archive)")
      (auto intro!: calmA_pureA calmA_bindA calm_mapE calm_check_member x)
qed

lemma calm_apply_patch [calm_intros]: "os_calm os \<Longrightarrow> calmA (apply_patch os src patches p)"
  unfolding apply_patch_def
  by (auto intro!: calm_intros split: option.splits prod.splits)

lemma calm_apply_source_patches [calm_intros]:
  "os_calm os \<Longrightarrow> calmA (apply_source_patches os s src patches)"
  unfolding apply_source_patches_def by (auto intro!: calm_intros)

lemma calm_prepare_source:
  assumes "os_calm os" "\<And>s n. source = JObj s \<Longrightarrow> dget s ''name'' = JStr n \<Longrightarrow> map_of archives n \<noteq> None"
  shows "calmA (prepare_source os archives patches work source)"
  unfolding prepare_source_def Let_def
  using assms by (auto intro!: calm_intros calm_lookup simp: pureA_def)
text \<open>Expansion.\<close>

lemma calm_placeholder_value: "calm (placeholder_value t n)"
  unfolding placeholder_value_def Let_def by (auto split: option.splits)

lemma calm_fill: "(\<And>n. calm (f n)) \<Longrightarrow> calm (fill f ps)"
  by (induction f ps rule: fill.induct) (auto intro!: calm_bindE)

lemma calm_resolve_template [calm_intros]: "calm (resolve_template t s)"
  unfolding resolve_template_def placeholder_sub_def by (intro calm_fill calm_placeholder_value)

lemma calm_resolve_item [calm_intros]: "is_str v \<Longrightarrow> calm (resolve_item t v)"
  by (auto simp: resolve_item_def is_str_iff intro: calm_resolve_template)

lemma calm_resolve_arg [calm_intros]: "is_str v \<Longrightarrow> calm (resolve_arg t nested v)"
  unfolding resolve_arg_def json_contains_def
  by (auto simp: is_str_iff intro!: calm_bindE calm_resolve_item split: option.splits)

lemma calm_resolve_argv [calm_intros]:
  assumes "field_is phase ''argv'' (list_is is_str)"
  shows "calm (resolve_argv phase t nested)"
  unfolding resolve_argv_def
  by (intro calm_bindE calm_concatE calm_field dhas_field [OF assms] calm_resolve_arg)
    (rule list_field_is [OF _ assms])

lemma calm_job_count [calm_intros]: "calm (job_count os)"
  by (auto simp: job_count_def split: option.splits)

definition source_bound :: "dict \<Rightarrow> (string \<times> 'a) list \<Rightarrow> bool" where
  "source_bound plan d =
     (\<forall>s sources n. map_of plan ''sources'' = Some (JList (JObj s # sources)) \<longrightarrow>
        dget s ''name'' = JStr n \<longrightarrow> map_of d n \<noteq> None)"

lemma calm_placeholders [calm_intros]:
  assumes "plan_shape plan" "source_bound plan archives" "source_bound plan dirs"
  shows "calm (placeholders os plan archives rootfs_id rootfs dirs work out wheel nested)"
proof -
  have det: "field_is plan ''determinism'' (obj_is (\<lambda>d. dhas d ''seed'' \<and> dhas d ''source_date_epoch''))"
    and src: "field_is plan ''sources'' (\<lambda>v. list_is source_shape v \<and> v \<noteq> JList [])"
    using assms(1) by (simp_all add: plan_shape_def)
  have d: "dhas d ''seed''" "dhas d ''source_date_epoch''" if "mapping_field plan ''determinism'' n = Inr d" for n d
    using mapping_field_obj [OF that det] by simp_all
  have s: "\<exists>s rest v. sources = JObj s # rest \<and> map_of s ''name'' = Some v
      \<and> map_of plan ''sources'' = Some (JList (JObj s # rest))"
    if "list_field plan ''sources'' n = Inr sources" for n sources
    using list_field_get [OF that] src
    by (cases sources)
      (auto simp: field_is_def list_is_def source_shape_def obj_is_def strings_is_def split: json.splits option.splits)
  show ?thesis
    unfolding placeholders_def
  proof (intro calm_bindE calm_field dhas_field [OF det] dhas_field [OF src] calm_require calm_job_count)
    fix det sources assume src: "list_field plan ''sources'' ''sources'' = Inr sources"
    obtain s0 rest v where s0: "sources = JObj s0 # rest" "map_of s0 ''name'' = Some v"
      "map_of plan ''sources'' = Some (JList (JObj s0 # rest))" using s [OF src] by blast
    show "calm (case sources of [] \<Rightarrow> Inl IndexError | s # _ \<Rightarrow> py_item s ''name'')"
      using s0 by (simp add: py_item_def ditem_def)
    fix name primary
    assume "(case sources of [] \<Rightarrow> Inl IndexError | s # _ \<Rightarrow> py_item s ''name'') = Inr name"
      and "require_string name ''sources[0].name'' = Inr primary"
    then have "dget s0 ''name'' = JStr primary" using s0 by (simp add: py_item_def ditem_def dget_def)
    then show "calm (lookup dirs primary)" "calm (lookup archives primary)"
      using assms(2,3) s0(3) by (auto simp: source_bound_def intro!: calm_lookup)
  qed (use d in simp_all)
qed
lemma placeholders_keys:
  assumes "placeholders os plan archives rootfs_id rootfs dirs work out wheel nested = Inr values"
  shows "map_of values ''source_date_epoch'' \<noteq> None" "map_of values ''seed'' \<noteq> None"
    "map_of values ''prefix_map_flags'' \<noteq> None"
  using assms by (auto simp: placeholders_def)

definition values_ok :: "tables \<Rightarrow> bool" where
  "values_ok t = (\<forall>k\<in>{''source_date_epoch'', ''seed'', ''prefix_map_flags''}. map_of (values_of t) k \<noteq> None)"

lemma calm_update_env: "(\<And>k v. (k, v) \<in> set d \<Longrightarrow> calm (f v)) \<Longrightarrow> calm (update_env f env d)"
  unfolding update_env_def by (intro calm_foldE) (auto intro!: calm_bindE)

lemma calm_compiler_env: "values_ok t \<Longrightarrow> calm (compiler_env (values_of t) env work out)"
  unfolding compiler_env_def Let_def
  by (intro calm_bindE calm_lookup) (auto simp: values_ok_def)

lemma calm_command_env [calm_intros]:
  assumes "os_calm os" "values_ok t" "field_is plan ''toolchain'' toolchain_shape"
    and env: "field_is phase ''env'' (obj_is (list_all (\<lambda>(_, v). is_str v)))"
  shows "calmA (command_env os plan phase t work out)"
proof -
  have item: "calm (resolve_item t v)" if "mapping_field phase ''env'' n = Inr e" "(k, v) \<in> set e" for n e k v
  proof -
    have "list_all (\<lambda>(_, v). is_str v) e" by (rule mapping_field_obj [OF that(1) env])
    then have "is_str v" using that(2) by (auto simp: list_all_iff)
    then show ?thesis by (rule calm_resolve_item)
  qed
  have tool: "dhas tc ''env''" if "mapping_field plan ''toolchain'' n = Inr tc" for n tc
    by (rule dhas_field [OF toolchain_shapeD(1) [OF assms(3) that]])
  have "calm (lookup (values_of t) ''source_date_epoch'')"
    using assms(2) by (intro calm_lookup) (simp add: values_ok_def)
  then show ?thesis
    unfolding command_env_def Let_def
    by (intro calmA_bindA calmA_pureA os_calmD assms(1) calm_bindE calm_field dhas_field [OF assms(3)]
        tool dhas_field [OF env] calm_update_env calm_resolve_template calm_compiler_env assms(2) item)
qed

lemma phase_fields:
  assumes "field_is plan name phase_shape" "mapping_field plan name n = Inr phase"
  shows "field_is phase ''argv'' (list_is is_str)" "field_is phase ''cwd'' is_str"
    "field_is phase ''env'' (obj_is (list_all (\<lambda>(_, v). is_str v)))"
  using mapping_field_obj [OF assms(2) assms(1) [unfolded phase_shape_def]] by simp_all

lemma calm_run_phase [calm_intros]:
  assumes "os_calm os" "values_ok t" "plan_shape plan" "name \<in> set PHASES"
  shows "calmA (run_phase os plan t work out nested name)"
proof -
  have p: "field_is plan name phase_shape" "field_is plan ''toolchain'' toolchain_shape"
    using assms(3,4) by (auto simp: plan_shape_def list_all_iff)
  have f: "field_is phase ''argv'' (list_is is_str)" "dhas phase ''cwd''"
    "field_is phase ''env'' (obj_is (list_all (\<lambda>(_, v). is_str v)))"
    if "mapping_field plan name name = Inr phase" for phase
    using phase_fields [OF p(1) that] by (auto intro: dhas_field)
  show ?thesis
    unfolding run_phase_def
  proof (rule calmA_bindA [OF calmA_pureA [OF calm_field(2) [OF dhas_field [OF p(1)]]]])
    fix phase and w w' :: 'a
    assume "pureA (mapping_field plan name name) w = (Inr phase, w')"
    then have "mapping_field plan name name = Inr phase" by (simp add: pureA_def)
    note g = f [OF this]
    show "calmA (bindA (pureA (resolve_argv phase t nested)) (\<lambda>argv.
     bindA (command_env os plan phase t work out) (\<lambda>env.
     bindA (pureA (bindE (string_field phase ''cwd'' (name @ ''.cwd'')) (resolve_template t))) (\<lambda>cwd_text.
     getA (\<lambda>w.
       let cwd = parse cwd_text
       in if \<not> os_is_dir os w cwd
          then pureA (fail ''{} phase cwd is not a directory: {}'' [JStr name, JStr (path_text cwd)])
          else bindA (os_run os argv (Some cwd) (Some env)) (\<lambda>(code, _).
            if code \<noteq> 0
            then pureA (fail ''{} phase failed with exit code {}: {!r}'' [JStr name, JInt code, JList (map JStr argv)])
            else pureA (Inr ())))))))"
      unfolding Let_def
      by (auto intro!: calmA_bindA calmA_pureA calmA_getA calm_bindE calm_resolve_argv calm_command_env
          calm_field calm_resolve_template os_calmD assms(1,2) p(2) g split: prod.splits)
  qed
qed

lemma calm_nested_args [calm_intros]:
  assumes "optional_is plan ''nested_bazel'' nested_shape"
  shows "calm (nested_args plan t)"
proof (cases "map_of plan ''nested_bazel''")
  case None
  then show ?thesis by (simp add: nested_args_def)
next
  case (Some v)
  then have v: "nested_shape v" using assms by (simp add: optional_is_def)
  show ?thesis
    unfolding nested_args_def Some option.case
  proof (rule calm_bindE [OF calm_require(1)])
    fix nested assume "require_mapping v ''nested_bazel'' = Inr nested"
    note f = nested_shapeD(4) [OF v this]
    show "calm (bindE (list_field nested ''build_py_args'' ''nested_bazel.build_py_args'') (\<lambda>items.
          bindE (mapE (resolve_item t) items) (\<lambda>args. Inr (Some args))))"
      by (intro calm_bindE calm_field dhas_field [OF f] calm_mapE calm_resolve_item list_field_is [OF _ f]) simp_all
  qed
qed

lemma calm_read_dep_prefixes [calm_intros]:
  "dhas plan ''deps'' \<Longrightarrow> calm (read_dep_prefixes os w plan items)"
  unfolding read_dep_prefixes_def Let_def dep_prefix_def
  by (auto intro!: calm_bindE calm_field calm_parse_name_path_args calm_mapE)

lemma prepare_source_name:
  assumes "prepare_source os archives patches work source w = (Inr (n, p), w')"
  shows "\<exists>s. source = JObj s \<and> dget s ''name'' = JStr n"
  using assms by (auto simp: prepare_source_def bindA_Inr Let_def split: if_splits)

lemma dict_of_has: "k \<in> fst ` set kvs \<Longrightarrow> map_of (dict_of kvs) k \<noteq> None"
proof -
  have "map_of (foldl (\<lambda>d (k, v). AList.update k v d) d kvs) k \<noteq> None"
    if "k \<in> fst ` set kvs \<or> map_of d k \<noteq> None" for d
    using that by (induction kvs arbitrary: d) (auto simp: update_conv')
  then show "k \<in> fst ` set kvs \<Longrightarrow> map_of (dict_of kvs) k \<noteq> None" by (simp add: dict_of_def)
qed

lemma dirs_bound:
  assumes "mapA (prepare_source os archives patches work) sources w = (Inr dirs, w')"
    "list_field plan ''sources'' n = Inr sources"
  shows "source_bound plan (dict_of dirs)"
  unfolding source_bound_def
proof (intro allI impI)
  fix s rest k
  assume "map_of plan ''sources'' = Some (JList (JObj s # rest))" and k: "dget s ''name'' = JStr k"
  then have "sources = JObj s # rest" using list_field_get [OF assms(2)] by simp
  with mapA_Inr [OF assms(1)] obtain d ds a b where d: "dirs = d # ds"
    "prepare_source os archives patches work (JObj s) a = (Inr d, b)"
    by (auto simp: list_all2_Cons1)
  have "fst d = k"
    using prepare_source_name [of os archives patches work "JObj s" a "fst d" "snd d" b] d(2) k by simp
  then show "map_of (dict_of dirs) k \<noteq> None" using d(1) by (intro dict_of_has) auto
qed

text \<open>Every source of the plan has an archive once \<open>bind_sources\<close> has returned.\<close>

definition archives_bound :: "dict \<Rightarrow> paths \<Rightarrow> bool" where
  "archives_bound plan archives =
     (\<forall>sources s n. map_of plan ''sources'' = Some (JList sources) \<longrightarrow> JObj s \<in> set sources \<longrightarrow>
        dget s ''name'' = JStr n \<longrightarrow> map_of archives n \<noteq> None)"

lemma bind_sources_bound:
  assumes "bind_sources os w args plan = Inr archives"
  shows "archives_bound plan archives"
proof -
  from assms obtain sources us where s: "list_field plan ''sources'' ''sources'' = Inr sources"
    "mapE (verify_source os w archives) sources = Inr us"
    by (auto simp: bind_sources_def)
  have "map_of archives n \<noteq> None" if "JObj x \<in> set sources" "dget x ''name'' = JStr n" for x n
    using mapE_Inr_in_set [OF s(2) that(1)] that(2)
    by (auto simp: verify_source_def split: option.splits)
  then show ?thesis using list_field_get [OF s(1)] by (auto simp: archives_bound_def)
qed

lemma archives_bound_source: "archives_bound plan archives \<Longrightarrow> source_bound plan (resolve_archives os w archives)"
  by (auto simp: archives_bound_def source_bound_def resolve_archives_def map_of_map split: option.splits)

lemma calm_build_phases [calm_intros]:
  assumes "os_calm os" "plan_shape plan" "archives_bound plan archives"
  shows "calmA (build_phases os args plan rootfs archives nested outs)"
proof -
  have src: "dhas plan ''sources''" and deps: "dhas plan ''deps''"
    and nb: "optional_is plan ''nested_bazel'' nested_shape"
    using assms(2) by (auto simp: plan_shape_def intro: dhas_field)
  have prep: "calmA (prepare_source os archives patches work x)"
    if "list_field plan ''sources'' ''sources'' = Inr sources" "x \<in> set sources" for patches work sources x
    using assms(3) list_field_get [OF that(1)] that(2)
    by (intro calm_prepare_source assms(1)) (auto simp: archives_bound_def)
  show ?thesis
    unfolding build_phases_def Let_def
    by (intro calmA_bindA calmA_pureA calmA_getA calm_parse_name_path_args calm_field src calmA_mapA
        calm_placeholders assms(2) archives_bound_source [OF assms(3)] calm_read_dep_prefixes deps
        calm_nested_args nb calmA_forA calm_run_phase assms(1))
      (auto intro: prep dirs_bound placeholders_keys simp: values_ok_def dest: placeholders_keys)
qed

lemma calm_remove_work [calm_intros]: "os_calm os \<Longrightarrow> calmA (remove_work os work)"
  unfolding remove_work_def by (auto intro!: calm_intros)

lemma calm_scan_path: "os_calm os \<Longrightarrow> calm (scan_path os w forbidden p)"
  unfolding scan_path_def by (auto intro!: calm_bindE os_calmD split: option.splits)

lemma calm_check_leaks [calm_intros]:
  assumes "os_calm os" shows "calmA (check_leaks os args archives manifests outs)"
proof -
  have pc: "calmA (rewrite_pkg_config_files os p)" for p
    unfolding rewrite_pkg_config_files_def rewrite_pc_file_def
    by (auto intro!: calm_intros assms split: option.splits)
  have s: "calm (scan_output_for_path_leaks os w p f)" "calm (scan_file_for_path_leaks os w p f)" for w p f
    unfolding scan_output_for_path_leaks_def scan_file_for_path_leaks_def Let_def
    by (auto intro!: calm_concatE calm_scan_path assms)
  show ?thesis
    unfolding check_leaks_def Let_def fail_on_path_leaks_def
    by (auto intro!: calmA_bindA calmA_pureA calmA_getA calm_bindE s pc split: option.splits)
qed

lemma calm_finally [calm_intros]:
  "os_calm os \<Longrightarrow> calm r \<Longrightarrow> calmA (finally_remove os work created r)"
  unfolding finally_remove_def by (auto intro!: calm_intros)

lemma calm_run_in_work [calm_intros]:
  assumes "os_calm os" "plan_shape plan" "archives_bound plan archives"
  shows "calmA (run_in_work os args plan rootfs archives manifests nested outs)"
  unfolding calmA_def
proof
  fix w
  let ?body = "bindA (build_phases os args plan rootfs archives nested outs)
                 (\<lambda>_. remove_work os (work_dir outs))"
  have "calmA ?body" by (intro calmA_bindA calm_build_phases calm_remove_work assms)
  then have body: "calm (fst (?body w))" by (simp add: calmA_def)
  have leaks: "calm (fst (check_leaks os args archives manifests outs v))" for v
    using calm_check_leaks [OF assms(1)] by (simp add: calmA_def)
  have fin: "calm r \<Longrightarrow> calm (fst (finally_remove os p c r v))" for p c r v
    using calm_finally [OF assms(1)] by (simp add: calmA_def)
  show "calm (fst (run_in_work os args plan rootfs archives manifests nested outs w))"
    using body leaks fin unfolding run_in_work_def
    by (auto split: prod.splits sum.splits) (metis fst_conv)+
qed

lemma calm_validate_archive: "calm (validate_archive seen a)"
  unfolding validate_archive_def by (auto intro!: calm_bindE calm_require)

lemma calm_validate_nested: "calm (validate_nested plan)"
proof -
  have c: "calm (json_contains nested_hole x)" if "all_nonempty xs" "x \<in> set xs" for xs x
    using that by (auto simp: all_nonempty_def list_all_iff nonempty_str_iff json_contains_def)
  show ?thesis
    unfolding validate_nested_def
    by (auto intro!: calm_bindE calm_require calm_foldE calm_validate_archive calm_mapE c split: option.splits)
qed

lemma calm_exec_validate:
  assumes "plan_shape plan" "validate_plan depth plan schema = Inr errors"
  shows "calm (exec_validate_plan depth plan schema)"
proof -
  have d: "dhas plan ''package''" "dhas plan ''toolchain''" "dhas plan ''outputs''" "dhas plan ''sources''"
    and src: "field_is plan ''sources'' (list_is source_shape)"
    using assms(1) by (auto simp: plan_shape_def field_is_def dhas_def split: option.splits)
  have g: "calm (py_get s ''name'')" if "list_field plan ''sources'' n = Inr xs" "s \<in> set xs" for n xs s
    using list_field_is [OF that(1) src that(2)]
    by (auto simp: source_shape_def obj_is_def py_get_def split: json.splits)
  have p: "calm (validate_package plan)"
    unfolding validate_package_def by (intro calm_bindE calm_require calm_field d) simp
  have t: "calm (validate_toolchain plan)"
    unfolding validate_toolchain_def by (intro calm_bindE calm_require calm_mapE calm_field d) simp_all
  have n: "calm (exec_source_names plan)"
    unfolding exec_source_names_def by (intro calm_bindE calm_require calm_mapE calm_field d g)
  have k: "calm (output_kinds plan)"
    unfolding output_kinds_def by (intro calm_bindE calm_require calm_mapE calm_field d)
  show ?thesis
    unfolding exec_validate_plan_def assms(2)
    using p t n k by (auto intro!: calm_bindE calm_validate_nested)
qed

lemma calm_execute_checked:
  assumes "os_calm os" "plan_shape plan"
  shows "calmA (execute_checked os args plan)"
proof -
  have d: "dhas plan ''outputs''" "dhas plan ''inputs''" "optional_is plan ''nested_bazel'' nested_shape"
    "field_is plan ''toolchain'' toolchain_shape"
    "field_is plan ''sources'' (\<lambda>v. list_is source_shape v \<and> v \<noteq> JList [])"
    using assms(2) by (auto simp: plan_shape_def field_is_def dhas_def split: option.splits)
  have k: "calm (output_kinds plan)"
    unfolding output_kinds_def by (intro calm_bindE calm_require calm_mapE calm_field d)
  have c: "calm (check_output_bindings args kinds)" for kinds
    by (simp add: check_output_bindings_def)
  show ?thesis
    unfolding execute_checked_def
    by (intro calmA_bindA calmA_pureA calmA_getA k c calm_bind_sources calm_verify_rootfs
        calm_check_live_checks calm_verify_extra_inputs calm_verify_nested calm_resolve_nested
        calm_resolve_outputs calm_make_work calm_run_in_work assms d)
      (auto dest: bind_sources_bound)
qed


lemma sample_os_calm: "os_calm (sample_os digest content)"
  by (simp add: os_calm_def calmA_def sample_os_def)


end
