(* ===== verification/ExecutorRun.thy ===== *)
theory ExecutorRun
  imports ExecutorCalm
begin

text \<open>
  The functional behaviour of the executor: the expansion of templates, the scan for leaked
  paths, the relocation of pkg-config files, what a successful run has checked, and the removal
  of the work directory.
\<close>

section \<open>Expansion of an accepted plan\<close>

lemma accepted_placeholder:
  assumes "validate_placeholders plan schema_v1 = Inr []" "templated_values plan = Inr vs"
    and "(f, v) \<in> set vs" "n \<in> set (placeholder_names v)"
  shows "placeholder_error (map JStr SUPPORTED_PLACEHOLDERS) (dep_names plan) (source_names plan) f n = []"
proof -
  have "allowed_placeholders schema_v1 = Inr (map JStr SUPPORTED_PLACEHOLDERS)" by code_simp
  then have "concat (map (\<lambda>(field, value). concat (map (placeholder_error (map JStr SUPPORTED_PLACEHOLDERS)
      (dep_names plan) (source_names plan) field) (placeholder_names value))) vs) = []"
    using assms(1,2) by (auto simp: validate_placeholders_def)
  then show ?thesis using assms(3,4) by auto
qed

lemma placeholder_value_bound:
  assumes "placeholder_error (map JStr SUPPORTED_PLACEHOLDERS) deps sources f n = []"
    and "\<forall>d\<in>set deps. map_of (dep_prefixes_of t) d \<noteq> None"
    and "\<forall>s\<in>set sources. map_of (archives_of t) s \<noteq> None \<and> map_of (dirs_of t) s \<noteq> None"
    and "n \<in> set SUPPORTED_PLACEHOLDERS \<Longrightarrow> map_of (values_of t) n \<noteq> None"
  shows "\<exists>s. placeholder_value t n = Inr s"
proof -
  have p: "\<not> (prefix ''src:'' n \<and> prefix ''source_archive:'' n)" by (cases n; cases "tl n") auto
  show ?thesis
    using assms p
    by (auto simp: placeholder_error_def placeholder_value_def Let_def split: if_splits option.splits)
qed

lemma mid_false: "A \<or> B \<or> C \<Longrightarrow> \<not> B \<Longrightarrow> A \<or> C"
  by blast

lemma placeholders_bind:
  assumes "placeholders os plan archives rootfs_id rootfs dirs work out wheel nested = Inr values"
    and "n \<in> set SUPPORTED_PLACEHOLDERS" "n \<notin> {''pcfiledir'', ''nested_build_py_args''}"
    and "n = ''wheel'' \<Longrightarrow> wheel \<noteq> None"
    and "n = ''nested_distdir'' \<Longrightarrow> nested_distdir nested \<noteq> None"
    and "n = ''nested_repository_cache'' \<Longrightarrow> nested_repository_cache nested \<noteq> None"
    and "n = ''nested_disk_cache'' \<Longrightarrow> nested_disk_cache nested \<noteq> None"
  shows "map_of values n \<noteq> None"
proof -
  let ?base = "[''src'', ''work'', ''out'', ''source_archive'', ''rootfs_identity'',
      ''cuda_home'', ''jobs'', ''prefix_map_flags'', ''seed'', ''source_date_epoch'']"
  from assms(1) have keys: "map fst values = ?base
      @ map fst (optional_value ''wheel'' wheel)
      @ map fst (optional_value ''nested_distdir'' (nested_distdir nested))
      @ map fst (optional_value ''nested_repository_cache'' (nested_repository_cache nested))
      @ map fst (optional_value ''nested_disk_cache'' (nested_disk_cache nested))"
    unfolding placeholders_def by (simp only: bindE_eq_Inr sum.inject) (elim exE conjE, hypsubst, simp)
  have opt: "p \<noteq> None \<Longrightarrow> k \<in> set (map fst (optional_value k p))" for k p
    by (auto simp: optional_value_def)
  have "list_all (\<lambda>n. n \<in> set ?base \<or> n \<in> {''pcfiledir'', ''nested_build_py_args''} \<or> n = ''wheel''
      \<or> n = ''nested_distdir'' \<or> n = ''nested_repository_cache'' \<or> n = ''nested_disk_cache'') SUPPORTED_PLACEHOLDERS"
    by code_simp
  then have "\<forall>n\<in>set SUPPORTED_PLACEHOLDERS. n \<in> set ?base \<or> n \<in> {''pcfiledir'', ''nested_build_py_args''}
      \<or> n = ''wheel'' \<or> n = ''nested_distdir'' \<or> n = ''nested_repository_cache'' \<or> n = ''nested_disk_cache''"
    by (simp only: list_all_iff)
  from mid_false [OF bspec [OF this assms(2)] assms(3)]
  consider "n \<in> set ?base" | "n = ''wheel''" | "n = ''nested_distdir''" | "n = ''nested_repository_cache''"
    | "n = ''nested_disk_cache''" by (elim disjE)
  then have "n \<in> set (map fst values)"
  proof cases
    case 1
    then show ?thesis unfolding keys set_append by (rule UnI1)
  qed (simp_all only: keys set_append Un_iff assms(4-7) opt simp_thms)
  then show ?thesis by (simp add: map_of_eq_None_iff del: not_None_eq)
qed

text \<open>
  Every template of an accepted plan expands: with the values that the executor computes,
  the declared dependency prefixes and sources bound, and a wheel and nested paths bound where
  the template asks for them, expansion raises nothing, as long as the template contains
  neither \<^verbatim>\<open>{pcfiledir}\<close> nor \<^verbatim>\<open>{nested_build_py_args}\<close>.
\<close>

theorem accepted_templates_expand:
  assumes "validate_placeholders plan schema_v1 = Inr []"
    and "templated_values plan = Inr vs" and "(field, value) \<in> set vs"
    and "placeholders os plan archives rootfs_id rootfs dirs work out wheel nested = Inr (values_of t)"
    and "\<forall>d\<in>set (dep_names plan). map_of (dep_prefixes_of t) d \<noteq> None"
    and "\<forall>s\<in>set (source_names plan). map_of (archives_of t) s \<noteq> None \<and> map_of (dirs_of t) s \<noteq> None"
    and "''pcfiledir'' \<notin> set (placeholder_names value)" "''nested_build_py_args'' \<notin> set (placeholder_names value)"
    and "''wheel'' \<in> set (placeholder_names value) \<longrightarrow> wheel \<noteq> None"
    and "''nested_distdir'' \<in> set (placeholder_names value) \<longrightarrow> nested_distdir nested \<noteq> None"
    and "''nested_repository_cache'' \<in> set (placeholder_names value) \<longrightarrow> nested_repository_cache nested \<noteq> None"
    and "''nested_disk_cache'' \<in> set (placeholder_names value) \<longrightarrow> nested_disk_cache nested \<noteq> None"
  shows "\<exists>s. resolve_template t value = Inr s"
  unfolding resolve_template_def sub_total_iff
proof
  fix n assume n: "n \<in> set (placeholder_names value)"
  show "\<exists>v. placeholder_value t n = Inr v"
  proof (rule placeholder_value_bound [OF accepted_placeholder [OF assms(1-3) n] assms(5,6)])
    assume "n \<in> set SUPPORTED_PLACEHOLDERS"
    then show "map_of (values_of t) n \<noteq> None"
      by (rule placeholders_bind [OF assms(4)]) (use n assms(7-12) in auto)
  qed
qed

definition sample_tables :: tables where
  "sample_tables =
     (case placeholders (sample_os ''s'' []) sample_plan [(''main'', parse ''/a.tar'')] (parse ''/rootfs'') []
        [(''main'', parse ''/src'')] (parse ''/out/.work'') (parse ''/out'') None
        (nested_runtime sample_args) of
      Inr values \<Rightarrow> \<lparr> values_of = values, dep_prefixes_of = [(''zlib'', ''/deps/zlib'')],
        archives_of = [(''main'', parse ''/a.tar'')], dirs_of = [(''main'', parse ''/src'')] \<rparr>
    | Inl _ \<Rightarrow> \<lparr> values_of = [], dep_prefixes_of = [], archives_of = [], dirs_of = [] \<rparr>)"

lemma accepted_templates_expand_witness:
  "\<exists>s. resolve_template sample_tables ''{prefix:zlib}'' = Inr s"
proof -
  obtain vs where vs: "templated_values sample_plan = Inr vs" "(''plan.build.env[DEP]'', ''{prefix:zlib}'') \<in> set vs"
  proof -
    have "(case templated_values sample_plan of Inr vs \<Rightarrow> (''plan.build.env[DEP]'', ''{prefix:zlib}'') \<in> set vs
        | Inl _ \<Rightarrow> False)" by code_simp
    then show ?thesis using that by (auto split: sum.splits)
  qed
  have p: "placeholders (sample_os ''s'' []) sample_plan [(''main'', parse ''/a.tar'')] (parse ''/rootfs'') []
        [(''main'', parse ''/src'')] (parse ''/out/.work'') (parse ''/out'') None
        (nested_runtime sample_args) = Inr (values_of sample_tables)" by code_simp
  have v: "validate_placeholders sample_plan schema_v1 = Inr []"
    "\<forall>d\<in>set (dep_names sample_plan). map_of (dep_prefixes_of sample_tables) d \<noteq> None"
    "\<forall>s\<in>set (source_names sample_plan). map_of (archives_of sample_tables) s \<noteq> None
        \<and> map_of (dirs_of sample_tables) s \<noteq> None" by code_simp+
  have n: "placeholder_names ''{prefix:zlib}'' = [''prefix:zlib'']" by code_simp
  show ?thesis
    by (rule accepted_templates_expand [OF v(1) vs p v(2,3)]) (simp_all add: n)
qed

text \<open>
  A placeholder is accepted but never bound: a plan may use \<^verbatim>\<open>{pcfiledir}\<close>, which the schema
  check supports, and no execution gives it a value, so the phase that uses it fails when it is
  reached.
\<close>

theorem pcfiledir_never_bound:
  "validate_plan 8 (AList.update ''build'' (sample_phase ''{pcfiledir}/tool'') sample_plan) schema_v1 = Inr []
   \<and> (case placeholders os plan archives rootfs_id rootfs dirs work out wheel nested of
        Inr values \<Rightarrow> resolve_template \<lparr> values_of = values, dep_prefixes_of = deps, archives_of = archives,
                       dirs_of = dirs \<rparr> ''{pcfiledir}/tool''
                     = fail ''plan references unsupported placeholder {{{}}}'' [JStr ''pcfiledir'']
      | Inl _ \<Rightarrow> True)"
proof
  show "validate_plan 8 (AList.update ''build'' (sample_phase ''{pcfiledir}/tool'') sample_plan) schema_v1 = Inr []"
    by code_simp
  have h: "pieces ''{pcfiledir}/tool'' = [Hole ''pcfiledir'', Lit (CHR ''/''), Lit (CHR ''t''), Lit (CHR ''o''),
      Lit (CHR ''o''), Lit (CHR ''l'')]" by code_simp
  have "map_of vals ''pcfiledir'' = None"
    if "placeholders os plan archives rootfs_id rootfs dirs work out wheel nested = Inr vals" for vals
    using that by (auto simp: placeholders_def optional_value_def map_add_def split: option.splits)
  then show "case placeholders os plan archives rootfs_id rootfs dirs work out wheel nested of
        Inr values \<Rightarrow> resolve_template \<lparr> values_of = values, dep_prefixes_of = deps, archives_of = archives,
                       dirs_of = dirs \<rparr> ''{pcfiledir}/tool''
                     = fail ''plan references unsupported placeholder {{{}}}'' [JStr ''pcfiledir'']
      | Inl _ \<Rightarrow> True"
    by (auto simp: resolve_template_def placeholder_sub_def h placeholder_value_def simp del: pieces.simps split: sum.splits)
qed

definition toolchain_hole_plan :: dict where
  "toolchain_hole_plan =
     (case dget sample_plan ''toolchain'' of
        JObj t \<Rightarrow> (case dget t ''env'' of
            JObj e \<Rightarrow> AList.update ''toolchain''
              (JObj (AList.update ''env'' (JObj (AList.update ''CFLAGS'' (JStr ''{no_such}'') e)) t)) sample_plan
          | _ \<Rightarrow> [])
      | _ \<Rightarrow> [])"

text \<open>
  The placeholder check does not look at the toolchain environment, which the executor
  expands like the rest: a plan with an unknown placeholder there is accepted, and its first
  phase fails.
\<close>

theorem toolchain_env_not_checked:
  "validate_plan 8 toolchain_hole_plan schema_v1 = Inr []
   \<and> fst (run_phase (sample_os ''s'' []) toolchain_hole_plan sample_tables (parse ''/out/.work'') (parse ''/out'')
        None ''configure'' clean_world)
      = Inl (SystemExit ''plan references unsupported placeholder {{{}}}'' [JStr ''no_such''])"
  by code_simp
section \<open>The scan finds every leak\<close>

definition occurrences :: "string \<Rightarrow> string \<Rightarrow> nat \<Rightarrow> nat list" where
  "occurrences data needle offset =
     filter (\<lambda>i. prefix needle (drop i data)) [offset..<Suc (length data)]"

lemma occurrences_None: "find_from data needle offset = None \<Longrightarrow> occurrences data needle offset = []"
proof (cases "length data < offset")
  case False
  assume "find_from data needle offset = None"
  then have n: "\<forall>i\<le>length data - offset. \<not> prefix needle (drop (i + offset) data)"
    using False by (auto simp: find_from_def find_first_None)
  have "\<not> prefix needle (drop i data)" if "offset \<le> i" "i \<le> length data" for i
    using n [rule_format, of "i - offset"] that by simp
  then show ?thesis by (auto simp: occurrences_def filter_empty_conv)
qed (simp add: occurrences_def)

lemma occurrences_Some:
  assumes "find_from data needle offset = Some i"
  shows "occurrences data needle offset = i # occurrences data needle (i + 1)"
proof -
  obtain k where k: "i = offset + k" "find_first needle (drop offset data) = Some k" "offset \<le> length data"
    using assms by (auto simp: find_from_def split: if_splits)
  then have i: "i \<le> length data" "prefix needle (drop i data)"
    "\<forall>j<k. \<not> prefix needle (drop (offset + j) data)"
    using find_first_spec [of needle "drop offset data" k] by (auto simp: add.commute)
  have none: "filter (\<lambda>i. prefix needle (drop i data)) [offset..<i] = []"
  proof -
    have "\<not> prefix needle (drop x data)" if "offset \<le> x" "x < i" for x
      using i(3) [rule_format, of "x - offset"] k(1) that by simp
    then show ?thesis by (auto simp: filter_empty_conv)
  qed
  have "[offset..<Suc (length data)] = [offset..<i] @ i # [i + 1..<Suc (length data)]"
    using k(1) i(1) upt_add_eq_append [of offset i "Suc (length data) - i"]
    by (simp add: upt_conv_Cons)
  then show ?thesis using none i(2) by (simp add: occurrences_def)
qed

lemma scan_token_occurrences:
  "scan_token label data token needle offset
     = map (\<lambda>i. \<lparr> leak_label = label, leak_offset = i, leak_token = token \<rparr>) (occurrences data needle offset)"
proof (induction label data token needle offset rule: scan_token.induct)
  case (1 label data token needle offset)
  show ?case
  proof (cases "find_from data needle offset")
    case None
    then show ?thesis by (subst scan_token.simps) (simp add: occurrences_None)
  next
    case (Some i)
    then show ?thesis using 1 [OF Some] by (subst scan_token.simps) (simp add: occurrences_Some)
  qed
qed

text \<open>
  C4. The leak scan reports every occurrence of every forbidden token, overlapping ones
  included, with its offset, in order, and nothing else.
\<close>

theorem scan_finds_every_occurrence:
  "scan_bytes_for_path_leaks label data forbidden
     = concat (map (\<lambda>(token, needle).
         map (\<lambda>i. \<lparr> leak_label = label, leak_offset = i, leak_token = token \<rparr>)
           (filter (\<lambda>i. prefix needle (drop i data)) [0..<Suc (length data)])) forbidden)"
  by (simp add: scan_bytes_for_path_leaks_def scan_token_occurrences occurrences_def)

lemma occurrences_contains: "occurrences data needle 0 = [] \<longleftrightarrow> \<not> contains data needle"
proof -
  have "contains data needle \<longleftrightarrow> (\<exists>i\<le>length data. prefix needle (drop i data))"
  proof
    assume "contains data needle"
    then obtain a b where "data = a @ needle @ b" by (auto simp: contains_iff)
    then have "length a \<le> length data" "prefix needle (drop (length a) data)" by auto
    then show "\<exists>i\<le>length data. prefix needle (drop i data)" by blast
  next
    assume "\<exists>i\<le>length data. prefix needle (drop i data)"
    then obtain i b where "drop i data = needle @ b" by (auto simp: prefix_def)
    then have "data = take i data @ needle @ b" by (metis append_take_drop_id)
    then show "contains data needle" by (auto simp: contains_iff)
  qed
  then show ?thesis by (auto simp: occurrences_def filter_empty_conv less_Suc_eq_le)
qed

lemma scan_bytes_Nil:
  "scan_bytes_for_path_leaks label data forbidden = [] \<longleftrightarrow>
     (\<forall>(token, needle) \<in> set forbidden. \<not> contains data needle)"
  by (auto simp: scan_bytes_for_path_leaks_def scan_token_occurrences occurrences_contains)

section \<open>Relocatable pkg-config files\<close>
lemma norm_names_append_ups:
  assumes "list_all real_name (ns @ ds)" "''..'' \<notin> set (ns @ ds)"
  shows "norm_names True (ns @ ds @ replicate (length ds) ''..'') = ns"
proof -
  have "foldl (norm_step True) (rev ds @ kept) (replicate (length ds) ''..'') = kept"
    if "list_all real_name ds" "''..'' \<notin> set ds" for ds kept
    using that
  proof (induction ds rule: rev_induct)
    case (snoc d ds)
    then have "norm_step True (d # rev ds @ kept) ''..'' = rev ds @ kept"
      by (auto simp: real_name_def)
    with snoc show ?case by simp
  qed simp
  moreover have "foldl (norm_step True) [] (ns @ ds) = rev ds @ rev ns"
    using assms norm_fold_downs [of "ns @ ds" True "[]"] by simp
  ultimately show ?thesis
    using assms by (simp add: norm_names_def foldl_append [symmetric] del: foldl_append)
      (simp add: foldl_append [of _ _ "ns @ ds", simplified])
qed

lemma common_prefix_append: "common_prefix xs (xs @ ys) = length xs"
  by (induction xs) auto

lemma relpath_below:
  assumes "wf_path q" "''..'' \<notin> set (names q)" "names q = names dir @ ds"
  shows "relpath dir q = path_text (PPath Rel (replicate (length ds) ''..''))"
proof -
  have r: "list_all real_name (names dir @ ds)"
    using assms by (auto simp: wf_path_def list_all_iff)
  have "norm_names True (names dir) = names dir" "norm_names True (names q) = names q"
    using norm_names_normal [of "[]" "names dir" True] norm_names_normal [of "[]" "names q" True] r assms(2,3)
    by (auto simp: list_all_iff)
  then show ?thesis using assms(3) by (simp add: relpath_def Let_def common_prefix_append)
qed

lemma parse_ups: "parse (path_text (PPath Rel (replicate n ''..''))) = PPath Rel (replicate n ''..'')"
  by (rule parse_path_text) (simp add: wf_path_def list_all_iff real_name_def)

text \<open>
  A relocated pkg-config file finds its prefix again: for a \<^verbatim>\<open>.pc\<close> file below the prefix, the
  prefix written into it is \<^verbatim>\<open>${pcfiledir}\<close> followed by a relative path that leads from the
  directory of the file back to the prefix.
\<close>

theorem pkg_config_prefix_resolves:
  assumes "wf_path pc" "''..'' \<notin> set (names pc)" "relative_to (parent pc) dir"
  shows "\<exists>rel. relocatable_prefix dir pc
        = (if parent pc = dir then ''${pcfiledir}'' else ''${pcfiledir}/'' @ path_text rel)
      \<and> \<not> absolute rel \<and> norm_names True (names (joinpath (parent pc) rel)) = names dir"
proof -
  let ?q = "parent pc"
  obtain ds where ds: "anchor_of ?q = anchor_of dir" "names ?q = names dir @ ds"
    using assms(3) by (auto simp: relative_to_def prefix_def)
  let ?rel = "PPath Rel (replicate (length ds) ''..'')"
  have q: "wf_path ?q" "''..'' \<notin> set (names ?q)"
    using wf_parent [OF assms(1)] assms(2) by (auto simp: parent_def dest: in_set_butlastD)
  have "?q = dir \<longleftrightarrow> ds = []" using ds by (auto intro: ppath_eqI)
  moreover have "path_text ?rel = ''.'' \<longleftrightarrow> ds = []"
    by (cases ds; cases "tl ds") (simp_all add: path_text_def)
  moreover have "parse (path_text ?rel) = ?rel" by (rule parse_ups)
  ultimately have "relocatable_prefix dir pc
      = (if ?q = dir then ''${pcfiledir}'' else ''${pcfiledir}/'' @ path_text ?rel)"
    unfolding relocatable_prefix_def relpath_below [OF q ds(2)] Let_def by auto
  moreover have "norm_names True (names (joinpath ?q ?rel)) = names dir"
    using norm_names_append_ups [of "names dir" ds] q ds(2)
    by (auto simp: absolute_def wf_path_def list_all_iff)
  ultimately show ?thesis by (intro exI [of _ ?rel]) (simp add: absolute_def)
qed

lemma pkg_config_prefix_resolves_witness:
  "\<exists>rel. relocatable_prefix (parse ''/b/out'') (parse ''/b/out/lib/pkgconfig/z.pc'') = ''${pcfiledir}/'' @ path_text rel
     \<and> path_text rel = ''../..''
     \<and> norm_names True (names (joinpath (parse ''/b/out/lib/pkgconfig'') rel)) = names (parse ''/b/out'')"
proof -
  have h: "''..'' \<notin> set (names (parse ''/b/out/lib/pkgconfig/z.pc''))"
    "relative_to (parent (parse ''/b/out/lib/pkgconfig/z.pc'')) (parse ''/b/out'')"
    "parent (parse ''/b/out/lib/pkgconfig/z.pc'') = parse ''/b/out/lib/pkgconfig''"
    "parent (parse ''/b/out/lib/pkgconfig/z.pc'') \<noteq> parse ''/b/out''"
    "relocatable_prefix (parse ''/b/out'') (parse ''/b/out/lib/pkgconfig/z.pc'') = ''${pcfiledir}/../..''"
    by code_simp+
  then show ?thesis using pkg_config_prefix_resolves [OF wf_parse h(1,2)] by auto
qed
section \<open>What a successful run has checked\<close>

definition source_verified :: "'w os \<Rightarrow> 'w \<Rightarrow> paths \<Rightarrow> json \<Rightarrow> bool" where
  "source_verified os w archives source =
     (\<exists>s n archive sha. source = JObj s \<and> dget s ''name'' = JStr n \<and> map_of archives n = Some archive
        \<and> dget s ''sha256'' = JStr sha \<and> os_sha256 os w archive = Inr sha)"

definition input_verified :: "'w os \<Rightarrow> 'w \<Rightarrow> paths \<Rightarrow> json \<Rightarrow> bool" where
  "input_verified os w paths item =
     (\<exists>i n path sha. item = JObj i \<and> dget i ''path'' = JStr n \<and> map_of paths n = Some path
        \<and> dget i ''sha256'' = JStr sha \<and> os_is_file os w path \<and> os_sha256 os w path = Inr sha)"

definition rootfs_verified :: "'w os \<Rightarrow> 'w \<Rightarrow> exec_args \<Rightarrow> dict \<Rightarrow> bool" where
  "rootfs_verified os w args plan =
     (\<exists>t i sha. map_of plan ''toolchain'' = Some (JObj t) \<and> map_of t ''rootfs_identity'' = Some (JObj i)
        \<and> map_of i ''sha256'' = Some (JStr sha) \<and> os_sha256 os w (rootfs_identity_path args) = Inr sha)"

lemma verified_source: "verify_source os w archives source = Inr u \<Longrightarrow> source_verified os w archives source"
  by (auto simp: verify_source_def source_verified_def split: option.splits if_splits)

lemma verified_input: "verify_input os w paths item = Inr u \<Longrightarrow> input_verified os w paths item"
  by (auto simp: verify_input_def input_verified_def split: option.splits if_splits)

lemma verified_rootfs: "verify_rootfs os w args plan = Inr r \<Longrightarrow> rootfs_verified os w args plan"
  by (auto simp: verify_rootfs_def rootfs_verified_def string_field_def ditem_Inr
      dest!: mapping_field_get split: if_splits)

lemma check_leaks_clean:
  assumes "check_leaks os args archives manifests outs w = (Inr (), w')" "prefix_dir outs = Some p"
  shows "scan_output_for_path_leaks os w' p (forbidden_tokens os args archives manifests outs w') = Inr []"
proof -
  from assms obtain w2 h1 h2 where r:
    "scan_output_for_path_leaks os w2 p (forbidden_tokens os args archives manifests outs w2) = Inr h1"
    "fail_on_path_leaks (h1 @ h2) = Inr ()" "w' = w2"
    unfolding check_leaks_def bindA_Inr getA_apply Let_def pureA_Inr bindE_eq_Inr by (auto simp: Let_def)
  then show ?thesis by (auto simp: fail_on_path_leaks_def split: if_splits)
qed

lemma forbidden_tokens_has:
  "path_text (work_dir outs) \<in> forbidden_tokens os args archives manifests outs w"
  "prefix_dir outs = Some p \<Longrightarrow> path_text p \<in> forbidden_tokens os args archives manifests outs w"
  "''/vaso/lines/'' \<in> forbidden_tokens os args archives manifests outs w"
  "''/.vaso-estate'' \<in> forbidden_tokens os args archives manifests outs w"
  "''bazel-out/'' \<in> forbidden_tokens os args archives manifests outs w"
  by (auto simp: forbidden_tokens_def Let_def option_list_def action_path_tokens_def FIXED_OUTPUT_BASE_MOUNT_def)

lemma finite_forbidden: "finite (forbidden_tokens os args archives manifests outs w)"
  by (simp add: forbidden_tokens_def Let_def action_path_tokens_def)

lemma scanned_file_clean:
  assumes "scan_output_for_path_leaks os w p forbidden = Inr []" "finite forbidden"
    and "path \<in> set (os_rglob os w p)" "\<not> os_is_symlink os w path" "os_is_file os w path"
    and "suffix_of path \<notin> {''.whl'', ''.zip''}"
    and "token \<in> forbidden" "token \<noteq> []"
  shows "\<exists>data. os_read_bytes os w path = Inr data \<and> \<not> contains data (utf8 token)"
proof -
  have mem: "(token, utf8 token) \<in> set (token_bytes forbidden)"
    using assms(2,7,8) by (auto simp: token_bytes_def sorted_strings_def)
  then have "concatE (scan_path os w (token_bytes forbidden)) (sort (os_rglob os w p)) = Inr []"
    using assms(1) by (auto simp: scan_output_for_path_leaks_def Let_def split: if_splits)
  then have "scan_path os w (token_bytes forbidden) path = Inr []"
    using assms(3) by (simp add: concatE_Nil)
  then obtain data where "os_read_bytes os w path = Inr data"
    "scan_bytes_for_path_leaks (path_text path) data (token_bytes forbidden) = []"
    using assms(4-6) by (auto simp: scan_path_def)
  then show ?thesis using mem scan_bytes_Nil by fastforce
qed

lemma run_in_work_Inr:
  assumes "run_in_work os args plan rootfs archives manifests nested outs w = (Inr (), w')"
  shows "\<exists>created w1 w2. build_phases os args plan rootfs archives nested outs w = (Inr (), w1)
     \<and> (\<exists>w3. remove_work os (work_dir outs) w1 = (Inr created, w3)
           \<and> check_leaks os args archives manifests outs w3 = (Inr (), w2))"
  using assms
  by (auto simp: run_in_work_def finally_remove_def bindA_def pureA_def split: prod.splits sum.splits if_splits)
definition relocatable :: "'w os \<Rightarrow> 'w \<Rightarrow> ppath \<Rightarrow> string set \<Rightarrow> bool" where
  \<comment> \<open>no regular file below the directory that is not an archive contains one of the tokens\<close>
  "relocatable os w p tokens =
     (\<forall>path\<in>set (os_rglob os w p). os_is_file os w path \<longrightarrow> \<not> os_is_symlink os w path \<longrightarrow>
        suffix_of path \<notin> {''.whl'', ''.zip''} \<longrightarrow>
        (\<exists>data. os_read_bytes os w path = Inr data \<and> (\<forall>token\<in>tokens. \<not> contains data (utf8 token))))"

lemma scanned_relocatable:
  assumes "scan_output_for_path_leaks os w p forbidden = Inr []" "finite forbidden"
    "tokens \<subseteq> forbidden" "[] \<notin> tokens" "tokens \<noteq> {}"
  shows "relocatable os w p tokens"
  unfolding relocatable_def
proof (intro ballI impI)
  fix path
  assume f: "path \<in> set (os_rglob os w p)" "os_is_file os w path" "\<not> os_is_symlink os w path"
    "suffix_of path \<notin> {''.whl'', ''.zip''}"
  have each: "\<exists>data. os_read_bytes os w path = Inr data \<and> \<not> contains data (utf8 token)"
    if "token \<in> tokens" for token
    using scanned_file_clean [OF assms(1,2) f(1,3,2,4)] assms(3,4) that by blast
  then obtain data where "os_read_bytes os w path = Inr data" using assms(5) by blast
  then show "\<exists>data. os_read_bytes os w path = Inr data \<and> (\<forall>token\<in>tokens. \<not> contains data (utf8 token))"
    using each by fastforce
qed

lemma resolve_outputs_Inr:
  assumes "resolve_outputs os args w = (Inr outs, w')"
  shows "prefix_dir outs = map_option (os_resolve os w) (prefix_out args)"
  using assms by (auto simp: resolve_outputs_def Let_def bindA_Inr split: option.splits)


section \<open>The work directory\<close>

lemma check_leaks_keeps:
  assumes wt: "\<And>p t w. os_exists os (snd (os_write_text os p t w)) q = os_exists os w q"
    and "check_leaks os args archives manifests outs w = (r, w')"
  shows "os_exists os w' q = os_exists os w q"
proof -
  have fl: "os_exists os w2 q = b" if "rewrite_pc_file os d p w1 = (s, w2)" "os_exists os w1 q = b" for d p w1 s w2 b
    using that wt
    by (auto simp: rewrite_pc_file_def getA_def pureA_def bindA_def split: option.splits sum.splits if_splits)
      (metis snd_conv)+
  have "os_exists os w2 q = os_exists os w1 q" if "rewrite_pkg_config_files os d w1 = (s, w2)" for d w1 s w2
    using that forA_keeps [of _ "rewrite_pc_file os d" "\<lambda>v. os_exists os v q = os_exists os w1 q" w1 s w2] fl
    by (auto simp: rewrite_pkg_config_files_def getA_def pureA_def split: if_splits)
  then show ?thesis using assms(2)
    by (auto simp: check_leaks_def bindA_def getA_def pureA_def Let_def split: option.splits prod.splits sum.splits)
qed

text \<open>
  The work directory does not outlive the execution: once the build has started, whatever
  ends it (success, a failing phase, a leak, any exception), the work directory does not exist
  afterwards, provided that removing the tree of an existing work directory works and that
  writing a file creates no directory.
\<close>

theorem work_directory_removed:
  assumes "\<And>w. os_exists os w (work_dir outs) \<Longrightarrow>
      fst (os_rmtree os (work_dir outs) w) = Inr () \<and> \<not> os_exists os (snd (os_rmtree os (work_dir outs) w)) (work_dir outs)"
    and "\<And>p t w. os_exists os (snd (os_write_text os p t w)) (work_dir outs) = os_exists os w (work_dir outs)"
    and "run_in_work os args plan rootfs archives manifests nested outs w = (r, w')"
  shows "\<not> os_exists os w' (work_dir outs)"
proof -
  let ?work = "work_dir outs"
  have rm: "\<exists>w2. os_rmtree os ?work w1 = (Inr (), w2) \<and> \<not> os_exists os w2 ?work" if "os_exists os w1 ?work" for w1
    using assms(1) [OF that] by (cases "os_rmtree os ?work w1") auto
  have fin: "\<not> os_exists os w2 ?work" if "finally_remove os ?work c q w1 = (s, w2)" "c \<or> \<not> os_exists os w1 ?work"
    for c q w1 s w2
    using that rm [of w1] by (auto simp: finally_remove_def getA_def bindA_def pureA_def split: if_splits)
  have gone: "c \<or> \<not> os_exists os w2 ?work" if "remove_work os ?work w1 = (Inr c, w2)" for c w1 w2
    using that rm [of w1] by (auto simp: remove_work_def getA_def bindA_def pureA_def split: if_splits)
  obtain b w1 where b: "bindA (build_phases os args plan rootfs archives nested outs)
      (\<lambda>_. remove_work os ?work) w = (b, w1)" by fastforce
  show ?thesis
  proof (cases b)
    case (Inl e)
    then show ?thesis using assms(3) b fin [of True] by (auto simp: run_in_work_def)
  next
    case (Inr c)
    then obtain w0 where "remove_work os ?work w0 = (Inr c, w1)" using b by (auto simp: bindA_Inr)
    then have c: "c \<or> \<not> os_exists os w1 ?work" by (rule gone)
    obtain q w2 where q: "check_leaks os args archives manifests outs w1 = (q, w2)" by fastforce
    have "c \<or> \<not> os_exists os w2 ?work" using c check_leaks_keeps [OF assms(2) q] by simp
    then show ?thesis using assms(3) b Inr q fin [of c q w2] by (simp add: run_in_work_def)
  qed
qed

definition sample_outputs :: outputs where
  "sample_outputs = \<lparr> prefix_dir = Some (parse ''/b/out''), wheel_file = None, output_root = parse ''/b/out'',
     work_dir = work_path \<rparr>"

lemma work_directory_removed_witness:
  "\<exists>r w'. run_in_work (sample_os ''s'' ''bazel-out/'') sample_args sample_plan [] [(''main'', parse ''/b/src/a.tar'')] []
        (nested_runtime sample_args) sample_outputs (clean_world\<lparr>has_work := True\<rparr>) = (r, w')
     \<and> r \<noteq> Inr () \<and> \<not> os_exists (sample_os ''s'' ''bazel-out/'') w' work_path"
proof -
  let ?os = "sample_os ''s'' ''bazel-out/''"
  obtain r w' where run: "run_in_work ?os sample_args sample_plan [] [(''main'', parse ''/b/src/a.tar'')] []
        (nested_runtime sample_args) sample_outputs (clean_world\<lparr>has_work := True\<rparr>) = (r, w')" by fastforce
  have work: "work_dir sample_outputs = work_path" by (simp add: sample_outputs_def)
  have "fst (run_in_work ?os sample_args sample_plan [] [(''main'', parse ''/b/src/a.tar'')] []
        (nested_runtime sample_args) sample_outputs (clean_world\<lparr>has_work := True\<rparr>))
      = Inl (SystemExit ''non-relocatable output leak(s):{}'' [JInt 1])" by code_simp
  then have "r \<noteq> Inr ()" using run by auto
  moreover have "\<not> os_exists ?os w' (work_dir sample_outputs)"
    by (rule work_directory_removed [OF _ _ run]) (simp_all add: sample_os_def work)
  ultimately show ?thesis using run work by auto
qed

end
