(* ===== verification/PathMap.thy ===== *)
theory PathMap
  imports PosixPath
begin

text \<open>
  \<^verbatim>\<open>insula/estate/path_map.py\<close>: translation of a path seen inside the insula back to the host.
  The mount table is searched in order; the results show that this order finds the deepest
  mount and that a translated path never leaves the host directory of its mount.
\<close>

section \<open>The translation\<close>

definition match_mount :: "string \<Rightarrow> string \<Rightarrow> string option" where
  "match_mount path mount =
     (if path = mount then Some []
      else if startswith path (mount @ ''/'') then Some (drop (length (mount @ ''/'')) path)
      else None)"

definition repo_mounts :: "ppath option \<Rightarrow> (string \<times> ppath) list" where
  "repo_mounts repo =
     (case repo of
        None \<Rightarrow> []
      | Some r \<Rightarrow>
          [(''/workspace/experiment'', slash r ''foundry''),
           (''/workspace/foundry'', slash r ''foundry''),
           (''/workspace/insula'', slash r ''insula''),
           (''/workspace/third_party'', slash r ''third_party''),
           (''/workspace/repo'', r)])"

definition tools_dir :: "ppath \<Rightarrow> string option \<Rightarrow> ppath" where
  "tools_dir estate line =
     (case line of
        Some l \<Rightarrow>
          if l \<noteq> [] then slash (slash (slash estate ''rootfs-lines'') l) ''rootfs/opt/vaso''
          else slash estate ''opt-vaso''
      | None \<Rightarrow> slash estate ''opt-vaso'')"

definition estate_mounts :: "ppath \<Rightarrow> string option \<Rightarrow> (string \<times> ppath) list" where
  "estate_mounts estate line =
     [(''/vaso/agents'', slash estate ''agents''),
      (''/vaso/rootfs-lines'', slash estate ''rootfs-lines''),
      (''/vaso/sources'', slash estate ''sources''),
      (''/vaso'', slash estate ''vaso''),
      (''/opt/vaso'', tools_dir estate line),
      (''/workspace'', slash estate ''workspace''),
      (''/home/kvothe'', slash (slash estate ''home'') ''kvothe'')]"

definition mount_table :: "ppath \<Rightarrow> string option \<Rightarrow> ppath option \<Rightarrow> (string \<times> ppath) list" where
  "mount_table estate line repo = repo_mounts repo @ estate_mounts estate line"

fun find_mount :: "string \<Rightarrow> (string \<times> ppath) list \<Rightarrow> ppath option" where
  "find_mount path [] = None"
| "find_mount path ((mount, host_root) # mounts) =
     (case match_mount path mount of
        Some rel \<Rightarrow> Some (slash host_root rel)
      | None \<Rightarrow> find_mount path mounts)"

definition bundle_line :: "string \<Rightarrow> string option \<Rightarrow> string option" where
  \<comment> \<open>the manifest of the prepared root belongs to the line that is running\<close>
  "bundle_line path line =
     (case line of
        Some l \<Rightarrow> if path = ''/run/vaso/rootfs-bundle.json'' \<and> l \<noteq> [] then Some l else None
      | None \<Rightarrow> None)"

definition insula_to_host_path ::
    "string \<Rightarrow> string \<Rightarrow> string option \<Rightarrow> string option \<Rightarrow> ppath" where
  "insula_to_host_path raw estate_root line repo_root =
     (if \<not> startswith raw ''/'' then parse raw
      else
        let normalized = normpath raw;
            estate = parse estate_root;
            repo = map_option parse repo_root
        in if relative_to (parse normalized) estate then parse normalized
           else case bundle_line normalized line of
                  Some l \<Rightarrow> slash (slash (slash estate ''rootfs-lines'') l) ''rootfs-bundle.json''
                | None \<Rightarrow>
                    (case find_mount normalized (mount_table estate line repo) of
                       Some host \<Rightarrow> host
                     | None \<Rightarrow> parse raw))"

section \<open>Matching a mount\<close>

text \<open>\<open>below path mount\<close>: the path is the mount point or lies under it.\<close>

definition below :: "string \<Rightarrow> string \<Rightarrow> bool" where
  "below path mount = (path = mount \<or> prefix (mount @ ''/'') path)"

lemma match_mount_None: "match_mount path mount = None \<longleftrightarrow> \<not> below path mount"
  by (simp add: match_mount_def below_def)

lemma match_mount_Some:
  "match_mount path mount = Some rel \<longleftrightarrow>
     (path = mount \<and> rel = [] \<or> path = mount @ ''/'' @ rel \<and> path \<noteq> mount)"
  by (auto simp: match_mount_def prefix_def)

lemma below_chain: "below path m \<Longrightarrow> below path m' \<Longrightarrow> length m < length m' \<Longrightarrow> prefix (m @ ''/'') m'"
proof -
  assume b: "below path m" "below path m'" and l: "length m < length m'"
  have "prefix m' path" using b(2) by (auto simp: below_def dest: append_prefixD)
  moreover from this have "path \<noteq> m" using l by (auto dest: prefix_length_le)
  with b(1) have "prefix (m @ ''/'') path" by (simp add: below_def)
  ultimately show ?thesis using l by (auto intro: prefix_length_prefix)
qed

text \<open>A table in which no entry hides a deeper one that comes after it.\<close>

definition deepest_first :: "(string \<times> ppath) list \<Rightarrow> bool" where
  "deepest_first ms = sorted_wrt (\<lambda>a b. \<not> prefix (fst a @ ''/'') (fst b)) ms"

lemma mount_table_deepest_first: "deepest_first (mount_table estate line repo)"
  by (cases repo) (simp_all add: deepest_first_def mount_table_def repo_mounts_def estate_mounts_def)

lemma find_mount_None: "find_mount path ms = None \<longleftrightarrow> (\<forall>(m, h) \<in> set ms. \<not> below path m)"
  by (induction ms) (auto simp: match_mount_None split: option.splits)

lemma find_mount_deepest:
  "deepest_first ms \<Longrightarrow> find_mount path ms = Some p \<Longrightarrow>
   \<exists>m h rel. (m, h) \<in> set ms \<and> match_mount path m = Some rel \<and> p = slash h rel
     \<and> (\<forall>(m', h') \<in> set ms. below path m' \<longrightarrow> length m' \<le> length m)"
proof (induction ms)
  case Nil
  then show ?case by simp
next
  case (Cons e ms)
  obtain m h where e: "e = (m, h)" by (cases e)
  show ?case
  proof (cases "match_mount path m")
    case None
    then obtain m1 h1 rel where r: "(m1, h1) \<in> set ms" "match_mount path m1 = Some rel"
      "p = slash h1 rel" "\<forall>(m', h') \<in> set ms. below path m' \<longrightarrow> length m' \<le> length m1"
      using Cons e by (auto simp: deepest_first_def)
    moreover have "\<not> below path m" using None by (simp add: match_mount_None)
    ultimately show ?thesis using e by (intro exI [of _ m1] exI [of _ h1] exI [of _ rel]) auto
  next
    case (Some rel)
    have "below path m" using Some match_mount_None [of path m] by simp
    have "\<forall>(m', h') \<in> set ms. below path m' \<longrightarrow> length m' \<le> length m"
    proof (intro ballI, clarify)
      fix m' h' assume m': "(m', h') \<in> set ms" "below path m'"
      have "\<not> prefix (m @ ''/'') m'"
        using Cons.prems(1) m'(1) e by (auto simp: deepest_first_def)
      then show "length m' \<le> length m"
        using below_chain [OF \<open>below path m\<close> m'(2)] by force
    qed
    then show ?thesis using Some Cons.prems(2) e
      by (intro exI [of _ m] exI [of _ h] exI [of _ rel]) auto
  qed
qed

section \<open>No escape\<close>

lemma split_on_mid: "split_on c (a @ c # b) = split_on c a @ split_on c b"
  by (induction a) (auto split: list.splits)

lemma split_path_text:
  assumes "wf_path p" "anchor_of p = Slash" "names p \<noteq> []"
  shows "split_on (CHR ''/'') (path_text p) = [] # names p"
  using assms by (simp add: path_text_def wf_path_def list_all_iff split_on_join)

lemma rel_names:
  assumes "splitroot raw = Slash" "normpath raw = m @ ''/'' @ rel" "m \<noteq> []"
  shows "\<not> absolute (parse rel) \<and> ''..'' \<notin> set (names (parse rel))"
proof -
  let ?p = "normalised raw"
  have a: "anchor_of ?p = Slash" using assms(1) by (simp add: normalised_def)
  have t: "path_text ?p = m @ ''/'' @ rel" using assms(2) by (simp add: normpath_def)
  have ne: "names ?p \<noteq> []"
    using t a assms(3) by (auto simp: path_text_def Cons_eq_append_conv)
  have s: "split_on (CHR ''/'') m @ split_on (CHR ''/'') rel = [] # names ?p"
    using split_path_text [OF wf_normalised a ne] t by (simp add: split_on_mid)
  then have sub: "set (split_on (CHR ''/'') rel) \<subseteq> set (names ?p)"
    by (metis append_eq_Cons_conv list.distinct(1) set_append split_on_nonempty sup_ge2)
  have dots: "''..'' \<notin> set (names ?p)"
    using assms(1) norm_names_rooted by (simp add: normalised_def)
  have real: "n \<in> set (names ?p) \<Longrightarrow> real_name n" for n
    using wf_normalised [of raw] by (auto simp: wf_path_def list_all_iff)
  have "\<not> prefix ''/'' rel"
  proof
    assume "prefix ''/'' rel"
    then have "[] \<in> set (split_on (CHR ''/'') rel)" by (cases rel) auto
    with sub real show False by (auto simp: real_name_def)
  qed
  then show ?thesis using sub dots by (auto simp: parse_def absolute_def splitroot_def)
qed

lemma mount_names_nonempty: "(m, h) \<in> set (mount_table estate line repo) \<Longrightarrow> m \<noteq> []"
  by (cases repo) (auto simp: mount_table_def repo_mounts_def estate_mounts_def)

lemma find_mount_in_host:
  assumes "splitroot raw = Slash" "match_mount (normpath raw) m = Some rel" "m \<noteq> []"
  shows "relative_to (slash h rel) h \<and> (''..'' \<notin> set (names h) \<longrightarrow> ''..'' \<notin> set (names (slash h rel)))"
proof -
  have "\<not> absolute (parse rel) \<and> ''..'' \<notin> set (names (parse rel))"
  proof (cases "rel = []")
    case True
    then show ?thesis by (simp add: parse_def absolute_def splitroot_def real_name_def)
  next
    case False
    with assms(2) have "normpath raw = m @ ''/'' @ rel" by (auto simp: match_mount_Some)
    from rel_names [OF assms(1) this assms(3)] show ?thesis .
  qed
  then show ?thesis by simp
qed
section \<open>The translation as a whole\<close>

text \<open>
  C5. Translation finds the deepest mount and cannot escape it. For a path with one leading
  slash that is not already inside the estate (and is not the bundle manifest), either no mount
  of the table covers the normalised path and it is returned unchanged, or the result lies
  under the host directory of the longest mount point that covers the path, whatever \<^verbatim>\<open>..\<close>
  components the given path had.
\<close>

theorem path_translation:
  assumes "splitroot raw = Slash"
    and "\<not> relative_to (parse (normpath raw)) (parse estate_root)"
    and "bundle_line (normpath raw) line = None"
  shows "let result = insula_to_host_path raw estate_root line repo_root;
             mounts = mount_table (parse estate_root) line (map_option parse repo_root)
         in (result = parse raw \<and> (\<forall>(m, h) \<in> set mounts. \<not> below (normpath raw) m))
            \<or> (\<exists>(m, h) \<in> set mounts. below (normpath raw) m
                \<and> (\<forall>(m', h') \<in> set mounts. below (normpath raw) m' \<longrightarrow> length m' \<le> length m)
                \<and> relative_to result h
                \<and> (''..'' \<notin> set (names h) \<longrightarrow> ''..'' \<notin> set (names result)))"
proof -
  let ?ms = "mount_table (parse estate_root) line (map_option parse repo_root)"
  have slash: "prefix ''/'' raw" using assms(1) by (simp add: splitroot_def split: if_splits)
  have r: "insula_to_host_path raw estate_root line repo_root
      = (case find_mount (normpath raw) ?ms of Some host \<Rightarrow> host | None \<Rightarrow> parse raw)"
    using assms slash by (simp add: insula_to_host_path_def)
  show ?thesis
  proof (cases "find_mount (normpath raw) ?ms")
    case None
    then have "insula_to_host_path raw estate_root line repo_root = parse raw"
      "\<forall>(m, h) \<in> set ?ms. \<not> below (normpath raw) m"
      unfolding find_mount_None [symmetric] r by simp_all
    then show ?thesis by simp
  next
    case (Some host)
    from find_mount_deepest [OF mount_table_deepest_first Some] obtain m h rel where
      m: "(m, h) \<in> set ?ms" "match_mount (normpath raw) m = Some rel" "host = slash h rel"
        "\<forall>(m', h') \<in> set ?ms. below (normpath raw) m' \<longrightarrow> length m' \<le> length m" by blast
    have "below (normpath raw) m" using m(2) match_mount_None [of "normpath raw" m] by simp
    then show ?thesis unfolding Let_def r Some option.case m(3)
      by (intro disjI2 bexI [OF _ m(1)] prod.case [THEN iffD2] case_prodI conjI)
        (use m(4) find_mount_in_host [OF assms(1) m(2) mount_names_nonempty [OF m(1)]] in auto)
  qed
qed

lemma path_translation_witness:
  "insula_to_host_path ''/vaso/agents/../cache/./x'' ''/srv/estate'' None None
     = parse ''/srv/estate/vaso/cache/x''
   \<and> relative_to (parse ''/srv/estate/vaso/cache/x'') (parse ''/srv/estate/vaso'')"
proof -
  have h: "splitroot ''/vaso/agents/../cache/./x'' = Slash"
    "\<not> relative_to (parse (normpath ''/vaso/agents/../cache/./x'')) (parse ''/srv/estate'')"
    "bundle_line (normpath ''/vaso/agents/../cache/./x'') None = None" by code_simp+
  have "insula_to_host_path ''/vaso/agents/../cache/./x'' ''/srv/estate'' None None
     = parse ''/srv/estate/vaso/cache/x''" by code_simp
  moreover have "relative_to (parse ''/srv/estate/vaso/cache/x'') (parse ''/srv/estate/vaso'')"
    using path_translation [OF h, of None] by code_simp
  ultimately show ?thesis by simp
qed

end
