(* ===== verification/OverlayRoot.thy ===== *)
theory OverlayRoot
  imports PosixPath
begin

text \<open>
  \<^verbatim>\<open>insula/estate/overlay_root.py\<close>: the bind plan of the sandbox root. The base root is given by
  its listings: the names of a directory, each a symbolic link with its target or anything
  else. A plan is a list of binds; \<open>bind_args\<close> writes one as the arguments of bwrap.
\<close>

section \<open>The plan\<close>

datatype bentry = SymlinkTo string | Plain

record base_root =
  base_path :: ppath
  top_entries :: "(string \<times> bentry) list res"
  \<comment> \<open>\<^verbatim>\<open>base.iterdir()\<close>\<close>
  dir_entries :: "string \<Rightarrow> (string \<times> bentry) list option"
  \<comment> \<open>\<^verbatim>\<open>(base / top).iterdir()\<close> when \<^verbatim>\<open>(base / top).is_dir()\<close>\<close>

datatype bind =
    RoBind string string
  | SymlinkArg string string
  | Tmpfs string
  | DirArg string

fun bind_args :: "bind \<Rightarrow> string list" where
  "bind_args (RoBind src dst) = [''--ro-bind'', src, dst]"
| "bind_args (SymlinkArg target dst) = [''--symlink'', target, dst]"
| "bind_args (Tmpfs dst) = [''--tmpfs'', dst]"
| "bind_args (DirArg dst) = [''--dir'', dst]"

definition SKIP_TOPLEVEL :: "string list" where
  "SKIP_TOPLEVEL = [''proc'', ''dev'', ''tmp'', ''run'', ''sys'']"

abbreviation nul :: char where
  "nul \<equiv> char_of (0::nat)"

definition mountpoint_ok :: "string \<Rightarrow> bool" where
  "mountpoint_ok mp =
     (startswith mp ''/'' \<and> \<not> startswith mp ''//'' \<and> mp \<noteq> ''/''
      \<and> path_text (parse mp) = mp \<and> ''..'' \<notin> set (parts (parse mp))
      \<and> lf \<notin> set mp \<and> nul \<notin> set mp)"

definition check_mountpoints :: "string list \<Rightarrow> unit res" where
  "check_mountpoints mps =
     (case find (\<lambda>mp. \<not> mountpoint_ok mp) mps of
        Some mp \<Rightarrow>
          Inl (ValueError ''mountpoint must be a canonical absolute directory: {!r}'' [JStr mp])
      | None \<Rightarrow> Inr ())"

definition mp_tops :: "string list \<Rightarrow> string list" where
  "mp_tops mps =
     sort (remdups (concat (map (\<lambda>mp.
       if 1 < length (parts (parse mp)) then [parts (parse mp) ! 1] else []) mps)))"

definition reserved_names :: "string list \<Rightarrow> string \<Rightarrow> string list" where
  "reserved_names mps top_name =
     concat (map (\<lambda>mp.
       if 2 < length (parts (parse mp)) \<and> parts (parse mp) ! 1 = top_name
       then [parts (parse mp) ! 2] else []) mps)"

definition entry_bind :: "ppath \<Rightarrow> string \<Rightarrow> string \<times> bentry \<Rightarrow> bind" where
  "entry_bind dir dst entry =
     (case snd entry of
        SymlinkTo target \<Rightarrow> SymlinkArg (path_text (parse target)) (dst @ fst entry)
      | Plain \<Rightarrow> RoBind (path_text (slash dir (fst entry))) (dst @ fst entry))"

definition by_name :: "(string \<times> bentry) list \<Rightarrow> (string \<times> bentry) list" where
  "by_name = sort_key fst"

definition top_binds :: "base_root \<Rightarrow> string list \<Rightarrow> (string \<times> bentry) list \<Rightarrow> bind list" where
  "top_binds base mps entries =
     map (entry_bind (base_path base) ''/'')
       (filter (\<lambda>(name, _). name \<notin> set SKIP_TOPLEVEL \<and> name \<notin> set (mp_tops mps)) (by_name entries))"

definition mp_top_binds :: "base_root \<Rightarrow> string list \<Rightarrow> string \<Rightarrow> bind list" where
  "mp_top_binds base mps top_name =
     Tmpfs (''/'' @ top_name) #
     (case dir_entries base top_name of
        None \<Rightarrow> []
      | Some children \<Rightarrow>
          map (entry_bind (slash (base_path base) top_name) (''/'' @ top_name @ ''/''))
            (filter (\<lambda>(name, _). name \<notin> set (reserved_names mps top_name)) (by_name children)))"

definition overlay_plan :: "base_root \<Rightarrow> string list \<Rightarrow> (string \<times> bentry) list \<Rightarrow> bind list" where
  "overlay_plan base mps entries =
     top_binds base mps entries @ concat (map (mp_top_binds base mps) (mp_tops mps)) @ map DirArg mps"

definition plan_binds :: "base_root \<Rightarrow> string list \<Rightarrow> string list res" where
  "plan_binds base mps =
     bindE (check_mountpoints mps) (\<lambda>_.
     bindE (top_entries base) (\<lambda>entries.
       let args = concat (map bind_args (overlay_plan base mps entries))
       in if list_ex (\<lambda>token. lf \<in> set token \<or> nul \<in> set token) args
          then Inl (ValueError ''rootfs overlay argument contains a newline or NUL'' [])
          else Inr args))"

section \<open>Mount points stay reachable\<close>

text \<open>A name that a directory listing can return.\<close>

definition file_name :: "string \<Rightarrow> bool" where
  "file_name n = (real_name n \<and> n \<noteq> ''..'' \<and> CHR ''/'' \<notin> set n)"

definition base_wf :: "base_root \<Rightarrow> bool" where
  "base_wf base =
     ((\<forall>entries. top_entries base = Inr entries \<longrightarrow> (\<forall>(n, _) \<in> set entries. file_name n))
      \<and> (\<forall>d entries. dir_entries base d = Some entries \<longrightarrow> (\<forall>(n, _) \<in> set entries. file_name n)))"

fun covers :: "bind \<Rightarrow> string \<Rightarrow> bool" where
  \<comment> \<open>the bind puts base content at the destination, which is an ancestor of the path or it\<close>
  "covers (RoBind src dst) mp = relative_to (parse mp) (parse dst)"
| "covers (SymlinkArg target dst) mp = relative_to (parse mp) (parse dst)"
| "covers _ mp = False"

lemma check_mountpoints_Inr: "check_mountpoints mps = Inr u \<longleftrightarrow> (\<forall>mp\<in>set mps. mountpoint_ok mp)"
  by (auto simp: check_mountpoints_def find_None_iff find_Some_iff split: option.splits)

lemma mountpoint_parts:
  assumes "mountpoint_ok mp"
  shows "parts (parse mp) = ''/'' # names (parse mp)" "names (parse mp) \<noteq> []"
    "anchor_of (parse mp) = Slash"
proof -
  have s: "splitroot mp = Slash" using assms by (simp add: mountpoint_ok_def splitroot_def)
  then show a: "anchor_of (parse mp) = Slash" by (simp add: parse_def)
  then show "parts (parse mp) = ''/'' # names (parse mp)" by (simp add: parts_def absolute_def)
  show "names (parse mp) \<noteq> []"
    using assms a by (auto simp: mountpoint_ok_def path_text_def)
qed

lemma in_mp_tops:
  "mountpoint_ok mp \<Longrightarrow> mp \<in> set mps \<Longrightarrow> hd (names (parse mp)) \<in> set (mp_tops mps)"
  using mountpoint_parts [of mp]
  by (auto simp: mp_tops_def hd_conv_nth intro!: bexI [of _ mp])

lemma parse_dst1: "file_name n \<Longrightarrow> parse (''/'' @ n) = PPath Slash [n]"
proof -
  assume n: "file_name n"
  then have "\<not> prefix ''/'' n" by (cases n) (auto simp: file_name_def)
  with n show ?thesis
    by (auto simp: file_name_def parse_def splitroot_def split_on_single real_name_def)
qed

lemma parse_dst2: "file_name t \<Longrightarrow> file_name n \<Longrightarrow> parse (''/'' @ t @ ''/'' @ n) = PPath Slash [t, n]"
proof -
  assume f: "file_name t" "file_name n"
  then have "\<not> prefix ''/'' (t @ ''/'' @ n)" by (cases t) (auto simp: file_name_def real_name_def)
  with f show ?thesis
    by (auto simp: file_name_def parse_def splitroot_def split_on_append split_on_single real_name_def)
qed

lemma mp_tops_name: "t \<in> set (mp_tops mps) \<Longrightarrow> \<forall>mp\<in>set mps. mountpoint_ok mp \<Longrightarrow> file_name t"
proof -
  assume t: "t \<in> set (mp_tops mps)" and ok: "\<forall>mp\<in>set mps. mountpoint_ok mp"
  then obtain mp where mp: "mp \<in> set mps" "t = parts (parse mp) ! 1" "1 < length (parts (parse mp))"
    by (auto simp: mp_tops_def split: if_splits)
  then have m: "mountpoint_ok mp" using ok by simp
  have "t \<in> set (names (parse mp))"
    using mp mountpoint_parts [OF m] by (auto simp: hd_conv_nth)
  moreover have "''..'' \<notin> set (names (parse mp))"
    using m mountpoint_parts [OF m] by (simp add: mountpoint_ok_def)
  ultimately show "file_name t"
    using wf_parse [of mp] by (auto simp: file_name_def wf_path_def list_all_iff)
qed

lemma top_bind_covers_not:
  assumes "b \<in> set (top_binds base mps entries)" "mp \<in> set mps" "mountpoint_ok mp"
    "\<forall>(n, _) \<in> set entries. file_name n"
  shows "\<not> covers b mp"
proof -
  obtain n e where b: "b = entry_bind (base_path base) ''/'' (n, e)" "(n, e) \<in> set entries"
    "n \<notin> set (mp_tops mps)" using assms(1) by (auto simp: top_binds_def by_name_def)
  have "hd (names (parse mp)) \<noteq> n" using in_mp_tops [OF assms(3,2)] b(3) by auto
  then have "\<not> relative_to (parse mp) (parse (''/'' @ n))"
    using parse_dst1 [of n] assms(4) b(2) mountpoint_parts [OF assms(3)]
    by (auto simp: relative_to_def prefix_def)
  then show ?thesis using b(1) by (auto simp: entry_bind_def split: bentry.splits)
qed

lemma mp_top_bind_covers_not:
  assumes "b \<in> set (mp_top_binds base mps t)" "t \<in> set (mp_tops mps)" "mp \<in> set mps"
    and ok: "\<forall>mp\<in>set mps. mountpoint_ok mp"
    and wf: "\<And>entries. dir_entries base t = Some entries \<Longrightarrow> (\<forall>(n, _) \<in> set entries. file_name n)"
  shows "\<not> covers b mp"
proof (cases "b = Tmpfs (''/'' @ t)")
  case False
  then obtain children n e where b: "dir_entries base t = Some children" "(n, e) \<in> set children"
    "b = entry_bind (slash (base_path base) t) (''/'' @ t @ ''/'') (n, e)"
    "n \<notin> set (reserved_names mps t)"
  proof (cases "dir_entries base t")
    case None
    then show ?thesis using assms(1) False by (simp add: mp_top_binds_def)
  next
    case (Some children)
    then obtain e where "e \<in> set children" "fst e \<notin> set (reserved_names mps t)"
      "b = entry_bind (slash (base_path base) t) (''/'' @ t @ ''/'') e"
      using assms(1) False by (auto simp: mp_top_binds_def by_name_def)
    then show ?thesis using that [OF Some, of "fst e" "snd e"] by simp
  qed
  have m: "mountpoint_ok mp" using ok assms(3) by simp
  have "\<not> relative_to (parse mp) (parse (''/'' @ t @ ''/'' @ n))"
  proof
    assume "relative_to (parse mp) (parse (''/'' @ t @ ''/'' @ n))"
    moreover have "file_name n" using wf [OF b(1)] b(2) by auto
    ultimately obtain rest where "names (parse mp) = t # n # rest"
      using parse_dst2 [OF mp_tops_name [OF assms(2) ok], of n] by (auto simp: relative_to_def prefix_def)
    then have "n \<in> set (reserved_names mps t)"
      using mountpoint_parts [OF m] assms(3) by (auto simp: reserved_names_def intro!: bexI [of _ mp])
    with b(4) show False by simp
  qed
  then show ?thesis using b(3) by (auto simp: entry_bind_def split: bentry.splits)
qed simp

text \<open>
  No declared mount point is hidden by content of the base root: when a plan is produced,
  every mount point gets its directory, and no read-only bind and no symbolic link of the plan
  is placed on a mount point or on one of its ancestors. The plan is also readable line by
  line: no argument contains a line feed or a NUL.
\<close>

theorem overlay_keeps_mountpoints:
  assumes "plan_binds base mps = Inr args" "base_wf base"
  shows "\<exists>plan. args = concat (map bind_args plan)
    \<and> (\<forall>mp\<in>set mps. DirArg mp \<in> set plan \<and> (\<forall>b\<in>set plan. \<not> covers b mp))
    \<and> (\<forall>token\<in>set args. lf \<notin> set token \<and> nul \<notin> set token)"
proof -
  from assms(1) obtain entries where e: "\<forall>mp\<in>set mps. mountpoint_ok mp" "top_entries base = Inr entries"
    "args = concat (map bind_args (overlay_plan base mps entries))"
    "\<forall>token\<in>set args. lf \<notin> set token \<and> nul \<notin> set token"
    by (auto simp: plan_binds_def check_mountpoints_Inr Let_def list_ex_iff split: if_splits)
  have "\<not> covers b mp" if mp: "mp \<in> set mps" and b: "b \<in> set (overlay_plan base mps entries)" for b mp
  proof -
    from b consider "b \<in> set (top_binds base mps entries)"
      | t where "t \<in> set (mp_tops mps)" "b \<in> set (mp_top_binds base mps t)"
      | m where "b = DirArg m" by (auto simp: overlay_plan_def)
    then show ?thesis
    proof cases
      case 1
      then show ?thesis
        using top_bind_covers_not mp e(1,2) assms(2) unfolding base_wf_def by blast
    next
      case 2
      then show ?thesis
        using mp_top_bind_covers_not mp e(1) assms(2) unfolding base_wf_def by blast
    next
      case 3
      then show ?thesis by simp
    qed
  qed
  moreover have "DirArg mp \<in> set (overlay_plan base mps entries)" if "mp \<in> set mps" for mp
    using that by (simp add: overlay_plan_def)
  ultimately show ?thesis using e(3,4) by blast
qed

definition sample_base :: base_root where
  "sample_base =
     \<lparr> base_path = parse ''/base'',
       top_entries = Inr [(''usr'', Plain), (''run'', Plain), (''opt'', Plain), (''bin'', SymlinkTo ''usr/bin'')],
       dir_entries = (\<lambda>d. if d = ''opt'' then Some [(''vaso'', Plain), (''cuda'', Plain)]
                         else if d = ''run'' then Some [(''lock'', Plain)] else None) \<rparr>"

lemma sample_base_wf: "base_wf sample_base"
  by (auto simp: base_wf_def sample_base_def file_name_def real_name_def split: if_splits)

lemma overlay_keeps_mountpoints_witness:
  "\<exists>args plan. plan_binds sample_base [''/opt/vaso'', ''/home/kvothe''] = Inr args
     \<and> args = concat (map bind_args plan)
     \<and> [''--symlink'', ''usr/bin'', ''/bin'', ''--ro-bind'', ''/base/usr'', ''/usr'', ''--tmpfs'', ''/home'',
        ''--tmpfs'', ''/opt'', ''--ro-bind'', ''/base/opt/cuda'', ''/opt/cuda'', ''--dir'', ''/opt/vaso'',
        ''--dir'', ''/home/kvothe''] = args
     \<and> (\<forall>b\<in>set plan. \<not> covers b ''/opt/vaso'')"
proof -
  let ?args = "[''--symlink'', ''usr/bin'', ''/bin'', ''--ro-bind'', ''/base/usr'', ''/usr'', ''--tmpfs'', ''/home'',
        ''--tmpfs'', ''/opt'', ''--ro-bind'', ''/base/opt/cuda'', ''/opt/cuda'', ''--dir'', ''/opt/vaso'',
        ''--dir'', ''/home/kvothe'']"
  have a: "plan_binds sample_base [''/opt/vaso'', ''/home/kvothe''] = Inr ?args"
    by code_simp
  from overlay_keeps_mountpoints [OF a sample_base_wf] show ?thesis using a by auto
qed

text \<open>
  A mount point below a directory that bwrap manages, such as the canonical \<^verbatim>\<open>/run/vaso\<close>, makes
  the plan bind the base content of that directory: the skip list is consulted for the
  top-level entries only.
\<close>

theorem run_mountpoint_binds_base_run:
  "''run'' \<in> set SKIP_TOPLEVEL
   \<and> plan_binds sample_base [''/run/vaso'']
      = Inr [''--symlink'', ''usr/bin'', ''/bin'', ''--ro-bind'', ''/base/opt'', ''/opt'',
             ''--ro-bind'', ''/base/usr'', ''/usr'',
             ''--tmpfs'', ''/run'', ''--ro-bind'', ''/base/run/lock'', ''/run/lock'', ''--dir'', ''/run/vaso'']"
  by code_simp

end
