(* ===== verification/Estate.thy ===== *)
theory Estate
  imports PosixPath
begin

text \<open>
  \<^verbatim>\<open>insula/estate/estate.py\<close>: the layout of the estate, its materialisation, the usage count of a
  tree, the file system that backs a path, and the placement check. The file system is given by
  the calls the code makes (\<^verbatim>\<open>lstat\<close>, \<^verbatim>\<open>iterdir\<close>, \<^verbatim>\<open>exists\<close>, \<^verbatim>\<open>resolve\<close>, the text of
  \<^verbatim>\<open>/proc/mounts\<close>); the directories that are created are the state.
\<close>

section \<open>Layout\<close>

definition CUDA_LINES :: "string list" where
  "CUDA_LINES = [''cu129'', ''cu130'']"

definition ESTATE_DIRS :: "string list" where
  "ESTATE_DIRS =
     [''rootfs-lines'', ''sources'', ''home/kvothe'', ''home/kvothe/.cache'', ''home/kvothe/.config'',
      ''home/kvothe/.local'', ''vaso'', ''vaso/state'', ''vaso/state/toolchains'', ''vaso/cache'',
      ''vaso/cache/bazel/repository-cache'', ''vaso/cache/spack/source'', ''vaso/cache/spack/user'',
      ''vaso/cache/uv'', ''vaso/cache/cargo'', ''vaso/cache/go'', ''vaso/runs'', ''vaso/traces'',
      ''vaso/tmp'', ''vaso/tools/bin'', ''agents'', ''agents/leases'', ''opt-vaso'', ''opt-vaso/bin'',
      ''opt-vaso/spack'', ''opt-vaso/view'', ''workspace'']"

definition LINE_ESTATE_DIRS :: "string list" where
  "LINE_ESTATE_DIRS =
     [''cache/bazel/output-base'', ''cache/bazel/disk-cache'', ''state/native'', ''state/stamps'',
      ''state/spack'']"

definition CANONICAL_SANDBOX_DIRS :: "string list" where
  "CANONICAL_SANDBOX_DIRS =
     [''/home/kvothe'', ''/workspace'', ''/vaso'', ''/vaso/state'', ''/vaso/cache'', ''/vaso/runs'',
      ''/vaso/traces'', ''/vaso/tmp'', ''/vaso/tools/bin'', ''/opt/vaso'', ''/run/vaso'']"

definition SANDBOX_MOUNTS :: "(string \<times> string \<times> string) list" where
  "SANDBOX_MOUNTS =
     [(''home/kvothe'', ''/home/kvothe'', ''rw''), (''workspace'', ''/workspace'', ''rw''),
      (''vaso'', ''/vaso'', ''rw''), (''vaso/tools/bin'', ''/vaso/tools/bin'', ''ro''),
      (''opt-vaso'', ''/opt/vaso'', ''ro'')]"

definition FSTYPE_BLOCKLIST :: "string list" where
  "FSTYPE_BLOCKLIST = [''tmpfs'', ''devtmpfs'', ''overlay'', ''squashfs'', ''ramfs'']"

record vaso_estate =
  estate_root :: ppath

definition validate_cuda_line :: "string \<Rightarrow> string res" where
  "validate_cuda_line line =
     (if line \<notin> set CUDA_LINES
      then Inl (ValueError ''unknown CUDA line {!r}; expected one of: {}''
                 [JStr line, JStr (join '', '' CUDA_LINES)])
      else Inr line)"

definition rootfs :: "vaso_estate \<Rightarrow> ppath" where
  "rootfs e = slash (estate_root e) ''rootfs''"

definition rootfs_manifest :: "vaso_estate \<Rightarrow> ppath" where
  "rootfs_manifest e = slash (estate_root e) ''rootfs-bundle.json''"

definition host_dir :: "vaso_estate \<Rightarrow> string \<Rightarrow> ppath" where
  "host_dir e rel = slash (estate_root e) rel"

definition cuda_rootfs :: "vaso_estate \<Rightarrow> string \<Rightarrow> ppath res" where
  "cuda_rootfs e line = bindE (validate_cuda_line line) (\<lambda>l.
     Inr (slash (slash (slash (estate_root e) ''rootfs-lines'') l) ''rootfs''))"

definition cuda_rootfs_manifest :: "vaso_estate \<Rightarrow> string \<Rightarrow> ppath res" where
  "cuda_rootfs_manifest e line = bindE (validate_cuda_line line) (\<lambda>l.
     Inr (slash (slash (slash (estate_root e) ''rootfs-lines'') l) ''rootfs-bundle.json''))"

definition line_host :: "vaso_estate \<Rightarrow> string \<Rightarrow> ppath res" where
  "line_host e line = bindE (validate_cuda_line line) (\<lambda>l.
     Inr (slash (slash (slash (estate_root e) ''vaso'') ''lines'') l))"

definition line_path :: "vaso_estate \<Rightarrow> string \<Rightarrow> string \<Rightarrow> ppath res" where
  "line_path e line rel = bindE (line_host e line) (\<lambda>h. Inr (slash h rel))"

definition line_bazel_output_base :: "vaso_estate \<Rightarrow> string \<Rightarrow> ppath res" where
  "line_bazel_output_base e line = line_path e line ''cache/bazel/output-base''"

definition line_bazel_disk_cache :: "vaso_estate \<Rightarrow> string \<Rightarrow> ppath res" where
  "line_bazel_disk_cache e line = line_path e line ''cache/bazel/disk-cache''"

definition line_native_state :: "vaso_estate \<Rightarrow> string \<Rightarrow> ppath res" where
  "line_native_state e line = line_path e line ''state/native''"

definition line_native_stamps :: "vaso_estate \<Rightarrow> string \<Rightarrow> ppath res" where
  "line_native_stamps e line = line_path e line ''state/stamps''"

definition bazel_output_base :: "vaso_estate \<Rightarrow> ppath" where
  "bazel_output_base e = slash (estate_root e) ''vaso/cache/bazel/output-base''"

definition bazel_repository_cache :: "vaso_estate \<Rightarrow> ppath" where
  "bazel_repository_cache e = slash (estate_root e) ''vaso/cache/bazel/repository-cache''"

definition bazel_disk_cache :: "vaso_estate \<Rightarrow> ppath" where
  "bazel_disk_cache e = slash (estate_root e) ''vaso/cache/bazel/disk-cache''"

definition sandbox_mounts :: "vaso_estate \<Rightarrow> (ppath \<times> string \<times> string) list" where
  "sandbox_mounts e = map (\<lambda>(rel, sb, mode). (slash (estate_root e) rel, sb, mode)) SANDBOX_MOUNTS"

text \<open>\<^verbatim>\<open>mkdir(parents=True, exist_ok=True)\<close> adds the directory and its missing ancestors.\<close>

definition ancestors :: "ppath \<Rightarrow> ppath list" where
  "ancestors p = map (\<lambda>k. PPath (anchor_of p) (take k (names p))) [0..<Suc (length (names p))]"

definition mkdirs :: "ppath set \<Rightarrow> ppath \<Rightarrow> ppath set" where
  "mkdirs dirs p = dirs \<union> set (ancestors p)"

definition line_dirs :: "vaso_estate \<Rightarrow> string \<Rightarrow> ppath list res" where
  "line_dirs e line = mapE (line_path e line) LINE_ESTATE_DIRS"

definition materialize :: "vaso_estate \<Rightarrow> ppath set \<Rightarrow> vaso_estate res \<times> ppath set" where
  "materialize e dirs =
     (let dirs1 = foldl mkdirs dirs (map (slash (estate_root e)) ESTATE_DIRS)
      in case concatE (line_dirs e) CUDA_LINES of
           Inl ex \<Rightarrow> (Inl ex, dirs1)
         | Inr ps \<Rightarrow> (Inr e, foldl mkdirs dirs1 ps))"

definition to_json :: "vaso_estate \<Rightarrow> json res" where
  "to_json e =
     (let root = estate_root e; line_entry = (\<lambda>f. mapE (\<lambda>l. bindE (f l) (\<lambda>v. Inr (l, v))) CUDA_LINES)
      in bindE (line_entry (\<lambda>l. bindE (cuda_rootfs e l) (\<lambda>p. Inr (JStr (path_text p))))) (\<lambda>roots.
         bindE (line_entry (\<lambda>l. bindE (cuda_rootfs_manifest e l) (\<lambda>p. Inr (JStr (path_text p))))) (\<lambda>manifests.
         bindE (line_entry (\<lambda>l. bindE (line_dirs e l) (\<lambda>ps. Inr (JList (map (\<lambda>p. JStr (path_text p)) ps))))) (\<lambda>ldirs.
         Inr (JObj
           [(''schema_version'', JInt 1),
            (''root'', JStr (path_text root)),
            (''dirs'', JList (map JStr ESTATE_DIRS)),
            (''cuda_lines'', JList (map JStr CUDA_LINES)),
            (''cuda_rootfs'', JObj roots),
            (''cuda_rootfs_manifests'', JObj manifests),
            (''line_dirs'', JObj ldirs),
            (''canonical_sandbox_dirs'', JList (map JStr CANONICAL_SANDBOX_DIRS)),
            (''sandbox_mounts'', JList (map (\<lambda>(rel, sb, mode). JObj
               [(''host'', JStr (path_text (slash root rel))), (''sandbox'', JStr sb), (''mode'', JStr mode)])
               SANDBOX_MOUNTS))])))))"

section \<open>Usage of a tree\<close>

record file_stat =
  st_dev :: int
  st_ino :: int
  st_size :: int
  st_isdir :: bool

definition identity :: "file_stat \<Rightarrow> int \<times> int" where
  "identity st = (st_dev st, st_ino st)"

record fs_view =
  lstat_of :: "ppath \<Rightarrow> file_stat option"
  children_of :: "ppath \<Rightarrow> ppath list option"

definition REPORT_SUBTREES :: "(string \<times> string) list" where
  "REPORT_SUBTREES =
     [(''cache'', ''vaso/cache''), (''tmp'', ''vaso/tmp''), (''runs'', ''vaso/runs''), (''agents'', ''agents'')]"

text \<open>
  The loop of \<^verbatim>\<open>tree_usage\<close>. The head of \<open>pending\<close> is the end of the Python list, the element that
  \<^verbatim>\<open>pop\<close> takes; the first argument bounds the number of turns.
\<close>

fun usage_loop ::
    "nat \<Rightarrow> fs_view \<Rightarrow> ppath list \<Rightarrow> (int \<times> int) set \<Rightarrow> int \<Rightarrow> (int \<times> (int \<times> int) set) option" where
  "usage_loop n fs [] seen bytes = Some (bytes, seen)"
| "usage_loop 0 fs (current # pending) seen bytes = None"
| "usage_loop (Suc n) fs (current # pending) seen bytes =
     (case lstat_of fs current of
        None \<Rightarrow> usage_loop n fs pending seen bytes
      | Some st \<Rightarrow>
          if identity st \<in> seen then usage_loop n fs pending seen bytes
          else
            let seen' = insert (identity st) seen; bytes' = bytes + st_size st
            in if st_isdir st then
                 (case children_of fs current of
                    None \<Rightarrow> usage_loop n fs pending seen' bytes'
                  | Some cs \<Rightarrow> usage_loop n fs (rev cs @ pending) seen' bytes')
               else usage_loop n fs pending seen' bytes')"

definition tree_usage :: "nat \<Rightarrow> fs_view \<Rightarrow> ppath \<Rightarrow> (int \<times> nat) option" where
  "tree_usage n fs path = map_option (\<lambda>(bytes, seen). (bytes, card seen)) (usage_loop n fs [path] {} 0)"
text \<open>The paths the walk can meet.\<close>

inductive_set tree_paths :: "fs_view \<Rightarrow> ppath \<Rightarrow> ppath set" for fs :: fs_view and start :: ppath where
  tree_start: "start \<in> tree_paths fs start"
| tree_child: "p \<in> tree_paths fs start \<Longrightarrow> lstat_of fs p = Some st \<Longrightarrow> st_isdir st \<Longrightarrow>
     children_of fs p = Some cs \<Longrightarrow> c \<in> set cs \<Longrightarrow> c \<in> tree_paths fs start"

definition tree_inodes :: "fs_view \<Rightarrow> ppath \<Rightarrow> (int \<times> int) set" where
  "tree_inodes fs start = {identity st | p st. p \<in> tree_paths fs start \<and> lstat_of fs p = Some st}"

text \<open>
  What a file system promises about one inode reached by several paths: its size and, for a
  directory, the inodes its entries lead to do not depend on the path.
\<close>

definition inodes_of :: "fs_view \<Rightarrow> ppath set \<Rightarrow> (int \<times> int) set" where
  "inodes_of fs ps = {identity st | p st. p \<in> ps \<and> lstat_of fs p = Some st}"

definition child_stack :: "fs_view \<Rightarrow> ppath \<Rightarrow> ppath list" where
  "child_stack fs p = (case lstat_of fs p of
      Some st \<Rightarrow> if st_isdir st then (case children_of fs p of Some cs \<Rightarrow> rev cs | None \<Rightarrow> []) else []
    | None \<Rightarrow> [])"

definition child_set :: "fs_view \<Rightarrow> ppath \<Rightarrow> ppath set" where
  "child_set fs p = set (child_stack fs p)"

definition inode_consistent :: "fs_view \<Rightarrow> ((int \<times> int) \<Rightarrow> int) \<Rightarrow> bool" where
  "inode_consistent fs size_of =
     ((\<forall>p st. lstat_of fs p = Some st \<longrightarrow> st_size st = size_of (identity st))
      \<and> (\<forall>p q a b. lstat_of fs p = Some a \<longrightarrow> lstat_of fs q = Some b \<longrightarrow> identity a = identity b \<longrightarrow>
           inodes_of fs (child_set fs p) = inodes_of fs (child_set fs q)))"

lemma inodes_of_Un: "inodes_of fs (A \<union> B) = inodes_of fs A \<union> inodes_of fs B"
  by (auto simp: inodes_of_def)

lemma child_in_tree: "p \<in> tree_paths fs s \<Longrightarrow> child_set fs p \<subseteq> tree_paths fs s"
proof
  fix c assume p: "p \<in> tree_paths fs s" and c: "c \<in> child_set fs p"
  from c have ne: "child_stack fs p \<noteq> []" by (auto simp: child_set_def)
  then obtain st cs where st: "lstat_of fs p = Some st" "st_isdir st" "children_of fs p = Some cs"
    by (auto simp: child_stack_def split: option.splits if_splits)
  then have "c \<in> set cs" using c by (simp add: child_set_def child_stack_def)
  with p st show "c \<in> tree_paths fs s" by (rule tree_child)
qed

text \<open>
  The invariant of the walk: every inode that was counted has all inodes below it counted or
  waiting, and the sum is over the counted ones.
\<close>

definition walk_inv :: "fs_view \<Rightarrow> ((int \<times> int) \<Rightarrow> int) \<Rightarrow> ppath \<Rightarrow> ppath list \<Rightarrow> (int \<times> int) set \<Rightarrow> int \<Rightarrow> bool" where
  "walk_inv fs size_of start pending seen bytes =
     (finite seen \<and> bytes = (\<Sum>i\<in>seen. size_of i) \<and> set pending \<subseteq> tree_paths fs start
      \<and> seen \<subseteq> tree_inodes fs start
      \<and> inodes_of fs {start} \<subseteq> seen \<union> inodes_of fs (set pending)
      \<and> (\<forall>p st. lstat_of fs p = Some st \<longrightarrow> identity st \<in> seen \<longrightarrow>
           inodes_of fs (child_set fs p) \<subseteq> seen \<union> inodes_of fs (set pending)))"
lemma set_child_stack: "set (child_stack fs p) = child_set fs p"
  by (simp add: child_set_def)

definition counted :: "fs_view \<Rightarrow> ppath \<Rightarrow> (int \<times> int) set \<Rightarrow> bool" where
  "counted fs p seen = (case lstat_of fs p of None \<Rightarrow> True | Some st \<Rightarrow> identity st \<in> seen)"

lemma usage_loop_skip:
  "counted fs p seen \<Longrightarrow> usage_loop (Suc n) fs (p # ps) seen b = usage_loop n fs ps seen b"
  by (auto simp: counted_def split: option.splits)

lemma usage_loop_visit:
  "\<not> counted fs p seen \<Longrightarrow> \<exists>st. lstat_of fs p = Some st \<and> identity st \<notin> seen \<and>
     usage_loop (Suc n) fs (p # ps) seen b
       = usage_loop n fs (child_stack fs p @ ps) (insert (identity st) seen) (b + st_size st)"
  by (auto simp: counted_def child_stack_def Let_def split: option.splits)

lemma counted_inodes: "counted fs p seen \<longleftrightarrow> inodes_of fs {p} \<subseteq> seen"
  by (auto simp: counted_def inodes_of_def split: option.splits)

lemma inodes_of_Cons: "inodes_of fs (set (p # ps)) = inodes_of fs {p} \<union> inodes_of fs (set ps)"
  by (auto simp: inodes_of_def)

lemma walk_inv_skip:
  "walk_inv fs sz start (p # ps) seen b \<Longrightarrow> counted fs p seen \<Longrightarrow> walk_inv fs sz start ps seen b"
proof -
  assume w: "walk_inv fs sz start (p # ps) seen b" and "counted fs p seen"
  then have "seen \<union> inodes_of fs (set (p # ps)) = seen \<union> inodes_of fs (set ps)"
    unfolding inodes_of_Cons counted_inodes by blast
  then show ?thesis using w unfolding walk_inv_def by simp
qed

lemma walk_inv_visit:
  assumes "inode_consistent fs sz" "walk_inv fs sz start (p # ps) seen b"
    and st: "lstat_of fs p = Some st" "identity st \<notin> seen"
  shows "walk_inv fs sz start (child_stack fs p @ ps) (insert (identity st) seen) (b + st_size st)"
proof -
  have ip: "inodes_of fs {p} = {identity st}" using st(1) by (auto simp: inodes_of_def)
  have p: "p \<in> tree_paths fs start" using assms(2) by (simp add: walk_inv_def)
  have sz: "st_size st = sz (identity st)" using assms(1) st(1) by (simp add: inode_consistent_def)
  have inv: "inodes_of fs {start} \<subseteq> insert (identity st) seen \<union> inodes_of fs (set ps)"
    "\<And>q a. lstat_of fs q = Some a \<Longrightarrow> identity a \<in> seen \<Longrightarrow>
       inodes_of fs (child_set fs q) \<subseteq> insert (identity st) seen \<union> inodes_of fs (set ps)"
    using assms(2) unfolding walk_inv_def inodes_of_Cons ip by auto
  have same: "inodes_of fs (child_set fs q) = inodes_of fs (child_set fs p)"
    if "lstat_of fs q = Some a" "identity a = identity st" for q a
    using assms(1) that st(1) unfolding inode_consistent_def by blast
  have "identity st \<in> tree_inodes fs start" using p st(1) by (auto simp: tree_inodes_def)
  moreover have "child_set fs p \<subseteq> tree_paths fs start" by (rule child_in_tree [OF p])
  moreover have "inodes_of fs (child_set fs q) \<subseteq> insert (identity st) seen
      \<union> (inodes_of fs (child_set fs p) \<union> inodes_of fs (set ps))"
    if "lstat_of fs q = Some a" "identity a \<in> insert (identity st) seen" for q a
    using that inv(2) same by (cases "identity a = identity st") blast+
  ultimately show ?thesis
    using assms(2) st(2) sz inv(1) unfolding walk_inv_def set_append set_child_stack inodes_of_Un
    by (simp add: le_supI1) blast
qed

lemma walk_inv_done:
  assumes "walk_inv fs sz start [] seen b"
  shows "seen = tree_inodes fs start"
proof
  show "seen \<subseteq> tree_inodes fs start" using assms by (simp add: walk_inv_def)
  have "inodes_of fs {p} \<subseteq> seen" if "p \<in> tree_paths fs start" for p
    using that
  proof induction
    case tree_start
    then show ?case using assms by (simp add: walk_inv_def inodes_of_def)
  next
    case (tree_child p st cs c)
    have "identity st \<in> seen" using tree_child by (auto simp: inodes_of_def)
    then have "inodes_of fs (child_set fs p) \<subseteq> seen"
      using assms tree_child.hyps(2) by (simp add: walk_inv_def inodes_of_def)
    moreover have "c \<in> child_set fs p" using tree_child by (simp add: child_set_def child_stack_def)
    ultimately show ?case by (auto simp: inodes_of_def)
  qed
  then show "tree_inodes fs start \<subseteq> seen" by (auto simp: tree_inodes_def inodes_of_def)
qed

text \<open>The walk ends: every turn counts a new inode or shortens the list.\<close>

lemma usage_loop_more: "usage_loop n fs ps seen b = Some r \<Longrightarrow> usage_loop (n + k) fs ps seen b = Some r"
proof (induction n arbitrary: ps seen b)
  case 0
  then show ?case by (cases ps) auto
next
  case (Suc n)
  show ?case
  proof (cases ps)
    case Nil
    then show ?thesis using Suc.prems by simp
  next
    case (Cons p qs)
    show ?thesis
    proof (cases "counted fs p seen")
      case True
      then show ?thesis using Suc Cons usage_loop_skip [OF True] by (simp del: usage_loop.simps)
    next
      case False
      then show ?thesis
        using Suc Cons usage_loop_visit [OF False, of n qs b] usage_loop_visit [OF False, of "n + k" qs b]
        by (auto simp del: usage_loop.simps)
    qed
  qed
qed

lemma usage_loop_result:
  assumes "inode_consistent fs sz" "finite (tree_inodes fs start)" "walk_inv fs sz start ps seen b"
  shows "\<exists>n. usage_loop n fs ps seen b
      = Some (\<Sum>i\<in>tree_inodes fs start. sz i, tree_inodes fs start)"
  using assms(3)
proof (induction "card (tree_inodes fs start - seen)" arbitrary: seen b ps rule: less_induct)
  case (less seen b ps)
  from less.prems less.hyps show ?case
  proof (induction ps)
    case Nil
    then have "seen = tree_inodes fs start" "b = (\<Sum>i\<in>seen. sz i)"
      using walk_inv_done [of fs sz start seen b] by (simp_all add: walk_inv_def)
    then show ?case by simp
  next
    case (Cons p ps)
    show ?case
    proof (cases "counted fs p seen")
      case True
      with Cons obtain n where "usage_loop n fs ps seen b
          = Some (\<Sum>i\<in>tree_inodes fs start. sz i, tree_inodes fs start)"
        using walk_inv_skip by blast
      then show ?thesis using usage_loop_skip [OF True, of n ps b] by metis
    next
      case False
      then obtain st where st: "lstat_of fs p = Some st" "identity st \<notin> seen"
        "\<And>n. usage_loop (Suc n) fs (p # ps) seen b
            = usage_loop n fs (child_stack fs p @ ps) (insert (identity st) seen) (b + st_size st)"
        proof -
        from usage_loop_visit [OF False] obtain st where "lstat_of fs p = Some st" "identity st \<notin> seen"
          by blast
        moreover have "usage_loop (Suc n) fs (p # ps) seen b
            = usage_loop n fs (child_stack fs p @ ps) (insert (identity st) seen) (b + st_size st)" for n
          using usage_loop_visit [OF False, of n ps b] calculation(1) by auto
        ultimately show ?thesis by (rule that)
      qed
      have inv: "walk_inv fs sz start (child_stack fs p @ ps) (insert (identity st) seen) (b + st_size st)"
        by (rule walk_inv_visit [OF assms(1) Cons.prems(1) st(1,2)])
      have "identity st \<in> tree_inodes fs start"
        using inv by (simp add: walk_inv_def)
      then have "card (tree_inodes fs start - insert (identity st) seen) < card (tree_inodes fs start - seen)"
        using assms(2) st(2) by (intro psubset_card_mono) auto
      from Cons.prems(2) [OF this inv] show ?thesis using st(3) by metis
    qed
  qed
qed

lemma walk_inv_start: "walk_inv fs sz start [start] {} 0"
  by (auto simp: walk_inv_def inodes_of_def intro: tree_start)

text \<open>
  The usage count ends and counts every inode of the tree exactly once: on a file system
  whose inodes have one size and one set of entries each, and whose tree has finitely many
  inodes, enough turns give the sum of the sizes over the inodes reachable from the path
  without following links, and their number, however many paths lead to each (hard links, bind
  mounts, cycles of mounts).
\<close>

theorem tree_usage_counts_inodes:
  assumes "inode_consistent fs sz" "finite (tree_inodes fs path)"
  shows "\<exists>n. \<forall>k. tree_usage (n + k) fs path
      = Some (\<Sum>i\<in>tree_inodes fs path. sz i, card (tree_inodes fs path))"
proof -
  obtain n where "usage_loop n fs [path] {} 0
      = Some (\<Sum>i\<in>tree_inodes fs path. sz i, tree_inodes fs path)"
    using usage_loop_result [OF assms walk_inv_start] by blast
  then show ?thesis using usage_loop_more by (fastforce simp: tree_usage_def)
qed
definition sample_fs :: fs_view where
  \<comment> \<open>a directory with two names for one file and an unreadable entry\<close>
  "sample_fs =
     \<lparr> lstat_of = (\<lambda>p.
         if p = parse ''/a'' then Some \<lparr> st_dev = 0, st_ino = 1, st_size = 10, st_isdir = True \<rparr>
         else if p = parse ''/a/x'' \<or> p = parse ''/a/y''
           then Some \<lparr> st_dev = 0, st_ino = 2, st_size = 20, st_isdir = False \<rparr>
         else None),
       children_of = (\<lambda>p.
         if p = parse ''/a'' then Some [parse ''/a/x'', parse ''/a/y'', parse ''/a/z''] else None) \<rparr>"

lemma sample_fs_paths:
  "parse ''/a'' = PPath Slash [''a'']" "parse ''/a/x'' = PPath Slash [''a'', ''x'']"
  "parse ''/a/y'' = PPath Slash [''a'', ''y'']" "parse ''/a/z'' = PPath Slash [''a'', ''z'']"
  by code_simp+

lemma sample_fs_stack:
  "child_stack sample_fs p =
     (if p = parse ''/a'' then [parse ''/a/z'', parse ''/a/y'', parse ''/a/x''] else [])"
  by (simp add: child_stack_def sample_fs_def sample_fs_paths)

lemma sample_fs_child: "p \<noteq> parse ''/a'' \<Longrightarrow> child_set sample_fs p = {}"
  unfolding child_set_def sample_fs_stack by simp

lemma sample_fs_consistent: "inode_consistent sample_fs (\<lambda>i. if i = (0, 1) then 10 else 20)"
proof -
  have st: "lstat_of sample_fs p = Some st \<Longrightarrow> (p = parse ''/a'' \<and> identity st = (0, 1) \<and> st_size st = 10)
      \<or> (p \<noteq> parse ''/a'' \<and> identity st = (0, 2) \<and> st_size st = 20)" for p st
    by (auto simp: sample_fs_def identity_def sample_fs_paths split: if_splits)
  then have "inodes_of sample_fs (child_set sample_fs p) = inodes_of sample_fs (child_set sample_fs q)"
    if "lstat_of sample_fs p = Some a" "lstat_of sample_fs q = Some b" "identity a = identity b" for p q a b
  proof (cases "p = parse ''/a''")
    case True
    then have "q = parse ''/a''" using st [OF that(1)] st [OF that(2)] that(3) by auto
    with True show ?thesis by simp
  next
    case False
    then have "q \<noteq> parse ''/a''" using st [OF that(1)] st [OF that(2)] that(3) by auto
    from sample_fs_child [OF False] sample_fs_child [OF this] show ?thesis by (simp only:)
  qed
  moreover have "st_size st = (if identity st = (0, 1) then 10 else 20)" if "lstat_of sample_fs p = Some st" for p st
    using st [OF that] by auto
  ultimately show ?thesis unfolding inode_consistent_def by blast
qed

lemma sample_fs_inodes: "tree_inodes sample_fs (parse ''/a'') = {(0, 1), (0, 2)}"
proof
  show "tree_inodes sample_fs (parse ''/a'') \<subseteq> {(0, 1), (0, 2)}"
    by (auto simp: tree_inodes_def sample_fs_def identity_def split: if_splits)
  have "parse ''/a'' \<in> tree_paths sample_fs (parse ''/a'')" by (rule tree_start)
  moreover from this have "parse ''/a/x'' \<in> tree_paths sample_fs (parse ''/a'')"
    by (rule tree_child) (auto simp: sample_fs_def)
  moreover have "lstat_of sample_fs (parse ''/a'') = Some \<lparr> st_dev = 0, st_ino = 1, st_size = 10, st_isdir = True \<rparr>"
    "lstat_of sample_fs (parse ''/a/x'') = Some \<lparr> st_dev = 0, st_ino = 2, st_size = 20, st_isdir = False \<rparr>"
    by (simp_all add: sample_fs_def sample_fs_paths)
  ultimately show "{(0, 1), (0, 2)} \<subseteq> tree_inodes sample_fs (parse ''/a'')"
    unfolding tree_inodes_def identity_def by force
qed

lemma tree_usage_counts_inodes_witness:
  "\<exists>n. tree_usage n sample_fs (parse ''/a'') = Some (30, 2)"
proof -
  have "finite (tree_inodes sample_fs (parse ''/a''))" by (simp add: sample_fs_inodes)
  from tree_usage_counts_inodes [OF sample_fs_consistent this] obtain n where
    "\<forall>k. tree_usage (n + k) sample_fs (parse ''/a'') = Some (30, 2)"
    by (auto simp: sample_fs_inodes numeral_2_eq_2)
  then have "tree_usage (n + 0) sample_fs (parse ''/a'') = Some (30, 2)" by blast
  then show ?thesis by blast
qed

text \<open>\<^verbatim>\<open>format_report\<close>.\<close>

definition format_report :: "nat \<Rightarrow> fs_view \<Rightarrow> vaso_estate \<Rightarrow> string option" where
  "format_report n fs e =
     (let row = (\<lambda>(name, rel).
            let path = slash (estate_root e) rel
            in map_option (\<lambda>(bytes, inodes). name @ '' '' @ string_of_int bytes @ '' ''
                 @ string_of_nat inodes @ '' '' @ path_text path) (tree_usage n fs path));
          rows = map row REPORT_SUBTREES
      in if None \<in> set rows then None
         else Some (join [lf] (''name bytes inodes path'' # map the rows) @ [lf]))"

section \<open>Materialisation\<close>

lemma line_path_total: "line \<in> set CUDA_LINES \<Longrightarrow>
  line_path e line rel = Inr (slash (slash (slash (slash (estate_root e) ''vaso'') ''lines'') line) rel)"
  by (simp add: line_path_def line_host_def validate_cuda_line_def)

lemma line_dirs_total: "line \<in> set CUDA_LINES \<Longrightarrow> line_dirs e line = Inr (map (\<lambda>rel.
    slash (slash (slash (slash (estate_root e) ''vaso'') ''lines'') line) rel) LINE_ESTATE_DIRS)"
  unfolding line_dirs_def by (rule mapE_Inr_map) (simp add: line_path_total)

definition all_line_dirs :: "vaso_estate \<Rightarrow> ppath list" where
  "all_line_dirs e = concat (map (\<lambda>line. map (\<lambda>rel.
     slash (slash (slash (slash (estate_root e) ''vaso'') ''lines'') line) rel) LINE_ESTATE_DIRS) CUDA_LINES)"

lemma concat_line_dirs: "concatE (line_dirs e) CUDA_LINES = Inr (all_line_dirs e)"
  by (simp add: concatE_def mapE_Inr_map [OF line_dirs_total] all_line_dirs_def)

lemma fold_mkdirs: "foldl mkdirs dirs ps = dirs \<union> (\<Union>p\<in>set ps. set (ancestors p))"
  by (induction ps arbitrary: dirs) (auto simp: mkdirs_def)

lemma self_ancestor: "p \<in> set (ancestors p)"
proof -
  have "p = PPath (anchor_of p) (take (length (names p)) (names p))" by (cases p) simp
  then show ?thesis unfolding ancestors_def by (metis (no_types, lifting) image_eqI image_set atLeastLessThan_iff lessI set_upt zero_le)
qed

lemma ancestors_iff: "q \<in> set (ancestors p) \<longleftrightarrow> relative_to p q"
proof
  assume "q \<in> set (ancestors p)"
  then show "relative_to p q" by (auto simp: ancestors_def relative_to_def take_is_prefix)
next
  assume r: "relative_to p q"
  then have "q = PPath (anchor_of p) (take (length (names q)) (names p))" "length (names q) \<le> length (names p)"
    by (cases q; auto simp: relative_to_def prefix_def)+
  then show "q \<in> set (ancestors p)" unfolding ancestors_def
    by (metis (no_types, lifting) image_eqI image_set atLeastLessThan_iff le_imp_less_Suc set_upt zero_le)
qed

text \<open>
  Materialising the estate never fails, creates every directory of the layout and of each
  CUDA line with their ancestors, creates nothing else, and doing it again changes nothing.
\<close>

theorem materialize_complete:
  "\<exists>dirs'. materialize e dirs = (Inr e, dirs') \<and> materialize e dirs' = (Inr e, dirs')
     \<and> (\<forall>p. p \<in> dirs' \<longleftrightarrow> p \<in> dirs
          \<or> (\<exists>rel\<in>set ESTATE_DIRS. relative_to (slash (estate_root e) rel) p)
          \<or> (\<exists>line\<in>set CUDA_LINES. \<exists>rel\<in>set LINE_ESTATE_DIRS. \<exists>q.
               line_path e line rel = Inr q \<and> relative_to q p))"
proof -
  let ?new = "(\<Union>p\<in>set (map (slash (estate_root e)) ESTATE_DIRS). set (ancestors p))
      \<union> (\<Union>p\<in>set (all_line_dirs e). set (ancestors p))"
  have m: "materialize e d = (Inr e, d \<union> ?new)" for d
    by (simp add: materialize_def concat_line_dirs fold_mkdirs Un_assoc)
  have lines: "(\<exists>q\<in>set (all_line_dirs e). relative_to q p) \<longleftrightarrow>
      (\<exists>line\<in>set CUDA_LINES. \<exists>rel\<in>set LINE_ESTATE_DIRS. \<exists>q. line_path e line rel = Inr q \<and> relative_to q p)" for p
    by (auto simp: all_line_dirs_def line_path_total)
  show ?thesis
    by (rule exI [of _ "dirs \<union> ?new"]) (simp add: m ancestors_iff lines [symmetric] Un_assoc)
qed
section \<open>The file system below a path\<close>

text \<open>
  What the placement check reads of the host: the environment variable, the expansion of a
  leading tilde, \<^verbatim>\<open>resolve\<close>, \<^verbatim>\<open>exists\<close>, the text of \<^verbatim>\<open>/proc/mounts\<close> when it can be read, and
  the free bytes of a volume.
\<close>

record host_view =
  env_estate_root :: "string option"
  expanduser :: "ppath \<Rightarrow> ppath"
  resolve :: "ppath \<Rightarrow> ppath"
  path_exists :: "ppath \<Rightarrow> bool"
  proc_mounts :: "string option"
  disk_free :: "ppath \<Rightarrow> int"

function nearest_existing :: "(ppath \<Rightarrow> bool) \<Rightarrow> ppath \<Rightarrow> ppath" where
  "nearest_existing ex target =
     (if \<not> ex target \<and> target \<noteq> parent target then nearest_existing ex (parent target) else target)"
  by pat_completeness auto
termination
proof (relation "measure (\<lambda>(_, p). length (names p))")
  fix ex :: "ppath \<Rightarrow> bool" and p
  assume "\<not> ex p \<and> p \<noteq> parent p"
  then have "names p \<noteq> []" by (cases p) (auto simp: parent_def)
  then show "((ex, parent p), ex, p) \<in> measure (\<lambda>(_, p). length (names p))"
    by (simp add: parent_def)
qed simp

declare nearest_existing.simps [simp del]

text \<open>
  The escapes of \<^verbatim>\<open>/proc/mounts\<close>, decoded once from the left. \<open>None\<close> is a text with a code point
  above 255, which is no prefix of a path of the model.
\<close>

definition octal_digit :: "char \<Rightarrow> bool" where
  "octal_digit c = (let n = (of_char c :: nat) in 48 \<le> n \<and> n \<le> 55)"

definition octal_value :: "char \<Rightarrow> char \<Rightarrow> char \<Rightarrow> nat" where
  "octal_value a b c = 64 * digit_value a + 8 * digit_value b + digit_value c"

fun decode_octal :: "string \<Rightarrow> string option" where
  "decode_octal [] = Some []"
| "decode_octal (c # s) =
     (case s of
        x # y # z # rest \<Rightarrow>
          if c = char_of (92::nat) \<and> octal_digit x \<and> octal_digit y \<and> octal_digit z then
            (if octal_value x y z < 256
             then map_option (Cons (char_of (octal_value x y z))) (decode_octal rest) else None)
          else map_option (Cons c) (decode_octal s)
      | _ \<Rightarrow> map_option (Cons c) (decode_octal s))"

definition inside_mount :: "ppath \<Rightarrow> string \<Rightarrow> bool" where
  "inside_mount target mount =
     (path_text target = mount
      \<or> startswith (path_text target) (rstrip_char (CHR ''/'') mount @ ''/''))"

definition mount_step :: "ppath \<Rightarrow> string \<times> string \<Rightarrow> string \<Rightarrow> string \<times> string" where
  "mount_step target best line =
     (let fields = words_of line
      in if length fields < 3 then best
         else case decode_octal (fields ! 1) of
                None \<Rightarrow> best
              | Some mount \<Rightarrow>
                  if inside_mount target mount \<and> length (fst best) \<le> length mount
                  then (mount, fields ! 2) else best)"

definition seat_fstype :: "host_view \<Rightarrow> ppath \<Rightarrow> string" where
  "seat_fstype h path =
     (let target = resolve h (nearest_existing (path_exists h) path)
      in case proc_mounts h of
           None \<Rightarrow> []
         | Some text \<Rightarrow> snd (foldl (mount_step target) ([], []) (splitlines False text)))"

definition discover_estate_root ::
    "host_view \<Rightarrow> int \<Rightarrow> string option \<Rightarrow> ppath set \<Rightarrow> vaso_estate res \<times> ppath set" where
  "discover_estate_root h required explicit_root dirs =
     (if required < 0
      then (Inl (ValueError ''required estate headroom must be nonnegative'' []), dirs)
      else
        let explicit = (case explicit_root of
              Some e \<Rightarrow> if e \<noteq> [] then Some e else env_estate_root h
            | None \<Rightarrow> env_estate_root h)
        in case explicit of
             None \<Rightarrow> (Inl (SystemExit ''set VASO_ESTATE_ROOT or pass --root'' []), dirs)
           | Some e \<Rightarrow>
               if e = [] then (Inl (SystemExit ''set VASO_ESTATE_ROOT or pass --root'' []), dirs)
               else
                 let root = resolve h (expanduser h (parse e)); kind = seat_fstype h root
                 in if kind = []
                    then (Inl (SystemExit ''cannot determine filesystem type for VASO_ESTATE_ROOT {}; ensure /proc/mounts is readable''
                                 [JStr (path_text root)]), dirs)
                    else if kind \<in> set FSTYPE_BLOCKLIST
                    then (Inl (SystemExit ''VASO_ESTATE_ROOT {} is on {}; the estate must live on a disk volume''
                                 [JStr (path_text root), JStr kind]), dirs)
                    else
                      let dirs' = mkdirs dirs root; free = disk_free h root
                      in if free < required
                         then (Inl (SystemExit ''VASO_ESTATE_ROOT {} has {} bytes free, need {}''
                                      [JStr (path_text root), JInt free, JInt required]), dirs')
                         else (Inr \<lparr> estate_root = root \<rparr>, dirs'))"

text \<open>The mounts that a path lies in, in the order of \<^verbatim>\<open>/proc/mounts\<close>.\<close>

definition mount_entry :: "string \<Rightarrow> (string \<times> string) option" where
  "mount_entry line =
     (let fields = words_of line
      in if length fields < 3 then None
         else map_option (\<lambda>m. (m, fields ! 2)) (decode_octal (fields ! 1)))"

definition mounts_around :: "ppath \<Rightarrow> string \<Rightarrow> (string \<times> string) list" where
  "mounts_around target text =
     filter (\<lambda>(m, _). inside_mount target m) (List.map_filter mount_entry (splitlines False text))"

fun longest_last :: "(string \<times> string) \<Rightarrow> (string \<times> string) list \<Rightarrow> string \<times> string" where
  "longest_last best [] = best"
| "longest_last best (e # es) =
     longest_last (if length (fst best) \<le> length (fst e) then e else best) es"

lemma fold_mount_step:
  "foldl (mount_step target) best lines
     = longest_last best (filter (\<lambda>(m, _). inside_mount target m) (List.map_filter mount_entry lines))"
proof (induction lines arbitrary: best)
  case (Cons l ls)
  have "mount_step target best l = (case mount_entry l of
      None \<Rightarrow> best
    | Some e \<Rightarrow> if inside_mount target (fst e) \<and> length (fst best) \<le> length (fst e) then e else best)"
    by (simp add: mount_step_def mount_entry_def Let_def split: option.splits)
  with Cons show ?case
    by (cases "mount_entry l") (auto simp: map_filter_simps split: prod.splits)
qed (simp add: map_filter_simps)

lemma longest_last_cases:
  "longest_last b es = b \<and> (\<forall>e\<in>set es. length (fst e) < length (fst b))
   \<or> (\<exists>pre e post. es = pre @ e # post \<and> longest_last b es = e \<and> length (fst b) \<le> length (fst e)
        \<and> (\<forall>x\<in>set pre. length (fst x) \<le> length (fst e)) \<and> (\<forall>x\<in>set post. length (fst x) < length (fst e)))"
proof (induction es arbitrary: b)
  case (Cons a es)
  let ?b = "if length (fst b) \<le> length (fst a) then a else b"
  from Cons [of ?b] consider
    (stay) "longest_last ?b es = ?b" "\<forall>e\<in>set es. length (fst e) < length (fst ?b)"
  | (move) pre e post where "es = pre @ e # post" "longest_last ?b es = e" "length (fst ?b) \<le> length (fst e)"
      "\<forall>x\<in>set pre. length (fst x) \<le> length (fst e)" "\<forall>x\<in>set post. length (fst x) < length (fst e)"
    by blast
  then show ?case
  proof cases
    case stay
    show ?thesis
    proof (cases "length (fst b) \<le> length (fst a)")
      case True
      then have "a # es = [] @ a # es" "longest_last b (a # es) = a" using stay by simp_all
      then show ?thesis using stay True by (intro disjI2 exI [of _ "[]"] exI [of _ a] exI [of _ es]) auto
    next
      case False
      then show ?thesis using stay by (intro disjI1) auto
    qed
  next
    case move
    then have "length (fst b) \<le> length (fst e)" "length (fst a) \<le> length (fst e)" by (auto split: if_splits)
    with move show ?thesis
      by (intro disjI2 exI [of _ "a # pre"] exI [of _ e] exI [of _ post]) auto
  qed
qed simp

text \<open>
  An accepted estate is on a disk volume with room: when discovery returns an estate, its
  root is the resolved argument, or the resolved variable when no argument was given, the
  deepest mount of \<^verbatim>\<open>/proc/mounts\<close> that holds the root, the last one mounted there, has a type
  that is not blocked, the root directory exists afterwards and its volume has the required
  bytes free.
\<close>

theorem discovered_estate_on_disk:
  assumes "discover_estate_root h required explicit_root dirs = (Inr e, dirs')"
  shows "\<exists>given text pre mount kind post.
     (explicit_root = Some given \<or> (explicit_root \<in> {None, Some []} \<and> env_estate_root h = Some given))
     \<and> given \<noteq> [] \<and> estate_root e = resolve h (expanduser h (parse given))
     \<and> proc_mounts h = Some text
     \<and> mounts_around (resolve h (nearest_existing (path_exists h) (estate_root e))) text
         = pre @ (mount, kind) # post
     \<and> (\<forall>m\<in>set pre. length (fst m) \<le> length mount) \<and> (\<forall>m\<in>set post. length (fst m) < length mount)
     \<and> kind \<noteq> [] \<and> kind \<notin> set FSTYPE_BLOCKLIST
     \<and> 0 \<le> required \<and> required \<le> disk_free h (estate_root e)
     \<and> dirs' = dirs \<union> set (ancestors (estate_root e))"
proof -
  let ?kind = "seat_fstype h (estate_root e)"
  from assms obtain given where g:
    "explicit_root = Some given \<or> (explicit_root \<in> {None, Some []} \<and> env_estate_root h = Some given)"
    "given \<noteq> []" "estate_root e = resolve h (expanduser h (parse given))"
    "?kind \<noteq> []" "?kind \<notin> set FSTYPE_BLOCKLIST" "0 \<le> required"
    "required \<le> disk_free h (estate_root e)" "dirs' = mkdirs dirs (estate_root e)"
    by (auto simp: discover_estate_root_def Let_def split: if_splits option.splits)
  from g(4) obtain mounts where t: "proc_mounts h = Some mounts"
    by (auto simp: seat_fstype_def split: option.splits)
  let ?es = "mounts_around (resolve h (nearest_existing (path_exists h) (estate_root e))) mounts"
  have k: "?kind = snd (longest_last ([], []) ?es)"
    by (simp add: seat_fstype_def t fold_mount_step mounts_around_def Let_def)
  with g(4) have "longest_last ([], []) ?es \<noteq> ([], [])" by auto
  then obtain pre x post where x: "?es = pre @ x # post" "longest_last ([], []) ?es = x"
    "\<forall>m\<in>set pre. length (fst m) \<le> length (fst x)" "\<forall>m\<in>set post. length (fst m) < length (fst x)"
    using longest_last_cases [of "([], [])" ?es] by blast
  then have "?es = pre @ (fst x, ?kind) # post" using k by simp
  with g t x(3,4) show ?thesis unfolding mkdirs_def by blast
qed

definition sample_host :: host_view where
  "sample_host =
     \<lparr> env_estate_root = Some ''/srv/estate'', expanduser = id, resolve = id,
       path_exists = (\<lambda>p. p = parse ''/srv''),
       proc_mounts = Some (''none / tmpfs rw 0 0'' @ [lf] @ ''/dev/sdb /srv ext4 rw 0 0'' @ [lf]),
       disk_free = (\<lambda>_. 100) \<rparr>"

lemma discovered_estate_on_disk_witness:
  "\<exists>e dirs'. discover_estate_root sample_host 50 None {} = (Inr e, dirs')
     \<and> path_text (estate_root e) = ''/srv/estate'' \<and> 50 \<le> disk_free sample_host (estate_root e)"
proof -
  have n: "nearest_existing (path_exists sample_host) (parse ''/srv/estate'') = parse ''/srv''"
    by (subst nearest_existing.simps, subst nearest_existing.simps) (code_simp)
  have s: "seat_fstype sample_host (parse ''/srv/estate'') = ''ext4''"
    unfolding seat_fstype_def n by code_simp
  have host: "env_estate_root sample_host = Some ''/srv/estate''" "expanduser sample_host = id"
    "resolve sample_host = id" "disk_free sample_host = (\<lambda>_. 100)" by (simp_all add: sample_host_def)
  have d: "discover_estate_root sample_host 50 None {}
      = (Inr \<lparr> estate_root = parse ''/srv/estate'' \<rparr>, mkdirs {} (parse ''/srv/estate''))"
    using s host unfolding discover_estate_root_def FSTYPE_BLOCKLIST_def Let_def by simp
  from discovered_estate_on_disk [OF d] have "50 \<le> disk_free sample_host (parse ''/srv/estate'')" by auto
  moreover have "path_text (parse ''/srv/estate'') = ''/srv/estate''" by code_simp
  ultimately show ?thesis using d by simp
qed

end
