(* ===== verification/LeaseState.thy ===== *)
theory LeaseState
  imports Prelude
begin

text \<open>
  \<^verbatim>\<open>insula/execution/vaso/lease_state.py\<close>: the validation of a lease file. A lease directory is a
  list of files: for each base name (the file name without \<^verbatim>\<open>.json\<close>) the JSON value of the text,
  or \<open>None\<close> when the text is not JSON.
\<close>

section \<open>Names\<close>

definition safe_char :: "char \<Rightarrow> bool" where
  "safe_char c = (let n = (of_char c :: nat) in
     (48 \<le> n \<and> n \<le> 57) \<or> (65 \<le> n \<and> n \<le> 90) \<or> (97 \<le> n \<and> n \<le> 122)
     \<or> c = CHR ''_'' \<or> c = CHR ''.'' \<or> c = CHR ''-'')"

text \<open>\<open>safe_from in_run s\<close>: each run of other characters becomes one underscore.\<close>

fun safe_from :: "bool \<Rightarrow> string \<Rightarrow> string" where
  "safe_from in_run [] = []"
| "safe_from in_run (c # cs) =
     (if safe_char c then c # safe_from False cs
      else if in_run then safe_from True cs
      else CHR ''_'' # safe_from True cs)"

definition safe_name :: "string \<Rightarrow> string" where
  "safe_name resource = safe_from False resource"

definition stem_of :: "string \<Rightarrow> string" where
  \<comment> \<open>\<^verbatim>\<open>Path(name + ".json").stem\<close>: a name that is only a suffix has none\<close>
  "stem_of name = (if name = [] then ''.json'' else name)"

section \<open>A valid state\<close>

definition valid_pid :: "json \<Rightarrow> bool" where
  "valid_pid v = (case v of JInt i \<Rightarrow> 0 < i \<and> i < 2 ^ 31 | _ \<Rightarrow> False)"

text \<open>
  \<^verbatim>\<open>math.isfinite\<close> converts an integer to a float first; the largest one that converts is below
  \<^verbatim>\<open>2 ** 1024 - 2 ** 970\<close>.
\<close>

definition float_limit :: int where
  "float_limit = 2 ^ 1024 - 2 ^ 970"

definition finite_number :: "json \<Rightarrow> bool res" where
  "finite_number v =
     (case v of
        JInt i \<Rightarrow> if \<bar>i\<bar> < float_limit then Inr True else Inl OverflowError
      | JFloat (Fin r) \<Rightarrow> Inr True
      | _ \<Rightarrow> Inr False)"

definition valid_devices :: "json \<Rightarrow> bool" where
  "valid_devices v =
     (case v of
        JList ds \<Rightarrow> ds \<noteq> [] \<and> list_all (\<lambda>d. case d of JInt i \<Rightarrow> 0 \<le> i | _ \<Rightarrow> False) ds \<and> distinct ds
      | _ \<Rightarrow> False)"

definition state_error :: "'a res" where
  "state_error = Inl (ValueError ''invalid lease state {}: {}'' [])"

definition check_lease :: "string \<Rightarrow> string \<Rightarrow> json \<Rightarrow> unit res" where
  "check_lease stem recorded lease =
     (case lease of
        JObj l \<Rightarrow>
          if \<not> list_all (\<lambda>f. nonempty_str (dget l f)) [''id'', ''host'', ''resource''] then state_error
          else if (case dget l ''resource'' of JStr r \<Rightarrow> safe_name r \<noteq> stem | _ \<Rightarrow> True) then state_error
          else if \<not> valid_pid (dget l ''pid'') then state_error
          else if finite_number (dget l ''expiry_time'') \<noteq> Inr True then state_error
          else if recorded = ''gpu'' \<and> \<not> valid_devices (dget l ''devices'') then state_error
          else Inr ()
      | _ \<Rightarrow> state_error)"

definition read_state :: "string \<Rightarrow> json option \<Rightarrow> dict res" where
  "read_state stem content =
     (case content of
        Some (JObj state) \<Rightarrow>
          if \<not> py_eq (dget state ''schema_version'') (JInt 1) then state_error
          else (case dget state ''resource'' of
            JStr recorded \<Rightarrow>
              if safe_name recorded \<noteq> stem then state_error
              else (case dget state ''leases'' of
                JList leases \<Rightarrow> bindE (mapE (check_lease stem recorded) leases) (\<lambda>_. Inr state)
              | _ \<Rightarrow> state_error)
          | _ \<Rightarrow> state_error)
      | _ \<Rightarrow> state_error)"

section \<open>Lemmas\<close>

lemma safe_underscore [simp]: "safe_char (CHR ''_'')"
  by code_simp

lemma safe_from_chars: "\<forall>c\<in>set (safe_from b s). safe_char c"
  by (induction s arbitrary: b) simp_all

lemma safe_name_chars: "c \<in> set (safe_name s) \<Longrightarrow> safe_char c"
  using safe_from_chars [of False s] by (simp add: safe_name_def)

lemma safe_from_id: "\<forall>c\<in>set s. safe_char c \<Longrightarrow> safe_from b s = s"
  by (induction s arbitrary: b) auto

lemma safe_name_idem [simp]: "safe_name (safe_name s) = safe_name s"
  using safe_from_id [of "safe_name s" False] safe_name_chars by (auto simp: safe_name_def)

lemma safe_name_empty [simp]: "safe_name s = [] \<longleftrightarrow> s = []"
  by (cases s) (auto simp: safe_name_def)

text \<open>What a successful read guarantees.\<close>

definition lease_ok :: "string \<Rightarrow> string \<Rightarrow> dict \<Rightarrow> bool" where
  "lease_ok stem recorded l =
     ((\<forall>f\<in>{''id'', ''host'', ''resource''}. nonempty_str (dget l f))
      \<and> (\<exists>r. dget l ''resource'' = JStr r \<and> safe_name r = stem)
      \<and> valid_pid (dget l ''pid'')
      \<and> finite_number (dget l ''expiry_time'') = Inr True
      \<and> (recorded = ''gpu'' \<longrightarrow> valid_devices (dget l ''devices'')))"

lemma check_lease_iff: "check_lease stem recorded lease = Inr () \<longleftrightarrow> (\<exists>l. lease = JObj l \<and> lease_ok stem recorded l)"
proof (cases lease)
  case (JObj l)
  have "(case dget l ''resource'' of JStr r \<Rightarrow> safe_name r \<noteq> stem | _ \<Rightarrow> True) \<longleftrightarrow>
      \<not> (\<exists>r. dget l ''resource'' = JStr r \<and> safe_name r = stem)"
    by (cases "dget l ''resource''") auto
  with JObj show ?thesis
    by (auto simp: check_lease_def lease_ok_def state_error_def)
qed (simp_all add: check_lease_def state_error_def)

definition state_ok :: "string \<Rightarrow> dict \<Rightarrow> bool" where
  "state_ok stem state =
     (py_eq (dget state ''schema_version'') (JInt 1)
      \<and> (\<exists>recorded ls. dget state ''resource'' = JStr recorded \<and> safe_name recorded = stem
           \<and> dget state ''leases'' = JList (map JObj ls) \<and> (\<forall>l\<in>set ls. lease_ok stem recorded l)))"

lemma mapE_unit: "(\<exists>us. mapE f xs = Inr us) \<longleftrightarrow> (\<forall>x\<in>set xs. f x = Inr ())" for f :: "'a \<Rightarrow> unit res"
  by (induction xs) auto

lemma all_objects: "(\<forall>x\<in>set xs. \<exists>l. x = JObj l \<and> P l) \<longleftrightarrow> (\<exists>ls. xs = map JObj ls \<and> (\<forall>l\<in>set ls. P l))"
proof
  assume "\<forall>x\<in>set xs. \<exists>l. x = JObj l \<and> P l"
  then show "\<exists>ls. xs = map JObj ls \<and> (\<forall>l\<in>set ls. P l)"
  proof (induction xs)
    case (Cons x xs)
    then obtain l ls where "x = JObj l" "P l" "xs = map JObj ls" "\<forall>l\<in>set ls. P l" by auto
    then show ?case by (intro exI [of _ "l # ls"]) simp
  qed simp
qed auto

lemma read_state_iff:
  "read_state stem content = Inr state \<longleftrightarrow> content = Some (JObj state) \<and> state_ok stem state"
proof (cases "\<exists>s r xs. content = Some (JObj s) \<and> dget s ''resource'' = JStr r \<and> dget s ''leases'' = JList xs")
  case True
  then obtain s r xs where s: "content = Some (JObj s)" "dget s ''resource'' = JStr r"
    "dget s ''leases'' = JList xs" by blast
  have "(\<exists>us. mapE (check_lease stem r) xs = Inr us)
      \<longleftrightarrow> (\<exists>ls. xs = map JObj ls \<and> (\<forall>l\<in>set ls. lease_ok stem r l))"
    by (simp add: mapE_unit check_lease_iff all_objects)
  with s show ?thesis by (auto simp: read_state_def state_ok_def state_error_def)
next
  case False
  then show ?thesis
    by (auto simp: read_state_def state_ok_def state_error_def split: option.splits json.splits)
qed

end
