(* ===== verification/LeasePolicy.thy ===== *)
theory LeasePolicy
  imports Prelude
begin

text \<open>
  The contract between the directory of leases and the rule that grants one. A policy says which
  two leases may be held together; its \<open>grant\<close> looks at the leases that are held and either
  refuses or produces a new one. The directory only ever drops leases or appends what \<open>grant\<close>
  produced, so any two leases that it holds are compatible.
\<close>



locale lease_policy =
  fixes compatible :: "'l \<Rightarrow> 'l \<Rightarrow> bool"
    and grant :: "'r \<Rightarrow> 'l list \<Rightarrow> 'l option res"
  assumes grant_compatible: "grant r ls = Inr (Some l) \<Longrightarrow> k \<in> set ls \<Longrightarrow> compatible k l"
begin

lemma granted_consistent:
  "sorted_wrt compatible ls \<Longrightarrow> grant r ls = Inr (Some l) \<Longrightarrow> sorted_wrt compatible (ls @ [l])"
  using grant_compatible by (auto simp: sorted_wrt_append)

lemma kept_consistent: "sorted_wrt compatible ls \<Longrightarrow> sorted_wrt compatible (filter P ls)"
  by (rule sorted_wrt_filter)

lemma regranted_consistent:
  "sorted_wrt compatible ls \<Longrightarrow> grant r (filter P ls) = Inr (Some l) \<Longrightarrow>
    sorted_wrt compatible (filter P ls @ [l])"
  by (rule granted_consistent [OF kept_consistent])

lemma held_together:
  "sorted_wrt compatible ls \<Longrightarrow> i < j \<Longrightarrow> j < length ls \<Longrightarrow> compatible (ls ! i) (ls ! j)"
  by (simp add: sorted_wrt_iff_nth_less)

end

text \<open>A policy under which no two leases are compatible: there is at most one.\<close>

locale exclusive_policy = lease_policy +
  assumes never_compatible: "\<not> compatible k l"
begin

lemma at_most_one: "sorted_wrt compatible ls \<longleftrightarrow> length ls \<le> 1"
proof (cases ls)
  case (Cons l ls')
  then show ?thesis by (cases ls') (auto simp: never_compatible)
qed simp

lemma grant_needs_none: "grant r ls = Inr (Some l) \<Longrightarrow> ls = []"
  using grant_compatible [of r ls l "hd ls"] never_compatible [of "hd ls" l] by (cases ls) auto

end

end
