(* ===== verification/Lease.thy ===== *)
theory Lease
  imports LeaseState LeasePolicy PlanSchema
begin

text \<open>
  \<^verbatim>\<open>insula/execution/lease.py\<close>: the leases that agents hold on shared resources.

  Every state transition runs under a file lock of its resource, so it is one step from a lease
  directory (\<open>store\<close>) to the next: \<open>acquire_section\<close>, \<open>release_section\<close> and
  \<open>refresh_section\<close>. A command is a sequence of such sections, with steps of other processes
  between them. A file of the store is the JSON value of its text up to the order of keys
  (\<^verbatim>\<open>json.dumps\<close> sorts them), and a section that raises leaves it as it was: the write is its
  last call and replaces the file atomically.

  The record \<open>env\<close> holds what a section reads from the machine: the three readings of the
  clock (the scan of the leases, the new record and the write), the host name, what
  \<^verbatim>\<open>os.kill(pid, 0)\<close> does, the random token, the environment variables and the answers of
  \<^verbatim>\<open>nvidia-smi\<close>. Sums of floats round by \<open>float_add\<close>. Failing file operations are not
  modelled.
\<close>

section \<open>The machine and the arguments\<close>

datatype kill_result = Alive | NoSuchProcess | NotPermitted | KillErrno int

datatype smi_result = SmiFailed | SmiDone int string

type_synonym store = "(string \<times> json option) list"

record env =
  estate_root_var :: "string option"
  hostname :: string
  kill_zero :: "int \<Rightarrow> kill_result"
  scan_time :: rat
  record_time :: rat
  write_time :: rat
  token :: string
  agent_var :: "string option"
  user_var :: "string option"
  ppid :: int
  gpu_count_var :: "string option"
  nvidia_smi :: smi_result
  cpu_budget_var :: "string option"
  cpu_count :: "int option"
  float_add :: "rat \<Rightarrow> rat \<Rightarrow> pyfloat"
  int_float :: "int \<Rightarrow> rat"
  float_text :: "string \<Rightarrow> pyfloat option"
  py_str :: "json \<Rightarrow> string"

record lease_args =
  arg_resource :: string
  arg_holder :: "string option"
  arg_pid :: "int option"
  arg_ttl :: "pyfloat option"
  arg_timeout :: pyfloat
  arg_amount :: "int option"
  arg_capacity :: "int option"
  arg_devices :: "string option"
  arg_budget :: "int option"

type_synonym message = "string \<times> json list"

datatype attempt = Granted dict | Busy | Refused message

section \<open>Conversions\<close>

text \<open>\<^verbatim>\<open>int(v)\<close> and \<^verbatim>\<open>float(v)\<close>.\<close>

definition int_of :: "json \<Rightarrow> int res" where
  "int_of v =
     (case v of
        JBool b \<Rightarrow> Inr (if b then 1 else 0)
      | JInt i \<Rightarrow> Inr i
      | JFloat (Fin r) \<Rightarrow> Inr (if r < 0 then - \<lfloor>- r\<rfloor> else \<lfloor>r\<rfloor>)
      | JFloat NaN \<Rightarrow> Inl (ValueError ''cannot convert float NaN to integer'' [])
      | JFloat f \<Rightarrow> Inl OverflowError
      | JStr s \<Rightarrow>
          (case py_int s of
             None \<Rightarrow> Inl (ValueError ''invalid literal for int() with base 10: {}'' [JStr s])
           | Some i \<Rightarrow> Inr i)
      | _ \<Rightarrow> Inl TypeError)"

definition float_of :: "env \<Rightarrow> json \<Rightarrow> pyfloat res" where
  "float_of env v =
     (case v of
        JBool b \<Rightarrow> Inr (Fin (if b then 1 else 0))
      | JInt i \<Rightarrow> if \<bar>i\<bar> < float_limit then Inr (Fin (int_float env i)) else Inl OverflowError
      | JFloat f \<Rightarrow> Inr f
      | JStr s \<Rightarrow>
          (case float_text env s of
             None \<Rightarrow> Inl (ValueError ''could not convert string to float: {}'' [JStr s])
           | Some f \<Rightarrow> Inr f)
      | _ \<Rightarrow> Inl TypeError)"

fun float_le :: "pyfloat \<Rightarrow> rat \<Rightarrow> bool" where
  "float_le (Fin x) y = (x \<le> y)"
| "float_le NegInf y = True"
| "float_le _ y = False"

text \<open>
  \<^verbatim>\<open>_stamp\<close>: \<^verbatim>\<open>datetime.fromtimestamp(value, utc)\<close>, to the microsecond, half to even, and the
  calendar date of the seconds. A value outside 64-bit seconds overflows, a year that does not
  fit 32 bits is an \<^verbatim>\<open>OSError\<close> of the C library and a year outside 1 to 9999 a
  \<^verbatim>\<open>ValueError\<close>.
\<close>

definition half_even :: "rat \<Rightarrow> int" where
  "half_even r =
     (let f = \<lfloor>r\<rfloor>; d = r - of_int f in
      if d < 1 / 2 then f else if 1 / 2 < d then f + 1 else if even f then f else f + 1)"

definition whole_seconds :: "rat \<Rightarrow> int" where
  "whole_seconds v = half_even (v * 1000000) div 1000000"

definition civil_date :: "int \<Rightarrow> int \<times> int \<times> int" where
  "civil_date days =
     (let z = days + 719468; era = z div 146097; doe = z mod 146097;
          yoe = (doe - doe div 1460 + doe div 36524 - doe div 146096) div 365;
          doy = doe - (365 * yoe + yoe div 4 - yoe div 100);
          mp = (5 * doy + 2) div 153;
          d = doy - (153 * mp + 2) div 5 + 1;
          m = (if mp < 10 then mp + 3 else mp - 9)
      in (yoe + era * 400 + (if m \<le> 2 then 1 else 0), m, d))"

definition two_digits :: "int \<Rightarrow> string" where
  "two_digits i = (if i < 10 then CHR ''0'' # string_of_int i else string_of_int i)"

definition utc_year :: "int \<Rightarrow> int" where
  "utc_year secs = fst (civil_date (secs div 86400))"

definition utc_text :: "int \<Rightarrow> string" where
  \<comment> \<open>\<^verbatim>\<open>%Y-%m-%dT%H:%M:%SZ\<close>\<close>
  "utc_text secs =
     (let (y, m, d) = civil_date (secs div 86400); s = secs mod 86400
      in string_of_int y @ ''-'' @ two_digits m @ ''-'' @ two_digits d @ ''T''
         @ two_digits (s div 3600) @ '':'' @ two_digits (s div 60 mod 60) @ '':''
         @ two_digits (s mod 60) @ ''Z'')"

definition stamp :: "pyfloat \<Rightarrow> string res" where
  "stamp value =
     (case value of
        Fin v \<Rightarrow>
          if v < - (2 ^ 63) \<or> 2 ^ 63 \<le> v then Inl OverflowError
          else
            let secs = whole_seconds v; y = utc_year secs in
            if y < - (2 ^ 31) \<or> 2 ^ 31 \<le> y then Inl OSError
            else if y < 1 \<or> 9999 < y then Inl (ValueError ''year {} is out of range'' [JInt y])
            else Inr (utc_text secs)
      | NaN \<Rightarrow> Inl (ValueError ''cannot convert float NaN to integer'' [])
      | _ \<Rightarrow> Inl OverflowError)"

section \<open>The lease directory\<close>

definition lease_dir :: "env \<Rightarrow> unit res" where
  "lease_dir env =
     (case estate_root_var env of
        Some (c # cs) \<Rightarrow> Inr ()
      | _ \<Rightarrow> Inl (SystemExit ''VASO_ESTATE_ROOT must be set'' []))"

definition empty_state :: "string \<Rightarrow> dict" where
  "empty_state resource =
     [(''schema_version'', JInt 1), (''resource'', JStr resource), (''leases'', JList [])]"

definition load_state :: "store \<Rightarrow> string \<Rightarrow> dict res" where
  "load_state store resource =
     (case map_of store (safe_name resource) of
        None \<Rightarrow> Inr (empty_state resource)
      | Some content \<Rightarrow> read_state (stem_of (safe_name resource)) content)"

definition resources :: "store \<Rightarrow> string option \<Rightarrow> string list res" where
  "resources store resource =
     (case resource of
        Some r \<Rightarrow> Inr [r]
      | None \<Rightarrow>
          mapE (\<lambda>name. bindE (load_state store (stem_of name)) (\<lambda>state.
                  case dget state ''resource'' of JStr r \<Rightarrow> Inr r | _ \<Rightarrow> Inl TypeError))
            (sort_key (\<lambda>name. name @ ''.json'') (map fst store)))"

definition write_state :: "env \<Rightarrow> store \<Rightarrow> string \<Rightarrow> dict \<Rightarrow> store res" where
  "write_state env store resource state =
     bindE (stamp (Fin (write_time env))) (\<lambda>t.
     Inr (AList.update (safe_name resource) (Some (JObj (dput ''updated_at'' (JStr t) state))) store))"

section \<open>Leases\<close>

definition pid_alive :: "env \<Rightarrow> int \<Rightarrow> string \<Rightarrow> bool res" where
  \<comment> \<open>3 is \<^verbatim>\<open>errno.ESRCH\<close>\<close>
  "pid_alive env pid host =
     (if pid \<le> 0 then Inr False
      else if host \<noteq> [] \<and> host \<noteq> hostname env then Inr True
      else if 2 ^ 31 \<le> pid then Inl OverflowError
      else (case kill_zero env pid of
              NoSuchProcess \<Rightarrow> Inr False
            | NotPermitted \<Rightarrow> Inr True
            | KillErrno e \<Rightarrow> Inr (e \<noteq> 3)
            | Alive \<Rightarrow> Inr True))"

definition host_of :: "env \<Rightarrow> dict \<Rightarrow> string" where
  "host_of env l =
     (case map_of l ''host'' of None \<Rightarrow> [] | Some (JStr s) \<Rightarrow> s | Some v \<Rightarrow> py_str env v)"

definition lease_active :: "env \<Rightarrow> dict \<Rightarrow> bool res" where
  "lease_active env l =
     bindE (bindE (ditem l ''pid'') int_of) (\<lambda>pid.
     bindE (bindE (ditem l ''expiry_time'') (float_of env)) (\<lambda>expiry.
     if float_le expiry (scan_time env) then Inr False
     else pid_alive env pid (host_of env l)))"

fun active_leases :: "env \<Rightarrow> dict list \<Rightarrow> dict list res" where
  "active_leases env [] = Inr []"
| "active_leases env (l # ls) =
     bindE (lease_active env l) (\<lambda>a.
     bindE (active_leases env ls) (\<lambda>rest. Inr (if a then l # rest else rest)))"

text \<open>\<^verbatim>\<open>list(state.get("leases", []))\<close>, and the state with other leases.\<close>

definition leases_of :: "dict \<Rightarrow> dict list res" where
  "leases_of state =
     (case map_of state ''leases'' of
        None \<Rightarrow> Inr []
      | Some (JList xs) \<Rightarrow> mapE (\<lambda>x. case x of JObj l \<Rightarrow> Inr l | _ \<Rightarrow> Inl AttributeError) xs
      | Some _ \<Rightarrow> Inl TypeError)"

definition with_leases :: "dict list \<Rightarrow> dict \<Rightarrow> dict" where
  "with_leases ls state = dput ''leases'' (JList (map JObj ls)) state"

definition has_id :: "string \<Rightarrow> dict \<Rightarrow> bool" where
  "has_id i l = (dget l ''id'' = JStr i)"

definition or_else :: "string option \<Rightarrow> string \<Rightarrow> string" where
  \<comment> \<open>Python's \<^verbatim>\<open>or\<close> on an optional string\<close>
  "or_else a b = (case a of Some (c # cs) \<Rightarrow> c # cs | _ \<Rightarrow> b)"

definition new_record :: "env \<Rightarrow> lease_args \<Rightarrow> string \<Rightarrow> rat \<Rightarrow> dict res" where
  "new_record env args resource ttl =
     (let now = record_time env;
          holder = or_else (arg_holder args) (or_else (agent_var env) (or_else (user_var env) ''unknown''));
          pid = (case arg_pid args of Some p \<Rightarrow> p | None \<Rightarrow> ppid env);
          expiry = float_add env now ttl
      in bindE (stamp (Fin now)) (\<lambda>started.
         bindE (stamp expiry) (\<lambda>expires.
         Inr [(''id'', JStr (safe_name resource @ ''-'' @ token env)),
              (''resource'', JStr resource),
              (''holder'', JStr holder),
              (''pid'', JInt pid),
              (''host'', JStr (hostname env)),
              (''start_time'', JFloat (Fin now)),
              (''started_at'', JStr started),
              (''expiry_time'', JFloat expiry),
              (''expires_at'', JStr expires)])))"

section \<open>Capacities\<close>

definition gpu_capacity :: "env \<Rightarrow> int option \<Rightarrow> int res" where
  "gpu_capacity env override =
     (case override of
        Some n \<Rightarrow> if n < 0 then Inl (ValueError ''--capacity must be nonnegative'' []) else Inr n
      | None \<Rightarrow>
          (case gpu_count_var env of
             Some raw \<Rightarrow>
               (case py_int raw of
                  Some n \<Rightarrow>
                    if n < 0 then Inl (ValueError ''VASO_GPU_COUNT must be a nonnegative integer'' []) else Inr n
                | None \<Rightarrow> Inl (ValueError ''VASO_GPU_COUNT must be a nonnegative integer'' []))
           | None \<Rightarrow>
               (case nvidia_smi env of
                  SmiDone code out \<Rightarrow>
                    if code \<noteq> 0
                    then Inl (ValueError ''cannot determine GPU capacity with nvidia-smi; supply --capacity or VASO_GPU_COUNT'' [])
                    else Inr (int (length (filter (\<lambda>line. startswith (strip line) ''GPU '') (splitlines False out))))
                | SmiFailed \<Rightarrow>
                    Inl (ValueError ''cannot determine GPU capacity with nvidia-smi; supply --capacity or VASO_GPU_COUNT'' []))))"

definition cpu_budget :: "env \<Rightarrow> int option \<Rightarrow> int" where
  "cpu_budget env override =
     (case override of
        Some n \<Rightarrow> max 1 n
      | None \<Rightarrow>
          let fallback = (case cpu_count env of Some n \<Rightarrow> if n = 0 then 1 else max 1 n | None \<Rightarrow> 1) in
          (case cpu_budget_var env of
             Some (c # cs) \<Rightarrow> (case py_int (c # cs) of Some n \<Rightarrow> max 1 n | None \<Rightarrow> fallback)
           | _ \<Rightarrow> fallback))"

definition cpu_share :: "int \<Rightarrow> nat \<Rightarrow> int" where
  "cpu_share budget n = max 1 (budget div max 1 (int n))"

definition with_jobs :: "int \<Rightarrow> dict \<Rightarrow> dict" where
  "with_jobs share l =
     dput ''env'' (JObj [(''VASO_HOST_CPU_JOBS'', JStr (string_of_int share))]) (dput ''jobs'' (JInt share) l)"

definition recompute_cpu_jobs :: "dict \<Rightarrow> int \<Rightarrow> dict res" where
  "recompute_cpu_jobs state budget =
     bindE (leases_of state) (\<lambda>ls.
     Inr (with_leases (map (with_jobs (cpu_share budget (length ls))) ls) (dput ''budget'' (JInt budget) state)))"
section \<open>Requests\<close>

type_synonym gpu_request = "int \<times> int \<times> int list option"

definition finite_ttl :: "lease_args \<Rightarrow> rat option" where
  "finite_ttl args =
     (case arg_ttl args of
        None \<Rightarrow> Some 86400
      | Some (Fin t) \<Rightarrow> if t \<le> 0 then None else Some t
      | Some _ \<Rightarrow> None)"

definition parse_devices :: "string \<Rightarrow> int list option" where
  "parse_devices devices = those (map py_int (split_on (CHR '','') devices))"

definition devices_ok :: "int \<Rightarrow> int \<Rightarrow> int list \<Rightarrow> bool" where
  "devices_ok amount capacity requested =
     (int (length requested) = amount \<and> int (length (remdups requested)) = amount
      \<and> \<not> list_ex (\<lambda>d. d < 0 \<or> capacity \<le> d) requested)"

definition gpu_request :: "env \<Rightarrow> lease_args \<Rightarrow> (message + gpu_request) res" where
  "gpu_request env args =
     (let amount = (case arg_amount args of Some n \<Rightarrow> n | None \<Rightarrow> 1) in
      if amount \<le> 0 then Inr (Inl (''--amount must be positive for gpu leases'', []))
      else bindE (gpu_capacity env (arg_capacity args)) (\<lambda>capacity.
        if capacity < amount
        then Inr (Inl (''requested {} GPUs but capacity is {}'', [JInt amount, JInt capacity]))
        else (case arg_devices args of
                None \<Rightarrow> Inr (Inr (amount, capacity, None))
              | Some devices \<Rightarrow>
                  (case parse_devices devices of
                     None \<Rightarrow> Inr (Inl (''--devices must contain comma-separated GPU indices'', []))
                   | Some requested \<Rightarrow>
                       if devices_ok amount capacity requested then Inr (Inr (amount, capacity, Some requested))
                       else Inr (Inl (''--devices must name --amount distinct indices within GPU capacity'', []))))))"

section \<open>The section of acquire\<close>

definition exclusive_resource :: "string \<Rightarrow> bool" where
  "exclusive_resource r = (startswith r ''insula:'' \<or> r = ''network-fetch'')"

definition exclusive_grant :: "env \<Rightarrow> lease_args \<Rightarrow> rat \<Rightarrow> dict list \<Rightarrow> dict option res" where
  "exclusive_grant env args ttl ls =
     (if ls \<noteq> [] then Inr None
      else bindE (new_record env args (arg_resource args) ttl) (\<lambda>l. Inr (Some l)))"

definition devices_of :: "dict \<Rightarrow> int list res" where
  "devices_of l =
     bindE (py_iter (case map_of l ''devices'' of None \<Rightarrow> JList [] | Some v \<Rightarrow> v)) (mapE int_of)"

definition free_devices :: "gpu_request \<Rightarrow> int list \<Rightarrow> int list" where
  "free_devices q used =
     (case q of (amount, capacity, requested) \<Rightarrow>
        filter (\<lambda>d. d \<notin> set used)
          (case requested of Some ds \<Rightarrow> ds | None \<Rightarrow> map int [0..<nat capacity]))"

definition with_devices :: "int \<Rightarrow> int list \<Rightarrow> dict \<Rightarrow> dict" where
  "with_devices amount devices l =
     (let visible = JStr (join '','' (map string_of_int devices)) in
      dput ''env'' (JObj [(''CUDA_VISIBLE_DEVICES'', visible), (''VASO_GPU_SET'', visible)])
        (dput ''devices'' (JList (map JInt devices))
          (dput ''amount'' (JInt amount) l)))"

definition gpu_grant :: "env \<Rightarrow> lease_args \<Rightarrow> rat \<Rightarrow> gpu_request \<Rightarrow> dict list \<Rightarrow> dict option res" where
  "gpu_grant env args ttl q ls =
     bindE (concatE devices_of ls) (\<lambda>used.
     let free = free_devices q used in
     if int (length free) < fst q then Inr None
     else bindE (new_record env args (arg_resource args) ttl) (\<lambda>l.
       Inr (Some (with_devices (fst q) (take (nat (fst q)) free) l))))"

definition settle ::
  "env \<Rightarrow> store \<Rightarrow> string \<Rightarrow> dict \<Rightarrow> dict list \<Rightarrow> dict option \<Rightarrow> (attempt \<times> store) res" where
  "settle env store resource state ls grant =
     (case grant of
        None \<Rightarrow> bindE (write_state env store resource state) (\<lambda>s. Inr (Busy, s))
      | Some l \<Rightarrow>
          bindE (write_state env store resource (with_leases (ls @ [l]) state)) (\<lambda>s. Inr (Granted l, s)))"

definition cpu_section ::
  "env \<Rightarrow> lease_args \<Rightarrow> rat \<Rightarrow> store \<Rightarrow> dict \<Rightarrow> dict list \<Rightarrow> (attempt \<times> store) res" where
  \<comment> \<open>the new lease is updated in place, so the caller sees its share\<close>
  "cpu_section env args ttl store state ls =
     bindE (new_record env args (arg_resource args) ttl) (\<lambda>l.
     bindE (recompute_cpu_jobs (with_leases (ls @ [l]) state) (cpu_budget env (arg_budget args))) (\<lambda>state'.
     bindE (leases_of state') (\<lambda>ls'.
     bindE (write_state env store (arg_resource args) state') (\<lambda>s. Inr (Granted (last ls'), s)))))"

definition scan_leases :: "env \<Rightarrow> store \<Rightarrow> string \<Rightarrow> (dict \<times> dict list) res" where
  \<comment> \<open>the state of a resource with the leases that are still active\<close>
  "scan_leases env store resource =
     bindE (lease_dir env) (\<lambda>_.
     bindE (load_state store resource) (\<lambda>state.
     bindE (leases_of state) (\<lambda>all.
     bindE (active_leases env all) (\<lambda>ls. Inr (with_leases ls state, ls)))))"

definition acquire_section ::
  "env \<Rightarrow> lease_args \<Rightarrow> rat \<Rightarrow> gpu_request option \<Rightarrow> store \<Rightarrow> (attempt \<times> store) res" where
  "acquire_section env args ttl request store =
     (let r = arg_resource args in
      bindE (scan_leases env store r) (\<lambda>(state, ls).
      if exclusive_resource r
      then bindE (exclusive_grant env args ttl ls) (settle env store r state ls)
      else if r = ''gpu''
      then (case request of
              Some q \<Rightarrow>
                bindE (gpu_grant env args ttl q ls)
                  (settle env store r (dput ''capacity'' (JInt (fst (snd q))) state) ls)
            | None \<Rightarrow> Inl (LibError ''UnboundLocalError''))
      else if r = ''host-cpu'' then cpu_section env args ttl store state ls
      else Inr (Refused (''unknown resource: {}'', [JStr r]), store)))"

definition try_acquire :: "env \<Rightarrow> lease_args \<Rightarrow> store \<Rightarrow> (attempt \<times> store) res" where
  "try_acquire env args store =
     (let r = arg_resource args in
      if arg_devices args \<noteq> None \<and> r \<noteq> ''gpu''
      then Inr (Refused (''--devices applies only to gpu leases'', []), store)
      else (case finite_ttl args of
        None \<Rightarrow> Inr (Refused (''--ttl must be finite and positive'', []), store)
      | Some ttl \<Rightarrow>
          if (case arg_pid args of Some p \<Rightarrow> \<not> valid_pid (JInt p) | None \<Rightarrow> False)
          then Inr (Refused (''--pid must be a positive process ID below 2**31'', []), store)
          else if r = ''gpu''
          then bindE (gpu_request env args) (\<lambda>q.
                 case q of
                   Inl m \<Rightarrow> Inr (Refused m, store)
                 | Inr request \<Rightarrow> acquire_section env args ttl (Some request) store)
          else acquire_section env args ttl None store))"

section \<open>The sections of release, check and list\<close>

definition known_budget :: "env \<Rightarrow> dict \<Rightarrow> int option \<Rightarrow> int res" where
  "known_budget env state override =
     (if truthy (dget state ''budget'') then int_of (dget state ''budget'')
      else Inr (cpu_budget env override))"

definition rebalance :: "env \<Rightarrow> int option \<Rightarrow> string \<Rightarrow> dict \<Rightarrow> dict res" where
  "rebalance env override resource state =
     (if resource = ''host-cpu''
      then bindE (known_budget env state override) (recompute_cpu_jobs state)
      else Inr state)"

definition release_section :: "env \<Rightarrow> string \<Rightarrow> int option \<Rightarrow> string \<Rightarrow> store \<Rightarrow> (dict list \<times> store) res" where
  "release_section env i override resource store =
     bindE (lease_dir env) (\<lambda>_.
     bindE (load_state store resource) (\<lambda>state.
     bindE (leases_of state) (\<lambda>before.
     let kept = filter (\<lambda>l. \<not> has_id i l) before; removed = filter (has_id i) before in
     if removed = [] then Inr ([], store)
     else bindE (rebalance env override resource (with_leases kept state)) (\<lambda>state'.
          bindE (write_state env store resource state') (\<lambda>s. Inr (removed, s))))))"

definition refresh_section :: "env \<Rightarrow> int option \<Rightarrow> string \<Rightarrow> store \<Rightarrow> (dict list \<times> store) res" where
  "refresh_section env override resource store =
     bindE (scan_leases env store resource) (\<lambda>(state, ls).
     bindE (rebalance env override resource state) (\<lambda>state'.
     bindE (write_state env store resource state') (\<lambda>s.
     bindE (leases_of state') (\<lambda>ls'. Inr (ls', s)))))"

section \<open>The commands\<close>

text \<open>
  A turn is one section of a command: the readings it makes, and what other processes did to the
  directory since the section before. \<open>elapsed\<close> is the time since the start of \<^verbatim>\<open>acquire\<close> when
  the section is done and \<open>reread\<close> the reading from which the sleep after it is computed. A command returns its exit code and what it prints, or raises; either way
  the directory is the one its last section left.
\<close>

record turn =
  turn_env :: env
  interference :: "store \<Rightarrow> store"
  elapsed :: rat
  reread :: rat

datatype 'a ending = Exit int 'a | Raised pyexn | Running

fun acquire_loop :: "turn list \<Rightarrow> lease_args \<Rightarrow> rat \<Rightarrow> store \<Rightarrow> dict option ending \<times> store" where
  "acquire_loop [] args timeout store = (Running, store)"
| "acquire_loop (t # ts) args timeout store =
     (let now = interference t store in
      case try_acquire (turn_env t) args now of
        Inl e \<Rightarrow> (Raised e, now)
      | Inr (Refused m, s) \<Rightarrow> (Exit 2 None, s)
      | Inr (Granted l, s) \<Rightarrow> (Exit 0 (Some l), s)
      | Inr (Busy, s) \<Rightarrow>
          if timeout \<le> elapsed t then (Exit 75 None, s) else acquire_loop ts args timeout s)"

definition acquire :: "turn list \<Rightarrow> lease_args \<Rightarrow> store \<Rightarrow> dict option ending \<times> store" where
  "acquire turns args store =
     (case arg_timeout args of
        Fin t \<Rightarrow> acquire_loop turns args (max 0 t) store
      | _ \<Rightarrow> (Exit 2 None, store))"

definition sleep_time :: "rat \<Rightarrow> rat \<Rightarrow> rat" where
  "sleep_time timeout now = min (1 / 10) (max (1 / 100) (timeout - now))"

text \<open>The loop over the resources: turn \<open>n\<close> belongs to the \<open>n\<close>-th of them.\<close>

fun sections ::
  "(env \<Rightarrow> string \<Rightarrow> store \<Rightarrow> ('a list \<times> store) res) \<Rightarrow> (nat \<Rightarrow> turn) \<Rightarrow> nat \<Rightarrow> string list \<Rightarrow> store
    \<Rightarrow> 'a list res \<times> store" where
  "sections f turns n [] store = (Inr [], store)"
| "sections f turns n (r # rs) store =
     (let now = interference (turns n) store in
      case f (turn_env (turns n)) r now of
        Inl e \<Rightarrow> (Inl e, now)
      | Inr (xs, s) \<Rightarrow>
          (case sections f turns (Suc n) rs s of
             (Inl e, s') \<Rightarrow> (Inl e, s')
           | (Inr ys, s') \<Rightarrow> (Inr (xs @ ys), s')))"

definition all_resources :: "env \<Rightarrow> store \<Rightarrow> string option \<Rightarrow> string list res" where
  "all_resources env store resource =
     (if resource = None then bindE (lease_dir env) (\<lambda>_. resources store None) else resources store resource)"

definition exits :: "int \<Rightarrow> dict list res \<times> store \<Rightarrow> dict list ending \<times> store" where
  "exits code p = (case p of (Inl e, s) \<Rightarrow> (Raised e, s) | (Inr ls, s) \<Rightarrow> (Exit code ls, s))"

definition release ::
  "env \<Rightarrow> (nat \<Rightarrow> turn) \<Rightarrow> string \<Rightarrow> string option \<Rightarrow> int option \<Rightarrow> store \<Rightarrow> dict list ending \<times> store" where
  "release env turns i resource override store =
     (case all_resources env store resource of
        Inl e \<Rightarrow> (Raised e, store)
      | Inr rs \<Rightarrow> exits 0 (sections (\<lambda>env r. release_section env i override r) turns 0 rs store))"

definition list_leases ::
  "env \<Rightarrow> (nat \<Rightarrow> turn) \<Rightarrow> string option \<Rightarrow> int option \<Rightarrow> store \<Rightarrow> dict list ending \<times> store" where
  "list_leases env turns resource override store =
     (case all_resources env store resource of
        Inl e \<Rightarrow> (Raised e, store)
      | Inr rs \<Rightarrow> exits 0 (sections (\<lambda>env r. refresh_section env override r) turns 0 rs store))"

fun check_loop ::
  "(nat \<Rightarrow> turn) \<Rightarrow> nat \<Rightarrow> string \<Rightarrow> int option \<Rightarrow> string list \<Rightarrow> store \<Rightarrow> dict option ending \<times> store" where
  "check_loop turns n i override [] store = (Exit 75 None, store)"
| "check_loop turns n i override (r # rs) store =
     (let now = interference (turns n) store in
      case refresh_section (turn_env (turns n)) override r now of
        Inl e \<Rightarrow> (Raised e, now)
      | Inr (ls, s) \<Rightarrow>
          (case List.find (has_id i) ls of
             Some l \<Rightarrow> (Exit 0 (Some l), s)
           | None \<Rightarrow> check_loop turns (Suc n) i override rs s))"

definition check ::
  "env \<Rightarrow> (nat \<Rightarrow> turn) \<Rightarrow> string \<Rightarrow> string option \<Rightarrow> int option \<Rightarrow> store \<Rightarrow> dict option ending \<times> store" where
  "check env turns i resource override store =
     (case all_resources env store resource of
        Inl e \<Rightarrow> (Raised e, store)
      | Inr rs \<Rightarrow> check_loop turns 0 i override rs store)"

text \<open>\<^verbatim>\<open>main\<close> catches \<^verbatim>\<open>OSError\<close> and \<^verbatim>\<open>ValueError\<close>; another exception ends the process.\<close>

fun main_end :: "'a ending \<Rightarrow> int option" where
  "main_end (Exit code x) = Some code"
| "main_end (Raised OSError) = Some 2"
| "main_end (Raised (ValueError m a)) = Some 2"
| "main_end _ = None"
section \<open>The policies\<close>

text \<open>Two leases of the same GPU never overlap; an exclusive resource has one holder.\<close>

definition disjoint_devices :: "dict \<Rightarrow> dict \<Rightarrow> bool" where
  "disjoint_devices k l =
     (case (devices_of k, devices_of l) of
        (Inr ks, Inr ls) \<Rightarrow> list_all (\<lambda>d. d \<notin> set ls) ks
      | _ \<Rightarrow> True)"

lemma mapE_int_of [simp]: "mapE int_of (map JInt ds) = Inr ds"
  by (induction ds) (auto simp: int_of_def)

lemma devices_of_with_devices [simp]: "devices_of (with_devices n ds l) = Inr ds"
  by (simp add: devices_of_def with_devices_def Let_def)

lemma concatE_mem: "concatE f xs = Inr ys \<Longrightarrow> x \<in> set xs \<Longrightarrow> f x = Inr zs \<Longrightarrow> set zs \<subseteq> set ys"
  by (induction xs arbitrary: ys) auto

lemma free_devices_unused: "d \<in> set (free_devices q used) \<Longrightarrow> d \<notin> set used"
  by (cases q) (auto simp: free_devices_def)

lemma gpu_grant_Some:
  assumes "gpu_grant env args ttl q ls = Inr (Some l)"
  obtains used r where "concatE devices_of ls = Inr used"
    "fst q \<le> int (length (free_devices q used))"
    "new_record env args (arg_resource args) ttl = Inr r"
    "l = with_devices (fst q) (take (nat (fst q)) (free_devices q used)) r"
  using assms by (auto simp: gpu_grant_def Let_def not_less split: if_splits)

interpretation gpu_policy: lease_policy disjoint_devices
  "\<lambda>(env, args, ttl, q). gpu_grant env args ttl q"
proof unfold_locales
  fix r :: "env \<times> lease_args \<times> rat \<times> gpu_request" and ls l k
  obtain env args ttl q where r: "r = (env, args, ttl, q)" by (cases r)
  assume "(case r of (env, args, ttl, q) \<Rightarrow> gpu_grant env args ttl q) ls = Inr (Some l)" and k: "k \<in> set ls"
  then have "gpu_grant env args ttl q ls = Inr (Some l)" by (simp add: r)
  then obtain used d where used: "concatE devices_of ls = Inr used"
    and l: "l = with_devices (fst q) (take (nat (fst q)) (free_devices q used)) d"
    by (rule gpu_grant_Some)
  have "d \<notin> set (take n (free_devices q used))" if "d \<in> set used" for d n
    using that free_devices_unused [of d q used] in_set_takeD [of d n] by blast
  then show "disjoint_devices k l"
    using concatE_mem [OF used k] by (auto simp: disjoint_devices_def l list_all_iff split: sum.split)
qed

interpretation exclusive: exclusive_policy "\<lambda>_ _. False" "\<lambda>(env, args, ttl). exclusive_grant env args ttl"
  by unfold_locales (auto simp: exclusive_grant_def split: if_splits)

end
