(* ===== verification/LeaseSpec.thy ===== *)
theory LeaseSpec
  imports Lease
begin

text \<open>
  What the lease directory promises: every file stays readable, an exclusive resource has at most
  one holder, the leases of the GPUs never share a device and the CPU budget is divided evenly.
  The steps of the directory are the locked sections of the commands; the promises are invariants
  of every reachable directory, whatever the interleaving.
\<close>

named_theorems held \<open>how a state with given leases is built\<close>

section \<open>Files and states\<close>

lemma safe_from_plain: "CHR ''_'' \<notin> set (safe_from False s) \<Longrightarrow> safe_from False s = s"
  by (induction s) (auto split: if_splits)

lemma safe_name_plain: "CHR ''_'' \<notin> set (safe_name r) \<Longrightarrow> safe_name r = r"
  unfolding safe_name_def by (rule safe_from_plain)

lemma safe_name_eq_plain: "safe_name r = n \<Longrightarrow> CHR ''_'' \<notin> set n \<Longrightarrow> r = n"
  using safe_name_plain [of r] by simp

lemma stem_of_nonempty [simp]: "n \<noteq> [] \<Longrightarrow> stem_of n = n"
  by (simp add: stem_of_def)

text \<open>\<open>holds n recorded ls state\<close>: a valid state of the file \<open>n\<close> with the leases \<open>ls\<close>.\<close>

definition holds :: "string \<Rightarrow> string \<Rightarrow> dict list \<Rightarrow> dict \<Rightarrow> bool" where
  "holds n recorded ls state =
     (py_eq (dget state ''schema_version'') (JInt 1)
      \<and> dget state ''resource'' = JStr recorded \<and> safe_name recorded = n
      \<and> dget state ''leases'' = JList (map JObj ls) \<and> list_all (lease_ok n recorded) ls)"

lemma state_ok_holds: "state_ok n state \<longleftrightarrow> (\<exists>recorded ls. holds n recorded ls state)"
  by (auto simp: state_ok_def holds_def list_all_iff)

lemma mapE_objects: "mapE (\<lambda>x. case x of JObj l \<Rightarrow> Inr l | _ \<Rightarrow> Inl AttributeError) (map JObj ls) = Inr ls"
  by (induction ls) auto

lemma leases_of_holds [held]: "holds n recorded ls state \<Longrightarrow> leases_of state = Inr ls"
proof -
  assume "holds n recorded ls state"
  then have "map_of state ''leases'' = Some (JList (map JObj ls))"
    using dget_not_null [of state "''leases''"] by (simp add: holds_def)
  then show ?thesis by (simp add: leases_of_def mapE_objects)
qed

lemma leases_of_with [simp]: "leases_of (with_leases ls state) = Inr ls"
  by (simp add: leases_of_def with_leases_def mapE_objects)

lemma holds_with:
  "holds n recorded ls state \<Longrightarrow> list_all (lease_ok n recorded) ls' \<Longrightarrow>
    holds n recorded ls' (with_leases ls' state)"
  by (simp add: holds_def with_leases_def)

lemma holds_dput:
  "holds n recorded ls state \<Longrightarrow> k \<noteq> ''schema_version'' \<Longrightarrow> k \<noteq> ''resource'' \<Longrightarrow> k \<noteq> ''leases'' \<Longrightarrow>
    holds n recorded ls (dput k v state)"
  by (simp add: holds_def)

lemma holds_empty: "holds (safe_name r) r [] (empty_state r)"
  by (simp add: holds_def empty_state_def dict_simps)

lemma lease_ok_dput:
  "lease_ok n recorded l \<Longrightarrow> k \<notin> {''id'', ''host'', ''resource'', ''pid'', ''expiry_time'', ''devices''} \<Longrightarrow>
    lease_ok n recorded (dput k v l)"
  by (auto simp: lease_ok_def)

lemma lease_ok_with_jobs: "lease_ok n recorded l \<Longrightarrow> lease_ok n recorded (with_jobs share l)"
  by (simp add: with_jobs_def lease_ok_dput)

text \<open>The promise for one file, and for the directory.\<close>

definition exclusive_file :: "string \<Rightarrow> bool" where
  "exclusive_file n = (startswith n ''insula_'' \<or> n = ''network-fetch'')"

definition policy_ok :: "string \<Rightarrow> dict list \<Rightarrow> bool" where
  "policy_ok n ls =
     ((exclusive_file n \<longrightarrow> length ls \<le> 1) \<and> (n = ''gpu'' \<longrightarrow> sorted_wrt disjoint_devices ls))"

definition file_ok :: "string \<Rightarrow> json option \<Rightarrow> bool" where
  "file_ok n content =
     (n \<noteq> [] \<and> safe_name n = n
      \<and> (\<exists>state recorded ls. content = Some (JObj state) \<and> holds n recorded ls state \<and> policy_ok n ls))"

definition store_ok :: "store \<Rightarrow> bool" where
  "store_ok store = (\<forall>(n, content)\<in>set store. file_ok n content)"

lemma policy_ok_Nil: "policy_ok n []"
  by (simp add: policy_ok_def)

lemma policy_ok_filter: "policy_ok n ls \<Longrightarrow> policy_ok n (filter P ls)"
  using exclusive.kept_consistent [of ls P] gpu_policy.kept_consistent [of ls P]
  by (simp only: policy_ok_def exclusive.at_most_one) blast

lemma policy_ok_free: "\<not> exclusive_file n \<Longrightarrow> n \<noteq> ''gpu'' \<Longrightarrow> policy_ok n ls"
  by (simp add: policy_ok_def)

lemma load_state_ok:
  assumes "store_ok store" "r \<noteq> []"
  obtains state recorded ls where "load_state store r = Inr state"
    "holds (safe_name r) recorded ls state" "policy_ok (safe_name r) ls"
proof (cases "map_of store (safe_name r)")
  case None
  show ?thesis
    by (rule that [of "empty_state r" r "[]"]) (simp_all add: load_state_def None holds_empty policy_ok_Nil)
next
  case (Some content)
  then have "file_ok (safe_name r) content"
    using assms by (auto simp: store_ok_def dest: map_of_SomeD)
  then obtain state recorded ls where s: "content = Some (JObj state)"
    "holds (safe_name r) recorded ls state" "policy_ok (safe_name r) ls"
    by (auto simp: file_ok_def)
  then have "read_state (safe_name r) content = Inr state"
    by (auto simp: read_state_iff state_ok_holds)
  then show ?thesis using that s Some assms(2) by (simp add: load_state_def)
qed

lemma write_state_ok:
  assumes "store_ok store" "r \<noteq> []" "holds (safe_name r) recorded ls state" "policy_ok (safe_name r) ls"
    and w: "write_state env store r state = Inr store'"
  shows "store_ok store'"
proof -
  obtain t where s': "store' = AList.update (safe_name r) (Some (JObj (dput ''updated_at'' (JStr t) state))) store"
    using w by (auto simp: write_state_def)
  have "file_ok (safe_name r) (Some (JObj (dput ''updated_at'' (JStr t) state)))"
    using assms(2-4) holds_dput [OF assms(3), of "''updated_at''"] by (auto simp: file_ok_def)
  then show ?thesis
    using assms(1) set_update [of "safe_name r" _ store] unfolding s' store_ok_def by blast
qed

section \<open>The scan\<close>

definition live :: "env \<Rightarrow> dict \<Rightarrow> bool" where
  "live env l = (lease_active env l = Inr True)"

lemma pid_alive_total: "p < 2 ^ 31 \<Longrightarrow> \<exists>b. pid_alive env p h = Inr b"
  by (auto simp: pid_alive_def split: kill_result.split)

lemma lease_active_total:
  assumes "lease_ok n recorded l"
  obtains b where "lease_active env l = Inr b"
proof -
  obtain p where p: "dget l ''pid'' = JInt p" "0 < p" "p < 2 ^ 31"
    using assms by (auto simp: lease_ok_def valid_pid_def split: json.splits)
  then have pid: "map_of l ''pid'' = Some (JInt p)"
    using dget_not_null [of l "''pid''"] by simp
  have fin: "finite_number (dget l ''expiry_time'') = Inr True"
    using assms by (simp add: lease_ok_def)
  then have "dget l ''expiry_time'' \<noteq> JNull" by (auto simp: finite_number_def)
  then have "map_of l ''expiry_time'' = Some (dget l ''expiry_time'')" by (rule dget_not_null)
  moreover obtain f where "float_of env (dget l ''expiry_time'') = Inr f"
    using fin by (auto simp: finite_number_def float_of_def split: json.splits pyfloat.splits if_splits)
  moreover obtain b where "pid_alive env p (host_of env l) = Inr b"
    using pid_alive_total [OF p(3), of env "host_of env l"] by blast
  ultimately show ?thesis
    using that pid by (cases "float_le f (scan_time env)") (auto simp: lease_active_def ditem_def int_of_def)
qed

lemma active_leases_filter:
  "list_all (lease_ok n recorded) ls \<Longrightarrow> active_leases env ls = Inr (filter (live env) ls)"
proof (induction ls)
  case (Cons l ls)
  then have "lease_ok n recorded l" by simp
  then obtain b where "lease_active env l = Inr b" by (rule lease_active_total)
  with Cons show ?case by (auto simp: live_def)
qed simp

lemma scan_leases_ok:
  assumes "store_ok store" "r \<noteq> []" "scan_leases env store r = Inr (state, ls)"
  obtains recorded all where "holds (safe_name r) recorded ls state" "policy_ok (safe_name r) all"
    "ls = filter (live env) all" "list_all (lease_ok (safe_name r) recorded) all"
    "bindE (load_state store r) leases_of = Inr all"
proof -
  obtain st recorded all where l: "load_state store r = Inr st"
    "holds (safe_name r) recorded all st" "policy_ok (safe_name r) all"
    using load_state_ok [OF assms(1, 2)] by blast
  have ok: "list_all (lease_ok (safe_name r) recorded) all" using l(2) by (simp add: holds_def)
  have eq: "state = with_leases ls st" "ls = filter (live env) all"
    using assms(3) l leases_of_holds [OF l(2)] active_leases_filter [OF ok, of env]
    by (auto simp: scan_leases_def)
  have "holds (safe_name r) recorded ls state"
    unfolding eq(1) using l(2) ok eq(2) by (auto intro!: holds_with simp: list_all_iff)
  with l eq ok leases_of_holds [OF l(2)] show ?thesis by (intro that [of recorded all]) auto
qed
section \<open>New leases\<close>

text \<open>What a process has to be for its leases to be well formed: a named host and, without
\<^verbatim>\<open>--pid\<close>, a parent process that its PID namespace shows.\<close>

definition sound_env :: "env \<Rightarrow> lease_args \<Rightarrow> bool" where
  "sound_env env args =
     (hostname env \<noteq> [] \<and> (arg_pid args = None \<longrightarrow> valid_pid (JInt (ppid env))))"

definition pid_ok :: "lease_args \<Rightarrow> bool" where
  "pid_ok args = (case arg_pid args of None \<Rightarrow> True | Some p \<Rightarrow> valid_pid (JInt p))"

lemma new_record_ok:
  assumes "new_record env args r ttl = Inr l" "sound_env env args" "pid_ok args" "r \<noteq> []"
  shows "n = safe_name r \<Longrightarrow> recorded \<noteq> ''gpu'' \<Longrightarrow> lease_ok n recorded l"
    and "n = safe_name r \<Longrightarrow> amount > 0 \<Longrightarrow> ds \<noteq> [] \<Longrightarrow> distinct ds \<Longrightarrow> list_all (\<lambda>d. 0 \<le> d) ds \<Longrightarrow>
      lease_ok n recorded (with_devices amount ds l)"
proof -
  let ?pid = "case arg_pid args of Some p \<Rightarrow> p | None \<Rightarrow> ppid env"
  have pid: "valid_pid (JInt ?pid)"
    using assms(2, 3) by (cases "arg_pid args") (simp_all add: sound_env_def pid_ok_def)
  obtain started expires where "stamp (float_add env (record_time env) ttl) = Inr expires"
    and l: "l = [(''id'', JStr (safe_name r @ ''-'' @ token env)), (''resource'', JStr r),
      (''holder'', JStr (or_else (arg_holder args) (or_else (agent_var env) (or_else (user_var env) ''unknown'')))),
      (''pid'', JInt ?pid), (''host'', JStr (hostname env)), (''start_time'', JFloat (Fin (record_time env))),
      (''started_at'', JStr started), (''expiry_time'', JFloat (float_add env (record_time env) ttl)),
      (''expires_at'', JStr expires)]"
    using assms(1) by (auto simp: new_record_def Let_def)
  then obtain e where e: "float_add env (record_time env) ttl = Fin e"
    by (cases "float_add env (record_time env) ttl") (auto simp: stamp_def)
  have fields: "dget l ''id'' = JStr (safe_name r @ ''-'' @ token env)" "dget l ''host'' = JStr (hostname env)"
    "dget l ''resource'' = JStr r" "dget l ''pid'' = JInt ?pid" "dget l ''expiry_time'' = JFloat (Fin e)"
    by (simp_all add: l e dict_simps)
  show "n = safe_name r \<Longrightarrow> recorded \<noteq> ''gpu'' \<Longrightarrow> lease_ok n recorded l"
    using pid assms(2, 4) by (simp add: lease_ok_def fields nonempty_str_iff finite_number_def sound_env_def)
  show "lease_ok n recorded (with_devices amount ds l)"
    if "n = safe_name r" "amount > 0" "ds \<noteq> []" "distinct ds" "list_all (\<lambda>d. 0 \<le> d) ds"
    using pid assms(2, 4) that
    by (simp add: lease_ok_def with_devices_def Let_def fields nonempty_str_iff finite_number_def sound_env_def
        valid_devices_def list_all_iff distinct_map inj_on_def)
qed

definition request_ok :: "gpu_request \<Rightarrow> bool" where
  "request_ok q =
     (case q of (amount, capacity, requested) \<Rightarrow>
        0 < amount \<and> amount \<le> capacity
        \<and> (case requested of
             None \<Rightarrow> True
           | Some ds \<Rightarrow> int (length ds) = amount \<and> distinct ds \<and> list_all (\<lambda>d. 0 \<le> d \<and> d < capacity) ds))"

lemma devices_ok_iff:
  "devices_ok amount capacity ds \<longleftrightarrow>
    int (length ds) = amount \<and> distinct ds \<and> list_all (\<lambda>d. 0 \<le> d \<and> d < capacity) ds"
proof -
  have "int (length (remdups ds)) = int (length ds) \<longleftrightarrow> distinct ds"
    by (simp add: length_remdups_eq)
  then show ?thesis by (auto simp: devices_ok_def list_ex_iff list_all_iff not_less not_le)
qed

lemma gpu_request_ok: "gpu_request env args = Inr (Inr q) \<Longrightarrow> request_ok q"
  by (auto simp: gpu_request_def Let_def request_ok_def devices_ok_iff split: if_splits option.splits)

lemma free_devices_ok:
  assumes "request_ok q"
  shows "distinct (free_devices q used)"
    and "list_all (\<lambda>d. 0 \<le> d \<and> d < fst (snd q)) (free_devices q used)"
  using assms
  by (auto simp: request_ok_def free_devices_def list_all_iff distinct_map inj_on_def split: option.splits)

lemma list_all_take: "list_all P xs \<Longrightarrow> list_all P (take n xs)"
  by (auto simp: list_all_iff dest: in_set_takeD)

lemma gpu_grant_ok:
  assumes "gpu_grant env args ttl q ls = Inr (Some l)" "request_ok q" "sound_env env args" "pid_ok args"
    "arg_resource args = ''gpu''"
  shows "lease_ok ''gpu'' recorded l"
proof -
  obtain used r where u: "fst q \<le> int (length (free_devices q used))"
    "new_record env args (arg_resource args) ttl = Inr r"
    "l = with_devices (fst q) (take (nat (fst q)) (free_devices q used)) r"
    using assms(1) by (rule gpu_grant_Some)
  let ?ds = "take (nat (fst q)) (free_devices q used)"
  have "0 < fst q" using assms(2) by (auto simp: request_ok_def split: prod.splits)
  moreover from this u(1) have "?ds \<noteq> []" by auto
  moreover have "distinct ?ds" using free_devices_ok(1) [OF assms(2)] by simp
  moreover have "list_all (\<lambda>d. 0 \<le> d) ?ds"
    by (rule list_all_take) (use free_devices_ok(2) [OF assms(2), of used] in \<open>auto simp: list_all_iff\<close>)
  moreover have "''gpu'' = safe_name ''gpu''" by code_simp
  ultimately show ?thesis
    unfolding u(3) using assms(5) by (intro new_record_ok(2) [OF u(2) assms(3, 4)]) simp_all
qed
section \<open>The sections keep the promise\<close>

lemma safe_name_fixed:
  "safe_name ''gpu'' = ''gpu''" "safe_name ''host-cpu'' = ''host-cpu''"
  "safe_name ''network-fetch'' = ''network-fetch''"
  by code_simp+

lemma file_kinds:
  "\<not> exclusive_file ''gpu''" "\<not> exclusive_file ''host-cpu''" "''host-cpu'' \<noteq> ''gpu''"
  by code_simp+

lemma safe_insula_chars:
  "safe_char (CHR ''i'')" "safe_char (CHR ''n'')" "safe_char (CHR ''s'')" "safe_char (CHR ''u'')"
  "safe_char (CHR ''l'')" "safe_char (CHR ''a'')" "\<not> safe_char (CHR '':'')"
  by code_simp+

lemma safe_name_insula: "safe_name (''insula:'' @ x) = ''insula_'' @ safe_from True x"
  by (simp add: safe_name_def safe_insula_chars)

lemma exclusive_resource_file: "exclusive_resource r \<Longrightarrow> exclusive_file (safe_name r)"
proof -
  assume "exclusive_resource r"
  then consider x where "r = ''insula:'' @ x" | "r = ''network-fetch''"
    unfolding exclusive_resource_def prefix_def by blast
  then show ?thesis
  proof cases
    case 1
    then show ?thesis unfolding 1 safe_name_insula exclusive_file_def prefix_def by blast
  next
    case 2
    then show ?thesis by (simp add: exclusive_file_def safe_name_fixed)
  qed
qed

lemma exclusive_not_gpu: "exclusive_resource r \<Longrightarrow> safe_name r \<noteq> ''gpu''"
  using exclusive_resource_file [of r] file_kinds by auto

lemma recompute_holds:
  assumes "holds n recorded ls state" "recompute_cpu_jobs state budget = Inr state'"
  shows "holds n recorded (map (with_jobs (cpu_share budget (length ls))) ls) state'"
proof -
  have "state' = with_leases (map (with_jobs (cpu_share budget (length ls))) ls)
      (dput ''budget'' (JInt budget) state)"
    using assms(2) leases_of_holds [OF assms(1)] by (simp add: recompute_cpu_jobs_def)
  moreover have "list_all (lease_ok n recorded) (map (with_jobs (cpu_share budget (length ls))) ls)"
    using assms(1) by (simp add: holds_def list_all_iff lease_ok_with_jobs)
  moreover have "holds n recorded ls (dput ''budget'' (JInt budget) state)"
    using assms(1) by (rule holds_dput) simp_all
  ultimately show ?thesis by (simp add: holds_with)
qed

lemma rebalance_holds:
  assumes "holds (safe_name r) recorded ls state" "policy_ok (safe_name r) ls"
    "rebalance env override r state = Inr state'"
  obtains ls' where "holds (safe_name r) recorded ls' state'" "policy_ok (safe_name r) ls'"
    "map (\<lambda>l. dget l ''id'') ls' = map (\<lambda>l. dget l ''id'') ls"
proof (cases "r = ''host-cpu''")
  case True
  then obtain b where "recompute_cpu_jobs state b = Inr state'"
    using assms(3) by (auto simp: rebalance_def)
  from recompute_holds [OF assms(1) this] show ?thesis
    by (intro that [of "map (with_jobs (cpu_share b (length ls))) ls"])
      (simp_all add: True safe_name_fixed policy_ok_free file_kinds with_jobs_def)
next
  case False
  then show ?thesis using assms that by (simp add: rebalance_def)
qed

lemma settle_ok:
  assumes "store_ok store" "r \<noteq> []" "holds (safe_name r) recorded ls state" "policy_ok (safe_name r) ls"
    and g: "\<And>l. grant = Some l \<Longrightarrow> lease_ok (safe_name r) recorded l \<and> policy_ok (safe_name r) (ls @ [l])"
    and s: "settle env store r state ls grant = Inr (a, store')"
  shows "store_ok store'"
proof (cases grant)
  case None
  then show ?thesis using s write_state_ok [OF assms(1-4)] by (auto simp: settle_def)
next
  case (Some l)
  then have "list_all (lease_ok (safe_name r) recorded) (ls @ [l])"
    using g assms(3) by (auto simp: holds_def)
  then have "holds (safe_name r) recorded (ls @ [l]) (with_leases (ls @ [l]) state)"
    using assms(3) by (rule holds_with [rotated])
  then show ?thesis
    using Some s g write_state_ok [OF assms(1, 2)] by (auto simp: settle_def)
qed

lemma exclusive_section_ok:
  assumes st: "store_ok store" "r \<noteq> []" and ex: "exclusive_resource r" and r: "r = arg_resource args"
    and h: "holds (safe_name r) recorded ls state" "policy_ok (safe_name r) ls"
    and env: "sound_env env args" "pid_ok args"
    and g: "bindE (exclusive_grant env args ttl ls) (settle env store r state ls) = Inr (a, store')"
  shows "store_ok store'"
proof -
  obtain grant where grant: "exclusive_grant env args ttl ls = Inr grant"
    "settle env store r state ls grant = Inr (a, store')"
    using g by auto
  have gpu: "safe_name r \<noteq> ''gpu''" using ex by (rule exclusive_not_gpu)
  have "recorded \<noteq> ''gpu''" using h(1) gpu by (auto simp: holds_def safe_name_fixed)
  then have "lease_ok (safe_name r) recorded l \<and> policy_ok (safe_name r) (ls @ [l])" if "grant = Some l" for l
    using grant(1) that env st(2) r gpu new_record_ok(1) [of env args r ttl l]
    by (auto simp: exclusive_grant_def policy_ok_def split: if_splits)
  then show ?thesis by (rule settle_ok [OF st h _ grant(2)])
qed

lemma gpu_section_ok:
  assumes st: "store_ok store" and r: "arg_resource args = ''gpu''"
    and h: "holds ''gpu'' recorded ls state" "policy_ok ''gpu'' ls"
    and env: "sound_env env args" "pid_ok args" and q: "request_ok q"
    and g: "bindE (gpu_grant env args ttl q ls)
        (settle env store ''gpu'' (dput ''capacity'' (JInt (fst (snd q))) state) ls) = Inr (a, store')"
  shows "store_ok store'"
proof -
  obtain grant where grant: "gpu_grant env args ttl q ls = Inr grant"
    "settle env store ''gpu'' (dput ''capacity'' (JInt (fst (snd q))) state) ls grant = Inr (a, store')"
    using g by auto
  have h': "holds (safe_name ''gpu'') recorded ls (dput ''capacity'' (JInt (fst (snd q))) state)"
    unfolding safe_name_fixed by (rule holds_dput [OF h(1)]) simp_all
  have "lease_ok (safe_name ''gpu'') recorded l \<and> policy_ok (safe_name ''gpu'') (ls @ [l])"
    if "grant = Some l" for l
  proof
    have l: "gpu_grant env args ttl q ls = Inr (Some l)" using grant(1) that by simp
    show "lease_ok (safe_name ''gpu'') recorded l"
      unfolding safe_name_fixed by (rule gpu_grant_ok [OF l q env r])
    show "policy_ok (safe_name ''gpu'') (ls @ [l])"
      using h(2) gpu_policy.granted_consistent [of ls "(env, args, ttl, q)" l] l
      by (simp add: policy_ok_def safe_name_fixed file_kinds)
  qed
  moreover have "policy_ok (safe_name ''gpu'') ls" using h(2) by (simp add: safe_name_fixed)
  ultimately show ?thesis using settle_ok [OF st _ h' _ _ grant(2)] by simp
qed

lemma cpu_section_ok:
  assumes st: "store_ok store" and r: "arg_resource args = ''host-cpu''"
    and h: "holds ''host-cpu'' recorded ls state" and env: "sound_env env args" "pid_ok args"
    and g: "cpu_section env args ttl store state ls = Inr (a, store')"
  shows "store_ok store'"
proof -
  obtain l state' where l: "new_record env args ''host-cpu'' ttl = Inr l"
    "recompute_cpu_jobs (with_leases (ls @ [l]) state) (cpu_budget env (arg_budget args)) = Inr state'"
    "write_state env store ''host-cpu'' state' = Inr store'"
    using g by (auto simp: cpu_section_def r)
  have "recorded \<noteq> ''gpu''" using h by (auto simp: holds_def safe_name_fixed)
  then have "lease_ok ''host-cpu'' recorded l"
    using new_record_ok(1) [OF l(1) env] by (simp add: safe_name_fixed)
  then have "holds ''host-cpu'' recorded (ls @ [l]) (with_leases (ls @ [l]) state)"
    using h by (intro holds_with [OF h]) (simp add: holds_def)
  from recompute_holds [OF this l(2)] show ?thesis
    using write_state_ok [OF st _ _ _ l(3)] by (auto simp: safe_name_fixed policy_ok_free file_kinds)
qed

lemma try_acquire_ok:
  assumes st: "store_ok store" and env: "sound_env env args"
    and t: "try_acquire env args store = Inr (a, store')"
  shows "store_ok store'"
proof (cases "\<exists>m. a = Refused m \<and> store' = store")
  case True
  then show ?thesis using st by simp
next
  case False
  let ?r = "arg_resource args"
  obtain ttl request where sec: "acquire_section env args ttl request store = Inr (a, store')"
    and pid: "pid_ok args" and q: "?r = ''gpu'' \<Longrightarrow> \<exists>q. request = Some q \<and> request_ok q"
    using t False gpu_request_ok
    by (auto simp: try_acquire_def Let_def pid_ok_def split: if_splits option.splits sum.splits)
  then obtain state ls where scan: "scan_leases env store ?r = Inr (state, ls)"
    by (auto simp: acquire_section_def Let_def)
  show ?thesis
  proof (cases "?r = []")
    case True
    then have "\<not> exclusive_resource ?r" by (simp add: exclusive_resource_def)
    with True sec scan False show ?thesis by (auto simp: acquire_section_def)
  next
    case ne: False
    obtain recorded all where sc: "holds (safe_name ?r) recorded ls state" "policy_ok (safe_name ?r) all"
      "ls = filter (live env) all"
      by (rule scan_leases_ok [OF st ne scan])
    have pol: "policy_ok (safe_name ?r) ls" unfolding sc(3) by (rule policy_ok_filter [OF sc(2)])
    consider "exclusive_resource ?r" | "\<not> exclusive_resource ?r" "?r = ''gpu''"
      | "\<not> exclusive_resource ?r" "?r = ''host-cpu''"
      | "\<not> exclusive_resource ?r" "?r \<noteq> ''gpu''" "?r \<noteq> ''host-cpu''" by blast
    then show ?thesis
    proof cases
      case 1
      with sec scan show ?thesis
        by (intro exclusive_section_ok [OF st ne 1 refl sc(1) pol env pid]) (simp add: acquire_section_def)
    next
      case 2
      with q obtain q where "request = Some q" "request_ok q" by auto
      with 2 sec scan show ?thesis using sc(1) pol
        by (intro gpu_section_ok [OF st 2(2) _ _ env pid]) (auto simp: acquire_section_def safe_name_fixed)
    next
      case 3
      with sec scan show ?thesis using sc(1)
        by (intro cpu_section_ok [OF st 3(2) _ env pid]) (auto simp: acquire_section_def safe_name_fixed)
    next
      case 4
      with sec scan False show ?thesis by (auto simp: acquire_section_def Let_def)
    qed
  qed
qed
lemma loaded_empty:
  assumes "store_ok store"
  shows "load_state store [] = Inr (empty_state [])"
proof -
  have "map_of store [] = None"
    using assms by (auto simp: store_ok_def file_ok_def map_of_eq_None_iff)
  moreover have "safe_name [] = []" by simp
  ultimately show ?thesis by (simp only: load_state_def option.case)
qed

lemma release_section_ok:
  assumes st: "store_ok store" and r: "release_section env i override r store = Inr (removed, store')"
  shows "store_ok store'"
proof (cases "r = []")
  case True
  then have "leases_of (empty_state r) = Inr []"
    by (simp add: leases_of_def empty_state_def)
  with True r st show ?thesis by (auto simp: release_section_def loaded_empty Let_def)
next
  case ne: False
  obtain state recorded before where l: "load_state store r = Inr state"
    "holds (safe_name r) recorded before state" "policy_ok (safe_name r) before"
    by (rule load_state_ok [OF st ne])
  let ?kept = "filter (\<lambda>l. \<not> has_id i l) before"
  show ?thesis
  proof (cases "filter (has_id i) before = []")
    case True
    with r l leases_of_holds [OF l(2)] st show ?thesis by (auto simp: release_section_def Let_def)
  next
    case False
    then obtain state' where s: "rebalance env override r (with_leases ?kept state) = Inr state'"
      "write_state env store r state' = Inr store'"
      using r l(1) leases_of_holds [OF l(2)] by (auto simp: release_section_def Let_def)
    have "holds (safe_name r) recorded ?kept (with_leases ?kept state)"
      using l(2) by (intro holds_with [OF l(2)]) (simp add: holds_def list_all_iff)
    then obtain ls' where "holds (safe_name r) recorded ls' state'" "policy_ok (safe_name r) ls'"
      by (rule rebalance_holds [OF _ policy_ok_filter [OF l(3)] s(1)])
    then show ?thesis by (rule write_state_ok [OF st ne _ _ s(2)])
  qed
qed

lemma refresh_section_ok:
  assumes st: "store_ok store" and ne: "r \<noteq> []"
    and r: "refresh_section env override r store = Inr (ls', store')"
  shows "store_ok store'"
proof -
  obtain state ls state' where s: "scan_leases env store r = Inr (state, ls)"
    "rebalance env override r state = Inr state'" "write_state env store r state' = Inr store'"
    using r by (auto simp: refresh_section_def split: prod.splits)
  obtain recorded all where sc: "holds (safe_name r) recorded ls state" "policy_ok (safe_name r) all"
    "ls = filter (live env) all"
    by (rule scan_leases_ok [OF st ne s(1)])
  then obtain ls'' where "holds (safe_name r) recorded ls'' state'" "policy_ok (safe_name r) ls''"
    using rebalance_holds [OF sc(1) _ s(2)] policy_ok_filter [OF sc(2)] by blast
  then show ?thesis by (rule write_state_ok [OF st ne _ _ s(3)])
qed

section \<open>Reachable directories\<close>

inductive lease_step :: "store \<Rightarrow> store \<Rightarrow> bool" where
  acquired: "try_acquire env args s = Inr (a, s') \<Longrightarrow> sound_env env args \<Longrightarrow> lease_step s s'"
| released: "release_section env i override r s = Inr (removed, s') \<Longrightarrow> lease_step s s'"
| refreshed: "refresh_section env override r s = Inr (ls, s') \<Longrightarrow> r \<noteq> [] \<Longrightarrow> lease_step s s'"

inductive_cases lease_stepE: "lease_step s s'"

lemma lease_step_ok: "lease_step s s' \<Longrightarrow> store_ok s \<Longrightarrow> store_ok s'"
  by (erule lease_stepE) (blast intro: try_acquire_ok release_section_ok refresh_section_ok)+

lemma lease_steps_ok: "lease_step\<^sup>*\<^sup>* s s' \<Longrightarrow> store_ok s \<Longrightarrow> store_ok s'"
  by (induction rule: rtranclp_induct) (auto dest: lease_step_ok)

abbreviation reachable :: "store \<Rightarrow> bool" where
  "reachable s \<equiv> lease_step\<^sup>*\<^sup>* [] s"

lemma reachable_ok: "reachable s \<Longrightarrow> store_ok s"
  by (erule lease_steps_ok) (simp add: store_ok_def)

text \<open>The commands are sequences of steps.\<close>

lemma sections_steps:
  assumes f: "\<And>n r s xs s'. r \<in> set rs \<Longrightarrow> f (turn_env (turns n)) r s = Inr (xs, s') \<Longrightarrow> lease_step s s'"
    and i: "\<And>n s. lease_step\<^sup>*\<^sup>* s (interference (turns n) s)"
  shows "lease_step\<^sup>*\<^sup>* s (snd (sections f turns n rs s))"
  using f
proof (induction rs arbitrary: n s)
  case (Cons r rs)
  let ?now = "interference (turns n) s"
  show ?case
  proof (cases "f (turn_env (turns n)) r ?now")
    case (Inl e)
    then show ?thesis using i by simp
  next
    case (Inr p)
    then obtain xs s1 where p: "f (turn_env (turns n)) r ?now = Inr (xs, s1)" by (cases p) auto
    then have "lease_step ?now s1" by (rule Cons.prems [rotated]) simp
    then have "lease_step\<^sup>*\<^sup>* s s1" using i [of s n] by (rule rtranclp.rtrancl_into_rtrancl [rotated])
    moreover have "lease_step\<^sup>*\<^sup>* s1 (snd (sections f turns (Suc n) rs s1))"
      by (rule Cons.IH) (rule Cons.prems, auto)
    ultimately have "lease_step\<^sup>*\<^sup>* s (snd (sections f turns (Suc n) rs s1))" by (rule rtranclp_trans)
    then show ?thesis using p by (simp add: snd_def split: prod.splits sum.splits)
  qed
qed simp

lemma exits_snd [simp]: "snd (exits code p) = snd p"
  by (auto simp: exits_def split: prod.split sum.split)

lemma check_loop_steps:
  assumes "\<And>r. r \<in> set rs \<Longrightarrow> r \<noteq> []" and i: "\<And>n s. lease_step\<^sup>*\<^sup>* s (interference (turns n) s)"
  shows "lease_step\<^sup>*\<^sup>* s (snd (check_loop turns n i override rs s))"
  using assms(1)
proof (induction rs arbitrary: n s)
  case (Cons r rs)
  let ?now = "interference (turns n) s"
  show ?case
  proof (cases "refresh_section (turn_env (turns n)) override r ?now")
    case (Inl e)
    then show ?thesis using i by simp
  next
    case (Inr p)
    then obtain ls s1 where p: "refresh_section (turn_env (turns n)) override r ?now = Inr (ls, s1)"
      by (cases p) auto
    then have "lease_step ?now s1" by (rule refreshed) (rule Cons.prems, simp)
    then have s1: "lease_step\<^sup>*\<^sup>* s s1" using i [of s n] by (rule rtranclp.rtrancl_into_rtrancl [rotated])
    moreover have "lease_step\<^sup>*\<^sup>* s1 (snd (check_loop turns (Suc n) i override rs s1))"
      by (rule Cons.IH) (use Cons.prems in auto)
    ultimately have "lease_step\<^sup>*\<^sup>* s (snd (check_loop turns (Suc n) i override rs s1))"
      by (rule rtranclp_trans)
    with s1 p show ?thesis by (simp split: option.split)
  qed
qed simp

lemma acquire_loop_steps:
  assumes "\<And>t s. t \<in> set turns \<Longrightarrow> lease_step\<^sup>*\<^sup>* s (interference t s) \<and> sound_env (turn_env t) args"
  shows "lease_step\<^sup>*\<^sup>* s (snd (acquire_loop turns args timeout s))"
  using assms
proof (induction turns arbitrary: s)
  case (Cons t turns)
  let ?now = "interference t s"
  have now: "lease_step\<^sup>*\<^sup>* s ?now" using Cons.prems by simp
  show ?case
  proof (cases "try_acquire (turn_env t) args ?now")
    case (Inl e)
    then show ?thesis using now by simp
  next
    case (Inr p)
    then obtain a s1 where p: "try_acquire (turn_env t) args ?now = Inr (a, s1)" by (cases p) auto
    moreover have "sound_env (turn_env t) args" using Cons.prems [of t] by simp
    ultimately have "lease_step ?now s1" by (rule acquired)
    then have s1: "lease_step\<^sup>*\<^sup>* s s1" using now by (rule rtranclp.rtrancl_into_rtrancl [rotated])
    moreover have "lease_step\<^sup>*\<^sup>* s1 (snd (acquire_loop turns args timeout s1))"
      by (rule Cons.IH) (use Cons.prems in auto)
    ultimately have "lease_step\<^sup>*\<^sup>* s (snd (acquire_loop turns args timeout s1))" by (rule rtranclp_trans)
    with s1 p show ?thesis by (simp split: attempt.split)
  qed
qed simp
lemma mapE_from: "mapE f xs = Inr ys \<Longrightarrow> y \<in> set ys \<Longrightarrow> \<exists>x\<in>set xs. f x = Inr y"
  by (induction xs arbitrary: ys) auto

lemma str_case_iff: "(case v of JStr s \<Rightarrow> Inr s | _ \<Rightarrow> Inl e) = Inr r \<longleftrightarrow> v = JStr r"
  by (cases v) auto

lemma resources_nonempty:
  assumes "store_ok store" "resources store None = Inr rs" "r \<in> set rs"
  shows "r \<noteq> []"
proof -
  obtain name state where n: "name \<in> set (map fst store)" "load_state store (stem_of name) = Inr state"
    "dget state ''resource'' = JStr r"
    using mapE_from [OF assms(2) [unfolded resources_def option.case] assms(3)]
    by (auto simp: str_case_iff)
  have name: "name \<noteq> []" "safe_name name = name"
    using n(1) assms(1) by (auto simp: store_ok_def file_ok_def)
  obtain state' recorded ls where "load_state store name = Inr state'" "holds (safe_name name) recorded ls state'"
    by (rule load_state_ok [OF assms(1) name(1)])
  then have "safe_name r = name" using n name by (simp add: holds_def)
  with name show ?thesis by auto
qed

lemma all_resources_nonempty:
  "store_ok store \<Longrightarrow> resource \<noteq> Some [] \<Longrightarrow> all_resources env store resource = Inr rs \<Longrightarrow> r \<in> set rs \<Longrightarrow> r \<noteq> []"
  using resources_nonempty [of store rs r] by (cases resource) (auto simp: all_resources_def resources_def)

section \<open>What a resource records\<close>

definition recorded_leases :: "store \<Rightarrow> string \<Rightarrow> dict list" where
  "recorded_leases store r = (case bindE (load_state store r) leases_of of Inr ls \<Rightarrow> ls | Inl e \<Rightarrow> [])"

definition holders :: "env \<Rightarrow> store \<Rightarrow> string \<Rightarrow> dict list" where
  "holders env store r = filter (live env) (recorded_leases store r)"

lemma scan_holders:
  assumes "store_ok store" "r \<noteq> []" "scan_leases env store r = Inr (state, ls)"
  obtains recorded where "holds (safe_name r) recorded ls state" "ls = holders env store r"
    "list_all (lease_ok (safe_name r) recorded) ls"
proof -
  obtain recorded all where s: "holds (safe_name r) recorded ls state" "ls = filter (live env) all"
    "bindE (load_state store r) leases_of = Inr all"
    by (rule scan_leases_ok [OF assms])
  have "recorded_leases store r = all" by (simp only: recorded_leases_def s(3) sum.case)
  with s show ?thesis by (intro that [of recorded]) (simp_all add: holders_def holds_def)
qed

lemma recorded_after_write:
  assumes "write_state env store r state = Inr store'" "r \<noteq> []" "holds (safe_name r) recorded ls state"
  shows "recorded_leases store' r = ls"
proof -
  obtain t where s': "store' = AList.update (safe_name r) (Some (JObj (dput ''updated_at'' (JStr t) state))) store"
    using assms(1) by (auto simp: write_state_def)
  have h: "holds (safe_name r) recorded ls (dput ''updated_at'' (JStr t) state)"
    using assms(3) by (rule holds_dput) simp_all
  then have "read_state (safe_name r) (Some (JObj (dput ''updated_at'' (JStr t) state)))
      = Inr (dput ''updated_at'' (JStr t) state)"
    by (auto simp: read_state_iff state_ok_holds)
  then have "load_state store' r = Inr (dput ''updated_at'' (JStr t) state)"
    using assms(2) by (simp add: load_state_def s' update_conv')
  then show ?thesis by (simp add: recorded_leases_def leases_of_holds [OF h])
qed

text \<open>Where an answer of \<open>try_acquire\<close> that is not a refusal comes from.\<close>

lemma try_acquire_section:
  assumes "try_acquire env args store = Inr (a, store')" "\<And>m. a \<noteq> Refused m"
  obtains ttl request where "acquire_section env args ttl request store = Inr (a, store')"
    "finite_ttl args = Some ttl" "pid_ok args"
    "arg_resource args = ''gpu'' \<longrightarrow> (\<exists>q. request = Some q \<and> gpu_request env args = Inr (Inr q))"
  using assms
  by (auto simp: try_acquire_def Let_def pid_ok_def split: if_splits option.splits sum.splits)

lemma refused_unchanged:
  "try_acquire env args store = Inr (Refused m, store') \<Longrightarrow> store' = store"
  by (auto simp: try_acquire_def acquire_section_def cpu_section_def settle_def Let_def
      split: if_splits option.splits sum.splits prod.splits)

end
