(* ===== verification/LeaseSample.thy ===== *)
theory LeaseSample
  imports LeaseSpec
begin

text \<open>
  A sample machine, on which the properties of the leases and of the commands that read them are
  applied, and the directories that its first acquisitions leave.
\<close>

section \<open>A sample machine\<close>

definition sample_env :: env where
  "sample_env =
     \<lparr>estate_root_var = Some ''/estate'', hostname = ''node'', kill_zero = (\<lambda>_. Alive),
      scan_time = 90000, record_time = 90000, write_time = 90000, token = ''0123456789abcdef'',
      agent_var = None, user_var = Some ''ci'', ppid = 4242, gpu_count_var = Some ''2'',
      nvidia_smi = SmiFailed, cpu_budget_var = None, cpu_count = Some 8,
      float_add = (\<lambda>x y. Fin (x + y)), int_float = of_int, float_text = (\<lambda>_. None), py_str = (\<lambda>_. '''')\<rparr>"

definition sample_args :: "string \<Rightarrow> lease_args" where
  "sample_args r =
     \<lparr>arg_resource = r, arg_holder = None, arg_pid = None, arg_ttl = Some (Fin 60), arg_timeout = Fin 0,
      arg_amount = None, arg_capacity = None, arg_devices = None, arg_budget = None\<rparr>"

definition sample_store :: "string \<Rightarrow> store" where
  "sample_store r = (case try_acquire sample_env (sample_args r) [] of Inr (a, s) \<Rightarrow> s | Inl e \<Rightarrow> [])"

definition granted :: "(attempt \<times> store) res \<Rightarrow> bool" where
  "granted x = (case x of Inr (Granted l, s) \<Rightarrow> True | _ \<Rightarrow> False)"

lemma sample_sound: "sound_env sample_env (sample_args r)"
  by (simp add: sound_env_def sample_env_def valid_pid_def)

lemma sample_granted:
  "granted (try_acquire sample_env (sample_args ''network-fetch'') [])"
  "granted (try_acquire sample_env (sample_args ''gpu'') [])"
  "granted (try_acquire sample_env (sample_args ''host-cpu'') [])"
  by code_simp+

lemma granted_obtains:
  assumes "granted x"
  obtains l s where "x = Inr (Granted l, s)"
  using assms by (auto simp: granted_def split: sum.splits prod.splits attempt.splits)

lemma sample_acquire:
  assumes "r \<in> {''network-fetch'', ''gpu'', ''host-cpu''}"
  obtains l where "try_acquire sample_env (sample_args r) [] = Inr (Granted l, sample_store r)"
proof -
  have "granted (try_acquire sample_env (sample_args r) [])" using assms sample_granted by auto
  then obtain l s where g: "try_acquire sample_env (sample_args r) [] = Inr (Granted l, s)"
    by (rule granted_obtains)
  then show ?thesis by (intro that [of l]) (simp add: sample_store_def)
qed

lemma sample_reachable: "r \<in> {''network-fetch'', ''gpu'', ''host-cpu''} \<Longrightarrow> reachable (sample_store r)"
  using sample_acquire [of r] acquired [OF _ sample_sound] by (metis r_into_rtranclp)

end
