(* ===== verification/LeaseRun.thy ===== *)
theory LeaseRun
  imports LeaseSample
begin

text \<open>
  The properties of the lease commands, each with a concrete run on a sample machine: a host
  \<^verbatim>\<open>node\<close> on the day after the epoch, with two GPUs and eight processors.
\<close>

section \<open>Every reachable directory\<close>


lemma sample_gpu_file: "map fst (sample_store ''gpu'') = [''gpu'']"
  by code_simp



definition sample_turn :: "nat \<Rightarrow> turn" where
  "sample_turn n = \<lparr>turn_env = sample_env, interference = (\<lambda>s. s), elapsed = of_nat n, reread = of_nat n\<rparr>"


section \<open>What each acquisition decides\<close>

text \<open>A granted or busy answer comes from the scan of the recorded leases.\<close>

lemma section_scan:
  assumes "reachable s" "try_acquire env args s = Inr (a, s')" "\<And>m. a \<noteq> Refused m" "arg_resource args \<noteq> []"
  obtains ttl request state ls recorded where
    "acquire_section env args ttl request s = Inr (a, s')"
    "scan_leases env s (arg_resource args) = Inr (state, ls)"
    "holds (safe_name (arg_resource args)) recorded ls state" "ls = holders env s (arg_resource args)"
    "finite_ttl args = Some ttl" "pid_ok args"
    "arg_resource args = ''gpu'' \<longrightarrow> (\<exists>q. request = Some q \<and> gpu_request env args = Inr (Inr q))"
    "list_all (lease_ok (safe_name (arg_resource args)) recorded) ls"
proof -
  obtain ttl request where t: "acquire_section env args ttl request s = Inr (a, s')"
    "finite_ttl args = Some ttl" "pid_ok args"
    "arg_resource args = ''gpu'' \<longrightarrow> (\<exists>q. request = Some q \<and> gpu_request env args = Inr (Inr q))"
    using assms(2, 3) by (rule try_acquire_section)
  obtain state ls where sc: "scan_leases env s (arg_resource args) = Inr (state, ls)"
    using t(1) by (auto simp: acquire_section_def Let_def)
  obtain recorded where "holds (safe_name (arg_resource args)) recorded ls state"
    "ls = holders env s (arg_resource args)" "list_all (lease_ok (safe_name (arg_resource args)) recorded) ls"
    by (rule scan_holders [OF reachable_ok [OF assms(1)] assms(4) sc])
  with t sc show ?thesis by (intro that)
qed

lemma settle_recorded:
  assumes "settle env s r state ls grant = Inr (a, s')" "r \<noteq> []" "holds (safe_name r) recorded ls state"
    "\<And>l. grant = Some l \<Longrightarrow> lease_ok (safe_name r) recorded l"
  shows "(case grant of None \<Rightarrow> a = Busy \<and> recorded_leases s' r = ls
    | Some l \<Rightarrow> a = Granted l \<and> recorded_leases s' r = ls @ [l])"
proof (cases grant)
  case None
  then show ?thesis using assms(1) recorded_after_write [OF _ assms(2, 3)] by (auto simp: settle_def)
next
  case (Some l)
  then have w: "write_state env s r (with_leases (ls @ [l]) state) = Inr s'" "a = Granted l"
    using assms(1) by (auto simp: settle_def)
  have "list_all (lease_ok (safe_name r) recorded) (ls @ [l])"
    using assms(3, 4) Some by (simp add: holds_def)
  then have "holds (safe_name r) recorded (ls @ [l]) (with_leases (ls @ [l]) state)"
    by (rule holds_with [OF assms(3)])
  with w Some show ?thesis using recorded_after_write [OF w(1) assms(2)] by simp
qed

text \<open>
  C8. Acquiring an exclusive resource grants exactly when no recorded lease is both unexpired and
  held by a live process; afterwards the directory records the new lease alone, and a busy answer
  leaves the live holder recorded. A refusal writes nothing.\<close>

theorem exclusive_acquire_decides:
  assumes "reachable s" "exclusive_resource (arg_resource args)" "sound_env env args"
    and "try_acquire env args s = Inr (a, s')"
  shows "(case a of
      Granted l \<Rightarrow> holders env s (arg_resource args) = [] \<and> recorded_leases s' (arg_resource args) = [l]
    | Busy \<Rightarrow> holders env s (arg_resource args) \<noteq> []
        \<and> recorded_leases s' (arg_resource args) = holders env s (arg_resource args)
    | Refused m \<Rightarrow> s' = s)"
proof (cases "\<exists>m. a = Refused m")
  case True
  then show ?thesis using refused_unchanged assms(4) by auto
next
  case False
  let ?r = "arg_resource args"
  have ne: "?r \<noteq> []" using assms(2) by (auto simp: exclusive_resource_def)
  obtain ttl request state ls recorded where t: "acquire_section env args ttl request s = Inr (a, s')"
    "scan_leases env s ?r = Inr (state, ls)" "holds (safe_name ?r) recorded ls state" "ls = holders env s ?r"
    "pid_ok args"
    using section_scan [OF assms(1, 4) _ ne] False by metis
  then obtain grant where g: "exclusive_grant env args ttl ls = Inr grant"
    "settle env s ?r state ls grant = Inr (a, s')"
    using assms(2) by (auto simp: acquire_section_def Let_def)
  have "recorded \<noteq> ''gpu''"
    using t(3) exclusive_not_gpu [OF assms(2)] by (auto simp: holds_def safe_name_fixed)
  then have "lease_ok (safe_name ?r) recorded l" if "grant = Some l" for l
    using g(1) that new_record_ok(1) [OF _ assms(3) t(5) ne] by (auto simp: exclusive_grant_def split: if_splits)
  from settle_recorded [OF g(2) ne t(3) this] show ?thesis
    using g(1) exclusive.grant_needs_none [of "(env, args, ttl)" ls]
    by (auto simp: exclusive_grant_def t(4) split: option.splits if_splits)
qed

theorem exclusive_acquire_decides_witness:
  "\<exists>l. recorded_leases (sample_store ''network-fetch'') ''network-fetch'' = [l]"
proof -
  obtain l where l: "try_acquire sample_env (sample_args ''network-fetch'') []
      = Inr (Granted l, sample_store ''network-fetch'')"
    by (rule sample_acquire [of "''network-fetch''"]) simp_all
  have "exclusive_resource (arg_resource (sample_args ''network-fetch''))"
    by (simp add: exclusive_resource_def sample_args_def)
  from exclusive_acquire_decides [OF rtranclp.rtrancl_refl this sample_sound l] show ?thesis
    by (auto simp: sample_args_def)
qed

definition devices_held :: "dict list \<Rightarrow> int set" where
  "devices_held ls = (\<Union>l\<in>set ls. case devices_of l of Inr ds \<Rightarrow> set ds | Inl e \<Rightarrow> {})"

lemma concatE_devices: "concatE devices_of ls = Inr used \<Longrightarrow> set used = devices_held ls"
  by (induction ls arbitrary: used) (auto simp: devices_held_def)

text \<open>
  C9. A GPU lease gets exactly the number of devices asked for, all within the capacity, distinct,
  free of every live lease, and the requested ones when devices are named; it is recorded after
  the live leases. The answer is busy exactly when fewer devices are free.\<close>

theorem gpu_acquire_decides:
  assumes "reachable s" "arg_resource args = ''gpu''" "sound_env env args"
    and "gpu_request env args = Inr (Inr (amount, capacity, requested))"
    and "try_acquire env args s = Inr (a, s')"
  shows "(case a of
      Granted l \<Rightarrow> (\<exists>ds. devices_of l = Inr ds \<and> int (length ds) = amount \<and> distinct ds
          \<and> set ds \<subseteq> {0..<capacity} - devices_held (holders env s ''gpu'')
          \<and> (requested = None \<or> requested = Some ds)
          \<and> recorded_leases s' ''gpu'' = holders env s ''gpu'' @ [l])
    | Busy \<Rightarrow> int (card ((case requested of None \<Rightarrow> {0..<capacity} | Some ds \<Rightarrow> set ds)
          - devices_held (holders env s ''gpu''))) < amount
        \<and> recorded_leases s' ''gpu'' = holders env s ''gpu''
    | Refused m \<Rightarrow> s' = s)"
proof (cases "\<exists>m. a = Refused m")
  case True
  then show ?thesis using refused_unchanged assms(5) by auto
next
  case False
  let ?q = "(amount, capacity, requested)"
  have q: "request_ok ?q" using assms(4) by (rule gpu_request_ok)
  obtain ttl request state ls recorded where t: "acquire_section env args ttl request s = Inr (a, s')"
    "scan_leases env s ''gpu'' = Inr (state, ls)" "holds ''gpu'' recorded ls state" "ls = holders env s ''gpu''"
    "pid_ok args" "request = Some ?q"
    using section_scan [OF assms(1, 5)] False assms(2, 4)
    by (metis (no_types, lifting) Inr_inject list.distinct(1) safe_name_fixed(1))
  have "\<not> exclusive_resource ''gpu''" by code_simp
  then obtain grant where g: "gpu_grant env args ttl ?q ls = Inr grant"
    "settle env s ''gpu'' (dput ''capacity'' (JInt capacity) state) ls grant = Inr (a, s')"
    using t(1, 2, 6) assms(2) by (auto simp: acquire_section_def Let_def)
  obtain used where used: "concatE devices_of ls = Inr used" using g(1) by (auto simp: gpu_grant_def)
  let ?free = "free_devices ?q used"
  have free: "set ?free = (case requested of None \<Rightarrow> {0..<capacity} | Some ds \<Rightarrow> set ds) - devices_held ls"
    using concatE_devices [OF used]
    by (auto simp: free_devices_def image_iff split: option.split intro!: bexI [of _ "nat _"])
  have "holds (safe_name ''gpu'') recorded ls (dput ''capacity'' (JInt capacity) state)"
    unfolding safe_name_fixed by (rule holds_dput [OF t(3)]) simp_all
  moreover have "lease_ok (safe_name ''gpu'') recorded l" if "grant = Some l" for l
    unfolding safe_name_fixed using gpu_grant_ok [OF _ q assms(3) t(5) assms(2)] g(1) that by simp
  ultimately have rec: "(case grant of None \<Rightarrow> a = Busy \<and> recorded_leases s' ''gpu'' = ls
      | Some l \<Rightarrow> a = Granted l \<and> recorded_leases s' ''gpu'' = ls @ [l])"
    by (intro settle_recorded [OF g(2)]) simp_all
  show ?thesis
  proof (cases grant)
    case None
    then have "int (length ?free) < amount" using g(1) used by (auto simp: gpu_grant_def Let_def split: if_splits)
    moreover have "length ?free = card (set ?free)"
      using free_devices_ok(1) [OF q, of used] by (simp add: distinct_card)
    ultimately show ?thesis using None rec free by (simp add: t(4))
  next
    case (Some l)
    with g(1) obtain r where l: "amount \<le> int (length ?free)" "l = with_devices amount (take (nat amount) ?free) r"
      using used by (auto simp: gpu_grant_def Let_def not_less split: if_splits)
    let ?ds = "take (nat amount) ?free"
    have pos: "0 < amount" using q by (simp add: request_ok_def)
    have "set ?ds \<subseteq> {0..<capacity} - devices_held ls"
      using free free_devices_ok(2) [OF q, of used] set_take_subset [of "nat amount" ?free]
      by (auto simp: list_all_iff)
    moreover have "requested = None \<or> requested = Some ?ds"
    proof (cases requested)
      case (Some ds)
      then have "length ds = nat amount" using q by (auto simp: request_ok_def)
      moreover have "?free = filter (\<lambda>d. d \<notin> set used) ds" by (simp add: free_devices_def Some)
      moreover have "nat amount \<le> length ?free" using l(1) by simp
      ultimately have "?free = ds" by (metis filter_id_conv length_filter_less linorder_not_le)
      then show ?thesis using \<open>length ds = nat amount\<close> Some by simp
    qed simp
    moreover have "int (length ?ds) = amount" using l(1) pos by simp
    moreover have "distinct ?ds" using free_devices_ok(1) [OF q, of used] by simp
    ultimately show ?thesis using Some rec l(2) by (auto simp: t(4))
  qed
qed
lemma sample_gpu_request:
  "gpu_request sample_env (sample_args ''gpu'') = Inr (Inr (1, 2, None))"
  by code_simp

theorem gpu_acquire_decides_witness:
  "\<exists>l ds. recorded_leases (sample_store ''gpu'') ''gpu'' = holders sample_env [] ''gpu'' @ [l]
    \<and> devices_of l = Inr ds \<and> int (length ds) = 1"
proof -
  obtain l where l: "try_acquire sample_env (sample_args ''gpu'') [] = Inr (Granted l, sample_store ''gpu'')"
    by (rule sample_acquire [of "''gpu''"]) simp_all
  have "arg_resource (sample_args ''gpu'') = ''gpu''" by (simp add: sample_args_def)
  from gpu_acquire_decides [OF rtranclp.rtrancl_refl this sample_sound sample_gpu_request l]
  show ?thesis by auto
qed

lemma cpu_share_pos: "1 \<le> cpu_share b n"
  by (simp add: cpu_share_def)

lemma cpu_share_bound: "0 < n \<Longrightarrow> int n * cpu_share b n \<le> max b (int n)"
proof -
  assume n: "0 < n"
  then have "int n * (b div int n) \<le> b"
    using pos_mod_sign [of "int n" b] mult_div_mod_eq [of "int n" b] by linarith
  then show ?thesis using n by (cases "b div int n \<le> 1") (auto simp: cpu_share_def)
qed

text \<open>
  C10. A lease of the host processors makes every recorded lease carry the same number of jobs, at
  least one, and the jobs together stay within the budget unless there are more leases than
  processors.\<close>

theorem cpu_jobs_bounded:
  assumes "reachable s" "arg_resource args = ''host-cpu''" "sound_env env args"
    and "try_acquire env args s = Inr (Granted l, s')"
  shows "\<exists>share. 1 \<le> share \<and> l \<in> set (recorded_leases s' ''host-cpu'')
    \<and> (\<forall>k\<in>set (recorded_leases s' ''host-cpu''). dget k ''jobs'' = JInt share)
    \<and> length (recorded_leases s' ''host-cpu'') = Suc (length (holders env s ''host-cpu''))
    \<and> int (length (recorded_leases s' ''host-cpu'')) * share
        \<le> max (cpu_budget env (arg_budget args)) (int (length (recorded_leases s' ''host-cpu'')))"
proof -
  let ?r = "arg_resource args" and ?b = "cpu_budget env (arg_budget args)"
  obtain ttl request state ls recorded where t: "acquire_section env args ttl request s = Inr (Granted l, s')"
    "scan_leases env s ?r = Inr (state, ls)" "holds (safe_name ?r) recorded ls state" "ls = holders env s ?r"
    "pid_ok args"
    by (rule section_scan [OF assms(1, 4)]) (use assms(2) in auto)
  have h: "holds ''host-cpu'' recorded ls state" using t(3) assms(2) by (simp add: safe_name_fixed)
  have "\<not> exclusive_resource ''host-cpu''" by code_simp
  then have "cpu_section env args ttl s state ls = Inr (Granted l, s')"
    using t(1, 2) assms(2) file_kinds by (simp add: acquire_section_def Let_def)
  then obtain r state' ls' where c: "new_record env args ''host-cpu'' ttl = Inr r"
    "recompute_cpu_jobs (with_leases (ls @ [r]) state) ?b = Inr state'" "leases_of state' = Inr ls'"
    "write_state env s ''host-cpu'' state' = Inr s'" "l = last ls'"
    by (auto simp: cpu_section_def assms(2))
  have "recorded \<noteq> ''gpu''" using h by (auto simp: holds_def safe_name_fixed)
  then have "lease_ok ''host-cpu'' recorded r"
    using new_record_ok(1) [OF c(1) assms(3) t(5)] by (simp add: safe_name_fixed)
  then have "holds ''host-cpu'' recorded (ls @ [r]) (with_leases (ls @ [r]) state)"
    using h by (intro holds_with [OF h]) (simp add: holds_def)
  then have h': "holds ''host-cpu'' recorded (map (with_jobs (cpu_share ?b (length (ls @ [r])))) (ls @ [r])) state'"
    using c(2) by (rule recompute_holds)
  have rec: "recorded_leases s' ''host-cpu'' = map (with_jobs (cpu_share ?b (length (ls @ [r])))) (ls @ [r])"
    using recorded_after_write [OF c(4), of recorded] h' by (simp add: safe_name_fixed)
  have "ls' = recorded_leases s' ''host-cpu''" using leases_of_holds [OF h'] c(3) rec by simp
  then have "l \<in> set (recorded_leases s' ''host-cpu'')" using c(5) rec by simp
  then show ?thesis
    using t(4) assms(2) cpu_share_pos cpu_share_bound [of "length (ls @ [r])" ?b]
    by (intro exI [of _ "cpu_share ?b (length (ls @ [r]))"]) (auto simp: rec with_jobs_def)
qed

theorem cpu_jobs_bounded_witness:
  "\<exists>share\<ge>1. \<forall>k\<in>set (recorded_leases (sample_store ''host-cpu'') ''host-cpu''). dget k ''jobs'' = JInt share"
proof -
  obtain l where l: "try_acquire sample_env (sample_args ''host-cpu'') [] = Inr (Granted l, sample_store ''host-cpu'')"
    by (rule sample_acquire [of "''host-cpu''"]) simp_all
  have "arg_resource (sample_args ''host-cpu'') = ''host-cpu''" by (simp add: sample_args_def)
  from cpu_jobs_bounded [OF rtranclp.rtrancl_refl this sample_sound l] show ?thesis by auto
qed

section \<open>Releasing\<close>

text \<open>
  Releasing removes from a resource exactly the leases with the given identifier, reports
  them, and keeps the others in their order.\<close>

theorem release_removes_exactly:
  assumes "reachable s" "r \<noteq> []" "release_section env i override r s = Inr (removed, s')"
  shows "removed = filter (has_id i) (recorded_leases s r)
    \<and> map (\<lambda>l. dget l ''id'') (recorded_leases s' r)
        = filter (\<lambda>v. v \<noteq> JStr i) (map (\<lambda>l. dget l ''id'') (recorded_leases s r))"
proof -
  obtain state recorded before where l: "load_state s r = Inr state"
    "holds (safe_name r) recorded before state" "policy_ok (safe_name r) before"
    by (rule load_state_ok [OF reachable_ok [OF assms(1)] assms(2)])
  have rec: "recorded_leases s r = before"
    using l(1) leases_of_holds [OF l(2)] by (simp add: recorded_leases_def)
  let ?kept = "filter (\<lambda>l. \<not> has_id i l) before"
  have ids: "map (\<lambda>l. dget l ''id'') ?kept = filter (\<lambda>v. v \<noteq> JStr i) (map (\<lambda>l. dget l ''id'') before)"
    by (simp add: filter_map comp_def has_id_def)
  show ?thesis
  proof (cases "filter (has_id i) before = []")
    case True
    then have "removed = []" "s' = s"
      using assms(3) l(1) leases_of_holds [OF l(2)] by (auto simp: release_section_def Let_def)
    moreover have "?kept = before" using True by (auto simp: filter_empty_conv)
    ultimately show ?thesis using True rec ids by simp
  next
    case False
    then obtain state' where s: "rebalance env override r (with_leases ?kept state) = Inr state'"
      "write_state env s r state' = Inr s'" "removed = filter (has_id i) before"
      using assms(3) l(1) leases_of_holds [OF l(2)] by (auto simp: release_section_def Let_def)
    have "holds (safe_name r) recorded ?kept (with_leases ?kept state)"
      using l(2) by (intro holds_with [OF l(2)]) (simp add: holds_def list_all_iff)
    then obtain ls' where "holds (safe_name r) recorded ls' state'"
      "map (\<lambda>l. dget l ''id'') ls' = map (\<lambda>l. dget l ''id'') ?kept"
      by (rule rebalance_holds [OF _ policy_ok_filter [OF l(3)] s(1)])
    then show ?thesis using recorded_after_write [OF s(2) assms(2)] s(3) rec ids by simp
  qed
qed

definition sample_release :: "(dict list \<times> store) res" where
  "sample_release = release_section sample_env ''gpu-0123456789abcdef'' None ''gpu'' (sample_store ''gpu'')"

lemma sample_release_one: "(case sample_release of Inr (removed, s) \<Rightarrow> length removed = 1 | Inl e \<Rightarrow> False)"
  by code_simp

theorem release_removes_exactly_witness:
  "\<exists>removed s'. sample_release = Inr (removed, s') \<and> length removed = 1
    \<and> (\<forall>l\<in>set (recorded_leases s' ''gpu''). dget l ''id'' \<noteq> JStr ''gpu-0123456789abcdef'')"
proof -
  obtain removed s' where r: "sample_release = Inr (removed, s')" "length removed = 1"
    using sample_release_one by (auto split: sum.splits)
  have "map (\<lambda>l. dget l ''id'') (recorded_leases s' ''gpu'')
      = filter (\<lambda>v. v \<noteq> JStr ''gpu-0123456789abcdef'') (map (\<lambda>l. dget l ''id'') (recorded_leases (sample_store ''gpu'') ''gpu''))"
    using release_removes_exactly [OF sample_reachable [of "''gpu''"] _ r(1) [unfolded sample_release_def]] by simp
  then have "JStr ''gpu-0123456789abcdef'' \<notin> set (map (\<lambda>l. dget l ''id'') (recorded_leases s' ''gpu''))"
    by simp
  then have "\<forall>l\<in>set (recorded_leases s' ''gpu''). dget l ''id'' \<noteq> JStr ''gpu-0123456789abcdef''"
    by (metis imageI set_map)
  with r show ?thesis by blast
qed
section \<open>Waiting\<close>

text \<open>The turns of a waiting process: each sleep lasts as long as it was asked to.\<close>

definition paced :: "rat \<Rightarrow> turn list \<Rightarrow> bool" where
  "paced timeout turns =
     ((\<forall>t\<in>set turns. 0 \<le> elapsed t \<and> elapsed t \<le> reread t)
      \<and> (\<forall>i. Suc i < length turns \<longrightarrow>
           reread (turns ! i) + sleep_time timeout (reread (turns ! i)) \<le> elapsed (turns ! Suc i)))"

lemma sleep_time_min: "1 / 100 \<le> sleep_time timeout now"
  by (simp add: sleep_time_def)

lemma paced_elapsed:
  assumes "paced timeout turns"
  shows "i < length turns \<Longrightarrow> of_nat i / 100 \<le> elapsed (turns ! i)"
proof (induction i)
  case 0
  then show ?case using assms by (simp add: paced_def)
next
  case (Suc i)
  then have "turns ! i \<in> set turns" by simp
  then have "elapsed (turns ! i) \<le> reread (turns ! i)" using assms by (simp add: paced_def)
  moreover have "reread (turns ! i) + sleep_time timeout (reread (turns ! i)) \<le> elapsed (turns ! Suc i)"
    using assms Suc.prems by (simp add: paced_def)
  ultimately show ?case
    using Suc sleep_time_min [of timeout "reread (turns ! i)"] by (simp add: add_divide_distrib)
qed

lemma running_not_timed_out:
  "fst (acquire_loop turns args timeout s) = Running \<Longrightarrow> t \<in> set turns \<Longrightarrow> elapsed t < timeout"
  by (induction turns arbitrary: s)
    (auto simp: Let_def not_le split: sum.splits prod.splits attempt.splits if_splits)

text \<open>
  C11. Acquiring always comes to an end: with a finite timeout it returns or raises after at most
  one attempt per hundredth of a second of the timeout and one more, however busy the resource
  stays.\<close>

theorem acquire_ends:
  assumes "arg_timeout args = Fin t" "paced (max 0 t) turns" "100 * max 0 t + 1 \<le> of_nat (length turns)"
  shows "fst (acquire turns args s) \<noteq> Running"
proof
  assume "fst (acquire turns args s) = Running"
  then have r: "fst (acquire_loop turns args (max 0 t) s) = Running" using assms(1) by (simp add: acquire_def)
  show False
  proof (cases turns)
    case Nil
    then show False using assms(3) by (simp add: max_def split: if_splits)
  next
    case (Cons u us)
    then have "of_nat (length us) / 100 \<le> elapsed (turns ! length us)" "elapsed (turns ! length us) < max 0 t"
      using paced_elapsed [OF assms(2), of "length us"] running_not_timed_out [OF r, of "turns ! length us"]
        nth_mem [of "length us" turns] by auto
    then show False using assms(3) Cons by simp
  qed
qed

theorem acquire_ends_witness:
  "fst (acquire [sample_turn 0] (sample_args ''gpu'') (sample_store ''gpu'')) \<noteq> Running"
proof -
  have "paced (max 0 0) [sample_turn 0]" by (simp add: paced_def sample_turn_def)
  then show ?thesis
    using acquire_ends [of "sample_args ''gpu''" 0 "[sample_turn 0]" "sample_store ''gpu''"]
    by (simp add: sample_args_def)
qed

section \<open>Where the commands fall short\<close>

lemma check_lease_error: "check_lease n recorded v = Inl e \<Longrightarrow> e = ValueError ''invalid lease state {}: {}'' []"
  by (auto simp: check_lease_def state_error_def split: json.splits if_splits)

lemma read_state_error: "read_state n c = Inl e \<Longrightarrow> e = ValueError ''invalid lease state {}: {}'' []"
  by (auto simp: read_state_def state_error_def bindE_eq_Inl dest!: mapE_Inl check_lease_error
      split: option.splits json.splits if_splits)

text \<open>
  The parent's process ID is not validated as \<^verbatim>\<open>--pid\<close> is. In a PID namespace that does not
  show the parent it is 0; the lease is granted and written, and from then on every command on the
  resource fails, because the state no longer validates.\<close>

theorem invisible_parent_breaks_state:
  assumes "reachable s" "exclusive_resource (arg_resource args)" "arg_pid args = None"
    "\<not> valid_pid (JInt (ppid env))" "try_acquire env args s = Inr (Granted l, s')"
  shows "load_state s' (arg_resource args) = Inl (ValueError ''invalid lease state {}: {}'' [])"
proof -
  let ?r = "arg_resource args"
  have ne: "?r \<noteq> []" using assms(2) by (auto simp: exclusive_resource_def)
  obtain ttl request state ls recorded where t: "acquire_section env args ttl request s = Inr (Granted l, s')"
    "scan_leases env s ?r = Inr (state, ls)" "holds (safe_name ?r) recorded ls state" "ls = holders env s ?r"
    by (rule section_scan [OF assms(1, 5) _ ne]) auto
  then obtain t where l: "new_record env args ?r ttl = Inr l"
    and s': "s' = AList.update (safe_name ?r)
      (Some (JObj (dput ''updated_at'' (JStr t) (with_leases (ls @ [l]) state)))) s"
    using assms(2)
    by (auto simp: acquire_section_def exclusive_grant_def settle_def write_state_def Let_def split: if_splits)
  let ?st = "dput ''updated_at'' (JStr t) (with_leases (ls @ [l]) state)"
  have "dget l ''pid'' = JInt (ppid env)"
    using l assms(3) by (auto simp: new_record_def Let_def dict_simps)
  then have bad: "\<not> lease_ok (safe_name ?r) recorded' l" for recorded'
    using assms(4) by (simp add: lease_ok_def)
  have "dget ?st ''leases'' = JList (map JObj (ls @ [l]))" by (simp add: with_leases_def)
  have "\<not> holds (safe_name ?r) recorded' ls' ?st" for recorded' ls'
  proof
    assume h: "holds (safe_name ?r) recorded' ls' ?st"
    then have "map JObj ls' = map JObj (ls @ [l])" by (simp add: holds_def with_leases_def)
    moreover have "inj JObj" by (simp add: inj_def)
    ultimately have "ls' = ls @ [l]" by (simp only: inj_map_eq_map)
    with h bad show False by (simp add: holds_def)
  qed
  then have "read_state (safe_name ?r) (Some (JObj ?st)) \<noteq> Inr v" for v
    by (auto simp: read_state_iff state_ok_holds)
  then have "read_state (safe_name ?r) (Some (JObj ?st)) = Inl (ValueError ''invalid lease state {}: {}'' [])"
    using read_state_error [of "safe_name ?r" "Some (JObj ?st)"] by (cases "read_state (safe_name ?r) (Some (JObj ?st))") auto
  then show ?thesis using ne by (simp add: load_state_def s' update_conv')
qed

definition hidden_parent :: env where
  "hidden_parent = sample_env\<lparr>ppid := 0\<rparr>"

lemma hidden_parent_granted:
  "granted (try_acquire hidden_parent (sample_args ''network-fetch'') [])"
  by code_simp

theorem invisible_parent_breaks_state_witness:
  "\<exists>l s'. try_acquire hidden_parent (sample_args ''network-fetch'') [] = Inr (Granted l, s')
    \<and> load_state s' ''network-fetch'' = Inl (ValueError ''invalid lease state {}: {}'' [])"
proof -
  obtain l s' where t: "try_acquire hidden_parent (sample_args ''network-fetch'') [] = Inr (Granted l, s')"
    by (rule granted_obtains [OF hidden_parent_granted])
  have "exclusive_resource (arg_resource (sample_args ''network-fetch''))"
    "arg_pid (sample_args ''network-fetch'') = None" "\<not> valid_pid (JInt (ppid hidden_parent))"
    by (simp_all add: exclusive_resource_def sample_args_def hidden_parent_def valid_pid_def)
  from invisible_parent_breaks_state [OF rtranclp.rtrancl_refl this t] t show ?thesis
    by (auto simp: sample_args_def)
qed

text \<open>
  A finite \<^verbatim>\<open>--ttl\<close> whose expiry is beyond 64-bit seconds passes the check of the argument and
  then makes \<^verbatim>\<open>_stamp\<close> overflow; \<^verbatim>\<open>main\<close> does not catch that exception, so the command ends with a
  traceback instead of exit code 2.\<close>

theorem huge_ttl_overflows:
  assumes "reachable s" "arg_resource args = ''host-cpu''" "arg_devices args = None" "pid_ok args"
    and "arg_ttl args = Some (Fin ttl)" "0 < ttl" "float_add env (record_time env) ttl = Fin e" "2 ^ 63 \<le> e"
    and "\<exists>v. stamp (Fin (record_time env)) = Inr v" "\<exists>v. lease_dir env = Inr v"
  shows "try_acquire env args s = Inl OverflowError \<and> main_end (Raised OverflowError :: dict option ending) = None"
proof -
  have "stamp (Fin e) = Inl OverflowError" using assms(8) by (simp add: stamp_def)
  then have n: "new_record env args ''host-cpu'' ttl = Inl OverflowError"
    using assms(7, 9) by (auto simp: new_record_def Let_def)
  have "\<exists>state ls. scan_leases env s ''host-cpu'' = Inr (state, ls)"
  proof -
    obtain state recorded ls where "load_state s ''host-cpu'' = Inr state"
      "holds (safe_name ''host-cpu'') recorded ls state"
      by (rule load_state_ok [OF reachable_ok [OF assms(1)], of "''host-cpu''"]) simp_all
    then show ?thesis
      using assms(10) leases_of_holds [of "safe_name ''host-cpu''" recorded ls state]
        active_leases_filter [of "safe_name ''host-cpu''" recorded ls env]
      by (auto simp: scan_leases_def holds_def)
  qed
  moreover have "\<not> exclusive_resource ''host-cpu''" by code_simp
  ultimately show ?thesis
    using assms(2-6) n file_kinds
    by (auto simp: try_acquire_def finite_ttl_def pid_ok_def acquire_section_def cpu_section_def Let_def
        split: option.splits)
qed
definition century :: lease_args where
  "century = (sample_args ''host-cpu'')\<lparr>arg_ttl := Some (Fin (10 ^ 300))\<rparr>"

theorem huge_ttl_overflows_witness:
  "try_acquire sample_env century [] = Inl OverflowError"
proof -
  have "arg_resource century = ''host-cpu''" "arg_devices century = None" "pid_ok century"
    "arg_ttl century = Some (Fin (10 ^ 300))"
    by (simp_all add: century_def sample_args_def pid_ok_def)
  moreover have "(0::rat) < 10 ^ 300" by simp
  moreover have "float_add sample_env (record_time sample_env) (10 ^ 300) = Fin (90000 + 10 ^ 300)"
    by (simp add: sample_env_def)
  moreover have "(2::rat) ^ 63 \<le> 90000 + 10 ^ 300" by simp
  moreover have "stamp (Fin (record_time sample_env)) = Inr ''1970-01-02T01:00:00Z''"
    "lease_dir sample_env = Inr ()"
    by code_simp+
  ultimately show ?thesis using huge_ttl_overflows [OF rtranclp.rtrancl_refl] by blast
qed

text \<open>
  Checking or listing the resource with the empty name creates the file \<^verbatim>\<open>.json\<close> for it, whose
  stem is not the safe name of the resource, so the file can never be read again.\<close>

theorem empty_resource_unreadable:
  assumes "refresh_section env override [] [] = Inr (ls, s')"
  shows "load_state s' [] = Inl (ValueError ''invalid lease state {}: {}'' [])"
proof -
  have scan: "scan_leases env [] [] = Inr (state, ls) \<Longrightarrow> ls = [] \<and> state = with_leases [] (empty_state [])" for state ls
    by (auto simp: scan_leases_def load_state_def leases_of_def empty_state_def)
  obtain state ls0 where "scan_leases env [] [] = Inr (state, ls0)" and w: "write_state env [] [] state = Inr s'"
    using assms by (auto simp: refresh_section_def rebalance_def)
  then have st: "state = with_leases [] (empty_state [])" using scan by blast
  obtain t where s': "s' = [([], Some (JObj (dput ''updated_at'' (JStr t) state)))]"
    using w by (auto simp: write_state_def)
  have "dget (dput ''updated_at'' (JStr t) state) ''resource'' = JStr []"
    by (simp add: st with_leases_def empty_state_def dict_simps)
  moreover have "safe_name [] \<noteq> ''.json''" by code_simp
  ultimately show ?thesis
    by (simp add: load_state_def s' read_state_def stem_of_def state_error_def)
qed

lemma sample_empty_refresh:
  "(case refresh_section sample_env None [] [] of Inr (ls, s) \<Rightarrow> ls = [] | Inl e \<Rightarrow> False)"
  by code_simp

theorem empty_resource_unreadable_witness:
  "\<exists>s'. refresh_section sample_env None [] [] = Inr ([], s')
    \<and> load_state s' [] = Inl (ValueError ''invalid lease state {}: {}'' [])"
proof -
  obtain ls s' where "refresh_section sample_env None [] [] = Inr (ls, s')" "ls = []"
    using sample_empty_refresh by (auto split: sum.splits)
  then show ?thesis using empty_resource_unreadable [of sample_env None ls s'] by blast
qed

end
