(* ===== verification/RelayClaim.thy ===== *)
theory RelayClaim
  imports Lease
begin

text \<open>
  \<^verbatim>\<open>tools/agents/relay.py\<close>, ticket claims: one file per ticket under \<^verbatim>\<open>agents/claims\<close>, created with
  \<^verbatim>\<open>O_EXCL\<close> and without a lock. The claim loop is therefore modelled one file-system call at a
  time (\<open>claim_step\<close>), with inodes, so that the calls of several agents interleave: a schedule
  says which process moves next and what it reads from its clock.

  A file of \<open>links\<close> names an inode of \<open>inodes\<close>; an inode holds the JSON value of its text, or
  \<open>None\<close> while its text is empty or not JSON.
\<close>

section \<open>Claim records\<close>

record relay_env =
  machine :: env
  float_mul :: "rat \<Rightarrow> rat \<Rightarrow> pyfloat"

record claim_args =
  claim_ticket :: string
  claim_agent :: string
  claim_minutes :: pyfloat

text \<open>\<^verbatim>\<open>_utc\<close>: \<^verbatim>\<open>time.gmtime\<close> takes the floor of the seconds.\<close>

definition utc :: "pyfloat \<Rightarrow> string res" where
  "utc ts =
     (case ts of
        Fin v \<Rightarrow>
          if v < - (2 ^ 63) \<or> 2 ^ 63 \<le> v then Inl OverflowError
          else let y = utc_year \<lfloor>v\<rfloor> in
            if y < - (2 ^ 31) \<or> 2 ^ 31 \<le> y then Inl OSError else Inr (utc_text \<lfloor>v\<rfloor>)
      | NaN \<Rightarrow> Inl (ValueError ''Invalid value NaN (not a number)'' [])
      | _ \<Rightarrow> Inl OverflowError)"

definition valid_ticket :: "string \<Rightarrow> bool" where
  "valid_ticket ticket = (ticket \<noteq> [] \<and> list_all safe_char ticket)"

definition claim_path :: "string \<Rightarrow> string res" where
  "claim_path ticket =
     (if valid_ticket ticket then Inr (ticket @ ''.json'')
      else Inl (RelayError (''invalid ticket id {}; use letters, digits, '.', '_' or '-'' @ [char_of (39::nat)]) [JStr ticket]))"

text \<open>\<^verbatim>\<open>now + lease_minutes * 60\<close>.\<close>

definition claim_expiry :: "relay_env \<Rightarrow> pyfloat \<Rightarrow> pyfloat" where
  "claim_expiry env minutes =
     (case minutes of
        Fin m \<Rightarrow>
          (case float_mul env m 60 of
             Fin d \<Rightarrow> float_add (machine env) (record_time (machine env)) d
           | f \<Rightarrow> f)
      | f \<Rightarrow> f)"

definition claim_record :: "relay_env \<Rightarrow> claim_args \<Rightarrow> dict res" where
  "claim_record env args =
     (let now = Fin (record_time (machine env)); expires = claim_expiry env (claim_minutes args) in
      bindE (utc now) (\<lambda>claimed.
      bindE (utc expires) (\<lambda>expires_at.
      Inr [(''ticket'', JStr (claim_ticket args)),
           (''agent'', JStr (claim_agent args)),
           (''claimed_at'', JStr claimed),
           (''heartbeat_at'', JStr claimed),
           (''expires_at'', JStr expires_at),
           (''expires_at_epoch'', JFloat expires),
           (''lease_minutes'', JFloat (claim_minutes args))])))"

definition claim_expired :: "relay_env \<Rightarrow> json \<Rightarrow> bool res" where
  "claim_expired env existing =
     (case existing of
        JObj d \<Rightarrow>
          (case float_of (machine env) (case map_of d ''expires_at_epoch'' of None \<Rightarrow> JInt 0 | Some v \<Rightarrow> v) of
             Inr f \<Rightarrow> Inr (float_le f (scan_time (machine env)))
           | Inl TypeError \<Rightarrow> Inr True
           | Inl (ValueError m a) \<Rightarrow> Inr True
           | Inl e \<Rightarrow> Inl e)
      | _ \<Rightarrow> Inl AttributeError)"

definition field_or :: "dict \<Rightarrow> string \<Rightarrow> json \<Rightarrow> json" where
  \<comment> \<open>\<^verbatim>\<open>d.get(k, default)\<close>\<close>
  "field_or d k v = (case map_of d k of None \<Rightarrow> v | Some w \<Rightarrow> w)"

definition keep_claimed_at :: "dict \<Rightarrow> dict \<Rightarrow> dict" where
  "keep_claimed_at existing r = dput ''claimed_at'' (field_or existing ''claimed_at'' (dget r ''claimed_at'')) r"

section \<open>The file system\<close>

record claim_fs =
  links :: "(string \<times> nat) list"
  inodes :: "json option list"

definition file_at :: "claim_fs \<Rightarrow> string \<Rightarrow> json option option" where
  \<comment> \<open>\<open>None\<close>: no such file\<close>
  "file_at fs path = (case map_of (links fs) path of None \<Rightarrow> None | Some i \<Rightarrow> Some (inodes fs ! i))"

definition create_file :: "string \<Rightarrow> json option \<Rightarrow> claim_fs \<Rightarrow> claim_fs" where
  "create_file path content fs =
     fs\<lparr>links := AList.update path (length (inodes fs)) (links fs), inodes := inodes fs @ [content]\<rparr>"

definition unlink :: "string \<Rightarrow> claim_fs \<Rightarrow> claim_fs" where
  "unlink path fs = fs\<lparr>links := AList.delete path (links fs)\<rparr>"

definition write_inode :: "nat \<Rightarrow> json \<Rightarrow> claim_fs \<Rightarrow> claim_fs" where
  "write_inode i v fs = fs\<lparr>inodes := (inodes fs)[i := Some v]\<rparr>"

definition read_claim :: "claim_fs \<Rightarrow> string \<Rightarrow> json option res" where
  \<comment> \<open>\<open>Inr None\<close>: the file does not exist, or holds \<^verbatim>\<open>null\<close>\<close>
  "read_claim fs path =
     (case file_at fs path of
        None \<Rightarrow> Inr None
      | Some None \<Rightarrow> Inl (RelayError ''{} is not valid JSON: {}'' [JStr path])
      | Some (Some JNull) \<Rightarrow> Inr None
      | Some (Some v) \<Rightarrow> Inr (Some v))"

section \<open>Claiming\<close>

text \<open>
  Where a process stands in \<^verbatim>\<open>acquire_claim\<close>: about to create the file, about to write the record
  into the inode it created, about to read the claim that is there, about to unlink an expired
  one, about to replace its own, or at an end.
\<close>

datatype claim_pc =
    Creating
  | Writing nat dict
  | Reading dict
  | Unlinking
  | Replacing dict
  | Claimed dict
  | Refusing pyexn

definition claim_conflict :: "claim_args \<Rightarrow> dict \<Rightarrow> pyexn" where
  "claim_conflict args existing =
     RelayError ''{} is claimed by {} until {}''
       [JStr (claim_ticket args), field_or existing ''agent'' (JStr ''?''), field_or existing ''expires_at'' (JStr ''?'')]"

definition judge_claim :: "relay_env \<Rightarrow> claim_args \<Rightarrow> dict \<Rightarrow> json \<Rightarrow> claim_pc" where
  "judge_claim env args r existing =
     (case claim_expired env existing of
        Inl e \<Rightarrow> Refusing e
      | Inr True \<Rightarrow> Unlinking
      | Inr False \<Rightarrow>
          (case existing of
             JObj d \<Rightarrow>
               if dget d ''agent'' = JStr (claim_agent args) then Replacing (keep_claimed_at d r)
               else Refusing (claim_conflict args d)
           | _ \<Rightarrow> Refusing AttributeError))"

definition claim_step :: "relay_env \<Rightarrow> claim_args \<Rightarrow> claim_pc \<times> claim_fs \<Rightarrow> claim_pc \<times> claim_fs" where
  "claim_step env args p =
     (case p of (pc, fs) \<Rightarrow>
      (case claim_path (claim_ticket args) of
         Inl e \<Rightarrow> (Refusing e, fs)
       | Inr path \<Rightarrow>
          (case pc of
             Creating \<Rightarrow>
               (case claim_record env args of
                  Inl e \<Rightarrow> (Refusing e, fs)
                | Inr r \<Rightarrow>
                    if file_at fs path = None then (Writing (length (inodes fs)) r, create_file path None fs)
                    else (Reading r, fs))
           | Writing i r \<Rightarrow> (Claimed r, write_inode i (JObj r) fs)
           | Reading r \<Rightarrow>
               (case read_claim fs path of
                  Inl e \<Rightarrow> (Refusing e, fs)
                | Inr None \<Rightarrow> (Creating, fs)
                | Inr (Some existing) \<Rightarrow> (judge_claim env args r existing, fs))
           | Unlinking \<Rightarrow> (Creating, unlink path fs)
           | Replacing r \<Rightarrow> (Claimed r, create_file path (Some (JObj r)) fs)
           | Claimed r \<Rightarrow> (Claimed r, fs)
           | Refusing e \<Rightarrow> (Refusing e, fs))))"

text \<open>One process alone, and several of them under a schedule.\<close>

fun claim_alone :: "relay_env list \<Rightarrow> claim_args \<Rightarrow> claim_pc \<times> claim_fs \<Rightarrow> claim_pc \<times> claim_fs" where
  "claim_alone [] args p = p"
| "claim_alone (env # envs) args p = claim_alone envs args (claim_step env args p)"

definition acquire_claim :: "relay_env list \<Rightarrow> claim_args \<Rightarrow> claim_fs \<Rightarrow> claim_pc \<times> claim_fs" where
  "acquire_claim envs args fs = claim_alone envs args (Creating, fs)"

type_synonym claimants = "(claim_args \<times> claim_pc) list"

definition sched_step :: "nat \<times> relay_env \<Rightarrow> claimants \<times> claim_fs \<Rightarrow> claimants \<times> claim_fs" where
  "sched_step t w =
     (case (t, w) of ((n, env), (ps, fs)) \<Rightarrow>
        if n < length ps
        then let (args, pc) = ps ! n; (pc', fs') = claim_step env args (pc, fs) in (ps[n := (args, pc')], fs')
        else (ps, fs))"

definition sched_run :: "(nat \<times> relay_env) list \<Rightarrow> claimants \<times> claim_fs \<Rightarrow> claimants \<times> claim_fs" where
  "sched_run ts w = fold sched_step ts w"

section \<open>Heartbeat, release and listing\<close>

definition owned_by_other :: "claim_args \<Rightarrow> dict \<Rightarrow> pyexn" where
  "owned_by_other args existing =
     RelayError ''{} is owned by {} until {}''
       [JStr (claim_ticket args), field_or existing ''agent'' (JStr ''?''), field_or existing ''expires_at'' (JStr ''?'')]"

definition may_change :: "relay_env \<Rightarrow> claim_args \<Rightarrow> json \<Rightarrow> dict res" where
  \<comment> \<open>the check shared by heartbeat and release: expired, or held by the caller\<close>
  "may_change env args existing =
     bindE (claim_expired env existing) (\<lambda>expired.
     case existing of
       JObj d \<Rightarrow>
         if \<not> expired \<and> dget d ''agent'' \<noteq> JStr (claim_agent args) then Inl (owned_by_other args d) else Inr d
     | _ \<Rightarrow> Inl AttributeError)"

definition refresh_claim :: "relay_env \<Rightarrow> claim_args \<Rightarrow> claim_fs \<Rightarrow> (dict \<times> claim_fs) res" where
  "refresh_claim env args fs =
     bindE (claim_path (claim_ticket args)) (\<lambda>path.
     bindE (read_claim fs path) (\<lambda>existing.
     case existing of
       None \<Rightarrow> Inl (RelayError ''{} is not claimed'' [JStr (claim_ticket args)])
     | Some v \<Rightarrow>
         bindE (may_change env args v) (\<lambda>d.
         bindE (claim_record env args) (\<lambda>r.
         let r' = keep_claimed_at d r in Inr (r', create_file path (Some (JObj r')) fs)))))"

definition release_claim :: "relay_env \<Rightarrow> claim_args \<Rightarrow> claim_fs \<Rightarrow> (bool \<times> claim_fs) res" where
  "release_claim env args fs =
     bindE (claim_path (claim_ticket args)) (\<lambda>path.
     bindE (read_claim fs path) (\<lambda>existing.
     case existing of
       None \<Rightarrow> Inr (False, fs)
     | Some v \<Rightarrow> bindE (may_change env args v) (\<lambda>_. Inr (True, unlink path fs))))"

text \<open>\<^verbatim>\<open>live_claims\<close> over the sorted file names of the directory; a clock reading for each.\<close>

fun live_claims :: "(string \<Rightarrow> relay_env) \<Rightarrow> string list \<Rightarrow> claim_fs \<Rightarrow> json list res \<times> claim_fs" where
  "live_claims env [] fs = (Inr [], fs)"
| "live_claims env (path # paths) fs =
     (case read_claim fs path of
        Inl e \<Rightarrow> (Inl e, fs)
      | Inr None \<Rightarrow> live_claims env paths fs
      | Inr (Some v) \<Rightarrow>
          (case claim_expired (env path) v of
             Inl e \<Rightarrow> (Inl e, fs)
           | Inr True \<Rightarrow> live_claims env paths (unlink path fs)
           | Inr False \<Rightarrow>
               (case live_claims env paths fs of
                  (Inl e, fs') \<Rightarrow> (Inl e, fs')
                | (Inr vs, fs') \<Rightarrow> (Inr (v # vs), fs'))))"

definition cmd_claimed :: "relay_env \<Rightarrow> string \<Rightarrow> claim_fs \<Rightarrow> int res \<times> claim_fs" where
  "cmd_claimed env ticket fs =
     (case claim_path ticket of
        Inl e \<Rightarrow> (Inl e, fs)
      | Inr path \<Rightarrow>
          (case read_claim fs path of
             Inl e \<Rightarrow> (Inl e, fs)
           | Inr None \<Rightarrow> (Inr 1, fs)
           | Inr (Some v) \<Rightarrow>
               (case claim_expired env v of
                  Inl e \<Rightarrow> (Inl e, fs)
                | Inr False \<Rightarrow> (Inr 0, fs)
                | Inr True \<Rightarrow> (Inr 1, unlink path fs))))"

end
