(* ===== verification/RelayClaimRun.thy ===== *)
theory RelayClaimRun
  imports RelayClaim
begin

text \<open>
  What ticket claims promise: what one agent alone obtains, why the exclusive creation of the file
  keeps two agents apart while no claim expires, and how they both end up with the ticket when
  one does.
\<close>

section \<open>Files\<close>

definition fs_ok :: "claim_fs \<Rightarrow> bool" where
  "fs_ok fs = (\<forall>(path, i)\<in>set (links fs). i < length (inodes fs))"

lemma file_at_create [simp]:
  "file_at (create_file path c fs) path' = (if path' = path then Some c else file_at fs path')"
  if "fs_ok fs"
  using that
  by (auto simp: file_at_def create_file_def update_conv' fs_ok_def nth_append split: option.split
      dest: map_of_SomeD)

lemma link_create [simp]: "map_of (links (create_file path c fs)) path = Some (length (inodes fs))"
  by (simp add: create_file_def update_conv')

lemma inodes_create [simp]: "inodes (create_file path c fs) = inodes fs @ [c]"
  by (simp add: create_file_def)

lemma file_at_unlink [simp]: "file_at (unlink path fs) path' = (if path' = path then None else file_at fs path')"
  by (simp add: file_at_def unlink_def delete_conv' split: option.split)

lemma inodes_unlink [simp]: "inodes (unlink path fs) = inodes fs"
  by (simp add: unlink_def)

lemma fs_ok_unlink [simp]: "fs_ok fs \<Longrightarrow> fs_ok (unlink path fs)"
  by (auto simp: fs_ok_def unlink_def AList.delete_eq)

lemma fs_ok_create [simp]: "fs_ok fs \<Longrightarrow> fs_ok (create_file path c fs)"
  using set_update [of path "length (inodes fs)" "links fs"]
  by (fastforce simp: fs_ok_def create_file_def)

lemma file_at_write:
  "map_of (links fs) path = Some i \<Longrightarrow> i < length (inodes fs) \<Longrightarrow> file_at (write_inode i v fs) path = Some (Some v)"
  by (simp add: file_at_def write_inode_def)

lemma file_at_link: "map_of (links fs) path = Some i \<Longrightarrow> file_at fs path = Some (inodes fs ! i)"
  by (simp add: file_at_def)

section \<open>One agent alone\<close>

fun final_pc :: "claim_pc \<Rightarrow> bool" where
  "final_pc (Claimed r) = True"
| "final_pc (Refusing e) = True"
| "final_pc _ = False"

lemma claim_alone_final:
  "claim_path (claim_ticket args) = Inr path \<Longrightarrow> final_pc (fst p) \<Longrightarrow> claim_alone envs args p = p"
proof (induction envs arbitrary: p)
  case (Cons env envs)
  then have "claim_step env args p = p"
    by (cases p; cases "fst p") (simp_all add: claim_step_def)
  with Cons show ?case by simp
qed simp

lemma claim_steps:
  assumes "claim_path (claim_ticket args) = Inr path" "claim_record env args = Inr r"
  shows
    "file_at fs path = None \<Longrightarrow>
      claim_step env args (Creating, fs) = (Writing (length (inodes fs)) r, create_file path None fs)"
    "file_at fs path \<noteq> None \<Longrightarrow> claim_step env args (Creating, fs) = (Reading r, fs)"
    "claim_step env args (Writing i r', fs) = (Claimed r', write_inode i (JObj r') fs)"
    "file_at fs path = Some None \<Longrightarrow> claim_step env args (Reading r', fs)
      = (Refusing (RelayError ''{} is not valid JSON: {}'' [JStr path]), fs)"
    "file_at fs path = Some (Some v) \<Longrightarrow> v \<noteq> JNull \<Longrightarrow>
      claim_step env args (Reading r', fs) = (judge_claim env args r' v, fs)"
    "file_at fs path = Some (Some JNull) \<Longrightarrow> claim_step env args (Reading r', fs) = (Creating, fs)"
    "claim_step env args (Unlinking, fs) = (Creating, unlink path fs)"
    "claim_step env args (Replacing r', fs) = (Claimed r', create_file path (Some (JObj r')) fs)"
    "claim_step env args (Claimed r', fs) = (Claimed r', fs)"
    "claim_step env args (Refusing e, fs) = (Refusing e, fs)"
  using assms by (auto simp: claim_step_def read_claim_def split: json.split)

text \<open>
  With no one else moving, a claim is decided within five file-system calls: it is granted and
  recorded when there is no claim, when the recorded one has expired, or when it is the agent's own
  (which keeps its claim time); otherwise it is refused and nothing changes.\<close>

theorem claim_alone_decides:
  assumes "claim_path (claim_ticket args) = Inr path" "claim_record env args = Inr r" "fs_ok fs"
    and "file_at fs path \<noteq> Some (Some JNull)" "5 \<le> n"
  shows "(case acquire_claim (replicate n env) args fs of (pc, fs') \<Rightarrow>
    (case file_at fs path of
       None \<Rightarrow> pc = Claimed r \<and> file_at fs' path = Some (Some (JObj r))
     | Some None \<Rightarrow> pc = Refusing (RelayError ''{} is not valid JSON: {}'' [JStr path]) \<and> fs' = fs
     | Some (Some v) \<Rightarrow>
         (case claim_expired env v of
            Inl e \<Rightarrow> pc = Refusing e \<and> fs' = fs
          | Inr True \<Rightarrow> pc = Claimed r \<and> file_at fs' path = Some (Some (JObj r))
          | Inr False \<Rightarrow>
              (\<exists>d. v = JObj d \<and>
                (if dget d ''agent'' = JStr (claim_agent args)
                 then pc = Claimed (keep_claimed_at d r)
                   \<and> file_at fs' path = Some (Some (JObj (keep_claimed_at d r)))
                 else pc = Refusing (claim_conflict args d) \<and> fs' = fs)))))"
proof -
  note steps = claim_steps [OF assms(1, 2)]
  obtain m where n: "n = Suc (Suc (Suc (Suc (Suc m))))" by (rule that [of "n - 5"]) (use assms(5) in simp)
  note run = acquire_claim_def n replicate_Suc claim_alone.simps
  note fin = claim_alone_final [OF assms(1)]
  have fresh: "claim_alone (env # env # envs) args (Creating, fs') = (Claimed r,
      write_inode (length (inodes fs')) (JObj r) (create_file path None fs'))
      \<and> file_at (write_inode (length (inodes fs')) (JObj r) (create_file path None fs')) path = Some (Some (JObj r))"
    if "file_at fs' path = None" for fs' envs
    using that by (simp add: steps fin file_at_write)
  show ?thesis
  proof (cases "file_at fs path")
    case None
    then show ?thesis using fresh [OF None] by (simp add: run steps)
  next
    case (Some c)
    show ?thesis
    proof (cases c)
      case None
      then show ?thesis using Some by (simp add: run steps fin)
    next
      case v: (Some v)
      with Some assms(4) have "v \<noteq> JNull" by auto
      then have start: "acquire_claim (replicate n env) args fs
          = claim_alone (env # env # env # replicate m env) args (judge_claim env args r v, fs)"
        using Some v by (simp add: run steps)
      consider e where "claim_expired env v = Inl e" | "claim_expired env v = Inr True"
        | "claim_expired env v = Inr False"
        by (cases "claim_expired env v") auto
      then show ?thesis
      proof cases
        case 1
        then show ?thesis using Some v by (simp only: start) (simp add: judge_claim_def steps fin)
      next
        case 2
        have "file_at (unlink path fs) path = None" by simp
        from fresh [OF this] 2 show ?thesis
          using Some v by (simp only: start) (simp add: judge_claim_def steps)
      next
        case 3
        then obtain d where "v = JObj d" by (cases v) (auto simp: claim_expired_def)
        with 3 show ?thesis
          using Some v assms(3) by (simp only: start) (simp add: judge_claim_def steps fin)
      qed
    qed
  qed
qed
section \<open>Several agents\<close>

text \<open>
  C13. When a claim expires, two agents that both read the expired file can both end up holding the
  ticket: the second one unlinks the file by its name, which by then holds the first one's fresh
  claim.\<close>

theorem expired_claim_race:
  assumes "claim_path ticket = Inr path" "claim_ticket a = ticket" "claim_ticket b = ticket"
    and "claim_record env a = Inr ra" "claim_record env b = Inr rb" "fs_ok fs"
    and "file_at fs path = Some (Some old)" "claim_expired env old = Inr True"
  shows "\<exists>fs'. sched_run [(0, env), (0, env), (1, env), (1, env), (1, env), (1, env), (1, env), (0, env), (0, env), (0, env)]
      ([(a, Creating), (b, Creating)], fs) = ([(a, Claimed ra), (b, Claimed rb)], fs')"
proof -
  have "old \<noteq> JNull" using assms(8) by (auto simp: claim_expired_def)
  moreover have "claim_path (claim_ticket a) = Inr path" "claim_path (claim_ticket b) = Inr path"
    using assms(1-3) by simp_all
  ultimately show ?thesis
    using assms(4-8)
    by (simp add: sched_run_def sched_step_def claim_steps judge_claim_def)
qed

text \<open>
  The invariant of a ticket that nobody had claimed: the file is missing, or it belongs to one
  process that is writing its record or has claimed the ticket; everybody else is still trying.\<close>

fun waiting :: "claim_pc \<Rightarrow> bool" where
  "waiting Creating = True"
| "waiting (Reading r) = True"
| "waiting (Refusing e) = True"
| "waiting _ = False"

text \<open>Readings of the clock before \<open>h\<close>, with leases that last beyond it.\<close>

definition before_expiry :: "rat \<Rightarrow> claim_args list \<Rightarrow> nat \<times> relay_env \<Rightarrow> bool" where
  "before_expiry h as t =
     (scan_time (machine (snd t)) \<le> h
      \<and> list_all (\<lambda>a. \<not> float_le (claim_expiry (snd t) (claim_minutes a)) h) as)"

definition unexpired_by :: "rat \<Rightarrow> claim_args \<Rightarrow> dict \<Rightarrow> bool" where
  "unexpired_by h a r =
     (dget r ''agent'' = JStr (claim_agent a)
      \<and> (\<exists>f. map_of r ''expires_at_epoch'' = Some (JFloat f) \<and> \<not> float_le f h))"

definition owned :: "rat \<Rightarrow> string \<Rightarrow> claimants \<Rightarrow> claim_fs \<Rightarrow> nat \<Rightarrow> bool" where
  "owned h path ps fs k =
     (k < length ps
      \<and> (\<exists>i r. map_of (links fs) path = Some i \<and> i < length (inodes fs) \<and> unexpired_by h (fst (ps ! k)) r
           \<and> (snd (ps ! k) = Writing i r \<and> inodes fs ! i = None
              \<or> snd (ps ! k) = Claimed r \<and> inodes fs ! i = Some (JObj r)))
      \<and> (\<forall>j<length ps. j \<noteq> k \<longrightarrow> waiting (snd (ps ! j))))"

definition unowned :: "string \<Rightarrow> claimants \<Rightarrow> claim_fs \<Rightarrow> bool" where
  "unowned path ps fs = (file_at fs path = None \<and> (\<forall>j<length ps. waiting (snd (ps ! j))))"

lemma record_unexpired:
  "claim_record env a = Inr r \<Longrightarrow> \<not> float_le (claim_expiry env (claim_minutes a)) h \<Longrightarrow> unexpired_by h a r"
  by (auto simp: claim_record_def unexpired_by_def Let_def dict_simps)

lemma float_le_mono: "\<not> float_le f h \<Longrightarrow> s \<le> h \<Longrightarrow> \<not> float_le f s"
  by (cases f) auto

lemma unexpired_not_expired:
  "unexpired_by h a r \<Longrightarrow> scan_time (machine env) \<le> h \<Longrightarrow> claim_expired env (JObj r) = Inr False"
  using float_le_mono by (auto simp: unexpired_by_def claim_expired_def float_of_def)

text \<open>One call of a waiting process.\<close>

lemma waiting_free:
  assumes "claim_path (claim_ticket a) = Inr path" "waiting pc" "file_at fs path = None"
    "claim_step env a (pc, fs) = (pc', fs')"
  shows "waiting pc' \<and> fs' = fs
    \<or> (\<exists>r. claim_record env a = Inr r \<and> pc' = Writing (length (inodes fs)) r \<and> fs' = create_file path None fs)"
  using assms by (cases pc) (auto simp: claim_step_def read_claim_def split: sum.splits)

lemma waiting_taken:
  assumes "claim_path (claim_ticket a) = Inr path" "waiting pc"
    "file_at fs path = Some c" "c = None \<or> (\<exists>r. c = Some (JObj r) \<and> unexpired_by h b r)"
    "scan_time (machine env) \<le> h" "claim_agent a \<noteq> claim_agent b"
    "claim_step env a (pc, fs) = (pc', fs')"
  shows "waiting pc' \<and> fs' = fs"
proof -
  have "judge_claim env a s (JObj r) = Refusing (claim_conflict a r)" if "unexpired_by h b r" for r s
    using unexpired_not_expired [OF that assms(5)] that assms(6)
    by (simp add: judge_claim_def unexpired_by_def)
  then show ?thesis
    using assms by (cases pc) (auto simp: claim_step_def read_claim_def split: sum.splits)
qed
definition crowd :: "string \<Rightarrow> claim_args list \<Rightarrow> bool" where
  "crowd path as = (list_all (\<lambda>a. claim_path (claim_ticket a) = Inr path) as \<and> distinct (map claim_agent as))"

lemma sched_step_move:
  assumes "n < length ps"
  obtains pc' fs' where "claim_step env (fst (ps ! n)) (snd (ps ! n), fs) = (pc', fs')"
    "sched_step (n, env) (ps, fs) = (ps[n := (fst (ps ! n), pc')], fs')"
  using assms that
  by (cases "claim_step env (fst (ps ! n)) (snd (ps ! n), fs)") (simp add: sched_step_def split_beta)

lemma sched_step_args: "map fst (fst (sched_step t w)) = map fst (fst w)"
proof (cases t; cases w)
  fix n env ps fs
  assume t: "t = (n, env)" "w = (ps, fs)"
  show ?thesis
  proof (cases "n < length ps")
    case True
    then obtain pc' fs' where "sched_step (n, env) (ps, fs) = (ps[n := (fst (ps ! n), pc')], fs')"
      by (rule sched_step_move)
    moreover have "(map fst ps)[n := fst (ps ! n)] = map fst ps"
      using True by (metis list_update_id nth_map)
    ultimately show ?thesis by (simp add: t map_update)
  qed (simp add: t sched_step_def)
qed

lemma unowned_step:
  assumes "crowd path (map fst ps)" "before_expiry h (map fst ps) (n, env)" "unowned path ps fs" "n < length ps"
    "claim_step env (fst (ps ! n)) (snd (ps ! n), fs) = (pc', fs')"
  shows "unowned path (ps[n := (fst (ps ! n), pc')]) fs' \<or> owned h path (ps[n := (fst (ps ! n), pc')]) fs' n"
proof -
  let ?a = "fst (ps ! n)"
  have path: "claim_path (claim_ticket ?a) = Inr path" using assms(1, 4) by (simp add: crowd_def list_all_length)
  have w: "waiting (snd (ps ! j))" if "j < length ps" for j using assms(3) that by (simp add: unowned_def)
  from waiting_free [OF path w [OF assms(4)] _ assms(5)] assms(3)
  consider "waiting pc'" "fs' = fs"
    | r where "claim_record env ?a = Inr r" "pc' = Writing (length (inodes fs)) r" "fs' = create_file path None fs"
    by (auto simp: unowned_def)
  then show ?thesis
  proof cases
    case 1
    then show ?thesis using assms(3, 4) by (auto simp: unowned_def nth_list_update)
  next
    case 2
    have "unexpired_by h ?a r"
      using record_unexpired [OF 2(1)] assms(2, 4) by (simp add: before_expiry_def list_all_length)
    then show ?thesis using 2 w assms(4) by (auto simp: owned_def nth_list_update)
  qed
qed

lemma owned_step:
  assumes "crowd path (map fst ps)" "before_expiry h (map fst ps) (n, env)" "owned h path ps fs k" "n < length ps"
    "claim_step env (fst (ps ! n)) (snd (ps ! n), fs) = (pc', fs')"
  shows "owned h path (ps[n := (fst (ps ! n), pc')]) fs' k"
proof -
  let ?a = "fst (ps ! n)"
  have path: "claim_path (claim_ticket ?a) = Inr path" using assms(1, 4) by (simp add: crowd_def list_all_length)
  obtain i r where k: "k < length ps" "map_of (links fs) path = Some i" "i < length (inodes fs)"
    "unexpired_by h (fst (ps ! k)) r"
    "snd (ps ! k) = Writing i r \<and> inodes fs ! i = None \<or> snd (ps ! k) = Claimed r \<and> inodes fs ! i = Some (JObj r)"
    and w: "\<And>j. j < length ps \<Longrightarrow> j \<noteq> k \<Longrightarrow> waiting (snd (ps ! j))"
    using assms(3) by (auto simp: owned_def)
  show ?thesis
  proof (cases "n = k")
    case True
    from k(5) consider "snd (ps ! k) = Writing i r" "inodes fs ! i = None"
      | "snd (ps ! k) = Claimed r" "inodes fs ! i = Some (JObj r)" by auto
    then show ?thesis
    proof cases
      case 1
      then have "pc' = Claimed r" "fs' = write_inode i (JObj r) fs"
        using assms(5) path True by (simp_all add: claim_step_def)
      then show ?thesis using k w True by (auto simp: owned_def nth_list_update write_inode_def)
    next
      case 2
      then have "pc' = Claimed r" "fs' = fs" using assms(5) path True by (simp_all add: claim_step_def)
      then show ?thesis using k 2 w True by (auto simp: owned_def nth_list_update)
    qed
  next
    case False
    have "claim_agent ?a \<noteq> claim_agent (fst (ps ! k))"
      using assms(1, 4) k(1) False by (simp add: crowd_def distinct_conv_nth comp_def)
    moreover have "scan_time (machine env) \<le> h" using assms(2) by (simp add: before_expiry_def)
    ultimately have "waiting pc' \<and> fs' = fs"
      using waiting_taken [OF path w [OF assms(4) False] file_at_link [OF k(2)] _ _ _ assms(5), of h "fst (ps ! k)"]
        k(4, 5) by auto
    then show ?thesis using k w False assms(4) by (auto simp: owned_def nth_list_update)
  qed
qed

lemma sched_owned:
  assumes "crowd path (map fst (fst w))" "\<forall>t\<in>set ts. before_expiry h (map fst (fst w)) t"
    and "unowned path (fst w) (snd w) \<or> (\<exists>k. owned h path (fst w) (snd w) k)"
  shows "unowned path (fst (sched_run ts w)) (snd (sched_run ts w))
    \<or> (\<exists>k. owned h path (fst (sched_run ts w)) (snd (sched_run ts w)) k)"
  using assms
proof (induction ts arbitrary: w)
  case (Cons t ts)
  obtain n env ps fs where t: "t = (n, env)" "w = (ps, fs)" by (cases t; cases w) auto
  let ?w = "sched_step t w"
  have "unowned path (fst ?w) (snd ?w) \<or> (\<exists>k. owned h path (fst ?w) (snd ?w) k)"
  proof (cases "n < length ps")
    case True
    then obtain pc' fs' where c: "claim_step env (fst (ps ! n)) (snd (ps ! n), fs) = (pc', fs')"
      "sched_step (n, env) (ps, fs) = (ps[n := (fst (ps ! n), pc')], fs')"
      by (rule sched_step_move)
    have "crowd path (map fst ps)" "before_expiry h (map fst ps) (n, env)" using Cons.prems t by simp_all
    note step = unowned_step [OF this _ True c(1)] owned_step [OF this _ True c(1)]
    show ?thesis using Cons.prems(3) step unfolding t c(2) by auto
  next
    case False
    then show ?thesis using Cons.prems(3) by (simp add: t sched_step_def)
  qed
  moreover have "map fst (fst ?w) = map fst (fst w)" by (rule sched_step_args)
  ultimately show ?case using Cons.IH [of ?w] Cons.prems by (simp add: sched_run_def)
qed (simp add: sched_run_def)

text \<open>
  C12. The exclusive creation of the claim file keeps agents apart: if nobody had claimed a ticket
  and no claim expires while they try, then whatever the interleaving of their file-system calls,
  at most one of any number of agents ends up holding it.\<close>

theorem fresh_claim_exclusive:
  assumes "crowd path as" "file_at fs path = None" "\<forall>t\<in>set ts. before_expiry h as t"
    and "sched_run ts (map (\<lambda>a. (a, Creating)) as, fs) = (ps, fs')"
    and "j < length ps" "snd (ps ! j) = Claimed r" "k < length ps" "snd (ps ! k) = Claimed s"
  shows "j = k"
proof -
  let ?w = "(map (\<lambda>a. (a, Creating)) as, fs)"
  have "unowned path (fst ?w) (snd ?w)" using assms(2) by (simp add: unowned_def)
  moreover have "map fst (fst ?w) = as" by (simp add: comp_def)
  ultimately have "unowned path ps fs' \<or> (\<exists>k. owned h path ps fs' k)"
    using sched_owned [of path ?w ts h] assms(1, 3, 4) by simp
  then show ?thesis
    using assms(5-8) by (auto simp: unowned_def owned_def) (metis waiting.simps(7))+
qed
text \<open>A sample: two agents after the first day, and a ticket.\<close>

definition claim_env :: "rat \<Rightarrow> relay_env" where
  "claim_env t =
     \<lparr>machine = \<lparr>estate_root_var = None, hostname = ''node'', kill_zero = (\<lambda>_. Alive), scan_time = t,
        record_time = t, write_time = t, token = '''', agent_var = None, user_var = None, ppid = 1,
        gpu_count_var = None, nvidia_smi = SmiFailed, cpu_budget_var = None, cpu_count = None,
        float_add = (\<lambda>x y. Fin (x + y)), int_float = of_int, float_text = (\<lambda>_. None), py_str = (\<lambda>_. '''')\<rparr>,
      float_mul = (\<lambda>x y. Fin (x * y))\<rparr>"

definition claimant :: "string \<Rightarrow> claim_args" where
  "claimant agent = \<lparr>claim_ticket = ''T-1'', claim_agent = agent, claim_minutes = Fin 240\<rparr>"

definition no_claims :: claim_fs where
  "no_claims = \<lparr>links = [], inodes = []\<rparr>"

definition old_claim :: claim_fs where
  "old_claim = \<lparr>links = [(''T-1.json'', 0)],
     inodes = [Some (JObj [(''agent'', JStr ''carol''), (''expires_at_epoch'', JInt 100)])]\<rparr>"

lemma sample_utc: "utc (Fin 90000) = Inr ''1970-01-02T01:00:00Z''" "utc (Fin 104400) = Inr ''1970-01-02T05:00:00Z''"
  by code_simp+

lemma sample_path: "claim_path ''T-1'' = Inr ''T-1.json''"
  by code_simp

lemma sample_claim_record: "\<exists>r. claim_record (claim_env 90000) (claimant agent) = Inr r"
  by (simp add: claim_record_def claim_expiry_def claim_env_def claimant_def sample_utc)

lemma sample_fs_ok: "fs_ok no_claims" "fs_ok old_claim"
  by (simp_all add: fs_ok_def no_claims_def old_claim_def)

lemma sample_expired:
  "claim_expired (claim_env 90000) (JObj [(''agent'', JStr ''carol''), (''expires_at_epoch'', JInt 100)]) = Inr True"
  by (simp add: claim_expired_def float_of_def claim_env_def float_limit_def)

theorem claim_alone_decides_witness:
  "\<exists>r. fst (acquire_claim (replicate 5 (claim_env 90000)) (claimant ''alice'') no_claims) = Claimed r"
proof -
  obtain r where r: "claim_record (claim_env 90000) (claimant ''alice'') = Inr r"
    using sample_claim_record by blast
  have "claim_path (claim_ticket (claimant ''alice'')) = Inr ''T-1.json''" by (simp add: claimant_def sample_path)
  moreover have "file_at no_claims ''T-1.json'' = None" by (simp add: no_claims_def file_at_def)
  ultimately show ?thesis
    using claim_alone_decides [OF _ r sample_fs_ok(1), of "''T-1.json''" 5] by (auto split: prod.splits)
qed

theorem expired_claim_race_witness:
  "\<exists>ts ra rb fs'. sched_run ts ([(claimant ''alice'', Creating), (claimant ''bob'', Creating)], old_claim)
    = ([(claimant ''alice'', Claimed ra), (claimant ''bob'', Claimed rb)], fs')"
proof -
  obtain ra rb where r: "claim_record (claim_env 90000) (claimant ''alice'') = Inr ra"
    "claim_record (claim_env 90000) (claimant ''bob'') = Inr rb"
    using sample_claim_record by blast
  have t: "claim_ticket (claimant a) = ''T-1''" for a by (simp add: claimant_def)
  have f: "file_at old_claim ''T-1.json''
      = Some (Some (JObj [(''agent'', JStr ''carol''), (''expires_at_epoch'', JInt 100)]))"
    by (simp add: old_claim_def file_at_def)
  show ?thesis using expired_claim_race [OF sample_path t t r sample_fs_ok(2) f sample_expired] by blast
qed

definition two_claimants :: "claimants \<times> claim_fs" where
  "two_claimants = sched_run [(0, claim_env 90000), (1, claim_env 90000), (0, claim_env 90000), (1, claim_env 90000)]
     (map (\<lambda>a. (a, Creating)) [claimant ''alice'', claimant ''bob''], no_claims)"

theorem fresh_claim_exclusive_witness:
  "\<not> (\<exists>r s. map snd (fst two_claimants) = [Claimed r, Claimed s])"
proof
  assume "\<exists>r s. map snd (fst two_claimants) = [Claimed r, Claimed s]"
  then obtain r s where rs: "map snd (fst two_claimants) = [Claimed r, Claimed s]" by (elim exE)
  obtain ps fs' where w: "two_claimants = (ps, fs')" by (cases two_claimants)
  have m: "map snd ps = [Claimed r, Claimed s]" using rs unfolding w fst_conv .
  then have "length (map snd ps) = 2" by simp
  then have "length ps = 2" by simp
  then have ps: "0 < length ps" "snd (ps ! 0) = Claimed r" "1 < length ps" "snd (ps ! 1) = Claimed s"
    using m by (auto simp: map_eq_Cons_conv)
  have "crowd ''T-1.json'' [claimant ''alice'', claimant ''bob'']"
    by (simp add: crowd_def claimant_def sample_path)
  moreover have "file_at no_claims ''T-1.json'' = None" by (simp add: no_claims_def file_at_def)
  moreover have "\<forall>t\<in>set [(0, claim_env 90000), (1, claim_env 90000), (0, claim_env 90000), (1, claim_env 90000)].
      before_expiry 90000 [claimant ''alice'', claimant ''bob''] t"
    by (simp add: before_expiry_def claim_env_def claim_expiry_def claimant_def)
  ultimately have "(0::nat) = 1"
    by (rule fresh_claim_exclusive [OF _ _ _ w [unfolded two_claimants_def] ps])
  then show False by simp
qed

text \<open>
  A claim file that holds the JSON value \<^verbatim>\<open>null\<close> is read as a missing file, while the exclusive
  creation finds it: an agent that claims such a ticket loops for ever.\<close>

theorem null_claim_never_ends:
  assumes "claim_path (claim_ticket args) = Inr path" "claim_record env args = Inr r"
    and "file_at fs path = Some (Some JNull)"
  shows "fst (acquire_claim (replicate n env) args fs) \<in> {Creating, Reading r}"
proof -
  have "claim_alone (replicate n env) args (pc, fs) \<in> {(Creating, fs), (Reading r, fs)}"
    if "pc \<in> {Creating, Reading r}" for pc
    using that
  proof (induction n arbitrary: pc)
    case (Suc n)
    then obtain pc' where "pc' \<in> {Creating, Reading r}" "claim_step env args (pc, fs) = (pc', fs)"
      by (auto simp: claim_steps [OF assms(1, 2)] assms(3))
    with Suc.IH [of pc'] show ?case by simp
  qed auto
  from this [of Creating] show ?thesis by (auto simp: acquire_claim_def)
qed

theorem null_claim_never_ends_witness:
  "\<exists>r. fst (acquire_claim (replicate 1000 (claim_env 90000)) (claimant ''alice'')
      \<lparr>links = [(''T-1.json'', 0)], inodes = [Some JNull]\<rparr>) \<in> {Creating, Reading r}"
proof -
  obtain r where r: "claim_record (claim_env 90000) (claimant ''alice'') = Inr r"
    using sample_claim_record by blast
  have "claim_path (claim_ticket (claimant ''alice'')) = Inr ''T-1.json''" by (simp add: claimant_def sample_path)
  moreover have "file_at \<lparr>links = [(''T-1.json'', 0)], inodes = [Some JNull]\<rparr> ''T-1.json'' = Some (Some JNull)"
    by (simp add: file_at_def)
  ultimately show ?thesis using null_claim_never_ends [OF _ r] by blast
qed

section \<open>Heartbeat and release\<close>

text \<open>
  Heartbeat and release touch a live claim only for its holder; but the heartbeat of any agent
  on an expired claim succeeds and makes that agent the holder, with the claim time of the old
  one.\<close>

theorem heartbeat_takes_expired:
  assumes "claim_path (claim_ticket args) = Inr path" "claim_record env args = Inr r" "fs_ok fs"
    and "file_at fs path = Some (Some (JObj d))"
  shows "(claim_expired env (JObj d) = Inr False \<and> dget d ''agent'' \<noteq> JStr (claim_agent args)
      \<longrightarrow> refresh_claim env args fs = Inl (owned_by_other args d) \<and> release_claim env args fs = Inl (owned_by_other args d))
    \<and> (claim_expired env (JObj d) = Inr True
      \<longrightarrow> (\<exists>r' fs'. refresh_claim env args fs = Inr (r', fs') \<and> file_at fs' path = Some (Some (JObj r'))
            \<and> dget r' ''agent'' = JStr (claim_agent args)
            \<and> dget r' ''claimed_at'' = field_or d ''claimed_at'' (dget r ''claimed_at'')))"
proof -
  have agent: "dget r ''agent'' = JStr (claim_agent args)"
    using assms(2) by (auto simp: claim_record_def Let_def dict_simps)
  have read: "read_claim fs path = Inr (Some (JObj d))" using assms(4) by (simp add: read_claim_def)
  show ?thesis
    using assms agent
    by (auto simp: refresh_claim_def release_claim_def read may_change_def keep_claimed_at_def Let_def)
qed

theorem heartbeat_takes_expired_witness:
  "\<exists>r' fs'. refresh_claim (claim_env 90000) (claimant ''bob'') old_claim = Inr (r', fs')
    \<and> dget r' ''agent'' = JStr ''bob''"
proof -
  obtain r where r: "claim_record (claim_env 90000) (claimant ''bob'') = Inr r"
    using sample_claim_record by blast
  have p: "claim_path (claim_ticket (claimant ''bob'')) = Inr ''T-1.json''" by (simp add: claimant_def sample_path)
  have f: "file_at old_claim ''T-1.json''
      = Some (Some (JObj [(''agent'', JStr ''carol''), (''expires_at_epoch'', JInt 100)]))"
    by (simp add: old_claim_def file_at_def)
  from heartbeat_takes_expired [OF p r sample_fs_ok(2) f] sample_expired show ?thesis
    by (auto simp: claimant_def)
qed

end
