(* ===== verification/RelayGate.thy ===== *)
theory RelayGate
  imports Lease PosixPath
begin

text \<open>
  \<^verbatim>\<open>tools/agents/relay.py\<close>, the gates in front of a landing: the record of verified commits, the CI
  summaries, the live resource leases and the running gate processes.

  What git, \<^verbatim>\<open>pgrep\<close> and \<^verbatim>\<open>/proc\<close> answer are arguments; \<open>py_str\<close> is \<^verbatim>\<open>str()\<close> of a value that is
  not a string.
\<close>

section \<open>Verified commits\<close>

text \<open>A JSON file: absent, not JSON, or a value.\<close>

type_synonym json_file = "json option option"

definition read_verify_records :: "string \<Rightarrow> json_file \<Rightarrow> json res" where
  "read_verify_records path f =
     (case f of
        None \<Rightarrow> Inr (JObj [])
      | Some None \<Rightarrow> Inl (RelayError ''{} is not valid JSON: {}'' [JStr path])
      | Some (Some v) \<Rightarrow> Inr v)"

definition record_verify_pass :: "string \<Rightarrow> string \<Rightarrow> json_file \<Rightarrow> json_file res" where
  \<comment> \<open>\<^verbatim>\<open>records[sha] = "PASSED"\<close>, and the file is replaced\<close>
  "record_verify_pass path sha f =
     bindE (read_verify_records path f) (\<lambda>records.
     case records of
       JObj d \<Rightarrow> Inr (Some (Some (JObj (dput sha (JStr ''PASSED'') d))))
     | _ \<Rightarrow> Inl TypeError)"

definition verify_pass_recorded :: "string \<Rightarrow> string \<Rightarrow> json_file \<Rightarrow> bool res" where
  "verify_pass_recorded path sha f =
     bindE (read_verify_records path f) (\<lambda>records.
     case records of
       JObj d \<Rightarrow>
         Inr (dget d sha = JStr ''PASSED''
              \<or> (case dget d sha of JObj e \<Rightarrow> dget e ''status'' = JStr ''PASSED'' | _ \<Rightarrow> False))
     | _ \<Rightarrow> Inl AttributeError)"

section \<open>CI summaries\<close>

definition REQUIRED_FAST_GATES :: "(string \<times> string) list" where
  "REQUIRED_FAST_GATES =
     [(''torch'', ''cu129''), (''torch'', ''cu130''), (''jax'', ''cu129''), (''jax'', ''cu130'')]"

definition str_or_empty :: "(json \<Rightarrow> string) \<Rightarrow> json \<Rightarrow> string" where
  \<comment> \<open>\<^verbatim>\<open>str(v or "")\<close>\<close>
  "str_or_empty str v = (if \<not> truthy v then [] else case v of JStr s \<Rightarrow> s | _ \<Rightarrow> str v)"

definition lower_char :: "char \<Rightarrow> char" where
  "lower_char c = (let n = (of_char c :: nat) in
     if (65 \<le> n \<and> n \<le> 90) \<or> (192 \<le> n \<and> n \<le> 222 \<and> n \<noteq> 215) then char_of (n + 32) else c)"

definition lower :: "string \<Rightarrow> string" where
  "lower s = map lower_char s"

definition gate_verdict ::
  "(json \<Rightarrow> string) \<Rightarrow> ((string \<times> string) \<times> string) list \<Rightarrow> json \<Rightarrow> ((string \<times> string) \<times> string) list" where
  "gate_verdict str verdicts stage =
     (case stage of
        JObj d \<Rightarrow>
          if dget d ''kind'' \<noteq> JStr ''gate'' then verdicts
          else
            let key = (str_or_empty str (dget d ''profile''), str_or_empty str (dget d ''line'')) in
            if key \<in> set REQUIRED_FAST_GATES
            then AList.update key (lower (str_or_empty str (dget d ''verdict''))) verdicts
            else verdicts
      | _ \<Rightarrow> verdicts)"

definition summary_has_required_fast_gates :: "(json \<Rightarrow> string) \<Rightarrow> dict \<Rightarrow> string \<Rightarrow> bool" where
  "summary_has_required_fast_gates str summary sha =
     (if dget summary ''commit'' \<noteq> JStr sha then False
      else (case (case map_of summary ''stages'' of None \<Rightarrow> JList [] | Some v \<Rightarrow> v) of
              JList stages \<Rightarrow>
                let verdicts = foldl (gate_verdict str) [] stages in
                list_all (\<lambda>key. map_of verdicts key = Some ''passed'') REQUIRED_FAST_GATES
            | _ \<Rightarrow> False))"

definition no_gate_allowed_path :: "string \<Rightarrow> bool" where
  "no_gate_allowed_path path =
     (let rel = dropWhile (\<lambda>c. c = CHR ''/'') path in
      endswith rel ''.md''
      \<or> startswith rel ''.scratch/''
      \<or> startswith rel ''docs/''
      \<or> ((startswith rel ''harness/'' \<or> startswith rel ''scripts/'' \<or> startswith rel ''insula/execution/''
           \<or> startswith rel ''tools/'') \<and> endswith rel ''_test.py'')
      \<or> startswith rel ''tools/agents/''
      \<or> startswith rel ''tools/publish/'')"

text \<open>What \<^verbatim>\<open>git\<close> says of two commits: \<^verbatim>\<open>merge-base --is-ancestor\<close> and the names of the diff.\<close>

record git_view =
  ancestor :: "string \<Rightarrow> string \<Rightarrow> bool"
  diff_names :: "string \<Rightarrow> string \<Rightarrow> string"

definition diff_is_no_gate_allowlisted :: "git_view \<Rightarrow> string \<Rightarrow> string \<Rightarrow> bool" where
  "diff_is_no_gate_allowlisted git base landing =
     (let paths = filter (\<lambda>p. p \<noteq> []) (splitlines False (diff_names git base landing)) in
      paths \<noteq> [] \<and> list_all no_gate_allowed_path paths)"

text \<open>The loop over the summaries: \<open>Inl\<close> the early return, else the green commits.\<close>

fun green_commits :: "(json \<Rightarrow> string) \<Rightarrow> string \<Rightarrow> dict option list \<Rightarrow> unit + string list" where
  "green_commits str landing [] = Inr []"
| "green_commits str landing (None # rest) = green_commits str landing rest"
| "green_commits str landing (Some summary # rest) =
     (case dget summary ''commit'' of
        JStr sha \<Rightarrow>
          if \<not> summary_has_required_fast_gates str summary sha then green_commits str landing rest
          else if sha = landing then Inl ()
          else map_sum id (\<lambda>shas. sha # shas) (green_commits str landing rest)
      | _ \<Rightarrow> green_commits str landing rest)"

definition ci_gate_green_for_landing ::
  "(json \<Rightarrow> string) \<Rightarrow> git_view \<Rightarrow> dict option list \<Rightarrow> string \<Rightarrow> string \<Rightarrow> bool" where
  "ci_gate_green_for_landing str git summaries target landing =
     (case green_commits str landing summaries of
        Inl u \<Rightarrow> True
      | Inr shas \<Rightarrow>
          list_ex (\<lambda>sha. ancestor git sha target \<and> ancestor git sha landing
                         \<and> diff_is_no_gate_allowlisted git sha landing) shas)"

section \<open>Live resource leases\<close>

definition relay_lease_active :: "env \<Rightarrow> dict \<Rightarrow> bool res" where
  "relay_lease_active env l =
     (let expiry = float_of env (case map_of l ''expiry_time'' of None \<Rightarrow> JInt 0 | Some v \<Rightarrow> v);
          pid = int_of (case map_of l ''pid'' of None \<Rightarrow> JInt 0 | Some v \<Rightarrow> v)
      in case bindE expiry (\<lambda>e. bindE pid (\<lambda>p. Inr (e, p))) of
           Inl TypeError \<Rightarrow> Inr False
         | Inl (ValueError m a) \<Rightarrow> Inr False
         | Inl e \<Rightarrow> Inl e
         | Inr (e, p) \<Rightarrow>
             if float_le e (scan_time env) then Inr False
             else pid_alive env p (host_of env l))"

definition lease_reason :: "string \<Rightarrow> dict \<Rightarrow> message" where
  "lease_reason resource l =
     (''lease {} id={} holder={} expires={}'',
      [JStr resource, (case map_of l ''id'' of None \<Rightarrow> JStr ''?'' | Some v \<Rightarrow> v),
       (case map_of l ''holder'' of None \<Rightarrow> JStr ''?'' | Some v \<Rightarrow> v),
       (case map_of l ''expires_at'' of None \<Rightarrow> JStr ''?'' | Some v \<Rightarrow> v)])"

definition lease_entry :: "env \<Rightarrow> string \<Rightarrow> json \<Rightarrow> message list res" where
  "lease_entry env resource lease =
     (case lease of
        JObj l \<Rightarrow>
          bindE (relay_lease_active env l) (\<lambda>a. Inr (if a then [lease_reason resource l] else []))
      | _ \<Rightarrow> Inr [])"

definition file_leases :: "env \<Rightarrow> string \<times> json option \<Rightarrow> message list res" where
  "file_leases env file =
     (case file of
        (name, None) \<Rightarrow> Inr []
      | (name, Some (JObj state)) \<Rightarrow>
          let resource = (case str_or_empty (py_str env) (dget state ''resource'') of
                            [] \<Rightarrow> stem_of name | c # cs \<Rightarrow> c # cs) in
          (case (case map_of state ''leases'' of None \<Rightarrow> JList [] | Some v \<Rightarrow> v) of
             JList leases \<Rightarrow> concatE (lease_entry env resource) leases
           | _ \<Rightarrow> Inr [])
      | (name, Some _) \<Rightarrow> Inl AttributeError)"

definition active_resource_leases :: "env \<Rightarrow> store option \<Rightarrow> message list res" where
  \<comment> \<open>\<open>None\<close>: there is no lease directory\<close>
  "active_resource_leases env store =
     (case store of
        None \<Rightarrow> Inr []
      | Some files \<Rightarrow> concatE (file_leases env) (sort_key (\<lambda>file. fst file @ ''.json'') files))"

section \<open>Running gates\<close>

record process_info =
  info_pid :: int
  info_ppid :: int
  info_argv :: "string list"
  info_cwd :: "ppath option"

text \<open>What \<^verbatim>\<open>/proc\<close> says of the readable processes.\<close>

type_synonym proc_table = "(int \<times> process_info) list"

definition GATE_SCRIPT_NAMES :: "string list" where
  "GATE_SCRIPT_NAMES = [''triumvirate-gate.sh'', ''triumvirate-gate-insula.sh'']"

definition IGNORED_GATE_PROCESS_NAMES :: "string list" where
  "IGNORED_GATE_PROCESS_NAMES =
     [''pgrep'', ''grep'', ''egrep'', ''fgrep'', ''rg'', ''vi'', ''vim'', ''nvim'', ''emacs'', ''nano'',
      ''code'', ''code-insiders'', ''subl'', ''zed'', ''hx'']"

definition SHELL_INTERPRETERS :: "string list" where
  "SHELL_INTERPRETERS = [''bash'', ''sh'', ''dash'', ''zsh'']"

definition process_basename :: "string \<Rightarrow> string" where
  \<comment> \<open>\<^verbatim>\<open>Path(value).name\<close>\<close>
  "process_basename value = final_name (parse value)"

definition digits1 :: "string \<Rightarrow> bool" where
  "digits1 s = (s \<noteq> [] \<and> list_all is_digit s)"

definition is_python_interpreter :: "string \<Rightarrow> bool" where
  \<comment> \<open>\<^verbatim>\<open>python(?:\d+(?:\.\d+)?)?\<close>\<close>
  "is_python_interpreter name =
     (startswith name ''python'' \<and>
      (let rest = drop 6 name in
       rest = [] \<or>
       (case split_on (CHR ''.'') rest of
          [a] \<Rightarrow> digits1 a
        | [a, b] \<Rightarrow> digits1 a \<and> digits1 b
        | _ \<Rightarrow> False)))"

definition is_gate_interpreter :: "string \<Rightarrow> bool" where
  "is_gate_interpreter name =
     (process_basename name \<in> set SHELL_INTERPRETERS \<or> is_python_interpreter (process_basename name))"

definition is_gate_script_arg :: "string \<Rightarrow> bool" where
  "is_gate_script_arg value = (process_basename value \<in> set GATE_SCRIPT_NAMES)"

definition real_gate_script_arg :: "process_info \<Rightarrow> string option" where
  "real_gate_script_arg info =
     (case info_argv info of
        [] \<Rightarrow> None
      | a # rest \<Rightarrow>
          if process_basename a \<in> set IGNORED_GATE_PROCESS_NAMES then None
          else if is_gate_script_arg a then Some a
          else (case rest of
                  b # _ \<Rightarrow> if is_gate_interpreter a \<and> is_gate_script_arg b then Some b else None
                | [] \<Rightarrow> None))"

text \<open>The loop up the parents stops at an unreadable process, at 0, or at one already seen.\<close>

function ancestor_chain :: "proc_table \<Rightarrow> int \<Rightarrow> int list \<Rightarrow> int list" where
  "ancestor_chain procs current seen =
     (case map_of procs current of
        None \<Rightarrow> []
      | Some info \<Rightarrow>
          if info_ppid info \<le> 0 \<or> info_ppid info \<in> set seen then []
          else info_ppid info # ancestor_chain procs (info_ppid info) (info_ppid info # seen))"
  by pat_completeness auto

termination
proof (relation "measure (\<lambda>(procs, current, seen).
    2 * card (fst ` set procs - set seen) + (if current \<in> fst ` set procs then 1 else 0))")
  fix procs :: proc_table and current seen and info :: process_info
  assume m: "map_of procs current = Some info"
    and n: "\<not> (info_ppid info \<le> 0 \<or> info_ppid info \<in> set seen)"
  let ?K = "fst ` set procs" and ?p = "info_ppid info"
  have cur: "current \<in> ?K" using m by (metis fst_conv image_eqI map_of_SomeD)
  have "2 * card (?K - set (?p # seen)) + (if ?p \<in> ?K then 1 else 0) < 2 * card (?K - set seen) + 1"
  proof (cases "?p \<in> ?K")
    case True
    then have "?K - set (?p # seen) \<subset> ?K - set seen" using n by auto
    then have "card (?K - set (?p # seen)) < card (?K - set seen)" by (intro psubset_card_mono) auto
    then show ?thesis using True by simp
  next
    case False
    then have "?K - set (?p # seen) = ?K - set seen" by auto
    then show ?thesis using False by simp
  qed
  then show "((procs, ?p, ?p # seen), (procs, current, seen)) \<in> measure (\<lambda>(procs, current, seen).
    2 * card (fst ` set procs - set seen) + (if current \<in> fst ` set procs then 1 else 0))"
    using cur by simp
qed simp

declare ancestor_chain.simps [simp del]

definition process_ancestor_chain :: "proc_table \<Rightarrow> int \<Rightarrow> int list" where
  "process_ancestor_chain procs pid = ancestor_chain procs pid [pid]"

definition process_is_current_family :: "proc_table \<Rightarrow> process_info \<Rightarrow> int \<Rightarrow> int list \<Rightarrow> bool" where
  "process_is_current_family procs info current_pid current_ancestors =
     (info_pid info = current_pid \<or> info_pid info \<in> set current_ancestors
      \<or> current_pid \<in> set (process_ancestor_chain procs (info_pid info)))"

text \<open>\<^verbatim>\<open>pgrep -af triumvirate-gate\<close>: exit code and output, or \<open>None\<close> when it cannot run.\<close>

definition candidate_gate_pids :: "(int \<times> string) option \<Rightarrow> int list" where
  "candidate_gate_pids pgrep =
     (case pgrep of
        None \<Rightarrow> []
      | Some (code, out) \<Rightarrow>
          if code \<noteq> 0 \<and> code \<noteq> 1 then []
          else List.map_filter (\<lambda>line. if strip line = [] then None
                                   else py_int (hd (split_on (CHR '' '') line)))
                 (splitlines False out))"

definition path_is_within :: "(ppath \<Rightarrow> ppath res) \<Rightarrow> ppath \<Rightarrow> ppath \<Rightarrow> bool" where
  "path_is_within resolve path dir =
     (case (resolve path, resolve dir) of
        (Inr p, Inr d) \<Rightarrow> relative_to p d
      | _ \<Rightarrow> False)"

definition process_in_repo :: "(ppath \<Rightarrow> ppath res) \<Rightarrow> process_info \<Rightarrow> string \<Rightarrow> ppath \<Rightarrow> bool" where
  "process_in_repo resolve info script_arg repo =
     ((case info_cwd info of Some cwd \<Rightarrow> path_is_within resolve cwd repo | None \<Rightarrow> False)
      \<or> (absolute (parse script_arg) \<and> path_is_within resolve (parse script_arg) repo))"

definition process_reason :: "process_info \<Rightarrow> string \<Rightarrow> message" where
  "process_reason info script_arg =
     (''process pid={} {} {}'',
      [JInt (info_pid info), JStr (process_basename script_arg),
       JStr (take 180 (join '' '' (info_argv info)))])"

definition gate_process ::
  "(ppath \<Rightarrow> ppath res) \<Rightarrow> proc_table \<Rightarrow> ppath \<Rightarrow> int \<Rightarrow> int list \<Rightarrow> int \<Rightarrow> message list" where
  "gate_process resolve procs repo current_pid current_ancestors pid =
     (case map_of procs pid of
        None \<Rightarrow> []
      | Some info \<Rightarrow>
          if process_is_current_family procs info current_pid current_ancestors then []
          else (case real_gate_script_arg info of
                  None \<Rightarrow> []
                | Some arg \<Rightarrow> if process_in_repo resolve info arg repo then [process_reason info arg] else []))"

definition live_triumvirate_gate_processes ::
  "(ppath \<Rightarrow> ppath res) \<Rightarrow> proc_table \<Rightarrow> (int \<times> string) option \<Rightarrow> int \<Rightarrow> ppath \<Rightarrow> message list" where
  "live_triumvirate_gate_processes resolve procs pgrep current_pid repo =
     concat (map (gate_process resolve procs repo current_pid (process_ancestor_chain procs current_pid))
       (candidate_gate_pids pgrep))"

text \<open>
  What a command sees of the machine: the estate root is \<open>None\<close> when neither an argument nor the
  environment names one.
\<close>

record gate_host =
  lease_env :: env
  lease_dir :: "store option option"
  real_path :: "ppath \<Rightarrow> ppath res"
  processes :: proc_table
  pgrep :: "(int \<times> string) option"
  own_pid :: int
  checkout :: ppath

definition live_gate_reasons :: "gate_host \<Rightarrow> message list res" where
  "live_gate_reasons host =
     bindE (case lease_dir host of
              None \<Rightarrow> Inr []
            | Some store \<Rightarrow> active_resource_leases (lease_env host) store) (\<lambda>leases.
     Inr (leases
          @ live_triumvirate_gate_processes (real_path host) (processes host) (pgrep host) (own_pid host) (checkout host)))"

end
