(* ===== verification/RelayLand.thy ===== *)
theory RelayLand
  imports RelayGate Effects "HOL-Library.Multiset"
begin

text \<open>
  \<^verbatim>\<open>tools/agents/relay.py\<close>, the commands that move branches: \<^verbatim>\<open>manifest\<close>, \<^verbatim>\<open>land\<close>, \<^verbatim>\<open>autoland-step\<close> and
  \<^verbatim>\<open>rebase\<close>. The world is a checkout with its repository. \<open>git_query\<close> answers a git command that
  only reads and \<open>git_change\<close> performs one that writes, both with the exit code, the standard
  output and the standard error of the given arguments; the other fields are the file operations
  and the verify command. Printed lines are not modelled. A sorted list of entries is compared as
  a multiset.
\<close>

section \<open>A checkout\<close>

type_synonym git_answer = "int \<times> string \<times> string"

record 'w land_os =
  git_query :: "'w \<Rightarrow> string list \<Rightarrow> git_answer"
  git_change :: "string list \<Rightarrow> 'w \<Rightarrow> git_answer \<times> 'w"
  file_sha :: "'w \<Rightarrow> string \<Rightarrow> string option"
    \<comment> \<open>\<open>None\<close>: not a file\<close>
  unlink_file :: "string \<Rightarrow> 'w \<Rightarrow> 'w"
  dir_here :: "'w \<Rightarrow> string \<Rightarrow> bool"
  premerge_exists :: "'w \<Rightarrow> bool"
  move_to_premerge :: "string \<Rightarrow> 'w \<Rightarrow> 'w"
  premerge_same :: "'w \<Rightarrow> string \<Rightarrow> bool"
    \<comment> \<open>\<^verbatim>\<open>tree_digest(premerge) == tree_digest(repo / tracker_rel)\<close>\<close>
  remove_premerge :: "'w \<Rightarrow> 'w"
  shell :: "string \<Rightarrow> 'w \<Rightarrow> int \<times> 'w"
  gate_view :: "'w \<Rightarrow> gate_host"
  io_target :: ppath
    \<comment> \<open>the nearest existing directory above the resolved \<^verbatim>\<open>args.io_root\<close>\<close>
  mounts_text :: "string option"
    \<comment> \<open>\<^verbatim>\<open>/proc/mounts\<close>, when it can be read\<close>
  record_pass :: "string \<Rightarrow> 'w \<Rightarrow> unit res \<times> 'w"
    \<comment> \<open>\<^verbatim>\<open>record_verify_pass\<close> of a commit in the file of the agent\<close>

record land_args =
  land_landing :: "string option"
  land_manifest :: "dict option"
  land_tracker :: "string option"
  land_ignore :: "string list"
  land_verify :: "string option"
  land_agent :: "string option"
  land_io_root :: "string option"
  land_dry_run :: bool
  land_allow_dirty :: bool
  land_force :: "string option"
  land_require :: "string list"

definition git_failed :: "string list \<Rightarrow> git_answer \<Rightarrow> pyexn" where
  "git_failed args a =
     (case a of (code, out, err) \<Rightarrow>
        RelayError ''git {} failed: {}''
          [JStr (join '' '' args), JStr (if strip err \<noteq> [] then strip err else strip out)])"

definition git_text :: "'w land_os \<Rightarrow> 'w \<Rightarrow> string list \<Rightarrow> string res" where
  "git_text os w args =
     (let a = git_query os w args in if fst a \<noteq> 0 then Inl (git_failed args a) else Inr (strip (fst (snd a))))"

definition git_text_unchecked :: "'w land_os \<Rightarrow> 'w \<Rightarrow> string list \<Rightarrow> string" where
  "git_text_unchecked os w args = strip (fst (snd (git_query os w args)))"

definition git_run :: "'w land_os \<Rightarrow> string list \<Rightarrow> ('w, unit) act" where
  "git_run os args w =
     (case git_change os args w of (a, w') \<Rightarrow>
        (if fst a \<noteq> 0 then Inl (git_failed args a) else Inr (), w'))"

definition is_ancestor :: "'w land_os \<Rightarrow> 'w \<Rightarrow> string \<Rightarrow> string \<Rightarrow> bool" where
  "is_ancestor os w a b = (fst (git_query os w [''merge-base'', ''--is-ancestor'', a, b]) = 0)"

definition path_in_ref :: "'w land_os \<Rightarrow> 'w \<Rightarrow> string \<Rightarrow> string \<Rightarrow> bool" where
  "path_in_ref os w ref path = (fst (git_query os w [''cat-file'', ''-e'', ref @ '':'' @ path]) = 0)"

section \<open>Dirty entries\<close>

text \<open>The records of \<^verbatim>\<open>git status --porcelain=v1 -z\<close>; a rename is followed by its source.\<close>

fun status_entries :: "string list \<Rightarrow> (string \<times> string) list" where
  "status_entries [] = []"
| "status_entries (r # rs) =
     (if r = [] then []
      else (take 2 r, drop 3 r)
           # (if hd r = CHR ''R'' \<or> hd r = CHR ''C'' then status_entries (drop 1 rs) else status_entries rs))"

definition dirty_entries :: "'w land_os \<Rightarrow> 'w \<Rightarrow> (string \<times> string) list res" where
  "dirty_entries os w =
     (case git_query os w [''status'', ''--porcelain=v1'', ''-z'', ''--untracked-files=all''] of
        (code, out, err) \<Rightarrow>
          if code \<noteq> 0 then Inl (RelayError ''git status failed: {}'' [JStr (strip err)])
          else Inr (status_entries (split_on (char_of (0::nat)) out)))"

definition below_dir :: "string \<Rightarrow> string \<Rightarrow> bool" where
  \<comment> \<open>\<^verbatim>\<open>path.startswith(d.rstrip("/") + "/")\<close>\<close>
  "below_dir path d = startswith path (rstrip_char (CHR ''/'') d @ ''/'')"

definition path_overlaps :: "string \<Rightarrow> string list \<Rightarrow> bool" where
  "path_overlaps path candidates =
     (let p = rstrip_char (CHR ''/'') path in
      list_ex (\<lambda>c. p = c \<or> below_dir p c \<or> startswith c (p @ ''/'')) candidates)"

section \<open>The manifest\<close>

definition manifest_entry :: "'w land_os \<Rightarrow> 'w \<Rightarrow> string \<times> string \<Rightarrow> dict" where
  "manifest_entry os w e =
     [(''path'', JStr (snd e)), (''status'', JStr (fst e)),
      (''sha256'', (case file_sha os w (snd e) of Some s \<Rightarrow> JStr s | None \<Rightarrow> JNull))]"

definition cmd_manifest ::
  "'w land_os \<Rightarrow> string \<Rightarrow> string \<Rightarrow> string list \<Rightarrow> string list \<Rightarrow> 'w \<Rightarrow> dict res" where
  \<comment> \<open>the manifest that is written; the order of the sorted \<^verbatim>\<open>ignore\<close> list is immaterial\<close>
  "cmd_manifest os landing tracker superseded ignore w =
     bindE (dirty_entries os w) (\<lambda>dirty.
     let kept = filter (\<lambda>(status, path).
           \<not> (below_dir path tracker \<or> path \<in> set ignore)
           \<and> list_ex (\<lambda>p. path = p \<or> below_dir path p) superseded) dirty;
         missing = filter (\<lambda>p. \<not> list_ex (\<lambda>(status, path). path = p \<or> below_dir path p) kept) superseded
     in if missing \<noteq> []
        then Inl (RelayError ''superseded paths are not dirty in the follower checkout: {}'' (map JStr missing))
        else Inr [(''landing_branch'', JStr landing),
                  (''superseded'', JList (map (\<lambda>e. JObj (manifest_entry os w e)) kept)),
                  (''ignore'', JList (map JStr (sort ignore)))])"

definition manifest_list :: "dict \<Rightarrow> string \<Rightarrow> json list res" where
  "manifest_list manifest k =
     (case map_of manifest k of None \<Rightarrow> Inr [] | Some (JList xs) \<Rightarrow> Inr xs | Some _ \<Rightarrow> Inl TypeError)"

definition superseded_map :: "dict \<Rightarrow> (string \<times> dict) list res" where
  \<comment> \<open>\<^verbatim>\<open>{entry["path"]: entry for entry in ...}\<close>: a later entry replaces an earlier one\<close>
  "superseded_map manifest =
     bindE (manifest_list manifest ''superseded'') (\<lambda>xs.
     bindE (mapE (\<lambda>x. case x of
               JObj e \<Rightarrow> bindE (ditem e ''path'') (\<lambda>p. case p of JStr s \<Rightarrow> Inr (s, e) | _ \<Rightarrow> Inl TypeError)
             | _ \<Rightarrow> Inl TypeError) xs) (\<lambda>entries.
     Inr (foldl (\<lambda>m (p, e). AList.update p e m) [] entries)))"

definition ignored_paths :: "dict \<Rightarrow> string list \<Rightarrow> string list res" where
  "ignored_paths manifest extra =
     bindE (manifest_list manifest ''ignore'') (\<lambda>xs.
     bindE (mapE (\<lambda>x. case x of JStr s \<Rightarrow> Inr s | _ \<Rightarrow> Inl AttributeError) xs) (\<lambda>ss. Inr (ss @ extra)))"

section \<open>Judging the working tree\<close>

definition is_ignored :: "string list \<Rightarrow> string \<Rightarrow> bool" where
  "is_ignored ignore path = (path \<in> set ignore \<or> list_ex (\<lambda>i. below_dir path i) ignore)"

definition is_tracker_copy :: "string option \<Rightarrow> string \<times> string \<Rightarrow> bool" where
  "is_tracker_copy tracker e =
     (case tracker of
        Some (c # cs) \<Rightarrow> fst e = ''??'' \<and> startswith (snd e) ((c # cs) @ ''/'')
      | _ \<Rightarrow> False)"

datatype verdict = Fine | KeptDirty | Unexpected message

record land_facts =
  facts_superseded :: "(string \<times> dict) list"
  facts_ignore :: "string list"
  facts_tracker :: "string option"
  facts_landing_paths :: "string list"
  facts_diff_paths :: "string list"

definition recorded_sha :: "'w land_os \<Rightarrow> 'w \<Rightarrow> string \<Rightarrow> json" where
  "recorded_sha os w path = (case file_sha os w path of Some s \<Rightarrow> JStr s | None \<Rightarrow> JNull)"

definition judge_entry ::
  "'w land_os \<Rightarrow> 'w \<Rightarrow> land_args \<Rightarrow> land_facts \<Rightarrow> string \<times> string \<Rightarrow> verdict res" where
  "judge_entry os w args facts e =
     (case e of (status, path) \<Rightarrow>
        if is_ignored (facts_ignore facts) path then Inr Fine
        else if is_tracker_copy (facts_tracker facts) e then Inr Fine
        else (case map_of (facts_superseded facts) path of
          None \<Rightarrow>
            if land_allow_dirty args then
              (if status = ''??'' then
                 (if \<not> path_overlaps path (facts_diff_paths facts) then Inr Fine
                  else Inr (Unexpected (''{} {} (the landing branch creates this path)'', [JStr status, JStr path])))
               else if \<not> path_overlaps path (facts_diff_paths facts) then Inr KeptDirty
               else Inr (Unexpected (''{} {} (overlaps the landing diff)'', [JStr status, JStr path])))
            else if status = ''??'' \<and> path \<notin> set (facts_landing_paths facts) then Inr Fine
            else Inr (Unexpected ((if status = ''??'' then ''{} {} (the landing branch creates this path)'' else ''{} {}''),
                       [JStr status, JStr path]))
        | Some entry \<Rightarrow>
            bindE (ditem entry ''sha256'') (\<lambda>sha.
            if recorded_sha os w path \<noteq> sha
            then Inr (Unexpected (''{} {} (content changed since the manifest was recorded)'', [JStr status, JStr path]))
            else Inr Fine)))"

definition unexpected_of :: "verdict list \<Rightarrow> message list" where
  "unexpected_of vs = List.map_filter (\<lambda>v. case v of Unexpected m \<Rightarrow> Some m | _ \<Rightarrow> None) vs"

section \<open>Landing\<close>

record land_plan =
  plan_landing :: string
  plan_superseded :: "(string \<times> dict) list"
  plan_tracker :: "string option"

definition landing_of :: "land_args \<Rightarrow> dict \<Rightarrow> string res" where
  "landing_of args manifest =
     (case land_landing args of
        Some (c # cs) \<Rightarrow> Inr (c # cs)
      | _ \<Rightarrow>
          (case dget manifest ''landing_branch'' of
             JStr (c # cs) \<Rightarrow> Inr (c # cs)
           | v \<Rightarrow> if truthy v then Inl TypeError
                  else Inl (RelayError ''no landing branch given (use --landing or a manifest)'' [])))"

definition tracker_rel :: "land_args \<Rightarrow> string option" where
  "tracker_rel args =
     (case land_tracker args of
        Some (c # cs) \<Rightarrow> Some (rstrip_char (CHR ''/'') (c # cs))
      | _ \<Rightarrow> None)"

definition land_facts_of :: "'w land_os \<Rightarrow> 'w \<Rightarrow> land_args \<Rightarrow> dict \<Rightarrow> string \<Rightarrow> land_facts res" where
  "land_facts_of os w args manifest landing =
     bindE (superseded_map manifest) (\<lambda>superseded.
     bindE (ignored_paths manifest (land_ignore args)) (\<lambda>ignore.
     bindE (git_text os w [''ls-tree'', ''-r'', ''--name-only'', landing]) (\<lambda>tree.
     bindE (git_text os w [''diff'', ''--name-only'', ''HEAD..'' @ landing]) (\<lambda>diff.
     Inr \<lparr>facts_superseded = superseded, facts_ignore = ignore, facts_tracker = tracker_rel args,
          facts_landing_paths = splitlines False tree, facts_diff_paths = splitlines False diff\<rparr>))))"

text \<open>Everything before the first change: \<open>Inl\<close> an exit code, or the plan to carry out.\<close>

definition land_checks :: "'w land_os \<Rightarrow> land_args \<Rightarrow> 'w \<Rightarrow> (int + land_plan) res" where
  "land_checks os args w =
     (let manifest = (case land_manifest args of Some m \<Rightarrow> m | None \<Rightarrow> []) in
      bindE (landing_of args manifest) (\<lambda>landing.
      if is_ancestor os w landing ''HEAD'' then Inr (Inl 0)
      else
        let missing = filter (\<lambda>p. \<not> path_in_ref os w landing p) (land_require args) in
        if missing \<noteq> []
        then Inl (RelayError ''required file(s) not in {}: {}; land them first (for example the release record before a restructure)''
                   (JStr landing # map JStr missing))
        else bindE (live_gate_reasons (gate_view os w)) (\<lambda>reasons.
        if reasons \<noteq> [] \<and> or_else (land_force args) [] = []
        then Inl (RelayError ''live gate or long build is running; refusing to move the target branch. Override with --force-during-gate. Active: {}'' [])
        else
          bindE (land_facts_of os w args manifest landing) (\<lambda>facts.
          bindE (dirty_entries os w) (\<lambda>dirty.
          bindE (mapE (judge_entry os w args facts) dirty) (\<lambda>verdicts.
          if unexpected_of verdicts \<noteq> []
          then Inl (RelayError ''working tree has changes the landing would discard or that block it; commit or ask the lead'' [])
          else if \<not> is_ancestor os w ''HEAD'' landing
          then Inl (RelayError ''{} does not contain HEAD; ask the lead to rebase it (never merge non-ff)'' [JStr landing])
          else if land_dry_run args then Inr (Inl 0)
          else Inr (Inr \<lparr>plan_landing = landing, plan_superseded = facts_superseded facts,
                          plan_tracker = facts_tracker facts\<rparr>)))))))"

definition discard :: "'w land_os \<Rightarrow> string \<times> dict \<Rightarrow> ('w, unit) act" where
  "discard os pe =
     (case pe of (path, entry) \<Rightarrow>
        bindA (pureA (ditem entry ''status'')) (\<lambda>status.
        if status = JStr ''??'' then (\<lambda>w. (Inr (), unlink_file os path w))
        else git_run os [''restore'', ''--source=HEAD'', ''--staged'', ''--worktree'', ''--'', path]))"

definition move_tracker :: "'w land_os \<Rightarrow> string option \<Rightarrow> ('w, string option) act" where
  \<comment> \<open>the tracker that was moved aside\<close>
  "move_tracker os tracker =
     (case tracker of
        Some (c # cs) \<Rightarrow>
          getA (\<lambda>w.
            if \<not> dir_here os w (c # cs) then pureA (Inr None)
            else bindA (pureA (git_text os w [''ls-files'', ''--'', c # cs])) (\<lambda>tracked.
              if tracked \<noteq> [] then pureA (Inr None)
              else if premerge_exists os w
              then pureA (Inl (RelayError ''{} already exists; remove it after checking it'' []))
              else (\<lambda>w. (Inr (Some (c # cs)), move_to_premerge os (c # cs) w))))
      | _ \<Rightarrow> pureA (Inr None))"

definition check_tracker :: "'w land_os \<Rightarrow> string option \<Rightarrow> ('w, unit) act" where
  "check_tracker os moved =
     (case moved of
        None \<Rightarrow> pureA (Inr ())
      | Some tracker \<Rightarrow>
          getA (\<lambda>w. if premerge_same os w tracker then (\<lambda>w. (Inr (), remove_premerge os w)) else pureA (Inr ())))"

definition RAM_FILESYSTEMS :: "string list" where
  "RAM_FILESYSTEMS = [''tmpfs'', ''ramfs'', ''devtmpfs'']"

text \<open>\<^verbatim>\<open>s.replace("\\040", " ")\<close>.\<close>

fun unescape_space :: "string \<Rightarrow> string" where
  "unescape_space (c # x # y # z # rest) =
     (if [c, x, y, z] = char_of (92::nat) # ''040'' then CHR '' '' # unescape_space rest
      else c # unescape_space (x # y # z # rest))"
| "unescape_space s = s"

definition relay_mount_step :: "ppath \<Rightarrow> string \<times> string \<Rightarrow> string \<Rightarrow> string \<times> string" where
  "relay_mount_step target best line =
     (let fields = words_of line in
      if length fields < 3 then best
      else let mount = unescape_space (fields ! 1) in
        if (path_text target = mount \<or> below_dir (path_text target) mount) \<and> length (fst best) \<le> length mount
        then (mount, fields ! 2) else best)"

definition fs_type :: "ppath \<Rightarrow> string option \<Rightarrow> string" where
  "fs_type target mounts =
     (case mounts of
        None \<Rightarrow> ''unknown''
      | Some s \<Rightarrow> snd (foldl (relay_mount_step target) ([], ''unknown'') (splitlines False s)))"

text \<open>
  \<^verbatim>\<open>agent_io_env\<close>: the checks of the verify environment. Its directories are outside the checkout.
\<close>

definition verify_io :: "'w land_os \<Rightarrow> land_args \<Rightarrow> unit res" where
  "verify_io os args =
     (if or_else (land_agent args) [] = [] then Inr ()
      else if land_io_root args = None
      then Inl (RelayError ''--agent needs --io-root (a disk-backed estate root, e.g. $VASO_ESTATE_ROOT)'' [])
      else let kind = fs_type (io_target os) (mounts_text os) in
        if kind \<in> set RAM_FILESYSTEMS
        then Inl (RelayError ''--io-root {} is on {} (RAM-backed); use a disk-backed estate root'' [JStr kind])
        else Inr ())"

definition VERIFY_DIRTIED_TREE :: int where
  "VERIFY_DIRTIED_TREE = 5"

definition run_verify :: "'w land_os \<Rightarrow> land_args \<Rightarrow> string \<Rightarrow> ('w, int) act" where
  "run_verify os args command =
     bindA (pureA (verify_io os args)) (\<lambda>_.
     bindA (getA (\<lambda>w. pureA (dirty_entries os w))) (\<lambda>before.
     bindA (\<lambda>w. map_prod Inr id (shell os command w)) (\<lambda>rc.
     bindA (getA (\<lambda>w. pureA (dirty_entries os w))) (\<lambda>after.
     pureA (Inr (if mset after \<noteq> mset before then VERIFY_DIRTIED_TREE else rc))))))"

definition verify_landed :: "'w land_os \<Rightarrow> land_args \<Rightarrow> ('w, int) act" where
  "verify_landed os args =
     (case land_verify args of
        Some (c # cs) \<Rightarrow>
          bindA (run_verify os args (c # cs)) (\<lambda>v.
          pureA (Inr (if v = VERIFY_DIRTIED_TREE then v else if v = 0 then 0 else 4)))
      | _ \<Rightarrow> pureA (Inr 0))"

definition carry_out :: "'w land_os \<Rightarrow> land_args \<Rightarrow> land_plan \<Rightarrow> ('w, int) act" where
  "carry_out os args plan =
     bindA (forA (discard os) (plan_superseded plan)) (\<lambda>_.
     bindA (move_tracker os (plan_tracker plan)) (\<lambda>moved.
     bindA (getA (\<lambda>w. pureA (git_text os w [''rev-parse'', ''--short'', ''HEAD'']))) (\<lambda>before.
     bindA (git_run os [''merge'', ''--ff-only'', plan_landing plan]) (\<lambda>_.
     bindA (getA (\<lambda>w. pureA (git_text os w [''rev-parse'', ''--short'', ''HEAD'']))) (\<lambda>after.
     bindA (check_tracker os moved) (\<lambda>_.
     verify_landed os args))))))"

definition cmd_land :: "'w land_os \<Rightarrow> land_args \<Rightarrow> ('w, int) act" where
  "cmd_land os args =
     bindA (getA (\<lambda>w. pureA (land_checks os args w))) (\<lambda>r.
     case r of Inl code \<Rightarrow> pureA (Inr code) | Inr plan \<Rightarrow> carry_out os args plan)"
section \<open>The landing attempt of the lead\<close>

record autoland_args =
  auto_landing :: string
  auto_target :: string
  auto_manifest :: "dict option"
  auto_tracker :: "string option"
  auto_ignore :: "string list"
  auto_io_root :: string
  auto_agent :: string
  auto_require_gate :: bool

text \<open>What the lead reads under the estate root: the verify record and the CI summaries.\<close>

record gate_files =
  verify_file :: json_file
  summary_files :: "dict option list"
  value_text :: "json \<Rightarrow> string"

definition follower_view :: "'w land_os \<Rightarrow> 'w \<Rightarrow> git_view" where
  "follower_view os w =
     \<lparr>ancestor = is_ancestor os w,
      diff_names = (\<lambda>a b. git_text_unchecked os w [''diff'', ''--name-only'', a @ ''..'' @ b])\<rparr>"

definition autoland_land_args :: "autoland_args \<Rightarrow> land_args" where
  "autoland_land_args args =
     \<lparr>land_landing = Some (auto_landing args), land_manifest = auto_manifest args,
      land_tracker = auto_tracker args, land_ignore = auto_ignore args, land_verify = None,
      land_agent = None, land_io_root = None, land_dry_run = False, land_allow_dirty = True,
      land_force = None, land_require = []\<rparr>"

text \<open>\<open>Inl\<close>: a reason to wait.\<close>

definition autoland_checks ::
  "'w land_os \<Rightarrow> 'w land_os \<Rightarrow> gate_files \<Rightarrow> autoland_args \<Rightarrow> 'w \<Rightarrow> (string + unit) res" where
  "autoland_checks lead os files args w =
     bindE (git_text lead w [''rev-parse'', auto_landing args]) (\<lambda>landing_sha.
     bindE (git_text os w [''rev-parse'', auto_target args]) (\<lambda>target_sha.
     bindE (verify_pass_recorded (auto_io_root args) landing_sha (verify_file files)) (\<lambda>verified.
     if \<not> verified then Inr (Inl ''UNVERIFIED'')
     else if is_ancestor os w (auto_landing args) ''HEAD'' then Inr (Inl ''NOTHING_TO_LAND'')
     else if \<not> is_ancestor os w (auto_target args) (auto_landing args) then Inr (Inl ''NON_FF'')
     else if auto_require_gate args
       \<and> \<not> ci_gate_green_for_landing (value_text files) (follower_view os w) (summary_files files) target_sha landing_sha
     then Inr (Inl ''GATE_NOT_GREEN'')
     else
       bindE (git_text os w [''diff'', ''--name-only'', ''HEAD..'' @ auto_landing args]) (\<lambda>diff.
       bindE (dirty_entries os w) (\<lambda>dirty.
       if list_ex (\<lambda>(status, path). status \<noteq> ''??'' \<and> path_overlaps path (splitlines False diff)) dirty
       then Inr (Inl ''DIRTY_OVERLAP'')
       else Inr (Inr ()))))))"

definition is_relay_error :: "pyexn \<Rightarrow> bool" where
  "is_relay_error e = (case e of RelayError t a \<Rightarrow> True | _ \<Rightarrow> False)"

definition cmd_autoland_step ::
  "'w land_os \<Rightarrow> 'w land_os \<Rightarrow> gate_files \<Rightarrow> autoland_args \<Rightarrow> ('w, int) act" where
  "cmd_autoland_step lead os files args =
     bindA (getA (\<lambda>w. pureA (autoland_checks lead os files args w))) (\<lambda>r.
     case r of
       Inl wait \<Rightarrow> pureA (Inr 0)
     | Inr u \<Rightarrow>
         (\<lambda>w. case cmd_land os (autoland_land_args args) w of
                (Inl e, w') \<Rightarrow> (if is_relay_error e then Inr 0 else Inl e, w')
              | (Inr rc, w') \<Rightarrow> (Inr 0, w')))"

section \<open>Rebasing\<close>

record rebase_args =
  rebase_target :: string
  rebase_verify :: "string option"
  rebase_agent :: "string option"
  rebase_io_root :: "string option"

definition rebase_land_args :: "rebase_args \<Rightarrow> land_args" where
  \<comment> \<open>what \<^verbatim>\<open>run_verify\<close> reads of the arguments\<close>
  "rebase_land_args args =
     \<lparr>land_landing = None, land_manifest = None, land_tracker = None, land_ignore = [], land_verify = None,
      land_agent = rebase_agent args, land_io_root = rebase_io_root args, land_dry_run = False,
      land_allow_dirty = False, land_force = None, land_require = []\<rparr>"

definition queryA :: "'w land_os \<Rightarrow> string list \<Rightarrow> ('w, string) act" where
  "queryA os args = getA (\<lambda>w. pureA (git_text os w args))"

text \<open>\<open>Inl\<close>: the rebase stopped at a conflict, with exit code 3.\<close>

definition rebase_detached :: "'w land_os \<Rightarrow> string \<Rightarrow> ('w, int + unit) act" where
  "rebase_detached os target =
     getA (\<lambda>w.
       if is_ancestor os w target ''HEAD'' then pureA (Inr (Inr ()))
       else
         bindA (git_run os [''checkout'', ''-q'', ''--detach'']) (\<lambda>_.
         bindA (\<lambda>w. map_prod Inr id (git_change os [''rebase'', target] w)) (\<lambda>a.
         if fst a \<noteq> 0 then pureA (Inr (Inl 3))
         else bindA (queryA os [''rev-parse'', ''--short'', ''HEAD'']) (\<lambda>_. pureA (Inr (Inr ()))))))"

definition rebase_check :: "'w land_os \<Rightarrow> rebase_args \<Rightarrow> string \<Rightarrow> ('w, int + unit) act" where
  "rebase_check os args branch =
     (case rebase_verify args of
        Some (c # cs) \<Rightarrow>
          bindA (run_verify os (rebase_land_args args) (c # cs)) (\<lambda>verdict.
          if verdict \<noteq> 0 then
            bindA (queryA os [''rev-parse'', ''--short'', ''HEAD'']) (\<lambda>candidate.
            bindA (git_run os [''checkout'', ''-q'', branch]) (\<lambda>_.
            bindA (queryA os [''rev-parse'', ''--short'', branch]) (\<lambda>_.
            pureA (Inr (Inl (if verdict = VERIFY_DIRTIED_TREE then verdict else 4))))))
          else if or_else (rebase_agent args) [] = [] \<or> rebase_io_root args = None then pureA (Inr (Inr ()))
          else
            bindA (queryA os [''rev-parse'', ''HEAD'']) (\<lambda>sha.
            bindA (record_pass os sha) (\<lambda>_. pureA (Inr (Inr ())))))
      | _ \<Rightarrow> pureA (Inr (Inr ())))"

definition move_branch :: "'w land_os \<Rightarrow> string \<Rightarrow> string \<Rightarrow> ('w, int) act" where
  "move_branch os branch before =
     bindA (queryA os [''rev-parse'', ''HEAD'']) (\<lambda>now.
     bindA (if now \<noteq> before then pureA (Inr True)
            else bindA (queryA os [''rev-parse'', ''--abbrev-ref'', ''HEAD'']) (\<lambda>name. pureA (Inr (name = ''HEAD''))))
       (\<lambda>moved.
       if moved then
         bindA (git_run os [''checkout'', ''-q'', ''-B'', branch]) (\<lambda>_.
         bindA (queryA os [''rev-parse'', ''--short'', branch]) (\<lambda>_. pureA (Inr 0)))
       else pureA (Inr 0)))"

definition cmd_rebase :: "'w land_os \<Rightarrow> rebase_args \<Rightarrow> ('w, int) act" where
  "cmd_rebase os args =
     bindA (queryA os [''status'', ''--porcelain'']) (\<lambda>dirty.
     if dirty \<noteq> []
     then pureA (Inl (RelayError ''{} has uncommitted changes; commit them before rebasing'' []))
     else
       bindA (queryA os [''rev-parse'', ''--abbrev-ref'', ''HEAD'']) (\<lambda>branch.
       if branch = ''HEAD''
       then pureA (Inl (RelayError ''{} is on a detached HEAD; check out the landing branch first'' []))
       else
         bindA (queryA os [''rev-parse'', rebase_target args]) (\<lambda>target.
         bindA (queryA os [''rev-parse'', ''HEAD'']) (\<lambda>before.
         bindA (rebase_detached os target) (\<lambda>r.
         case r of
           Inl code \<Rightarrow> pureA (Inr code)
         | Inr _ \<Rightarrow>
             bindA (rebase_check os args branch) (\<lambda>v.
             case v of Inl code \<Rightarrow> pureA (Inr code) | Inr _ \<Rightarrow> move_branch os branch before))))))"

end
