(* ===== verification/RelayGateRun.thy ===== *)
theory RelayGateRun
  imports RelayGate LeaseSample
begin

text \<open>
  What the gates in front of a landing guarantee, and that the relay and the lease commands agree
  on which leases are live.\<close>

section \<open>Verified commits\<close>

text \<open>
  Recording that a commit passed its verification makes exactly that commit recorded: every
  other commit answers as before.\<close>

theorem verify_record_roundtrip:
  assumes "record_verify_pass path sha f = Inr f'"
  shows "verify_pass_recorded path sha' f' = (if sha' = sha then Inr True else verify_pass_recorded path sha' f)"
proof -
  from assms obtain v where v: "read_verify_records path f = Inr v"
    "(case v of JObj d \<Rightarrow> Inr (Some (Some (JObj (dput sha (JStr ''PASSED'') d)))) | _ \<Rightarrow> Inl TypeError) = Inr f'"
    unfolding record_verify_pass_def by auto
  then obtain d where "v = JObj d" by (cases v) auto
  with v have "read_verify_records path f = Inr (JObj d)" "f' = Some (Some (JObj (dput sha (JStr ''PASSED'') d)))"
    by simp_all
  then show ?thesis by (simp add: verify_pass_recorded_def read_verify_records_def)
qed

theorem verify_record_roundtrip_witness:
  "verify_pass_recorded ''r'' ''abc'' (Some (Some (JObj [(''abc'', JStr ''PASSED'')]))) = Inr True"
  using verify_record_roundtrip [of "''r''" "''abc''" None "Some (Some (JObj [(''abc'', JStr ''PASSED'')]))" "''abc''"]
  by (simp add: record_verify_pass_def read_verify_records_def)

section \<open>A green gate\<close>

text \<open>The last verdict that a summary gives for a gate.\<close>

definition stage_verdict :: "(json \<Rightarrow> string) \<Rightarrow> string \<times> string \<Rightarrow> json \<Rightarrow> string option" where
  "stage_verdict str key stage =
     (case stage of
        JObj d \<Rightarrow>
          if dget d ''kind'' = JStr ''gate''
            \<and> (str_or_empty str (dget d ''profile''), str_or_empty str (dget d ''line'')) = key
          then Some (lower (str_or_empty str (dget d ''verdict''))) else None
      | _ \<Rightarrow> None)"

lemma gate_verdict_map:
  "key \<in> set REQUIRED_FAST_GATES \<Longrightarrow>
    map_of (gate_verdict str verdicts stage) key =
      (case stage_verdict str key stage of None \<Rightarrow> map_of verdicts key | Some v \<Rightarrow> Some v)"
  by (auto simp: gate_verdict_def stage_verdict_def update_conv' Let_def split: json.split)

lemma verdicts_last:
  assumes "key \<in> set REQUIRED_FAST_GATES"
  shows "map_of (foldl (gate_verdict str) acc stages) key =
    (case List.map_filter (stage_verdict str key) stages of [] \<Rightarrow> map_of acc key | vs \<Rightarrow> Some (last vs))"
proof (induction stages arbitrary: acc)
  case (Cons stage stages)
  then show ?case
    by (simp add: gate_verdict_map [OF assms] map_filter_simps split: option.split list.split)
qed (simp add: map_filter_simps)

definition gates_passed :: "(json \<Rightarrow> string) \<Rightarrow> dict \<Rightarrow> bool" where
  "gates_passed str summary =
     (\<exists>stages. dget summary ''stages'' = JList stages
        \<and> (\<forall>key\<in>set REQUIRED_FAST_GATES. \<exists>vs. List.map_filter (stage_verdict str key) stages = vs
              \<and> vs \<noteq> [] \<and> last vs = ''passed''))"
lemma required_gates_iff:
  "summary_has_required_fast_gates str summary sha \<longleftrightarrow> dget summary ''commit'' = JStr sha \<and> gates_passed str summary"
proof -
  have nil: "\<not> list_all (\<lambda>key. map_of (foldl (gate_verdict str) [] []) key = Some ''passed'') REQUIRED_FAST_GATES"
    by (simp add: REQUIRED_FAST_GATES_def)
  have eq: "list_all (\<lambda>key. map_of (foldl (gate_verdict str) [] stages) key = Some ''passed'') REQUIRED_FAST_GATES
      \<longleftrightarrow> (\<forall>key\<in>set REQUIRED_FAST_GATES. List.map_filter (stage_verdict str key) stages \<noteq> []
            \<and> last (List.map_filter (stage_verdict str key) stages) = ''passed'')" for stages
    unfolding list_all_iff by (intro ball_cong) (auto simp: verdicts_last split: list.split)
  show ?thesis
  proof (cases "map_of summary ''stages''")
    case None
    then show ?thesis using nil
      by (simp add: summary_has_required_fast_gates_def gates_passed_def dget_def Let_def)
  next
    case (Some v)
    then have "dget summary ''stages'' = v" by (rule dget_Some)
    then show ?thesis
      by (cases v) (auto simp: summary_has_required_fast_gates_def gates_passed_def Some Let_def eq)
  qed
qed

text \<open>
  C14. The CI gate of a landing is green only when some summary passes all four fast gates for the
  landing commit itself, or for a commit that both the target and the landing branch contain and
  from which the landing changes at least one file and only files that need no gate.\<close>

theorem green_gate_sound:
  "ci_gate_green_for_landing str git summaries target landing \<longleftrightarrow>
    (\<exists>summary sha. Some summary \<in> set summaries \<and> dget summary ''commit'' = JStr sha \<and> gates_passed str summary
      \<and> (sha = landing
         \<or> ancestor git sha target \<and> ancestor git sha landing
           \<and> (let paths = filter (\<lambda>p. p \<noteq> []) (splitlines False (diff_names git sha landing))
              in paths \<noteq> [] \<and> list_all no_gate_allowed_path paths)))"
proof -
  define ok where "ok = (\<lambda>sha. ancestor git sha target \<and> ancestor git sha landing
      \<and> diff_is_no_gate_allowlisted git sha landing)"
  define green where "green = (\<lambda>summary sha. dget summary ''commit'' = JStr sha \<and> gates_passed str summary)"
  have "(case green_commits str landing summaries of Inl u \<Rightarrow> True | Inr shas \<Rightarrow> list_ex ok shas)
      \<longleftrightarrow> (\<exists>summary sha. Some summary \<in> set summaries \<and> green summary sha \<and> (sha = landing \<or> ok sha))"
  proof (induction summaries)
    case (Cons s rest)
    show ?case
    proof (cases s)
      case None
      then show ?thesis using Cons by simp
    next
      case (Some summary)
      have g: "summary_has_required_fast_gates str summary sha \<longleftrightarrow> green summary sha" for sha
        by (simp add: required_gates_iff green_def)
      show ?thesis
      proof (cases "\<exists>sha. dget summary ''commit'' = JStr sha")
        case True
        then obtain sha where sha: "dget summary ''commit'' = JStr sha" by blast
        then have u: "green summary sha' \<Longrightarrow> sha' = sha" for sha' by (simp add: green_def)
        have split: "(\<exists>summary' sha'. Some summary' \<in> set (Some summary # rest) \<and> green summary' sha' \<and> (sha' = landing \<or> ok sha'))
            \<longleftrightarrow> green summary sha \<and> (sha = landing \<or> ok sha)
              \<or> (\<exists>summary' sha'. Some summary' \<in> set rest \<and> green summary' sha' \<and> (sha' = landing \<or> ok sha'))"
          using u by auto
        show ?thesis
          unfolding Some split using sha Cons
          by (cases "green_commits str landing rest"; cases "green summary sha"; cases "sha = landing") (simp_all add: g)
      next
        case False
        then have "green_commits str landing (s # rest) = green_commits str landing rest"
          by (simp add: Some split: json.split)
        moreover have "\<not> green summary sha" for sha using False by (auto simp: green_def)
        ultimately show ?thesis using Cons Some by auto
      qed
    qed
  qed simp
  then show ?thesis
    unfolding ci_gate_green_for_landing_def green_def ok_def diff_is_no_gate_allowlisted_def Let_def
    by blast
qed

section \<open>Live leases\<close>

definition file_live :: "env \<Rightarrow> json option \<Rightarrow> dict list" where
  "file_live env content =
     (case content of
        Some (JObj state) \<Rightarrow> (case leases_of state of Inr ls \<Rightarrow> filter (live env) ls | Inl e \<Rightarrow> [])
      | _ \<Rightarrow> [])"

definition file_resource :: "json option \<Rightarrow> string" where
  "file_resource content =
     (case content of
        Some (JObj state) \<Rightarrow> (case dget state ''resource'' of JStr r \<Rightarrow> r | _ \<Rightarrow> [])
      | _ \<Rightarrow> [])"

lemma relay_lease_active_eq:
  assumes "lease_ok n recorded l"
  shows "relay_lease_active env l = lease_active env l"
proof -
  obtain p where p: "dget l ''pid'' = JInt p"
    using assms by (auto simp: lease_ok_def valid_pid_def split: json.splits)
  then have pid: "map_of l ''pid'' = Some (JInt p)" using dget_not_null [of l "''pid''"] by simp
  have fin: "finite_number (dget l ''expiry_time'') = Inr True" using assms by (simp add: lease_ok_def)
  then have "dget l ''expiry_time'' \<noteq> JNull" by (auto simp: finite_number_def)
  then have e: "map_of l ''expiry_time'' = Some (dget l ''expiry_time'')" by (rule dget_not_null)
  obtain f where "float_of env (dget l ''expiry_time'') = Inr f"
    using fin by (auto simp: finite_number_def float_of_def split: json.splits pyfloat.splits if_splits)
  then show ?thesis using pid e by (simp add: relay_lease_active_def lease_active_def ditem_def int_of_def)
qed

lemma lease_entries_live:
  "list_all (lease_ok n recorded) ls \<Longrightarrow>
    concatE (lease_entry env r) (map JObj ls) = Inr (map (lease_reason r) (filter (live env) ls))"
proof (induction ls)
  case (Cons l ls)
  then have ok: "lease_ok n recorded l" by simp
  then obtain b where "lease_active env l = Inr b" by (rule lease_active_total)
  then show ?case using Cons relay_lease_active_eq [OF ok, of env]
    by (auto simp: lease_entry_def live_def)
qed simp

lemma file_leases_live:
  assumes "file_ok n content"
  shows "file_leases env (n, content) = Inr (map (lease_reason (file_resource content)) (file_live env content))"
proof -
  obtain state recorded ls where c: "content = Some (JObj state)" "holds n recorded ls state"
    and n: "n \<noteq> []" "safe_name n = n"
    using assms by (auto simp: file_ok_def)
  have l: "map_of state ''leases'' = Some (JList (map JObj ls))"
    using c(2) dget_not_null [of state "''leases''"] by (simp add: holds_def)
  have r: "dget state ''resource'' = JStr recorded" "recorded \<noteq> []"
    using c(2) n by (auto simp: holds_def)
  have "list_all (lease_ok n recorded) ls" using c(2) by (simp add: holds_def)
  then show ?thesis
    using l r lease_entries_live leases_of_holds [OF c(2)]
    by (simp add: file_leases_def c(1) file_resource_def file_live_def str_or_empty_def neq_Nil_conv split: list.split)
      (auto simp: neq_Nil_conv)
qed

text \<open>
  C15. The relay refuses a landing for exactly the leases that the lease commands hold to be live:
  on every directory they can reach, the two readings of the same files agree lease by lease, and
  neither raises.\<close>

theorem relay_sees_live_leases:
  assumes "reachable store"
  shows "active_resource_leases env (Some store) =
    Inr (concat (map (\<lambda>(n, content). map (lease_reason (file_resource content)) (file_live env content))
      (sort_key (\<lambda>file. fst file @ ''.json'') store)))"
proof -
  let ?files = "sort_key (\<lambda>file. fst file @ ''.json'') store"
  have "\<forall>(n, content)\<in>set ?files. file_ok n content"
    using reachable_ok [OF assms] by (simp add: store_ok_def)
  then have "mapE (file_leases env) ?files
      = Inr (map (\<lambda>(n, content). map (lease_reason (file_resource content)) (file_live env content)) ?files)"
    by (intro mapE_Inr_map) (auto simp: file_leases_live)
  then show ?thesis by (simp add: active_resource_leases_def concatE_def)
qed

theorem relay_sees_live_leases_witness:
  "active_resource_leases sample_env (Some (sample_store ''gpu'')) =
    Inr (concat (map (\<lambda>(n, content). map (lease_reason (file_resource content)) (file_live sample_env content))
      (sort_key (\<lambda>file. fst file @ ''.json'') (sample_store ''gpu''))))"
  by (rule relay_sees_live_leases [OF sample_reachable]) simp

section \<open>The parents of a process\<close>

lemma ancestor_chain_distinct:
  "current \<in> set seen \<Longrightarrow> distinct (ancestor_chain procs current seen)
    \<and> set (ancestor_chain procs current seen) \<inter> set seen = {}"
proof (induction procs current seen rule: ancestor_chain.induct)
  case (1 procs current seen)
  then show ?case unfolding ancestor_chain.simps [of procs current seen] by (auto split: option.split)
qed

text \<open>
  The walk up the parents of a process ends and follows the parent links, visiting no process
  twice, whatever the process table says (also when links that were read at different times form a
  cycle).\<close>

theorem ancestor_walk:
  "distinct (pid # process_ancestor_chain procs pid)
    \<and> successively (\<lambda>a b. \<exists>info. map_of procs a = Some info \<and> info_ppid info = b \<and> 0 < b)
        (pid # process_ancestor_chain procs pid)"
proof
  show "distinct (pid # process_ancestor_chain procs pid)"
    using ancestor_chain_distinct [of pid "[pid]" procs] by (auto simp: process_ancestor_chain_def)
  have "successively (\<lambda>a b. \<exists>info. map_of procs a = Some info \<and> info_ppid info = b \<and> 0 < b)
      (current # ancestor_chain procs current seen)" for current seen
  proof (induction procs current seen rule: ancestor_chain.induct)
    case (1 procs current seen)
    then show ?case by (subst ancestor_chain.simps) (auto split: option.split)
  qed
  then show "successively (\<lambda>a b. \<exists>info. map_of procs a = Some info \<and> info_ppid info = b \<and> 0 < b)
      (pid # process_ancestor_chain procs pid)"
    by (simp add: process_ancestor_chain_def)
qed

end
