(* ===== verification/RelayLandRun.thy ===== *)
theory RelayLandRun
  imports RelayLand RelayGateRun
begin

text \<open>
  What the commands that move branches promise: a landing accounts for every dirty entry, the lead
  lands only what was verified and passed its gate, and a rebase that fails its verification leaves
  the branch where it was.\<close>

section \<open>What a landing may discard\<close>

lemma land_checks_plan:
  assumes "land_checks os args w = Inr (Inr plan)"
  obtains landing facts dirty verdicts where
    "landing_of args (case land_manifest args of Some m \<Rightarrow> m | None \<Rightarrow> []) = Inr landing"
    "land_facts_of os w args (case land_manifest args of Some m \<Rightarrow> m | None \<Rightarrow> []) landing = Inr facts"
    "dirty_entries os w = Inr dirty" "mapE (judge_entry os w args facts) dirty = Inr verdicts"
    "unexpected_of verdicts = []" "\<not> is_ancestor os w landing ''HEAD''" "is_ancestor os w ''HEAD'' landing"
    "plan = \<lparr>plan_landing = landing, plan_superseded = facts_superseded facts, plan_tracker = facts_tracker facts\<rparr>"
  using assms by (auto simp: land_checks_def Let_def split: if_splits)

lemma land_facts:
  "land_facts_of os w args manifest landing = Inr facts \<Longrightarrow>
    superseded_map manifest = Inr (facts_superseded facts)
    \<and> ignored_paths manifest (land_ignore args) = Inr (facts_ignore facts)
    \<and> facts_tracker facts = tracker_rel args
    \<and> map_sum id (splitlines False) (git_text os w [''ls-tree'', ''-r'', ''--name-only'', landing]) = Inr (facts_landing_paths facts)
    \<and> map_sum id (splitlines False) (git_text os w [''diff'', ''--name-only'', ''HEAD..'' @ landing]) = Inr (facts_diff_paths facts)"
  by (auto simp: land_facts_of_def)

lemma unexpected_of_Nil: "unexpected_of vs = [] \<longleftrightarrow> (\<forall>v\<in>set vs. v = Fine \<or> v = KeptDirty)"
  by (induction vs) (auto simp: unexpected_of_def map_filter_simps split: verdict.splits option.splits)

definition accounted :: "'w land_os \<Rightarrow> 'w \<Rightarrow> land_args \<Rightarrow> land_facts \<Rightarrow> string \<times> string \<Rightarrow> bool" where
  "accounted os w args facts e =
     (is_ignored (facts_ignore facts) (snd e) \<or> is_tracker_copy (facts_tracker facts) e
      \<or> (case map_of (facts_superseded facts) (snd e) of
           Some entry \<Rightarrow> ditem entry ''sha256'' = Inr (recorded_sha os w (snd e))
         | None \<Rightarrow>
             if land_allow_dirty args then \<not> path_overlaps (snd e) (facts_diff_paths facts)
             else fst e = ''??'' \<and> snd e \<notin> set (facts_landing_paths facts)))"

lemma judge_accounted:
  assumes "judge_entry os w args facts e = Inr v" "v = Fine \<or> v = KeptDirty"
  shows "accounted os w args facts e"
  using assms
  by (cases e) (auto simp: judge_entry_def accounted_def split: if_splits option.splits)


text \<open>A sample checkout, whose world is the commit of its target branch: one untracked file, and a
landing branch \<^verbatim>\<open>land\<close> ahead of it.\<close>

definition sample_query :: "string \<Rightarrow> string list \<Rightarrow> git_answer" where
  "sample_query w args =
     (case args of
        [c, f, a, b] \<Rightarrow>
          if c = ''merge-base'' then (if a = ''HEAD'' \<or> a = ''main'' then 0 else 1, [], [])
          else if c = ''status'' then (0, ''?? notes.txt'' @ [char_of (0::nat)], [])
          else (0, [], [])
      | [c, a] \<Rightarrow> if c = ''rev-parse'' then (0, a, []) else (0, [], [])
      | [c, f, a] \<Rightarrow> if c = ''rev-parse'' \<and> f = ''--abbrev-ref'' then (0, ''land'', []) else (0, w, [])
      | _ \<Rightarrow> (0, [], []))"

definition sample_change :: "string list \<Rightarrow> string \<Rightarrow> git_answer \<times> string" where
  "sample_change args w =
     (case args of [c, f, a] \<Rightarrow> if c = ''merge'' then ((0, [], []), a) else ((0, [], []), w) | _ \<Rightarrow> ((0, [], []), w))"

definition sample_host :: gate_host where
  "sample_host =
     \<lparr>lease_env = sample_env, lease_dir = Some (Some []), real_path = Inr,
      processes = [(7, \<lparr>info_pid = 7, info_ppid = 1, info_argv = [''relay.py''], info_cwd = None\<rparr>)],
      pgrep = Some (1, []), own_pid = 7, checkout = parse ''/repo''\<rparr>"

definition sample_os :: "string land_os" where
  "sample_os =
     \<lparr>git_query = sample_query, git_change = sample_change, file_sha = (\<lambda>w p. None), unlink_file = (\<lambda>p w. w),
      dir_here = (\<lambda>w p. False), premerge_exists = (\<lambda>w. False), move_to_premerge = (\<lambda>p w. w),
      premerge_same = (\<lambda>w p. True), remove_premerge = id, shell = (\<lambda>c w. (1, w)), gate_view = (\<lambda>w. sample_host),
      io_target = parse ''/estate'', mounts_text = Some ''/dev/sda1 / ext4 rw 0 0'', record_pass = (\<lambda>s w. (Inr (), w))\<rparr>"

definition sample_land :: land_args where
  "sample_land = \<lparr>land_landing = Some ''land'', land_manifest = None, land_tracker = None, land_ignore = [],
     land_verify = None, land_agent = None, land_io_root = None, land_dry_run = False, land_allow_dirty = False,
     land_force = None, land_require = []\<rparr>"

lemma sample_land_checks:
  "(case land_checks sample_os sample_land ''old'' of Inr (Inr plan) \<Rightarrow> plan_landing plan = ''land'' | _ \<Rightarrow> False)"
  by code_simp

lemma sample_dirty: "dirty_entries sample_os ''old'' = Inr [(''??'', ''notes.txt'')]"
  by code_simp


text \<open>
  A superseded path that is also ignored escapes the comparison with the manifest: whatever the
  file holds by now, the checks give the same plan, and carrying it out unlinks the file.\<close>

theorem ignored_superseded_is_unchecked:
  assumes "land_checks os args w = Inr (Inr plan)"
    and "ignored_paths (case land_manifest args of Some m \<Rightarrow> m | None \<Rightarrow> []) (land_ignore args) = Inr ignore"
    and "is_ignored ignore path" "(path, entry) \<in> set (plan_superseded plan)" "ditem entry ''status'' = Inr (JStr ''??'')"
  shows "land_checks (os\<lparr>file_sha := (file_sha os)(w := (file_sha os w)(path := content))\<rparr>) args w = Inr (Inr plan)
    \<and> discard os (path, entry) w = (Inr (), unlink_file os path w)"
proof
  let ?os = "os\<lparr>file_sha := (file_sha os)(w := (file_sha os w)(path := content))\<rparr>"
  obtain landing facts where f:
    "land_facts_of os w args (case land_manifest args of Some m \<Rightarrow> m | None \<Rightarrow> []) landing = Inr facts"
    and l: "landing_of args (case land_manifest args of Some m \<Rightarrow> m | None \<Rightarrow> []) = Inr landing"
    by (rule land_checks_plan [OF assms(1)])
  have ig: "facts_ignore facts = ignore" using land_facts [OF f] assms(2) by simp
  have same: "git_text ?os = git_text os" "is_ancestor ?os = is_ancestor os" "path_in_ref ?os = path_in_ref os"
    "dirty_entries ?os = dirty_entries os"
    by (simp_all add: fun_eq_iff git_text_def is_ancestor_def path_in_ref_def dirty_entries_def)
  have "judge_entry ?os w args facts e = judge_entry os w args facts e" for e
    using assms(3) ig by (auto simp: judge_entry_def recorded_sha_def split: prod.split option.split)
  then have "judge_entry ?os w args facts = judge_entry os w args facts" ..
  moreover have "land_facts_of ?os w args m = land_facts_of os w args m" for m
    by (simp add: fun_eq_iff land_facts_of_def same)
  ultimately have "land_checks ?os args w = land_checks os args w"
    using l f by (simp add: land_checks_def same Let_def cong: if_cong)
  with assms(1) show "land_checks ?os args w = Inr (Inr plan)" by simp
  show "discard os (path, entry) w = (Inr (), unlink_file os path w)"
    using assms(5) by (simp add: discard_def)
qed

definition ignoring_land :: land_args where
  "ignoring_land = sample_land\<lparr>land_ignore := [''notes.txt''],
     land_manifest := Some [(''superseded'', JList [JObj [(''path'', JStr ''notes.txt''), (''status'', JStr ''??''),
       (''sha256'', JStr ''0'')]])]\<rparr>"

definition superseded_notes :: dict where
  "superseded_notes = [(''path'', JStr ''notes.txt''), (''status'', JStr ''??''), (''sha256'', JStr ''0'')]"

lemma ignoring_land_checks:
  "(case land_checks sample_os ignoring_land ''old'' of
      Inr (Inr plan) \<Rightarrow> plan_superseded plan = [(''notes.txt'', superseded_notes)] | _ \<Rightarrow> False)"
  "ignored_paths (case land_manifest ignoring_land of Some m \<Rightarrow> m | None \<Rightarrow> []) (land_ignore ignoring_land)
    = Inr [''notes.txt'']"
  by code_simp+

theorem ignored_superseded_is_unchecked_witness:
  "\<exists>plan. land_checks (sample_os\<lparr>file_sha := (file_sha sample_os)(''old'' := (file_sha sample_os ''old'')(''notes.txt'' := Some ''1''))\<rparr>)
      ignoring_land ''old'' = Inr (Inr plan)"
proof -
  obtain plan where p: "land_checks sample_os ignoring_land ''old'' = Inr (Inr plan)"
    "plan_superseded plan = [(''notes.txt'', superseded_notes)]"
    using ignoring_land_checks(1) by (auto split: sum.splits)
  then have "(''notes.txt'', superseded_notes) \<in> set (plan_superseded plan)" by simp
  moreover have "is_ignored [''notes.txt''] ''notes.txt''" by (simp add: is_ignored_def)
  moreover have "ditem superseded_notes ''status'' = Inr (JStr ''??'')" by (simp add: ditem_def superseded_notes_def)
  ultimately show ?thesis
    using ignored_superseded_is_unchecked [OF p(1) ignoring_land_checks(2)] by blast
qed

section \<open>What the lead lands\<close>

lemma bindA_getA: "bindA (getA (\<lambda>w. pureA (f w))) g w = (case f w of Inl e \<Rightarrow> (Inl e, w) | Inr x \<Rightarrow> g x w)"
  by (simp add: bindA_def getA_def pureA_def split: sum.split)

text \<open>
  C17. The landing attempt of the lead changes the checkout only when the landing commit has a
  recorded verification, the target is an ancestor of the landing branch, no dirty tracked file
  touches the landing diff, and - unless the requirement is switched off - the CI gate is green
  for it. Otherwise it leaves everything as it is; a refusal never makes it fail.\<close>

theorem autoland_only_verified:
  assumes "cmd_autoland_step lead os files args w = (r, w')" "w' \<noteq> w"
  shows "\<exists>landing_sha target_sha diff dirty.
    git_text lead w [''rev-parse'', auto_landing args] = Inr landing_sha
    \<and> git_text os w [''rev-parse'', auto_target args] = Inr target_sha
    \<and> verify_pass_recorded (auto_io_root args) landing_sha (verify_file files) = Inr True
    \<and> is_ancestor os w (auto_target args) (auto_landing args)
    \<and> (auto_require_gate args \<longrightarrow>
        ci_gate_green_for_landing (value_text files) (follower_view os w) (summary_files files) target_sha landing_sha)
    \<and> dirty_entries os w = Inr dirty \<and> git_text os w [''diff'', ''--name-only'', ''HEAD..'' @ auto_landing args] = Inr diff
    \<and> (\<forall>(status, path)\<in>set dirty. status = ''??'' \<or> \<not> path_overlaps path (splitlines False diff))"
proof (cases "autoland_checks lead os files args w")
  case (Inl e)
  then show ?thesis using assms by (simp add: cmd_autoland_step_def bindA_getA)
next
  case (Inr x)
  then have "x = Inr ()"
    using assms by (cases x) (simp_all add: cmd_autoland_step_def bindA_getA pureA_def)
  with Inr show ?thesis
    by (auto simp: autoland_checks_def list_ex_iff split: if_splits)
qed

definition sample_gates :: gate_files where
  "sample_gates = \<lparr>verify_file = Some (Some (JObj [(''land'', JStr ''PASSED'')])), summary_files = [], value_text = (\<lambda>_. [])\<rparr>"

definition sample_auto :: autoland_args where
  "sample_auto = \<lparr>auto_landing = ''land'', auto_target = ''main'', auto_manifest = None, auto_tracker = None,
     auto_ignore = [], auto_io_root = ''/io'', auto_agent = ''lead'', auto_require_gate = False\<rparr>"

lemma sample_autoland: "snd (cmd_autoland_step sample_os sample_os sample_gates sample_auto ''old'') = ''land''"
  by code_simp

theorem autoland_only_verified_witness:
  "\<exists>sha. git_text sample_os ''old'' [''rev-parse'', ''land''] = Inr sha
    \<and> verify_pass_recorded ''/io'' sha (verify_file sample_gates) = Inr True"
proof -
  obtain r where "cmd_autoland_step sample_os sample_os sample_gates sample_auto ''old'' = (r, ''land'')"
    using sample_autoland by (metis prod.collapse)
  moreover have "''land'' \<noteq> ''old''" by simp
  ultimately show ?thesis
    using autoland_only_verified [of sample_os sample_os sample_gates sample_auto "''old''" r "''land''"]
    by (auto simp: sample_auto_def)
qed

section \<open>What a rebase moves\<close>

lemma keeps_query [keeps_intros]: "keeps P (queryA os args)"
  unfolding queryA_def by (intro keeps_intros)

lemma keeps_git:
  "(\<And>w. P w \<Longrightarrow> P (snd (git_change os args w))) \<Longrightarrow> keeps P (git_run os args)"
  by (simp add: keeps_def git_run_def split: prod.splits) force

lemma keeps_verify:
  "(\<And>w. P w \<Longrightarrow> P (snd (shell os c w))) \<Longrightarrow> keeps P (run_verify os args c)"
  unfolding run_verify_def by (intro keeps_intros) (simp add: keeps_def map_prod_def split_beta)

lemma keeps_detached:
  assumes "\<And>args w. P w \<Longrightarrow> args \<noteq> [''checkout'', ''-q'', ''-B'', branch] \<Longrightarrow> P (snd (git_change os args w))"
  shows "keeps P (rebase_detached os target)"
  unfolding rebase_detached_def
  by (intro keeps_intros keeps_git assms) (auto simp: keeps_def map_prod_def split_beta intro: assms)

lemma run_verify_nonzero:
  assumes "\<And>w. fst (shell os c w) \<noteq> 0" "run_verify os args c w = (Inr v, w')"
  shows "v \<noteq> 0"
  using assms(1) assms(2)
  by (auto simp: run_verify_def bindA_Inr VERIFY_DIRTIED_TREE_def map_prod_def split_beta split: if_splits)

lemma bindA_queryA:
  "bindA (queryA os args) f w = (case git_text os w args of Inl e \<Rightarrow> (Inl e, w) | Inr x \<Rightarrow> f x w)"
  by (simp add: queryA_def bindA_getA)

lemma detached_code: "rebase_detached os target w = (Inr (Inl code), w') \<Longrightarrow> code = 3"
  by (auto simp: rebase_detached_def bindA_Inr split: if_splits)

lemma failing_check:
  assumes v: "rebase_verify args = Some (c # cs)" "\<And>w. fst (shell os (c # cs) w) \<noteq> 0"
    and P: "\<And>cmd w. P w \<Longrightarrow> cmd \<noteq> [''checkout'', ''-q'', ''-B'', branch] \<Longrightarrow> P (snd (git_change os cmd w))"
      "\<And>w. P w \<Longrightarrow> P (snd (shell os (c # cs) w))"
    and "P w" "rebase_check os args branch w = (r, w')"
  shows "P w' \<and> r \<noteq> Inr (Inr ()) \<and> r \<noteq> Inr (Inl 0)"
proof -
  define K where "K = (\<lambda>verdict. bindA (queryA os [''rev-parse'', ''--short'', ''HEAD'']) (\<lambda>candidate.
      bindA (git_run os [''checkout'', ''-q'', branch]) (\<lambda>_. bindA (queryA os [''rev-parse'', ''--short'', branch]) (\<lambda>_.
      pureA (Inr (Inl (if verdict = VERIFY_DIRTIED_TREE then verdict else 4) :: int + unit))))))"
  obtain rv w1 where rv: "run_verify os (rebase_land_args args) (c # cs) w = (rv, w1)" by fastforce
  have w1: "P w1" using keeps_verify [of P os "c # cs" "rebase_land_args args"] P(2) assms(5) rv
    by (simp add: keeps_def) (metis snd_conv)
  show ?thesis
  proof (cases rv)
    case (Inl e)
    then show ?thesis using assms(6) rv w1 by (auto simp: rebase_check_def v(1) bindA_def)
  next
    case (Inr verdict)
    then have "verdict \<noteq> 0" using run_verify_nonzero [OF v(2)] rv by metis
    then have k: "K verdict w1 = (r, w')"
      using assms(6) rv Inr by (simp add: rebase_check_def v(1) bindA_def [of "run_verify _ _ _"] K_def)
    have "keeps P (K verdict)"
      unfolding K_def by (intro keeps_intros keeps_git P) simp_all
    then have "P w'" using k w1 by (simp add: keeps_def) (metis snd_conv)
    moreover have "r \<noteq> Inr (Inr ()) \<and> r \<noteq> Inr (Inl 0)"
      using k \<open>verdict \<noteq> 0\<close> by (auto simp: K_def bindA_Inr split: if_splits)
    ultimately show ?thesis by simp
  qed
qed

text \<open>
  The landing branch only ever moves to a verified commit: when the verify command fails on the
  rebased candidate, whatever it does to the checkout, the rebase does not succeed and leaves every
  property that only \<^verbatim>\<open>git checkout -B\<close> of that branch could change - such as where the branch
  points - as it was.\<close>

theorem failed_verify_keeps_branch:
  assumes "rebase_verify args = Some (c # cs)" "\<And>w. fst (shell os (c # cs) w) \<noteq> 0"
    and "git_text os w [''rev-parse'', ''--abbrev-ref'', ''HEAD''] = Inr branch"
    and "\<And>cmd w. P w \<Longrightarrow> cmd \<noteq> [''checkout'', ''-q'', ''-B'', branch] \<Longrightarrow> P (snd (git_change os cmd w))"
    and "\<And>w. P w \<Longrightarrow> P (snd (shell os (c # cs) w))"
    and "P w" "cmd_rebase os args w = (r, w')"
  shows "P w' \<and> r \<noteq> Inr 0"
proof -
  define rest where "rest = (\<lambda>before (r :: int + unit). case r of Inl code \<Rightarrow> pureA (Inr code)
      | Inr u \<Rightarrow> bindA (rebase_check os args branch) (\<lambda>v. case v of Inl code \<Rightarrow> pureA (Inr code)
          | Inr u \<Rightarrow> move_branch os branch before))"
  have rest: "P w2 \<and> r \<noteq> Inr 0" if d: "bindA (rebase_detached os target) (rest before) w = (r, w2)" for target before w2
  proof -
    obtain rd w1 where rd: "rebase_detached os target w = (rd, w1)" by fastforce
    have w1: "P w1" using keeps_detached [of P branch os target] assms(4, 6) rd
      by (simp add: keeps_def) (metis snd_conv)
    consider e where "rd = Inl e" | code where "rd = Inr (Inl code)" | "rd = Inr (Inr ())"
      by (cases rd; cases "projr rd") auto
    then show ?thesis
    proof cases
      case 1
      then show ?thesis using d rd w1 by (auto simp: bindA_def)
    next
      case 2
      then have "code = 3" using detached_code rd by metis
      then show ?thesis using d rd w1 2 by (auto simp: bindA_def rest_def pureA_def)
    next
      case 3
      obtain rc w3 where rc: "rebase_check os args branch w1 = (rc, w3)" by fastforce
      have "P w3 \<and> rc \<noteq> Inr (Inr ()) \<and> rc \<noteq> Inr (Inl 0)"
        by (rule failing_check [OF assms(1, 2, 4, 5) w1 rc])
      then show ?thesis using d rd 3 rc
        by (cases rc; cases "projr rc") (auto simp: bindA_def rest_def pureA_def)
    qed
  qed
  show ?thesis
    using assms(3, 6, 7) rest [unfolded rest_def] unfolding cmd_rebase_def bindA_queryA
    by (auto simp: pureA_def split: sum.splits if_splits)
qed

definition sample_rebase :: rebase_args where
  "sample_rebase = \<lparr>rebase_target = ''main'', rebase_verify = Some ''make check'', rebase_agent = None, rebase_io_root = None\<rparr>"

theorem failed_verify_keeps_branch_witness:
  "fst (cmd_rebase sample_os sample_rebase ''old'') \<noteq> Inr 0"
proof -
  obtain r w' where c: "cmd_rebase sample_os sample_rebase ''old'' = (r, w')" by fastforce
  have "git_text sample_os ''old'' [''rev-parse'', ''--abbrev-ref'', ''HEAD''] = Inr ''land''" by code_simp
  moreover have "rebase_verify sample_rebase = Some (CHR ''m'' # ''ake check'')" by (simp add: sample_rebase_def)
  moreover have "fst (shell sample_os c w) \<noteq> 0" for c w by (simp add: sample_os_def)
  ultimately show ?thesis
    using failed_verify_keeps_branch [of sample_rebase "CHR ''m''" "''ake check''" sample_os "''old''" "''land''" "\<lambda>_. True"] c
    by simp
qed

end
