(* ===== verification/RelayTicket.thy ===== *)
theory RelayTicket
  imports RelayGate
begin

text \<open>
  \<^verbatim>\<open>tools/agents/relay.py\<close>, the ticket ledger: an append-only list of records per effort, from
  which the status line and the evidence block of an issue file are rendered. A line of the ledger is
  blank, or the JSON value of its text, or text that is not JSON.
\<close>

section \<open>Identifiers\<close>

definition LEDGER_START :: string where
  "LEDGER_START = ''<!-- relay-ticket-ledger:start -->''"

definition LEDGER_END :: string where
  "LEDGER_END = ''<!-- relay-ticket-ledger:end -->''"

fun index_of :: "'a \<Rightarrow> 'a list \<Rightarrow> nat option" where
  "index_of x [] = None"
| "index_of x (y # ys) = (if y = x then Some 0 else map_option Suc (index_of x ys))"

definition ticket_effort_root :: "ppath \<Rightarrow> ppath res" where
  \<comment> \<open>of the resolved path of the issue, which is absolute\<close>
  "ticket_effort_root issue =
     (case index_of ''.scratch'' (names issue) of
        None \<Rightarrow> Inl (RelayError ''{} is not under .scratch/<effort>'' [JStr (path_text issue)])
      | Some i \<Rightarrow>
          if length (names issue) \<le> i + 1
          then Inl (RelayError ''{} is not under .scratch/<effort>'' [JStr (path_text issue)])
          else Inr (PPath (anchor_of issue) (take (i + 2) (names issue))))"

definition ticket_record_id :: "ppath \<Rightarrow> ppath \<Rightarrow> string res" where
  "ticket_record_id issue effort =
     (if relative_to issue effort
      then Inr (path_text (PPath Rel (drop (length (names effort)) (names issue))))
      else Inl (RelayError ''{} is not inside {}'' [JStr (path_text issue), JStr (path_text effort)]))"

definition ticket_agent :: "env \<Rightarrow> string" where
  "ticket_agent env = or_else (agent_var env) (or_else (user_var env) ''unknown'')"

definition replace_char :: "char \<Rightarrow> string \<Rightarrow> string \<Rightarrow> string" where
  "replace_char c r s = concat (map (\<lambda>x. if x = c then r else [x]) s)"

definition normalize_evidence :: "string \<Rightarrow> string" where
  "normalize_evidence s =
     join '' '' (words_of (replace_char lf [char_of (92::nat), CHR ''n'']
       (replace_char cr [char_of (92::nat), CHR ''r''] s)))"

definition alpha :: "char \<Rightarrow> bool" where
  "alpha c = (let n = (of_char c :: nat) in (65 \<le> n \<and> n \<le> 90) \<or> (97 \<le> n \<and> n \<le> 122))"

definition valid_status :: "string \<Rightarrow> bool" where
  \<comment> \<open>\<^verbatim>\<open>STATUS_RE.fullmatch\<close>\<close>
  "valid_status s = (case s of [] \<Rightarrow> False | c # cs \<Rightarrow> alpha c \<and> list_all safe_char cs)"

section \<open>The ledger\<close>

datatype ledger_line = Blank | NotJson | Record json

fun read_ledger :: "nat \<Rightarrow> ledger_line list \<Rightarrow> dict list res" where
  "read_ledger n [] = Inr []"
| "read_ledger n (Blank # ls) = read_ledger (Suc n) ls"
| "read_ledger n (NotJson # ls) = Inl (RelayError ''ledger line {} is not valid JSON: {}'' [JInt (int n)])"
| "read_ledger n (Record v # ls) =
     bindE (read_ledger (Suc n) ls) (\<lambda>entries. Inr (case v of JObj d \<Rightarrow> d # entries | _ \<Rightarrow> entries))"

definition is_record :: "string \<Rightarrow> string \<Rightarrow> dict \<Rightarrow> bool" where
  "is_record ticket kind entry = (dget entry ''ticket'' = JStr ticket \<and> dget entry ''type'' = JStr kind)"

definition latest_ticket_status :: "(json \<Rightarrow> string) \<Rightarrow> dict list \<Rightarrow> string \<Rightarrow> string option" where
  "latest_ticket_status str entries ticket =
     (case List.find (is_record ticket ''status'') (rev entries) of
        None \<Rightarrow> None
      | Some entry \<Rightarrow>
          (case dget entry ''status'' of JNull \<Rightarrow> None | JStr s \<Rightarrow> Some s | v \<Rightarrow> Some (str v)))"

definition ticket_evidence :: "dict list \<Rightarrow> string \<Rightarrow> dict list" where
  "ticket_evidence entries ticket = filter (is_record ticket ''evidence'') entries"

section \<open>Rendering\<close>

definition status_line :: "string \<Rightarrow> string \<Rightarrow> string" where
  "status_line status line = ''Status: '' @ status @ (if endswith line [lf] then [lf] else [])"

fun replace_first_status :: "string \<Rightarrow> string list \<Rightarrow> string list option" where
  "replace_first_status status [] = None"
| "replace_first_status status (line # ls) =
     (if startswith line ''Status:'' then Some (status_line status line # ls)
      else map_option (\<lambda>r. line # r) (replace_first_status status ls))"

definition replace_status_line :: "string \<Rightarrow> string option \<Rightarrow> string res" where
  "replace_status_line content status =
     (case status of
        None \<Rightarrow> Inr content
      | Some s \<Rightarrow>
          (case replace_first_status s (splitlines True content) of
             None \<Rightarrow> Inl (RelayError ''ticket file has no Status: line'' [])
           | Some ls \<Rightarrow> Inr (concat ls)))"

definition str_field :: "(json \<Rightarrow> string) \<Rightarrow> dict \<Rightarrow> string \<Rightarrow> string \<Rightarrow> string" where
  \<comment> \<open>\<^verbatim>\<open>str(entry.get(k, default))\<close>\<close>
  "str_field str entry k dflt =
     (case map_of entry k of None \<Rightarrow> dflt | Some (JStr s) \<Rightarrow> s | Some v \<Rightarrow> str v)"

definition evidence_line :: "(json \<Rightarrow> string) \<Rightarrow> dict \<Rightarrow> string" where
  "evidence_line str entry =
     ''- '' @ str_field str entry ''written_utc'' ''?'' @ '' ['' @ str_field str entry ''agent'' ''unknown'' @ ''] ''
     @ normalize_evidence (str_field str entry ''evidence'' [])"

definition evidence_block :: "(json \<Rightarrow> string) \<Rightarrow> dict list \<Rightarrow> string" where
  "evidence_block str evidence =
     join [lf] ([LEDGER_START, ''## Evidence (ledger)'', []] @ map (evidence_line str) evidence @ [LEDGER_END])"

text \<open>\<^verbatim>\<open>(?m)^## Comments\b\<close>: at the start of a line, and not inside a longer word.\<close>

definition word_char :: "char \<Rightarrow> bool" where
  "word_char c = (let n = (of_char c :: nat) in
     (48 \<le> n \<and> n \<le> 57) \<or> (65 \<le> n \<and> n \<le> 90) \<or> n = 95 \<or> (97 \<le> n \<and> n \<le> 122)
     \<or> n = 170 \<or> n = 178 \<or> n = 179 \<or> n = 181 \<or> n = 185 \<or> n = 186 \<or> (188 \<le> n \<and> n \<le> 190)
     \<or> (192 \<le> n \<and> n \<noteq> 215 \<and> n \<noteq> 247))"

definition comments_here :: "string \<Rightarrow> bool" where
  "comments_here s =
     (startswith s ''## Comments'' \<and> (case drop 11 s of [] \<Rightarrow> True | c # cs \<Rightarrow> \<not> word_char c))"

fun find_comments :: "bool \<Rightarrow> string \<Rightarrow> nat option" where
  "find_comments line_start [] = None"
| "find_comments line_start (c # cs) =
     (if line_start \<and> comments_here (c # cs) then Some 0
      else map_option Suc (find_comments (c = lf) cs))"

definition with_newline :: "string \<Rightarrow> string" where
  "with_newline s = (if endswith s [lf] then s else s @ [lf])"

definition render_evidence_block :: "(json \<Rightarrow> string) \<Rightarrow> string \<Rightarrow> dict list \<Rightarrow> string res" where
  "render_evidence_block str content evidence =
     (let block = evidence_block str evidence in
      case find_first LEDGER_START content of
        Some start \<Rightarrow>
          (case find_from content LEDGER_END start of
             None \<Rightarrow> Inl (RelayError ''ticket file has {} without {}'' [JStr LEDGER_START, JStr LEDGER_END])
           | Some e \<Rightarrow> Inr (take start content @ block @ drop (e + length LEDGER_END) content))
      | None \<Rightarrow>
          (case find_comments True content of
             Some i \<Rightarrow> Inr (with_newline (take i content) @ [lf] @ block @ [lf, lf] @ drop i content)
           | None \<Rightarrow>
               Inr ((if content \<noteq> [] then with_newline content else []) @ [lf] @ block @ [lf])))"

definition render_ticket :: "(json \<Rightarrow> string) \<Rightarrow> string option \<Rightarrow> dict list \<Rightarrow> string \<Rightarrow> string res" where
  \<comment> \<open>the text of the issue file afterwards; it is rewritten only when it differs\<close>
  "render_ticket str issue entries ticket =
     (case issue of
        None \<Rightarrow> Inl (RelayError ''ticket file does not exist: {}'' [JStr ticket])
      | Some content \<Rightarrow>
          bindE (replace_status_line content (latest_ticket_status str entries ticket)) (\<lambda>t.
          render_evidence_block str t (ticket_evidence entries ticket)))"

section \<open>The commands\<close>

record tracker_files =
  ledger :: "ledger_line list"
  issue_text :: "string option"

text \<open>The record is in the ledger before the issue is rendered, also when the rendering fails.\<close>

definition append_ticket_record ::
  "(json \<Rightarrow> string) \<Rightarrow> string \<Rightarrow> dict \<Rightarrow> tracker_files \<Rightarrow> unit res \<times> tracker_files" where
  "append_ticket_record str ticket entry fs =
     (let fs' = fs\<lparr>ledger := ledger fs @ [Record (JObj entry)]\<rparr> in
      case bindE (read_ledger 1 (ledger fs')) (\<lambda>entries. render_ticket str (issue_text fs') entries ticket) of
        Inl e \<Rightarrow> (Inl e, fs')
      | Inr content \<Rightarrow> (Inr (), fs'\<lparr>issue_text := Some content\<rparr>))"

definition ticket_command ::
  "(json \<Rightarrow> string) \<Rightarrow> env \<Rightarrow> ppath \<Rightarrow> string \<Rightarrow> string \<Rightarrow> string \<Rightarrow> string \<Rightarrow> tracker_files
    \<Rightarrow> unit res \<times> tracker_files" where
  "ticket_command str env issue kind field value now fs =
     (case bindE (ticket_effort_root issue) (ticket_record_id issue) of
        Inl e \<Rightarrow> (Inl e, fs)
      | Inr ticket \<Rightarrow>
          append_ticket_record str ticket
            [(''type'', JStr kind), (''ticket'', JStr ticket), (field, JStr value),
             (''agent'', JStr (ticket_agent env)), (''written_utc'', JStr now)] fs)"

definition cmd_ticket_set ::
  "(json \<Rightarrow> string) \<Rightarrow> env \<Rightarrow> ppath \<Rightarrow> string \<Rightarrow> string \<Rightarrow> tracker_files \<Rightarrow> unit res \<times> tracker_files" where
  "cmd_ticket_set str env issue status now fs =
     (if \<not> valid_status status
      then (Inl (RelayError ''invalid status {}; use a single label token'' [JStr status]), fs)
      else ticket_command str env issue ''status'' ''status'' status now fs)"

definition cmd_ticket_note ::
  "(json \<Rightarrow> string) \<Rightarrow> env \<Rightarrow> ppath \<Rightarrow> string \<Rightarrow> string \<Rightarrow> tracker_files \<Rightarrow> unit res \<times> tracker_files" where
  "cmd_ticket_note str env issue note now fs =
     (if strip note = [] then (Inl (RelayError ''--evidence must not be empty'' []), fs)
      else ticket_command str env issue ''evidence'' ''evidence'' (strip note) now fs)"

end
