(* ===== verification/RelayTicketRun.thy ===== *)
theory RelayTicketRun
  imports RelayTicket LeaseSample
begin

text \<open>
  What the ticket ledger promises: the evidence block of an issue is replaced in place and the rest
  of the file stays, unless a note quotes the marker that closes the block; a status that was set
  is the status the ledger then holds.\<close>

section \<open>Finding a marker that does not overlap itself\<close>

lemma prefix_before:
  "prefix n (A @ c # X) \<Longrightarrow> c \<notin> set n \<Longrightarrow> prefix n A"
proof (induction n arbitrary: A)
  case (Cons d n)
  show ?case
  proof (cases A)
    case Nil
    then show ?thesis using Cons.prems by simp
  next
    case (Cons a B)
    then show ?thesis using Cons.IH [of B] Cons.prems by simp
  qed
qed simp

lemma find_first_skip:
  "find_first (c # n) A = None \<Longrightarrow> c \<notin> set n \<Longrightarrow>
    find_first (c # n) (A @ c # X) = map_option ((+) (length A)) (find_first (c # n) (c # X))"
proof (induction A)
  case (Cons a A)
  have p: "\<not> prefix (c # n) (a # A @ c # X)"
  proof
    assume "prefix (c # n) (a # A @ c # X)"
    then have "c = a" "prefix n A" using Cons.prems(2) prefix_before by auto
    then show False using Cons.prems(1) by simp
  qed
  have "find_first (c # n) A = None" using Cons.prems(1) by (auto split: if_splits)
  then have "find_first (c # n) ((a # A) @ c # X) =
      map_option Suc (map_option ((+) (length A)) (find_first (c # n) (c # X)))"
    using Cons.IH [OF _ Cons.prems(2)] p by (simp only: append_Cons find_first.simps(2) [of "c # n" a "A @ c # X"] if_False)
  then show ?case by (simp only: option.map_comp comp_def length_Cons add_Suc)
qed (simp add: option.map_comp comp_def)

lemma find_first_here:
  assumes "find_first (c # n) A = None" "c \<notin> set n"
  shows "find_first (c # n) (A @ (c # n) @ B) = Some (length A)"
proof -
  have "find_first (c # n) (c # n @ B) = Some 0" by simp
  then show ?thesis using find_first_skip [OF assms, of "n @ B"] by simp
qed

lemma find_first_line:
  "find_first needle l = None \<Longrightarrow> find_first needle X = None \<Longrightarrow> c \<notin> set needle \<Longrightarrow>
    find_first needle (l @ c # X) = None"
proof (induction l)
  case Nil
  then show ?case by (cases needle) auto
next
  case (Cons a l)
  have "\<not> prefix needle ((a # l) @ c # X)"
    using Cons.prems(1,3) prefix_before [of needle "a # l" c X] by (auto simp del: append_Cons split: if_splits)
  then show ?case using Cons by (auto split: if_splits)
qed

lemma find_first_lines:
  "(\<And>l. l \<in> set ls \<Longrightarrow> find_first needle l = None) \<Longrightarrow> c \<notin> set needle \<Longrightarrow> needle \<noteq> [] \<Longrightarrow>
    find_first needle (concat (map (\<lambda>l. l @ [c]) ls)) = None"
  by (induction ls) (auto intro!: find_first_line)

lemma find_first_append_some:
  "find_first needle l = Some i \<Longrightarrow> \<exists>j. find_first needle (l @ X) = Some j \<and> j \<le> i"
proof (induction l arbitrary: i)
  case Nil
  then show ?case by (cases X) (auto split: if_splits)
next
  case (Cons a l)
  show ?case
  proof (cases "prefix needle (a # l @ X)")
    case False
    then have "\<not> prefix needle (a # l)" by (metis append_Cons append_prefixD append.assoc prefix_def)
    then obtain k where "find_first needle l = Some k" "i = Suc k" using Cons.prems by auto
    then show ?thesis using Cons.IH False by (metis (no_types) append_Cons find_first.simps(2) not_less_eq_eq option.simps(9))
  qed auto
qed

lemma find_first_le_length:
  "find_first needle s = Some i \<Longrightarrow> i + length needle \<le> length s"
  using find_first_le [of needle s i] by (auto simp: find_first_spec dest!: prefix_length_le)

lemma find_first_before:
  "find_first needle (A @ X) = None \<Longrightarrow> find_first needle A = None"
proof (cases "find_first needle A")
  case (Some i)
  assume "find_first needle (A @ X) = None"
  then show ?thesis using find_first_append_some [OF Some, of X] by auto
qed simp

lemma find_first_take: "find_first needle s = Some i \<Longrightarrow> needle \<noteq> [] \<Longrightarrow> find_first needle (take i s) = None"
proof (induction s arbitrary: i)
  case (Cons a s)
  show ?case
  proof (cases "prefix needle (a # s)")
    case False
    then obtain k where k: "find_first needle s = Some k" "i = Suc k" using Cons.prems by auto
    have "\<not> prefix needle (a # take k s)" using False by (metis prefix_order.trans take_Suc_Cons take_is_prefix)
    then show ?thesis using Cons k by simp
  qed (use Cons in auto)
qed simp

section \<open>The evidence block\<close>

definition block_lines :: "(json \<Rightarrow> string) \<Rightarrow> dict list \<Rightarrow> string list" where
  "block_lines str evidence = [LEDGER_START, ''## Evidence (ledger)'', []] @ map (evidence_line str) evidence"

definition block_front :: "(json \<Rightarrow> string) \<Rightarrow> dict list \<Rightarrow> string" where
  "block_front str evidence = concat (map (\<lambda>l. l @ [lf]) (block_lines str evidence))"

lemma join_snoc: "join sep (xs @ [x]) = concat (map (\<lambda>l. l @ sep) xs) @ x"
proof (induction xs)
  case (Cons a xs)
  then show ?case by (cases xs) auto
qed simp

lemma evidence_block_front: "evidence_block str ev = block_front str ev @ LEDGER_END"
  unfolding evidence_block_def block_front_def block_lines_def append_assoc [symmetric] by (rule join_snoc)

lemma no_lf [simp]: "lf \<notin> set LEDGER_START" "lf \<notin> set LEDGER_END"
  by code_simp+

lemma markers:
  "LEDGER_START = CHR ''<'' # tl LEDGER_START" "CHR ''<'' \<notin> set (tl LEDGER_START)"
  "LEDGER_END = CHR ''<'' # tl LEDGER_END" "CHR ''<'' \<notin> set (tl LEDGER_END)"
  by (simp_all add: LEDGER_START_def LEDGER_END_def)

lemma marker_not_Nil [simp]: "LEDGER_START \<noteq> []" "LEDGER_END \<noteq> []"
  by (simp_all add: LEDGER_START_def LEDGER_END_def)

lemmas start_here = find_first_here [OF _ markers(2), folded markers(1)]
lemmas end_here = find_first_here [OF _ markers(4), folded markers(3)]

lemma block_start: "\<exists>rest. evidence_block str ev = LEDGER_START @ rest"
  by (simp add: evidence_block_def)

lemma start_of_block:
  "find_first LEDGER_START A = None \<Longrightarrow> find_first LEDGER_START (A @ evidence_block str ev @ B) = Some (length A)"
  using block_start [of str ev] start_here [of A] by (metis append_assoc)

definition quiet :: "(json \<Rightarrow> string) \<Rightarrow> dict list \<Rightarrow> bool" where
  \<comment> \<open>no evidence line quotes the marker that closes the block\<close>
  "quiet str ev = (\<forall>entry\<in>set ev. find_first LEDGER_END (evidence_line str entry) = None)"

lemma header_quiet:
  "find_first LEDGER_END LEDGER_START = None" "find_first LEDGER_END ''## Evidence (ledger)'' = None"
  "find_first LEDGER_END [] = None"
  by (simp_all add: LEDGER_START_def LEDGER_END_def)

lemma front_quiet: "quiet str ev \<Longrightarrow> find_first LEDGER_END (block_front str ev) = None"
  unfolding block_front_def block_lines_def
  by (rule find_first_lines) (use header_quiet in \<open>auto simp: quiet_def\<close>)

lemma end_of_block:
  "quiet str ev \<Longrightarrow> find_first LEDGER_END (evidence_block str ev @ B) = Some (length (block_front str ev))"
  using end_here [OF front_quiet] by (simp add: evidence_block_front)

lemma header_None: "find_first LEDGER_START [] = None" "find_first LEDGER_START [lf] = None"
  using find_first_line [of LEDGER_START "[]" "[]" lf] by auto

lemma render_shape:
  assumes "render_evidence_block str content ev = Inr r"
  obtains A B where "r = A @ evidence_block str ev @ B" "find_first LEDGER_START A = None"
    "find_first LEDGER_START content = None \<Longrightarrow> \<exists>i. prefix (take i content) A \<and> suffix (drop i content) B"
    "\<And>i. find_first LEDGER_START content = Some i \<Longrightarrow> A = take i content \<and> suffix B content"
proof (cases "find_first LEDGER_START content")
  case (Some i)
  obtain e where e: "find_from content LEDGER_END i = Some e"
    "r = take i content @ evidence_block str ev @ drop (e + length LEDGER_END) content"
    using assms Some by (auto simp: render_evidence_block_def Let_def split: option.splits)
  show thesis
    by (rule that [of "take i content" "drop (e + length LEDGER_END) content"])
       (use Some e find_first_take [OF Some] in \<open>auto simp: suffix_drop\<close>)
next
  case None
  have nl: "find_first LEDGER_START (p @ [lf]) = None" "find_first LEDGER_START (with_newline p @ [lf]) = None"
    if "find_first LEDGER_START p = None" for p
    using find_first_line [OF that, of "[]" lf] find_first_line [OF that, of "[lf]" lf] header_None
    by (auto simp: with_newline_def)
  have pre: "find_first LEDGER_START (take i content) = None" for i
    using find_first_before [of LEDGER_START "take i content" "drop i content"] None by simp
  show thesis
  proof (cases "find_comments True content")
    case (Some i)
    have "r = (with_newline (take i content) @ [lf]) @ evidence_block str ev @ [lf, lf] @ drop i content"
      using assms None Some by (simp add: render_evidence_block_def Let_def)
    then show thesis
      using that nl(2) [OF pre, of i] None by (metis (no_types) option.distinct(1) append_assoc prefixI suffixI with_newline_def)
  next
    case none: None
    have "r = ((if content \<noteq> [] then with_newline content else []) @ [lf]) @ evidence_block str ev @ [lf]"
      using assms None none by (simp add: render_evidence_block_def Let_def)
    moreover have "find_first LEDGER_START ((if content \<noteq> [] then with_newline content else []) @ [lf]) = None"
      using nl [OF None] header_None by auto
    moreover have "prefix content ((if content \<noteq> [] then with_newline content else []) @ [lf])"
      by (auto simp: with_newline_def)
    ultimately show thesis using that None by (metis option.distinct(1) drop_all order_refl take_all suffix_bot.bot_least Sublist.Nil_suffix)
  qed
qed
lemma render_over:
  assumes "find_first LEDGER_START A = None"
    and "find_first LEDGER_END (evidence_block str ev @ B) = Some n"
  shows "render_evidence_block str (A @ evidence_block str ev @ B) ev' =
    Inr (A @ evidence_block str ev' @ drop (n + length LEDGER_END) (evidence_block str ev @ B))"
  using start_of_block [OF assms(1), of str ev B] assms(2)
  by (simp add: render_evidence_block_def Let_def find_from_def add.assoc)

text \<open>
  An issue file keeps one evidence block, and everything else in it. Rendering the evidence
  gives a file \<open>A @ block @ B\<close>; where the file had no block yet, its own text is a beginning of
  \<open>A\<close> and an end of \<open>B\<close>, cut at one place. As long as no evidence line quotes the closing marker,
  rendering any later evidence into that file replaces exactly the block, so rendering the same
  evidence twice changes nothing.
\<close>

theorem evidence_block_replaced:
  assumes "render_evidence_block str content ev = Inr r" and "quiet str ev"
  shows "\<exists>A B. r = A @ evidence_block str ev @ B
    \<and> (\<forall>ev'. render_evidence_block str r ev' = Inr (A @ evidence_block str ev' @ B))
    \<and> (find_first LEDGER_START content = None \<longrightarrow>
         (\<exists>i. prefix (take i content) A \<and> suffix (drop i content) B))"
proof -
  show ?thesis
  proof (rule render_shape [OF assms(1)])
    fix A B
    assume r: "r = A @ evidence_block str ev @ B" "find_first LEDGER_START A = None"
      and c: "find_first LEDGER_START content = None \<Longrightarrow> \<exists>i. prefix (take i content) A \<and> suffix (drop i content) B"
    have "\<forall>ev'. render_evidence_block str r ev' = Inr (A @ evidence_block str ev' @ B)"
      using render_over [OF r(2) end_of_block [OF assms(2)]] r(1) by (simp add: evidence_block_front)
    then show ?thesis using r(1) c by (intro exI [of _ A] exI [of _ B]) simp
  qed
qed

definition note_entry :: "string \<Rightarrow> dict" where
  "note_entry s = [(''type'', JStr ''evidence''), (''ticket'', JStr ''t''), (''evidence'', JStr s),
     (''agent'', JStr ''a''), (''written_utc'', JStr ''z'')]"

lemma sample_note: "evidence_line (\<lambda>_. []) (note_entry ''ok'') = ''- z [a] ok''"
  by code_simp

lemma sample_quiet: "quiet (\<lambda>_. []) [note_entry ''ok'']"
  by (simp add: quiet_def sample_note) (simp add: LEDGER_END_def)

lemma sample_render:
  "render_evidence_block str ''Status: open'' ev = Inr (''Status: open'' @ [lf, lf] @ evidence_block str ev @ [lf])"
proof -
  have "find_first LEDGER_START ''Status: open'' = None" "find_comments True ''Status: open'' = None"
    "\<not> endswith ''Status: open'' [lf]"
    by code_simp+
  then show ?thesis by (simp del: find_first.simps find_comments.simps add: render_evidence_block_def Let_def with_newline_def)
qed

lemma evidence_block_replaced_witness:
  "\<exists>A B. ''Status: open'' @ [lf, lf] @ evidence_block (\<lambda>_. []) [note_entry ''ok''] @ [lf]
       = A @ evidence_block (\<lambda>_. []) [note_entry ''ok''] @ B
     \<and> (\<forall>ev'. render_evidence_block (\<lambda>_. [])
          (''Status: open'' @ [lf, lf] @ evidence_block (\<lambda>_. []) [note_entry ''ok''] @ [lf]) ev'
          = Inr (A @ evidence_block (\<lambda>_. []) ev' @ B))"
  using evidence_block_replaced [OF sample_render sample_quiet] by blast

lemma loud_block:
  assumes "\<not> quiet str ev"
  shows "\<exists>n. find_first LEDGER_END (evidence_block str ev @ B) = Some n \<and> n < length (block_front str ev)"
proof -
  obtain entry i where e: "entry \<in> set ev" "find_first LEDGER_END (evidence_line str entry) = Some i"
    using assms by (auto simp: quiet_def)
  then obtain xs ys where ev: "ev = xs @ entry # ys" by (meson split_list)
  define P where "P = concat (map (\<lambda>l. l @ [lf]) ([LEDGER_START, ''## Evidence (ledger)'', []] @ map (evidence_line str) xs))"
  define Q where "Q = evidence_line str entry @ [lf]"
  define R where "R = concat (map (\<lambda>l. l @ [lf]) (map (evidence_line str) ys))"
  have front: "block_front str ev = P @ Q @ R"
    by (simp add: block_front_def block_lines_def ev P_def Q_def R_def)
  obtain a b where line: "evidence_line str entry = a @ LEDGER_END @ b"
    using e(2) by (metis append_take_drop_id find_first_spec prefixE)
  have "prefix LEDGER_END (drop (length P + length a) (block_front str ev @ X))" for X
    by (simp add: front Q_def line)
  then have p: "prefix LEDGER_END (drop (length P + length a) (evidence_block str ev @ B))"
    unfolding evidence_block_front append_assoc .
  have less: "length P + length a < length (block_front str ev)" by (simp add: front Q_def line)
  have "find_first LEDGER_END (evidence_block str ev @ B) \<noteq> None"
    using p less by (auto simp: find_first_None evidence_block_front intro!: exI [of _ "length P + length a"])
  then obtain n where n: "find_first LEDGER_END (evidence_block str ev @ B) = Some n" by blast
  then have "n \<le> length P + length a" using p by (meson find_first_spec not_le)
  then show ?thesis using n less by auto
qed

text \<open>
  A note that quotes the closing marker breaks the block: rendering the same evidence again
  finds the quoted marker first, keeps the rest of the old block below the new one, and the issue
  file grows with every later ledger command. \<^verbatim>\<open>normalize_evidence\<close> does not escape the marker.
\<close>

theorem quoted_marker_grows:
  assumes "render_evidence_block str content ev = Inr r" and "\<not> quiet str ev"
  shows "\<exists>r'. render_evidence_block str r ev = Inr r' \<and> length r < length r'"
proof -
  obtain A B where r: "r = A @ evidence_block str ev @ B" "find_first LEDGER_START A = None"
    using render_shape [OF assms(1)] by metis
  obtain n where n: "find_first LEDGER_END (evidence_block str ev @ B) = Some n" "n < length (block_front str ev)"
    using loud_block [OF assms(2)] by blast
  show ?thesis using render_over [OF r(2) n(1), of ev] n(2) by (simp add: r(1) evidence_block_front)
qed

lemma quoted_marker: "evidence_line (\<lambda>_. []) (note_entry LEDGER_END) = ''- z [a] '' @ LEDGER_END"
  by code_simp

lemma quoted_marker_grows_witness:
  "\<exists>r'. render_evidence_block (\<lambda>_. [])
     (''Status: open'' @ [lf, lf] @ evidence_block (\<lambda>_. []) [note_entry LEDGER_END] @ [lf]) [note_entry LEDGER_END] = Inr r'
     \<and> length (''Status: open'' @ [lf, lf] @ evidence_block (\<lambda>_. []) [note_entry LEDGER_END] @ [lf]) < length r'"
proof -
  have "\<not> quiet (\<lambda>_. []) [note_entry LEDGER_END]"
    by (simp add: quiet_def quoted_marker) (simp add: LEDGER_END_def)
  then show ?thesis by (rule quoted_marker_grows [OF sample_render])
qed

section \<open>Statuses\<close>

lemma read_ledger_append:
  "read_ledger n (ls @ [Record (JObj d)]) = Inr entries \<Longrightarrow> \<exists>es. entries = es @ [d]"
  by (induction n ls arbitrary: entries rule: read_ledger.induct)
     (auto simp: bindE_def split: sum.splits json.splits)

text \<open>
  The status set last is the one the ledger holds: when \<^verbatim>\<open>ticket set\<close> succeeds, the ledger has
  grown by exactly one record, all of it can be read, the ticket's latest status is the one that
  was given, and the issue file is the old one rendered from that ledger.
\<close>

theorem ticket_set_wins:
  assumes "cmd_ticket_set str env issue status now fs = (Inr (), fs')"
  shows "\<exists>ticket entries record content.
    bindE (ticket_effort_root issue) (ticket_record_id issue) = Inr ticket
    \<and> ledger fs' = ledger fs @ [record]
    \<and> read_ledger 1 (ledger fs') = Inr entries
    \<and> latest_ticket_status str entries ticket = Some status
    \<and> render_ticket str (issue_text fs) entries ticket = Inr content \<and> issue_text fs' = Some content"
proof -
  obtain ticket where t: "bindE (ticket_effort_root issue) (ticket_record_id issue) = Inr ticket"
    using assms by (auto simp: cmd_ticket_set_def ticket_command_def split: if_splits sum.splits)
  define d where "d = [(''type'', JStr ''status''), (''ticket'', JStr ticket), (''status'', JStr status),
             (''agent'', JStr (ticket_agent env)), (''written_utc'', JStr now)]"
  have ap: "append_ticket_record str ticket d fs = (Inr (), fs')"
    using assms t by (auto simp: cmd_ticket_set_def ticket_command_def d_def split: if_splits)
  then obtain entries content where e: "read_ledger 1 (ledger fs @ [Record (JObj d)]) = Inr entries"
    "render_ticket str (issue_text fs) entries ticket = Inr content"
    "fs' = fs\<lparr>ledger := ledger fs @ [Record (JObj d)], issue_text := Some content\<rparr>"
    by (auto simp: append_ticket_record_def Let_def bindE_def split: sum.splits)
  obtain es where es: "entries = es @ [d]" using read_ledger_append [OF e(1)] by blast
  have "latest_ticket_status str entries ticket = Some status"
    by (simp add: latest_ticket_status_def es is_record_def d_def dget_def)
  then show ?thesis using t e by auto
qed
definition sample_set :: "unit res \<times> tracker_files" where
  "sample_set = cmd_ticket_set (\<lambda>_. []) sample_env (parse ''/r/.scratch/e/i.md'') ''done'' ''z''
     \<lparr>ledger = [Blank], issue_text = Some (''Status: open'' @ [lf])\<rparr>"

lemma sample_set_ends: "fst sample_set = Inr ()"
  by code_simp

lemma ticket_set_wins_witness:
  "\<exists>ticket entries. read_ledger 1 (ledger (snd sample_set)) = Inr entries
     \<and> latest_ticket_status (\<lambda>_. []) entries ticket = Some ''done''"
proof -
  have "sample_set = (Inr (), snd sample_set)" using sample_set_ends by (metis prod.collapse)
  then show ?thesis using ticket_set_wins unfolding sample_set_def by metis
qed

end
