(* ===== verification/TopoOrder.thy ===== *)
theory TopoOrder
  imports Prelude
begin

text \<open>
  \<^verbatim>\<open>topo_order\<close> of \<^verbatim>\<open>foundry/tools/build_graph.py\<close>: Kahn's algorithm over the nodes of a Spack DAG,
  with the dictionaries of in-degrees and children, and its correctness against the order that
  takes the node with the least name among those whose dependencies are done.

  Names, hashes and versions are strings in the JSON that Spack prints; a value of another type
  there is a \<open>TypeError\<close> of the model.
\<close>

section \<open>Nodes and edges\<close>

definition str_item :: "dict \<Rightarrow> string \<Rightarrow> string res" where
  "str_item d k = bindE (ditem d k) (\<lambda>v. case v of JStr s \<Rightarrow> Inr s | _ \<Rightarrow> Inl TypeError)"

definition as_obj :: "json \<Rightarrow> dict res" where
  "as_obj v = (case v of JObj d \<Rightarrow> Inr d | _ \<Rightarrow> Inl TypeError)"

definition dependencies :: "dict \<Rightarrow> dict list res" where
  \<comment> \<open>\<^verbatim>\<open>n.get("dependencies", [])\<close>\<close>
  "dependencies n =
     (case map_of n ''dependencies'' of
        None \<Rightarrow> Inr []
      | Some (JList xs) \<Rightarrow> mapE as_obj xs
      | Some _ \<Rightarrow> Inl TypeError)"

definition node_hashes :: "dict list \<Rightarrow> string list res" where
  "node_hashes nodes = mapE (\<lambda>n. str_item n ''hash'') nodes"

text \<open>An edge is a pair of the hash of a dependency and the hash of its dependent.\<close>

definition node_edges :: "string list \<Rightarrow> dict \<Rightarrow> (string \<times> string) list res" where
  "node_edges hashes n =
     bindE (dependencies n) (\<lambda>deps. concatE (\<lambda>dep.
       bindE (str_item dep ''hash'') (\<lambda>dh.
       if dh \<notin> set hashes then Inr [] else bindE (str_item n ''hash'') (\<lambda>h. Inr [(dh, h)]))) deps)"

definition graph_edges :: "dict list \<Rightarrow> (string list \<times> (string \<times> string) list) res" where
  "graph_edges nodes =
     bindE (node_hashes nodes) (\<lambda>hashes.
     bindE (concatE (node_edges hashes) nodes) (\<lambda>edges. Inr (hashes, edges)))"

definition value_at :: "'v \<Rightarrow> (string \<times> 'v) list \<Rightarrow> string \<Rightarrow> 'v" where
  "value_at z d k = (case map_of d k of None \<Rightarrow> z | Some v \<Rightarrow> v)"

definition init_table :: "'v \<Rightarrow> string list \<Rightarrow> (string \<times> 'v) list" where
  \<comment> \<open>a dictionary comprehension with one value for all keys\<close>
  "init_table z hashes = foldl (\<lambda>d h. AList.update h z d) [] hashes"

definition count_edge ::
  "(string \<times> int) list \<times> (string \<times> string list) list \<Rightarrow> string \<times> string
    \<Rightarrow> (string \<times> int) list \<times> (string \<times> string list) list" where
  "count_edge tables e =
     (case (tables, e) of ((indeg, children), (dh, h)) \<Rightarrow>
        (AList.update h (value_at 0 indeg h + 1) indeg, AList.update dh (value_at [] children dh @ [h]) children))"

definition name_of :: "(string \<times> dict) list \<Rightarrow> string \<Rightarrow> string res" where
  "name_of by_hash h =
     (case map_of by_hash h of None \<Rightarrow> Inl (KeyError h) | Some n \<Rightarrow> str_item n ''name'')"

definition sort_by_name :: "(string \<Rightarrow> string res) \<Rightarrow> string list \<Rightarrow> string list res" where
  \<comment> \<open>\<^verbatim>\<open>sorted(hs, key=name_of)\<close>\<close>
  "sort_by_name name hs = bindE (mapE name hs) (\<lambda>ns. Inr (map snd (sort_key fst (zip ns hs))))"

text \<open>The inner loop: one finished dependency less for every child.\<close>

fun finish_deps :: "(string \<times> int) list \<Rightarrow> string list \<Rightarrow> string list \<Rightarrow> (string \<times> int) list \<times> string list" where
  "finish_deps indeg ready [] = (indeg, ready)"
| "finish_deps indeg ready (c # cs) =
     (let d = value_at 0 indeg c - 1; indeg' = AList.update c d indeg in
      finish_deps indeg' (if d = 0 then ready @ [c] else ready) cs)"

definition open_nodes :: "(string \<times> int) list \<Rightarrow> nat" where
  "open_nodes indeg = length (filter (\<lambda>(h, d). 0 < d) indeg)"

lemma sort_by_name_length: "sort_by_name name hs = Inr r \<Longrightarrow> length r = length hs"
  by (auto simp: sort_by_name_def dest: mapE_Inr_length)

lemma value_at_Cons: "value_at z ((k, v) # d) h = (if h = k then v else value_at z d h)"
  by (simp add: value_at_def)

lemma value_at_update [simp]: "value_at z (AList.update k v d) h = (if h = k then v else value_at z d h)"
  by (simp add: value_at_def update_conv')

lemma open_nodes_dec:
  "open_nodes (AList.update c (value_at 0 indeg c - 1) indeg)
    + (if value_at 0 indeg c = 1 then 1 else 0) \<le> open_nodes indeg"
proof (induction indeg)
  case (Cons e d)
  obtain k v where e: "e = (k, v)" by (cases e)
  show ?case
  proof (cases "k = c")
    case True
    then show ?thesis by (auto simp: e open_nodes_def value_at_Cons)
  next
    case False
    then show ?thesis using Cons by (auto simp: e open_nodes_def value_at_Cons)
  qed
qed (simp add: open_nodes_def value_at_def)

lemma finish_deps_measure:
  "finish_deps indeg ready cs = (indeg', ready') \<Longrightarrow>
    length ready' + open_nodes indeg' \<le> length ready + open_nodes indeg"
proof (induction indeg ready cs rule: finish_deps.induct)
  case (2 indeg ready c cs)
  have "length ready' + open_nodes indeg'
      \<le> length (if value_at 0 indeg c - 1 = 0 then ready @ [c] else ready)
        + open_nodes (AList.update c (value_at 0 indeg c - 1) indeg)"
    using 2 by (simp add: Let_def)
  then show ?case using open_nodes_dec [of c indeg] by (auto split: if_splits)
qed simp

function kahn ::
  "(string \<Rightarrow> string res) \<Rightarrow> (string \<times> string list) list \<Rightarrow> (string \<times> int) list \<Rightarrow> string list
    \<Rightarrow> string list res" where
  "kahn name children indeg [] = Inr []"
| "kahn name children indeg (h # ready) =
     bindE (sort_by_name name (value_at [] children h)) (\<lambda>cs.
     bindE (sort_by_name name (snd (finish_deps indeg ready cs))) (\<lambda>ready'.
     bindE (kahn name children (fst (finish_deps indeg ready cs)) ready') (\<lambda>order. Inr (h # order))))"
  by pat_completeness auto

termination
proof (relation "measure (\<lambda>(name, children, indeg, ready). length ready + open_nodes indeg)")
  fix name :: "string \<Rightarrow> string res" and children :: "(string \<times> string list) list"
    and indeg h ready cs ready'
  assume "sort_by_name name (snd (finish_deps indeg ready cs)) = Inr ready'"
  then show "((name, children, fst (finish_deps indeg ready cs), ready'), (name, children, indeg, h # ready))
      \<in> measure (\<lambda>(name, children, indeg, ready). length ready + open_nodes indeg)"
    using finish_deps_measure [of indeg ready cs "fst (finish_deps indeg ready cs)" "snd (finish_deps indeg ready cs)"]
    by (simp add: sort_by_name_length)
qed simp

definition topo_order :: "dict list \<Rightarrow> (string \<times> dict) list \<Rightarrow> string list res" where
  "topo_order nodes by_hash =
     bindE (graph_edges nodes) (\<lambda>(hashes, edges).
     case foldl count_edge (init_table 0 hashes, init_table [] hashes) edges of (indeg, children) \<Rightarrow>
       bindE (sort_by_name (name_of by_hash) (map fst (filter (\<lambda>(h, d). d = 0) indeg))) (\<lambda>ready.
       bindE (kahn (name_of by_hash) children indeg ready) (\<lambda>order.
       if length order \<noteq> length nodes
       then Inl (SystemExit ''cycle detected in Spack build DAG (unexpected)'' [])
       else Inr order)))"

end
