(* ===== verification/SpackLock.thy ===== *)
theory SpackLock
  imports TopoOrder PosixPath "HOL-Library.Product_Lexorder"
begin

text \<open>
  \<^verbatim>\<open>foundry/tools/spack_to_bazel.py\<close>: the reduction of a concrete Spack DAG to the lock that Bazel
  reads, the native overrides that flip nodes to native providers, and the checks that guard them.

  The map of native overrides and the map of provided versions are dictionaries of strings. Sets
  are lists; a set that is sorted is \<open>sorted_set\<close>. A line of a report is a template with its
  arguments.
\<close>

section \<open>Names and overrides\<close>

type_synonym str_map = "(string \<times> string) list"
type_synonym report_line = "string \<times> json list"

definition sorted_set :: "'a :: linorder list \<Rightarrow> 'a list" where
  "sorted_set xs = sort (remdups xs)"

lemma set_sorted_set [simp]: "set (sorted_set xs) = set xs"
  by (simp add: sorted_set_def)

definition BUILD_ONLY_NODES :: "string list" where
  "BUILD_ONLY_NODES = [''compiler-wrapper'', ''gcc'', ''gmake'', ''gcc-runtime'', ''glibc'']"

definition CONSUME_DEPTYPES :: "string list" where
  "CONSUME_DEPTYPES = [''link'', ''run'']"

definition ODR_SENSITIVE_PROVIDER_FAMILIES :: str_map where
  "ODR_SENSITIVE_PROVIDER_FAMILIES =
     [(''abseil-cpp'', ''abseil-cpp''), (''boost'', ''boost''), (''grpc'', ''grpc''), (''grpc-cpp'', ''grpc''),
      (''py-grpcio'', ''grpc''), (''protobuf'', ''protobuf''), (''py-protobuf'', ''protobuf'')]"

definition ODR_SENSITIVE_PROVIDER_PACKAGES :: "string list" where
  "ODR_SENSITIVE_PROVIDER_PACKAGES =
     [''abseil-cpp'', ''boost'', ''grpc'', ''grpc-cpp'', ''protobuf'', ''py-grpcio'', ''py-protobuf'']"

definition repo_name :: "string \<Rightarrow> string" where
  "repo_name pkg = ''vaso_'' @ map (\<lambda>c. if c = CHR ''-'' then CHR ''_'' else c) pkg"

abbreviation at_version :: "string \<Rightarrow> string \<Rightarrow> string" where
  "at_version name version \<equiv> name @ ''@'' @ version"

definition native_override_key_for :: "string \<Rightarrow> string \<Rightarrow> str_map \<Rightarrow> string option" where
  "native_override_key_for name version overrides =
     (if map_of overrides (at_version name version) \<noteq> None then Some (at_version name version)
      else if map_of overrides name \<noteq> None then Some name
      else None)"

definition native_override_for :: "string \<Rightarrow> string \<Rightarrow> str_map \<Rightarrow> string option" where
  "native_override_for name version overrides =
     (case native_override_key_for name version overrides of
        None \<Rightarrow> None
      | Some key \<Rightarrow> map_of overrides key)"

text \<open>\<^verbatim>\<open>s.partition(c)\<close> and \<^verbatim>\<open>s.split(c, 1)\<close>: the text before the first \<open>c\<close>, and what follows it if there is one.\<close>

definition before_char :: "char \<Rightarrow> string \<Rightarrow> string" where
  "before_char c s = takeWhile (\<lambda>x. x \<noteq> c) s"

definition after_char :: "char \<Rightarrow> string \<Rightarrow> string option" where
  "after_char c s = (case dropWhile (\<lambda>x. x \<noteq> c) s of [] \<Rightarrow> None | x # rest \<Rightarrow> Some rest)"

section \<open>Provided versions\<close>

text \<open>The three fields of an entry when it is complete and names a ticket.\<close>

definition substitution_of :: "dict \<Rightarrow> (string \<times> string \<times> string) option" where
  "substitution_of entry =
     (case (dget entry ''key'', dget entry ''graph_version'', dget entry ''provided'') of
        (JStr k, JStr g, JStr p) \<Rightarrow>
          if k \<noteq> [] \<and> g \<noteq> [] \<and> p \<noteq> [] \<and> truthy (dget entry ''ticket'') then Some (k, g, p) else None
      | _ \<Rightarrow> None)"

definition exact_key_error :: "str_map \<Rightarrow> string \<Rightarrow> report_line list" where
  "exact_key_error provided key =
     (case after_char (CHR ''@'') key of
        None \<Rightarrow> []
      | Some exact \<Rightarrow>
          (case map_of provided key of
             Some v \<Rightarrow>
               if v \<noteq> exact
               then [(''exact native override {} must provide {}, but provided_versions says {}'',
                      [JStr key, JStr exact, JStr v])]
               else []
           | None \<Rightarrow> []))"

definition native_provider_version_static_errors :: "str_map \<Rightarrow> str_map \<Rightarrow> dict list \<Rightarrow> report_line list" where
  "native_provider_version_static_errors overrides provided substitutions =
     map (\<lambda>key. (''native override {} has no provided_versions entry'', [JStr key]))
       (sorted_set (filter (\<lambda>key. map_of provided key = None) (map fst overrides)))
     @ map (\<lambda>key. (''provided_versions entry {} has no native override'', [JStr key]))
       (sorted_set (filter (\<lambda>key. map_of overrides key = None) (map fst provided)))
     @ concat (map (exact_key_error provided)
       (sorted_set (filter (\<lambda>key. map_of provided key \<noteq> None) (map fst overrides))))
     @ map (\<lambda>entry. (''known_version_substitutions entries need non-empty key, graph_version, provided, and ticket: {}'', [JObj entry]))
       (filter (\<lambda>entry. substitution_of entry = None) substitutions)"

text \<open>
  \<^verbatim>\<open>node.get("name") or node.get("package")\<close> and \<^verbatim>\<open>node.get("version", "")\<close>, of nodes whose fields are
  strings when they are present.
\<close>

definition label_of :: "dict \<Rightarrow> string option" where
  "label_of node =
     (case dget node ''name'' of
        JStr (c # cs) \<Rightarrow> Some (c # cs)
      | _ \<Rightarrow> (case dget node ''package'' of JStr s \<Rightarrow> Some s | _ \<Rightarrow> None))"

definition version_of :: "dict \<Rightarrow> string" where
  "version_of node = (case dget node ''version'' of JStr s \<Rightarrow> s | _ \<Rightarrow> [])"

record version_scan =
  used_substitutions :: "(string \<times> string \<times> string) list"
  reported_substitutions :: "(string \<times> string \<times> string) list"
  version_errors :: "report_line list"

definition scan_node_version ::
  "str_map \<Rightarrow> str_map \<Rightarrow> (string \<times> string \<times> string) list \<Rightarrow> version_scan \<Rightarrow> dict \<Rightarrow> version_scan" where
  "scan_node_version overrides provided allowed sc node =
     (let name = (case label_of node of Some n \<Rightarrow> n | None \<Rightarrow> []); version = version_of node in
      case native_override_key_for name version overrides of
        None \<Rightarrow> sc
      | Some key \<Rightarrow>
          (case map_of provided key of
             None \<Rightarrow> sc
           | Some v \<Rightarrow>
               let substitution = (key, version, v) in
               if v = version then sc
               else if substitution \<in> set allowed
               then sc\<lparr>used_substitutions := used_substitutions sc @ [substitution]\<rparr>
               else if substitution \<in> set (reported_substitutions sc) then sc
               else sc\<lparr>reported_substitutions := reported_substitutions sc @ [substitution],
                       version_errors := version_errors sc @
                         [(''native override {} builds {} version {} but serves graph node {} version {}; a native provider must build the concrete version of the node'',
                           [JStr key, JStr name, JStr v, JStr name, JStr version])]\<rparr>))"

definition native_provider_version_graph_errors ::
  "dict list \<Rightarrow> str_map \<Rightarrow> str_map \<Rightarrow> dict list \<Rightarrow> bool \<Rightarrow> report_line list" where
  "native_provider_version_graph_errors nodes overrides provided substitutions report_stale =
     (let allowed = List.map_filter substitution_of substitutions;
          sc = foldl (scan_node_version overrides provided allowed)
                 \<lparr>used_substitutions = [], reported_substitutions = [], version_errors = []\<rparr> nodes
      in version_errors sc
         @ (if report_stale
            then map (\<lambda>(key, graph_version, v).
                   (''stale known_version_substitutions entry: {} graph {} provided {} no longer matches a substitution in the graph'',
                    [JStr key, JStr graph_version, JStr v]))
                 (sorted_set (filter (\<lambda>s. s \<notin> set (used_substitutions sc)) allowed))
            else []))"

definition native_provider_version_errors ::
  "dict list \<Rightarrow> str_map \<Rightarrow> str_map \<Rightarrow> dict list \<Rightarrow> bool \<Rightarrow> report_line list" where
  "native_provider_version_errors nodes overrides provided substitutions report_stale =
     native_provider_version_static_errors overrides provided substitutions
     @ native_provider_version_graph_errors nodes overrides provided substitutions report_stale"

definition validate_native_provider_versions ::
  "dict list \<Rightarrow> str_map \<Rightarrow> str_map option \<Rightarrow> dict list \<Rightarrow> unit res" where
  "validate_native_provider_versions nodes overrides provided substitutions =
     (case provided of
        None \<Rightarrow> Inr ()
      | Some p \<Rightarrow>
          if overrides = [] then Inr ()
          else if native_provider_version_errors nodes overrides p substitutions False \<noteq> []
          then Inl (SystemExit ''native provider version mismatch'' [])
          else Inr ())"

section \<open>ODR-sensitive families\<close>

definition unsigned_digits :: "string \<Rightarrow> nat option" where
  \<comment> \<open>\<^verbatim>\<open>int(s)\<close> when \<^verbatim>\<open>s.isdigit()\<close>, of the decimal digits\<close>
  "unsigned_digits s = (if s \<noteq> [] \<and> list_all is_digit s then unsigned_int s else None)"

definition odr_family_version :: "string \<Rightarrow> string \<Rightarrow> string" where
  "odr_family_version name version =
     (if name = ''py-protobuf'' then
        (case (unsigned_digits (before_char (CHR ''.'') version), after_char (CHR ''.'') version) of
           (Some major, Some rest) \<Rightarrow> if 4 \<le> major \<and> rest \<noteq> [] then rest else version
         | _ \<Rightarrow> version)
      else version)"

definition odr_family :: "string \<Rightarrow> string" where
  "odr_family name = (case map_of ODR_SENSITIVE_PROVIDER_FAMILIES name of Some f \<Rightarrow> f | None \<Rightarrow> [])"

definition label_text :: "dict \<Rightarrow> string" where
  \<comment> \<open>in an f-string\<close>
  "label_text node = (case label_of node of Some n \<Rightarrow> n | None \<Rightarrow> ''None'')"

text \<open>The loop over the overrides: the family and the version of every exact key that a node of the graph has.\<close>

definition odr_override :: "string list \<Rightarrow> string \<Rightarrow> (string \<times> string) list res" where
  "odr_override active override_key =
     (let package = before_char (CHR ''@'') override_key in
      if package \<notin> set ODR_SENSITIVE_PROVIDER_PACKAGES then Inr []
      else (case after_char (CHR ''@'') override_key of
        None \<Rightarrow> Inl (SystemExit ''native override for ODR-sensitive package {} must be version-qualified'' [JStr package])
      | Some version \<Rightarrow>
          if override_key \<notin> set active then Inr []
          else Inr [(odr_family package, odr_family_version package version)]))"

definition odr_node :: "str_map \<Rightarrow> dict \<Rightarrow> (string \<times> string) list res" where
  \<comment> \<open>the name and the version of a node of a sensitive package\<close>
  "odr_node overrides node =
     (case label_of node of
        None \<Rightarrow> Inr []
      | Some name \<Rightarrow>
          if name \<notin> set ODR_SENSITIVE_PROVIDER_PACKAGES then Inr []
          else if map_of overrides name \<noteq> None \<and> map_of overrides (at_version name (version_of node)) = None
          then Inl (SystemExit ''native override for ODR-sensitive package {} version {} must be version-qualified''
                     [JStr name, JStr (version_of node)])
          else Inr [(name, version_of node)])"

definition versions_of :: "(string \<times> string) list \<Rightarrow> string \<Rightarrow> string list" where
  "versions_of pairs k = sorted_set (map snd (filter (\<lambda>(k', v). k' = k) pairs))"

definition single_version :: "string \<Rightarrow> (string \<times> string) list \<Rightarrow> unit res" where
  \<comment> \<open>the first key, in order, that has several versions\<close>
  "single_version what pairs =
     (case List.find (\<lambda>k. 1 < length (versions_of pairs k)) (sorted_set (map fst pairs)) of
        None \<Rightarrow> Inr ()
      | Some k \<Rightarrow> Inl (SystemExit what (JStr k # map JStr (versions_of pairs k))))"

definition validate_odr_sensitive_native_overrides :: "dict list \<Rightarrow> str_map \<Rightarrow> unit res" where
  "validate_odr_sensitive_native_overrides nodes overrides =
     (let active = map (\<lambda>node. at_version (label_text node) (version_of node)) nodes in
      bindE (concatE (odr_override active) (sort (map fst overrides))) (\<lambda>families.
      bindE (single_version ''native overrides contain multiple versions for ODR-sensitive provider family {}: {}'' families) (\<lambda>_.
      bindE (concatE (odr_node overrides) nodes) (\<lambda>found.
      bindE (single_version ''ODR-sensitive package {} appears at multiple versions in one lock: {}'' found) (\<lambda>_.
      single_version ''ODR-sensitive provider family {} appears at multiple versions in one lock: {}''
        (map (\<lambda>(name, v). (odr_family name, odr_family_version name v)) found))))))"

section \<open>The lock\<close>

text \<open>
  What Spack and the install tree answer: \<open>location\<close> is \<^verbatim>\<open>spack location -i /<hash>\<close>, with its exit code
  and output; \<open>files_below\<close> are the names of the regular files anywhere below a directory.
\<close>

record spack_host =
  location :: "string \<Rightarrow> int \<times> string"
  listing :: "ppath \<Rightarrow> string list option"
    \<comment> \<open>the names in a directory; \<open>None\<close> when the path is not one\<close>
  regular :: "ppath \<Rightarrow> bool"
  files_below :: "ppath \<Rightarrow> string list"

definition spack_prefix :: "spack_host \<Rightarrow> string \<Rightarrow> string res" where
  "spack_prefix host h =
     (case location host h of (code, out) \<Rightarrow>
        if code \<noteq> 0 then Inl (LibError ''CalledProcessError'') else Inr (strip out))"

definition optional_spack_prefix :: "spack_host \<Rightarrow> string \<Rightarrow> string" where
  "optional_spack_prefix host h = (case location host h of (code, out) \<Rightarrow> if code = 0 then strip out else [])"

definition lib_stem :: "string \<Rightarrow> string option" where
  "lib_stem name =
     (if \<not> startswith name ''lib'' then None
      else if endswith name ''.so'' then Some (take (length name - 6) (drop 3 name))
      else if endswith name ''.a'' then Some (take (length name - 5) (drop 3 name))
      else None)"

definition link_libs :: "spack_host \<Rightarrow> string \<Rightarrow> string list" where
  "link_libs host pfx =
     sorted_set (filter (\<lambda>s. s \<noteq> [])
       (List.map_filter lib_stem (concat (map (\<lambda>libdir.
          case listing host (joinpath (parse pfx) (parse libdir)) of None \<Rightarrow> [] | Some entries \<Rightarrow> entries)
        [''lib'', ''lib64'']))))"

definition header_suffix :: "string \<Rightarrow> bool" where
  "header_suffix name = (suffix_of (PPath Rel [name]) \<in> {''.h'', ''.hpp'', ''.hh'', ''.hxx''})"

definition include_child :: "spack_host \<Rightarrow> ppath \<Rightarrow> string \<Rightarrow> bool" where
  "include_child host base child =
     (let p = slash base child in
      listing host p \<noteq> None
      \<and> \<not> (child = ''bsd'' \<and> regular host (joinpath p (parse ''sys/cdefs.h'')))
      \<and> list_ex header_suffix (files_below host p))"

definition include_dirs :: "spack_host \<Rightarrow> string \<Rightarrow> string list" where
  "include_dirs host pfx =
     (let base = joinpath (parse pfx) (parse ''include'') in
      case listing host base of
        None \<Rightarrow> []
      | Some entries \<Rightarrow> ''include'' # map (\<lambda>c. ''include/'' @ c) (filter (include_child host base) (sort entries)))"

definition dep_types :: "dict \<Rightarrow> json list res" where
  \<comment> \<open>\<^verbatim>\<open>dep["parameters"]["deptypes"]\<close>\<close>
  "dep_types dep =
     bindE (ditem dep ''parameters'') (\<lambda>ps. bindE (as_obj ps) (\<lambda>p. bindE (ditem p ''deptypes'') (\<lambda>ts.
     case ts of JList xs \<Rightarrow> Inr xs | _ \<Rightarrow> Inl TypeError)))"

definition dep_name :: "(string \<times> dict) list \<Rightarrow> dict \<Rightarrow> string res" where
  \<comment> \<open>\<^verbatim>\<open>by_hash.get(dep["hash"], {}).get("name", dep["name"])\<close>\<close>
  "dep_name by_hash dep =
     bindE (str_item dep ''hash'') (\<lambda>h.
     bindE (str_item dep ''name'') (\<lambda>own.
     case map_of by_hash h of
       None \<Rightarrow> Inr own
     | Some n \<Rightarrow> if map_of n ''name'' = None then Inr own else str_item n ''name''))"

definition link_dep :: "(string \<times> dict) list \<Rightarrow> dict \<Rightarrow> string list res" where
  "link_dep by_hash dep =
     bindE (dep_types dep) (\<lambda>types.
     if \<not> list_ex (\<lambda>t. t \<in> JStr ` set CONSUME_DEPTYPES) types then Inr []
     else bindE (dep_name by_hash dep) (\<lambda>name.
       if name \<in> set BUILD_ONLY_NODES then Inr [] else Inr [repo_name name]))"

definition lock_node ::
  "spack_host \<Rightarrow> str_map \<Rightarrow> (string \<times> dict) list \<Rightarrow> dict \<Rightarrow> (string \<times> dict) list res" where
  "lock_node host overrides by_hash node =
     bindE (str_item node ''name'') (\<lambda>name.
     if name \<in> set BUILD_ONLY_NODES then Inr []
     else
       bindE (str_item node ''version'') (\<lambda>version.
       let native = (case native_override_for name version overrides of Some p \<Rightarrow> p | None \<Rightarrow> []) in
       bindE (str_item node ''hash'') (\<lambda>h.
       bindE (if native \<noteq> [] then Inr (optional_spack_prefix host h) else spack_prefix host h) (\<lambda>pfx.
       if pfx = [] \<and> native = []
       then Inl (SystemExit ''node {} has no install prefix; is it installed?'' [JStr name])
       else
         bindE (dependencies node) (\<lambda>deps.
         bindE (concatE (link_dep by_hash) deps) (\<lambda>link_deps.
         Inr [(repo_name name,
           [(''package'', JStr name), (''version'', JStr version), (''spack_hash'', JStr h), (''prefix'', JStr pfx),
            (''build'', JStr (if native \<noteq> [] then ''native'' else ''spack'')),
            (''link_deps'', JList (map JStr (sorted_set link_deps))),
            (''link_libs'', JList (map JStr (if pfx \<noteq> [] then link_libs host pfx else []))),
            (''include_dirs'', JList (map JStr (if pfx \<noteq> [] then include_dirs host pfx else [])))]
           @ (if native \<noteq> [] then [(''native_prefix'', JStr native)] else []))]))))))"

definition hash_table :: "dict list \<Rightarrow> (string \<times> dict) list res" where
  \<comment> \<open>\<^verbatim>\<open>{n["hash"]: n for n in nodes}\<close>\<close>
  "hash_table nodes =
     bindE (node_hashes nodes) (\<lambda>hs. Inr (foldl (\<lambda>d (h, n). AList.update h n d) [] (zip hs nodes)))"

definition spec_nodes :: "dict \<Rightarrow> dict list res" where
  \<comment> \<open>\<^verbatim>\<open>spec["spec"]["nodes"]\<close>\<close>
  "spec_nodes spec =
     bindE (ditem spec ''spec'') (\<lambda>s. bindE (as_obj s) (\<lambda>d. bindE (ditem d ''nodes'') (\<lambda>ns.
     case ns of JList xs \<Rightarrow> mapE as_obj xs | _ \<Rightarrow> Inl TypeError)))"

definition root_name :: "dict list \<Rightarrow> string res" where
  "root_name nodes = (case nodes of [] \<Rightarrow> Inl IndexError | n # _ \<Rightarrow> str_item n ''name'')"

definition build_lock ::
  "spack_host \<Rightarrow> str_map \<Rightarrow> str_map option \<Rightarrow> dict list \<Rightarrow> dict \<Rightarrow> dict res" where
  "build_lock host overrides provided substitutions spec =
     bindE (spec_nodes spec) (\<lambda>nodes.
     bindE (hash_table nodes) (\<lambda>by_hash.
     bindE (validate_odr_sensitive_native_overrides nodes overrides) (\<lambda>_.
     bindE (validate_native_provider_versions nodes overrides provided substitutions) (\<lambda>_.
     bindE (concatE (lock_node host overrides by_hash) nodes) (\<lambda>entries.
     bindE (root_name nodes) (\<lambda>root.
     let packages = foldl (\<lambda>d (k, v). AList.update k v d) [] entries in
     Inr [(''schema_version'', JInt 1), (''root'', JStr (repo_name root)),
          (''packages'', JObj (map (\<lambda>(k, v). (k, JObj v)) (sort_key fst packages)))]))))))"
section \<open>The overrides file\<close>

record overrides_file =
  native_map :: str_map
  provided_map :: "str_map option"
  known_substitutions :: "dict list"

definition read_native_overrides :: "overrides_file option \<Rightarrow> str_map" where
  "read_native_overrides file = (case file of None \<Rightarrow> [] | Some f \<Rightarrow> native_map f)"

text \<open>
  \<open>canonical\<close> is the \<^verbatim>\<open>native_overrides.json\<close> beside the file, when there is one and it is not the file
  itself.
\<close>

definition read_provider_versions ::
  "overrides_file option \<Rightarrow> overrides_file option \<Rightarrow> (str_map option \<times> dict list) res" where
  "read_provider_versions file canonical =
     (case file of
        None \<Rightarrow> Inr (None, [])
      | Some f \<Rightarrow>
          (case provided_map f of
             Some p \<Rightarrow> Inr (Some p, known_substitutions f)
           | None \<Rightarrow>
               let versions = (case canonical of
                     None \<Rightarrow> []
                   | Some c \<Rightarrow> (case provided_map c of None \<Rightarrow> [] | Some p \<Rightarrow> p));
                   subs = (case canonical of None \<Rightarrow> [] | Some c \<Rightarrow> known_substitutions c);
                   missing = sort (filter (\<lambda>key. map_of versions key = None) (map fst (native_map f)))
               in if missing \<noteq> []
                  then Inl (SystemExit ''{} declares no provided_versions and {} records no provided version for: {}'' (map JStr missing))
                  else Inr (Some (map (\<lambda>(key, p). (key, the (map_of versions key))) (native_map f)),
                            filter (\<lambda>e. case dget e ''key'' of JStr k \<Rightarrow> map_of (native_map f) k \<noteq> None | _ \<Rightarrow> False) subs)))"

section \<open>Providers of an existing lock\<close>

definition lock_packages :: "dict \<Rightarrow> (string \<times> dict) list res" where
  "lock_packages lock =
     bindE (ditem lock ''packages'') (\<lambda>v.
     case v of
       JObj d \<Rightarrow> mapE (\<lambda>(k, n). bindE (as_obj n) (\<lambda>node. Inr (k, node))) d
     | _ \<Rightarrow> Inl AttributeError)"

definition with_packages :: "dict \<Rightarrow> (string \<times> dict) list \<Rightarrow> dict" where
  "with_packages lock ps = dput ''packages'' (JObj (map (\<lambda>(k, node). (k, JObj node)) ps)) lock"

definition reset_provider :: "dict \<Rightarrow> dict" where
  "reset_provider node = AList.delete ''native_prefix'' (dput ''build'' (JStr ''spack'') node)"

definition apply_override :: "str_map \<Rightarrow> dict \<Rightarrow> dict res" where
  "apply_override native node =
     bindE (str_item node ''package'') (\<lambda>pkg.
     Inr (case native_override_for pkg (version_of node) native of
            Some (c # cs) \<Rightarrow> dput ''native_prefix'' (JStr (c # cs)) (dput ''build'' (JStr ''native'') node)
          | _ \<Rightarrow> node))"

definition normalize_providers ::
  "overrides_file option \<Rightarrow> overrides_file option \<Rightarrow> dict \<Rightarrow> dict res" where
  "normalize_providers file canonical lock =
     bindE (lock_packages lock) (\<lambda>ps.
     let reset = map (\<lambda>(k, node). (k, reset_provider node)) ps; native = read_native_overrides file in
     if native = [] then Inr (with_packages lock reset)
     else
       bindE (validate_odr_sensitive_native_overrides (map snd reset) native) (\<lambda>_.
       bindE (read_provider_versions file canonical) (\<lambda>(provided, substitutions).
       bindE (validate_native_provider_versions (map snd reset) native provided substitutions) (\<lambda>_.
       bindE (mapE (\<lambda>(k, node). bindE (apply_override native node) (\<lambda>n. Inr (k, n))) reset) (\<lambda>flipped.
       Inr (with_packages lock flipped))))))"

text \<open>The loop of \<^verbatim>\<open>lock_is_valid\<close> over the packages.\<close>

fun nodes_valid :: "(string \<Rightarrow> bool) \<Rightarrow> json list \<Rightarrow> bool res" where
  "nodes_valid is_dir [] = Inr True"
| "nodes_valid is_dir (JObj node # rest) =
     (if map_of node ''build'' = Some (JStr ''native'') then
        (if \<not> truthy (dget node ''native_prefix'') then Inr False
         else if map_of node ''include_dirs'' = None then Inr False
         else nodes_valid is_dir rest)
      else if \<not> truthy (dget node ''prefix'') then Inr False
      else (case dget node ''prefix'' of
              JStr p \<Rightarrow>
                if \<not> is_dir p then Inr False
                else if map_of node ''include_dirs'' = None then Inr False
                else nodes_valid is_dir rest
            | _ \<Rightarrow> Inl TypeError))"
| "nodes_valid is_dir (_ # rest) = Inl AttributeError"

text \<open>A file: absent or unreadable, not JSON, or a value.\<close>

definition lock_is_valid :: "(string \<Rightarrow> bool) \<Rightarrow> string option \<Rightarrow> json option option \<Rightarrow> bool res" where
  "lock_is_valid is_dir expected_root content =
     (case content of
        Some (Some (JObj lock)) \<Rightarrow>
          if (case expected_root of None \<Rightarrow> False | Some r \<Rightarrow> dget lock ''root'' \<noteq> JStr r) then Inr False
          else (case (case map_of lock ''packages'' of None \<Rightarrow> JObj [] | Some v \<Rightarrow> v) of
                  JObj d \<Rightarrow>
                    bindE (nodes_valid is_dir (map snd d)) (\<lambda>ok. Inr (ok \<and> truthy (dget lock ''packages'')))
                | _ \<Rightarrow> Inl AttributeError)
      | Some (Some v) \<Rightarrow> Inl AttributeError
      | _ \<Rightarrow> Inr False)"

section \<open>The command\<close>

datatype spec_answer =
    SpecTimeout
  | SpecExit int
  | SpecInvalid
  | SpecJson dict

record lock_args =
  root_spec :: string
  installed_snapshot :: bool
    \<comment> \<open>\<^verbatim>\<open>--from-installed\<close> or \<^verbatim>\<open>--opt-root\<close>\<close>
  in_insula :: bool
    \<comment> \<open>\<^verbatim>\<open>VASO_IN_INSULA=1\<close>\<close>
  reuse_if_valid :: bool
  fresh_spec :: bool

record lock_files =
  out_lock :: "json option option"
  own_overrides :: "overrides_file option"
  canonical_overrides :: "overrides_file option"

definition spack_spec_json :: "spec_answer \<Rightarrow> dict option res" where
  \<comment> \<open>\<open>None\<close>: \<^verbatim>\<open>subprocess.TimeoutExpired\<close>\<close>
  "spack_spec_json answer =
     (case answer of
        SpecTimeout \<Rightarrow> Inr None
      | SpecExit code \<Rightarrow> Inl (SystemExit ''spack spec failed ({})'' [JInt code])
      | SpecInvalid \<Rightarrow> Inl (LibError ''JSONDecodeError'')
      | SpecJson spec \<Rightarrow> Inr (Some spec))"

definition capture_lock ::
  "spack_host \<Rightarrow> lock_files \<Rightarrow> dict \<Rightarrow> dict res" where
  "capture_lock host fs spec =
     bindE (read_provider_versions (own_overrides fs) (canonical_overrides fs)) (\<lambda>(provided, substitutions).
     bindE (build_lock host (read_native_overrides (own_overrides fs)) provided substitutions spec) (\<lambda>lock.
     normalize_providers (own_overrides fs) (canonical_overrides fs) lock))"

text \<open>The answer of the command and the lock file that it leaves.\<close>

definition lock_main ::
  "spack_host \<Rightarrow> (string \<Rightarrow> bool) \<Rightarrow> spec_answer \<Rightarrow> lock_args \<Rightarrow> lock_files \<Rightarrow> int res \<times> json option option" where
  "lock_main host is_dir answer args fs =
     (if installed_snapshot args
      then (Inl (SystemExit ''installed-prefix Spack snapshots are disabled'' []), out_lock fs)
      else if \<not> in_insula args
      then (Inl (SystemExit ''live Spack lock generation must run inside the insula'' []), out_lock fs)
      else
        let valid = lock_is_valid is_dir (Some (repo_name (root_spec args))) (out_lock fs);
            write = (\<lambda>r. case r of
               Inl e \<Rightarrow> (Inl e, out_lock fs)
             | Inr lock \<Rightarrow> (Inr 0, Some (Some (JObj lock))))
        in
        case (if reuse_if_valid args \<and> \<not> fresh_spec args \<and> out_lock fs \<noteq> None then valid else Inr False) of
          Inl e \<Rightarrow> (Inl e, out_lock fs)
        | Inr True \<Rightarrow>
            (case out_lock fs of
               Some (Some (JObj lock)) \<Rightarrow>
                 write (normalize_providers (own_overrides fs) (canonical_overrides fs) lock)
             | _ \<Rightarrow> (Inl TypeError, out_lock fs))
        | Inr False \<Rightarrow>
            (case spack_spec_json answer of
               Inl e \<Rightarrow> (Inl e, out_lock fs)
             | Inr None \<Rightarrow>
                 (case (if out_lock fs \<noteq> None then valid else Inr False) of
                    Inl e \<Rightarrow> (Inl e, out_lock fs)
                  | Inr True \<Rightarrow> (Inr 0, out_lock fs)
                  | Inr False \<Rightarrow>
                      (Inl (SystemExit ''spack spec {} timed out and no valid existing lock to fall back on'' [JStr (root_spec args)]),
                       out_lock fs))
             | Inr (Some spec) \<Rightarrow> write (capture_lock host fs spec)))"

end
