(* ===== verification/BuildGraph.thy ===== *)
theory BuildGraph
  imports TopoOrder SpackLock
begin

text \<open>
  \<^verbatim>\<open>foundry/tools/build_graph.py\<close>: the ordered build graph with the build system and the provider of
  every node, and the check of the font resources.
\<close>

definition BUILD_SYSTEM_STRATEGY :: str_map where
  "BUILD_SYSTEM_STRATEGY =
     [(''autotools'', ''configure && make && make install (rules_foreign_cc/configure_make)''),
      (''cmake'', ''cmake -G Ninja && ninja install (rules_foreign_cc/cmake)''),
      (''meson'', ''meson && ninja install (rules_foreign_cc/meson-ish)''),
      (''makefile'', ''make && make install (rules_foreign_cc/make)''),
      (''python_pip'', ''pip wheel + install (py rules / captured setup.py)''),
      (''generic'', ''package.py install() - needs a per-package recipe deep-dive''),
      (''bundle'', ''no build - pure dependency aggregator''),
      (''cargo'', ''cargo build --release (rules_rust / captured)''),
      (''go'', ''go build (rules_go / captured)''),
      (''perl'', ''perl Makefile.PL && make install (captured ExtUtils::MakeMaker)'')]"

definition TOOLCHAIN_NODES :: "string list" where
  "TOOLCHAIN_NODES = [''compiler-wrapper'', ''gcc'', ''gmake'', ''gcc-runtime'', ''glibc'']"

definition LEAN_FONT_RESOURCES :: "string list" where
  "LEAN_FONT_RESOURCES = [''encodings'']"

definition BROAD_FONT_RESOURCE_PACKAGES :: "string list" where
  "BROAD_FONT_RESOURCE_PACKAGES =
     map (\<lambda>s. ''font-'' @ s)
     [''adobe-100dpi'', ''adobe-75dpi'', ''adobe-utopia-100dpi'', ''adobe-utopia-75dpi'', ''adobe-utopia-type1'',
      ''alias'', ''arabic-misc'', ''bh-100dpi'', ''bh-75dpi'', ''bh-lucidatypewriter-100dpi'',
      ''bh-lucidatypewriter-75dpi'', ''bh-ttf'', ''bh-type1'', ''bitstream-100dpi'', ''bitstream-75dpi'',
      ''bitstream-speedo'', ''bitstream-type1'', ''cronyx-cyrillic'', ''cursor-misc'', ''daewoo-misc'',
      ''dec-misc'', ''ibm-type1'', ''isas-misc'', ''jis-misc'', ''micro-misc'', ''misc-cyrillic'',
      ''misc-ethiopic'', ''misc-meltho'', ''misc-misc'', ''mutt-misc'', ''schumacher-misc'', ''screen-cyrillic'',
      ''sony-misc'', ''sun-misc'', ''winitzki-cyrillic'', ''xfree86-type1'']"

text \<open>\<^verbatim>\<open>node.get("parameters", {})\<close>, an object.\<close>

definition parameters_of :: "dict \<Rightarrow> dict res" where
  "parameters_of node =
     (case map_of node ''parameters'' of None \<Rightarrow> Inr [] | Some (JObj d) \<Rightarrow> Inr d | Some _ \<Rightarrow> Inl AttributeError)"

definition build_system_of :: "dict \<Rightarrow> json res" where
  "build_system_of node =
     bindE (parameters_of node) (\<lambda>ps.
     Inr (case map_of ps ''build_system'' of None \<Rightarrow> JStr ''unknown'' | Some v \<Rightarrow> v))"

definition strategy_of :: "json \<Rightarrow> string" where
  "strategy_of bs =
     (case bs of
        JStr s \<Rightarrow> (case map_of BUILD_SYSTEM_STRATEGY s of Some t \<Rightarrow> t | None \<Rightarrow> ''UNKNOWN - investigate'')
      | _ \<Rightarrow> ''UNKNOWN - investigate'')"

definition resolve_prefix :: "(string \<Rightarrow> int \<times> string) option \<Rightarrow> string \<Rightarrow> string \<Rightarrow> string" where
  \<comment> \<open>\<open>None\<close>: prefixes are not resolved; else the answer of \<^verbatim>\<open>spack location -i /<hash>\<close>\<close>
  "resolve_prefix loc name h =
     (case loc of
        None \<Rightarrow> []
      | Some f \<Rightarrow> if name \<in> set TOOLCHAIN_NODES then [] else (case f h of (code, out) \<Rightarrow> if code = 0 then strip out else []))"

definition str_values :: "json list \<Rightarrow> string list res" where
  "str_values = mapE (\<lambda>v. case v of JStr s \<Rightarrow> Inr s | _ \<Rightarrow> Inl TypeError)"

definition dep_entry :: "(string \<times> dict) list \<Rightarrow> dict \<Rightarrow> (string \<times> dict) res" where
  \<comment> \<open>with its name, by which the entries are sorted\<close>
  "dep_entry by_hash dep =
     bindE (dep_name by_hash dep) (\<lambda>name.
     bindE (str_item dep ''hash'') (\<lambda>h.
     bindE (parameters_of dep) (\<lambda>ps.
     bindE (case map_of ps ''deptypes'' of None \<Rightarrow> Inr [] | Some (JList xs) \<Rightarrow> str_values xs | Some _ \<Rightarrow> Inl TypeError) (\<lambda>types.
     Inr (name, [(''name'', JStr name), (''hash'', JStr h), (''deptypes'', JList (map JStr (sort types)))])))))"

definition graph_entry ::
  "(string \<Rightarrow> int \<times> string) option \<Rightarrow> str_map \<Rightarrow> (string \<times> dict) list \<Rightarrow> nat \<times> string \<Rightarrow> dict res" where
  "graph_entry loc overrides by_hash ph =
     (case ph of (pos, h) \<Rightarrow>
        bindE (case map_of by_hash h of None \<Rightarrow> Inl (KeyError h) | Some n \<Rightarrow> Inr n) (\<lambda>n.
        bindE (str_item n ''name'') (\<lambda>name.
        bindE (str_item n ''version'') (\<lambda>version.
        let native = (case native_override_for name version overrides of Some p \<Rightarrow> p | None \<Rightarrow> []) in
        bindE (build_system_of n) (\<lambda>bs.
        bindE (dependencies n) (\<lambda>deps.
        bindE (mapE (dep_entry by_hash) deps) (\<lambda>entries.
        bindE (parameters_of n) (\<lambda>ps.
        Inr ([(''topo_index'', JInt (int pos)), (''package'', JStr name), (''version'', JStr version),
              (''spack_hash'', JStr h), (''build_system'', bs), (''parameters'', JObj ps),
              (''native_strategy'', JStr (strategy_of bs)), (''is_toolchain'', JBool (name \<in> set TOOLCHAIN_NODES)),
              (''prefix'', JStr (resolve_prefix loc name h)),
              (''deps'', JList (map (JObj \<circ> snd) (sort_key fst entries))),
              (''status'', JStr (if native \<noteq> [] then ''native'' else ''spack''))]
             @ (if native \<noteq> [] then [(''native_prefix'', JStr native)] else []))))))))))"

text \<open>The histogram of the build systems, of those that are strings.\<close>

definition count_system :: "(string \<times> int) list \<Rightarrow> dict \<Rightarrow> (string \<times> int) list" where
  "count_system hist entry =
     (case dget entry ''build_system'' of
        JStr s \<Rightarrow> AList.update s (value_at 0 hist s + 1) hist
      | _ \<Rightarrow> hist)"

definition build_graph ::
  "(string \<Rightarrow> int \<times> string) option \<Rightarrow> str_map \<Rightarrow> str_map option \<Rightarrow> dict list \<Rightarrow> dict \<Rightarrow> dict res" where
  "build_graph loc overrides provided substitutions spec =
     bindE (spec_nodes spec) (\<lambda>nodes.
     bindE (hash_table nodes) (\<lambda>by_hash.
     bindE (topo_order nodes by_hash) (\<lambda>order.
     bindE (validate_odr_sensitive_native_overrides nodes overrides) (\<lambda>_.
     bindE (validate_native_provider_versions nodes overrides provided substitutions) (\<lambda>_.
     bindE (mapE (graph_entry loc overrides by_hash) (zip [0..<length order] order)) (\<lambda>entries.
     bindE (root_name nodes) (\<lambda>r.
     Inr [(''schema_version'', JInt 1), (''root'', JStr r), (''n_nodes'', JInt (int (length entries))),
          (''build_system_histogram'', JObj (map (\<lambda>(k, n). (k, JInt n)) (sort_key fst (foldl count_system [] entries)))),
          (''topological_order'', JList (map (\<lambda>e. dget e ''package'') entries)),
          (''nodes'', JList (map JObj entries))])))))))"

fun lean_font_nodes :: "json list \<Rightarrow> unit res" where
  "lean_font_nodes [] = Inr ()"
| "lean_font_nodes (JObj node # rest) =
     (let package = dget node ''package'' in
      if package \<in> JStr ` set BROAD_FONT_RESOURCE_PACKAGES
      then Inl (SystemExit ''font-util lean resource check failed: broad font-resource package {} is present in the concretized graph'' [package])
      else if package \<noteq> JStr ''font-util'' then lean_font_nodes rest
      else
        bindE (parameters_of node) (\<lambda>ps.
        if dget ps ''fonts'' \<noteq> JList (map JStr LEAN_FONT_RESOURCES)
        then Inl (SystemExit ''font-util lean resource check failed: expected fonts=encodings, got {}'' [dget ps ''fonts''])
        else lean_font_nodes rest))"
| "lean_font_nodes (_ # rest) = Inl AttributeError"

definition enforce_lean_font_resources :: "dict \<Rightarrow> unit res" where
  "enforce_lean_font_resources graph =
     (case map_of graph ''nodes'' of
        None \<Rightarrow> Inr ()
      | Some (JList ns) \<Rightarrow> lean_font_nodes ns
      | Some _ \<Rightarrow> Inl TypeError)"

record graph_args =
  graph_snapshot :: bool
    \<comment> \<open>\<^verbatim>\<open>--from-installed\<close> or \<^verbatim>\<open>--opt-root\<close>\<close>
  graph_in_insula :: bool
  graph_no_prefix :: bool
  graph_lean_fonts :: bool

text \<open>What the command writes; a time-out of \<^verbatim>\<open>spack spec\<close> is not caught.\<close>

definition graph_main ::
  "(string \<Rightarrow> int \<times> string) \<Rightarrow> spec_answer \<Rightarrow> overrides_file option \<Rightarrow> overrides_file option \<Rightarrow> graph_args \<Rightarrow> dict res" where
  "graph_main loc answer file canonical args =
     (if graph_snapshot args then Inl (SystemExit ''installed-prefix Spack snapshots are disabled'' [])
      else if \<not> graph_in_insula args
      then Inl (SystemExit ''live Spack build graph generation must run inside the insula'' [])
      else
        bindE (case answer of
                 SpecTimeout \<Rightarrow> Inl (LibError ''TimeoutExpired'')
               | SpecExit code \<Rightarrow> Inl (SystemExit ''spack spec failed ({})'' [JInt code])
               | SpecInvalid \<Rightarrow> Inl (SystemExit ''spack spec produced invalid JSON'' [])
               | SpecJson spec \<Rightarrow> Inr spec) (\<lambda>spec.
        bindE (read_provider_versions file canonical) (\<lambda>(provided, substitutions).
        bindE (build_graph (if graph_no_prefix args then None else Some loc) (read_native_overrides file)
                 provided substitutions spec) (\<lambda>graph.
        bindE (if graph_lean_fonts args then enforce_lean_font_resources graph else Inr ()) (\<lambda>_.
        Inr graph)))))"

end
