(* ===== verification/TopoOrderRun.thy ===== *)
theory TopoOrderRun
  imports TopoOrder "HOL-Library.Multiset"
begin

text \<open>
  The topological order against its specification: \<open>greedy\<close> says that each node is the one with the
  least name among those whose dependencies come before it.
\<close>

section \<open>Specification\<close>

definition free_node :: "string list \<Rightarrow> (string \<times> string) list \<Rightarrow> string set \<Rightarrow> string \<Rightarrow> bool" where
  \<comment> \<open>not emitted yet, and all its dependencies are\<close>
  "free_node H E done h = (h \<in> set H \<and> h \<notin> done \<and> (\<forall>d. (d, h) \<in> set E \<longrightarrow> d \<in> done))"

fun greedy :: "(string \<Rightarrow> string) \<Rightarrow> string list \<Rightarrow> (string \<times> string) list \<Rightarrow> string set \<Rightarrow> string list \<Rightarrow> bool" where
  "greedy nm H E done [] = (\<forall>k. \<not> free_node H E done k)"
| "greedy nm H E done (h # hs) =
     (free_node H E done h \<and> (\<forall>k. free_node H E done k \<longrightarrow> nm h \<le> nm k) \<and> greedy nm H E (insert h done) hs)"

definition open_deps :: "(string \<times> string) list \<Rightarrow> string set \<Rightarrow> string \<Rightarrow> int" where
  "open_deps E done h = int (length (filter (\<lambda>(d, k). k = h \<and> d \<notin> done) E))"

lemma open_deps_zero: "open_deps E done h = 0 \<longleftrightarrow> (\<forall>d. (d, h) \<in> set E \<longrightarrow> d \<in> done)"
  by (auto simp: open_deps_def filter_empty_conv)

lemma open_deps_insert:
  "h \<notin> done \<Longrightarrow> open_deps E done x = open_deps E (insert h done) x
     + int (count_list (map snd (filter (\<lambda>(d, k). d = h) E)) x)"
  unfolding open_deps_def by (induction E) auto

section \<open>The tables\<close>

lemma value_at_init: "value_at z (init_table z hs) h = z"
proof -
  have "value_at z (foldl (\<lambda>d h. AList.update h z d) d hs) h = z" if "value_at z d h = z" for d
    using that by (induction hs arbitrary: d) auto
  then show ?thesis by (simp add: init_table_def value_at_def)
qed

lemma update_keys: "map fst (AList.update k v d) = (if k \<in> fst ` set d then map fst d else map fst d @ [k])"
  by (induction d) auto

lemma distinct_update: "distinct (map fst d) \<Longrightarrow> distinct (map fst (AList.update k v d))"
  by (rule distinct_update)

lemma init_table_keys: "distinct (map fst (init_table z hs)) \<and> fst ` set (init_table z hs) = set hs"
proof -
  have "distinct (map fst (foldl (\<lambda>d h. AList.update h z d) d hs))
    \<and> fst ` set (foldl (\<lambda>d h. AList.update h z d) d hs) = fst ` set d \<union> set hs"
    if "distinct (map fst d)" for d
    using that
  proof (induction hs arbitrary: d)
    case (Cons h hs)
    have "fst ` set (AList.update h z d) = insert h (fst ` set d)" by (simp add: dom_update)
    then show ?case using Cons distinct_update [of d h z] by simp
  qed simp
  from this [of "[]"] show ?thesis by (simp add: init_table_def)
qed

lemma count_edge_pair:
  "count_edge (indeg, children) (d, k) =
    (AList.update k (value_at 0 indeg k + 1) indeg, AList.update d (value_at [] children d @ [k]) children)"
  by (simp add: count_edge_def)

lemma count_edges:
  assumes "foldl count_edge (indeg, children) E = (indeg', children')"
    and "distinct (map fst indeg)" "snd ` set E \<subseteq> fst ` set indeg"
  shows "distinct (map fst indeg') \<and> fst ` set indeg' = fst ` set indeg
    \<and> (\<forall>h. value_at 0 indeg' h = value_at 0 indeg h + int (length (filter (\<lambda>(d, k). k = h) E)))
    \<and> (\<forall>h. value_at [] children' h = value_at [] children h @ map snd (filter (\<lambda>(d, k). d = h) E))"
  using assms
proof (induction E arbitrary: indeg children)
  case (Cons e E)
  obtain d k where e: "e = (d, k)" by (cases e)
  let ?i = "AList.update k (value_at 0 indeg k + 1) indeg"
  let ?c = "AList.update d (value_at [] children d @ [k]) children"
  have keys: "fst ` set ?i = fst ` set indeg" using Cons.prems(3) by (auto simp: dom_update e)
  have "foldl count_edge (?i, ?c) E = (indeg', children')" using Cons.prems(1) by (simp add: e count_edge_pair)
  from Cons.IH [OF this distinct_update [OF Cons.prems(2)]] Cons.prems(3) keys
  show ?case by (auto simp: e)
qed simp

lemma map_of_pairs: "distinct (map fst d) \<Longrightarrow> (h, v) \<in> set d \<Longrightarrow> value_at z d h = v"
  by (simp add: value_at_def)

section \<open>Sorting by name\<close>

lemma sort_by_name_Inr:
  assumes "\<And>h. h \<in> set hs \<Longrightarrow> name h = Inr (nm h)"
  shows "sort_by_name name hs = Inr (sort_key nm hs)"
proof -
  have m: "mapE name hs = Inr (map nm hs)" using assms by (rule mapE_Inr_map)
  have "insort_key fst (nm x, x) (map (\<lambda>h. (nm h, h)) ys) = map (\<lambda>h. (nm h, h)) (insort_key nm x ys)" for x ys
    by (induction ys) auto
  then have "sort_key fst (map (\<lambda>h. (nm h, h)) hs) = map (\<lambda>h. (nm h, h)) (sort_key nm hs)"
    by (induction hs) auto
  then show ?thesis using m by (simp add: sort_by_name_def zip_map1 zip_same_conv_map comp_def)
qed

lemma count_list_sort [simp]: "count_list (sort_key f xs) x = count_list xs x"
  by (metis count_mset mset_sort)

section \<open>One turn\<close>

lemma finish_deps_spec:
  assumes "finish_deps indeg ready cs = (indeg', ready')"
    and "\<And>c. int (count_list cs c) \<le> value_at 0 indeg c"
  shows "(\<forall>x. value_at 0 indeg' x = value_at 0 indeg x - int (count_list cs x))
    \<and> (\<exists>new. ready' = ready @ new \<and> distinct new \<and> set new = {c \<in> set cs. value_at 0 indeg' c = 0})"
  using assms
proof (induction indeg ready cs rule: finish_deps.induct)
  case (2 indeg ready c cs)
  define i where "i = AList.update c (value_at 0 indeg c - 1) indeg"
  define r where "r = (if value_at 0 indeg c - 1 = 0 then ready @ [c] else ready)"
  have run: "finish_deps i r cs = (indeg', ready')" using 2(2) by (simp add: Let_def i_def r_def)
  have le: "int (count_list cs x) \<le> value_at 0 i x" for x using 2(3) [of x] by (auto simp: i_def split: if_splits)
  have IH: "(\<forall>x. value_at 0 indeg' x = value_at 0 i x - int (count_list cs x))
    \<and> (\<exists>new. ready' = r @ new \<and> distinct new \<and> set new = {c \<in> set cs. value_at 0 indeg' c = 0})"
    by (rule 2(1) [OF refl refl, folded i_def r_def, OF run le])
  then obtain new where new: "ready' = r @ new" "distinct new" "set new = {c \<in> set cs. value_at 0 indeg' c = 0}"
    by blast
  have v: "value_at 0 indeg' x = value_at 0 indeg x - int (count_list (c # cs) x)" for x
    using IH by (auto simp: i_def)
  show ?case
  proof (cases "value_at 0 indeg c = 1")
    case True
    then have n: "c \<notin> set cs" using le [of c] by (simp add: i_def count_list_0_iff)
    have "ready' = ready @ (c # new)" using True new(1) by (simp add: r_def)
    moreover have "distinct (c # new)" using new n by auto
    moreover have "set (c # new) = {x \<in> set (c # cs). value_at 0 indeg' x = 0}"
      using new(3) v [of c] True n by (auto simp: count_list_0_iff)
    ultimately show ?thesis using v by blast
  next
    case False
    have "c \<in> set cs" if "value_at 0 indeg' c = 0"
      using v [of c] False that by (metis count_list_0_iff add_0 count_list.simps(2) eq_iff_diff_eq_0 of_nat_1 semiring_1_class.of_nat_0 One_nat_def)
    then have "set new = {x \<in> set (c # cs). value_at 0 indeg' x = 0}" using new(3) by auto
    moreover have "ready' = ready @ new" using False new(1) by (simp add: r_def)
    ultimately show ?thesis using v new(2) by blast
  qed
qed auto
section \<open>The whole run\<close>

definition kahn_inv ::
  "(string \<Rightarrow> string) \<Rightarrow> string list \<Rightarrow> (string \<times> string) list \<Rightarrow> (string \<times> int) list \<Rightarrow> string set \<Rightarrow> string list \<Rightarrow> bool" where
  "kahn_inv nm H E indeg done ready =
     ((\<forall>h. value_at 0 indeg h = open_deps E done h) \<and> distinct ready \<and> sorted (map nm ready)
      \<and> set ready = {h. free_node H E done h} \<and> (\<forall>d k. (d, k) \<in> set E \<longrightarrow> k \<in> done \<longrightarrow> d \<in> done))"

lemma free_open: "free_node H E done h \<longleftrightarrow> h \<in> set H \<and> h \<notin> done \<and> open_deps E done h = 0"
  by (simp add: free_node_def open_deps_zero)

lemma free_next:
  assumes "free_node H E done h" and E: "snd ` set E \<subseteq> set H"
    and closed: "\<And>d k. (d, k) \<in> set E \<Longrightarrow> k \<in> done \<Longrightarrow> d \<in> done"
  shows "{k. free_node H E (insert h done) k} =
    ({k. free_node H E done k} - {h})
      \<union> {k. (h, k) \<in> set E \<and> open_deps E (insert h done) k = 0}" (is "?A = ?B \<union> ?C")
proof (intro equalityI subsetI)
  fix k assume "k \<in> ?A"
  then show "k \<in> ?B \<union> ?C" by (auto simp: free_node_def open_deps_zero)
next
  fix k assume k: "k \<in> ?B \<union> ?C"
  have "k \<noteq> h" "k \<notin> done" if "(h, k) \<in> set E"
    using that assms(1) closed by (auto simp: free_node_def)
  then show "k \<in> ?A" using k E by (force simp: free_node_def open_deps_zero)
qed

lemma kahn_turn:
  assumes inv: "kahn_inv nm H E indeg done (h # ready)" and E: "snd ` set E \<subseteq> set H"
    and cs: "mset cs = mset (map snd (filter (\<lambda>(d, k). d = h) E))"
    and run: "finish_deps indeg ready cs = (indeg', r)"
  shows "kahn_inv nm H E indeg' (insert h done) (sort_key nm r) \<and> set r \<subseteq> set H"
proof -
  have free: "free_node H E done h" and nd: "h \<notin> done" using inv by (auto simp: kahn_inv_def free_node_def)
  have cl: "count_list cs x = count_list (map snd (filter (\<lambda>(d, k). d = h) E)) x" for x
    by (metis cs count_mset)
  have val: "value_at 0 indeg x = open_deps E (insert h done) x + int (count_list cs x)" for x
    using inv open_deps_insert [OF nd, of E x] by (simp add: kahn_inv_def cl)
  have "int (count_list cs x) \<le> value_at 0 indeg x" for x by (simp add: val open_deps_def)
  from finish_deps_spec [OF run this] obtain new where
    i: "\<And>x. value_at 0 indeg' x = open_deps E (insert h done) x" and
    new: "r = ready @ new" "distinct new" "set new = {c \<in> set cs. value_at 0 indeg' c = 0}"
    by (auto simp: val)
  have mem: "c \<in> set cs \<longleftrightarrow> (h, c) \<in> set E" for c
    using arg_cong [OF cs, of set_mset] by force
  have closed: "\<And>d k. (d, k) \<in> set E \<Longrightarrow> k \<in> done \<Longrightarrow> d \<in> done" using inv by (simp add: kahn_inv_def)
  have "set ready = {k. free_node H E done k} - {h}" using inv by (auto simp: kahn_inv_def)
  moreover have "set new = {k. (h, k) \<in> set E \<and> open_deps E (insert h done) k = 0}" using new(3) mem i by auto
  ultimately have sr: "set r = {k. free_node H E (insert h done) k}"
    using free_next [OF free E closed] new(1) by simp
  have "c \<notin> set ready" if "c \<in> set new" for c
    using that new(3) inv nd by (auto simp: mem kahn_inv_def free_node_def)
  then have "distinct r" using inv new by (auto simp: kahn_inv_def)
  then show ?thesis using i sr inv free by (auto simp: kahn_inv_def free_node_def)
qed

lemma kahn_greedy:
  assumes "kahn_inv nm H E indeg done ready" and E: "snd ` set E \<subseteq> set H"
    and name: "\<And>h. h \<in> set H \<Longrightarrow> name h = Inr (nm h)"
    and children: "\<And>h. value_at [] children h = map snd (filter (\<lambda>(d, k). d = h) E)"
  shows "\<exists>order. kahn name children indeg ready = Inr order \<and> greedy nm H E done order"
  using assms(1,3,4)
proof (induction name children indeg ready arbitrary: "done" rule: kahn.induct)
  case (1 name children indeg)
  then show ?case by (auto simp: kahn_inv_def)
next
  case (2 name children indeg h ready)
  let ?cs = "sort_key nm (map snd (filter (\<lambda>(d, k). d = h) E))"
  obtain indeg' r where run: "finish_deps indeg ready ?cs = (indeg', r)" by (cases "finish_deps indeg ready ?cs")
  have turn: "kahn_inv nm H E indeg' (insert h done) (sort_key nm r)" "set r \<subseteq> set H"
    using kahn_turn [OF 2(2) E _ run] by simp_all
  have c: "sort_by_name name (value_at [] children h) = Inr ?cs"
    unfolding 2(4) using E by (intro sort_by_name_Inr 2(3)) force
  have r: "sort_by_name name (snd (finish_deps indeg ready ?cs)) = Inr (sort_key nm r)"
    using turn(2) by (auto simp: run intro!: sort_by_name_Inr 2(3))
  obtain order where o: "kahn name children indeg' (sort_key nm r) = Inr order" "greedy nm H E (insert h done) order"
    using 2(1) [OF c r, of "insert h done"] turn(1) 2(3,4) by (auto simp: run)
  have "free_node H E done h" "free_node H E done k \<Longrightarrow> nm h \<le> nm k" for k
    using 2(2) by (auto simp: kahn_inv_def)
  then show ?case using c r o run by auto
qed
lemma concatE_subset:
  "concatE f xs = Inr ys \<Longrightarrow> (\<And>x zs. x \<in> set xs \<Longrightarrow> f x = Inr zs \<Longrightarrow> set zs \<subseteq> A) \<Longrightarrow> set ys \<subseteq> A"
proof (induction xs arbitrary: ys)
  case (Cons x xs)
  then obtain zs zs' where c: "f x = Inr zs" "concatE f xs = Inr zs'" "ys = zs @ zs'" by auto
  have "set zs' \<subseteq> A" by (rule Cons.IH [OF c(2)]) (rule Cons.prems(2), simp_all)
  then show ?case using Cons.prems(2) [of x zs] c by simp
qed simp

lemma edges_inside:
  assumes "graph_edges nodes = Inr (H, E)"
  shows "length H = length nodes \<and> fst ` set E \<subseteq> set H \<and> snd ` set E \<subseteq> set H"
proof -
  have h: "node_hashes nodes = Inr H" and e: "concatE (node_edges H) nodes = Inr E"
    using assms by (auto simp: graph_edges_def)
  have own: "\<exists>h. str_item n ''hash'' = Inr h \<and> h \<in> set H" if "n \<in> set nodes" for n
    using mapE_Inr_in_set [OF h [unfolded node_hashes_def] that] by blast
  have "set E \<subseteq> set H \<times> set H"
  proof (rule concatE_subset [OF e])
    fix n es assume n: "n \<in> set nodes" "node_edges H n = Inr es"
    obtain k where k: "str_item n ''hash'' = Inr k" "k \<in> set H" using own [OF n(1)] by blast
    obtain deps where d: "concatE (\<lambda>dep. bindE (str_item dep ''hash'') (\<lambda>dh.
        if dh \<notin> set H then Inr [] else bindE (str_item n ''hash'') (\<lambda>h. Inr [(dh, h)]))) deps = Inr es"
      using n(2) by (auto simp: node_edges_def)
    show "set es \<subseteq> set H \<times> set H"
      by (rule concatE_subset [OF d]) (use k in \<open>auto split: if_splits\<close>)
  qed
  then show ?thesis using mapE_Inr_length [OF h [unfolded node_hashes_def]] by force
qed

lemma greedy_sound:
  "greedy nm H E done order \<Longrightarrow> distinct order \<and> set order \<subseteq> set H \<and> set order \<inter> done = {}
    \<and> (\<forall>xs h ys. order = xs @ h # ys \<longrightarrow> (\<forall>d. (d, h) \<in> set E \<longrightarrow> d \<in> done \<union> set xs))
    \<and> (\<forall>k. \<not> free_node H E (done \<union> set order) k)"
proof (induction order arbitrary: "done")
  case (Cons h order)
  have f: "free_node H E done h" and g: "greedy nm H E (insert h done) order" using Cons.prems by simp_all
  note IH = Cons.IH [OF g]
  have "\<forall>d. (d, k) \<in> set E \<longrightarrow> d \<in> done \<union> set xs" if "h # order = xs @ k # ys" for xs k ys
    using that f IH by (cases xs) (auto simp: free_node_def)
  then show ?case using f IH by (auto simp: free_node_def)
qed auto

lemma stuck_only_on_cycle:
  assumes "\<And>k. \<not> free_node H E D k" "fst ` set E \<subseteq> set H" "acyclic (set E)"
  shows "set H \<subseteq> D"
proof (rule ccontr)
  assume "\<not> set H \<subseteq> D"
  then obtain x where x: "x \<in> set H - D" by blast
  have wf: "wf (set E)" by (rule finite_acyclic_wf) (use assms(3) in auto)
  obtain z where "z \<in> set H - D" "\<And>y. (y, z) \<in> set E \<Longrightarrow> y \<notin> set H - D"
    using wfE_min [OF wf x] by blast
  then have "free_node H E D z" using assms(2) by (force simp: free_node_def)
  then show False using assms(1) by blast
qed

lemma ordered_acyclic:
  assumes "\<forall>xs h ys. order = xs @ h # ys \<longrightarrow> (\<forall>d. (d, h) \<in> set E \<longrightarrow> d \<in> set xs)"
    and "snd ` set E \<subseteq> set order" "distinct order"
  shows "acyclic (set E)"
proof (rule acyclicI_order)
  define pos where "pos = (\<lambda>x. - int (length (takeWhile (\<lambda>y. y \<noteq> x) order)))"
  fix d h assume e: "(d, h) \<in> set E"
  then have "h \<in> set order" using assms(2) by force
  then obtain xs ys where o: "order = xs @ h # ys" by (meson split_list)
  have d: "d \<in> set xs" using assms(1) o e by blast
  then obtain as bs where xs: "xs = as @ d # bs" "d \<notin> set as" by (meson split_list_first)
  have h: "h \<notin> set xs" using assms(3) o by simp
  have "takeWhile (\<lambda>y. y \<noteq> h) order = xs"
    unfolding o using h by (subst takeWhile_append2) auto
  moreover have "takeWhile (\<lambda>y. y \<noteq> d) order = as"
    unfolding o xs using xs(2) by (simp only: append_assoc) (subst takeWhile_append2, auto)
  ultimately show "pos h < pos d" by (simp add: pos_def xs(1))
qed

lemma topo_start:
  assumes "graph_edges nodes = Inr (H, E)"
    and name: "\<And>h. h \<in> set H \<Longrightarrow> name_of by_hash h = Inr (nm h)"
  shows "\<exists>order. greedy nm H E {} order
    \<and> topo_order nodes by_hash = (if length order \<noteq> length H
         then Inl (SystemExit ''cycle detected in Spack build DAG (unexpected)'' []) else Inr order)"
proof -
  note E = edges_inside [OF assms(1)]
  obtain indeg children where t: "foldl count_edge (init_table 0 H, init_table [] H) E = (indeg, children)"
    by (cases "foldl count_edge (init_table 0 H, init_table [] H) E")
  note k = init_table_keys [of "0 :: int" H]
  have c: "distinct (map fst indeg)" "fst ` set indeg = set H"
    "\<And>h. value_at 0 indeg h = open_deps E {} h"
    "\<And>h. value_at [] children h = map snd (filter (\<lambda>(d, k). d = h) E)"
    using count_edges [OF t] k E by (simp_all add: value_at_init open_deps_def)
  let ?r = "map fst (filter (\<lambda>(h, d). d = 0) indeg)"
  have "h \<in> set ?r \<longleftrightarrow> h \<in> set H \<and> value_at 0 indeg h = 0" for h
    using c(1,2) map_of_pairs [OF c(1), of h _ 0] by force
  then have r: "set ?r = {h. free_node H E {} h}" using c(3) by (auto simp: free_open)
  have "distinct ?r" using c(1) by (simp add: distinct_map_filter)
  then have inv: "kahn_inv nm H E indeg {} (sort_key nm ?r)" using r c(3) by (simp add: kahn_inv_def)
  have "sort_by_name (name_of by_hash) ?r = Inr (sort_key nm ?r)"
    using r by (intro sort_by_name_Inr name) (auto simp: free_node_def)
  then show ?thesis
    using kahn_greedy [OF inv _ name c(4)] E t assms(1) by (auto simp: topo_order_def)
qed
lemma topo_decides:
  assumes "graph_edges nodes = Inr (H, E)"
    and name: "\<And>h. h \<in> set H \<Longrightarrow> name_of by_hash h = Inr (nm h)"
  shows "if distinct H \<and> acyclic (set E)
    then \<exists>order. topo_order nodes by_hash = Inr order \<and> greedy nm H E {} order \<and> mset order = mset H
    else topo_order nodes by_hash = Inl (SystemExit ''cycle detected in Spack build DAG (unexpected)'' [])"
proof -
  obtain order where o: "greedy nm H E {} order" and t: "topo_order nodes by_hash = (if length order \<noteq> length H
         then Inl (SystemExit ''cycle detected in Spack build DAG (unexpected)'' []) else Inr order)"
    using topo_start [of nodes H E by_hash nm] assms by blast
  note sound = greedy_sound [OF o]
  note E = edges_inside [OF assms(1)]
  show ?thesis
  proof (cases "distinct H \<and> acyclic (set E)")
    case True
    have "set H \<subseteq> set order"
      by (rule stuck_only_on_cycle [where H = H and E = E]) (use sound E True in auto)
    then have "mset order = mset H" using True sound by (simp add: set_eq_iff_mset_eq_distinct [symmetric])
    then show ?thesis using True o t by (auto dest: mset_eq_length)
  next
    case False
    have "length order \<noteq> length H"
    proof
      assume l: "length order = length H"
      have "card (set order) = length H" using sound l by (metis distinct_card)
      moreover have "card (set order) \<le> card (set H)" using sound by (intro card_mono) auto
      ultimately have "card (set H) = length H" using card_length [of H] by simp
      moreover have "set order = set H"
        using sound \<open>card (set order) = length H\<close> calculation by (intro card_subset_eq) auto
      ultimately have "distinct H \<and> acyclic (set E)"
        using ordered_acyclic [of order E] sound E by (auto simp: card_distinct)
      then show False using False by blast
    qed
    then show ?thesis using t False by auto
  qed
qed

lemma topo_order_cases:
  assumes "graph_edges nodes = Inr (H, E)"
    and "\<And>h. h \<in> set H \<Longrightarrow> name_of by_hash h = Inr (nm h)"
  shows "case topo_order nodes by_hash of
      Inr order \<Rightarrow> distinct H \<and> acyclic (set E) \<and> mset order = mset H
        \<and> (\<forall>xs h ys. order = xs @ h # ys \<longrightarrow> {d. (d, h) \<in> set E} \<subseteq> set xs)
    | Inl e \<Rightarrow> e = SystemExit ''cycle detected in Spack build DAG (unexpected)'' []
        \<and> \<not> (distinct H \<and> acyclic (set E))"
  using topo_decides [of nodes H E by_hash nm] assms greedy_sound [of nm H E "{}"]
  by (auto split: if_splits sum.split)

text \<open>
  C18. The order of the build graph. On a node list whose hashes and names can be read, it is
  returned exactly when the hashes are distinct and the dependencies have no cycle, and is then an
  arrangement of all nodes in which every dependency inside the graph comes before its dependent;
  otherwise, also when a hash is listed twice without a cycle, the answer is the cycle error.
\<close>

theorem topo_order_decides:
  assumes "graph_edges nodes = Inr (H, E)"
    and "\<And>h. h \<in> set H \<Longrightarrow> name_of by_hash h = Inr (nm h)"
  shows "case topo_order nodes by_hash of
      Inr order \<Rightarrow> distinct H \<and> acyclic (set E) \<and> mset order = mset H
        \<and> (\<forall>xs h ys. order = xs @ h # ys \<longrightarrow> {d. (d, h) \<in> set E} \<subseteq> set xs)
    | Inl e \<Rightarrow> e = SystemExit ''cycle detected in Spack build DAG (unexpected)'' []
        \<and> \<not> (distinct H \<and> acyclic (set E))"
  by (rule topo_order_cases [OF assms])

lemma greedy_unique:
  "greedy nm H E done o1 \<Longrightarrow> greedy nm H E done o2 \<Longrightarrow> inj_on nm (set H) \<Longrightarrow> o1 = o2"
proof (induction o1 arbitrary: o2 "done")
  case Nil
  then show ?case by (cases o2) auto
next
  case (Cons h hs)
  then obtain k ks where o2: "o2 = k # ks" by (cases o2) auto
  then have "nm h = nm k" "h \<in> set H" "k \<in> set H" using Cons.prems by (auto simp: free_node_def intro!: antisym)
  then have "h = k" using Cons.prems(3) by (auto simp: inj_on_def)
  then show ?case using Cons o2 by auto
qed

lemma greedy_cong:
  "set H = set H' \<Longrightarrow> set E = set E' \<Longrightarrow> greedy nm H E done order = greedy nm H' E' done order"
proof -
  assume eq: "set H = set H'" "set E = set E'"
  then have "free_node H E d h = free_node H' E' d h" for d h by (simp add: free_node_def)
  then show ?thesis by (induction order arbitrary: "done") auto
qed

text \<open>
  The order depends only on the graph: two listings of the same nodes and edges, in any order,
  give the same answer when no two nodes share a name, and each node is the one with the least name
  among those whose dependencies are already there.
\<close>

theorem topo_order_deterministic:
  assumes "graph_edges nodes = Inr (H, E)" "graph_edges nodes' = Inr (H', E')"
    and "mset H = mset H'" "mset E = mset E'" "inj_on nm (set H)"
    and name: "\<And>h. h \<in> set H \<Longrightarrow> name_of by_hash h = Inr (nm h) \<and> name_of by_hash' h = Inr (nm h)"
  shows "topo_order nodes by_hash = topo_order nodes' by_hash'
    \<and> (\<forall>order. topo_order nodes by_hash = Inr order \<longrightarrow> greedy nm H E {} order)"
proof -
  have s: "set H = set H'" "set E = set E'" using assms(3,4) by (auto dest: mset_eq_setD)
  have d: "distinct H = distinct H'" using assms(3) by (metis distinct_count_atmost_1 mset_eq_setD)
  note t = topo_decides [OF assms(1), of by_hash nm] topo_decides [OF assms(2), of by_hash' nm]
  have u: "o1 = o2" if "greedy nm H E {} o1" "greedy nm H' E' {} o2" for o1 o2
    using greedy_unique [OF that(1) _ assms(5)] that(2) greedy_cong [OF s] by blast
  show ?thesis
  proof (cases "distinct H \<and> acyclic (set E)")
    case True
    then obtain o1 o2 where "topo_order nodes by_hash = Inr o1" "greedy nm H E {} o1"
      "topo_order nodes' by_hash' = Inr o2" "greedy nm H' E' {} o2"
      using t name s d by auto
    then show ?thesis using u by auto
  next
    case False
    then show ?thesis using t name s d by auto
  qed
qed
section \<open>A sample graph\<close>

definition sample_node :: "string \<Rightarrow> string \<Rightarrow> string list \<Rightarrow> dict" where
  "sample_node h name deps =
     [(''hash'', JStr h), (''name'', JStr name),
      (''dependencies'', JList (map (\<lambda>d. JObj [(''hash'', JStr d)]) deps))]"

definition sample_nodes :: "dict list" where
  "sample_nodes = [sample_node ''p'' ''png'' [''z'', ''c''], sample_node ''z'' ''zlib'' [''c''], sample_node ''c'' ''cmake'' [''x'']]"

definition sample_by_hash :: "(string \<times> dict) list" where
  "sample_by_hash = zip [''p'', ''z'', ''c''] sample_nodes"

definition sample_name :: "string \<Rightarrow> string" where
  "sample_name h = (if h = ''p'' then ''png'' else if h = ''z'' then ''zlib'' else ''cmake'')"

lemma sample_edges:
  "graph_edges sample_nodes = Inr ([''p'', ''z'', ''c''], [(''z'', ''p''), (''c'', ''p''), (''c'', ''z'')])"
  "graph_edges (rev sample_nodes) = Inr ([''c'', ''z'', ''p''], [(''c'', ''z''), (''z'', ''p''), (''c'', ''p'')])"
  by code_simp+

lemma sample_names: "h \<in> set [''p'', ''z'', ''c''] \<Longrightarrow> name_of sample_by_hash h = Inr (sample_name h)"
  by (auto simp: name_of_def sample_by_hash_def sample_nodes_def sample_node_def sample_name_def str_item_def ditem_def)

lemma topo_order_decides_witness:
  "case topo_order sample_nodes sample_by_hash of
      Inr order \<Rightarrow> mset order = mset [''p'', ''z'', ''c'']
    | Inl e \<Rightarrow> \<not> (distinct [''p'', ''z'', ''c''] \<and> acyclic (set [(''z'', ''p''), (''c'', ''p''), (''c'', ''z'')]))"
  using topo_order_decides [OF sample_edges(1) sample_names] by (auto split: sum.splits)

lemma topo_order_deterministic_witness:
  "topo_order sample_nodes sample_by_hash = topo_order (rev sample_nodes) sample_by_hash"
  using topo_order_deterministic [OF sample_edges, of sample_name sample_by_hash sample_by_hash] sample_names
  by (auto simp: sample_name_def add_mset_commute)

end
