(* ===== verification/SpackLockRun.thy ===== *)
theory SpackLockRun
  imports SpackLock "HOL-Library.Multiset"
begin

text \<open>
  What the lock promises: validated overrides keep every ODR-sensitive family at one version and
  serve each node at its own version, the edges of a lock stay inside it, and providers can be
  switched on a reused lock without a trace of the earlier choice.
\<close>

section \<open>Loops that collect\<close>

lemma concatE_origin:
  "concatE f xs = Inr ys \<Longrightarrow> y \<in> set ys \<Longrightarrow> \<exists>x\<in>set xs. \<exists>zs. f x = Inr zs \<and> y \<in> set zs"
  by (induction xs arbitrary: ys) auto

section \<open>One version per family\<close>

lemma single_version_unique:
  assumes "single_version what pairs = Inr u" "(k, v) \<in> set pairs" "(k, w) \<in> set pairs"
  shows "v = w"
proof -
  have "\<not> 1 < length (versions_of pairs k)"
    using assms(1,2) by (force simp: single_version_def find_None_iff split: option.splits)
  moreover have "v \<in> set (versions_of pairs k)" "w \<in> set (versions_of pairs k)"
    using assms(2,3) by (force simp: versions_of_def)+
  ultimately show ?thesis
    by (cases "versions_of pairs k" rule: remdups_adj.cases) auto
qed

text \<open>
  C19. Overrides that pass the ODR check: any two nodes of packages of one family (gRPC and its Python
  package, Protobuf and its Python package, and so on) have the same family version, and a native
  provider of such a node is registered under exactly its name and version.
\<close>

theorem odr_families_single_version:
  assumes "validate_odr_sensitive_native_overrides nodes overrides = Inr ()"
    and "n \<in> set nodes" "label_of n = Some a" "a \<in> set ODR_SENSITIVE_PROVIDER_PACKAGES"
    and "m \<in> set nodes" "label_of m = Some b" "b \<in> set ODR_SENSITIVE_PROVIDER_PACKAGES"
    and "odr_family a = odr_family b"
  shows "odr_family_version a (version_of n) = odr_family_version b (version_of m)
    \<and> native_override_key_for a (version_of n) overrides \<in> {None, Some (at_version a (version_of n))}"
proof -
  obtain found where f: "concatE (odr_node overrides) nodes = Inr found" and
    s: "single_version ''ODR-sensitive provider family {} appears at multiple versions in one lock: {}''
          (map (\<lambda>(name, v). (odr_family name, odr_family_version name v)) found) = Inr ()"
    using assms(1) by (auto simp: validate_odr_sensitive_native_overrides_def Let_def)
  have mem: "(c, version_of x) \<in> set found \<and> \<not> (map_of overrides c \<noteq> None \<and> map_of overrides (at_version c (version_of x)) = None)"
    if "x \<in> set nodes" "label_of x = Some c" "c \<in> set ODR_SENSITIVE_PROVIDER_PACKAGES" for x c
    using concatE_part [OF f that(1)] that(2,3) by (auto simp: odr_node_def split: if_splits)
  have "(odr_family a, odr_family_version a (version_of n))
      \<in> set (map (\<lambda>(name, v). (odr_family name, odr_family_version name v)) found)"
    "(odr_family a, odr_family_version b (version_of m))
      \<in> set (map (\<lambda>(name, v). (odr_family name, odr_family_version name v)) found)"
    using mem [OF assms(2-4)] mem [OF assms(5-7)] assms(8) by force+
  then have "odr_family_version a (version_of n) = odr_family_version b (version_of m)"
    by (rule single_version_unique [OF s])
  then show ?thesis using mem [OF assms(2-4)] by (auto simp: native_override_key_for_def)
qed

section \<open>Provided versions\<close>

definition served_ok :: "str_map \<Rightarrow> str_map \<Rightarrow> (string \<times> string \<times> string) list \<Rightarrow> dict \<Rightarrow> bool" where
  "served_ok overrides provided allowed node =
     (case native_override_key_for (case label_of node of Some n \<Rightarrow> n | None \<Rightarrow> []) (version_of node) overrides of
        None \<Rightarrow> True
      | Some key \<Rightarrow>
          (case map_of provided key of
             None \<Rightarrow> True
           | Some v \<Rightarrow> v = version_of node \<or> (key, version_of node, v) \<in> set allowed))"

lemma scan_step:
  "version_errors (scan_node_version overrides provided allowed sc node) = [] \<Longrightarrow>
    (version_errors sc = [] \<longrightarrow> reported_substitutions sc = []) \<Longrightarrow>
    version_errors sc = [] \<and> served_ok overrides provided allowed node
    \<and> reported_substitutions (scan_node_version overrides provided allowed sc node) = []"
  by (auto simp: scan_node_version_def served_ok_def Let_def split: option.splits if_splits)

lemma scan_all:
  "version_errors (foldl (scan_node_version overrides provided allowed) sc nodes) = [] \<Longrightarrow>
    (version_errors sc = [] \<longrightarrow> reported_substitutions sc = []) \<Longrightarrow>
    version_errors sc = [] \<and> (\<forall>node\<in>set nodes. served_ok overrides provided allowed node)"
proof (induction nodes arbitrary: sc)
  case (Cons node nodes)
  define sc' where "sc' = scan_node_version overrides provided allowed sc node"
  have step: "version_errors sc' = [] \<Longrightarrow> version_errors sc = [] \<and> served_ok overrides provided allowed node
      \<and> reported_substitutions sc' = []"
    using scan_step [of overrides provided allowed sc node] Cons.prems(2) unfolding sc'_def by blast
  then have "version_errors sc' = [] \<and> (\<forall>node\<in>set nodes. served_ok overrides provided allowed node)"
    using Cons.prems(1) by (intro Cons.IH) (simp_all add: sc'_def)
  then show ?case using step by simp
qed simp

text \<open>
  Native providers that pass the version check: every override records the version that its
  recipe builds; a key with a version provides that version; and each node that an override serves
  is served at its own version, or by a substitution that is recorded with a ticket.
\<close>

theorem native_versions_checked:
  assumes "validate_native_provider_versions nodes overrides (Some provided) substitutions = Inr ()"
    and "node \<in> set nodes"
    and "native_override_key_for (case label_of node of Some n \<Rightarrow> n | None \<Rightarrow> []) (version_of node) overrides = Some key"
  shows "\<exists>v. map_of provided key = Some v
    \<and> (\<forall>exact. after_char (CHR ''@'') key = Some exact \<longrightarrow> v = exact)
    \<and> (v = version_of node \<or> (key, version_of node, v) \<in> set (List.map_filter substitution_of substitutions))"
proof -
  have in_ov: "map_of overrides key \<noteq> None"
    using assms(3) by (auto simp: native_override_key_for_def split: if_splits)
  then have ne: "overrides \<noteq> []" by auto
  have errs: "native_provider_version_static_errors overrides provided substitutions = []"
    "native_provider_version_graph_errors nodes overrides provided substitutions False = []"
    using assms(1) ne by (auto simp: validate_native_provider_versions_def native_provider_version_errors_def split: if_splits)
  have key: "key \<in> fst ` set overrides" using in_ov by (auto simp: map_of_eq_None_iff)
  have "sorted_set (filter (\<lambda>key. map_of provided key = None) (map fst overrides)) = []"
    using errs(1) by (simp add: native_provider_version_static_errors_def)
  then have "set (filter (\<lambda>key. map_of provided key = None) (map fst overrides)) = {}"
    by (metis set_sorted_set set_empty)
  then obtain v where v: "map_of provided key = Some v" using key by (auto simp: filter_empty_conv)
  have "exact_key_error provided key = []"
  proof -
    have "\<forall>k\<in>set (filter (\<lambda>key. map_of provided key \<noteq> None) (map fst overrides)). exact_key_error provided k = []"
      using errs(1) by (simp add: native_provider_version_static_errors_def)
    then show ?thesis using key v by auto
  qed
  then have "\<forall>exact. after_char (CHR ''@'') key = Some exact \<longrightarrow> v = exact"
    using v by (auto simp: exact_key_error_def split: if_splits)
  moreover have "served_ok overrides provided (List.map_filter substitution_of substitutions) node"
    using errs(2) scan_all assms(2) by (fastforce simp: native_provider_version_graph_errors_def Let_def)
  ultimately show ?thesis using v assms(3) by (auto simp: served_ok_def)
qed
section \<open>The edges of a lock\<close>

lemma table_from_pairs:
  "map_of (foldl (\<lambda>d (h, n). AList.update h n d) d ps) h =
     (case map_of (rev ps) h of Some n \<Rightarrow> Some n | None \<Rightarrow> map_of d h)"
proof (induction ps arbitrary: d)
  case (Cons p ps)
  obtain k n where "p = (k, n)" by (cases p)
  then show ?case using Cons by (auto simp: update_conv' map_of_append map_add_def split: option.splits)
qed simp

lemma table_keys:
  "fst ` set (foldl (\<lambda>d (h, n). AList.update h n d) d ps) = fst ` set d \<union> fst ` set ps
    \<and> (distinct (map fst d) \<longrightarrow> distinct (map fst (foldl (\<lambda>d (h, n). AList.update h n d) d ps)))"
proof (induction ps arbitrary: d)
  case (Cons p ps)
  obtain k n where "p = (k, n)" by (cases p)
  then show ?case using Cons [of "AList.update k n d"] distinct_update [of d k n] by (auto simp: dom_update)
qed simp

lemma table_values: "set (foldl (\<lambda>d (h, n). AList.update h n d) d ps) \<subseteq> set d \<union> set ps"
proof (induction ps arbitrary: d)
  case (Cons p ps)
  obtain k n where "p = (k, n)" by (cases p)
  then show ?case using Cons [of "AList.update k n d"] set_update [of k n d] by auto
qed simp

lemma hash_table_finds:
  assumes "hash_table nodes = Inr by_hash" "node_hashes nodes = Inr hs" "h \<in> set hs"
  shows "\<exists>n\<in>set nodes. map_of by_hash h = Some n"
proof -
  have l: "length hs = length nodes" using assms(2) by (auto simp: node_hashes_def dest: mapE_Inr_length)
  have b: "by_hash = foldl (\<lambda>d (h, n). AList.update h n d) [] (zip hs nodes)"
    using assms(1,2) by (auto simp: hash_table_def)
  have "h \<in> fst ` set (rev (zip hs nodes))" using assms(3) l by (metis map_fst_zip set_map set_rev)
  then obtain n where "map_of (rev (zip hs nodes)) h = Some n"
    by (metis (no_types) map_of_eq_None_iff option.exhaust)
  then have "map_of by_hash h = Some n" "n \<in> set nodes"
    using b table_from_pairs [of "[]" "zip hs nodes" h] by (auto dest!: map_of_SomeD dest: set_zip_rightD)
  then show ?thesis by blast
qed

definition kept_names :: "dict list \<Rightarrow> string list" where
  "kept_names nodes =
     filter (\<lambda>n. n \<notin> set BUILD_ONLY_NODES) (map (\<lambda>n. case dget n ''name'' of JStr s \<Rightarrow> s | _ \<Rightarrow> []) nodes)"

lemma str_item_Inr: "str_item d k = Inr s \<longleftrightarrow> map_of d k = Some (JStr s)"
proof (cases "map_of d k")
  case None
  then show ?thesis by (simp add: str_item_def ditem_def)
next
  case (Some v)
  then show ?thesis by (cases v) (simp_all add: str_item_def ditem_def)
qed

lemma lock_node_shape:
  assumes "lock_node host overrides by_hash node = Inr es"
  obtains name where "str_item node ''name'' = Inr name" "name \<in> set BUILD_ONLY_NODES" "es = []"
  | name v deps link_deps where "str_item node ''name'' = Inr name" "name \<notin> set BUILD_ONLY_NODES"
      "es = [(repo_name name, v)]" "dependencies node = Inr deps" "concatE (link_dep by_hash) deps = Inr link_deps"
      "dget v ''link_deps'' = JList (map JStr (sorted_set link_deps))"
  using assms by (auto simp: lock_node_def Let_def dict_simps split: if_splits)

lemma lock_entries_keys:
  "concatE (lock_node host overrides by_hash) nodes = Inr entries \<Longrightarrow>
    map fst entries = map repo_name (kept_names nodes)"
proof (induction nodes arbitrary: entries)
  case (Cons n nodes)
  then obtain es es' where e: "lock_node host overrides by_hash n = Inr es"
    "concatE (lock_node host overrides by_hash) nodes = Inr es'" "entries = es @ es'" by auto
  show ?case
    by (rule lock_node_shape [OF e(1)])
       (use Cons.IH [OF e(2)] e(3) in \<open>auto simp: kept_names_def str_item_Inr dget_Some\<close>)
qed (simp add: kept_names_def)

lemma link_dep_kept:
  assumes "link_dep by_hash dep = Inr rs" "r \<in> set rs" "str_item dep ''hash'' = Inr h"
    and "map_of by_hash h = Some n" "n \<in> set nodes" "str_item n ''name'' = Inr name"
  shows "r \<in> repo_name ` set (kept_names nodes)"
proof -
  have name: "map_of n ''name'' = Some (JStr name)" using assms(6) by (simp add: str_item_Inr)
  obtain own types where "dep_name by_hash dep = Inr own" "own \<notin> set BUILD_ONLY_NODES" "r = repo_name own"
    using assms(1,2) by (auto simp: link_dep_def split: if_splits)
  moreover have "own = name" using calculation(1) assms(3,4,6) name by (auto simp: dep_name_def)
  moreover have "name \<in> (\<lambda>n. case dget n ''name'' of JStr s \<Rightarrow> s | _ \<Rightarrow> []) ` set nodes"
    using assms(5) name by (force simp: dget_Some)
  ultimately show ?thesis by (auto simp: kept_names_def)
qed

lemma lock_packages_map:
  "map_of lock ''packages'' = Some (JObj (map (\<lambda>(k, v). (k, JObj v)) ps)) \<Longrightarrow> lock_packages lock = Inr ps"
  by (induction ps) (auto simp: lock_packages_def ditem_def mapE_eq_Inr list_all2_map1 as_obj_def intro: list_all2_refl
    simp: list_all2_same)

definition closed_spec :: "dict list \<Rightarrow> bool" where
  \<comment> \<open>every dependency that a node names is a node\<close>
  "closed_spec nodes =
     (\<exists>hs. node_hashes nodes = Inr hs \<and>
        (\<forall>n\<in>set nodes. \<forall>deps dep h. dependencies n = Inr deps \<longrightarrow> dep \<in> set deps \<longrightarrow> str_item dep ''hash'' = Inr h \<longrightarrow> h \<in> set hs))"

text \<open>
  A lock is closed: built from a graph that names only its own nodes, it has one package for every
  node that is not part of the build toolchain, in the order of the names, and every link dependency
  of a package is again a package of the lock.
\<close>

theorem lock_edges_closed:
  assumes "build_lock host overrides provided substitutions spec = Inr lock"
    and "spec_nodes spec = Inr nodes" "closed_spec nodes"
  shows "\<exists>ps. lock_packages lock = Inr ps
    \<and> map fst ps = sorted_set (map repo_name (kept_names nodes))
    \<and> list_all (\<lambda>(k, v). \<exists>ds. dget v ''link_deps'' = JList (map JStr ds) \<and> set ds \<subseteq> set (map fst ps)) ps"
proof -
  obtain by_hash entries root where b: "hash_table nodes = Inr by_hash"
    "concatE (lock_node host overrides by_hash) nodes = Inr entries"
    and lock: "lock = [(''schema_version'', JInt 1), (''root'', JStr (repo_name root)),
          (''packages'', JObj (map (\<lambda>(k, v). (k, JObj v)) (sort_key fst (foldl (\<lambda>d (k, v). AList.update k v d) [] entries))))]"
    using assms(1,2) by (auto simp: build_lock_def Let_def)
  define ps where "ps = sort_key fst (foldl (\<lambda>d (k, v). AList.update k v d) [] entries)"
  have keys: "set (map fst ps) = repo_name ` set (kept_names nodes)"
    using table_keys [of "[]" entries] lock_entries_keys [OF b(2)] by (simp add: ps_def) (metis set_map)
  have "distinct (map fst (foldl (\<lambda>d (k, v). AList.update k v d) [] entries))"
    using table_keys [of "[]" entries] by simp
  moreover have "mset (map fst ps) = mset (map fst (foldl (\<lambda>d (k, v). AList.update k v d) [] entries))"
    by (simp add: ps_def)
  ultimately have "distinct (map fst ps)" using mset_eq_imp_distinct_iff by blast
  then have "map fst ps = sorted_set (map repo_name (kept_names nodes))"
    using keys by (intro sorted_distinct_set_unique) (simp_all add: ps_def sorted_set_def)
  moreover have "\<exists>ds. dget v ''link_deps'' = JList (map JStr ds) \<and> set ds \<subseteq> set (map fst ps)" if kv: "(k, v) \<in> set ps" for k v
  proof -
    have "(k, v) \<in> set entries" using kv table_values [of "[]" entries] by (auto simp: ps_def)
    then obtain node es where node: "node \<in> set nodes" "lock_node host overrides by_hash node = Inr es" "(k, v) \<in> set es"
      using concatE_origin [OF b(2)] by blast
    obtain deps link_deps where d: "dependencies node = Inr deps" "concatE (link_dep by_hash) deps = Inr link_deps"
      "dget v ''link_deps'' = JList (map JStr (sorted_set link_deps))"
      by (rule lock_node_shape [OF node(2)]) (use node(3) in auto)
    have "r \<in> repo_name ` set (kept_names nodes)" if r: "r \<in> set link_deps" for r
    proof -
      obtain dep rs where dep: "dep \<in> set deps" "link_dep by_hash dep = Inr rs" "r \<in> set rs"
        using concatE_origin [OF d(2) r] by blast
      then obtain h where h: "str_item dep ''hash'' = Inr h" by (auto simp: link_dep_def dep_name_def split: if_splits)
      obtain hs where hs: "node_hashes nodes = Inr hs" "h \<in> set hs"
        using assms(3) node(1) d(1) dep(1) h by (auto simp: closed_spec_def)
      obtain n where n: "n \<in> set nodes" "map_of by_hash h = Some n" using hash_table_finds [OF b(1) hs] by blast
      obtain zs where "lock_node host overrides by_hash n = Inr zs" using concatE_part [OF b(2) n(1)] by blast
      then obtain name where "str_item n ''name'' = Inr name" by (auto simp: lock_node_def)
      then show ?thesis using link_dep_kept [OF dep(2,3) h n(2,1)] by blast
    qed
    then show ?thesis using d(3) keys by (intro exI [of _ "sorted_set link_deps"]) auto
  qed
  moreover have "lock_packages lock = Inr ps" by (rule lock_packages_map) (simp add: lock ps_def)
  ultimately show ?thesis by (intro exI [of _ ps]) (auto simp: list_all_iff simp del: set_map)
qed

section \<open>Switching providers\<close>

lemma lock_packages_with [simp]: "lock_packages (with_packages lock ps) = Inr ps"
  by (rule lock_packages_map) (simp add: with_packages_def)

lemma with_packages_twice [simp]: "with_packages (with_packages lock ps) qs = with_packages lock qs"
  by (simp add: with_packages_def)

lemma delete_twice [simp]: "AList.delete k (AList.delete k d) = AList.delete k d"
  by (induction d) auto

lemma delete_updated [simp]: "AList.delete k (AList.update k v d) = AList.delete k d"
  by (induction d) auto

lemma delete_other: "k \<noteq> l \<Longrightarrow> AList.delete k (AList.update l v d) = AList.update l v (AList.delete k d)"
  by (induction d) auto

lemma reset_twice [simp]: "reset_provider (reset_provider node) = reset_provider node"
  by (simp add: reset_provider_def delete_other)

lemma reset_flipped [simp]:
  "reset_provider (dput ''native_prefix'' p (dput ''build'' v (reset_provider node))) = reset_provider node"
  by (simp add: reset_provider_def delete_other)

lemma apply_override_cases:
  assumes "apply_override native node = Inr node'"
  obtains "node' = node" | p where "node' = dput ''native_prefix'' (JStr p) (dput ''build'' (JStr ''native'') node)"
proof -
  obtain pkg where "node' = (case native_override_for pkg (version_of node) native of
            Some (c # cs) \<Rightarrow> dput ''native_prefix'' (JStr (c # cs)) (dput ''build'' (JStr ''native'') node)
          | _ \<Rightarrow> node)"
    using assms by (auto simp: apply_override_def)
  then show thesis using that by (cases "native_override_for pkg (version_of node) native") (auto split: list.splits)
qed

lemma reset_applied: "apply_override native (reset_provider node) = Inr node' \<Longrightarrow> reset_provider node' = reset_provider node"
  by (elim apply_override_cases) simp_all

definition with_reset :: "(string \<times> dict) list \<Rightarrow> (string \<times> dict) list" where
  "with_reset ps = map (\<lambda>(k, node). (k, reset_provider node)) ps"

lemma normalize_shape:
  assumes "normalize_providers file canonical lock = Inr lock'"
  obtains ps qs where "lock_packages lock = Inr ps" "lock' = with_packages lock qs" "with_reset qs = with_reset ps"
    "list_all2 (\<lambda>(k, a) (l, b). k = l \<and> (\<exists>native. b = reset_provider a \<or> apply_override native (reset_provider a) = Inr b)) ps qs"
proof -
  obtain ps where ps: "lock_packages lock = Inr ps" using assms by (auto simp: normalize_providers_def)
  consider "lock' = with_packages lock (with_reset ps)"
    | qs where "lock' = with_packages lock qs"
      "mapE (\<lambda>(k, node). bindE (apply_override (read_native_overrides file) node) (\<lambda>n. Inr (k, n))) (with_reset ps) = Inr qs"
    using assms ps by (auto simp: normalize_providers_def with_reset_def Let_def split: if_splits)
  then show thesis
  proof cases
    case 1
    have "with_reset (with_reset ps) = with_reset ps" by (auto simp: with_reset_def)
    moreover have "list_all2 (\<lambda>(k, a) (l, b). k = l \<and> (\<exists>native. b = reset_provider a
        \<or> apply_override native (reset_provider a) = Inr b)) ps (with_reset ps)"
      by (auto simp: with_reset_def list_all2_map2 list_all2_same)
    ultimately show ?thesis using that ps 1 by blast
  next
    case (2 qs)
    have l: "list_all2 (\<lambda>(k, a) (l, b). k = l \<and> apply_override (read_native_overrides file) (reset_provider a) = Inr b) ps qs"
      using 2(2) by (auto simp: mapE_eq_Inr with_reset_def list_all2_map1 elim!: list_all2_mono)
    then have "with_reset qs = with_reset ps"
      by (induction rule: list_all2_induct) (auto simp: with_reset_def reset_applied)
    moreover have "list_all2 (\<lambda>(k, a) (l, b). k = l \<and> (\<exists>native. b = reset_provider a
        \<or> apply_override native (reset_provider a) = Inr b)) ps qs"
      using l by (rule list_all2_mono) auto
    ultimately show ?thesis using that ps 2(1) by blast
  qed
qed

lemma normalize_cong:
  "lock_packages lock = Inr ps \<Longrightarrow> lock_packages lock' = Inr qs \<Longrightarrow> with_reset ps = with_reset qs \<Longrightarrow>
    with_packages lock = with_packages lock' \<Longrightarrow>
    normalize_providers file canonical lock = normalize_providers file canonical lock'"
  by (simp add: normalize_providers_def with_reset_def [symmetric] Let_def)

text \<open>
  Switching providers leaves no trace: whatever overrides a lock was normalised with, normalising
  it again with other overrides gives what the untouched lock would have given (the same lock, or the
  same refusal), so a reused lock is safe in both directions; and of every package only the provider
  fields change.
\<close>

theorem normalize_forgets:
  assumes "normalize_providers f1 c1 lock = Inr lock1"
  shows "normalize_providers f2 c2 lock1 = normalize_providers f2 c2 lock
    \<and> (\<exists>ps qs. lock_packages lock = Inr ps \<and> lock_packages lock1 = Inr qs
        \<and> list_all2 (\<lambda>(k, a) (l, b). k = l
            \<and> map_of b |` (- {''build'', ''native_prefix''}) = map_of a |` (- {''build'', ''native_prefix''})) ps qs)"
proof -
  obtain ps qs where n: "lock_packages lock = Inr ps" "lock1 = with_packages lock qs" "with_reset qs = with_reset ps"
    and l: "list_all2 (\<lambda>(k, a) (l, b). k = l \<and> (\<exists>native. b = reset_provider a
        \<or> apply_override native (reset_provider a) = Inr b)) ps qs"
    using assms by (rule normalize_shape)
  have "normalize_providers f2 c2 lock1 = normalize_providers f2 c2 lock"
    by (rule normalize_cong [of _ qs _ ps]) (simp_all add: n fun_eq_iff)
  moreover have "list_all2 (\<lambda>(k, a) (l, b). k = l
      \<and> map_of b |` (- {''build'', ''native_prefix''}) = map_of a |` (- {''build'', ''native_prefix''})) ps qs"
    using l by (rule list_all2_mono)
      (auto simp: restrict_map_def fun_eq_iff reset_provider_def update_conv' delete_conv' elim!: apply_override_cases)
  ultimately show ?thesis using n by simp
qed

section \<open>A timed-out concretization\<close>

text \<open>
  When \<^verbatim>\<open>spack spec\<close> times out and the lock on disk is valid, the command succeeds with the lock as
  it is: the providers are not normalised, so native providers that the current overrides no longer
  name stay in it, and new ones are not applied.
\<close>

theorem timeout_keeps_providers:
  assumes "in_insula args" "\<not> installed_snapshot args" "\<not> reuse_if_valid args" "out_lock fs \<noteq> None"
    and "lock_is_valid is_dir (Some (repo_name (root_spec args))) (out_lock fs) = Inr True"
  shows "lock_main host is_dir SpecTimeout args fs = (Inr 0, out_lock fs)"
  using assms by (simp add: lock_main_def spack_spec_json_def Let_def)

section \<open>Sample locks\<close>

definition sample_package :: "string \<Rightarrow> string \<Rightarrow> dict" where
  "sample_package pkg build =
     [(''package'', JStr pkg), (''version'', JStr ''1.3''), (''prefix'', JStr ''/opt/z''), (''build'', JStr build),
      (''link_deps'', JList []), (''include_dirs'', JList [])]
     @ (if build = ''native'' then [(''native_prefix'', JStr ''//zlib'')] else [])"

definition sample_lock :: "string \<Rightarrow> dict" where
  "sample_lock build =
     [(''schema_version'', JInt 1), (''root'', JStr ''vaso_zlib''),
      (''packages'', JObj [(''vaso_zlib'', JObj (sample_package ''zlib'' build))])]"

definition no_overrides :: overrides_file where
  "no_overrides = \<lparr>native_map = [], provided_map = Some [], known_substitutions = []\<rparr>"

definition zlib_override :: overrides_file where
  "zlib_override =
     \<lparr>native_map = [(''zlib@1.3'', ''//zlib'')], provided_map = Some [(''zlib@1.3'', ''1.3'')], known_substitutions = []\<rparr>"

lemma sample_normalize:
  "normalize_providers (Some zlib_override) None (sample_lock ''spack'') = Inr (sample_lock ''native'')"
  "normalize_providers (Some no_overrides) None (sample_lock ''native'') = Inr (sample_lock ''spack'')"
  by code_simp+

lemma normalize_forgets_witness:
  "normalize_providers (Some no_overrides) None (sample_lock ''native'')
     = normalize_providers (Some no_overrides) None (sample_lock ''spack'')"
  using normalize_forgets [OF sample_normalize(1)] by blast

definition sample_args :: lock_args where
  "sample_args = \<lparr>root_spec = ''zlib'', installed_snapshot = False, in_insula = True, reuse_if_valid = False, fresh_spec = False\<rparr>"

definition sample_files :: lock_files where
  "sample_files =
     \<lparr>out_lock = Some (Some (JObj (sample_lock ''native''))), own_overrides = Some no_overrides, canonical_overrides = None\<rparr>"

lemma sample_valid: "lock_is_valid (\<lambda>_. True) (Some (repo_name (root_spec sample_args))) (out_lock sample_files) = Inr True"
  by code_simp

definition sample_spec_node :: "string \<Rightarrow> string \<Rightarrow> string \<Rightarrow> string list \<Rightarrow> dict" where
  "sample_spec_node h name version deps =
     [(''hash'', JStr h), (''name'', JStr name), (''version'', JStr version),
      (''dependencies'', JList (map (\<lambda>d. JObj [(''hash'', JStr d), (''name'', JStr ''?''),
        (''parameters'', JObj [(''deptypes'', JList [JStr ''link''])])]) deps))]"

definition sample_spec_nodes :: "dict list" where
  "sample_spec_nodes =
     [sample_spec_node ''p'' ''py-protobuf'' ''5.26.1'' [''b''], sample_spec_node ''b'' ''protobuf'' ''26.1'' [''g''],
      sample_spec_node ''g'' ''gcc'' ''13'' []]"

definition sample_spec :: dict where
  "sample_spec = [(''spec'', JObj [(''nodes'', JList (map JObj sample_spec_nodes))])]"

definition sample_host :: spack_host where
  "sample_host =
     \<lparr>location = (\<lambda>h. (0, ''/opt/'' @ h)), listing = (\<lambda>p. None), regular = (\<lambda>p. False), files_below = (\<lambda>p. [])\<rparr>"

lemma timeout_keeps_providers_witness:
  "lock_main sample_host (\<lambda>_. True) SpecTimeout sample_args sample_files = (Inr 0, Some (Some (JObj (sample_lock ''native''))))
    \<and> normalize_providers (own_overrides sample_files) None (sample_lock ''native'') = Inr (sample_lock ''spack'')"
  using timeout_keeps_providers [OF _ _ _ _ sample_valid] sample_normalize(2)
  by (simp add: sample_args_def sample_files_def)

lemma sample_odr: "validate_odr_sensitive_native_overrides sample_spec_nodes [(''protobuf@26.1'', ''//pb'')] = Inr ()"
  by code_simp

lemma odr_families_single_version_witness:
  "odr_family_version ''py-protobuf'' ''5.26.1'' = odr_family_version ''protobuf'' ''26.1''"
proof -
  let ?n = "sample_spec_node ''p'' ''py-protobuf'' ''5.26.1'' [''b'']"
  let ?m = "sample_spec_node ''b'' ''protobuf'' ''26.1'' [''g'']"
  have l: "label_of ?n = Some ''py-protobuf''" "label_of ?m = Some ''protobuf''"
    "version_of ?n = ''5.26.1''" "version_of ?m = ''26.1''"
    by (simp_all add: sample_spec_node_def label_of_def version_of_def dict_simps)
  have s: "''py-protobuf'' \<in> set ODR_SENSITIVE_PROVIDER_PACKAGES" "''protobuf'' \<in> set ODR_SENSITIVE_PROVIDER_PACKAGES"
    "odr_family ''py-protobuf'' = odr_family ''protobuf''"
    by code_simp+
  have n: "?n \<in> set sample_spec_nodes" "?m \<in> set sample_spec_nodes" by (simp_all add: sample_spec_nodes_def)
  show ?thesis
    using odr_families_single_version [OF sample_odr n(1) l(1) s(1) n(2) l(2) s(2,3)] unfolding l(3,4) by blast
qed

lemma sample_versions:
  "validate_native_provider_versions sample_spec_nodes [(''protobuf@26.1'', ''//pb'')] (Some [(''protobuf@26.1'', ''26.1'')]) [] = Inr ()"
  by code_simp

lemma native_versions_checked_witness:
  "\<exists>v. map_of [(''protobuf@26.1'', ''26.1'')] ''protobuf@26.1'' = Some v
    \<and> (\<forall>exact. after_char (CHR ''@'') ''protobuf@26.1'' = Some exact \<longrightarrow> v = exact)"
proof -
  let ?m = "sample_spec_node ''b'' ''protobuf'' ''26.1'' [''g'']"
  have "?m \<in> set sample_spec_nodes" by (simp add: sample_spec_nodes_def)
  moreover have "native_override_key_for (case label_of ?m of Some n \<Rightarrow> n | None \<Rightarrow> []) (version_of ?m)
      [(''protobuf@26.1'', ''//pb'')] = Some ''protobuf@26.1''"
    by code_simp
  ultimately show ?thesis using native_versions_checked [OF sample_versions] by blast
qed

definition sample_built :: "dict res" where
  "sample_built = build_lock sample_host [] None [] sample_spec"

lemma sample_build: "(case sample_built of Inr l \<Rightarrow> True | Inl e \<Rightarrow> False)" "spec_nodes sample_spec = Inr sample_spec_nodes"
  "node_hashes sample_spec_nodes = Inr [''p'', ''b'', ''g'']"
  by code_simp+

lemma sample_closed: "closed_spec sample_spec_nodes"
  unfolding closed_spec_def
  by (rule exI [of _ "[''p'', ''b'', ''g'']"], rule conjI, rule sample_build(3))
     (auto simp: sample_spec_nodes_def sample_spec_node_def dependencies_def mapE_eq_Inr list_all2_Cons1
       as_obj_def str_item_Inr)

lemma lock_edges_closed_witness:
  "\<exists>lock ps. sample_built = Inr lock \<and> lock_packages lock = Inr ps \<and> map fst ps = [''vaso_protobuf'', ''vaso_py_protobuf'']"
proof -
  obtain lock where l: "sample_built = Inr lock" using sample_build(1) by (auto split: sum.splits)
  have "sorted_set (map repo_name (kept_names sample_spec_nodes)) = [''vaso_protobuf'', ''vaso_py_protobuf'']"
    by code_simp
  then show ?thesis
    using lock_edges_closed [OF l [unfolded sample_built_def] sample_build(2) sample_closed] l by auto
qed

end
