(* ===== verification/BuildGraphRun.thy ===== *)
theory BuildGraphRun
  imports BuildGraph TopoOrderRun SpackLockRun
begin

text \<open>The build graph lists its nodes in dependency order.\<close>

lemma graph_entry_fields:
  assumes "graph_entry loc overrides by_hash (pos, h) = Inr e"
  shows "dget e ''topo_index'' = JInt (int pos) \<and> dget e ''spack_hash'' = JStr h"
  using assms by (auto simp: graph_entry_def Let_def dict_simps)

lemma hash_table_names:
  assumes "hash_table nodes = Inr by_hash" "node_hashes nodes = Inr hs" "h \<in> set hs"
    and "list_all (\<lambda>n. \<exists>s. str_item n ''name'' = Inr s) nodes"
  shows "\<exists>s. name_of by_hash h = Inr s"
  using hash_table_finds [OF assms(1-3)] assms(4) by (auto simp: name_of_def list_all_iff)

text \<open>
  A build graph that is produced lists each node of the Spack graph once, numbered from 0 by its
  place, and every dependency of a node that is itself in the graph stands before it.
\<close>

theorem graph_nodes_ordered:
  assumes "build_graph loc overrides provided substitutions spec = Inr graph"
    and "spec_nodes spec = Inr nodes" "graph_edges nodes = Inr (H, E)"
    and "list_all (\<lambda>n. \<exists>s. str_item n ''name'' = Inr s) nodes"
  shows "\<exists>entries. dget graph ''nodes'' = JList (map JObj entries)
    \<and> mset (map (\<lambda>e. dget e ''spack_hash'') entries) = mset (map JStr H)
    \<and> (\<forall>i<length entries. dget (entries ! i) ''topo_index'' = JInt (int i)
        \<and> (\<forall>d h. dget (entries ! i) ''spack_hash'' = JStr h \<longrightarrow> (d, h) \<in> set E
              \<longrightarrow> (\<exists>j<i. dget (entries ! j) ''spack_hash'' = JStr d)))"
proof -
  obtain by_hash order entries where b: "hash_table nodes = Inr by_hash" "topo_order nodes by_hash = Inr order"
    "mapE (graph_entry loc overrides by_hash) (zip [0..<length order] order) = Inr entries"
    "dget graph ''nodes'' = JList (map JObj entries)"
    using assms(1,2) by (auto simp: build_graph_def dict_simps)
  have hs: "node_hashes nodes = Inr H" using assms(3) by (auto simp: graph_edges_def)
  define nm where "nm = (\<lambda>h. case name_of by_hash h of Inr s \<Rightarrow> s | Inl e \<Rightarrow> [])"
  have "name_of by_hash h = Inr (nm h)" if "h \<in> set H" for h
    using hash_table_names [OF b(1) hs that assms(4)] by (auto simp: nm_def)
  from topo_order_cases [OF assms(3) this] b(2)
  have o: "mset order = mset H" "\<And>xs h ys. order = xs @ h # ys \<Longrightarrow> {d. (d, h) \<in> set E} \<subseteq> set xs" by auto
  have all: "list_all2 (\<lambda>ph e. graph_entry loc overrides by_hash ph = Inr e) (zip [0..<length order] order) entries"
    using b(3) by (simp add: mapE_eq_Inr)
  then have len: "length entries = length order" by (auto dest: list_all2_lengthD)
  have e: "dget (entries ! i) ''topo_index'' = JInt (int i) \<and> dget (entries ! i) ''spack_hash'' = JStr (order ! i)"
    if "i < length order" for i
    using list_all2_nthD [OF all, of i] that by (auto dest!: graph_entry_fields)
  have "map (\<lambda>e. dget e ''spack_hash'') entries = map JStr order"
    using e len by (intro nth_equalityI) auto
  then have m: "mset (map (\<lambda>e. dget e ''spack_hash'') entries) = mset (map JStr H)" using o(1) by simp
  have "\<exists>j<i. dget (entries ! j) ''spack_hash'' = JStr d"
    if i: "i < length entries" and h: "dget (entries ! i) ''spack_hash'' = JStr h" and d: "(d, h) \<in> set E" for i d h
  proof -
    have oi: "order ! i = h" "i < length order" using e [of i] i h len by auto
    have "order = take i order @ h # drop (Suc i) order" using id_take_nth_drop [OF oi(2)] oi(1) by simp
    then have "d \<in> set (take i order)" using o(2) d by blast
    then obtain j where "j < i" "j < length order" "order ! j = d" by (auto simp: in_set_conv_nth)
    then show ?thesis using e [of j] by auto
  qed
  then show ?thesis using b(4) m e len by (intro exI [of _ entries]) simp
qed

lemma sample_graph:
  "(case build_graph None [] None [] sample_spec of Inr g \<Rightarrow> True | Inl e \<Rightarrow> False)"
  "graph_edges sample_spec_nodes = Inr ([''p'', ''b'', ''g''], [(''b'', ''p''), (''g'', ''b'')])"
  by code_simp+

lemma graph_nodes_ordered_witness:
  "\<exists>graph entries. build_graph None [] None [] sample_spec = Inr graph
    \<and> dget graph ''nodes'' = JList (map JObj entries)
    \<and> mset (map (\<lambda>e. dget e ''spack_hash'') entries) = mset (map JStr [''p'', ''b'', ''g''])"
proof -
  obtain g where g: "build_graph None [] None [] sample_spec = Inr g"
    using sample_graph(1) by (auto split: sum.splits)
  have "list_all (\<lambda>n. \<exists>s. str_item n ''name'' = Inr s) sample_spec_nodes"
    by (simp add: sample_spec_nodes_def sample_spec_node_def str_item_Inr)
  then show ?thesis using graph_nodes_ordered [OF g sample_build(2) sample_graph(2)] g by blast
qed

end
