(* ===== verification/Urls.thy ===== *)
theory Urls
  imports Prelude
begin

text \<open>
  \<^verbatim>\<open>urllib.parse.urlparse\<close> as the modules use it: the parts of a URL. \<open>netloc_ok\<close> stands for the
  library's test of a network location with brackets or non-ASCII characters.
\<close>

record url =
  scheme :: string
  netloc :: string
  url_path :: string
  params :: string
  query :: string
  fragment :: string

definition lower_char :: "char \<Rightarrow> char" where
  "lower_char c = (let n = (of_char c :: nat) in if 65 \<le> n \<and> n \<le> 90 then char_of (n + 32) else c)"

definition ascii_alpha :: "char \<Rightarrow> bool" where
  "ascii_alpha c = (let n = (of_char c :: nat) in (65 \<le> n \<and> n \<le> 90) \<or> (97 \<le> n \<and> n \<le> 122))"

definition scheme_char :: "char \<Rightarrow> bool" where
  "scheme_char c = (ascii_alpha c \<or> is_digit c \<or> c \<in> set ''+-.'')"

definition cut :: "string \<Rightarrow> char \<Rightarrow> string \<times> string" where
  \<comment> \<open>before and after the first \<open>c\<close>\<close>
  "cut s c = (takeWhile (\<lambda>x. x \<noteq> c) s, drop 1 (dropWhile (\<lambda>x. x \<noteq> c) s))"

definition clean_url :: "string \<Rightarrow> string" where
  \<comment> \<open>leading control characters and blanks, and every tab and line end, are removed\<close>
  "clean_url s = filter (\<lambda>c. (of_char c :: nat) \<notin> {9, 10, 13}) (dropWhile (\<lambda>c. (of_char c :: nat) \<le> 32) s)"

definition split_scheme :: "string \<Rightarrow> string \<times> string" where
  "split_scheme s =
     (let before = takeWhile (\<lambda>c. c \<noteq> CHR '':'') s in
      if CHR '':'' \<in> set s \<and> before \<noteq> [] \<and> ascii_alpha (hd s) \<and> list_all scheme_char before
      then (map lower_char before, drop (Suc (length before)) s) else ([], s))"

definition split_netloc :: "string \<Rightarrow> string \<times> string" where
  "split_netloc s =
     (if prefix ''//'' s
      then (takeWhile (\<lambda>c. c \<notin> set ''/?#'') (drop 2 s), dropWhile (\<lambda>c. c \<notin> set ''/?#'') (drop 2 s))
      else ([], s))"

definition uses_params :: "string list" where
  "uses_params = [[], ''ftp'', ''hdl'', ''prospero'', ''http'', ''https'', ''shttp'', ''rtsp'', ''sip'', ''sips'',
     ''mms'', ''sftp'', ''tel'']"

definition split_params :: "string \<Rightarrow> string \<times> string" where
  \<comment> \<open>at the first semicolon of the last segment\<close>
  "split_params s =
     (let seg = rev (takeWhile (\<lambda>c. c \<noteq> CHR ''/'') (rev s)); before = take (length s - length seg) s
      in (before @ fst (cut seg (CHR '';'')), snd (cut seg (CHR '';''))))"

definition urlparse :: "(string \<Rightarrow> bool) \<Rightarrow> string \<Rightarrow> url res" where
  "urlparse netloc_ok s =
     (case split_scheme (clean_url s) of (sch, s1) \<Rightarrow>
      case split_netloc s1 of (loc, s2) \<Rightarrow>
      if (CHR ''['' \<in> set loc \<longleftrightarrow> CHR '']'' \<in> set loc) \<and> netloc_ok loc then
        (let (s3, frag) = cut s2 (CHR ''#''); (s4, que) = cut s3 (CHR ''?'');
             (s5, par) = (if sch \<in> set uses_params then split_params s4 else (s4, []))
         in Inr \<lparr>scheme = sch, netloc = loc, url_path = s5, params = par, query = que, fragment = frag\<rparr>)
      else Inl (ValueError ''Invalid URL'' []))"

definition hostname :: "url \<Rightarrow> string" where
  \<comment> \<open>without credentials and port, empty for \<^verbatim>\<open>None\<close>\<close>
  "hostname u =
     (let info = rev (takeWhile (\<lambda>c. c \<noteq> CHR ''@'') (rev (netloc u)));
          host = (if CHR ''['' \<in> set info then fst (cut (snd (cut info (CHR ''[''))) (CHR '']''))
                  else fst (cut info (CHR '':'')))
      in map lower_char host)"

end
