(* ===== verification/LockTool.thy ===== *)
theory LockTool
  imports SpackLock BuildGraph Urls PlanSchema
begin

text \<open>
  \<^verbatim>\<open>foundry/tools/lock_tool.py\<close>: the checks of the checked-in graph locks, and the commands that
  bump, add and remove a package in them.

  A file is missing, no JSON, or a JSON value. The overrides file is taken with the shape that
  \<^verbatim>\<open>spack_to_bazel.py\<close> gives it: maps of strings and a list of objects; a version that is not a
  string, which the check reports, reads as no version where the provided versions are compared.
  \<open>text_of\<close> is \<^verbatim>\<open>str()\<close> of a value that is no string, \<open>archive\<close> the content of the regular file
  at a path, if there is one, and \<open>sha256\<close> the hexadecimal digest. Lines of the report are
  templates with their arguments. A list of numbers with a NaN in it counts as not sorted.
\<close>

section \<open>Files and names\<close>

datatype doc_file = NoFile | NotJson | Doc json

record lock_env =
  netloc_valid :: "string \<Rightarrow> bool"
  text_of :: "json \<Rightarrow> string"
  archive :: "ppath \<Rightarrow> string option"
  sha256 :: "string \<Rightarrow> string"

definition TERMINAL_STATUSES :: "string list" where
  "TERMINAL_STATUSES = [''native'', ''rootfs-provided'', ''not-a-target'', ''removed'', ''vendored-by-torch'']"

definition IN_PROGRESS_STATUSES :: "string list" where
  "IN_PROGRESS_STATUSES = [''recipe-captured'', ''spack'']"

definition read_doc :: "ppath \<Rightarrow> doc_file \<Rightarrow> dict res" where
  "read_doc path file =
     (case file of
        NoFile \<Rightarrow> Inl (SystemExit ''{}: file does not exist'' [JStr (path_text path)])
      | NotJson \<Rightarrow> Inl (SystemExit ''{}: invalid JSON'' [JStr (path_text path)])
      | Doc (JObj d) \<Rightarrow> Inr d
      | Doc v \<Rightarrow> Inl (SystemExit ''{}: JSON root must be an object'' [JStr (path_text path)]))"

fun sorted_json :: "json \<Rightarrow> json" where
  \<comment> \<open>what \<^verbatim>\<open>json.dumps(value, sort_keys=True)\<close> reads back as\<close>
  "sorted_json (JObj d) = JObj (sort_key fst (map (\<lambda>(k, v). (k, sorted_json v)) d))"
| "sorted_json (JList xs) = JList (map sorted_json xs)"
| "sorted_json v = v"

definition write_doc :: "ppath \<Rightarrow> dict \<Rightarrow> (ppath \<Rightarrow> doc_file) \<Rightarrow> (ppath \<Rightarrow> doc_file)" where
  "write_doc path value files = files(path := Doc (sorted_json (JObj value)))"

definition underscores_to_dashes :: "string \<Rightarrow> string" where
  "underscores_to_dashes s = map (\<lambda>c. if c = CHR ''_'' then CHR ''-'' else c) s"

definition package_name :: "string \<Rightarrow> string" where
  "package_name value =
     (if startswith value ''vaso_'' then underscores_to_dashes (removeprefix value ''vaso_'')
      else if startswith value ''spack_'' then underscores_to_dashes (removeprefix value ''spack_'')
      else value)"

definition package_repo :: "string \<Rightarrow> string" where
  "package_repo package =
     (if startswith package ''vaso_'' then package else repo_name (package_name package))"

definition label_repo :: "string \<Rightarrow> string option" where
  "label_repo label =
     (if \<not> startswith label ''@'' \<or> \<not> contains label ''//:'' then None
      else map_option (\<lambda>i. take i (drop 1 label)) (find_first ''//:'' (drop 1 label)))"

definition archive_filename :: "lock_env \<Rightarrow> string \<Rightarrow> string res" where
  "archive_filename env link =
     bindE (urlparse (netloc_valid env) link) (\<lambda>parsed.
       let name = final_name (parse (url_path parsed)) in
       if name = [] then Inl (SystemExit ''{}: source URL has no archive filename'' [JStr link])
       else Inr name)"

definition hex64 :: "string \<Rightarrow> bool" where
  \<comment> \<open>\<^verbatim>\<open>SHA256_RE.fullmatch\<close>\<close>
  "hex64 s = (length s = 64 \<and>
     list_all (\<lambda>c. is_digit c \<or> lower_char c \<in> set ''abcdef'') s)"

definition source_from :: "lock_env \<Rightarrow> string list \<Rightarrow> string \<Rightarrow> dict res" where
  "source_from env urls sha =
     (if \<not> hex64 sha then Inl (SystemExit ''sha256 must be 64 hex characters, got {}'' [JStr sha])
      else if urls = [] then Inl (SystemExit ''at least one --url is required'' [])
      else bindE (archive_filename env (hd urls)) (\<lambda>filename. Inr
        [(''filename'', JStr filename), (''sha256'', JStr (map lower_char sha)),
         (''urls'', JList (map JStr urls))]))"

definition get_or :: "dict \<Rightarrow> string \<Rightarrow> json \<Rightarrow> json" where
  \<comment> \<open>\<^verbatim>\<open>d.get(k, default)\<close>\<close>
  "get_or d k v = (case map_of d k of None \<Rightarrow> v | Some w \<Rightarrow> w)"

definition objects_of :: "json list \<Rightarrow> dict list" where
  "objects_of xs = List.map_filter (\<lambda>v. case v of JObj d \<Rightarrow> Some d | _ \<Rightarrow> None) xs"

definition node_sources :: "dict \<Rightarrow> dict list" where
  "node_sources node =
     (case dget node ''source'' of
        JObj d \<Rightarrow> [d]
      | JList xs \<Rightarrow> objects_of xs
      | _ \<Rightarrow> [])"

section \<open>Where the locks and the archives are\<close>

record lock_host =
  cwd :: ppath
  resolve_path :: "ppath \<Rightarrow> ppath"
  has_locks :: "ppath \<Rightarrow> bool"
  tool_root :: ppath
  list_locks :: "ppath \<Rightarrow> ppath list"

definition default_repo_root :: "lock_host \<Rightarrow> ppath list \<Rightarrow> ppath" where
  "default_repo_root host lock_paths =
     (case lock_paths of
        p # ps \<Rightarrow>
          let first = resolve_path host p in
          if final_name (parent first) = ''locks'' then parent (parent first) else parent first
      | [] \<Rightarrow> if has_locks host (cwd host) then cwd host else tool_root host)"

definition default_distdirs :: "(string \<Rightarrow> string option) \<Rightarrow> ppath \<Rightarrow> ppath list" where
  \<comment> \<open>the first argument is the environment\<close>
  "default_distdirs environ repo_root =
     concat (map (\<lambda>name. case environ name of Some (c # cs) \<Rightarrow> [parse (c # cs)] | _ \<Rightarrow> [])
       [''VASO_LOCK_DISTDIR'', ''VASO_SOURCE_DISTDIR''])
     @ (case environ ''VASO_ESTATE_ROOT'' of
          Some (c # cs) \<Rightarrow>
            map (\<lambda>child. slash (slash (slash (parse (c # cs)) ''sources'') child) ''distdir'')
              [''native'', ''pytorch'', ''triton'', ''jax'', ''bazel'']
        | _ \<Rightarrow> [])
     @ [slash repo_root ''distdir'']"

definition lock_paths_from_args :: "lock_host \<Rightarrow> ppath list \<Rightarrow> ppath \<Rightarrow> ppath list" where
  "lock_paths_from_args host paths repo_root =
     (if paths \<noteq> [] then map (\<lambda>p. if absolute p then p else joinpath (cwd host) p) paths
      else sort (list_locks host (slash repo_root ''locks'')))"

definition edit_lock_paths :: "lock_host \<Rightarrow> ppath list \<Rightarrow> ppath option \<Rightarrow> ppath list res" where
  "edit_lock_paths host lock_args repo_root_arg =
     (let repo_root = (case repo_root_arg of Some r \<Rightarrow> resolve_path host r
                       | None \<Rightarrow> default_repo_root host lock_args);
          paths = lock_paths_from_args host lock_args repo_root
      in if paths = []
         then Inl (SystemExit ''{}: no *.lock.json files found'' [JStr (path_text (slash repo_root ''locks''))])
         else Inr paths)"

definition load_ledger :: "(ppath \<times> doc_file) option \<Rightarrow> (string \<times> dict) list res" where
  "load_ledger ledger =
     (case ledger of
        None \<Rightarrow> Inr []
      | Some (path, file) \<Rightarrow>
          bindE (read_doc path file) (\<lambda>doc.
          case get_or doc ''packages'' (JObj []) of
            JObj d \<Rightarrow> Inr (List.map_filter (\<lambda>(k, v). case v of JObj e \<Rightarrow> Some (k, e) | _ \<Rightarrow> None) d)
          | _ \<Rightarrow> Inl (SystemExit ''{}: packages must be an object'' [JStr (path_text path)])))"
section \<open>Sources\<close>

definition str_text :: "lock_env \<Rightarrow> json \<Rightarrow> string" where
  "str_text env v = (case v of JStr s \<Rightarrow> s | _ \<Rightarrow> text_of env v)"

definition first_item :: "json \<Rightarrow> json res" where
  \<comment> \<open>\<^verbatim>\<open>v[0]\<close> of a value that is not empty\<close>
  "first_item v =
     (case v of
        JList (x # xs) \<Rightarrow> Inr x
      | JStr (c # cs) \<Rightarrow> Inr (JStr [c])
      | JObj d \<Rightarrow> Inl (KeyError ''0'')
      | _ \<Rightarrow> Inl TypeError)"

definition source_filename :: "lock_env \<Rightarrow> dict \<Rightarrow> json res" where
  "source_filename env source =
     (let urls = get_or source ''urls'' (JList []); filename = dget source ''filename'' in
      if filename = JNull \<and> truthy urls
      then bindE (first_item urls) (\<lambda>u.
           bindE (archive_filename env (str_text env u)) (\<lambda>n. Inr (JStr n)))
      else Inr filename)"

definition plain_name :: "json \<Rightarrow> string option" where
  "plain_name v =
     (case v of
        JStr s \<Rightarrow> if s = [] \<or> CHR ''/'' \<in> set s \<or> s \<in> {''.'', ''..''} then None else Some s
      | _ \<Rightarrow> None)"

definition archive_hashes :: "lock_env \<Rightarrow> ppath list \<Rightarrow> string \<Rightarrow> (ppath \<times> string) list" where
  \<comment> \<open>the candidates that are regular files, with the digest of each\<close>
  "archive_hashes env distdirs filename =
     List.map_filter (\<lambda>p. map_option (\<lambda>content. (p, sha256 env content)) (archive env p))
       (map (\<lambda>d. slash d filename) distdirs)"

definition archive_errors ::
  "lock_env \<Rightarrow> ppath list \<Rightarrow> json \<Rightarrow> dict \<Rightarrow> string \<Rightarrow> string \<Rightarrow> string \<Rightarrow> report_line list" where
  "archive_errors env distdirs lock_path node repo sha filename =
     (let package = get_or node ''package'' (JStr repo); version = get_or node ''version'' (JStr []);
          found = archive_hashes env distdirs filename
      in if distdirs = []
         then [(''{}: {}: no distdir configured for source {}'', [lock_path, JStr repo, JStr filename])]
         else if found = []
         then [(''{}: {} version {} source {} is missing from configured distdir'',
                [lock_path, package, version, JStr filename])]
         else if map lower_char sha \<in> set (map snd found) then []
         else [(''{}: {} version {} source {} sha256 mismatch: expected {}, got {}'',
                [lock_path, package, version, JStr filename, JStr ((map lower_char sha)),
                 JStr (join '', '' (map (\<lambda>(p, h). path_text p @ '':'' @ h) found))])])"

definition url_errors :: "json \<Rightarrow> string \<Rightarrow> json \<Rightarrow> report_line list" where
  "url_errors lock_path repo urls =
     (case urls of
        JList xs \<Rightarrow> if list_all nonempty_str xs then []
          else [(''{}: {}: source urls must be a non-empty string list'', [lock_path, JStr repo])]
      | _ \<Rightarrow> [(''{}: {}: source urls must be a non-empty string list'', [lock_path, JStr repo])])"

definition validate_source ::
  "lock_env \<Rightarrow> ppath list \<Rightarrow> json \<Rightarrow> string \<Rightarrow> dict \<Rightarrow> dict \<Rightarrow> report_line list res" where
  "validate_source env distdirs lock_path repo node source =
     (case dget source ''sha256'' of
        JStr sha \<Rightarrow>
          if \<not> hex64 sha
          then Inr [(''{}: {}: source sha256 must be 64 hex characters'', [lock_path, JStr repo])]
          else bindE (source_filename env source) (\<lambda>filename. Inr
            (url_errors lock_path repo (get_or source ''urls'' (JList []))
             @ (case plain_name filename of
                  None \<Rightarrow> [(''{}: {}: source filename must be a plain archive name'', [lock_path, JStr repo])]
                | Some n \<Rightarrow> archive_errors env distdirs lock_path node repo sha n)))
      | _ \<Rightarrow> Inr [(''{}: {}: source sha256 must be 64 hex characters'', [lock_path, JStr repo])])"

section \<open>One package record\<close>

text \<open>
  What the locks are checked against. \<open>provided_versions\<close> is \<open>None\<close> when the overrides file has a value
  there that is no object; without that key, and without the file, it is \<open>Some []\<close>.
\<close>

record lock_policy =
  ledger_packages :: "(string \<times> dict) list"
  native_overrides :: str_map
  provided_versions :: "str_map option"
  version_substitutions :: "dict list"
  distdirs_of :: "ppath list"

definition status_errors :: "lock_policy \<Rightarrow> json \<Rightarrow> string \<Rightarrow> string \<Rightarrow> report_line list res" where
  "status_errors pol lock_path repo package =
     (let ledger_entry = map_of (ledger_packages pol) package;
          status = (case ledger_entry of Some (e # es) \<Rightarrow> dget (e # es) ''status'' | _ \<Rightarrow> JNull)
      in if ledger_packages pol \<noteq> [] \<and> ledger_entry = None
         then Inr [(''{}: {}: unknown package record {}'', [lock_path, JStr repo, JStr package])]
         else if \<not> hashable status then Inl TypeError
         else if status \<in> set (map JStr IN_PROGRESS_STATUSES)
         then Inr [(''{}: {}: ledger status {} is non-terminal'', [lock_path, JStr package, status])]
         else if status \<noteq> JNull \<and> status \<notin> set (map JStr TERMINAL_STATUSES)
         then Inr [(''{}: {}: ledger status {} is unknown'', [lock_path, JStr package, status])]
         else Inr [])"

definition build_errors :: "json \<Rightarrow> string \<Rightarrow> dict \<Rightarrow> report_line list" where
  "build_errors lock_path repo node =
     (let build = get_or node ''build'' (JStr ''spack'') in
      if build \<noteq> JStr ''native''
      then [(''{}: {}: checked-in profile locks require build='native', got {}'', [lock_path, JStr repo, build])]
      else [])"

definition provider_errors :: "lock_env \<Rightarrow> lock_policy \<Rightarrow> json \<Rightarrow> string \<Rightarrow> string \<Rightarrow> dict \<Rightarrow> report_line list" where
  "provider_errors env pol lock_path repo package node =
     (case dget node ''native_prefix'' of
        JStr (c # cs) \<Rightarrow>
          let native_prefix = c # cs; version = dget node ''version'';
              expected = native_override_for package
                (if truthy version then str_text env version else []) (native_overrides pol)
          in if \<not> endswith native_prefix ''//:lib'' \<or> label_repo native_prefix = None
             then [(''{}: {}: native provider label must be an external :lib target'', [lock_path, JStr repo])]
             else if native_prefix \<notin> snd ` set (native_overrides pol)
             then [(''{}: {}: unknown native provider label {}'', [lock_path, JStr repo, JStr native_prefix])]
             else if expected \<noteq> Some native_prefix
             then [(''{}: {}: native_prefix {} does not match native_overrides.json for {} version {}: {}'',
                    [lock_path, JStr repo, JStr native_prefix, JStr package, version,
                     case expected of None \<Rightarrow> JNull | Some label \<Rightarrow> JStr label])]
             else []
      | _ \<Rightarrow> [(''{}: {}: missing native provider label'', [lock_path, JStr repo])])"

definition field_errors :: "json \<Rightarrow> string \<Rightarrow> dict \<Rightarrow> report_line list" where
  "field_errors lock_path repo node =
     concat (map (\<lambda>field.
       case dget node field of
         JList xs \<Rightarrow> if list_all is_str xs then []
           else [(''{}: {}: {} must be a string list'', [lock_path, JStr repo, JStr field])]
       | _ \<Rightarrow> [(''{}: {}: {} must be a string list'', [lock_path, JStr repo, JStr field])])
     [''link_deps'', ''link_libs'', ''include_dirs''])"

definition num_less :: "pyfloat \<Rightarrow> pyfloat \<Rightarrow> bool" where
  "num_less x y =
     (case (x, y) of
        (Fin a, Fin b) \<Rightarrow> a < b
      | (NegInf, Fin b) \<Rightarrow> True
      | (NegInf, PosInf) \<Rightarrow> True
      | (Fin a, PosInf) \<Rightarrow> True
      | _ \<Rightarrow> False)"

definition value_less :: "json \<Rightarrow> json \<Rightarrow> bool" where
  "value_less v w = (case (num_value v, num_value w) of (Some x, Some y) \<Rightarrow> num_less x y | _ \<Rightarrow> False)"

fun the_str :: "json \<Rightarrow> string" where
  "the_str (JStr s) = s"
| "the_str _ = []"

definition sorted_unique :: "json list \<Rightarrow> bool res" where
  \<comment> \<open>\<^verbatim>\<open>xs == sorted(set(xs))\<close>: entries that cannot be hashed or compared raise\<close>
  "sorted_unique xs =
     (if \<not> list_all hashable xs then Inl TypeError
      else if list_all is_str xs then Inr (sorted_wrt (<) (map the_str xs))
      else if list_all (\<lambda>v. num_value v \<noteq> None) xs then Inr (sorted_wrt value_less xs)
      else if list_all (\<lambda>v. v = JNull) xs then Inr (length xs = 1)
      else Inl TypeError)"

definition link_dep_errors :: "json \<Rightarrow> string list \<Rightarrow> string \<Rightarrow> json \<Rightarrow> report_line list res" where
  \<comment> \<open>the second argument holds the keys of the packages\<close>
  "link_dep_errors lock_path packages repo link_deps =
     (case link_deps of
        JList xs \<Rightarrow>
          bindE (sorted_unique xs) (\<lambda>b. Inr
            ((if b then [] else [(''{}: {}: link_deps must be sorted and unique'', [lock_path, JStr repo])])
             @ map (\<lambda>dep. (''{}: {}: link_dep {} is missing from packages'', [lock_path, JStr repo, dep]))
                 (filter (\<lambda>dep. dep \<notin> set (map JStr packages)) xs)))
      | _ \<Rightarrow> Inr [])"

definition iter_strs :: "json \<Rightarrow> string list res" where
  \<comment> \<open>the strings that a \<^verbatim>\<open>for\<close> loop over the value meets\<close>
  "iter_strs v =
     (case v of
        JList xs \<Rightarrow> Inr (map the_str (filter is_str xs))
      | JStr s \<Rightarrow> Inr (map (\<lambda>c. [c]) s)
      | JObj d \<Rightarrow> Inr (map fst d)
      | _ \<Rightarrow> Inl TypeError)"

definition topo_node :: "string \<Rightarrow> string \<Rightarrow> string list \<Rightarrow> dict" where
  "topo_node repo package deps =
     [(''hash'', JStr repo), (''name'', JStr package),
      (''dependencies'', JList (map (\<lambda>dep. JObj
         [(''hash'', JStr dep), (''name'', JStr dep),
          (''parameters'', JObj [(''deptypes'', JList [JStr ''link''])])]) deps))]"

definition provider_node :: "string \<Rightarrow> dict \<Rightarrow> dict" where
  "provider_node package node =
     [(''name'', JStr package), (''package'', JStr package),
      (''version'', if truthy (dget node ''version'') then dget node ''version'' else JStr [])]"

definition build_system_errors :: "json \<Rightarrow> string \<Rightarrow> dict \<Rightarrow> report_line list res" where
  "build_system_errors lock_path repo node =
     (let b = dget node ''build_system'' in
      if b = JNull then Inr []
      else if \<not> hashable b then Inl TypeError
      else if b \<in> set (map (JStr \<circ> fst) BUILD_SYSTEM_STRATEGY) then Inr []
      else Inr [(''{}: {}: unknown build_system {}'', [lock_path, JStr repo, b])])"

text \<open>
  The body of the loop over the packages: the errors of one record, and the nodes that it adds for
  the checks of the whole lock.
\<close>

definition check_record ::
  "lock_env \<Rightarrow> lock_policy \<Rightarrow> json \<Rightarrow> string list \<Rightarrow> string \<times> json
    \<Rightarrow> (report_line list \<times> (dict \<times> dict) option) res" where
  "check_record env pol lock_path packages item =
     (case item of
        (repo, JObj node) \<Rightarrow>
          (case dget node ''package'' of
             JStr (c # cs) \<Rightarrow>
               let package = c # cs; link_deps = get_or node ''link_deps'' (JList []);
                   version_lines = (if nonempty_str (dget node ''version'') then []
                     else [(''{}: {}: version must be a non-empty string'', [lock_path, JStr repo])]);
                   repo_lines = (if repo = repo_name package then []
                     else [(''{}: {}: package {} belongs in {}'',
                            [lock_path, JStr repo, JStr package, JStr (repo_name package)])])
               in bindE (status_errors pol lock_path repo package) (\<lambda>status_lines.
                  bindE (link_dep_errors lock_path packages repo link_deps) (\<lambda>dep_lines.
                  bindE (concatE (validate_source env (distdirs_of pol) lock_path repo node) (node_sources node)) (\<lambda>source_lines.
                  bindE (iter_strs link_deps) (\<lambda>deps.
                  bindE (build_system_errors lock_path repo node) (\<lambda>system_lines. Inr
                    (version_lines @ repo_lines @ status_lines @ build_errors lock_path repo node
                       @ provider_errors env pol lock_path repo package node
                       @ field_errors lock_path repo node @ dep_lines @ source_lines @ system_lines,
                     Some (topo_node repo package deps, provider_node package node)))))))
           | _ \<Rightarrow> Inr ([(''{}: {}: package must be a non-empty string'', [lock_path, JStr repo])], None))
      | (repo, v) \<Rightarrow> Inr ([(''{}: {}: package record must be an object'', [lock_path, JStr repo])], None))"

section \<open>The whole lock\<close>

definition cycle_errors :: "json \<Rightarrow> dict list \<Rightarrow> report_line list res" where
  "cycle_errors lock_path topo_nodes =
     bindE (mapE (\<lambda>n. bindE (str_item n ''hash'') (\<lambda>h. Inr (h, n))) topo_nodes) (\<lambda>by_hash.
     case topo_order topo_nodes by_hash of
       Inr order \<Rightarrow> Inr []
     | Inl (SystemExit what args) \<Rightarrow>
         Inr [(''{}: dependency graph is not acyclic: '' @ what, lock_path # args)]
     | Inl e \<Rightarrow> Inl e)"

definition provider_version_errors :: "lock_policy \<Rightarrow> json \<Rightarrow> dict list \<Rightarrow> report_line list" where
  "provider_version_errors pol lock_path provider_nodes =
     (case provided_versions pol of
        Some provided \<Rightarrow>
          if native_overrides pol = [] then []
          else map (\<lambda>(what, args). (''{}: native provider version mismatch: '' @ what, lock_path # args))
            (native_provider_version_errors provider_nodes (native_overrides pol) provided
               (version_substitutions pol) False)
      | None \<Rightarrow> [])"

definition validate_lock :: "lock_env \<Rightarrow> lock_policy \<Rightarrow> ppath \<Rightarrow> doc_file \<Rightarrow> report_line list res" where
  "validate_lock env pol path file =
     bindE (read_doc path file) (\<lambda>lock.
       let lock_path = JStr (path_text path);
           schema_lines = (if py_eq (dget lock ''schema_version'') (JInt 1) then []
             else [(''{}: schema_version must be 1'', [lock_path])])
       in case dget lock ''packages'' of
            JObj (p # ps) \<Rightarrow>
              let packages = p # ps; keys = map fst packages;
                  root_lines = (if dget lock ''root'' \<in> set (map JStr keys) then []
                    else [(''{}: root {} is not present in packages'', [lock_path, dget lock ''root''])])
              in bindE (mapE (check_record env pol lock_path keys) (sort_key fst packages)) (\<lambda>records.
                 let nodes = List.map_filter snd records in
                 bindE (cycle_errors lock_path (map fst nodes)) (\<lambda>cycle_lines. Inr
                   (schema_lines @ root_lines @ concat (map fst records) @ cycle_lines
                      @ provider_version_errors pol lock_path (map snd nodes))))
          | _ \<Rightarrow> Inr (schema_lines @ [(''{}: packages must be a non-empty object'', [lock_path])]))"

definition validate_locks ::
  "lock_env \<Rightarrow> lock_policy \<Rightarrow> (ppath \<times> doc_file) option \<Rightarrow> (ppath \<times> doc_file) list \<Rightarrow> report_line list res" where
  "validate_locks env overrides ledger locks =
     bindE (load_ledger ledger) (\<lambda>packages.
       concatE (\<lambda>(path, file). validate_lock env (overrides\<lparr>ledger_packages := packages\<rparr>) path file) locks)"

definition validate_main ::
  "lock_host \<Rightarrow> lock_env \<Rightarrow> lock_policy \<Rightarrow> (string \<Rightarrow> string option) \<Rightarrow> (ppath \<Rightarrow> doc_file)
    \<Rightarrow> ppath list \<Rightarrow> ppath option \<Rightarrow> ppath option \<Rightarrow> ppath list \<Rightarrow> (int \<times> report_line list) res" where
  \<comment> \<open>the command \<^verbatim>\<open>validate\<close>; \<open>overrides\<close> is the policy that the overrides file gives\<close>
  "validate_main host env overrides environ files locks repo_root_arg ledger_arg distdir_arg =
     bindE (edit_lock_paths host locks repo_root_arg) (\<lambda>lock_paths.
       let repo_root = (case repo_root_arg of Some r \<Rightarrow> resolve_path host r
                        | None \<Rightarrow> default_repo_root host locks);
           ledger = (case ledger_arg of Some l \<Rightarrow> l | None \<Rightarrow> slash repo_root ''migration_ledger.json'');
           distdirs = (if distdir_arg \<noteq> [] then distdir_arg else default_distdirs environ repo_root)
       in bindE (validate_locks env (overrides\<lparr>distdirs_of := distdirs\<rparr>) (Some (ledger, files ledger))
            (map (\<lambda>p. (p, files p)) lock_paths)) (\<lambda>errors.
          Inr (if errors = [] then 0 else 1, errors)))"
section \<open>Editing\<close>

type_synonym lock_files = "ppath \<Rightarrow> doc_file"

definition load_lock_for_edit :: "ppath \<Rightarrow> doc_file \<Rightarrow> dict res" where
  "load_lock_for_edit path file =
     bindE (read_doc path file) (\<lambda>lock.
       if is_obj (dget lock ''packages'') then Inr lock
       else Inl (SystemExit ''{}: packages must be an object'' [JStr (path_text path)]))"

definition packages_of :: "dict \<Rightarrow> (string \<times> json) list" where
  "packages_of lock = (case dget lock ''packages'' of JObj d \<Rightarrow> d | _ \<Rightarrow> [])"

definition node_get :: "json \<Rightarrow> string \<Rightarrow> json \<Rightarrow> json res" where
  \<comment> \<open>\<^verbatim>\<open>node.get(k, default)\<close> of any value\<close>
  "node_get node k v = (case node of JObj d \<Rightarrow> Inr (get_or d k v) | _ \<Rightarrow> Inl AttributeError)"

definition find_existing_repo :: "dict \<Rightarrow> string \<Rightarrow> string res" where
  "find_existing_repo lock package =
     (if package_repo package \<in> fst ` set (packages_of lock) then Inr (package_repo package)
      else bindE (concatE (\<lambda>(key, node). bindE (node_get node ''package'' JNull) (\<lambda>v.
             Inr (if v = JStr (package_name package) then [key] else []))) (packages_of lock)) (\<lambda>matches.
        case matches of
          [repo] \<Rightarrow> Inr repo
        | [] \<Rightarrow> Inl (SystemExit ''{}: package is not present in lock'' [JStr package])
        | _ \<Rightarrow> Inl (SystemExit ''{}: multiple lock records match; use the lock repo key'' [JStr package])))"

definition selected_repo :: "bool \<Rightarrow> dict \<Rightarrow> string \<Rightarrow> string option res" where
  \<comment> \<open>the package is looked up; a lock without it is skipped unless the locks were named\<close>
  "selected_repo explicit lock package =
     (case find_existing_repo lock package of
        Inl (SystemExit what args) \<Rightarrow> if explicit then Inl (SystemExit what args) else Inr None
      | Inl e \<Rightarrow> Inl e
      | Inr repo \<Rightarrow> Inr (Some repo))"

definition normalize_deps :: "string list \<Rightarrow> string list" where
  "normalize_deps deps = sorted_set (map package_repo deps)"

definition with_lock_packages :: "(string \<times> json) list \<Rightarrow> dict \<Rightarrow> dict" where
  "with_lock_packages d lock = dput ''packages'' (JObj d) lock"

text \<open>
  The loop of the three commands over the selected locks. Its body answers the edited lock, or
  nothing for a lock that is skipped; a lock is written before the next one is read.
\<close>

primrec edit_locks ::
  "(ppath \<Rightarrow> dict \<Rightarrow> dict option res) \<Rightarrow> lock_files \<Rightarrow> nat \<Rightarrow> ppath list \<Rightarrow> lock_files \<times> nat res" where
  "edit_locks body files edited [] = (files, Inr edited)"
| "edit_locks body files edited (path # paths) =
     (case bindE (load_lock_for_edit path (files path)) (body path) of
        Inl e \<Rightarrow> (files, Inl e)
      | Inr None \<Rightarrow> edit_locks body files edited paths
      | Inr (Some lock) \<Rightarrow> edit_locks body (write_doc path lock files) (Suc edited) paths)"

definition edit_command ::
  "(ppath \<Rightarrow> dict \<Rightarrow> dict option res) \<Rightarrow> string \<Rightarrow> string \<Rightarrow> lock_files \<Rightarrow> ppath list res \<Rightarrow> lock_files \<times> nat res" where
  \<comment> \<open>around the loop: the selection before it, and the error when no lock was edited\<close>
  "edit_command body none package files paths =
     (case paths of
        Inl e \<Rightarrow> (files, Inl e)
      | Inr ps \<Rightarrow>
          (case edit_locks body files 0 ps of
             (files', Inr 0) \<Rightarrow> (files', Inl (SystemExit none [JStr package]))
           | r \<Rightarrow> r))"

record bump_args =
  bump_package :: string
  bump_version :: string
  bump_urls :: "string list"
  bump_sha256 :: string

definition bump_lock :: "lock_env \<Rightarrow> bump_args \<Rightarrow> bool \<Rightarrow> ppath \<Rightarrow> dict \<Rightarrow> dict option res" where
  "bump_lock env args explicit path lock =
     bindE (selected_repo explicit lock (bump_package args)) (\<lambda>found.
     case found of
       None \<Rightarrow> Inr None
     | Some repo \<Rightarrow>
         (case map_of (packages_of lock) repo of
            Some (JObj node) \<Rightarrow>
              bindE (source_from env (bump_urls args) (bump_sha256 args)) (\<lambda>source.
              let node' = dput ''source'' (JObj source) (dput ''version'' (JStr (bump_version args)) node)
              in Inr (Some (with_lock_packages (dput repo (JObj node') (packages_of lock)) lock)))
          | _ \<Rightarrow> Inl TypeError))"

definition bump ::
  "lock_host \<Rightarrow> lock_env \<Rightarrow> bump_args \<Rightarrow> ppath list \<Rightarrow> ppath option \<Rightarrow> lock_files \<Rightarrow> lock_files \<times> nat res" where
  "bump host env args locks repo_root files =
     edit_command (bump_lock env args (locks \<noteq> [])) ''{}: package is not present in any selected lock''
       (bump_package args) files (edit_lock_paths host locks repo_root)"

record add_args =
  new_package :: string
  new_version :: string
  new_urls :: "string list"
  new_sha256 :: string
  native_label :: "string option"
  new_deps :: "string list"
  new_link_libs :: "string list"
  new_include_dirs :: "string list"
  new_prefix :: string
  new_spack_hash :: string

definition new_node :: "lock_env \<Rightarrow> add_args \<Rightarrow> dict res" where
  "new_node env args =
     (let package = package_name (new_package args);
          label = (case native_label args of
              Some (c # cs) \<Rightarrow> c # cs
            | _ \<Rightarrow> ''@'' @ map (\<lambda>c. if c = CHR ''-'' then CHR ''_'' else c) package @ ''_native//:lib'')
      in bindE (source_from env (new_urls args) (new_sha256 args)) (\<lambda>source. Inr
        [(''build'', JStr ''native''),
         (''include_dirs'', JList (map JStr (sorted_set (new_include_dirs args)))),
         (''link_deps'', JList (map JStr (normalize_deps (new_deps args)))),
         (''link_libs'', JList (map JStr (sorted_set (new_link_libs args)))),
         (''native_prefix'', JStr label),
         (''package'', JStr package),
         (''prefix'', JStr (new_prefix args)),
         (''source'', JObj source),
         (''spack_hash'', JStr (if new_spack_hash args \<noteq> [] then new_spack_hash args
            else take 32 (sha256 env (package @ ''@'' @ new_version args)))),
         (''version'', JStr (new_version args))]))"

definition add_lock :: "lock_env \<Rightarrow> add_args \<Rightarrow> bool \<Rightarrow> ppath \<Rightarrow> dict \<Rightarrow> dict option res" where
  "add_lock env args explicit path lock =
     (let package = package_name (new_package args); repo = repo_name package in
      if repo \<in> fst ` set (packages_of lock)
      then (if explicit
            then Inl (SystemExit ''{}: package already exists in {}'' [JStr package, JStr (path_text path)])
            else Inr None)
      else bindE (new_node env args) (\<lambda>node. Inr (Some
        (with_lock_packages (sort_key fst (dput repo (JObj node) (packages_of lock))) lock))))"

definition add ::
  "lock_host \<Rightarrow> lock_env \<Rightarrow> add_args \<Rightarrow> ppath list \<Rightarrow> ppath option \<Rightarrow> lock_files \<Rightarrow> lock_files \<times> nat res" where
  "add host env args locks repo_root files =
     edit_command (add_lock env args (locks \<noteq> [])) ''{}: package already exists in all selected locks''
       (package_name (new_package args)) files (edit_lock_paths host locks repo_root)"

definition dependents_of :: "string \<Rightarrow> (string \<times> json) list \<Rightarrow> string list res" where
  "dependents_of repo packages =
     bindE (concatE (\<lambda>(parent, node).
       if parent = repo then Inr []
       else bindE (node_get node ''link_deps'' (JList [])) (\<lambda>deps.
            bindE (py_in (JStr repo) deps) (\<lambda>b. Inr (if b then [parent] else [])))) packages)
     (\<lambda>parents. Inr (sort parents))"

definition remove_repo :: "string \<Rightarrow> dict \<Rightarrow> dict" where
  \<comment> \<open>the record is deleted, and another package becomes the root when it was the root\<close>
  "remove_repo repo lock =
     (let packages = AList.delete repo (packages_of lock); lock' = with_lock_packages packages lock in
      if dget lock ''root'' = JStr repo
      then dput ''root'' (JStr (case sort (map fst packages) of [] \<Rightarrow> [] | k # ks \<Rightarrow> k)) lock'
      else lock')"

definition remove_lock :: "string \<Rightarrow> bool \<Rightarrow> bool \<Rightarrow> ppath \<Rightarrow> dict \<Rightarrow> dict option res" where
  "remove_lock package force explicit path lock =
     bindE (selected_repo explicit lock package) (\<lambda>found.
     case found of
       None \<Rightarrow> Inr None
     | Some repo \<Rightarrow>
         bindE (dependents_of repo (packages_of lock)) (\<lambda>dependents.
         if dependents \<noteq> [] \<and> \<not> force
         then Inl (SystemExit ''{}: package is still required in {} by: {}''
                [JStr package, JStr (path_text path), JStr (join '', '' dependents)])
         else Inr (Some (remove_repo repo lock))))"

definition remove ::
  "lock_host \<Rightarrow> string \<Rightarrow> bool \<Rightarrow> ppath list \<Rightarrow> ppath option \<Rightarrow> lock_files \<Rightarrow> lock_files \<times> nat res" where
  "remove host package force locks repo_root files =
     edit_command (remove_lock package force (locks \<noteq> [])) ''{}: package is not present in any selected lock''
       package files (edit_lock_paths host locks repo_root)"

end
