(* ===== verification/SortedDict.thy ===== *)
theory SortedDict
  imports Prelude
begin

text \<open>Dictionaries in the order of their keys, as \<^verbatim>\<open>sorted(d.items())\<close> and \<^verbatim>\<open>sort_keys\<close> list them.\<close>

lemma map_of_sort_key [dict_simps]: "map_of (sort_key fst d) = map_of d"
proof
  fix k
  have first: "map_of e k = map_of (filter (\<lambda>x. fst x = k) e) k" for e :: "('a \<times> 'b) list"
    by (induction e) auto
  show "map_of (sort_key fst d) k = map_of d k"
    using first [of "sort_key fst d"] first [of d] sort_key_stable [of fst k d] by simp
qed

lemma dget_sort_key [simp]: "dget (sort_key fst d) k = dget d k"
  by (simp add: dget_def dict_simps)

end
