(* ===== verification/LockToolRun.thy ===== *)
theory LockToolRun
  imports LockTool SpackLockRun TopoOrderRun SortedDict
begin

text \<open>
  What a lock without errors promises, and what the edits keep: no dependency of a lock is lost by a
  removal, and a removal takes back an addition.
\<close>

section \<open>One record\<close>

definition link_deps_of :: "json \<Rightarrow> string list" where
  "link_deps_of v =
     (case v of
        JObj node \<Rightarrow> (case dget node ''link_deps'' of JList xs \<Rightarrow> map the_str (filter is_str xs) | _ \<Rightarrow> [])
      | _ \<Rightarrow> [])"

definition archived :: "lock_env \<Rightarrow> ppath list \<Rightarrow> dict \<Rightarrow> bool" where
  \<comment> \<open>an archive of a source is in a directory, with the digest of the source\<close>
  "archived env distdirs source =
     (\<exists>sha name d content. dget source ''sha256'' = JStr sha
        \<and> (\<forall>n. dget source ''filename'' = JStr n \<longrightarrow> name = n)
        \<and> d \<in> set distdirs \<and> archive env (slash d name) = Some content
        \<and> sha256 env content = map lower_char sha)"

definition settled :: "lock_policy \<Rightarrow> string \<Rightarrow> bool" where
  \<comment> \<open>the ledger knows the package, and not as work in progress\<close>
  "settled pol pkg =
     (ledger_packages pol \<noteq> [] \<longrightarrow>
        (\<exists>e. map_of (ledger_packages pol) pkg = Some e
           \<and> dget e ''status'' \<in> insert JNull (set (map JStr TERMINAL_STATUSES))))"

definition sound_record :: "lock_env \<Rightarrow> lock_policy \<Rightarrow> string list \<Rightarrow> string \<Rightarrow> json \<Rightarrow> bool" where
  "sound_record env pol keys repo v =
     (\<exists>node pkg ver label. v = JObj node
        \<and> dget node ''package'' = JStr pkg \<and> repo = repo_name pkg \<and> settled pol pkg
        \<and> dget node ''version'' = JStr ver \<and> ver \<noteq> []
        \<and> dget node ''build'' = JStr ''native'' \<and> dget node ''native_prefix'' = JStr label
        \<and> native_override_for pkg ver (native_overrides pol) = Some label
        \<and> dget node ''link_deps'' = JList (map JStr (link_deps_of v))
        \<and> sorted_wrt (<) (link_deps_of v) \<and> set (link_deps_of v) \<subseteq> set keys
        \<and> (\<forall>source\<in>set (node_sources node). archived env (distdirs_of pol) source))"

definition served :: "lock_policy \<Rightarrow> json \<Rightarrow> bool" where
  \<comment> \<open>the native provider of a record builds its version, or a substitution is recorded\<close>
  "served pol v =
     (\<exists>node pkg ver key. v = JObj node \<and> dget node ''package'' = JStr pkg \<and> dget node ''version'' = JStr ver
        \<and> native_override_key_for pkg ver (native_overrides pol) = Some key
        \<and> (\<forall>provided. provided_versions pol = Some provided \<longrightarrow>
             (\<exists>w. map_of provided key = Some w \<and>
                (w = ver \<or> (key, ver, w) \<in> set (List.map_filter substitution_of (version_substitutions pol))))))"

lemma map_the_str: "list_all is_str xs \<Longrightarrow> map JStr (map the_str xs) = xs \<and> filter is_str xs = xs"
  by (induction xs) (auto simp: is_str_iff)

lemma get_or_dget: "get_or d k v = w \<Longrightarrow> dget d k = w \<or> (map_of d k = None \<and> w = v)"
  by (auto simp: get_or_def dget_def split: option.splits)

lemma archive_hashes_in:
  "(p, h) \<in> set (archive_hashes env distdirs name) \<Longrightarrow>
    \<exists>d\<in>set distdirs. \<exists>content. archive env (slash d name) = Some content \<and> h = sha256 env content"
  by (fastforce simp: archive_hashes_def List.map_filter_def)

lemma archive_errors_ok:
  assumes "archive_errors env distdirs lp node repo sha name = []"
  shows "\<exists>d\<in>set distdirs. \<exists>content. archive env (slash d name) = Some content
    \<and> sha256 env content = map lower_char sha"
proof -
  have "map lower_char sha \<in> snd ` set (archive_hashes env distdirs name)"
    using assms by (auto simp: archive_errors_def Let_def split: if_splits)
  then show ?thesis by (force dest: archive_hashes_in)
qed

lemma validate_source_ok:
  assumes "validate_source env distdirs lp repo node source = Inr []"
  shows "archived env distdirs source"
proof -
  obtain sha filename name where s: "dget source ''sha256'' = JStr sha"
    and f: "source_filename env source = Inr filename" "plain_name filename = Some name"
    and a: "archive_errors env distdirs lp node repo sha name = []"
    using assms by (auto simp: validate_source_def split: json.splits if_splits option.splits)
  have "name = n" if "dget source ''filename'' = JStr n" for n
    using f that by (auto simp: source_filename_def plain_name_def split: if_splits)
  then show ?thesis using s archive_errors_ok [OF a] by (auto simp: archived_def)
qed

lemma status_ok: "status_errors pol lp repo pkg = Inr [] \<Longrightarrow> settled pol pkg"
  by (auto simp: status_errors_def settled_def Let_def dget_Nil split: option.splits list.splits if_splits)

lemma provider_ok:
  assumes "provider_errors env pol lp repo pkg node = []"
  shows "\<exists>label. dget node ''native_prefix'' = JStr label
    \<and> native_override_for pkg (if truthy (dget node ''version'') then str_text env (dget node ''version'') else [])
        (native_overrides pol) = Some label"
  using assms by (auto simp: provider_errors_def Let_def split: json.splits list.splits if_splits)

lemma build_ok: "build_errors lp repo node = [] \<Longrightarrow> dget node ''build'' = JStr ''native''"
  using get_or_dget [of node "''build''" "JStr ''spack''"] by (auto simp: build_errors_def Let_def split: if_splits)

lemma link_field_ok:
  "field_errors lp repo node = [] \<Longrightarrow> \<exists>xs. dget node ''link_deps'' = JList xs \<and> list_all is_str xs"
  by (auto simp: field_errors_def split: json.splits if_splits)

lemma link_deps_ok:
  assumes "link_dep_errors lp keys repo (JList xs) = Inr []" "list_all is_str xs"
  shows "sorted_wrt (<) (map the_str xs) \<and> set (map the_str xs) \<subseteq> set keys"
proof -
  have "list_all hashable xs" using assms(2) by (auto simp: list_all_iff is_str_iff)
  then have "sorted_wrt (<) (map the_str xs)"
    and in_keys: "\<forall>x\<in>set xs. x \<in> JStr ` set keys"
    using assms by (auto simp: link_dep_errors_def sorted_unique_def filter_empty_conv split: if_splits)
  moreover have "set (map the_str xs) \<subseteq> set keys" using in_keys by auto
  ultimately show ?thesis by simp
qed

lemma check_record_ok:
  assumes "check_record env pol lp keys (repo, v) = Inr ([], r)"
  shows "sound_record env pol keys repo v
    \<and> (\<exists>node pkg. v = JObj node \<and> dget node ''package'' = JStr pkg \<and> pkg \<noteq> []
         \<and> r = Some (topo_node repo pkg (link_deps_of v), provider_node pkg node))"
proof -
  obtain node c cs where v: "v = JObj node" and p: "dget node ''package'' = JStr (c # cs)"
    using assms by (auto simp: check_record_def split: json.splits list.splits)
  define pkg where "pkg = c # cs"
  define deps where "deps = get_or node ''link_deps'' (JList [])"
  obtain ds where ver: "nonempty_str (dget node ''version'')" and repo: "repo = repo_name pkg"
    and st: "status_errors pol lp repo pkg = Inr []" and b: "build_errors lp repo node = []"
    and pr: "provider_errors env pol lp repo pkg node = []" and fi: "field_errors lp repo node = []"
    and ld: "link_dep_errors lp keys repo deps = Inr []"
    and so: "concatE (validate_source env (distdirs_of pol) lp repo node) (node_sources node) = Inr []"
    and it: "iter_strs deps = Inr ds"
    and r: "r = Some (topo_node repo pkg ds, provider_node pkg node)"
    using assms by (auto simp: check_record_def v p pkg_def deps_def Let_def split: if_splits)
  obtain xs where xs: "dget node ''link_deps'' = JList xs" "list_all is_str xs" using link_field_ok [OF fi] by blast
  have deps: "deps = JList xs" using xs(1) by (auto simp: deps_def get_or_def dget_def split: option.splits)
  have lo: "link_deps_of v = map the_str xs" using xs map_the_str [OF xs(2)] by (simp add: link_deps_of_def v)
  have ds: "ds = link_deps_of v" using it map_the_str [OF xs(2)] by (simp add: iter_strs_def deps lo)
  have links: "dget node ''link_deps'' = JList (map JStr (link_deps_of v))"
    using xs map_the_str [OF xs(2)] by (simp add: lo)
  obtain w where w: "dget node ''version'' = JStr w" "w \<noteq> []" using ver by (auto simp: nonempty_str_iff)
  obtain label where label: "dget node ''native_prefix'' = JStr label"
    "native_override_for pkg w (native_overrides pol) = Some label"
    using provider_ok [OF pr] w by (auto simp: str_text_def)
  have "archived env (distdirs_of pol) source" if "source \<in> set (node_sources node)" for source
    using so that validate_source_ok by (auto simp: concatE_Nil)
  then have "sound_record env pol keys repo v"
    unfolding sound_record_def
    using v p repo status_ok [OF st] w build_ok [OF b] label links
      link_deps_ok [of lp keys repo xs] ld xs(2) deps lo
    by (intro exI [of _ node] exI [of _ pkg] exI [of _ w] exI [of _ label]) (simp add: pkg_def)
  then show ?thesis using v p r ds by (simp add: pkg_def)
qed
section \<open>The whole lock\<close>

definition package_of :: "json \<Rightarrow> string" where
  "package_of v = (case v of JObj node \<Rightarrow> the_str (dget node ''package'') | _ \<Rightarrow> [])"

definition graph_node :: "string \<times> json \<Rightarrow> dict" where
  "graph_node item = topo_node (fst item) (package_of (snd item)) (link_deps_of (snd item))"

definition dep_edges :: "(string \<times> json) list \<Rightarrow> (string \<times> string) set" where
  \<comment> \<open>from a dependency to its dependent\<close>
  "dep_edges packages = {(d, repo). \<exists>v. (repo, v) \<in> set packages \<and> d \<in> set (link_deps_of v)}"

lemma topo_node_items:
  "str_item (topo_node r p ds) ''hash'' = Inr r"
  "str_item (topo_node r p ds) ''name'' = Inr p"
  "\<exists>deps. dependencies (topo_node r p ds) = Inr deps \<and> list_all2 (\<lambda>dep d. str_item dep ''hash'' = Inr d) deps ds"
proof -
  show "str_item (topo_node r p ds) ''hash'' = Inr r" "str_item (topo_node r p ds) ''name'' = Inr p"
    by (simp_all add: topo_node_def str_item_def ditem_def)
  define dep :: "string \<Rightarrow> dict" where "dep = (\<lambda>d. [(''hash'', JStr d), (''name'', JStr d),
    (''parameters'', JObj [(''deptypes'', JList [JStr ''link''])])])"
  have "mapE as_obj (map (\<lambda>d. JObj (dep d)) ds) = Inr (map dep ds)"
    by (induction ds) (simp_all add: as_obj_def)
  then have "dependencies (topo_node r p ds) = Inr (map dep ds)"
    by (simp add: dependencies_def topo_node_def dep_def)
  moreover have "list_all2 (\<lambda>dep d. str_item dep ''hash'' = Inr d) (map dep ds) ds"
    by (induction ds) (simp_all add: dep_def str_item_def ditem_def)
  ultimately show "\<exists>deps. dependencies (topo_node r p ds) = Inr deps
      \<and> list_all2 (\<lambda>dep d. str_item dep ''hash'' = Inr d) deps ds" by blast
qed

lemma node_edges_topo:
  "node_edges H (topo_node r p ds) = Inr (map (\<lambda>d. (d, r)) (filter (\<lambda>d. d \<in> set H) ds))"
proof -
  obtain deps where d: "dependencies (topo_node r p ds) = Inr deps"
    and l: "list_all2 (\<lambda>dep d. str_item dep ''hash'' = Inr d) deps ds" using topo_node_items(3) by blast
  have "concatE (\<lambda>dep. bindE (str_item dep ''hash'') (\<lambda>dh.
      if dh \<notin> set H then Inr [] else bindE (str_item (topo_node r p ds') ''hash'') (\<lambda>h. Inr [(dh, h)]))) deps
    = Inr (map (\<lambda>d. (d, r)) (filter (\<lambda>d. d \<in> set H) ds))" for ds'
    using l by (induction rule: list_all2_induct) (simp_all add: topo_node_items(1))
  then show ?thesis by (simp add: node_edges_def d)
qed

lemma graph_edges_of_lock:
  "\<exists>E. graph_edges (map graph_node ps) = Inr (map fst ps, E)
    \<and> set E = {(d, r) \<in> dep_edges ps. d \<in> fst ` set ps}"
proof -
  have h: "node_hashes (map graph_node ps) = Inr (map fst ps)"
    unfolding node_hashes_def by (induction ps) (simp_all add: graph_node_def topo_node_items(1))
  have "\<exists>E. concatE (node_edges H) (map graph_node qs) = Inr E
      \<and> set E = {(d, r) \<in> dep_edges qs. d \<in> set H}" for H qs
  proof (induction qs)
    case (Cons q qs)
    then obtain E where E: "concatE (node_edges H) (map graph_node qs) = Inr E"
      "set E = {(d, r) \<in> dep_edges qs. d \<in> set H}" by blast
    obtain r v where q: "q = (r, v)" by (cases q)
    have "node_edges H (graph_node q) = Inr (map (\<lambda>d. (d, r)) (filter (\<lambda>d. d \<in> set H) (link_deps_of v)))"
      by (simp add: q graph_node_def node_edges_topo)
    then have "concatE (node_edges H) (map graph_node (q # qs))
        = Inr (map (\<lambda>d. (d, r)) (filter (\<lambda>d. d \<in> set H) (link_deps_of v)) @ E)"
      using E(1) by simp
    then show ?case using E(2) by (intro exI conjI) (auto simp: q dep_edges_def)
  qed (simp add: dep_edges_def)
  then obtain E where E: "concatE (node_edges (map fst ps)) (map graph_node ps) = Inr E"
    "set E = {(d, r) \<in> dep_edges ps. d \<in> set (map fst ps)}" by blast
  then show ?thesis using h by (auto simp: graph_edges_def)
qed

lemma cycle_ok:
  assumes "cycle_errors lp (map graph_node ps) = Inr []" "fst ` dep_edges ps \<subseteq> fst ` set ps"
  shows "distinct (map fst ps) \<and> acyclic (dep_edges ps)"
proof -
  define by_hash where "by_hash = map (\<lambda>item. (fst item, graph_node item)) ps"
  obtain E where g: "graph_edges (map graph_node ps) = Inr (map fst ps, E)"
    and E: "set E = {(d, r) \<in> dep_edges ps. d \<in> fst ` set ps}" using graph_edges_of_lock by blast
  have all: "set E = dep_edges ps"
  proof (rule set_eqI)
    fix e
    have "fst e \<in> fst ` set ps" if "e \<in> dep_edges ps"
      by (rule subsetD [OF assms(2)]) (rule imageI [OF that])
    then show "e \<in> set E \<longleftrightarrow> e \<in> dep_edges ps" by (cases e) (auto simp: E)
  qed
  have "mapE (\<lambda>n. bindE (str_item n ''hash'') (\<lambda>h. Inr (h, n))) (map graph_node ps) = Inr by_hash"
    unfolding by_hash_def by (induction ps) (simp_all add: graph_node_def topo_node_items(1))
  then have t: "case topo_order (map graph_node ps) by_hash of Inr order \<Rightarrow> True | Inl (SystemExit what args) \<Rightarrow> False | Inl e \<Rightarrow> True"
    using assms(1) by (auto simp: cycle_errors_def split: sum.splits pyexn.splits)
  have name: "name_of by_hash h = Inr (projr (name_of by_hash h))" if h: "h \<in> set (map fst ps)" for h
  proof -
    have "fst ` set by_hash = fst ` set ps" by (force simp: by_hash_def)
    then have "map_of by_hash h \<noteq> None" using h by (simp add: map_of_eq_None_iff)
    then obtain n where n: "map_of by_hash h = Some n" by blast
    then have "n \<in> graph_node ` set ps" by (fastforce simp: by_hash_def dest!: map_of_SomeD)
    then show ?thesis by (auto simp: name_of_def n graph_node_def topo_node_items(2))
  qed
  show ?thesis
    using topo_order_cases [OF g, of by_hash "\<lambda>h. projr (name_of by_hash h)"] name t
    by (auto simp: all split: sum.splits)
qed

lemma versions_ok:
  assumes "provider_version_errors pol lp nodes = []" "provided_versions pol = Some provided"
    and "node \<in> set nodes" "label_of node = Some pkg"
    and key: "native_override_key_for pkg (version_of node) (native_overrides pol) = Some key"
  shows "\<exists>w. map_of provided key = Some w \<and> (w = version_of node
    \<or> (key, version_of node, w) \<in> set (List.map_filter substitution_of (version_substitutions pol)))"
proof -
  have "native_overrides pol \<noteq> []" using key by (auto simp: native_override_key_for_def)
  then have "validate_native_provider_versions nodes (native_overrides pol) (Some provided) (version_substitutions pol) = Inr ()"
    using assms(1,2) by (auto simp: provider_version_errors_def validate_native_provider_versions_def)
  from native_versions_checked [OF this assms(3), of key] show ?thesis using key assms(4) by auto
qed

lemma records_ok:
  assumes "mapE (check_record env pol lp keys) qs = Inr records" "concat (map fst records) = []"
  shows "(\<forall>(repo, v)\<in>set qs. sound_record env pol keys repo v)
    \<and> map fst (List.map_filter snd records) = map graph_node qs
    \<and> (\<forall>(repo, v)\<in>set qs. \<exists>node. v = JObj node \<and> package_of v \<noteq> []
         \<and> provider_node (package_of v) node \<in> set (map snd (List.map_filter snd records)))"
  using assms
proof (induction qs arbitrary: records)
  case (Cons q qs)
  obtain repo v where q: "q = (repo, v)" by (cases q)
  obtain r rs where r: "check_record env pol lp keys q = Inr r" and rs: "mapE (check_record env pol lp keys) qs = Inr rs"
    and records: "records = r # rs" using Cons.prems(1) by auto
  obtain x where x: "r = ([], x)" using Cons.prems(2) records by (cases r) auto
  have ok: "sound_record env pol keys repo v" "\<exists>node pkg. v = JObj node \<and> dget node ''package'' = JStr pkg \<and> pkg \<noteq> []
         \<and> x = Some (topo_node repo pkg (link_deps_of v), provider_node pkg node)"
    using check_record_ok [of env pol lp keys repo v x] r q x by auto
  then obtain node pkg where n: "v = JObj node" "dget node ''package'' = JStr pkg" "pkg \<noteq> []"
    "x = Some (topo_node repo pkg (link_deps_of v), provider_node pkg node)" by blast
  have p: "package_of v = pkg" using n by (simp add: package_of_def)
  note IH = Cons.IH [OF rs]
  have c: "concat (map fst rs) = []" using Cons.prems(2) by (simp add: records)
  have m: "List.map_filter snd records = (topo_node repo pkg (link_deps_of v), provider_node pkg node) # List.map_filter snd rs"
    by (simp add: records x n(4) List.map_filter_simps)
  show ?case
  proof (intro conjI ballI)
    show "map fst (List.map_filter snd records) = map graph_node (q # qs)"
      using IH [OF c] by (simp add: m q graph_node_def p)
  next
    fix item assume "item \<in> set (q # qs)"
    then show "case item of (repo, v) \<Rightarrow> sound_record env pol keys repo v"
      using IH [OF c] ok(1) by (auto simp: q)
  next
    fix item assume "item \<in> set (q # qs)"
    then consider "item = q" | "item \<in> set qs" by auto
    then show "case item of (repo, v) \<Rightarrow> \<exists>node. v = JObj node \<and> package_of v \<noteq> []
         \<and> provider_node (package_of v) node \<in> set (map snd (List.map_filter snd records))"
    proof cases
      case 1
      then show ?thesis using n(1,3) p by (simp add: q m)
    next
      case 2
      then show ?thesis using IH [OF c] by (fastforce simp: m)
    qed
  qed
qed (simp add: List.map_filter_simps)
fun un_obj :: "json \<Rightarrow> dict" where
  "un_obj (JObj d) = d"
| "un_obj _ = []"

lemma validate_lock_packages:
  assumes "read_doc path file = Inr lock" "dget lock ''packages'' = JObj packages" "packages \<noteq> []"
  shows "validate_lock env pol path file =
    bindE (mapE (check_record env pol (JStr (path_text path)) (map fst packages)) (sort_key fst packages)) (\<lambda>records.
    bindE (cycle_errors (JStr (path_text path)) (map fst (List.map_filter snd records))) (\<lambda>cycle_lines. Inr
      ((if py_eq (dget lock ''schema_version'') (JInt 1) then []
        else [(''{}: schema_version must be 1'', [JStr (path_text path)])])
       @ (if dget lock ''root'' \<in> set (map JStr (map fst packages)) then []
          else [(''{}: root {} is not present in packages'', [JStr (path_text path), dget lock ''root''])])
       @ concat (map fst records) @ cycle_lines
       @ provider_version_errors pol (JStr (path_text path)) (map snd (List.map_filter snd records)))))"
proof -
  obtain p ps where "packages = p # ps" using assms(3) by (cases packages) auto
  then show ?thesis using assms(1,2) unfolding validate_lock_def Let_def by simp
qed

text \<open>
  C20. A lock that is validated without an error: it has a root among its packages; each record is under
  the name of its package, is settled in the ledger, has a version, is built by the native provider
  that the overrides give this package at this version, which builds that version or a recorded
  substitution, and each of its sources has an archive with its digest; the dependencies are
  sorted, are packages of the lock, and have no cycle.
\<close>

theorem valid_lock_is_sound:
  assumes "validate_lock env pol path file = Inr []"
  shows "\<exists>lock packages. file = Doc (JObj lock) \<and> dget lock ''packages'' = JObj packages
    \<and> dget lock ''root'' \<in> JStr ` fst ` set packages
    \<and> (\<forall>(repo, v)\<in>set packages. sound_record env pol (map fst packages) repo v \<and> served pol v)
    \<and> distinct (map fst packages) \<and> acyclic (dep_edges packages)"
proof -
  define lp where "lp = JStr (path_text path)"
  obtain lock where lock: "file = Doc (JObj lock)" "read_doc path file = Inr lock"
    using assms by (auto simp: validate_lock_def read_doc_def split: doc_file.splits json.splits)
  obtain packages where packages: "dget lock ''packages'' = JObj packages" "packages \<noteq> []"
    using assms unfolding validate_lock_def lock(2)
    by (cases "dget lock ''packages''"; cases "un_obj (dget lock ''packages'')") (auto simp: Let_def)
  obtain records where root: "dget lock ''root'' \<in> set (map JStr (map fst packages))"
    and m: "mapE (check_record env pol lp (map fst packages)) (sort_key fst packages) = Inr records"
    and ok: "concat (map fst records) = []"
    and cyc: "cycle_errors lp (map fst (List.map_filter snd records)) = Inr []"
    and prov: "provider_version_errors pol lp (map snd (List.map_filter snd records)) = []"
    using assms unfolding validate_lock_packages [OF lock(2) packages] lp_def by (auto split: if_splits)
  note recs = records_ok [OF m ok]
  have sound: "sound_record env pol (map fst packages) repo v" if "(repo, v) \<in> set packages" for repo v
    using recs that by auto
  have deps: "fst ` dep_edges (sort_key fst packages) \<subseteq> fst ` set (sort_key fst packages)"
    using sound by (fastforce simp: dep_edges_def sound_record_def)
  have dag: "distinct (map fst (sort_key fst packages)) \<and> acyclic (dep_edges (sort_key fst packages))"
    using cycle_ok [OF _ deps, of lp] cyc recs by simp
  then have "distinct (map fst packages)"
    by (metis mset_eq_imp_distinct_iff mset_map mset_sort)
  moreover have "acyclic (dep_edges packages)" using dag by (simp add: dep_edges_def)
  moreover have "served pol v" if rv: "(repo, v) \<in> set packages" for repo v
  proof -
    from sound [OF rv] obtain node pkg ver label where s: "v = JObj node" "dget node ''package'' = JStr pkg"
      "dget node ''version'' = JStr ver" "ver \<noteq> []" "native_override_for pkg ver (native_overrides pol) = Some label"
      unfolding sound_record_def by blast
    have po: "package_of v = pkg" using s(1,2) by (simp add: package_of_def)
    have "(repo, v) \<in> set (sort_key fst packages)" using rv by simp
    then have p: "pkg \<noteq> []" "provider_node pkg node \<in> set (map snd (List.map_filter snd records))"
      using conjunct2 [OF conjunct2 [OF recs]] s(1) po by (fastforce simp del: set_map)+
    have n: "label_of (provider_node pkg node) = Some pkg" "version_of (provider_node pkg node) = ver"
      using p(1) s(3,4) by (cases pkg; simp add: label_of_def version_of_def provider_node_def dget_Cons)+
    obtain key where "native_override_key_for pkg ver (native_overrides pol) = Some key"
      using s(5) by (auto simp: native_override_for_def split: option.splits)
    then show ?thesis
      using versions_ok [OF prov _ p(2) n(1)] s(1-3) n(2) by (auto simp: served_def)
  qed
  ultimately show ?thesis
    using lock(1) packages root sound
    by (intro exI [of _ lock] exI [of _ packages]) auto
qed

text \<open>Two packages, one of which links the other.\<close>

definition env_sample :: lock_env where
  "env_sample = \<lparr>netloc_valid = (\<lambda>_. True), text_of = (\<lambda>_. []),
     archive = (\<lambda>p. if p = parse ''/dist/zlib.tgz'' then Some ''z'' else None),
     sha256 = (\<lambda>content. replicate 64 (CHR ''a''))\<rparr>"

definition policy_sample :: lock_policy where
  "policy_sample = \<lparr>ledger_packages = [],
     native_overrides = [(''zlib@1.3'', ''@zlib_native//:lib''), (''xz'', ''@xz_native//:lib'')],
     provided_versions = Some [(''zlib@1.3'', ''1.3''), (''xz'', ''5'')],
     version_substitutions = [], distdirs_of = [parse ''/dist'']\<rparr>"

definition record_sample :: "string \<Rightarrow> string \<Rightarrow> string \<Rightarrow> string list \<Rightarrow> json list \<Rightarrow> json" where
  "record_sample pkg version label deps sources = JObj
     [(''package'', JStr pkg), (''version'', JStr version), (''build'', JStr ''native''),
      (''native_prefix'', JStr label), (''link_deps'', JList (map JStr deps)), (''link_libs'', JList []),
      (''include_dirs'', JList []), (''source'', JList sources)]"

definition packages_sample :: "(string \<times> json) list" where
  "packages_sample =
     [(''vaso_zlib'', record_sample ''zlib'' ''1.3'' ''@zlib_native//:lib'' []
        [JObj [(''sha256'', JStr (replicate 64 (CHR ''A''))), (''urls'', JList [JStr ''https://z.org/zlib.tgz''])]]),
      (''vaso_xz'', record_sample ''xz'' ''5'' ''@xz_native//:lib'' [''vaso_zlib''] [])]"

definition lock_sample :: dict where
  "lock_sample = [(''schema_version'', JInt 1), (''root'', JStr ''vaso_xz''), (''packages'', JObj packages_sample)]"

lemma lock_sample_valid: "validate_lock env_sample policy_sample (parse ''a.lock.json'') (Doc (JObj lock_sample)) = Inr []"
  by code_simp

theorem valid_lock_is_sound_witness:
  "\<exists>packages. dget lock_sample ''packages'' = JObj packages
    \<and> (\<forall>(repo, v)\<in>set packages. sound_record env_sample policy_sample (map fst packages) repo v)
    \<and> acyclic (dep_edges packages)"
  using valid_lock_is_sound [OF lock_sample_valid] by fastforce
section \<open>What the edits keep\<close>

definition keys_of :: "dict \<Rightarrow> string set" where
  "keys_of lock = fst ` set (packages_of lock)"

definition lock_closed :: "dict \<Rightarrow> bool" where
  \<comment> \<open>every dependency of a record is a package of the lock\<close>
  "lock_closed lock = (\<forall>(repo, v)\<in>set (packages_of lock). set (link_deps_of v) \<subseteq> keys_of lock)"

definition rooted :: "dict \<Rightarrow> bool" where
  "rooted lock = (packages_of lock \<noteq> [] \<longrightarrow> dget lock ''root'' \<in> JStr ` keys_of lock)"

definition consistent :: "doc_file \<Rightarrow> bool" where
  "consistent file = (\<forall>lock. file = Doc (JObj lock) \<longrightarrow> lock_closed lock \<and> rooted lock)"

lemma dget_sorted: "sorted_json (JObj d) = JObj e \<Longrightarrow> dget e k = sorted_json (dget d k)"
proof -
  assume e: "sorted_json (JObj d) = JObj e"
  have "map_of (map (\<lambda>(k, v). (k, sorted_json v)) d) k = map_option sorted_json (map_of d k)"
    by (induction d) auto
  then show ?thesis using e by (auto simp: dget_def dict_simps split: option.splits)
qed

lemma sorted_json_obj: "\<exists>e. sorted_json (JObj d) = JObj e"
  by simp

lemma is_str_sorted [simp]: "is_str (sorted_json x) = is_str x \<and> the_str (sorted_json x) = the_str x"
  by (cases x) auto

lemma link_deps_sorted [simp]: "link_deps_of (sorted_json v) = link_deps_of v"
proof (cases v)
  case (JObj node)
  obtain e where e: "sorted_json (JObj node) = JObj e" by simp
  have "filter is_str (map sorted_json xs) = map sorted_json (filter is_str xs)" for xs
    by (induction xs) auto
  then have f: "map the_str (filter is_str (map sorted_json xs)) = map the_str (filter is_str xs)" for xs
    by (simp add: comp_def)
  have "dget e ''link_deps'' = sorted_json (dget node ''link_deps'')" by (rule dget_sorted [OF e])
  moreover have "link_deps_of (JObj e) = link_deps_of (JObj node)"
    using calculation f by (cases "dget node ''link_deps''") (simp_all add: link_deps_of_def)
  ultimately show ?thesis using e JObj by simp
qed (simp_all add: link_deps_of_def)

lemma packages_sorted:
  assumes "sorted_json (JObj lock) = JObj e"
  shows "set (packages_of e) = (\<lambda>(k, v). (k, sorted_json v)) ` set (packages_of lock)"
  using dget_sorted [OF assms, of "''packages''"]
  by (cases "dget lock ''packages''") (auto simp: packages_of_def)

lemma keys_sorted: "sorted_json (JObj lock) = JObj e \<Longrightarrow> keys_of e = keys_of lock"
  using packages_sorted [of lock e] by (force simp: keys_of_def)

lemma consistent_sorted:
  assumes "lock_closed lock" "rooted lock"
  shows "consistent (Doc (sorted_json (JObj lock)))"
proof -
  obtain e where e: "sorted_json (JObj lock) = JObj e" by simp
  have "lock_closed e"
    using assms(1) packages_sorted [OF e] by (fastforce simp: lock_closed_def keys_sorted [OF e])
  moreover have "packages_of e = [] \<longleftrightarrow> packages_of lock = []" using packages_sorted [OF e] by force
  moreover have "dget e ''root'' = sorted_json (dget lock ''root'')" by (rule dget_sorted [OF e])
  ultimately show ?thesis
    using assms(2) unfolding consistent_def e by (auto simp: rooted_def keys_sorted [OF e])
qed

text \<open>The loop keeps what its body keeps, also when it fails.\<close>

lemma edit_locks_keep:
  assumes body: "\<And>path lock lock'. P (Doc (JObj lock)) \<Longrightarrow> body path lock = Inr (Some lock') \<Longrightarrow>
      P (Doc (sorted_json (JObj lock')))"
  shows "edit_locks body files n paths = (files', r) \<Longrightarrow> (\<And>p. P (files p)) \<Longrightarrow> P (files' p)"
proof (induction paths arbitrary: files n)
  case (Cons path paths)
  have load: "files path = Doc (JObj lock)" if "load_lock_for_edit path (files path) = Inr lock" for lock
    using that by (auto simp: load_lock_for_edit_def read_doc_def Let_def split: doc_file.splits json.splits if_splits)
  show ?case
  proof (cases "bindE (load_lock_for_edit path (files path)) (body path)")
    case (Inl e)
    then show ?thesis using Cons.prems by simp
  next
    case (Inr edited)
    show ?thesis
    proof (cases edited)
      case None
      then have "edit_locks body files n paths = (files', r)" using Inr Cons.prems(1) by (simp del: bindE_eq_Inr)
      then show ?thesis using Cons.IH Cons.prems(2) by blast
    next
      case (Some lock')
      then obtain lock where l: "load_lock_for_edit path (files path) = Inr lock" "body path lock = Inr (Some lock')"
        using Inr by auto
      have "P (Doc (sorted_json (JObj lock')))"
        using Cons.prems(2) [of path] load [OF l(1)] body [OF _ l(2)] by simp
      then have k: "P (write_doc path lock' files q)" for q using Cons.prems(2) by (simp add: write_doc_def)
      have "edit_locks body (write_doc path lock' files) (Suc n) paths = (files', r)"
        using Inr Some Cons.prems(1) by (simp del: bindE_eq_Inr)
      then show ?thesis using Cons.IH k by blast
    qed
  qed
qed simp

lemma edit_command_keep:
  assumes "\<And>path lock lock'. P (Doc (JObj lock)) \<Longrightarrow> body path lock = Inr (Some lock') \<Longrightarrow>
      P (Doc (sorted_json (JObj lock')))"
    and "edit_command body none package files paths = (files', r)" "\<And>p. P (files p)"
  shows "P (files' p)"
proof (cases paths)
  case (Inr ps)
  obtain files1 r1 where e: "edit_locks body files 0 ps = (files1, r1)" by fastforce
  then have "files' = files1" using assms(2) Inr by (auto simp: edit_command_def split: sum.splits nat.splits)
  moreover have "P (files1 p)" using assms(1,3) by (intro edit_locks_keep [where P = P, OF _ e]) blast+
  ultimately show ?thesis by simp
qed (use assms(2,3) in \<open>auto simp: edit_command_def\<close>)
lemma packages_with [simp]: "packages_of (with_lock_packages d lock) = d"
  by (simp add: with_lock_packages_def packages_of_def)

lemma root_with [simp]: "dget (with_lock_packages d lock) ''root'' = dget lock ''root''"
  by (simp add: with_lock_packages_def)

lemma keys_with [simp]: "keys_of (with_lock_packages d lock) = fst ` set d"
  by (simp add: keys_of_def)

lemma bump_keeps:
  assumes "bump_lock env args explicit path lock = Inr (Some lock')" "lock_closed lock" "rooted lock"
  shows "lock_closed lock' \<and> rooted lock'"
proof -
  obtain repo node source where n: "map_of (packages_of lock) repo = Some (JObj node)"
    and l: "lock' = with_lock_packages (dput repo (JObj (dput ''source'' (JObj source)
      (dput ''version'' (JStr (bump_version args)) node))) (packages_of lock)) lock"
  proof -
    from assms(1) obtain found where f: "(case found of None \<Rightarrow> Inr None
      | Some repo \<Rightarrow> (case map_of (packages_of lock) repo of
            Some (JObj node) \<Rightarrow>
              bindE (source_from env (bump_urls args) (bump_sha256 args)) (\<lambda>source.
              let node' = dput ''source'' (JObj source) (dput ''version'' (JStr (bump_version args)) node)
              in Inr (Some (with_lock_packages (dput repo (JObj node') (packages_of lock)) lock)))
          | _ \<Rightarrow> Inl TypeError)) = Inr (Some lock')"
      unfolding bump_lock_def bindE_eq_Inr by blast
    obtain repo where r: "found = Some repo" using f by (cases found) auto
    obtain node where n: "map_of (packages_of lock) repo = Some (JObj node)"
      using f r by (cases "map_of (packages_of lock) repo"; cases "the (map_of (packages_of lock) repo)") auto
    show thesis using f by (auto simp: r n Let_def intro: that [OF n])
  qed
  define v where "v = JObj (dput ''source'' (JObj source) (dput ''version'' (JStr (bump_version args)) node))"
  have mem: "(repo, JObj node) \<in> set (packages_of lock)" using n by (rule map_of_SomeD)
  have deps: "link_deps_of v = link_deps_of (JObj node)" by (simp add: v_def link_deps_of_def)
  have keys: "keys_of lock' = keys_of lock"
    using mem by (force simp: l keys_of_def dom_update)
  have "set (link_deps_of w) \<subseteq> keys_of lock" if "(r, w) \<in> set (packages_of lock')" for r w
  proof -
    have "(r, w) \<in> insert (repo, v) (set (packages_of lock))"
      using that set_update [of repo v "packages_of lock"] by (auto simp: l v_def)
    then show ?thesis using assms(2) mem deps by (fastforce simp: lock_closed_def)
  qed
  then have "lock_closed lock'" by (auto simp: lock_closed_def keys)
  moreover have "packages_of lock \<noteq> []" using mem by auto
  ultimately show ?thesis using assms(3) keys l by (auto simp: rooted_def)
qed

lemma no_dependents:
  assumes "dependents_of repo packages = Inr []" "(user, v) \<in> set packages" "user \<noteq> repo"
  shows "repo \<notin> set (link_deps_of v)"
proof -
  obtain ps where c: "concatE (\<lambda>(parent, node).
       if parent = repo then Inr []
       else bindE (node_get node ''link_deps'' (JList [])) (\<lambda>deps.
            bindE (py_in (JStr repo) deps) (\<lambda>b. Inr (if b then [parent] else [])))) packages = Inr ps"
    and s: "sort ps = []" using assms(1) by (auto simp: dependents_of_def)
  have "ps = []" using s by (metis mset_sort mset_zero_iff_right)
  then obtain deps where d: "node_get v ''link_deps'' (JList []) = Inr deps" "py_in (JStr repo) deps = Inr False"
    using c assms(2,3) by (fastforce simp: concatE_Nil split: if_splits)
  then obtain node where v: "v = JObj node" by (cases v) (auto simp: node_get_def)
  show ?thesis
  proof (cases "dget node ''link_deps''")
    case (JList xs)
    then have "deps = JList xs" using d(1) get_or_dget [of node "''link_deps''" "JList []" deps]
      by (auto simp: v node_get_def get_or_def dget_def split: option.splits)
    then have "JStr repo \<notin> set xs" using d(2) by (auto simp: list_ex_iff)
    then show ?thesis using JList by (auto simp: v link_deps_of_def is_str_iff)
  qed (simp_all add: v link_deps_of_def)
qed

lemma set_delete: "(k, v) \<in> set (AList.delete repo d) \<longleftrightarrow> k \<noteq> repo \<and> (k, v) \<in> set d"
  by (auto simp: AList.delete_eq)

lemma remove_repo_simps [simp]:
  "packages_of (remove_repo repo lock) = AList.delete repo (packages_of lock)"
  "k \<noteq> ''packages'' \<Longrightarrow> dget lock ''root'' \<noteq> JStr repo \<Longrightarrow> dget (remove_repo repo lock) k = dget lock k"
proof -
  show "packages_of (remove_repo repo lock) = AList.delete repo (packages_of lock)"
    by (simp add: remove_repo_def Let_def packages_of_def with_lock_packages_def)
  show "k \<noteq> ''packages'' \<Longrightarrow> dget lock ''root'' \<noteq> JStr repo \<Longrightarrow> dget (remove_repo repo lock) k = dget lock k"
    by (simp add: remove_repo_def Let_def with_lock_packages_def)
qed

lemma remove_keeps:
  assumes "remove_lock package False explicit path lock = Inr (Some lock')" "lock_closed lock" "rooted lock"
  shows "lock_closed lock' \<and> rooted lock'"
proof -
  obtain repo where d: "dependents_of repo (packages_of lock) = Inr []" and l: "lock' = remove_repo repo lock"
    using assms(1) by (auto simp: remove_lock_def split: option.splits if_splits)
  have keys: "keys_of lock' = keys_of lock - {repo}"
  proof -
    have "set (map fst (AList.delete repo (packages_of lock))) = set (map fst (packages_of lock)) - {repo}"
      unfolding delete_keys by auto
    then show ?thesis by (simp add: l keys_of_def)
  qed
  have "set (link_deps_of v) \<subseteq> keys_of lock'" if "(r, v) \<in> set (packages_of lock')" for r v
  proof -
    have rv: "r \<noteq> repo" "(r, v) \<in> set (packages_of lock)" using that by (simp_all add: l set_delete)
    then show ?thesis using assms(2) no_dependents [OF d rv(2,1)] by (fastforce simp: lock_closed_def keys)
  qed
  moreover have "dget lock' ''root'' \<in> JStr ` keys_of lock'" if ne: "packages_of lock' \<noteq> []"
  proof (cases "dget lock ''root'' = JStr repo")
    case True
    define ks where "ks = sort (map fst (AList.delete repo (packages_of lock)))"
    have pk: "packages_of lock' = AList.delete repo (packages_of lock)" by (simp add: l)
    have "ks \<noteq> []" unfolding ks_def using ne pk by (metis mset_sort mset_zero_iff_right map_is_Nil_conv)
    then have "hd ks \<in> keys_of lock'" using hd_in_set [of ks] by (simp add: ks_def keys_of_def pk)
    moreover have "dget lock' ''root'' = JStr (hd ks)"
      using True \<open>ks \<noteq> []\<close> unfolding l remove_repo_def Let_def ks_def [symmetric] by (cases ks) simp_all
    ultimately show ?thesis by simp
  next
    case False
    have "packages_of lock \<noteq> []" using ne by (auto simp: l)
    then have "dget lock ''root'' \<in> JStr ` keys_of lock" using assms(3) by (simp add: rooted_def)
    then have "dget lock ''root'' \<in> JStr ` keys_of lock'" using False by (auto simp: keys)
    then show ?thesis using False by (simp add: l)
  qed
  ultimately show ?thesis by (auto simp: lock_closed_def rooted_def)
qed
text \<open>
  C21. A bump or an unforced removal, over any selection of locks and also when it stops with an error:
  when in every lock each dependency is a package of the lock and the root is one unless there are
  none, then so it is in every lock afterwards.
\<close>

theorem edits_keep_locks_consistent:
  assumes "run = bump host env args locks base files \<or> run = remove host package False locks base files"
    and "\<And>p. consistent (files p)"
  shows "consistent (fst run p)"
proof -
  obtain files' r where run: "run = (files', r)" by (cases run)
  have ok: "lock_closed lock \<and> rooted lock" if "consistent (Doc (JObj lock))" for lock
    using that by (simp add: consistent_def)
  have bk: "consistent (Doc (sorted_json (JObj lock')))"
    if "consistent (Doc (JObj lock))" "bump_lock env args e q lock = Inr (Some lock')" for e q lock lock'
    using ok [OF that(1)] bump_keeps [OF that(2)] consistent_sorted by blast
  have rk: "consistent (Doc (sorted_json (JObj lock')))"
    if "consistent (Doc (JObj lock))" "remove_lock package False e q lock = Inr (Some lock')" for e q lock lock'
    using ok [OF that(1)] remove_keeps [OF that(2)] consistent_sorted by blast
  from assms(1) consider "bump host env args locks base files = (files', r)"
    | "remove host package False locks base files = (files', r)" using run by auto
  then have "consistent (files' p)"
  proof cases
    case 1
    show ?thesis
      by (rule edit_command_keep [where P = consistent, OF _ 1 [unfolded bump_def]]) (use bk assms(2) in blast)+
  next
    case 2
    show ?thesis
      by (rule edit_command_keep [where P = consistent, OF _ 2 [unfolded remove_def]]) (use rk assms(2) in blast)+
  qed
  then show ?thesis by (simp add: run)
qed

definition host_sample :: lock_host where
  "host_sample = \<lparr>cwd = parse ''/repo'', resolve_path = (\<lambda>p. p), has_locks = (\<lambda>_. True),
     tool_root = parse ''/repo'', list_locks = (\<lambda>_. [parse ''/repo/locks/a.lock.json''])\<rparr>"

definition files_sample :: lock_files where
  "files_sample p = (if p = parse ''/repo/locks/a.lock.json'' then Doc (JObj lock_sample) else NoFile)"

lemma files_sample_consistent: "consistent (files_sample p)"
proof -
  have pk: "packages_of lock_sample = packages_sample" by (simp add: packages_of_def lock_sample_def dget_Cons)
  have "link_deps_of (record_sample pkg version label deps sources) = deps" for pkg version label deps sources
    by (simp add: link_deps_of_def record_sample_def dget_Cons comp_def)
  then have "lock_closed lock_sample"
    by (simp add: lock_closed_def keys_of_def pk) (simp add: packages_sample_def)
  moreover have "rooted lock_sample"
    by (simp add: rooted_def keys_of_def pk) (simp add: packages_sample_def lock_sample_def dget_Cons)
  ultimately show ?thesis by (simp add: consistent_def files_sample_def)
qed

theorem edits_keep_locks_consistent_witness:
  "consistent (fst (remove host_sample ''xz'' False [] None files_sample) (parse ''/repo/locks/a.lock.json''))"
  by (rule edits_keep_locks_consistent [OF disjI2 [OF refl] files_sample_consistent])

section \<open>A removal takes back an addition\<close>

lemma package_repo_key: "package_repo (repo_name pkg) = repo_name pkg"
  by (simp add: package_repo_def repo_name_def)

lemma no_users:
  assumes "\<And>user v. (user, v) \<in> set packages \<Longrightarrow> user \<noteq> repo \<Longrightarrow>
      \<exists>node xs. v = JObj node \<and> dget node ''link_deps'' = JList xs \<and> JStr repo \<notin> set xs"
  shows "dependents_of repo packages = Inr []"
proof -
  have "(case item of (user, v) \<Rightarrow> if user = repo then Inr []
       else bindE (node_get v ''link_deps'' (JList [])) (\<lambda>deps.
            bindE (py_in (JStr repo) deps) (\<lambda>b. Inr (if b then [user] else [])))) = Inr []"
    if m: "item \<in> set packages" for item
  proof (cases item)
    case (Pair user v)
    show ?thesis
    proof (cases "user = repo")
      case False
      then obtain node xs where v: "v = JObj node" "dget node ''link_deps'' = JList xs" "JStr repo \<notin> set xs"
        using assms [of user v] m Pair by auto
      then have "get_or node ''link_deps'' (JList []) = JList xs"
        by (auto simp: get_or_def dget_def split: option.splits)
      then show ?thesis using v False Pair by (auto simp: node_get_def list_ex_iff)
    qed (simp add: Pair)
  qed
  then have "concatE (\<lambda>(user, v). if user = repo then Inr []
       else bindE (node_get v ''link_deps'' (JList [])) (\<lambda>deps.
            bindE (py_in (JStr repo) deps) (\<lambda>b. Inr (if b then [user] else [])))) packages = Inr []"
    by (simp add: concatE_Nil)
  then show ?thesis by (simp add: dependents_of_def)
qed

text \<open>
  Adding a package to a lock and removing it by its key, without force: in a lock whose records
  have lists of dependencies that are packages of the lock, and whose root is one, the removal goes
  through and gives back the packages of before, in the order of their keys, and all other entries.
\<close>

theorem remove_undoes_add:
  assumes "add_lock env args explicit path lock = Inr (Some added)"
    and typed: "\<And>repo v. (repo, v) \<in> set (packages_of lock) \<Longrightarrow>
      \<exists>node deps. v = JObj node \<and> dget node ''link_deps'' = JList (map JStr deps)"
    and "lock_closed lock" "dget lock ''root'' \<in> JStr ` keys_of lock"
  shows "\<exists>lock2. remove_lock (repo_name (package_name (new_package args))) False explicit' path added = Inr (Some lock2)
    \<and> packages_of lock2 = sort_key fst (packages_of lock)
    \<and> (\<forall>k. k \<noteq> ''packages'' \<longrightarrow> dget lock2 k = dget lock k)"
proof -
  define repo where "repo = repo_name (package_name (new_package args))"
  obtain node where fresh: "repo \<notin> keys_of lock"
    and l: "added = with_lock_packages (sort_key fst (dput repo (JObj node) (packages_of lock))) lock"
    using assms(1) by (auto simp: add_lock_def Let_def repo_def keys_of_def split: if_splits)
  have new: "dput repo (JObj node) (packages_of lock) = packages_of lock @ [(repo, JObj node)]"
  proof -
    have "AList.update repo (JObj node) d = d @ [(repo, JObj node)]" if "repo \<notin> fst ` set d" for d
      using that by (induction d) auto
    then show ?thesis using fresh by (simp add: keys_of_def)
  qed
  have pk: "packages_of added = sort_key fst (packages_of lock @ [(repo, JObj node)])" by (simp add: l new)
  have found: "selected_repo explicit' added (repo_name (package_name (new_package args))) = Inr (Some repo)"
    by (simp add: selected_repo_def find_existing_repo_def package_repo_key pk repo_def)
  have "\<exists>n xs. v = JObj n \<and> dget n ''link_deps'' = JList xs \<and> JStr repo \<notin> set xs"
    if "(user, v) \<in> set (packages_of added)" "user \<noteq> repo" for user v
  proof -
    have uv: "(user, v) \<in> set (packages_of lock)" using that by (auto simp: pk)
    obtain n deps where n: "v = JObj n" "dget n ''link_deps'' = JList (map JStr deps)" using typed [OF uv] by blast
    have "link_deps_of v = deps" by (simp add: link_deps_of_def n comp_def)
    then have "repo \<notin> set deps" using assms(3) uv fresh by (auto simp: lock_closed_def)
    then show ?thesis using n by auto
  qed
  then have users: "dependents_of repo (packages_of added) = Inr []" by (rule no_users)
  have again: "AList.delete repo (packages_of added) = sort_key fst (packages_of lock)"
  proof -
    have "filter (\<lambda>(k', _). repo \<noteq> k') (packages_of lock) = packages_of lock"
      using fresh by (force simp: keys_of_def filter_id_conv)
    then show ?thesis by (simp add: AList.delete_eq pk filter_sort)
  qed
  have root: "dget added ''root'' \<noteq> JStr repo" using assms(4) fresh by (auto simp: l)
  have "dget (remove_repo repo added) k = dget lock k" if "k \<noteq> ''packages''" for k
    using that root by (simp add: l with_lock_packages_def)
  then show ?thesis
    using found users again by (intro exI [of _ "remove_repo repo added"]) (simp add: remove_lock_def)
qed
definition added_sample :: add_args where
  "added_sample = \<lparr>new_package = ''bzip2'', new_version = ''1.0'', new_urls = [''https://b.org/bzip2.tgz''],
     new_sha256 = replicate 64 (CHR ''b''), native_label = None, new_deps = [''xz''], new_link_libs = [''bz2''],
     new_include_dirs = [], new_prefix = [], new_spack_hash = []\<rparr>"

lemma sample_addition:
  "\<exists>added. add_lock env_sample added_sample True (parse ''a.lock.json'') lock_sample = Inr (Some added)"
proof -
  have "case add_lock env_sample added_sample True (parse ''a.lock.json'') lock_sample of
      Inr (Some added) \<Rightarrow> True | _ \<Rightarrow> False"
    by code_simp
  then show ?thesis by (auto split: sum.splits option.splits)
qed

lemma sample_records:
  "packages_of lock_sample = packages_sample"
  "(repo, v) \<in> set packages_sample \<Longrightarrow>
    \<exists>node deps. v = JObj node \<and> dget node ''link_deps'' = JList (map JStr deps)"
proof -
  show "packages_of lock_sample = packages_sample"
    by (simp add: packages_of_def lock_sample_def dget_Cons)
  have "\<exists>node ds. record_sample pkg version label deps sources = JObj node
      \<and> dget node ''link_deps'' = JList (map JStr ds)" for pkg version label deps sources
    by (auto simp: record_sample_def dget_Cons)
  then show "\<exists>node deps. v = JObj node \<and> dget node ''link_deps'' = JList (map JStr deps)"
    if "(repo, v) \<in> set packages_sample" using that by (auto simp: packages_sample_def)
qed

theorem remove_undoes_add_witness:
  "\<exists>added lock2. add_lock env_sample added_sample True (parse ''a.lock.json'') lock_sample = Inr (Some added)
    \<and> remove_lock (repo_name (package_name (new_package added_sample))) False True (parse ''a.lock.json'') added
        = Inr (Some lock2)
    \<and> packages_of lock2 = sort_key fst packages_sample"
proof -
  obtain added where a: "add_lock env_sample added_sample True (parse ''a.lock.json'') lock_sample = Inr (Some added)"
    using sample_addition by blast
  have c: "lock_closed lock_sample" "rooted lock_sample"
    using files_sample_consistent [of "parse ''/repo/locks/a.lock.json''"]
    by (simp_all add: consistent_def files_sample_def)
  have "packages_sample \<noteq> []" by (simp add: packages_sample_def)
  then have r: "dget lock_sample ''root'' \<in> JStr ` keys_of lock_sample"
    using c(2) by (simp add: rooted_def sample_records(1))
  have t: "\<exists>node deps. v = JObj node \<and> dget node ''link_deps'' = JList (map JStr deps)"
    if "(repo, v) \<in> set (packages_of lock_sample)" for repo v
    using sample_records(2) that unfolding sample_records(1) .
  have "\<exists>lock2. remove_lock (repo_name (package_name (new_package added_sample))) False True (parse ''a.lock.json'') added
      = Inr (Some lock2) \<and> packages_of lock2 = sort_key fst (packages_of lock_sample)
    \<and> (\<forall>k. k \<noteq> ''packages'' \<longrightarrow> dget lock2 k = dget lock_sample k)"
    by (rule remove_undoes_add [OF a _ c(1) r]) (rule t)
  then obtain lock2 where "remove_lock (repo_name (package_name (new_package added_sample))) False True (parse ''a.lock.json'') added
      = Inr (Some lock2)" "packages_of lock2 = sort_key fst (packages_of lock_sample)" by blast
  then show ?thesis using a by (intro exI conjI) (simp_all only: sample_records(1))
qed

text \<open>A record whose dependencies are \<^verbatim>\<open>null\<close> ends the check with an exception, not with a line of the report.\<close>

lemma null_link_deps_raise:
  "validate_lock env_sample policy_sample (parse ''a.lock.json'') (Doc (JObj
     [(''schema_version'', JInt 1), (''root'', JStr ''vaso_xz''),
      (''packages'', JObj [(''vaso_xz'', JObj [(''package'', JStr ''xz''), (''version'', JStr ''5''), (''link_deps'', JNull)])])]))
   = Inl TypeError"
  by code_simp

end
