(* ===== verification/BuildReport.thy ===== *)
theory BuildReport
  imports PosixPath Effects
begin

text \<open>
  \<^verbatim>\<open>foundry/tools/build_report.py\<close>: which report of an estate is the selected one, the checks of a
  report that is read back, and the pointer that is published beside it. A file is absent, not
  JSON, or a JSON value.
\<close>

section \<open>Reading a report\<close>

definition report_paths :: "ppath \<Rightarrow> dict" where
  "report_paths dir =
     [(''summary_path'', JStr (path_text (slash dir ''summary.json''))),
      (''events_path'', JStr (path_text (slash dir ''events.jsonl''))),
      (''result_path'', JStr (path_text (slash dir ''result.txt'')))]"

definition update_all :: "dict \<Rightarrow> dict \<Rightarrow> dict" where
  \<comment> \<open>\<^verbatim>\<open>d.update(new)\<close>\<close>
  "update_all new d = foldl (\<lambda>d (k, v). dput k v d) d new"

definition read_report_json :: "json option option \<Rightarrow> dict res" where
  "read_report_json content =
     (case content of
        None \<Rightarrow> Inl OSError
      | Some None \<Rightarrow> Inl (ValueError ''{}: invalid JSON'' [])
      | Some (Some (JObj d)) \<Rightarrow> Inr d
      | Some (Some v) \<Rightarrow> Inl (ValueError ''{}: expected a JSON object'' []))"

definition object_list :: "string \<Rightarrow> json \<Rightarrow> dict list res" where
  "object_list field value =
     (case value of
        JList xs \<Rightarrow>
          mapE (\<lambda>(i, v). case v of
                  JObj d \<Rightarrow> Inr d
                | _ \<Rightarrow> Inl (ValueError ''{}: {}[{}]: expected an object'' [JStr field, JInt (int i)]))
            (enumerate 0 xs)
      | _ \<Rightarrow> Inl (ValueError ''{}: {}: expected a list of objects'' [JStr field]))"

definition field_list :: "dict \<Rightarrow> string \<Rightarrow> json" where
  \<comment> \<open>\<^verbatim>\<open>d.get(field, [])\<close>\<close>
  "field_list d field = (case map_of d field of None \<Rightarrow> JList [] | Some v \<Rightarrow> v)"

definition read_summary :: "json option option \<Rightarrow> dict res" where
  "read_summary content =
     bindE (read_report_json content) (\<lambda>report.
     bindE (object_list ''stages'' (field_list report ''stages'')) (\<lambda>_.
     bindE (object_list ''variants'' (field_list report ''variants'')) (\<lambda>variants.
     bindE (mapE (\<lambda>(i, v). object_list ''artifacts'' (field_list v ''artifacts'')) (enumerate 0 variants)) (\<lambda>_.
     Inr report))))"

section \<open>The selected report\<close>

text \<open>
  \<open>legacy\<close> are the summaries below the state directory, the newest first; \<open>resolve\<close> answers \<open>None\<close>
  where the path cannot be resolved.
\<close>

record report_view =
  pointer_file :: "json option option"
  legacy :: "ppath list"
  resolve_path :: "ppath \<Rightarrow> ppath option"
  report_file :: "ppath \<Rightarrow> json option option"

definition summary_candidates :: "report_view \<Rightarrow> ppath list res" where
  "summary_candidates view =
     (case pointer_file view of
        None \<Rightarrow> Inr (legacy view)
      | content \<Rightarrow>
          bindE (read_report_json content) (\<lambda>d.
          case dget d ''summary'' of
            JStr s \<Rightarrow>
              if strip s = [] then Inl (ValueError ''{}: expected a nonempty summary path'' [])
              else Inr (parse s # legacy view)
          | _ \<Rightarrow> Inl (ValueError ''{}: expected a nonempty summary path'' [])))"

fun first_report :: "report_view \<Rightarrow> ppath list \<Rightarrow> ppath list \<Rightarrow> (dict \<times> ppath) option res" where
  "first_report view seen [] = Inr None"
| "first_report view seen (p # ps) =
     (case resolve_path view p of
        None \<Rightarrow> first_report view seen ps
      | Some resolved \<Rightarrow>
          if resolved \<in> set seen \<or> report_file view resolved = None then first_report view seen ps
          else
            bindE (read_summary (report_file view resolved)) (\<lambda>report.
            let report' = dput ''summary_path'' (JStr (path_text resolved))
                            (update_all (report_paths (parent resolved)) report)
            in Inr (Some (if map_of report' ''run_id'' = None
                          then dput ''run_id'' (JStr (final_name (parent resolved))) report' else report', resolved))))"

definition latest_report :: "report_view \<Rightarrow> (dict \<times> ppath) option res" where
  "latest_report view = bindE (summary_candidates view) (first_report view [])"

section \<open>The pointer\<close>

definition count_status :: "(json \<Rightarrow> string) \<Rightarrow> (string \<times> int) list \<Rightarrow> dict \<Rightarrow> (string \<times> int) list" where
  "count_status str counts variant =
     (let status = (case map_of variant ''status'' of None \<Rightarrow> ''unknown'' | Some (JStr s) \<Rightarrow> s | Some v \<Rightarrow> str v);
          n = (case map_of counts status of None \<Rightarrow> 0 | Some n \<Rightarrow> n)
      in AList.update status (n + 1) counts)"

definition latest_pointer :: "(json \<Rightarrow> string) \<Rightarrow> dict \<Rightarrow> dict" where
  "latest_pointer str report =
     (let counts = (case field_list report ''variants'' of
            JList vs \<Rightarrow> foldl (count_status str) [] (List.map_filter (\<lambda>v. case v of JObj d \<Rightarrow> Some d | _ \<Rightarrow> None) vs)
          | _ \<Rightarrow> [])
      in [(''schema_version'', JInt 1), (''run_id'', dget report ''run_id''), (''status'', dget report ''status''),
          (''phase'', dget report ''phase''), (''updated_at'', dget report ''updated_at''),
          (''current_stage'', dget report ''current_stage''),
          (''variant_counts'', JObj (map (\<lambda>(k, n). (k, JInt n)) counts)),
          (''summary'', dget report ''summary_path''), (''result'', dget report ''result_path'')])"

section \<open>A run that stopped\<close>

text \<open>
  \<^verbatim>\<open>abandon_stale_run\<close> of \<^verbatim>\<open>foundry/tools/build_session.py\<close>, called when the estate lock is free.
  \<open>tail\<close> is the excerpt of a log.
\<close>

definition abandon_stage :: "(string \<Rightarrow> json) \<Rightarrow> string \<Rightarrow> json \<Rightarrow> json res" where
  "abandon_stage tail now v =
     (case v of
        JObj stage \<Rightarrow>
          if dget stage ''status'' = JStr ''running'' then
            let stage' = update_all [(''status'', JStr ''abandoned''), (''finished_at'', JStr now)] stage in
            (if \<not> truthy (dget stage' ''log'') then Inr (JObj stage')
             else (case dget stage' ''log'' of
                     JStr lg \<Rightarrow> Inr (JObj (dput ''tail'' (tail lg) stage'))
                   | _ \<Rightarrow> Inl TypeError))
          else Inr v
      | _ \<Rightarrow> Inr v)"

definition abandon_variant :: "string \<Rightarrow> json \<Rightarrow> json" where
  "abandon_variant now v =
     (case v of
        JObj variant \<Rightarrow>
          if dget variant ''status'' = JStr ''running''
          then JObj (update_all [(''status'', JStr ''abandoned''), (''finished_at'', JStr now)] variant) else v
      | _ \<Rightarrow> v)"

definition elements_of :: "dict \<Rightarrow> string \<Rightarrow> json list" where
  "elements_of report field = (case field_list report field of JList vs \<Rightarrow> vs | _ \<Rightarrow> [])"

definition put_list :: "string \<Rightarrow> json list \<Rightarrow> dict \<Rightarrow> dict" where
  \<comment> \<open>the elements of a list field were changed in place\<close>
  "put_list field vs report = (if map_of report field = None then report else dput field (JList vs) report)"

text \<open>The report as it is written to the summary, when the selected run was still running.\<close>

definition abandon_stale_run ::
  "(string \<Rightarrow> json) \<Rightarrow> string \<Rightarrow> ppath \<Rightarrow> report_view \<Rightarrow> dict option res" where
  "abandon_stale_run tail now state_root view =
     bindE (latest_report view) (\<lambda>loaded.
     case loaded of
       None \<Rightarrow> Inr None
     | Some (report, summary) \<Rightarrow>
         if dget report ''status'' \<noteq> JStr ''running'' then Inr None
         else if \<not> relative_to (parent summary) state_root
         then Inl (RuntimeError ''refusing stale summary outside state root: {}'' [JStr (path_text summary)])
         else
           bindE (mapE (abandon_stage tail now) (elements_of report ''stages'')) (\<lambda>stages.
           Inr (Some
             (dput ''summary_path'' (JStr (path_text summary))
               (update_all (report_paths (parent summary))
                 (update_all [(''status'', JStr ''abandoned''), (''phase'', JStr ''complete''), (''current_stage'', JNull),
                     (''finished_at'', JStr now), (''updated_at'', JStr now),
                     (''error'', JStr ''previous runner stopped without recording a terminal state'')]
                   (put_list ''variants'' (map (abandon_variant now) (elements_of report ''variants''))
                     (put_list ''stages'' stages report))))))))"

end
