(* ===== verification/BuildSession.thy ===== *)
theory BuildSession
  imports BuildReport
begin

text \<open>
  \<^verbatim>\<open>foundry/tools/build_session.py\<close>: the run record of a build, its stages and variants, and how they
  open and close. The state is the session together with the machine. A clock answers the n-th
  reading of the time; durations are rounded by \<open>round3\<close>. Console output is not modelled.

  Exceptions that are not among the library's constructors are \<open>LibError\<close> with the class name;
  \<^verbatim>\<open>StageFailure\<close> is a \<^verbatim>\<open>RuntimeError\<close>, \<^verbatim>\<open>InterruptedError\<close> an \<^verbatim>\<open>OSError\<close>.
\<close>

section \<open>Source identity\<close>

datatype tree_entry =
    LinkTo string
  | RegularFile string string
    \<comment> \<open>the permission bits in decimal, and the bytes of the digest\<close>
  | Missing

definition nul :: char where
  "nul = char_of (0::nat)"

definition entry_bytes :: "tree_entry \<Rightarrow> string" where
  "entry_bytes e =
     (case e of
        LinkTo target \<Rightarrow> ''link'' @ [nul] @ target
      | RegularFile mode d \<Rightarrow> mode @ [nul] @ d
      | Missing \<Rightarrow> ''missing'')"

text \<open>
  A run of a command: what each wait of the polling loop sees (the signals that arrive at the runner
  with their times, the time after the wait, the size and the last line of the log), the signals that
  arrive during the last wait, and the exit code.
\<close>

record turn =
  arrived :: "(string \<times> rat) list"
  poll_time :: rat
  turn_size :: int
  turn_line :: "string option"

record process_run =
  turns :: "turn list"
  last_arrived :: "(string \<times> rat) list"
  process_pid :: int
  exit_code :: int

text \<open>\<open>ls_files\<close> is \<^verbatim>\<open>git ls-files -z --cached --others --exclude-standard\<close>.\<close>

record 'w build_os =
  ls_files :: "'w \<Rightarrow> string res"
  entry_at :: "'w \<Rightarrow> string \<Rightarrow> tree_entry"
  sha256 :: "string \<Rightarrow> string"
  dir_first :: "'w \<Rightarrow> ppath \<Rightarrow> string option"
    \<comment> \<open>the first entry of a directory; \<open>None\<close> when it is empty or no directory\<close>
  launch :: "(string \<times> string) list \<Rightarrow> dict \<Rightarrow> 'w \<Rightarrow> (string + process_run) \<times> 'w"
    \<comment> \<open>the command of a stage, with what is set in its environment: the message of an
      \<^verbatim>\<open>OSError\<close>, or its run\<close>
  poll_interval :: rat
  log_tail :: "'w \<Rightarrow> string \<Rightarrow> nat \<Rightarrow> string list"
  log_size :: "'w \<Rightarrow> string \<Rightarrow> int option"
  utc_at :: "nat \<Rightarrow> string"
  mono_at :: "nat \<Rightarrow> rat"
  round3 :: "rat \<Rightarrow> rat"

definition source_identity :: "'w build_os \<Rightarrow> 'w \<Rightarrow> string res" where
  "source_identity os w =
     bindE (ls_files os w) (\<lambda>out.
     Inr (sha256 os (concat (map (\<lambda>raw. raw @ [nul] @ entry_bytes (entry_at os w raw))
       (sort (remdups (filter (\<lambda>n. n \<noteq> []) (split_on nul out))))))))"

section \<open>The plan of a run\<close>

definition output_base :: "ppath \<Rightarrow> string \<Rightarrow> string \<Rightarrow> ppath" where
  "output_base estate line profile =
     joinpath estate (parse (''vaso/lines/'' @ line @ ''/cache/bazel/output-base-'' @ profile))"

definition disk_cache :: "ppath \<Rightarrow> string \<Rightarrow> ppath" where
  "disk_cache estate line = joinpath estate (parse (''vaso/lines/'' @ line @ ''/cache/bazel/disk-cache''))"

definition planned_variant :: "ppath \<Rightarrow> ppath \<Rightarrow> (string \<Rightarrow> string list) \<Rightarrow> string \<times> string \<Rightarrow> dict" where
  "planned_variant estate dir targets lp =
     (case lp of (line, profile) \<Rightarrow>
        [(''line'', JStr line), (''profile'', JStr profile), (''status'', JStr ''pending''),
         (''targets'', JList (map JStr (targets profile))),
         (''build_events'', JStr (path_text (slash dir (line @ ''-'' @ profile @ ''-events.jsonl'')))),
         (''output_base'', JStr (path_text (output_base estate line profile))), (''artifacts'', JList [])])"

definition planned_variants ::
  "ppath \<Rightarrow> ppath \<Rightarrow> string list \<Rightarrow> string list \<Rightarrow> (string \<Rightarrow> string list) \<Rightarrow> dict list" where
  "planned_variants estate dir lines profiles targets =
     map (planned_variant estate dir targets) (List.product lines profiles)"

definition cache_start_state :: "'w build_os \<Rightarrow> 'w \<Rightarrow> ppath \<Rightarrow> string list \<Rightarrow> string list \<Rightarrow> dict" where
  "cache_start_state os w estate lines profiles =
     (let selected = sort (remdups (map (\<lambda>(l, p). output_base estate l p) (List.product lines profiles)
                                    @ map (disk_cache estate) lines));
          populated = filter (\<lambda>p. dir_first os w p \<noteq> None) selected
      in [(''mode'', JStr (if populated \<noteq> [] then ''warm'' else ''cold'')),
          (''selected_paths'', JList (map (JStr \<circ> path_text) selected)),
          (''populated_paths'', JList (map (JStr \<circ> path_text) populated))])"

section \<open>Sessions\<close>

text \<open>
  The report is \<open>head\<close> with the lists of stages and variants; \<open>saved\<close> is what \<^verbatim>\<open>summary.json\<close> holds,
  \<open>result\<close> the report that \<^verbatim>\<open>result.txt\<close> renders.
\<close>

type_synonym report = "dict \<times> dict list \<times> dict list"

record session =
  head :: dict
  stages :: "dict list"
  variants :: "dict list"
  events :: "dict list"
  saved :: "report option"
  result :: "report option"
  readings :: nat
  started :: rat
  identity :: string
  estate_dir :: ppath
  run_dir :: ppath

definition report_of :: "session \<Rightarrow> report" where
  "report_of s = (head s, stages s, variants s)"

definition report_json :: "report \<Rightarrow> dict" where
  "report_json r =
     (case r of (h, ss, vs) \<Rightarrow> h @ [(''stages'', JList (map JObj ss)), (''variants'', JList (map JObj vs))])"

definition utc_now :: "'w build_os \<Rightarrow> session \<Rightarrow> string \<times> session" where
  "utc_now os s = (utc_at os (readings s), s\<lparr>readings := Suc (readings s)\<rparr>)"

definition monotonic :: "'w build_os \<Rightarrow> session \<Rightarrow> rat \<times> session" where
  "monotonic os s = (mono_at os (readings s), s\<lparr>readings := Suc (readings s)\<rparr>)"

definition seconds :: "'w build_os \<Rightarrow> rat \<Rightarrow> rat \<Rightarrow> json" where
  \<comment> \<open>\<^verbatim>\<open>round(max(0.0, now - start), 3)\<close>\<close>
  "seconds os now start = JFloat (Fin (round3 os (max 0 (now - start))))"

definition event :: "'w build_os \<Rightarrow> string \<Rightarrow> dict \<Rightarrow> session \<Rightarrow> session" where
  "event os name extra s =
     (case utc_now os s of (ts, s1) \<Rightarrow>
        s1\<lparr>events := events s1 @
          [[(''sequence'', JInt (int (length (events s1)) + 1)), (''at'', JStr ts), (''event'', JStr name)] @ extra]\<rparr>)"

definition save :: "'w build_os \<Rightarrow> session \<Rightarrow> session" where
  "save os s =
     (case utc_now os s of (ts, s1) \<Rightarrow>
      let s2 = s1\<lparr>head := dput ''updated_at'' (JStr ts) (head s1)\<rparr>;
          s3 = (if map_of (head s2) ''finished_at'' \<noteq> None then s2
                else case monotonic os s2 of (now, s') \<Rightarrow>
                  s'\<lparr>head := dput ''duration_seconds'' (seconds os now (started s')) (head s')\<rparr>)
      in s3\<lparr>saved := Some (report_of s3)\<rparr>)"

definition set_phase :: "'w build_os \<Rightarrow> string \<Rightarrow> session \<Rightarrow> session" where
  "set_phase os phase s =
     (if dget (head s) ''phase'' = JStr phase then s
      else save os (event os ''phase_changed'' [(''phase'', JStr phase)]
             (s\<lparr>head := dput ''phase'' (JStr phase) (head s)\<rparr>)))"

text \<open>A session on a machine.\<close>

type_synonym ('w, 'a) sact = "(session \<times> 'w, 'a) act"

definition doS :: "(session \<Rightarrow> session) \<Rightarrow> ('w, unit) sact" where
  "doS f = (\<lambda>(s, w). (Inr (), (f s, w)))"

section \<open>Variants\<close>

definition variant_at :: "string \<Rightarrow> string \<Rightarrow> dict list \<Rightarrow> nat option" where
  "variant_at line profile vs =
     (case List.find (\<lambda>i. dget (vs ! i) ''line'' = JStr line \<and> dget (vs ! i) ''profile'' = JStr profile) [0..<length vs] of
        None \<Rightarrow> None | Some i \<Rightarrow> Some i)"

definition update_variant :: "nat \<Rightarrow> dict \<Rightarrow> session \<Rightarrow> session" where
  "update_variant i new s = s\<lparr>variants := (variants s)[i := update_all new (variants s ! i)]\<rparr>"

definition interruption :: "pyexn \<Rightarrow> bool" where
  "interruption e = (e = LibError ''InterruptedError'' \<or> e = LibError ''KeyboardInterrupt'')"

definition caught :: "pyexn \<Rightarrow> bool" where
  \<comment> \<open>\<^verbatim>\<open>except (OSError, ValueError, RuntimeError, KeyboardInterrupt)\<close>\<close>
  "caught e =
     (case e of
        OSError \<Rightarrow> True
      | ValueError m a \<Rightarrow> True
      | RuntimeError m a \<Rightarrow> True
      | RecursionError \<Rightarrow> True
      | _ \<Rightarrow> interruption e)"

definition finish_variant :: "'w build_os \<Rightarrow> (pyexn \<Rightarrow> string) \<Rightarrow> nat \<Rightarrow> rat \<Rightarrow> pyexn option \<Rightarrow> session \<Rightarrow> session" where
  "finish_variant os show_error i start error s =
     (let status = (case error of None \<Rightarrow> ''built''
                      | Some e \<Rightarrow> if interruption e then ''interrupted'' else ''failed'');
          s1 = (case error of None \<Rightarrow> s | Some e \<Rightarrow> update_variant i [(''error'', JStr (show_error e))] s)
      in case utc_now os s1 of (ts, s2) \<Rightarrow> case monotonic os s2 of (now, s3) \<Rightarrow>
      let s4 = update_variant i [(''status'', JStr status), (''finished_at'', JStr ts), (''duration_seconds'', seconds os now start)] s3;
          s5 = (if stages s4 \<noteq> [] then update_variant i [(''log'', dget (last (stages s4)) ''log'')] s4 else s4);
          v = variants s5 ! i;
          extra = (case error of
              None \<Rightarrow> [(''artifacts'', JInt (case dget v ''artifacts'' of JList xs \<Rightarrow> int (length xs) | _ \<Rightarrow> 0))]
            | Some e \<Rightarrow> [])
      in save os (event os ''variant_finished''
           ([(''line'', dget v ''line''), (''profile'', dget v ''profile''), (''status'', JStr status)] @ extra) s5))"

definition with_variant ::
  "'w build_os \<Rightarrow> (pyexn \<Rightarrow> string) \<Rightarrow> string \<Rightarrow> string \<Rightarrow> (nat \<Rightarrow> ('w, unit) sact) \<Rightarrow> ('w, unit) sact" where
  "with_variant os show_error line profile body = (\<lambda>(s, w).
     case variant_at line profile (variants s) of
       None \<Rightarrow> (Inl (RuntimeError ''generator raised StopIteration'' []), (s, w))
     | Some i \<Rightarrow>
         (case monotonic os s of (start, s1) \<Rightarrow> case utc_now os s1 of (ts, s2) \<Rightarrow>
          let s3 = save os (event os ''variant_started'' [(''line'', JStr line), (''profile'', JStr profile)]
                     (update_variant i [(''status'', JStr ''running''), (''started_at'', JStr ts)] s2))
          in case body i (s3, w) of
               (Inr u, (s4, w')) \<Rightarrow> (Inr (), (finish_variant os show_error i start None s4, w'))
             | (Inl e, (s4, w')) \<Rightarrow>
                 (Inl e, (if caught e then finish_variant os show_error i start (Some e) s4 else s4, w'))))"

section \<open>The end of a run\<close>

definition close_variants :: "string \<Rightarrow> string \<Rightarrow> dict list \<Rightarrow> dict list" where
  "close_variants status now vs =
     (if status = ''prepared'' then
        map (\<lambda>v. if dget v ''status'' = JStr ''pending'' then dput ''status'' (JStr ''skipped'') v else v) vs
      else if status = ''failed'' \<or> status = ''interrupted'' then
        map (\<lambda>v. if dget v ''status'' = JStr ''running''
                 then dput ''finished_at'' (JStr now) (dput ''status'' (JStr status) v) else v) vs
      else vs)"

definition finish :: "'w build_os \<Rightarrow> string \<Rightarrow> string option \<Rightarrow> session \<Rightarrow> session" where
  "finish os status error s =
     (case utc_now os s of (now, s1) \<Rightarrow> case monotonic os s1 of (t, s2) \<Rightarrow>
      let s3 = s2\<lparr>variants := close_variants status now (variants s2),
                  head := update_all [(''status'', JStr status), (''phase'', JStr ''complete''), (''current_stage'', JNull),
                    (''finished_at'', JStr now), (''duration_seconds'', seconds os t (started s2))] (head s2)\<rparr>;
          s4 = (case error of Some (c # cs) \<Rightarrow> s3\<lparr>head := dput ''error'' (JStr (c # cs)) (head s3)\<rparr> | _ \<Rightarrow> s3);
          s5 = save os (event os ''run_finished'' [(''status'', JStr status),
                 (''error'', case error of None \<Rightarrow> JNull | Some e \<Rightarrow> JStr e)] s4)
      in s5\<lparr>result := Some (report_of s5)\<rparr>)"

section \<open>Stages\<close>

definition check_source :: "'w build_os \<Rightarrow> ('w, unit) sact" where
  "check_source os = (\<lambda>(s, w).
     (bindE (source_identity os w) (\<lambda>now.
        if now \<noteq> identity s
        then Inl (RuntimeError ''checkout changed during execution; stop and restart with a fixed checkout'' [])
        else Inr ()),
      (s, w)))"

definition three_digits :: "nat \<Rightarrow> string" where
  \<comment> \<open>\<^verbatim>\<open>f"{n:03d}"\<close>\<close>
  "three_digits n = (let d = string_of_nat n in replicate (3 - length d) (CHR ''0'') @ d)"

definition stage_env :: "ppath \<Rightarrow> string \<Rightarrow> string \<Rightarrow> (string \<times> string) list" where
  "stage_env estate line profile =
     [(''VASO_ESTATE_ROOT'', path_text estate), (''VASO_CUDA_LINE'', line), (''VASO_PROFILE'', profile),
      (''VASO_AGENT'', ''build-variants''), (''VASO_GPUS'', ''0''),
      (''VASO_BAZEL_OB'', path_text (output_base estate line profile)),
      (''VASO_BAZEL_DISK_CACHE'', path_text (disk_cache estate line))]"

definition stage_entry :: "session \<Rightarrow> string \<Rightarrow> string list \<Rightarrow> string \<Rightarrow> string \<Rightarrow> string \<Rightarrow> dict" where
  "stage_entry s name command line profile ts =
     [(''name'', JStr name), (''command'', JList (map JStr command)), (''line'', JStr line), (''profile'', JStr profile),
      (''log'', JStr (path_text (slash (run_dir s) (three_digits (length (stages s) + 1) @ ''-'' @ name @ ''.log'')))),
      (''status'', JStr ''running''), (''started_at'', JStr ts), (''duration_seconds'', JFloat (Fin 0)), (''log_bytes'', JInt 0)]"

definition open_stage :: "'w build_os \<Rightarrow> string \<Rightarrow> dict \<Rightarrow> session \<Rightarrow> session" where
  "open_stage os name entry s =
     save os (event os ''stage_started''
       [(''stage'', JStr name), (''line'', dget entry ''line''), (''profile'', dget entry ''profile''), (''log'', dget entry ''log'')]
       (s\<lparr>stages := stages s @ [entry], head := dput ''current_stage'' (JStr name) (head s)\<rparr>))"

text \<open>The polling loop of \<^verbatim>\<open>_execute\<close>, with the signals that it sends to the process group.\<close>

definition CANCEL_GRACE_SECONDS :: rat where
  "CANCEL_GRACE_SECONDS = 15"

record drain =
  deadline :: "rat option"
  sent :: "string list"
  next_update :: rat

definition forward :: "drain \<Rightarrow> string \<times> rat \<Rightarrow> drain" where
  "forward d st =
     d\<lparr>deadline := (case deadline d of None \<Rightarrow> Some (snd st + CANCEL_GRACE_SECONDS) | Some t \<Rightarrow> Some t),
       sent := sent d @ [fst st]\<rparr>"

definition kill_group :: "drain \<Rightarrow> drain" where
  "kill_group d = d\<lparr>sent := sent d @ [''SIGKILL'']\<rparr>"

definition update_stage :: "dict \<Rightarrow> session \<Rightarrow> session" where
  \<comment> \<open>of the stage that runs, the last one\<close>
  "update_stage new s = s\<lparr>stages := butlast (stages s) @ [update_all new (last (stages s))]\<rparr>"

definition poll_turn :: "'w build_os \<Rightarrow> rat \<Rightarrow> drain \<times> session \<Rightarrow> turn \<Rightarrow> drain \<times> session" where
  "poll_turn os start ds t =
     (case ds of (d, s) \<Rightarrow>
      let d1 = foldl forward d (arrived t);
          d2 = (case deadline d1 of
                  Some limit \<Rightarrow> if limit \<le> poll_time t then kill_group d1 else d1
                | None \<Rightarrow> d1)
      in if poll_time t < next_update d2 then (d2, s)
         else (d2\<lparr>next_update := poll_time t + max (1 / 10) (poll_interval os)\<rparr>,
               save os (update_stage
                 [(''duration_seconds'', seconds os (poll_time t) start), (''log_bytes'', JInt (turn_size t)),
                  (''progress'', JStr (case turn_line t of None \<Rightarrow> ''working'' | Some l \<Rightarrow> l))] s)))"

definition execute_process ::
  "'w build_os \<Rightarrow> rat \<Rightarrow> process_run \<Rightarrow> session \<Rightarrow> (int \<times> bool \<times> string list) \<times> session" where
  "execute_process os start p s =
     (case monotonic os (save os (update_stage [(''pid'', JInt (process_pid p))] s)) of (now, s1) \<Rightarrow>
      case foldl (poll_turn os start)
             (\<lparr>deadline = None, sent = [], next_update = now + max (1 / 10) (poll_interval os)\<rparr>, s1) (turns p) of
        (d, s2) \<Rightarrow>
          let d' = foldl forward d (last_arrived p);
              interrupted = (deadline d' \<noteq> None);
              d'' = (if interrupted then kill_group d' else d')
          in ((exit_code p, interrupted, sent d''), update_stage [(''returncode'', JInt (exit_code p))] s2))"

definition execute ::
  "'w build_os \<Rightarrow> rat \<Rightarrow> string + process_run \<Rightarrow> session \<Rightarrow> (string + int \<times> bool) \<times> session" where
  "execute os start run s =
     (case run of
        Inl msg \<Rightarrow> (Inl msg, s)
      | Inr p \<Rightarrow> (case execute_process os start p s of ((rc, interrupted, signals), s') \<Rightarrow> (Inr (rc, interrupted), s')))"

definition stage_status :: "string + int \<times> bool \<Rightarrow> string" where
  "stage_status outcome =
     (case outcome of
        Inl msg \<Rightarrow> ''failed''
      | Inr (rc, interrupted) \<Rightarrow>
          if interrupted \<or> rc < 0 then ''interrupted'' else if rc = 0 then ''passed'' else ''failed'')"

definition close_stage ::
  "'w build_os \<Rightarrow> 'w \<Rightarrow> rat \<Rightarrow> string + int \<times> bool \<Rightarrow> session \<Rightarrow> session" where
  "close_stage os w start outcome s =
     (let status = stage_status outcome;
          entry = last (stages s);
          lg = (case dget entry ''log'' of JStr l \<Rightarrow> l | _ \<Rightarrow> []);
          excerpt = log_tail os w lg (if status = ''passed'' then 1 else 8);
          rc = (case outcome of Inl msg \<Rightarrow> dget entry ''returncode'' | Inr (rc, i) \<Rightarrow> JInt rc);
          s1 = (case outcome of Inl msg \<Rightarrow> update_stage [(''error'', JStr msg)] s | Inr ri \<Rightarrow> s)
      in case utc_now os s1 of (ts, s2) \<Rightarrow> case monotonic os s2 of (now, s3) \<Rightarrow>
      let s4 = update_stage
            ([(''returncode'', rc), (''status'', JStr status), (''finished_at'', JStr ts),
              (''duration_seconds'', seconds os now start),
              (''log_bytes'', JInt (case log_size os w lg of Some n \<Rightarrow> n | None \<Rightarrow> 0)),
              (''tail'', JList (map JStr excerpt))]
             @ (if excerpt \<noteq> [] then [(''progress'', JStr (last excerpt))] else [])) s3;
          closed = last (stages s4)
      in save os (event os ''stage_finished''
           [(''stage'', dget closed ''name''), (''status'', JStr status), (''returncode'', rc), (''error'', dget closed ''error''),
            (''duration_seconds'', dget closed ''duration_seconds''), (''log'', dget closed ''log'')]
           (s4\<lparr>head := dput ''current_stage'' JNull (head s4)\<rparr>)))"

definition stage ::
  "'w build_os \<Rightarrow> string \<Rightarrow> string list \<Rightarrow> string \<Rightarrow> string \<Rightarrow> ('w, unit) sact" where
  "stage os name command line profile =
     bindA (check_source os) (\<lambda>_. (\<lambda>(s, w).
       case utc_now os s of (ts, s1) \<Rightarrow> case monotonic os s1 of (start, s2) \<Rightarrow>
       let entry = stage_entry s2 name command line profile ts in
       case launch os (stage_env (estate_dir s2) line profile) entry w of (run, w') \<Rightarrow>
       case execute os start run (open_stage os name entry s2) of (outcome, s3) \<Rightarrow>
       let s4 = close_stage os w' start outcome s3; status = stage_status outcome in
       if status = ''interrupted'' then (Inl (LibError ''InterruptedError''), (s4, w'))
       else if status = ''failed''
       then (Inl (RuntimeError ''StageFailure: {} failed; see {}'' [JStr name, dget entry ''log'']), (s4, w'))
       else check_source os (s4, w')))"

section \<open>Opening a session\<close>

definition open_session ::
  "'w build_os \<Rightarrow> 'w \<Rightarrow> ppath \<Rightarrow> string \<Rightarrow> string list \<Rightarrow> string list \<Rightarrow> (string \<Rightarrow> string list) \<Rightarrow> int \<Rightarrow> string \<Rightarrow> session res" where
  "open_session os w estate run_id lines profiles targets pid console_mode =
     bindE (source_identity os w) (\<lambda>ident.
     let dir = slash (joinpath estate (parse ''agents/build-variants'')) run_id;
         s = \<lparr>head =
               [(''schema_version'', JInt 2), (''run_id'', JStr run_id), (''status'', JStr ''running''), (''phase'', JStr ''starting''),
                (''pid'', JInt pid), (''started_at'', JStr (utc_at os 1)), (''updated_at'', JStr (utc_at os 2)),
                (''duration_seconds'', JFloat (Fin 0)), (''lines'', JList (map JStr lines)),
                (''profiles'', JList (map JStr profiles)), (''source_identity'', JStr ident),
                (''estate_root'', JStr (path_text estate))]
               @ report_paths dir
               @ [(''console_mode'', JStr console_mode), (''cache_start'', JObj (cache_start_state os w estate lines profiles)),
                  (''current_stage'', JNull), (''qualification'', JStr ''not performed'')],
              stages = [], variants = planned_variants estate dir lines profiles targets, events = [], saved = None,
              result = None, readings = 3, started = mono_at os 0, identity = ident, estate_dir = estate,
              run_dir = dir\<rparr>
     in Inr (save os (event os ''run_started''
          [(''lines'', JList (map JStr lines)), (''profiles'', JList (map JStr profiles))] s)))"

end
