(* ===== verification/BuildArtifacts.thy ===== *)
theory BuildArtifacts
  imports PosixPath Effects
begin

text \<open>
  \<^verbatim>\<open>foundry/tools/build_artifacts.py\<close> and \<^verbatim>\<open>build_selection.py\<close>: the release wheels that Bazel's build
  events name, and the checks of that inventory. A line of the event file is \<open>None\<close> when it is not JSON.
\<close>

section \<open>The selection\<close>

definition RELEASE_CUDA_LINES :: "string list" where
  "RELEASE_CUDA_LINES = [''cu129'', ''cu130'']"

definition PACKAGES :: "(string \<times> string list) list" where
  "PACKAGES = [(''torch'', [''pytorch'', ''torchvision'', ''torchaudio'', ''triton'']), (''jax'', [''jaxlib''])]"

definition release_target :: "string \<Rightarrow> string" where
  "release_target package =
     ''//native/'' @ package @ '':'' @ package @ ''_release_wheel'' @ (if package = ''jaxlib'' then ''s'' else [])"

definition TARGETS :: "(string \<times> string list) list" where
  "TARGETS = map (\<lambda>(profile, packages). (profile, map release_target packages)) PACKAGES"

definition build_token :: "string \<Rightarrow> string" where
  "build_token package =
     ''--//native/'' @ package @ '':token=build-native-'' @ (if package = ''jaxlib'' then ''llvm'' else package)"

definition TOKENS :: "(string \<times> string list) list" where
  "TOKENS = map (\<lambda>(profile, packages). (profile, map build_token packages)) PACKAGES"

section \<open>Checks of the inventory\<close>

record file_view =
  stat_size :: "ppath \<Rightarrow> int option"
    \<comment> \<open>\<^verbatim>\<open>path.stat().st_size\<close>, \<open>None\<close> for an \<^verbatim>\<open>OSError\<close>\<close>
  regular :: "ppath \<Rightarrow> bool"
    \<comment> \<open>\<^verbatim>\<open>path.is_file()\<close>\<close>

definition artifact_path :: "dict \<Rightarrow> ppath res" where
  \<comment> \<open>\<^verbatim>\<open>Path(artifact["path"])\<close>\<close>
  "artifact_path a = bindE (ditem a ''path'') (\<lambda>v. case v of JStr s \<Rightarrow> Inr (parse s) | _ \<Rightarrow> Inl TypeError)"

text \<open>A mismatch is its path, the recorded and the actual size.\<close>

definition size_mismatch :: "file_view \<Rightarrow> dict \<Rightarrow> (string \<times> json \<times> int) list res" where
  "size_mismatch fs a =
     (let expected = dget a ''size_bytes'' in
      if expected = JNull then Inr []
      else bindE (artifact_path a) (\<lambda>p.
           case stat_size fs p of
             None \<Rightarrow> Inl OSError
           | Some actual \<Rightarrow> Inr (if py_eq (JInt actual) expected then [] else [(path_text p, expected, actual)])))"

definition artifact_size_mismatches :: "file_view \<Rightarrow> dict list \<Rightarrow> (string \<times> json \<times> int) list res" where
  "artifact_size_mismatches fs artifacts = concatE (size_mismatch fs) artifacts"

definition execroot :: "ppath \<Rightarrow> ppath" where
  "execroot output_base = slash output_base ''execroot/_main''"

definition bin_relative :: "string list \<Rightarrow> string list" where
  "bin_relative ns =
     (if length ns > 3 \<and> ns ! 0 = ''bazel-out'' \<and> ns ! 2 = ''bin'' then drop 3 ns else ns)"

definition wheelhouses_of :: "ppath \<Rightarrow> dict \<Rightarrow> string list list res" where
  \<comment> \<open>the directories above the wheel, relative to the execution root or the output tree\<close>
  "wheelhouses_of output_base a =
     bindE (artifact_path a) (\<lambda>p.
     if relative_to p (execroot output_base)
     then (let ns = bin_relative (drop (length (names (execroot output_base))) (names p))
           in Inr (map (\<lambda>i. take i ns) [0..<length ns]))
     else Inl (ValueError ''{} is not in the subpath of {}'' [JStr (path_text p)]))"

definition split_target :: "string \<Rightarrow> (string \<times> string) res" where
  \<comment> \<open>\<^verbatim>\<open>package, name = target.removeprefix("//").split(":", 1)\<close>\<close>
  "split_target target =
     (let t = removeprefix target ''//'' in
      case find_first '':'' t of
        None \<Rightarrow> Inl (ValueError ''not enough values to unpack'' [])
      | Some i \<Rightarrow> Inr (take i t, drop (Suc i) t))"

definition target_house :: "string \<times> string \<Rightarrow> ppath" where
  "target_house pn = slash (parse (fst pn)) (snd pn @ ''_wheelhouse'')"

definition missing_wheel_targets :: "dict list \<Rightarrow> ppath \<Rightarrow> string list \<Rightarrow> string list res" where
  "missing_wheel_targets artifacts output_base targets =
     bindE (concatE (wheelhouses_of output_base) artifacts) (\<lambda>houses.
     concatE (\<lambda>target. bindE (split_target target) (\<lambda>pn.
       Inr (if target_house pn \<in> set (map (PPath Rel) houses) then [] else [target]))) targets)"

section \<open>Build events\<close>

definition wheelhouse_dir :: "string \<Rightarrow> bool" where
  \<comment> \<open>\<^verbatim>\<open>_RELEASE_WHEELHOUSE_SUFFIXES\<close>\<close>
  "wheelhouse_dir n = (endswith n ''_release_wheel_wheelhouse'' \<or> endswith n ''_release_wheels_wheelhouse'')"

definition event_files :: "json \<Rightarrow> json list res" where
  "event_files v =
     (case v of
        JObj ev \<Rightarrow>
          (case map_of ev ''namedSetOfFiles'' of
             None \<Rightarrow> Inr []
           | Some (JObj named) \<Rightarrow>
               (case map_of named ''files'' of
                  None \<Rightarrow> Inr []
                | Some (JList files) \<Rightarrow> Inr files
                | Some _ \<Rightarrow> Inl (ValueError ''expected a namedSetOfFiles.files list'' []))
           | Some _ \<Rightarrow> Inl (ValueError ''expected a namedSetOfFiles object'' []))
      | _ \<Rightarrow> Inl (ValueError ''expected an event object'' []))"

definition prefix_path :: "dict \<Rightarrow> ppath res" where
  \<comment> \<open>\<^verbatim>\<open>Path(*item.get("pathPrefix", []))\<close>\<close>
  "prefix_path d =
     (case map_of d ''pathPrefix'' of
        None \<Rightarrow> Inr (PPath Rel [])
      | Some (JList ps) \<Rightarrow>
          if list_all is_str ps
          then Inr (foldl (\<lambda>p v. case v of JStr s \<Rightarrow> slash p s | _ \<Rightarrow> p) (PPath Rel []) ps)
          else Inl (ValueError ''expected a release-wheel pathPrefix list of strings'' [])
      | Some _ \<Rightarrow> Inl (ValueError ''expected a release-wheel pathPrefix list of strings'' []))"

definition unsafe_path :: "ppath \<Rightarrow> bool" where
  "unsafe_path p = (absolute p \<or> ''..'' \<in> set (names p) \<or> char_of (0::nat) \<in> set (path_text p))"

definition wheel_file :: "json \<Rightarrow> (ppath \<times> dict) option res" where
  \<comment> \<open>one turn of the loop of \<^verbatim>\<open>_wheel_files\<close>\<close>
  "wheel_file item =
     (case item of
        JObj d \<Rightarrow>
          (case map_of d ''name'' of
             Some (JStr name) \<Rightarrow>
               if \<not> endswith name ''.whl'' then Inr None
               else bindE (prefix_path d) (\<lambda>pre.
                 let relative = slash pre name in
                 if unsafe_path relative
                 then Inl (ValueError ''unsafe Bazel artifact path: {}'' [JStr (path_text relative)])
                 else Inr (if list_ex wheelhouse_dir (butlast (names relative)) then Some (relative, d) else None))
           | _ \<Rightarrow> Inl (ValueError ''expected a named file object with a string name'' []))
      | _ \<Rightarrow> Inl (ValueError ''expected a named file object with a string name'' []))"

text \<open>The inventory while it is read: the artifacts by their path, and the lengths that were declared.\<close>

type_synonym inventory = "(string \<times> dict) list \<times> (string \<times> int) list"

definition declared_size ::
  "ppath \<Rightarrow> string \<Rightarrow> (string \<times> int) list \<Rightarrow> json \<Rightarrow> (int option \<times> (string \<times> int) list) res" where
  \<comment> \<open>the size, \<open>None\<close> when the file decides, and the declared lengths\<close>
  "declared_size relative key lengths v =
     (let finish = (\<lambda>sz.
        if sz < 0 then Inl (ValueError ''negative release-wheel length'' [])
        else if map_of lengths key \<noteq> None \<and> map_of lengths key \<noteq> Some sz
        then Inl (ValueError ''conflicting release-wheel length for {}'' [JStr (path_text relative)])
        else Inr (Some sz, AList.update key sz lengths))
      in case v of
        JNull \<Rightarrow> (case map_of lengths key of None \<Rightarrow> Inr (None, lengths) | Some n \<Rightarrow> finish n)
      | JInt n \<Rightarrow> finish n
      | JStr s \<Rightarrow> (case py_int s of Some n \<Rightarrow> finish n | None \<Rightarrow> Inl (ValueError ''invalid literal for int()'' []))
      | _ \<Rightarrow> Inl (ValueError ''invalid release-wheel length'' []))"

definition declared_digest :: "ppath \<Rightarrow> string \<Rightarrow> dict \<Rightarrow> string res" where
  "declared_digest relative known d =
     (case map_of d ''digest'' of
        None \<Rightarrow> Inr known
      | Some (JStr dg) \<Rightarrow>
          if dg \<noteq> [] \<and> known \<noteq> [] \<and> dg \<noteq> known
          then Inl (ValueError ''conflicting release-wheel digest for {}'' [JStr (path_text relative)])
          else Inr (if dg \<noteq> [] then dg else known)
      | Some _ \<Rightarrow> Inl (ValueError ''expected a release-wheel digest string'' []))"

definition known_digest :: "(string \<times> dict) list \<Rightarrow> string \<Rightarrow> string" where
  "known_digest artifacts key =
     (case map_of artifacts key of
        Some a \<Rightarrow> (case dget a ''digest'' of JStr s \<Rightarrow> s | _ \<Rightarrow> []) | None \<Rightarrow> [])"

definition record_wheel :: "file_view \<Rightarrow> ppath \<Rightarrow> inventory \<Rightarrow> ppath \<times> dict \<Rightarrow> inventory res" where
  "record_wheel fs output_base st rd =
     (case st of (artifacts, lengths) \<Rightarrow> case rd of (relative, d) \<Rightarrow>
      let host = joinpath (execroot output_base) relative; key = path_text relative in
      bindE (declared_size relative key lengths (dget d ''length'')) (\<lambda>(sz, lengths').
      bindE (declared_digest relative (known_digest artifacts key) d) (\<lambda>dg.
      Inr (AList.update key
        [(''name'', JStr (final_name relative)), (''path'', JStr (path_text host)),
         (''size_bytes'', JInt (case sz of Some n \<Rightarrow> n | None \<Rightarrow> (case stat_size fs host of Some n \<Rightarrow> n | None \<Rightarrow> 0))),
         (''digest'', JStr dg), (''exists'', JBool (regular fs host))] artifacts, lengths'))))"

definition read_item :: "file_view \<Rightarrow> ppath \<Rightarrow> inventory \<Rightarrow> json \<Rightarrow> inventory res" where
  "read_item fs output_base st item =
     bindE (wheel_file item) (\<lambda>w. case w of None \<Rightarrow> Inr st | Some rd \<Rightarrow> record_wheel fs output_base st rd)"

definition located :: "nat \<Rightarrow> 'a res \<Rightarrow> 'a res" where
  \<comment> \<open>\<^verbatim>\<open>except ValueError as exc: raise ValueError(...)\<close>\<close>
  "located n r =
     (case r of Inl (ValueError m a) \<Rightarrow> Inl (ValueError ''invalid Bazel build event {}:{}: {}'' [JInt (int n), JStr m])
      | _ \<Rightarrow> r)"

definition read_event :: "file_view \<Rightarrow> ppath \<Rightarrow> inventory \<Rightarrow> nat \<times> json option \<Rightarrow> inventory res" where
  "read_event fs output_base st nl =
     located (fst nl)
       (case snd nl of
          None \<Rightarrow> Inl (ValueError ''invalid JSON'' [])
        | Some v \<Rightarrow> bindE (event_files v) (foldE (read_item fs output_base) st))"

definition artifact_name :: "dict \<Rightarrow> string" where
  "artifact_name a = (case dget a ''name'' of JStr s \<Rightarrow> s | _ \<Rightarrow> [])"

definition build_event_artifacts :: "file_view \<Rightarrow> json option list option \<Rightarrow> ppath \<Rightarrow> dict list res" where
  "build_event_artifacts fs content output_base =
     (case content of
        None \<Rightarrow> Inl (ValueError ''cannot read Bazel build events {}: {}'' [])
      | Some evs \<Rightarrow>
          bindE (foldE (read_event fs output_base) ([], []) (enumerate 1 evs)) (\<lambda>(artifacts, lengths).
          Inr (sort_key artifact_name (map snd artifacts))))"

end
