(* ===== verification/BcrMirror.thy ===== *)
theory BcrMirror
  imports PosixPath Effects Urls
begin

text \<open>
  \<^verbatim>\<open>foundry/tools/bcr_mirror.py\<close>: the mirror of Bazel modules that an estate hosts. The world is the
  store of regular files, by path; directories exist as soon as they are needed, and a temporary file
  that replaces its target is that target. Downloads answer by URL. The hash is SHA-256 and
  \<open>loads\<close>, \<open>dumps\<close> the JSON of a text and the text of a JSON value (sorted, indented, with a line end).
\<close>

section \<open>The manifest\<close>

record manifest_row =
  row_module :: string
  row_version :: string
  row_kind :: string
  row_url :: string
  row_sha :: string
  row_size :: nat

record bcr_lib =
  sha256 :: "string \<Rightarrow> string"
  loads :: "string \<Rightarrow> json res"
  dumps :: "json \<Rightarrow> string"
  netloc_ok :: "string \<Rightarrow> bool"
  unquote :: "string \<Rightarrow> string"
  download :: "string \<Rightarrow> string res"

definition VALID_KINDS :: "string list" where
  "VALID_KINDS = [''metadata'', ''module'', ''overlay'', ''patch'', ''source-archive'', ''source-json'', ''source-json-original'']"

definition REPO_LOCAL_KINDS :: "string list" where
  "REPO_LOCAL_KINDS = filter (\<lambda>k. k \<noteq> ''source-archive'') VALID_KINDS"

definition is_repo_url :: "bcr_lib \<Rightarrow> string \<Rightarrow> bool res" where
  "is_repo_url lib u = bindE (urlparse (netloc_ok lib) u) (\<lambda>p. Inr (scheme p = ''repo''))"

definition repo_url_path :: "bcr_lib \<Rightarrow> string \<Rightarrow> ppath res" where
  "repo_url_path lib u =
     bindE (urlparse (netloc_ok lib) u) (\<lambda>p.
     if scheme p \<noteq> ''repo'' then Inl (ValueError ''not a repo url: {}'' [JStr u])
     else if params p \<noteq> [] \<or> query p \<noteq> [] \<or> fragment p \<noteq> []
     then Inl (ValueError ''repo url must not include params, query or fragment: {}'' [JStr u])
     else let raw = unquote lib (dropWhile (\<lambda>c. c = CHR ''/'') (netloc p @ url_path p)) in
       if raw = [] then Inl (ValueError ''repo url must include a relative path: {}'' [JStr u])
       else let rel = parse raw in
         if absolute rel \<or> ''..'' \<in> set (names rel)
         then Inl (ValueError ''repo url must stay under the repository: {}'' [JStr u])
         else Inr rel)"

definition url_basename :: "bcr_lib \<Rightarrow> string \<Rightarrow> string \<Rightarrow> string res" where
  "url_basename lib u fallback =
     bindE (urlparse (netloc_ok lib) u) (\<lambda>p.
     let n = final_name (parse (url_path p)) in Inr (if n = [] then fallback else n))"

definition lower_hex :: "char \<Rightarrow> bool" where
  "lower_hex c = (is_digit c \<or> c \<in> set ''abcdef'')"

definition sha_text :: "string \<Rightarrow> bool" where
  \<comment> \<open>\<^verbatim>\<open>[0-9a-f]{64}\<close>\<close>
  "sha_text s = (length s = 64 \<and> list_all lower_hex s)"

definition tab :: char where
  "tab = char_of (9::nat)"

definition bad_line :: "nat \<Rightarrow> string \<Rightarrow> json list \<Rightarrow> 'a res" where
  "bad_line n m a = Inl (ValueError m (JInt (int n) # a))"

definition manifest_fields ::
  "bcr_lib \<Rightarrow> nat \<Rightarrow> string \<Rightarrow> string \<Rightarrow> string \<Rightarrow> string \<Rightarrow> string \<Rightarrow> string \<Rightarrow> manifest_row res" where
  "manifest_fields lib n md version kind u sha sz =
     (if kind \<notin> set VALID_KINDS then bad_line n ''{}: unsupported kind {}'' [JStr kind]
      else bindE (is_repo_url lib u) (\<lambda>repo.
        bindE (if repo then
                 (if kind \<notin> set REPO_LOCAL_KINDS then bad_line n ''{}: non-https url {}'' [JStr u]
                  else bindE (repo_url_path lib u) (\<lambda>_. Inr ()))
               else if \<not> prefix ''https://'' u then bad_line n ''{}: non-https url {}'' [JStr u] else Inr ()) (\<lambda>_.
        if \<not> sha_text sha then bad_line n ''{}: invalid sha256 {}'' [JStr sha]
        else if sz = [] \<or> \<not> list_all is_digit sz then bad_line n ''{}: invalid size {}'' [JStr sz]
        else Inr \<lparr>row_module = md, row_version = version, row_kind = kind, row_url = u, row_sha = sha,
                  row_size = (case digits_value 0 sz of Some n \<Rightarrow> n | None \<Rightarrow> 0)\<rparr>)))"

definition manifest_line :: "bcr_lib \<Rightarrow> nat \<times> string \<Rightarrow> manifest_row list res" where
  "manifest_line lib nl =
     (let line = strip (snd nl) in
      if line = [] \<or> prefix ''#'' line then Inr []
      else let fs = split_on tab line in
        if fs = [''module'', ''version'', ''kind'', ''url'', ''sha256'', ''size''] then Inr []
        else if length fs \<noteq> 6 then bad_line (fst nl) ''{}: expected 6 tab-separated fields'' []
        else bindE (manifest_fields lib (fst nl) (fs ! 0) (fs ! 1) (fs ! 2) (fs ! 3) (fs ! 4) (fs ! 5)) (\<lambda>r. Inr [r]))"

definition load_manifest :: "bcr_lib \<Rightarrow> string \<Rightarrow> manifest_row list res" where
  "load_manifest lib contents = concatE (manifest_line lib) (enumerate 1 (splitlines False contents))"

section \<open>Places\<close>

definition subpath :: "string list \<Rightarrow> ppath" where
  \<comment> \<open>\<^verbatim>\<open>Path(a) / b / ...\<close>\<close>
  "subpath ss = foldl slash (PPath Rel []) ss"

definition registry_relative_path :: "bcr_lib \<Rightarrow> manifest_row \<Rightarrow> ppath res" where
  "registry_relative_path lib row =
     (let md = row_module row; v = row_version row; k = row_kind row in
      if k = ''metadata'' \<and> md = ''registry'' then Inr (parse ''bazel_registry.json'')
      else if k = ''metadata'' then Inr (subpath [''modules'', md, ''metadata.json''])
      else if k = ''module'' then Inr (subpath [''modules'', md, v, ''MODULE.bazel''])
      else if k = ''source-json'' \<or> k = ''source-json-original'' then Inr (subpath [''modules'', md, v, ''source.json''])
      else if k = ''patch'' then
        bindE (url_basename lib (row_url row) (md @ ''-'' @ v @ ''.patch'')) (\<lambda>n. Inr (subpath [''modules'', md, v, ''patches'', n]))
      else if k = ''overlay'' then
        bindE (url_basename lib (row_url row) (md @ ''-'' @ v @ ''.overlay'')) (\<lambda>n. Inr (subpath [''modules'', md, v, ''overlay'', n]))
      else Inl (ValueError ''row kind {} does not have a registry path'' [JStr k]))"

definition archive_name :: "bcr_lib \<Rightarrow> manifest_row \<Rightarrow> string res" where
  "archive_name lib row = url_basename lib (row_url row) (row_module row @ ''-'' @ row_version row @ ''.tar.gz'')"

definition archive_store_path :: "bcr_lib \<Rightarrow> ppath \<Rightarrow> manifest_row \<Rightarrow> ppath res" where
  "archive_store_path lib bcr_root row =
     (if row_kind row \<noteq> ''source-archive'' then Inl (ValueError ''row kind {} is not a source archive'' [JStr (row_kind row)])
      else bindE (archive_name lib row) (\<lambda>n. Inr (foldl slash bcr_root [''archives'', ''sha256'', row_sha row, n])))"

definition archive_file_url :: "bcr_lib \<Rightarrow> manifest_row \<Rightarrow> string res" where
  "archive_file_url lib row =
     bindE (archive_name lib row) (\<lambda>n. Inr (''file:///vaso/sources/bcr/archives/sha256/'' @ row_sha row @ ''/'' @ n))"

definition registry_file_url :: "bcr_lib \<Rightarrow> string \<Rightarrow> manifest_row \<Rightarrow> string res" where
  "registry_file_url lib registry row =
     bindE (registry_relative_path lib row) (\<lambda>p.
     Inr (''file:///vaso/sources/bcr/registry/'' @ registry @ ''/'' @ path_text p))"

section \<open>Rewriting\<close>

definition rewrite_source_json :: "bcr_lib \<Rightarrow> string \<Rightarrow> manifest_row \<Rightarrow> string res" where
  "rewrite_source_json lib source archive =
     (if row_kind archive \<noteq> ''source-archive'' then Inl (ValueError ''source.json rewrite requires a source-archive row'' [])
      else bindE (loads lib source) (\<lambda>v.
        bindE (archive_file_url lib archive) (\<lambda>u.
        case v of
          JObj d \<Rightarrow>
            (let d1 = AList.delete ''mirror_urls'' d in
             Inr (dumps lib (JObj
               (if map_of d1 ''urls'' \<noteq> None then AList.delete ''url'' (dput ''urls'' (JList [JStr u]) d1)
                else dput ''url'' (JStr u) d1))))
        | JList xs \<Rightarrow> Inl TypeError
        | _ \<Rightarrow> Inl AttributeError)))"

section \<open>The store\<close>

type_synonym store = "ppath \<Rightarrow> string option"

definition read_file :: "ppath \<Rightarrow> (store, string) act" where
  "read_file p = (\<lambda>st. (case st p of None \<Rightarrow> Inl OSError | Some b \<Rightarrow> Inr b, st))"

definition write_file :: "ppath \<Rightarrow> string \<Rightarrow> (store, unit) act" where
  "write_file p b = (\<lambda>st. (Inr (), st(p := Some b)))"

definition has_hash :: "bcr_lib \<Rightarrow> store \<Rightarrow> ppath \<Rightarrow> string \<Rightarrow> bool" where
  \<comment> \<open>\<^verbatim>\<open>p.exists() and _sha256_file(p) == sha256\<close>\<close>
  "has_hash lib st p sha = (case st p of None \<Rightarrow> False | Some b \<Rightarrow> sha256 lib b = sha)"

definition copy_verified_archive :: "bcr_lib \<Rightarrow> ppath \<Rightarrow> ppath \<Rightarrow> string \<Rightarrow> (store, ppath) act" where
  "copy_verified_archive lib source dest sha =
     bindA (read_file source) (\<lambda>b.
     if sha256 lib b \<noteq> sha
     then pureA (Inl (ValueError ''archive sha256 mismatch: {}: expected {}, got {}'' [JStr (path_text source), JStr sha, JStr (sha256 lib b)]))
     else bindA (write_file dest b) (\<lambda>_. pureA (Inr dest)))"

definition cache_file :: "ppath \<Rightarrow> string \<Rightarrow> ppath" where
  "cache_file repository_cache sha = foldl slash repository_cache [''content_addressable'', ''sha256'', sha, ''file'']"

definition touch :: "ppath \<Rightarrow> (store, unit) act" where
  "touch p = (\<lambda>st. (Inr (), case st p of None \<Rightarrow> st(p := Some []) | Some b \<Rightarrow> st))"

definition seed_repository_cache ::
  "bcr_lib \<Rightarrow> ppath \<Rightarrow> ppath \<Rightarrow> string \<Rightarrow> string list \<Rightarrow> (store, ppath) act" where
  "seed_repository_cache lib repository_cache archive sha canonical_ids =
     bindA (read_file archive) (\<lambda>b.
     if sha256 lib b \<noteq> sha
     then pureA (Inl (ValueError ''archive sha256 mismatch: {}: expected {}, got {}'' [JStr (path_text archive), JStr sha, JStr (sha256 lib b)]))
     else let dest = cache_file repository_cache sha in
       bindA (getA (\<lambda>st. if has_hash lib st dest sha then pureA (Inr dest) else copy_verified_archive lib archive dest sha)) (\<lambda>_.
       bindA (forA (\<lambda>i. touch (slash (parent dest) (''id-'' @ sha256 lib i))) canonical_ids) (\<lambda>_.
       pureA (Inr dest))))"

definition verify_row_bytes :: "bcr_lib \<Rightarrow> manifest_row \<Rightarrow> string \<Rightarrow> unit res" where
  "verify_row_bytes lib row data =
     (if sha256 lib data \<noteq> row_sha row
      then Inl (ValueError ''{}: expected sha256 {}, got {}'' [JStr (row_url row), JStr (row_sha row), JStr (sha256 lib data)])
      else if row_size row \<noteq> 0 \<and> length data \<noteq> row_size row
      then Inl (ValueError ''{}: expected {} bytes, got {}'' [JStr (row_url row), JInt (int (row_size row)), JInt (int (length data))])
      else Inr ())"

definition fetch :: "bcr_lib \<Rightarrow> bool \<Rightarrow> ppath \<Rightarrow> manifest_row \<Rightarrow> (store, string) act" where
  "fetch lib allow_network repo_root row =
     bindA (pureA (is_repo_url lib (row_url row))) (\<lambda>repo.
     bindA
       (if repo then bindA (pureA (repo_url_path lib (row_url row))) (\<lambda>p. read_file (joinpath repo_root p))
        else if \<not> allow_network then pureA (Inl OSError)
        else pureA (download lib (row_url row))) (\<lambda>data.
     bindA (pureA (verify_row_bytes lib row data)) (\<lambda>_. pureA (Inr data))))"

definition materialize_registry_file ::
  "bcr_lib \<Rightarrow> bool \<Rightarrow> ppath \<Rightarrow> ppath \<Rightarrow> manifest_row \<Rightarrow> (store, unit) act" where
  "materialize_registry_file lib allow_network repo_root dest row =
     getA (\<lambda>st. if has_hash lib st dest (row_sha row) then pureA (Inr ())
       else bindA (fetch lib allow_network repo_root row) (\<lambda>data.
            bindA (pureA (verify_row_bytes lib row data)) (\<lambda>_. write_file dest data)))"

definition materialize_archive ::
  "bcr_lib \<Rightarrow> bool \<Rightarrow> ppath \<Rightarrow> ppath \<Rightarrow> manifest_row \<Rightarrow> (store, unit) act" where
  "materialize_archive lib allow_network repo_root dest row =
     getA (\<lambda>st. if has_hash lib st dest (row_sha row) then pureA (Inr ())
       else bindA (fetch lib allow_network repo_root row) (\<lambda>data. write_file dest data))"

section \<open>Acquisition\<close>

definition source_json_kind :: "string \<Rightarrow> bool" where
  "source_json_kind k = (k = ''source-json'' \<or> k = ''source-json-original'')"

definition archive_of :: "manifest_row list \<Rightarrow> string \<Rightarrow> string \<Rightarrow> manifest_row option" where
  \<comment> \<open>\<^verbatim>\<open>archive_rows.get((module, version))\<close>: the last such row\<close>
  "archive_of rows md v =
     List.find (\<lambda>r. row_kind r = ''source-archive'' \<and> row_module r = md \<and> row_version r = v) (rev rows)"

record mirror =
  bcr_root :: ppath
  registry_name :: string
  repository_cache :: ppath
  repo_root :: ppath
  networked :: bool

definition mirror_at :: "ppath \<Rightarrow> string \<Rightarrow> ppath \<Rightarrow> bool \<Rightarrow> mirror" where
  "mirror_at estate registry repo net =
     \<lparr>bcr_root = foldl slash estate [''sources'', ''bcr''], registry_name = registry,
      repository_cache = foldl slash estate [''vaso'', ''cache'', ''bazel'', ''repository-cache''],
      repo_root = repo, networked = net\<rparr>"

definition registry_dir :: "mirror \<Rightarrow> ppath" where
  "registry_dir m = foldl slash (bcr_root m) [''registry'', registry_name m]"

definition original_path :: "mirror \<Rightarrow> manifest_row \<Rightarrow> ppath" where
  "original_path m row = foldl slash (bcr_root m) [''originals'', ''sha256'', row_sha row]"

definition registry_path :: "bcr_lib \<Rightarrow> mirror \<Rightarrow> manifest_row \<Rightarrow> ppath res" where
  "registry_path lib m row = bindE (registry_relative_path lib row) (\<lambda>p. Inr (joinpath (registry_dir m) p))"

definition json_get :: "json \<Rightarrow> string \<Rightarrow> json option res" where
  "json_get v k = (case v of JObj d \<Rightarrow> Inr (map_of d k) | _ \<Rightarrow> Inl AttributeError)"

definition actual_urls :: "json \<Rightarrow> json res" where
  \<comment> \<open>\<^verbatim>\<open>doc.get("urls", [doc.get("url")])\<close>\<close>
  "actual_urls v =
     bindE (json_get v ''url'') (\<lambda>u.
     bindE (json_get v ''urls'') (\<lambda>us.
     Inr (case us of Some xs \<Rightarrow> xs | None \<Rightarrow> JList [case u of Some x \<Rightarrow> x | None \<Rightarrow> JNull])))"

definition check_rewritten :: "bcr_lib \<Rightarrow> mirror \<Rightarrow> manifest_row \<Rightarrow> manifest_row \<Rightarrow> ppath \<Rightarrow> (store, unit) act" where
  \<comment> \<open>offline, for a \<^verbatim>\<open>source.json\<close> that is there\<close>
  "check_rewritten lib m row archive dest =
     bindA (read_file dest) (\<lambda>present.
     bindA (pureA (loads lib present)) (\<lambda>doc.
     bindA (pureA (archive_file_url lib archive)) (\<lambda>expected_url.
     bindA (pureA (actual_urls doc)) (\<lambda>urls.
     if \<not> py_eq urls (JList [JStr expected_url]) \<or> (case doc of JObj d \<Rightarrow> map_of d ''mirror_urls'' \<noteq> None | _ \<Rightarrow> False)
     then pureA (Inl (ValueError ''{}: expected local-only archive URL {}'' [JStr (path_text dest), JStr expected_url]))
     else getA (\<lambda>st.
       if \<not> has_hash lib st (original_path m row) (row_sha row)
       then pureA (Inl (ValueError ''{}: missing or mismatched pinned source.json original; provision the mirror first'' [JStr (path_text dest)]))
       else bindA (read_file (original_path m row)) (\<lambda>original.
         bindA (pureA (rewrite_source_json lib original archive)) (\<lambda>expected.
         if present \<noteq> expected
         then pureA (Inl (ValueError ''{}: rewritten source.json differs from pinned original'' [JStr (path_text dest)]))
         else pureA (Inr ()))))))))"

definition fetch_rewritten :: "bcr_lib \<Rightarrow> mirror \<Rightarrow> manifest_row \<Rightarrow> manifest_row \<Rightarrow> ppath \<Rightarrow> (store, unit) act" where
  "fetch_rewritten lib m row archive dest =
     bindA (fetch lib (networked m) (repo_root m) row) (\<lambda>original.
     bindA (write_file (original_path m row) original) (\<lambda>_.
     bindA (pureA (rewrite_source_json lib original archive)) (\<lambda>rewritten.
     write_file dest rewritten)))"

definition acquire_source_json :: "bcr_lib \<Rightarrow> mirror \<Rightarrow> manifest_row list \<Rightarrow> manifest_row \<Rightarrow> (store, unit) act" where
  "acquire_source_json lib m rows row =
     (case archive_of rows (row_module row) (row_version row) of
        None \<Rightarrow> pureA (Inl (ValueError (''{}@'' @ ''{} source.json has no source-archive row'') [JStr (row_module row), JStr (row_version row)]))
      | Some archive \<Rightarrow>
          bindA (pureA (registry_path lib m row)) (\<lambda>dest.
          getA (\<lambda>st. if \<not> networked m \<and> st dest \<noteq> None then check_rewritten lib m row archive dest
                     else fetch_rewritten lib m row archive dest)))"

definition acquire_archive :: "bcr_lib \<Rightarrow> mirror \<Rightarrow> manifest_row \<Rightarrow> (store, unit) act" where
  "acquire_archive lib m row =
     bindA (pureA (archive_store_path lib (bcr_root m) row)) (\<lambda>archive.
     bindA (materialize_archive lib (networked m) (repo_root m) archive row) (\<lambda>_.
     bindA (pureA (archive_file_url lib row)) (\<lambda>u.
     bindA (seed_repository_cache lib (repository_cache m) archive (row_sha row) [row_url row, u]) (\<lambda>_.
     pureA (Inr ())))))"

definition acquire_registry :: "bcr_lib \<Rightarrow> mirror \<Rightarrow> manifest_row \<Rightarrow> (store, unit) act" where
  "acquire_registry lib m row =
     bindA (pureA (registry_path lib m row)) (\<lambda>dest.
     materialize_registry_file lib (networked m) (repo_root m) dest row)"

definition acquire_patch :: "bcr_lib \<Rightarrow> mirror \<Rightarrow> manifest_row list \<Rightarrow> manifest_row \<Rightarrow> (store, unit) act" where
  \<comment> \<open>overlays and patches are also seeded into the repository cache\<close>
  "acquire_patch lib m rows row =
     bindA (pureA (registry_path lib m row)) (\<lambda>dest.
     bindA (materialize_registry_file lib (networked m) (repo_root m) dest row) (\<lambda>_.
     bindA (pureA (registry_file_url lib (registry_name m) row)) (\<lambda>u.
     bindA (pureA (case archive_of rows (row_module row) (row_version row) of
                     None \<Rightarrow> Inr []
                   | Some a \<Rightarrow> bindE (archive_file_url lib a) (\<lambda>au. Inr [row_url a, au]))) (\<lambda>more.
     bindA (seed_repository_cache lib (repository_cache m) dest (row_sha row) ([row_url row, u] @ more)) (\<lambda>_.
     pureA (Inr ()))))))"

definition acquire_row :: "bcr_lib \<Rightarrow> mirror \<Rightarrow> manifest_row list \<Rightarrow> manifest_row \<Rightarrow> (store, unit) act" where
  "acquire_row lib m rows row =
     (if row_kind row = ''source-archive'' then acquire_archive lib m row
      else if source_json_kind (row_kind row) then acquire_source_json lib m rows row
      else if row_kind row = ''overlay'' \<or> row_kind row = ''patch'' then acquire_patch lib m rows row
      else acquire_registry lib m row)"

definition row_counts :: "manifest_row list \<Rightarrow> nat \<times> nat \<times> nat" where
  \<comment> \<open>registry, archives, repository cache\<close>
  "row_counts rows =
     (length (filter (\<lambda>r. row_kind r \<noteq> ''source-archive'') rows),
      length (filter (\<lambda>r. row_kind r = ''source-archive'') rows),
      length (filter (\<lambda>r. row_kind r \<in> {''source-archive'', ''overlay'', ''patch''}) rows))"

definition module_versions :: "manifest_row list \<Rightarrow> (string \<times> string list) list" where
  \<comment> \<open>the versions of each module without metadata of its own, sorted\<close>
  "module_versions rows =
     (let explicit = map row_module (filter (\<lambda>r. row_kind r = ''metadata'' \<and> row_module r \<noteq> ''registry'') rows);
          modules = filter (\<lambda>r. row_kind r = ''module'') rows
      in map (\<lambda>md. (md, sort (remdups (map row_version (filter (\<lambda>r. row_module r = md) modules)))))
           (filter (\<lambda>md. md \<notin> set explicit) (sort (remdups (map row_module modules)))))"

definition metadata_path :: "mirror \<Rightarrow> string \<Rightarrow> ppath" where
  "metadata_path m md = foldl slash (registry_dir m) [''modules'', md, ''metadata.json'']"

definition metadata_text :: "bcr_lib \<Rightarrow> string list \<Rightarrow> string" where
  "metadata_text lib versions =
     dumps lib (JObj [(''homepage'', JStr []), (''maintainers'', JList []), (''repository'', JList []),
       (''versions'', JList (map JStr versions)), (''yanked_versions'', JObj [])])"

definition write_synthetic_metadata :: "bcr_lib \<Rightarrow> mirror \<Rightarrow> manifest_row list \<Rightarrow> (store, unit) act" where
  "write_synthetic_metadata lib m rows =
     forA (\<lambda>(md, versions). write_file (metadata_path m md) (metadata_text lib versions)) (module_versions rows)"

definition acquire :: "bcr_lib \<Rightarrow> mirror \<Rightarrow> string \<Rightarrow> (store, nat \<times> nat \<times> nat) act" where
  "acquire lib m manifest =
     bindA (pureA (load_manifest lib manifest)) (\<lambda>rows.
     bindA (forA (acquire_row lib m rows) rows) (\<lambda>_.
     bindA (write_synthetic_metadata lib m rows) (\<lambda>_.
     pureA (Inr (row_counts rows)))))"

section \<open>Verification\<close>

definition read_checked :: "bcr_lib \<Rightarrow> store \<Rightarrow> ppath \<Rightarrow> manifest_row \<Rightarrow> string res" where
  "read_checked lib st p row =
     (case st p of None \<Rightarrow> Inl OSError | Some b \<Rightarrow> bindE (verify_row_bytes lib row b) (\<lambda>_. Inr b))"

definition verify_source_json :: "bcr_lib \<Rightarrow> mirror \<Rightarrow> store \<Rightarrow> manifest_row list \<Rightarrow> manifest_row \<Rightarrow> unit res" where
  "verify_source_json lib m st rows row =
     bindE (read_checked lib st (original_path m row) row) (\<lambda>original.
     case archive_of rows (row_module row) (row_version row) of
       None \<Rightarrow> Inl (KeyError (row_module row))
     | Some archive \<Rightarrow>
         bindE (rewrite_source_json lib original archive) (\<lambda>expected.
         bindE (registry_path lib m row) (\<lambda>p.
         case st p of
           None \<Rightarrow> Inl OSError
         | Some b \<Rightarrow>
             if b \<noteq> expected
             then Inl (ValueError ''{}: rewritten source.json differs from pinned original'' [JStr (path_text p)])
             else Inr ())))"

definition verify_row :: "bcr_lib \<Rightarrow> mirror \<Rightarrow> store \<Rightarrow> manifest_row list \<Rightarrow> manifest_row \<Rightarrow> unit res" where
  "verify_row lib m st rows row =
     (if row_kind row = ''source-archive''
      then bindE (archive_store_path lib (bcr_root m) row) (\<lambda>p. bindE (read_checked lib st p row) (\<lambda>_. Inr ()))
      else if source_json_kind (row_kind row) then verify_source_json lib m st rows row
      else bindE (registry_path lib m row) (\<lambda>p. bindE (read_checked lib st p row) (\<lambda>_. Inr ())))"

definition verify :: "bcr_lib \<Rightarrow> mirror \<Rightarrow> store \<Rightarrow> string \<Rightarrow> nat res" where
  "verify lib m st manifest =
     bindE (load_manifest lib manifest) (\<lambda>rows.
     bindE (mapE (verify_row lib m st rows) rows) (\<lambda>_. Inr (length rows)))"

end
