(* ===== verification/BuildInputs.thy ===== *)
theory BuildInputs
  imports BuildArtifacts BcrMirror
begin

text \<open>
  \<^verbatim>\<open>foundry/tools/build_inputs.py\<close>: the pinned inputs of a selection and the store that finds and
  installs their bytes. Starlark text is parsed by the library: \<open>repos\<close> are the repository declarations
  of the module with their literal attributes (tuples are read as lists), \<open>texts\<close> the build files of a
  package.
\<close>

section \<open>Assets\<close>

record asset =
  owner :: string
  asset_sha :: string
  asset_urls :: "string list"
  asset_file :: "string option"

definition valid_filename :: "string \<Rightarrow> bool" where
  "valid_filename f =
     (f \<notin> {[], ''.'', ''..''} \<and> char_of (0::nat) \<notin> set f \<and> final_name (parse f) = f)"

definition new_asset :: "string \<Rightarrow> json \<Rightarrow> string list \<Rightarrow> json \<Rightarrow> asset res" where
  \<comment> \<open>\<^verbatim>\<open>Asset.__post_init__\<close>; no filename is \<open>JNull\<close>\<close>
  "new_asset name sha urls filename =
     (case sha of
        JStr s \<Rightarrow>
          if \<not> sha_text s then Inl (ValueError ''{}: invalid SHA-256'' [JStr name])
          else if urls = [] \<or> [] \<in> set urls then Inl (ValueError ''{}: expected nonempty archive URLs'' [JStr name])
          else (case filename of
             JNull \<Rightarrow> Inr \<lparr>owner = name, asset_sha = s, asset_urls = urls, asset_file = None\<rparr>
           | JStr f \<Rightarrow> if valid_filename f then Inr \<lparr>owner = name, asset_sha = s, asset_urls = urls, asset_file = Some f\<rparr>
                      else Inl (ValueError ''{}: invalid distdir filename: {}'' [JStr name, filename])
           | _ \<Rightarrow> Inl (ValueError ''{}: invalid distdir filename: {}'' [JStr name, filename]))
      | _ \<Rightarrow> Inl (ValueError ''{}: invalid SHA-256'' [JStr name]))"

definition str_list :: "json list \<Rightarrow> string list option" where
  "str_list vs = (if list_all is_str vs then Some (map (\<lambda>v. case v of JStr s \<Rightarrow> s | _ \<Rightarrow> []) vs) else None)"

definition attr_urls :: "dict \<Rightarrow> string \<Rightarrow> json" where
  "attr_urls attrs stem =
     (let urls = (case map_of attrs (stem @ ''urls'') of Some v \<Rightarrow> v | None \<Rightarrow> dget attrs (stem @ ''url''));
          urls' = (if urls = JNull \<and> stem = ''patch_'' then dget attrs ''patches'' else urls)
      in case urls' of JStr s \<Rightarrow> JList [JStr s] | v \<Rightarrow> v)"

definition attr_assets :: "string \<Rightarrow> dict \<Rightarrow> string \<times> json \<Rightarrow> asset list res" where
  "attr_assets name attrs kv =
     (case kv of (key, value) \<Rightarrow>
      if \<not> (endswith key ''sha256'' \<or> endswith key ''sha256s'') then Inr []
      else
        (let stem = removesuffix (removesuffix key ''sha256s'') ''sha256'';
             bad = ValueError ''{}: missing literal URLs for {}'' [JStr name, JStr key]
         in case attr_urls attrs stem of
           JList us \<Rightarrow>
             (case str_list us of
                None \<Rightarrow> Inl bad
              | Some urls \<Rightarrow>
                  if urls = [] then Inl bad
                  else (case value of
                     JList shas \<Rightarrow>
                       if length shas \<noteq> length urls then Inl (ValueError ''{}: resource URL/hash count mismatch'' [JStr name])
                       else mapE (\<lambda>(s, u). new_asset name s [u] JNull) (zip shas urls)
                   | v \<Rightarrow> bindE (new_asset name v urls JNull) (\<lambda>a. Inr [a])))
         | _ \<Rightarrow> Inl bad))"

definition repo_assets :: "string \<Rightarrow> dict \<Rightarrow> asset list res" where
  "repo_assets name attrs = concatE (attr_assets name attrs) attrs"

section \<open>The closure of a selection\<close>

definition repo_char :: "char \<Rightarrow> bool" where
  "repo_char c = (ascii_alpha c \<or> is_digit c \<or> c \<in> set ''_.+-'')"

function repo_names :: "string \<Rightarrow> string list" where
  \<comment> \<open>\<^verbatim>\<open>re.findall(r"@([A-Za-z0-9_.+-]+)//", text)\<close>\<close>
  "repo_names s =
     (case s of
        [] \<Rightarrow> []
      | c # cs \<Rightarrow>
          (let n = takeWhile repo_char cs; rest = dropWhile repo_char cs in
           if c = CHR 0x40 \<and> n \<noteq> [] \<and> prefix ''//'' rest then n # repo_names (drop 2 rest) else repo_names cs))"
  by pat_completeness auto
termination
  by (relation "measure length") (auto simp: less_Suc_eq_le length_dropWhile_le intro: le_trans [OF diff_le_self])

declare repo_names.simps [simp del]

record repo_view =
  repos :: "(string \<times> dict) list"
  texts :: "string \<Rightarrow> string list"
    \<comment> \<open>of a package's \<^verbatim>\<open>BUILD.bazel\<close> and \<^verbatim>\<open>.bzl\<close> files\<close>
  repr :: "dict \<Rightarrow> string"
  nested :: json
    \<comment> \<open>\<^verbatim>\<open>nested_http_archives.json\<close>\<close>
  cccl :: "json \<times> json"
    \<comment> \<open>the hash and the strip prefix of the CCCL archive\<close>

definition repo_refs :: "repo_view \<Rightarrow> string \<Rightarrow> string list" where
  \<comment> \<open>the repositories that a declaration names\<close>
  "repo_refs view name =
     (case map_of (repos view) name of None \<Rightarrow> [] | Some attrs \<Rightarrow> repo_names (repr view attrs))"

function close_repos :: "repo_view \<Rightarrow> string list \<Rightarrow> string list \<Rightarrow> asset list \<Rightarrow> (string list \<times> asset list) res" where
  \<comment> \<open>the loop of \<^verbatim>\<open>selected_assets\<close>: the pending names, the last one first, and the visited ones\<close>
  "close_repos view pending visited assets =
     (case pending of
        [] \<Rightarrow> Inr (visited, assets)
      | name # rest \<Rightarrow>
          (case map_of (repos view) name of
             None \<Rightarrow> close_repos view rest visited assets
           | Some attrs \<Rightarrow>
               if name \<in> set visited then close_repos view rest visited assets
               else bindE (repo_assets name attrs) (\<lambda>more.
                 close_repos view (rev (repo_refs view name) @ rest) (name # visited) (assets @ more))))"
  by pat_completeness auto
termination
proof (relation "(\<lambda>(view, pending, visited, assets). card (fst ` set (repos view) - set visited)) <*mlex*>
    measure (\<lambda>(view, pending, visited, assets). length pending)", goal_cases)
  case 1
  then show ?case by (simp add: wf_mlex)
next
  case (2 view pending visited assets name rest)
  then show ?case by (simp add: mlex_prod_def)
next
  case (3 view pending visited assets name rest attrs)
  then show ?case by (simp add: mlex_prod_def)
next
  case (4 view pending visited assets name rest attrs more)
  have "name \<in> fst ` set (repos view)" using map_of_SomeD [OF 4(2)] by force
  then have "card (fst ` set (repos view) - set (name # visited)) < card (fst ` set (repos view) - set visited)"
    using 4(3) by (intro psubset_card_mono) auto
  then show ?case by (simp add: mlex_less)
qed

declare close_repos.simps [simp del]

section \<open>The JAX archives\<close>

definition nested_asset :: "json \<Rightarrow> asset res" where
  "nested_asset item =
     (case item of
        JObj d \<Rightarrow>
          bindE (ditem d ''name'') (\<lambda>name. bindE (ditem d ''sha256'') (\<lambda>sha. bindE (ditem d ''filename'') (\<lambda>filename.
          bindE (ditem d ''urls'') (\<lambda>urls.
          case urls of
            JList us \<Rightarrow>
              (case str_list us of
                 Some ss \<Rightarrow>
                   if ss \<noteq> [] \<and> list_all (prefix ''https://'') ss then
                     (case name of
                        JStr n \<Rightarrow> new_asset (''jax-nested:'' @ n) sha ss filename
                      | _ \<Rightarrow> Inl TypeError)
                   else Inl (ValueError ''invalid nested JAX URLs: {}'' [name])
               | None \<Rightarrow> Inl (ValueError ''invalid nested JAX URLs: {}'' [name]))
          | _ \<Rightarrow> Inl (ValueError ''invalid nested JAX URLs: {}'' [name])))))
      | _ \<Rightarrow> Inl TypeError)"

definition json_len :: "json \<Rightarrow> nat res" where
  "json_len v =
     (case v of JList xs \<Rightarrow> Inr (length xs) | JObj d \<Rightarrow> Inr (length d) | JStr s \<Rightarrow> Inr (length s) | _ \<Rightarrow> Inl TypeError)"

definition nested_assets :: "json \<Rightarrow> asset list res" where
  "nested_assets manifest =
     (case manifest of
        JObj d \<Rightarrow>
          bindE (ditem d ''archives'') (\<lambda>archives.
          bindE (ditem d ''archive_count'') (\<lambda>count.
          bindE (json_len archives) (\<lambda>n.
          if \<not> py_eq count (JInt (int n)) then Inl (ValueError ''JAX nested archive count mismatch'' [])
          else case archives of
            JList items \<Rightarrow> mapE nested_asset items
          | _ \<Rightarrow> if n = 0 then Inr [] else Inl TypeError)))
      | _ \<Rightarrow> Inl TypeError)"

definition jax_cccl_asset :: "json \<times> json \<Rightarrow> asset res" where
  "jax_cccl_asset pin =
     (case snd pin of
        JStr strip_prefix \<Rightarrow>
          (let filename = strip_prefix @ ''.tar.gz'';
               tag = removesuffix (removeprefix filename ''cccl-src-'') ''.tar.gz''
           in if \<not> prefix ''v'' tag \<or> final_name (parse filename) \<noteq> filename
              then Inl (ValueError ''jaxlib: invalid CCCL release filename: {}'' [JStr filename])
              else new_asset ''jaxlib:cuda_cccl'' (fst pin)
                     [''https://github.com/NVIDIA/cccl/releases/download/'' @ tag @ ''/'' @ filename] JNull)
      | _ \<Rightarrow> Inl TypeError)"

definition first_pending :: "repo_view \<Rightarrow> string list \<Rightarrow> string list" where
  "first_pending view profiles =
     concat (map (\<lambda>profile. concat (map (\<lambda>package. concat (map repo_names (texts view package)))
       (case map_of PACKAGES profile of Some ps \<Rightarrow> ps | None \<Rightarrow> []))) profiles)"

definition selected_assets :: "repo_view \<Rightarrow> string list \<Rightarrow> asset list res" where
  "selected_assets view profiles =
     bindE (close_repos view (rev (first_pending view profiles)) [] []) (\<lambda>(visited, assets).
     bindE (if ''jax'' \<in> set profiles
            then bindE (nested_assets (nested view)) (\<lambda>more. bindE (jax_cccl_asset (cccl view)) (\<lambda>c. Inr (more @ [c])))
            else Inr []) (\<lambda>jax.
     if assets @ jax = [] then Inl (ValueError ''selected build has no declared source closure'' [])
     else Inr (rev (remdups (rev (assets @ jax))))))"

section \<open>The runtime of rules_python\<close>

text \<open>
  The three literal assignments of \<^verbatim>\<open>versions.bzl\<close> are JSON values; \<open>render\<close> is \<^verbatim>\<open>str.format\<close> with the
  platform, the version, the build and the extension.
\<close>

definition RULES_PYTHON_PLATFORM :: string where
  "RULES_PYTHON_PLATFORM = ''x86_64-unknown-linux-gnu''"

definition jitem :: "json \<Rightarrow> string \<Rightarrow> json res" where
  \<comment> \<open>\<^verbatim>\<open>v[key]\<close>\<close>
  "jitem v k = (case v of JObj d \<Rightarrow> ditem d k | _ \<Rightarrow> Inl TypeError)"

definition runtime_url :: "(string \<Rightarrow> string \<Rightarrow> string res) \<Rightarrow> string \<Rightarrow> json \<Rightarrow> json \<Rightarrow> string res" where
  "runtime_url render version base template =
     (case template of
        JStr t \<Rightarrow>
          bindE (render version t) (\<lambda>rendered.
          bindE (if contains rendered ''://'' then Inr rendered
                 else (case base of
                   JStr b \<Rightarrow> Inr (rstrip_char (CHR ''/'') b @ ''/'' @ rendered)
                 | _ \<Rightarrow> Inl AttributeError)) (\<lambda>u.
          if \<not> prefix ''https://'' u then Inl (ValueError ''rules_python: non-HTTPS runtime URL: {}'' [JStr u]) else Inr u))
      | _ \<Rightarrow> Inl AttributeError)"

definition no_runtime :: "'a res \<Rightarrow> 'a res" where
  \<comment> \<open>\<^verbatim>\<open>except (KeyError, TypeError) as exc: raise ValueError\<close>\<close>
  "no_runtime r =
     (case r of
        Inl (KeyError k) \<Rightarrow> Inl (ValueError ''rules_python: no {} runtime for Python {}'' [JStr RULES_PYTHON_PLATFORM])
      | Inl TypeError \<Rightarrow> Inl (ValueError ''rules_python: no {} runtime for Python {}'' [JStr RULES_PYTHON_PLATFORM])
      | _ \<Rightarrow> r)"

definition rules_python_asset ::
  "(string \<Rightarrow> string \<Rightarrow> string res) \<Rightarrow> string \<Rightarrow> json \<Rightarrow> json \<Rightarrow> json \<Rightarrow> asset res" where
  "rules_python_asset render minor mapping versions base_url =
     bindE (no_runtime
       (bindE (jitem mapping minor) (\<lambda>version.
        case version of
          JStr v \<Rightarrow>
            bindE (jitem versions v) (\<lambda>release.
            bindE (bindE (jitem release ''sha256'') (\<lambda>shas. jitem shas RULES_PYTHON_PLATFORM)) (\<lambda>sha.
            bindE (jitem release ''url'') (\<lambda>templates. Inr (v, sha, templates))))
        | _ \<Rightarrow> Inl (KeyError minor)))) (\<lambda>(v, sha, templates).
     bindE (case templates of JObj d \<Rightarrow> ditem d RULES_PYTHON_PLATFORM | t \<Rightarrow> Inr t) (\<lambda>t1.
     case (case t1 of JStr s \<Rightarrow> JList [JStr s] | t \<Rightarrow> t) of
       JList ts \<Rightarrow>
         if ts = [] then Inl (ValueError ''rules_python: invalid runtime URLs for Python {}'' [JStr v])
         else bindE (mapE (runtime_url render v base_url) ts) (\<lambda>urls.
              new_asset (''rules_python:python_'' @ minor @ ''_'' @ RULES_PYTHON_PLATFORM) sha urls JNull)
     | _ \<Rightarrow> Inl (ValueError ''rules_python: invalid runtime URLs for Python {}'' [JStr v])))"

text \<open>
  The archive comes from the mirror. \<open>members\<close> are the names of the regular files of an archive,
  \<open>resolve\<close> reads the default minor version and the three assignments from its two members.
\<close>

definition bcr_archive :: "bcr_lib \<Rightarrow> ppath \<Rightarrow> dict \<Rightarrow> string \<Rightarrow> store \<Rightarrow> (manifest_row \<times> ppath) res" where
  "bcr_archive lib estate dependencies manifest st =
     bindE (case bindE (ditem dependencies ''rules_python'') (\<lambda>d. jitem d ''version'') of
              Inl (KeyError k) \<Rightarrow> Inl (ValueError ''missing literal rules_python dependency version'' [])
            | Inl TypeError \<Rightarrow> Inl (ValueError ''missing literal rules_python dependency version'' [])
            | r \<Rightarrow> r) (\<lambda>version.
     bindE (load_manifest lib manifest) (\<lambda>rows.
     case filter (\<lambda>r. row_module r = ''rules_python'' \<and> version = JStr (row_version r) \<and> row_kind r = ''source-archive'') rows of
       [row] \<Rightarrow>
         bindE (archive_store_path lib (foldl slash estate [''sources'', ''bcr'']) row) (\<lambda>archive.
         if has_hash lib st archive (row_sha row) then Inr (row, archive)
         else Inl (ValueError (''rules_python@'' @ ''{}: missing or mismatched BCR source archive: {}'') [version, JStr (path_text archive)]))
     | rs \<Rightarrow> Inl (ValueError (''rules_python@'' @ ''{}: expected one BCR source archive, found {}'') [version, JInt (int (length rs))])))"

definition versions_member :: "string list \<Rightarrow> string \<Rightarrow> (string \<times> string) res" where
  \<comment> \<open>the two members that are read\<close>
  "versions_member members version =
     (case filter (\<lambda>n. endswith n ''/python/versions.bzl'') members of
        [n] \<Rightarrow>
          (let archive_root = removesuffix n ''/python/versions.bzl''; md = archive_root @ ''/MODULE.bazel'' in
           if md \<notin> set members then Inl (ValueError (''rules_python@'' @ ''{}: missing {} in source archive'') [JStr version, JStr ''MODULE.bazel''])
           else Inr (md, n))
      | ns \<Rightarrow> Inl (ValueError (''rules_python@'' @ ''{}: expected one python/versions.bzl in source archive, found {}'')
                [JStr version, JInt (int (length ns))]))"

definition rules_python_asset_from_mirror ::
  "bcr_lib \<Rightarrow> (string \<Rightarrow> string list) \<Rightarrow> (string \<Rightarrow> string \<times> string \<Rightarrow> asset res)
   \<Rightarrow> ppath \<Rightarrow> dict \<Rightarrow> string \<Rightarrow> store \<Rightarrow> asset res" where
  "rules_python_asset_from_mirror lib members resolve estate dependencies manifest st =
     bindE (bcr_archive lib estate dependencies manifest st) (\<lambda>(row, archive).
     let contents = (case st archive of Some b \<Rightarrow> b | None \<Rightarrow> []) in
     bindE (versions_member (members contents) (row_version row)) (\<lambda>ms. resolve contents ms))"

section \<open>The input store\<close>

record input_store =
  in_estate :: ppath
  in_seed :: "ppath option"

definition store_estates :: "input_store \<Rightarrow> ppath list" where
  "store_estates s = in_estate s # (case in_seed s of None \<Rightarrow> [] | Some p \<Rightarrow> [p])"

definition input_names :: "bcr_lib \<Rightarrow> asset \<Rightarrow> string list res" where
  \<comment> \<open>the file names of the URLs and of the distdir, in some order\<close>
  "input_names lib a =
     bindE (mapE (urlparse (netloc_ok lib)) (asset_urls a)) (\<lambda>us.
     Inr (remdups (map (final_name \<circ> parse \<circ> url_path) us
       @ (case asset_file a of Some (c # cs) \<Rightarrow> [c # cs] | _ \<Rightarrow> []))))"

definition repository_cache_of :: "ppath \<Rightarrow> ppath" where
  "repository_cache_of estate = slash estate ''vaso/cache/bazel/repository-cache''"

definition download_of :: "ppath \<Rightarrow> asset \<Rightarrow> ppath" where
  "download_of estate a = slash (slash estate ''vaso/cache/build-inputs'') (asset_sha a)"

definition input_candidates :: "bcr_lib \<Rightarrow> input_store \<Rightarrow> asset \<Rightarrow> ppath list res" where
  "input_candidates lib s a =
     bindE (input_names lib a) (\<lambda>ns.
     Inr (map (\<lambda>e. cache_file (repository_cache_of e) (asset_sha a)) (store_estates s)
          @ map (\<lambda>e. download_of e a) (store_estates s)
          @ concat (map (\<lambda>e. concat (map (\<lambda>sub. map (\<lambda>n. foldl slash e [''sources'', sub, ''distdir'', n])
                (filter (\<lambda>n. n \<noteq> []) ns)) [''native'', ''pytorch'', ''triton'', ''jax'', ''bazel''])) (store_estates s))))"

definition find_input :: "bcr_lib \<Rightarrow> input_store \<Rightarrow> asset \<Rightarrow> store \<Rightarrow> ppath option res" where
  "find_input lib s a st =
     bindE (input_candidates lib s a) (\<lambda>ps. Inr (List.find (\<lambda>p. has_hash lib st p (asset_sha a)) ps))"

definition install_distdir :: "bcr_lib \<Rightarrow> ppath \<Rightarrow> string \<Rightarrow> ppath \<Rightarrow> (store, unit) act" where
  "install_distdir lib cached sha dest =
     getA (\<lambda>st.
       if st dest \<noteq> None \<and> \<not> has_hash lib st dest sha
       then pureA (Inl (RuntimeError ''conflicting nested archive: {}'' [JStr (path_text dest)]))
       else if st dest = None
       then bindA (copy_verified_archive lib cached dest sha) (\<lambda>_. pureA (Inr ()))
       else pureA (Inr ()))"

definition install_input :: "bcr_lib \<Rightarrow> input_store \<Rightarrow> asset \<Rightarrow> ppath \<Rightarrow> (store, unit) act" where
  "install_input lib s a source =
     bindA (seed_repository_cache lib (repository_cache_of (in_estate s)) source (asset_sha a)
              (asset_urls a @ [join '' '' (asset_urls a)])) (\<lambda>cached.
     case asset_file a of
       Some (c # cs) \<Rightarrow>
         install_distdir lib cached (asset_sha a) (slash (slash (in_estate s) ''sources/jax/distdir'') (c # cs))
     | _ \<Rightarrow> pureA (Inr ()))"

end
