(* ===== verification/BuildVariants.thy ===== *)
theory BuildVariants
  imports BuildSession BuildInputs
begin

text \<open>
  \<^verbatim>\<open>foundry/tools/build_variants.py\<close>: the runner that prepares the inputs and builds the variants of a
  request, one stage after the other, and what the command returns. The machine holds the files:
  \<open>store_of\<close> and \<open>with_store\<close> read and replace the regular files, the other fields read them as the
  modules do.
\<close>

record 'w runner_env =
  build :: "'w build_os"
  store_of :: "'w \<Rightarrow> store"
  with_store :: "store \<Rightarrow> 'w \<Rightarrow> 'w"
  lib :: bcr_lib
  sources_view :: "'w \<Rightarrow> repo_view res"
  runtime_asset :: "'w \<Rightarrow> asset res"
    \<comment> \<open>\<^verbatim>\<open>rules_python_asset_from_mirror(self.root, self.estate)\<close>\<close>
  event_lines :: "'w \<Rightarrow> ppath \<Rightarrow> json option list option"
  files :: "'w \<Rightarrow> file_view"
  executable :: string
  repo_path :: ppath
  inventory_text :: "asset list \<Rightarrow> string"
    \<comment> \<open>the JSON list of the assets\<close>
  show_error :: "pyexn \<Rightarrow> string"
    \<comment> \<open>\<^verbatim>\<open>str(exc)\<close>\<close>

record build_request =
  req_lines :: "string list"
  req_profiles :: "string list"
  req_fetch :: bool
  req_prepare_only :: bool
  req_estate :: ppath
  req_seed :: "ppath option"

definition request_for :: "string \<Rightarrow> string \<Rightarrow> bool \<Rightarrow> bool \<Rightarrow> ppath \<Rightarrow> ppath option \<Rightarrow> build_request" where
  \<comment> \<open>\<^verbatim>\<open>Runner.__init__\<close>\<close>
  "request_for line profile want_fetch prepare_only estate seed =
     \<lparr>req_lines = (if line = ''all'' then RELEASE_CUDA_LINES else [line]),
      req_profiles = (if profile = ''all'' then map fst PACKAGES else [profile]),
      req_fetch = want_fetch, req_prepare_only = prepare_only, req_estate = estate, req_seed = seed\<rparr>"

definition of_profile :: "(string \<times> string list) list \<Rightarrow> string \<Rightarrow> string list" where
  "of_profile table profile = (case map_of table profile of Some xs \<Rightarrow> xs | None \<Rightarrow> [])"

definition run_stage :: "'w runner_env \<Rightarrow> string \<Rightarrow> string list \<Rightarrow> string \<Rightarrow> string \<Rightarrow> ('w, unit) sact" where
  "run_stage env name command line profile = stage (build env) name command line profile"

definition liftS :: "'w runner_env \<Rightarrow> (store, 'a) act \<Rightarrow> ('w, 'a) sact" where
  \<comment> \<open>an operation on the files\<close>
  "liftS env m = (\<lambda>(s, w). case m (store_of env w) of (r, st) \<Rightarrow> (r, (s, with_store env st w)))"

definition readW :: "('w \<Rightarrow> 'a res) \<Rightarrow> ('w, 'a) sact" where
  "readW f = (\<lambda>(s, w). (f w, (s, w)))"

definition put_head :: "dict \<Rightarrow> session \<Rightarrow> session" where
  "put_head new s = s\<lparr>head := update_all new (head s)\<rparr>"

section \<open>Preflight\<close>

definition preflight :: "'w runner_env \<Rightarrow> build_request \<Rightarrow> ('w, unit) sact" where
  "preflight env req =
     (let os = build env; estate = path_text (req_estate req); l0 = hd (req_lines req); p0 = hd (req_profiles req) in
      bindA (doS (set_phase os ''preflight'')) (\<lambda>_.
      bindA (run_stage env ''materialize''
        [executable env, ''-B'', ''insula/estate/estate.py'', ''--root'', estate, ''--required-gib'', ''100'', ''--materialize''] l0 p0) (\<lambda>_.
      forA (\<lambda>line.
        bindA (run_stage env (''doctor-'' @ line)
          [''insula/execution/doctor.sh'', ''preflight'', ''--estate-root'', estate, ''--line'', line, ''--rootfs-lock'',
           ''foundry/rootfs/cuda_ecosystem.lock.json''] line p0) (\<lambda>_.
        run_stage env (''tools-'' @ line)
          [executable env, ''-B'', ''insula/rootfs/foundry_tools.py'', ''--rootfs'',
           path_text (slash (req_estate req) (''rootfs-lines/'' @ line @ ''/rootfs'')), ''--verify''] line p0))
        (req_lines req))))"

section \<open>Inputs\<close>

definition stage_failure :: "pyexn \<Rightarrow> bool" where
  "stage_failure e = (case e of RuntimeError m a \<Rightarrow> m = ''StageFailure: {} failed; see {}'' | _ \<Rightarrow> False)"

definition fetchable :: "bcr_lib \<Rightarrow> string \<Rightarrow> bool res" where
  "fetchable lb u =
     bindE (urlparse (netloc_ok lb) u) (\<lambda>p.
     Inr (scheme p = ''https'' \<and> hostname p \<noteq> [] \<and> \<not> endswith (hostname p) ''.invalid''))"

definition acquire_command :: "'w runner_env \<Rightarrow> build_request \<Rightarrow> asset \<Rightarrow> string \<Rightarrow> string \<Rightarrow> string list" where
  "acquire_command env req a part u =
     [''env'', ''INSULA_FETCH_SHA256='' @ asset_sha a, path_text (slash (repo_path env) ''insula/run.sh''), ''--line'',
      hd (req_lines req), ''--workspace'', path_text (repo_path env), ''--phase'', ''fetch'', ''--'', ''/usr/bin/curl'', ''-fL'',
      ''--proto'', ''=https'', ''--tlsv1.2'', ''--retry'', ''3'', ''--connect-timeout'', ''30'', ''--max-time'', ''7200'', ''-o'',
      ''/vaso/cache/build-inputs/'' @ part, u]"

definition integrity_failure :: "asset \<Rightarrow> string \<Rightarrow> session \<Rightarrow> session" where
  "integrity_failure a actual s =
     (let old = (case dget (head s) ''integrity_failures'' of JList xs \<Rightarrow> xs | _ \<Rightarrow> []) in
      put_head [(''integrity_failures'', JList (old @ [JObj [(''owner'', JStr (owner a)), (''expected'', JStr (asset_sha a)),
        (''actual'', JStr actual)]]))] s)"

definition fetch_attempt ::
  "'w runner_env \<Rightarrow> build_request \<Rightarrow> asset \<Rightarrow> ppath \<Rightarrow> ppath \<Rightarrow> string \<Rightarrow> ('w, bool) sact" where
  \<comment> \<open>the body of the \<^verbatim>\<open>try\<close>: whether the verified download was published\<close>
  "fetch_attempt env req a partial source u =
     bindA (run_stage env (''acquire-'' @ take 12 (asset_sha a)) (acquire_command env req a (final_name partial) u)
              (hd (req_lines req)) (hd (req_profiles req))) (\<lambda>_.
     bindA (liftS env (read_file partial)) (\<lambda>bytes.
     if sha256 (lib env) bytes = asset_sha a
     then bindA (liftS env (write_file source bytes)) (\<lambda>_. pureA (Inr True))
     else bindA (doS (\<lambda>s. save (build env) (integrity_failure a (sha256 (lib env) bytes) s))) (\<lambda>_. pureA (Inr False))))"

definition unlink_path :: "ppath \<Rightarrow> (store, unit) act" where
  "unlink_path p = (\<lambda>st. (Inr (), st(p := None)))"

definition try_url ::
  "'w runner_env \<Rightarrow> build_request \<Rightarrow> asset \<Rightarrow> ppath \<Rightarrow> ppath \<Rightarrow> string \<Rightarrow> ('w, bool) sact" where
  "try_url env req a partial source u = (\<lambda>sw.
     case fetch_attempt env req a partial source u sw of
       (r, sw1) \<Rightarrow>
         (case liftS env (unlink_path partial) sw1 of
            (_, sw2) \<Rightarrow> (case r of Inl e \<Rightarrow> if stage_failure e then Inr False else Inl e | Inr b \<Rightarrow> Inr b, sw2)))"

fun try_urls ::
  "'w runner_env \<Rightarrow> build_request \<Rightarrow> asset \<Rightarrow> ppath \<Rightarrow> ppath \<Rightarrow> string list \<Rightarrow> ('w, unit) sact" where
  "try_urls env req a partial source [] =
     pureA (Inl (RuntimeError ''cannot acquire pinned input {} sha256={}; curated archives need --seed-estate''
       [JStr (owner a), JStr (asset_sha a)]))"
| "try_urls env req a partial source (u # us) =
     bindA (pureA (fetchable (lib env) u)) (\<lambda>ok.
     if \<not> ok then try_urls env req a partial source us
     else bindA (try_url env req a partial source u) (\<lambda>done.
       if done then pureA (Inr ()) else try_urls env req a partial source us))"

definition input_store_of :: "build_request \<Rightarrow> input_store" where
  "input_store_of req = \<lparr>in_estate = req_estate req, in_seed = req_seed req\<rparr>"

definition find_asset :: "'w runner_env \<Rightarrow> build_request \<Rightarrow> asset \<Rightarrow> ('w, ppath option) sact" where
  "find_asset env req a = readW (\<lambda>w. find_input (lib env) (input_store_of req) a (store_of env w))"

definition prepare_asset :: "'w runner_env \<Rightarrow> build_request \<Rightarrow> asset \<Rightarrow> ('w, unit) sact" where
  "prepare_asset env req a =
     bindA (find_asset env req a) (\<lambda>found.
     bindA
       (case found of
          Some p \<Rightarrow> pureA (Inr p)
        | None \<Rightarrow>
            if \<not> req_fetch req
            then pureA (Inl (RuntimeError ''missing pinned input {} sha256={}; supply --seed-estate or --fetch''
                   [JStr (owner a), JStr (asset_sha a)]))
            else (\<lambda>(s, w).
              let source = download_of (req_estate req) a;
                  partial = slash (parent source) (asset_sha a @ ''.'' @ final_name (run_dir s) @ ''.part'')
              in bindA (try_urls env req a partial source (asset_urls a)) (\<lambda>_. pureA (Inr source)) (s, w))) (\<lambda>source.
     bindA (liftS env (install_input (lib env) (input_store_of req) a source)) (\<lambda>_.
     doS (\<lambda>s. put_head [(''inputs_prepared'', JInt (case dget (head s) ''inputs_prepared'' of JInt n \<Rightarrow> n + 1 | _ \<Rightarrow> 1))] s))))"

definition missing_assets :: "'w runner_env \<Rightarrow> build_request \<Rightarrow> asset list \<Rightarrow> 'w \<Rightarrow> asset list res" where
  "missing_assets env req assets w =
     concatE (\<lambda>a. bindE (find_input (lib env) (input_store_of req) a (store_of env w)) (\<lambda>r.
       Inr (if r = None then [a] else []))) assets"

definition prepare_each :: "'w runner_env \<Rightarrow> build_request \<Rightarrow> nat \<Rightarrow> nat \<times> asset \<Rightarrow> ('w, unit) sact" where
  "prepare_each env req n ia =
     bindA (doS (put_head [(''current_input'', JStr (owner (snd ia)))])) (\<lambda>_.
     bindA (prepare_asset env req (snd ia)) (\<lambda>_.
     if fst ia = n \<or> fst ia mod 10 = 0 then doS (save (build env)) else pureA (Inr ())))"

definition prepare_inputs :: "'w runner_env \<Rightarrow> build_request \<Rightarrow> ('w, unit) sact" where
  "prepare_inputs env req =
     (let os = build env in
      bindA (doS (set_phase os ''input preparation'')) (\<lambda>_.
      bindA (run_stage env ''modules''
        ([executable env, ''-B'', ''foundry/tools/bcr_mirror.py'', ''--estate-root'', path_text (req_estate req)]
          @ (if req_fetch req then [] else [''--offline''])) (hd (req_lines req)) (hd (req_profiles req))) (\<lambda>_.
      bindA (readW (\<lambda>w. bindE (sources_view env w) (\<lambda>v. bindE (selected_assets v (req_profiles req)) (\<lambda>xs.
               bindE (runtime_asset env w) (\<lambda>x. Inr (rev (remdups (rev (xs @ [x])))))))) ) (\<lambda>assets.
      bindA (doS (\<lambda>s. save os (event os ''inputs_planned'' [(''count'', JInt (int (length assets)))]
               (put_head [(''inputs_total'', JInt (int (length assets))), (''inputs_prepared'', JInt 0), (''current_input'', JNull)] s)))) (\<lambda>_.
      bindA (if req_fetch req then pureA (Inr ())
             else bindA (readW (missing_assets env req assets)) (\<lambda>missing.
               if missing = [] then pureA (Inr ())
               else bindA (\<lambda>(s, w). liftS env (write_file (slash (run_dir s) ''missing-inputs.json'') (inventory_text env missing)) (s, w)) (\<lambda>_.
                 pureA (Inl (RuntimeError ''{} pinned inputs missing; see {}; supply --seed-estate or --fetch''
                      [JInt (int (length missing))]))))) (\<lambda>_.
      bindA (forA (prepare_each env req (length assets)) (enumerate 1 assets)) (\<lambda>_.
      doS (\<lambda>s. save os (put_head [(''current_input'', JNull)] s)))))))))"

section \<open>Variants\<close>

definition build_command :: "session \<Rightarrow> string \<Rightarrow> string \<Rightarrow> string list" where
  "build_command s line profile =
     [''foundry/run.sh'', ''--bazel-build''] @ of_profile TARGETS profile @ of_profile TOKENS profile
     @ [''--remote_download_outputs=all'',
        ''--build_event_json_file=/vaso/agents/build-variants/'' @ final_name (run_dir s) @ ''/'' @ line @ ''-'' @ profile
        @ ''-events.jsonl'']"

definition variant_text :: "dict \<Rightarrow> string \<Rightarrow> string" where
  "variant_text v k = (case dget v k of JStr s \<Rightarrow> s | _ \<Rightarrow> [])"

definition check_artifacts :: "file_view \<Rightarrow> string \<Rightarrow> string \<Rightarrow> ppath \<Rightarrow> dict list \<Rightarrow> unit res" where
  "check_artifacts fs line profile ob artifacts =
     (if artifacts = [] then Inl (RuntimeError ''{}/{}: build passed but Bazel reported no release wheels; see {}'' [JStr line, JStr profile])
      else let missing = filter (\<lambda>a. \<not> truthy (dget a ''exists'')) artifacts in
      if missing \<noteq> [] then Inl (RuntimeError ''{}/{}: Bazel release wheels are not materialized: {}''
        (JStr line # JStr profile # map (\<lambda>a. dget a ''path'') missing))
      else bindE (artifact_size_mismatches fs artifacts) (\<lambda>mismatches.
      if mismatches \<noteq> [] then Inl (RuntimeError ''{}/{}: release wheel sizes differ from the inventory: {}; see {}''
        (JStr line # JStr profile # map (JStr \<circ> fst) mismatches))
      else bindE (missing_wheel_targets artifacts ob (of_profile TARGETS profile)) (\<lambda>uncovered.
      if uncovered \<noteq> [] then Inl (RuntimeError ''{}/{}: Bazel reported no release wheels for: {}; see {}''
        (JStr line # JStr profile # map JStr uncovered))
      else Inr ())))"

definition variant_body :: "'w runner_env \<Rightarrow> string \<Rightarrow> string \<Rightarrow> nat \<Rightarrow> ('w, unit) sact" where
  "variant_body env line profile i = (\<lambda>(s, w).
     bindA (run_stage env (''build-'' @ line @ ''-'' @ profile) (build_command s line profile) line profile) (\<lambda>_. (\<lambda>(s1, w1).
       let v = variants s1 ! i; ob = parse (variant_text v ''output_base'') in
       bindA (readW (\<lambda>w. build_event_artifacts (files env w) (event_lines env w (parse (variant_text v ''build_events''))) ob)) (\<lambda>artifacts.
       bindA (doS (update_variant i [(''artifacts'', JList (map JObj artifacts))])) (\<lambda>_.
       readW (\<lambda>w. check_artifacts (files env w) line profile ob artifacts))) (s1, w1))) (s, w))"

definition build_variant :: "'w runner_env \<Rightarrow> string \<Rightarrow> string \<Rightarrow> ('w, unit) sact" where
  "build_variant env line profile =
     with_variant (build env) (show_error env) line profile (variant_body env line profile)"

definition execute_request :: "'w runner_env \<Rightarrow> build_request \<Rightarrow> ('w, unit) sact" where
  "execute_request env req =
     bindA (preflight env req) (\<lambda>_.
     bindA (prepare_inputs env req) (\<lambda>_.
     bindA (check_source (build env)) (\<lambda>_.
     if req_prepare_only req then doS (put_head [(''status'', JStr ''prepared'')])
     else bindA (doS (set_phase (build env) ''native builds'')) (\<lambda>_.
          bindA (forA (\<lambda>(line, profile). build_variant env line profile) (List.product (req_lines req) (req_profiles req))) (\<lambda>_.
          doS (put_head [(''status'', JStr ''built'')]))))))"

section \<open>The command\<close>

definition run_session :: "'w runner_env \<Rightarrow> build_request \<Rightarrow> session \<times> 'w \<Rightarrow> int res \<times> (session \<times> 'w)" where
  \<comment> \<open>what \<^verbatim>\<open>_run\<close> does with an open session\<close>
  "run_session env req sw =
     (case execute_request env req sw of
        (Inr u, (s, w)) \<Rightarrow>
          (Inr 0, (finish (build env) (case dget (head s) ''status'' of JStr t \<Rightarrow> t | _ \<Rightarrow> []) None s, w))
      | (Inl e, (s, w)) \<Rightarrow>
          if interruption e
          then (Inr 130, (finish (build env) ''interrupted''
                 (Some (if show_error env e = [] then ''runner interrupted'' else show_error env e)) s, w))
          else if caught e then (Inr 1, (finish (build env) ''failed'' (Some (show_error env e)) s, w))
          else (Inl e, (s, w)))"

definition main_code :: "int res \<Rightarrow> int res" where
  \<comment> \<open>\<^verbatim>\<open>main\<close> reports setup errors\<close>
  "main_code r =
     (case r of
        Inl e \<Rightarrow> if caught e \<and> e \<noteq> LibError ''KeyboardInterrupt'' then Inr 2 else Inl e
      | Inr n \<Rightarrow> Inr n)"

definition status_code :: "report_view \<Rightarrow> int res" where
  "status_code view = bindE (latest_report view) (\<lambda>r. Inr (if r = None then 2 else 0))"

text \<open>
  The command: another runner holds the lock, or the stale report is closed, a session is opened and
  run. The report written for the stale run is returned beside the session.
\<close>

definition run_request ::
  "'w runner_env \<Rightarrow> build_request \<Rightarrow> bool \<Rightarrow> report_view \<Rightarrow> string \<Rightarrow> int \<Rightarrow> string \<Rightarrow> string \<Rightarrow> 'w
   \<Rightarrow> int res \<times> dict option \<times> session option \<times> 'w" where
  "run_request env req lock_held view run_id pid console_mode now w =
     (if lock_held then (Inr 2, None, None, w)
      else case abandon_stale_run (\<lambda>l. JList (map JStr (log_tail (build env) w l 8))) now
                  (slash (req_estate req) ''agents/build-variants'') view of
        Inl e \<Rightarrow> (main_code (Inl e), None, None, w)
      | Inr stale \<Rightarrow>
          (case open_session (build env) w (req_estate req) run_id (req_lines req) (req_profiles req) (of_profile TARGETS) pid console_mode of
             Inl e \<Rightarrow> (main_code (Inl e), stale, None, w)
           | Inr s \<Rightarrow> (case run_session env req (s, w) of (r, (s', w')) \<Rightarrow> (main_code r, stale, Some s', w'))))"

end
