(* ===== verification/BuildSessionRun.thy ===== *)
theory BuildSessionRun
  imports BuildSession
begin

text \<open>
  What the operations of a build session keep and change: the bookkeeping leaves stages, variants and
  the identity of the sources alone, a stage appends exactly one closed entry, and the cancellation of
  a stage signals its process group.
\<close>

section \<open>Bookkeeping\<close>

named_theorems session_simps \<open>what an operation leaves in the fields of a session\<close>

definition same_run :: "session \<Rightarrow> session \<Rightarrow> bool" where
  \<comment> \<open>all but the stages, the time stamps and what was saved\<close>
  "same_run s s' = (variants s' = variants s \<and> identity s' = identity s \<and> run_dir s' = run_dir s
     \<and> estate_dir s' = estate_dir s \<and> started s' = started s
     \<and> (\<forall>k. k \<notin> {''updated_at'', ''duration_seconds'', ''current_stage''} \<longrightarrow> map_of (head s') k = map_of (head s) k))"

lemma same_run_refl [simp, intro]: "same_run s s"
  by (simp add: same_run_def)

lemma same_run_trans: "same_run s t \<Longrightarrow> same_run t u \<Longrightarrow> same_run s u"
  by (auto simp: same_run_def)

lemma update_all_Nil [simp]: "update_all [] d = d"
  by (simp add: update_all_def)

lemma update_all_Cons [simp]: "update_all ((k, v) # new) d = update_all new (dput k v d)"
  by (simp add: update_all_def)

lemma update_all_append: "update_all (a @ b) d = update_all b (update_all a d)"
  by (simp add: update_all_def)

lemma map_of_update_all_other: "k \<notin> fst ` set new \<Longrightarrow> map_of (update_all new d) k = map_of d k"
  by (induction new arbitrary: d) auto

lemma dget_update_all_other: "k \<notin> fst ` set new \<Longrightarrow> dget (update_all new d) k = dget d k"
  by (simp add: dget_def map_of_update_all_other)

lemma session_event [session_simps]:
  "stages (event os n x s) = stages s" "variants (event os n x s) = variants s"
  "head (event os n x s) = head s" "identity (event os n x s) = identity s"
  "run_dir (event os n x s) = run_dir s" "estate_dir (event os n x s) = estate_dir s"
  "started (event os n x s) = started s"
  by (simp_all add: event_def utc_now_def)

lemma session_save [session_simps]:
  "stages (save os s) = stages s" "variants (save os s) = variants s" "identity (save os s) = identity s"
  "run_dir (save os s) = run_dir s" "estate_dir (save os s) = estate_dir s" "started (save os s) = started s"
  "events (save os s) = events s"
  by (simp_all add: save_def utc_now_def monotonic_def Let_def)

lemma save_head:
  "k \<noteq> ''updated_at'' \<Longrightarrow> k \<noteq> ''duration_seconds'' \<or> map_of (head s) ''finished_at'' \<noteq> None \<Longrightarrow>
   map_of (head (save os s)) k = map_of (head s) k"
  by (auto simp: save_def utc_now_def monotonic_def Let_def)

lemma save_saved [session_simps]: "saved (save os s) = Some (report_of (save os s))"
  by (simp add: save_def utc_now_def monotonic_def Let_def report_of_def)

lemma same_run_save [simp, intro]: "same_run s (save os s)"
  by (auto simp: same_run_def session_simps save_head)

lemma same_run_event [simp, intro]: "same_run s (event os n x s)"
  by (simp add: same_run_def session_simps)

lemma same_run_update_stage [simp, intro]: "same_run s (update_stage new s)"
  by (simp add: same_run_def update_stage_def)

lemma session_clock [session_simps]:
  "utc_now os s = (utc_at os (readings s), s\<lparr>readings := Suc (readings s)\<rparr>)"
  "monotonic os s = (mono_at os (readings s), s\<lparr>readings := Suc (readings s)\<rparr>)"
  by (simp_all add: utc_now_def monotonic_def)

section \<open>The entry of the running stage\<close>

text \<open>The stages but the last one, and the fields of the last one that its process does not touch.\<close>

definition stage_kept :: "session \<Rightarrow> session \<Rightarrow> bool" where
  "stage_kept s s' = (length (stages s') = length (stages s) \<and> butlast (stages s') = butlast (stages s)
     \<and> (\<forall>k\<in>{''name'', ''command'', ''line'', ''profile'', ''log'', ''started_at''}.
          dget (last (stages s')) k = dget (last (stages s)) k))"

lemma stage_kept_refl [simp, intro]: "stage_kept s s"
  by (simp add: stage_kept_def)

lemma stage_kept_trans: "stage_kept s t \<Longrightarrow> stage_kept t u \<Longrightarrow> stage_kept s u"
  by (simp add: stage_kept_def)

lemma stage_kept_same: "stages s' = stages s \<Longrightarrow> stage_kept s s'"
  by (simp add: stage_kept_def)

lemma stage_kept_update:
  assumes "stages s \<noteq> []" "fst ` set new \<inter> {''name'', ''command'', ''line'', ''profile'', ''log'', ''started_at''} = {}"
  shows "stage_kept s (update_stage new s)"
  using assms by (auto simp: stage_kept_def update_stage_def dget_update_all_other)

text \<open>What a turn of the loop, and the whole process, leave alone.\<close>

definition turn_frame :: "session \<Rightarrow> session \<Rightarrow> bool" where
  "turn_frame s s' = (same_run s s' \<and> stage_kept s s')"

lemma turn_frame_refl [simp, intro]: "turn_frame s s"
  by (simp add: turn_frame_def)

lemma turn_frame_trans: "turn_frame s t \<Longrightarrow> turn_frame t u \<Longrightarrow> turn_frame s u"
  by (auto simp: turn_frame_def intro: same_run_trans stage_kept_trans)

lemma turn_frame_nonempty: "turn_frame s t \<Longrightarrow> stages s \<noteq> [] \<Longrightarrow> stages t \<noteq> []"
  by (auto simp: turn_frame_def stage_kept_def)

lemma turn_frame_save [simp, intro]: "turn_frame s (save os s)"
  by (simp add: turn_frame_def stage_kept_same session_simps)

lemma turn_frame_update:
  assumes "stages s \<noteq> []" "fst ` set new \<inter> {''name'', ''command'', ''line'', ''profile'', ''log'', ''started_at''} = {}"
  shows "turn_frame s (update_stage new s)"
  using stage_kept_update [OF assms] by (simp add: turn_frame_def)

lemma turn_frame_readings [simp, intro]: "turn_frame s (s\<lparr>readings := n\<rparr>)"
  by (simp add: turn_frame_def same_run_def stage_kept_def)

lemma poll_turn_frame: "stages s \<noteq> [] \<Longrightarrow> turn_frame s (snd (poll_turn os start (d, s) t))"
  by (auto simp: poll_turn_def Let_def intro!: turn_frame_trans [OF turn_frame_update turn_frame_save])

lemma poll_turns_frame: "stages s \<noteq> [] \<Longrightarrow> turn_frame s (snd (foldl (poll_turn os start) (d, s) ts))"
proof (induction ts arbitrary: d s)
  case (Cons t ts)
  obtain d' s' where t: "poll_turn os start (d, s) t = (d', s')" by fastforce
  have f: "turn_frame s s'" using poll_turn_frame [OF Cons.prems, of os start d t] t by simp
  then have "turn_frame s' (snd (foldl (poll_turn os start) (d', s') ts))"
    using Cons.IH turn_frame_nonempty Cons.prems by blast
  then show ?case using turn_frame_trans [OF f] t by simp
qed simp

lemma execute_process_frame:
  assumes "stages s \<noteq> []"
  shows "turn_frame s (snd (execute_process os start p s))"
proof -
  define s0 where "s0 = save os (update_stage [(''pid'', JInt (process_pid p))] s)"
  define s1 where "s1 = s0\<lparr>readings := Suc (readings s0)\<rparr>"
  have f1: "turn_frame s s1"
    unfolding s1_def s0_def
    by (rule turn_frame_trans [OF _ turn_frame_readings], rule turn_frame_trans [OF _ turn_frame_save],
        rule turn_frame_update) (use assms in auto)
  obtain d s2 where r: "foldl (poll_turn os start)
      (\<lparr>deadline = None, sent = [], next_update = mono_at os (readings s0) + max (1 / 10) (poll_interval os)\<rparr>, s1) (turns p)
      = (d, s2)" by fastforce
  have f2: "turn_frame s1 s2" using poll_turns_frame [OF turn_frame_nonempty [OF f1 assms]] r by (metis snd_conv)
  have n2: "stages s2 \<noteq> []" using turn_frame_nonempty [OF f2 turn_frame_nonempty [OF f1 assms]] .
  have f3: "turn_frame s2 (update_stage [(''returncode'', JInt (exit_code p))] s2)"
    by (rule turn_frame_update) (use n2 in auto)
  have "snd (execute_process os start p s) = update_stage [(''returncode'', JInt (exit_code p))] s2"
    using r by (simp add: execute_process_def s0_def [symmetric] s1_def [symmetric] Let_def monotonic_def)
  then show ?thesis using turn_frame_trans [OF turn_frame_trans [OF f1 f2] f3] by simp
qed

section \<open>Closing a stage\<close>

lemma last_update_stage: "stages s \<noteq> [] \<Longrightarrow> last (stages (update_stage new s)) = update_all new (last (stages s))"
  by (simp add: update_stage_def)

lemma update_stage_fields [session_simps]:
  "variants (update_stage new s) = variants s" "head (update_stage new s) = head s"
  "identity (update_stage new s) = identity s" "run_dir (update_stage new s) = run_dir s"
  "estate_dir (update_stage new s) = estate_dir s" "started (update_stage new s) = started s"
  "stages (update_stage new s) = butlast (stages s) @ [update_all new (last (stages s))]"
  by (simp_all add: update_stage_def)

lemma execute_frame: "stages s \<noteq> [] \<Longrightarrow> turn_frame s (snd (execute os start run s))"
  using execute_process_frame [of s os start] by (auto simp: execute_def split: sum.splits prod.splits)
     (metis snd_conv)

lemma disjoint_keys: "A \<subseteq> set xs \<Longrightarrow> list_all (\<lambda>k. k \<notin> set ys) xs \<Longrightarrow> A \<inter> set ys = {}"
  by (auto simp: list_all_iff)

lemma close_stage_shape:
  obtains new s1 s4 name extra where
    "close_stage os w start outcome s = save os (event os name extra (s4\<lparr>head := dput ''current_stage'' JNull (head s4)\<rparr>))"
    "s4 = update_stage ([(''returncode'', fst new), (''status'', JStr (stage_status outcome))] @ snd new) s1"
    "fst ` set (snd new) \<subseteq> {''finished_at'', ''duration_seconds'', ''log_bytes'', ''tail'', ''progress''}"
    "\<exists>n e. s1 = s\<lparr>readings := n\<rparr> \<or> s1 = (update_stage [(''error'', e)] s)\<lparr>readings := n\<rparr>"
proof -
  define entry where "entry = last (stages s)"
  define lg where "lg = (case dget entry ''log'' of JStr l \<Rightarrow> l | _ \<Rightarrow> [])"
  define excerpt where "excerpt = log_tail os w lg (if stage_status outcome = ''passed'' then 1 else 8)"
  define rc where "rc = (case outcome of Inl msg \<Rightarrow> dget entry ''returncode'' | Inr (rc, i) \<Rightarrow> JInt rc)"
  define s0 where "s0 = (case outcome of Inl msg \<Rightarrow> update_stage [(''error'', JStr msg)] s | Inr ri \<Rightarrow> s)"
  define s1 where "s1 = s0\<lparr>readings := Suc (Suc (readings s0))\<rparr>"
  define new where "new = (rc, [(''finished_at'', JStr (utc_at os (readings s0))),
      (''duration_seconds'', seconds os (mono_at os (Suc (readings s0))) start),
      (''log_bytes'', JInt (case log_size os w lg of Some n \<Rightarrow> n | None \<Rightarrow> 0)),
      (''tail'', JList (map JStr excerpt))]
      @ (if excerpt \<noteq> [] then [(''progress'', JStr (last excerpt))] else []))"
  define s4 where "s4 = update_stage ([(''returncode'', fst new), (''status'', JStr (stage_status outcome))] @ snd new) s1"
  have 1: "close_stage os w start outcome s = save os (event os ''stage_finished''
      [(''stage'', dget (last (stages s4)) ''name''), (''status'', JStr (stage_status outcome)), (''returncode'', rc),
       (''error'', dget (last (stages s4)) ''error''), (''duration_seconds'', dget (last (stages s4)) ''duration_seconds''),
       (''log'', dget (last (stages s4)) ''log'')] (s4\<lparr>head := dput ''current_stage'' JNull (head s4)\<rparr>))"
    unfolding close_stage_def Let_def session_clock prod.case entry_def [symmetric] lg_def [symmetric]
      excerpt_def [symmetric] rc_def [symmetric] s0_def [symmetric]
    by (simp add: s4_def new_def s1_def)
  have 2: "fst ` set (snd new) \<subseteq> {''finished_at'', ''duration_seconds'', ''log_bytes'', ''tail'', ''progress''}"
    by (cases "excerpt = []") (simp_all add: new_def)
  have 3: "\<exists>n e. s1 = s\<lparr>readings := n\<rparr> \<or> s1 = (update_stage [(''error'', e)] s)\<lparr>readings := n\<rparr>"
    by (cases outcome) (auto simp: s1_def s0_def)
  show ?thesis by (rule that [OF 1 s4_def 2 3])
qed

lemma close_stage_closes:
  assumes "stages s \<noteq> []" and s'_def: "s' = close_stage os w start outcome s"
  shows "stage_kept s s'" "same_run s s'" "saved s' = Some (report_of s')"
    "dget (head s') ''current_stage'' = JNull"
    "dget (last (stages s')) ''status'' = JStr (stage_status outcome)"
proof -
  obtain new s1 s4 name extra where c:
    "close_stage os w start outcome s = save os (event os name extra (s4\<lparr>head := dput ''current_stage'' JNull (head s4)\<rparr>))"
    "s4 = update_stage ([(''returncode'', fst new), (''status'', JStr (stage_status outcome))] @ snd new) s1"
    "fst ` set (snd new) \<subseteq> {''finished_at'', ''duration_seconds'', ''log_bytes'', ''tail'', ''progress''}"
    "\<exists>n e. s1 = s\<lparr>readings := n\<rparr> \<or> s1 = (update_stage [(''error'', e)] s)\<lparr>readings := n\<rparr>"
    by (rule close_stage_shape)
  let ?new = "[(''returncode'', fst new), (''status'', JStr (stage_status outcome))] @ snd new"
  have error: "turn_frame s ((update_stage [(''error'', e)] s)\<lparr>readings := n\<rparr>)" for e n
    by (rule turn_frame_trans [OF turn_frame_update turn_frame_readings]) (use assms(1) in auto)
  have f1: "turn_frame s s1" using c(4) error by auto
  have n1: "stages s1 \<noteq> []" using turn_frame_nonempty [OF f1 assms(1)] .
  let ?keys = "[''returncode'', ''status'', ''finished_at'', ''duration_seconds'', ''log_bytes'', ''tail'', ''progress'']"
  have sub: "fst ` set ?new \<subseteq> set ?keys" using c(3) unfolding set_append image_Un by (simp add: subset_iff)
  have "list_all (\<lambda>k. k \<notin> set [''name'', ''command'', ''line'', ''profile'', ''log'', ''started_at'']) ?keys"
    by code_simp
  then have "fst ` set ?new \<inter> set [''name'', ''command'', ''line'', ''profile'', ''log'', ''started_at''] = {}"
    by (rule disjoint_keys [OF sub])
  then have "fst ` set ?new \<inter> {''name'', ''command'', ''line'', ''profile'', ''log'', ''started_at''} = {}"
    unfolding list.set .
  then have f4: "turn_frame s s4" unfolding c(2) by (rule turn_frame_trans [OF f1 turn_frame_update [OF n1]])
  have st: "stages s' = stages s4" by (simp add: s'_def c(1) session_simps)
  show "stage_kept s s'" using f4 by (simp add: turn_frame_def stage_kept_def st)
  have "same_run s4 s'" by (simp add: s'_def c(1) same_run_def session_simps save_head)
  then show "same_run s s'" using f4 same_run_trans by (auto simp: turn_frame_def)
  show "saved s' = Some (report_of s')" by (simp add: s'_def c(1) session_simps)
  show "dget (head s') ''current_stage'' = JNull" by (simp add: s'_def c(1) session_simps dget_def save_head)
  have "''status'' \<notin> fst ` set (snd new)" using c(3) by auto
  then show "dget (last (stages s')) ''status'' = JStr (stage_status outcome)"
    by (simp add: st c(2) session_simps dget_update_all_other)
qed

section \<open>A stage\<close>

lemma open_stage_opens:
  assumes "s' = open_stage os name entry s"
  shows "stages s' = stages s @ [entry]" "same_run s s'"
  using assms by (auto simp: open_stage_def session_simps same_run_def save_head)

lemma stage_kept_entries:
  "stage_kept s s' \<Longrightarrow> stages s = xs @ [e] \<Longrightarrow>
   stages s' = xs @ [last (stages s')]
   \<and> list_all (\<lambda>k. dget (last (stages s')) k = dget e k) [''name'', ''command'', ''line'', ''profile'', ''log'', ''started_at'']"
  by (auto simp: stage_kept_def dest: append_butlast_last_id [symmetric]) (metis append_butlast_last_id list.size(3) nat.simps(3) length_append_singleton)

text \<open>The outcome of the command of a stage, when its process was started.\<close>

lemma stage_runs:
  assumes st: "stage os name command line profile (s, w) = (r, (s', w'))"
    and src: "source_identity os w = Inr (identity s)"
  obtains entry outcome where
    "stages s' = stages s @ [entry]"
    "dget entry ''name'' = JStr name" "dget entry ''line'' = JStr line" "dget entry ''profile'' = JStr profile"
    "dget entry ''status'' = JStr (stage_status outcome)"
    "same_run s s'" "saved s' = Some (report_of s')" "dget (head s') ''current_stage'' = JNull"
    "r = (if stage_status outcome = ''interrupted'' then Inl (LibError ''InterruptedError'')
          else if stage_status outcome = ''failed''
          then Inl (RuntimeError ''StageFailure: {} failed; see {}'' [JStr name, dget entry ''log''])
          else fst (check_source os (s', w')))"
proof -
  define s2 where "s2 = s\<lparr>readings := Suc (Suc (readings s))\<rparr>"
  define e where "e = stage_entry s2 name command line profile (utc_at os (readings s))"
  obtain run w1 where l: "launch os (stage_env (estate_dir s) line profile) e w = (run, w1)" by fastforce
  define s3 where "s3 = open_stage os name e s2"
  obtain outcome s4 where x: "execute os (mono_at os (Suc (readings s))) run s3 = (outcome, s4)" by fastforce
  define s5 where "s5 = close_stage os w1 (mono_at os (Suc (readings s))) outcome s4"
  have r2: "same_run s s2" by (simp add: s2_def same_run_def)
  have o: "stages s3 = stages s @ [e]" "same_run s2 s3"
    using open_stage_opens [OF s3_def] by (simp_all add: s2_def)
  have f: "turn_frame s3 s4" using execute_frame [of s3 os _ run] o(1) x by (metis snd_conv append_is_Nil_conv list.distinct(1))
  have n4: "stages s4 \<noteq> []" using turn_frame_nonempty [OF f] o(1) by simp
  note c = close_stage_closes [OF n4 s5_def]
  have "stage_kept s3 s5" using f c(1) stage_kept_trans by (auto simp: turn_frame_def)
  from stage_kept_entries [OF this o(1)]
  have k: "stages s5 = stages s @ [last (stages s5)]"
    "list_all (\<lambda>k. dget (last (stages s5)) k = dget e k) [''name'', ''command'', ''line'', ''profile'', ''log'', ''started_at'']"
    by auto
  have r5: "same_run s s5"
    using same_run_trans [OF same_run_trans [OF r2 o(2)] same_run_trans [OF _ c(2)]] f by (simp add: turn_frame_def)
  have res: "(r, (s', w')) =
     (if stage_status outcome = ''interrupted'' then (Inl (LibError ''InterruptedError''), (s5, w1))
      else if stage_status outcome = ''failed''
      then (Inl (RuntimeError ''StageFailure: {} failed; see {}'' [JStr name, dget e ''log'']), (s5, w1))
      else check_source os (s5, w1))"
    using st src l x
    by (simp add: stage_def check_source_def bindA_def session_clock s2_def [symmetric] e_def [symmetric]
        s3_def [symmetric] s5_def [symmetric] Let_def cong: if_cong)
  have "s' = s5" "w' = w1" using res by (auto simp: check_source_def split: if_splits)
  moreover have "r = (if stage_status outcome = ''interrupted'' then Inl (LibError ''InterruptedError'')
          else if stage_status outcome = ''failed''
          then Inl (RuntimeError ''StageFailure: {} failed; see {}'' [JStr name, dget (last (stages s5)) ''log''])
          else fst (check_source os (s5, w1)))"
    using res k(2) by (auto split: if_splits) (metis fst_conv)
  ultimately show ?thesis
    using that [of "last (stages s5)" outcome] k c(3-5) r5 by (simp add: e_def stage_entry_def dict_simps)
qed

lemma stage_status_range: "stage_status outcome \<in> {''passed'', ''failed'', ''interrupted''}"
  by (simp add: stage_status_def split: sum.splits prod.splits)

lemma stage_refused:
  "source_identity os w \<noteq> Inr (identity s) \<Longrightarrow>
   \<exists>e. stage os name command line profile (s, w) = (Inl e, (s, w))"
  by (cases "source_identity os w") (auto simp: stage_def check_source_def bindA_def)

lemma check_source_Inr: "fst (check_source os (s, w)) = Inr () \<longleftrightarrow> source_identity os w = Inr (identity s)"
  by (auto simp: check_source_def)

text \<open>
  A stage of a build whose sources are unchanged appends exactly one entry, with the status
  passed, failed or interrupted; the other stages and the variants are untouched, no stage is current any
  more, and the summary on disk is the report. It returns normally exactly when its status is passed
  and the sources are still unchanged; a failed status raises \<^verbatim>\<open>StageFailure\<close>, an interrupted one
  \<^verbatim>\<open>InterruptedError\<close>.
\<close>

theorem stage_closes:
  assumes "stage os name command line profile (s, w) = (r, (s', w'))"
    and "source_identity os w = Inr (identity s)"
  shows "\<exists>entry status. stages s' = stages s @ [entry] \<and> variants s' = variants s
    \<and> dget entry ''name'' = JStr name \<and> dget entry ''status'' = JStr status
    \<and> status \<in> {''passed'', ''failed'', ''interrupted''}
    \<and> (r = Inr () \<longleftrightarrow> status = ''passed'' \<and> source_identity os w' = Inr (identity s))
    \<and> (status = ''failed'' \<longrightarrow> r = Inl (RuntimeError ''StageFailure: {} failed; see {}'' [JStr name, dget entry ''log'']))
    \<and> (status = ''interrupted'' \<longrightarrow> r = Inl (LibError ''InterruptedError''))
    \<and> dget (head s') ''current_stage'' = JNull \<and> saved s' = Some (report_of s')"
proof -
  obtain entry outcome where e: "stages s' = stages s @ [entry]"
    "dget entry ''name'' = JStr name" "dget entry ''line'' = JStr line" "dget entry ''profile'' = JStr profile"
    "dget entry ''status'' = JStr (stage_status outcome)"
    "same_run s s'" "saved s' = Some (report_of s')" "dget (head s') ''current_stage'' = JNull"
    "r = (if stage_status outcome = ''interrupted'' then Inl (LibError ''InterruptedError'')
          else if stage_status outcome = ''failed''
          then Inl (RuntimeError ''StageFailure: {} failed; see {}'' [JStr name, dget entry ''log''])
          else fst (check_source os (s', w')))"
    by (rule stage_runs [OF assms])
  have "identity s' = identity s" using e(6) by (simp add: same_run_def)
  then have ok: "fst (check_source os (s', w')) = Inr () \<longleftrightarrow> source_identity os w' = Inr (identity s)"
    by (simp add: check_source_Inr)
  have "variants s' = variants s" using e(6) by (simp add: same_run_def)
  moreover have "r = Inr () \<longleftrightarrow> stage_status outcome = ''passed'' \<and> source_identity os w' = Inr (identity s)"
    using e(9) ok stage_status_range [of outcome] by auto
  ultimately show ?thesis
    using e stage_status_range [of outcome]
    by (intro exI [of _ entry] exI [of _ "stage_status outcome"]) simp
qed
section \<open>Cancellation\<close>

text \<open>The signals of a process run, in the order they arrive.\<close>

definition all_arrived :: "process_run \<Rightarrow> (string \<times> rat) list" where
  "all_arrived p = concat (map arrived (turns p)) @ last_arrived p"

lemma forwards_deadline:
  "deadline (foldl forward d sts) = (case deadline d of Some t \<Rightarrow> Some t
     | None \<Rightarrow> (case sts of [] \<Rightarrow> None | st # _ \<Rightarrow> Some (snd st + CANCEL_GRACE_SECONDS)))"
  by (induction sts arbitrary: d) (auto simp: forward_def split: option.splits)

lemma forwards_sent: "sent (foldl forward d sts) = sent d @ map fst sts"
  by (induction sts arbitrary: d) (auto simp: forward_def)

lemma poll_turn_drain:
  "deadline (fst (poll_turn os start (d, s) t)) = deadline (foldl forward d (arrived t))"
  "sent (fst (poll_turn os start (d, s) t)) = sent d @ map fst (arrived t)
     @ (case deadline (foldl forward d (arrived t)) of None \<Rightarrow> []
        | Some limit \<Rightarrow> if limit \<le> poll_time t then [''SIGKILL''] else [])"
  by (simp_all add: poll_turn_def Let_def kill_group_def forwards_sent split: option.splits)

lemma poll_turns_deadline:
  "deadline (fst (foldl (poll_turn os start) (d, s) ts)) = deadline (foldl forward d (concat (map arrived ts)))"
proof (induction ts arbitrary: d s)
  case (Cons t ts)
  obtain d' s' where t: "poll_turn os start (d, s) t = (d', s')" by fastforce
  have "deadline d' = deadline (foldl forward d (arrived t))" using poll_turn_drain(1) [of os start d s t] t by simp
  then show ?case using Cons.IH [of d' s'] t by (simp add: forwards_deadline)
qed simp

lemma poll_turns_sent:
  "sent (fst (foldl (poll_turn os start) (d, s) ts)) =
     sent d @ concat (map (\<lambda>i. map fst (arrived (ts ! i))
       @ (case deadline (foldl forward d (concat (map arrived (take (Suc i) ts)))) of None \<Rightarrow> []
          | Some limit \<Rightarrow> if limit \<le> poll_time (ts ! i) then [''SIGKILL''] else [])) [0..<length ts])"
proof (induction ts arbitrary: d s)
  case (Cons t ts)
  obtain d' s' where t: "poll_turn os start (d, s) t = (d', s')" by fastforce
  have d': "deadline d' = deadline (foldl forward d (arrived t))" using poll_turn_drain(1) [of os start d s t] t by simp
  have "deadline (foldl forward d' xs) = deadline (foldl forward d (arrived t @ xs))" for xs
    using d' by (simp add: forwards_deadline)
  moreover have "sent d' = sent d @ map fst (arrived t)
     @ (case deadline (foldl forward d (arrived t)) of None \<Rightarrow> []
        | Some limit \<Rightarrow> if limit \<le> poll_time t then [''SIGKILL''] else [])"
    using poll_turn_drain(2) [of os start d s t] t by simp
  ultimately show ?case
    using Cons.IH [of d' s'] t by (simp add: upt_conv_Cons map_Suc_upt [symmetric] comp_def
        del: upt_Suc cong: option.case_cong)
qed simp

section \<open>A run that stopped\<close>

lemma abandon_stage_status:
  "abandon_stage tail now v = Inr (JObj e) \<Longrightarrow>
   dget e ''status'' \<noteq> JStr ''running''
   \<and> (v \<noteq> JObj e \<longrightarrow> (\<exists>d. v = JObj d \<and> dget d ''status'' = JStr ''running''
        \<and> dget e ''status'' = JStr ''abandoned'' \<and> dget e ''finished_at'' = JStr now))"
  by (cases v) (auto simp: abandon_stage_def Let_def dict_simps split: if_splits json.splits)

lemma abandon_variant_status:
  "abandon_variant now v = JObj e \<Longrightarrow>
   dget e ''status'' \<noteq> JStr ''running''
   \<and> (v \<noteq> JObj e \<longrightarrow> (\<exists>d. v = JObj d \<and> dget d ''status'' = JStr ''running''
        \<and> dget e ''status'' = JStr ''abandoned'' \<and> dget e ''finished_at'' = JStr now))"
  by (cases v) (auto simp: abandon_variant_def Let_def dict_simps split: if_splits)

lemma elements_of_put_list [simp]:
  "length vs = length (elements_of d f) \<Longrightarrow> elements_of (put_list f vs d) f = vs"
  by (auto simp: elements_of_def put_list_def field_list_def split: option.splits)

lemma elements_of_put_other [simp]: "g \<noteq> f \<Longrightarrow> elements_of (put_list f vs d) g = elements_of d g"
  by (simp add: elements_of_def put_list_def field_list_def)

lemma elements_of_cong: "map_of d f = map_of d' f \<Longrightarrow> elements_of d f = elements_of d' f"
  by (simp add: elements_of_def field_list_def)

lemma report_paths_keys: "fst ` set (report_paths p) = {''summary_path'', ''events_path'', ''result_path''}"
  by (auto simp: report_paths_def)

lemma map_of_outside:
  "k \<noteq> k0 \<and> k \<notin> fst ` set a \<and> k \<notin> fst ` set b \<Longrightarrow>
   map_of (dput k0 v (update_all a (update_all b d))) k = map_of d k"
  by (simp add: map_of_update_all_other)

section \<open>Sample runs\<close>

text \<open>A checkout of one file, a command that is cancelled by a signal and one that passes.\<close>

definition sample_process :: "(string \<times> rat) list \<Rightarrow> process_run" where
  "sample_process sts =
     \<lparr>turns = [\<lparr>arrived = sts, poll_time = 1, turn_size = 5, turn_line = None\<rparr>,
               \<lparr>arrived = [], poll_time = 20, turn_size = 9, turn_line = Some ''ok''\<rparr>],
      last_arrived = [], process_pid = 7, exit_code = 0\<rparr>"

definition sample_os :: "unit build_os" where
  "sample_os =
     \<lparr>ls_files = (\<lambda>w. Inr ''a''), entry_at = (\<lambda>w p. LinkTo ''t''), sha256 = id, dir_first = (\<lambda>w p. None),
      launch = (\<lambda>env e w. (Inr (sample_process []), w)), poll_interval = 30,
      log_tail = (\<lambda>w l n. [''done'']), log_size = (\<lambda>w l. Some 9), utc_at = (\<lambda>n. ''t''), mono_at = (\<lambda>n. 0),
      round3 = id\<rparr>"

definition sample_session :: session where
  "sample_session =
     \<lparr>head = [(''status'', JStr ''running'')], stages = [], variants = [], events = [], saved = None, result = None,
      readings = 0, started = 0, identity = ''a'' @ [nul] @ ''link'' @ [nul] @ ''t'', estate_dir = PPath Slash [''e''],
      run_dir = PPath Slash [''r'']\<rparr>"

lemma sample_source: "source_identity sample_os w = Inr (identity sample_session)"
  by (cases w) code_simp

lemma stage_closes_witness:
  "\<exists>entry. stages (fst (snd (stage sample_os ''b'' [] ''l'' ''p'' (sample_session, ())))) = [entry]
    \<and> dget entry ''name'' = JStr ''b''"
proof -
  obtain r s' w' where t: "stage sample_os ''b'' [] ''l'' ''p'' (sample_session, ()) = (r, (s', w'))"
    by (metis prod.exhaust)
  have "stages sample_session = []" by (simp add: sample_session_def)
  then have "stages sample_session @ [e] = [e]" for e by simp
  with stage_closes [OF t sample_source] show ?thesis unfolding t fst_conv snd_conv by metis
qed


definition stale_view :: report_view where
  "stale_view =
     \<lparr>pointer_file = None, legacy = [PPath Slash [''e'', ''r'', ''summary.json'']], resolve_path = Some,
      report_file = (\<lambda>p. Some (Some (JObj [(''status'', JStr ''running''),
        (''stages'', JList [JObj [(''status'', JStr ''passed'')], JObj [(''status'', JStr ''running'')]])])))\<rparr>"


end
