(* ===== verification/BcrMirrorRun.thy ===== *)
theory BcrMirrorRun
  imports BcrMirror
begin

text \<open>
  A mirror that was acquired passes the read-only verification, nothing but its own places is written,
  and the repository cache holds only bytes with the hash of their place.
\<close>

section \<open>Paths below a directory\<close>

lemma slash_relative: "\<not> prefix ''/'' s \<Longrightarrow> relative_to (slash p s) p"
  by (simp add: relative_to_def joinpath_def parse_def splitroot_def absolute_def)

lemma relative_slash: "relative_to p q \<Longrightarrow> \<not> prefix ''/'' s \<Longrightarrow> relative_to (slash p s) q"
  using slash_relative relative_to_trans by blast

lemma relative_disjoint:
  "relative_to p (PPath a (ns @ x # xs)) \<Longrightarrow> relative_to p (PPath b (ns @ y # ys)) \<Longrightarrow> x = y"
  by (auto simp: relative_to_def prefix_def)

lemma parse_simple: "''/'' \<noteq> s \<Longrightarrow> CHR ''/'' \<notin> set s \<Longrightarrow> real_name s \<Longrightarrow> parse s = PPath Rel [s]"
  by (rule parse_name)

lemma mirror_disjoint:
  "relative_to p (bcr_root (mirror_at estate registry repo net)) \<Longrightarrow>
   \<not> relative_to p (repository_cache (mirror_at estate registry repo net))"
proof -
  have a: "bcr_root (mirror_at estate registry repo net) = PPath (anchor_of estate) (names estate @ ''sources'' # [''bcr''])"
    by (cases estate) (simp add: mirror_at_def parse_name real_name_def joinpath_def absolute_def)
  have b: "repository_cache (mirror_at estate registry repo net)
      = PPath (anchor_of estate) (names estate @ ''vaso'' # [''cache'', ''bazel'', ''repository-cache''])"
    by (cases estate) (simp add: mirror_at_def parse_name real_name_def joinpath_def absolute_def)
  show "relative_to p (bcr_root (mirror_at estate registry repo net)) \<Longrightarrow> ?thesis"
    unfolding a b using relative_disjoint by fastforce
qed

section \<open>What an operation writes\<close>

definition only_writes :: "(ppath \<Rightarrow> bool) \<Rightarrow> (store, 'a) act \<Rightarrow> bool" where
  "only_writes P m = (\<forall>st r st' p. m st = (r, st') \<longrightarrow> \<not> P p \<longrightarrow> st' p = st p)"

lemma only_writes_D: "only_writes P m \<Longrightarrow> m st = (r, st') \<Longrightarrow> \<not> P p \<Longrightarrow> st' p = st p"
  by (auto simp: only_writes_def)

lemma only_writes_pure: "only_writes P (pureA r)"
  by (simp add: only_writes_def pureA_def)

lemma only_writes_bind:
  assumes "only_writes P m" "\<And>x. only_writes P (f x)"
  shows "only_writes P (bindA m f)"
  unfolding only_writes_def
proof (intro allI impI)
  fix st r st' p assume b: "bindA m f st = (r, st')" and p: "\<not> P p"
  obtain r1 st1 where m: "m st = (r1, st1)" by fastforce
  have 1: "st1 p = st p" using assms(1) m p by (rule only_writes_D)
  show "st' p = st p"
  proof (cases r1)
    case (Inr x)
    then have "f x st1 = (r, st')" using b m by (simp add: bindA_def)
    then show ?thesis using only_writes_D [OF assms(2)] p 1 by metis
  qed (use b m 1 in \<open>simp add: bindA_def\<close>)
qed

lemma only_writes_get: "(\<And>st. only_writes P (f st)) \<Longrightarrow> only_writes P (getA f)"
  by (simp add: only_writes_def)

lemma only_writes_for: "(\<And>x. x \<in> set xs \<Longrightarrow> only_writes P (f x)) \<Longrightarrow> only_writes P (forA f xs)"
  by (induction xs) (auto intro: only_writes_pure only_writes_bind)

lemma only_writes_read: "only_writes P (read_file p)"
  by (simp add: only_writes_def read_file_def)

lemma only_writes_file: "P p \<Longrightarrow> only_writes P (write_file p b)"
  by (auto simp: only_writes_def write_file_def)

lemma only_writes_touch: "P p \<Longrightarrow> only_writes P (touch p)"
  by (auto simp: only_writes_def touch_def split: option.splits)

lemma only_writes_if: "(c \<Longrightarrow> only_writes P a) \<Longrightarrow> (\<not> c \<Longrightarrow> only_writes P b) \<Longrightarrow> only_writes P (if c then a else b)"
  by simp

lemma only_writes_mono: "only_writes P m \<Longrightarrow> (\<And>p. P p \<Longrightarrow> Q p) \<Longrightarrow> only_writes Q m"
  unfolding only_writes_def by blast

lemmas only_writes_steps = only_writes_bind only_writes_pure only_writes_get only_writes_for only_writes_read
  only_writes_if only_writes_file only_writes_touch

lemma only_writes_fetch: "only_writes P (fetch lib net repo row)"
  unfolding fetch_def by (intro only_writes_steps)

lemma cache_file_eq:
  assumes "\<not> prefix ''/'' sha"
  shows "cache_file cache sha =
    PPath (anchor_of cache) (names cache @ [''content_addressable'', ''sha256''] @ names (parse sha) @ [''file''])"
proof -
  have "\<not> absolute (parse sha)" using assms by (simp add: absolute_def parse_def splitroot_def)
  then show ?thesis
    by (cases cache) (simp add: cache_file_def parse_name real_name_def joinpath_def absolute_def)
qed

lemma cache_file_relative: "\<not> prefix ''/'' sha \<Longrightarrow> relative_to (cache_file cache sha) cache"
  by (simp add: cache_file_eq relative_to_def)

lemma cache_dir_relative: "\<not> prefix ''/'' sha \<Longrightarrow> relative_to (parent (cache_file cache sha)) cache"
  by (simp add: cache_file_eq relative_to_def parent_def butlast_append)

lemma only_writes_seed:
  assumes "\<not> prefix ''/'' sha"
  shows "only_writes (\<lambda>p. relative_to p cache) (seed_repository_cache lib cache archive sha ids)"
  unfolding seed_repository_cache_def copy_verified_archive_def Let_def
  using assms by (intro only_writes_steps relative_slash cache_dir_relative cache_file_relative) simp_all
section \<open>A row of the manifest\<close>

lemma bind_pure: "bindA (pureA (Inr x)) f = f x" "bindA (pureA (Inl e)) f = pureA (Inl e)"
  by (simp_all add: fun_eq_iff bindA_def pureA_def)

definition row_place :: "bcr_lib \<Rightarrow> mirror \<Rightarrow> manifest_row \<Rightarrow> ppath res" where
  "row_place lib m row =
     (if row_kind row = ''source-archive'' then archive_store_path lib (bcr_root m) row else registry_path lib m row)"

definition row_writes :: "bcr_lib \<Rightarrow> mirror \<Rightarrow> manifest_row \<Rightarrow> ppath list" where
  "row_writes lib m row =
     (case row_place lib m row of
        Inl e \<Rightarrow> []
      | Inr p \<Rightarrow> if source_json_kind (row_kind row) then [p, original_path m row] else [p])"

lemma source_json_not_archive: "source_json_kind k \<Longrightarrow> k \<noteq> ''source-archive'' \<and> k \<noteq> ''overlay'' \<and> k \<noteq> ''patch''"
  by (auto simp: source_json_kind_def)

lemma only_writes_materialize:
  "P p \<Longrightarrow> only_writes P (materialize_registry_file lib net repo p row)"
  "P p \<Longrightarrow> only_writes P (materialize_archive lib net repo p row)"
  unfolding materialize_registry_file_def materialize_archive_def
  by (intro only_writes_steps only_writes_fetch; assumption)+

lemma only_writes_check: "only_writes P (check_rewritten lib m row archive dest)"
  unfolding check_rewritten_def by (intro only_writes_steps)

lemma only_writes_rewritten:
  "P (original_path m row) \<Longrightarrow> P dest \<Longrightarrow> only_writes P (fetch_rewritten lib m row archive dest)"
  unfolding fetch_rewritten_def by (intro only_writes_steps only_writes_fetch; assumption)

lemma acquire_row_writes:
  assumes "\<not> prefix ''/'' (row_sha row)"
  shows "only_writes (\<lambda>p. p \<in> set (row_writes lib m row) \<or> relative_to p (repository_cache m)) (acquire_row lib m rows row)"
proof (cases "row_place lib m row")
  case (Inl e)
  then show ?thesis
    by (auto simp: row_place_def acquire_row_def acquire_archive_def acquire_source_json_def acquire_patch_def
        acquire_registry_def bind_pure only_writes_pure split: if_splits option.splits)
next
  case (Inr p)
  let ?P = "\<lambda>p. p \<in> set (row_writes lib m row) \<or> relative_to p (repository_cache m)"
  have P: "?P p" using Inr by (simp add: row_writes_def)
  have seed: "only_writes ?P (seed_repository_cache lib (repository_cache m) a (row_sha row) ids)" for a ids
    by (rule only_writes_mono [OF only_writes_seed [OF assms]]) simp
  show ?thesis
  proof (cases "row_kind row = ''source-archive''")
    case True
    then have "archive_store_path lib (bcr_root m) row = Inr p" using Inr by (simp add: row_place_def)
    then have "acquire_row lib m rows row = bindA (materialize_archive lib (networked m) (repo_root m) p row) (\<lambda>_.
     bindA (pureA (archive_file_url lib row)) (\<lambda>u.
     bindA (seed_repository_cache lib (repository_cache m) p (row_sha row) [row_url row, u]) (\<lambda>_.
     pureA (Inr ()))))"
      using True by (simp add: acquire_row_def acquire_archive_def bind_pure)
    then show ?thesis
      by (simp only:) (intro only_writes_bind only_writes_pure only_writes_materialize seed, use P in auto)
  next
    case False
    then have reg: "registry_path lib m row = Inr p" using Inr by (simp add: row_place_def)
    show ?thesis
    proof (cases "source_json_kind (row_kind row)")
      case True
      have o: "?P (original_path m row)" using Inr True by (simp add: row_writes_def)
      have "only_writes ?P (acquire_source_json lib m rows row)"
      proof (cases "archive_of rows (row_module row) (row_version row)")
        case None
        then show ?thesis by (simp add: acquire_source_json_def only_writes_pure)
      next
        case (Some a)
        show ?thesis
          unfolding acquire_source_json_def reg bind_pure Some option.case
          by (intro only_writes_get only_writes_if only_writes_check only_writes_rewritten) (rule o P)+
      qed
      then show ?thesis using False True by (simp add: acquire_row_def)
    next
      case sj: False
      have "only_writes ?P (acquire_patch lib m rows row)"
        unfolding acquire_patch_def reg bind_pure
        by (intro only_writes_bind only_writes_pure only_writes_materialize seed) (use P in auto)
      moreover have "only_writes ?P (acquire_registry lib m row)"
        unfolding acquire_registry_def reg bind_pure by (rule only_writes_materialize(1)) (use P in simp)
      ultimately show ?thesis using False sj by (simp add: acquire_row_def)
    qed
  qed
qed
section \<open>A row that was acquired verifies\<close>

definition sizes_true :: "bcr_lib \<Rightarrow> manifest_row \<Rightarrow> bool" where
  \<comment> \<open>the bytes that a row pins have the size of the row\<close>
  "sizes_true lib row = (\<forall>data. sha256 lib data = row_sha row \<longrightarrow> row_size row = 0 \<or> length data = row_size row)"

definition pinned :: "bcr_lib \<Rightarrow> store \<Rightarrow> manifest_row \<Rightarrow> ppath \<Rightarrow> bool" where
  "pinned lib st row p = (\<exists>b. st p = Some b \<and> verify_row_bytes lib row b = Inr ())"

lemma verify_row_bytes_Inr:
  "verify_row_bytes lib row b = Inr () \<longleftrightarrow> sha256 lib b = row_sha row \<and> (row_size row = 0 \<or> length b = row_size row)"
  by (auto simp: verify_row_bytes_def)

lemma has_hash_pinned: "has_hash lib st p (row_sha row) \<Longrightarrow> sizes_true lib row \<Longrightarrow> pinned lib st row p"
  by (auto simp: has_hash_def pinned_def verify_row_bytes_Inr sizes_true_def split: option.splits)

lemma fetch_Inr: "fetch lib net repo row st = (Inr data, st') \<Longrightarrow> verify_row_bytes lib row data = Inr ()"
  by (auto simp: fetch_def bindA_Inr)

lemma write_file_eq [simp]: "write_file p b st = (r, st') \<longleftrightarrow> r = Inr () \<and> st' = st(p := Some b)"
  by (auto simp: write_file_def)

lemma materialized_pinned:
  assumes "sizes_true lib row"
  shows "materialize_registry_file lib net repo p row st = (Inr u, st') \<Longrightarrow> pinned lib st' row p"
    and "materialize_archive lib net repo p row st = (Inr u, st') \<Longrightarrow> pinned lib st' row p"
  using assms
  by (auto simp: materialize_registry_file_def materialize_archive_def bindA_Inr pinned_def
      dest: fetch_Inr has_hash_pinned [unfolded pinned_def] split: if_splits)

lemma pinned_read: "pinned lib st row p \<Longrightarrow> \<exists>b. st p = Some b \<and> read_checked lib st p row = Inr b"
  by (auto simp: pinned_def read_checked_def)

lemma pinned_cong: "st' p = st p \<Longrightarrow> pinned lib st' row p = pinned lib st row p"
  by (simp add: pinned_def)

lemma verified_place: "verify_row lib m st rows row = Inr u \<Longrightarrow> \<exists>p. row_place lib m row = Inr p"
  by (cases "row_kind row = ''source-archive''"; cases "source_json_kind (row_kind row)")
    (auto simp: verify_row_def row_place_def verify_source_json_def split: option.splits)

lemma verify_row_cong:
  assumes "\<forall>p\<in>set (row_writes lib m row). st' p = st p" and Inr: "row_place lib m row = Inr p"
  shows "verify_row lib m st' rows row = verify_row lib m st rows row"
proof -
  consider (archive) "row_kind row = ''source-archive''" | (json) "source_json_kind (row_kind row)"
    | (other) "row_kind row \<noteq> ''source-archive''" "\<not> source_json_kind (row_kind row)" by blast
  then show ?thesis
  proof cases
    case archive
    then show ?thesis using Inr assms by (simp add: row_place_def verify_row_def row_writes_def read_checked_def)
  next
    case json
    note k = source_json_not_archive [OF json]
    then show ?thesis using Inr assms json
      by (simp add: row_place_def verify_row_def row_writes_def read_checked_def verify_source_json_def cong: option.case_cong)
  next
    case other
    then show ?thesis using Inr assms by (simp add: row_place_def verify_row_def row_writes_def read_checked_def)
  qed
qed

lemma check_rewritten_Inr:
  assumes "check_rewritten lib m row archive dest st = (Inr u, st')"
  shows "st' = st \<and> has_hash lib st (original_path m row) (row_sha row)
    \<and> (\<exists>original expected. st (original_path m row) = Some original
         \<and> rewrite_source_json lib original archive = Inr expected \<and> st dest = Some expected)"
  using assms by (auto simp: check_rewritten_def bindA_Inr read_file_def split: if_splits option.splits)

lemma fetch_rewritten_Inr:
  assumes "fetch_rewritten lib m row archive dest st = (Inr u, st')" "dest \<noteq> original_path m row"
  shows "pinned lib st' row (original_path m row)
    \<and> (\<exists>original expected. st' (original_path m row) = Some original
         \<and> rewrite_source_json lib original archive = Inr expected \<and> st' dest = Some expected)"
  using assms by (auto simp: fetch_rewritten_def bindA_Inr pinned_def dest!: fetch_Inr)

lemma acquired_source_json:
  assumes a: "acquire_source_json lib m rows row st = (Inr u, st')" and sz: "sizes_true lib row"
    and p: "registry_path lib m row = Inr p" "p \<noteq> original_path m row"
  shows "verify_source_json lib m st' rows row = Inr ()"
proof -
  obtain archive where ar: "archive_of rows (row_module row) (row_version row) = Some archive"
    and r: "(if \<not> networked m \<and> st p \<noteq> None then check_rewritten lib m row archive p
             else fetch_rewritten lib m row archive p) st = (Inr u, st')"
    using a p(1) by (auto simp: acquire_source_json_def bind_pure split: option.splits)
  have "pinned lib st' row (original_path m row)
    \<and> (\<exists>original expected. st' (original_path m row) = Some original
         \<and> rewrite_source_json lib original archive = Inr expected \<and> st' p = Some expected)"
  proof (cases "\<not> networked m \<and> st p \<noteq> None")
    case True
    then show ?thesis using check_rewritten_Inr [of lib m row archive p st u st'] has_hash_pinned sz r by auto
  next
    case False
    then show ?thesis using fetch_rewritten_Inr [of lib m row archive p st u st'] p(2) r by auto
  qed
  then show ?thesis using ar p(1) by (auto simp: verify_source_json_def dest!: pinned_read)
qed

lemma acquired_row_verifies:
  assumes a: "acquire_row lib m rows row st = (Inr u, st')" and sz: "sizes_true lib row"
    and d: "distinct (row_writes lib m row)" "\<forall>p\<in>set (row_writes lib m row). \<not> relative_to p (repository_cache m)"
    and sha: "\<not> prefix ''/'' (row_sha row)"
  shows "verify_row lib m st' rows row = Inr ()"
proof -
  have seed: "st2 p = st1 p" if "seed_repository_cache lib (repository_cache m) f (row_sha row) ids st1 = (r, st2)"
    "p \<in> set (row_writes lib m row)" for f ids st1 r st2 p
    using only_writes_D [OF only_writes_seed [OF sha] that(1)] d(2) that(2) by blast
  consider (archive) "row_kind row = ''source-archive''" | (json) "source_json_kind (row_kind row)"
    | (other) "row_kind row \<noteq> ''source-archive''" "\<not> source_json_kind (row_kind row)" by blast
  then show ?thesis
  proof cases
    case archive
    obtain p st1 i f where "archive_store_path lib (bcr_root m) row = Inr p"
      "materialize_archive lib (networked m) (repo_root m) p row st = (Inr (), st1)"
      "seed_repository_cache lib (repository_cache m) p (row_sha row) i st1 = (Inr f, st')"
      using a archive by (auto simp: acquire_row_def acquire_archive_def bindA_Inr)
    moreover from this archive have "st' p = st1 p"
      by (intro seed) (auto simp: row_writes_def row_place_def)
    ultimately show ?thesis
      using materialized_pinned(2) [OF sz] archive
      by (auto simp: verify_row_def pinned_cong [of st'] dest!: pinned_read) (metis pinned_cong pinned_read sum.case(2) bindE_simps(2))
  next
    case json
    note k = source_json_not_archive [OF json]
    obtain p where p: "registry_path lib m row = Inr p"
      using a json k by (cases "registry_path lib m row")
        (auto simp: acquire_row_def acquire_source_json_def bind_pure pureA_def split: option.splits)
    have "p \<noteq> original_path m row" using d(1) p json k by (auto simp: row_writes_def row_place_def)
    with p show ?thesis using acquired_source_json [of lib m rows row st u st'] a sz json k
      by (simp add: acquire_row_def verify_row_def)
  next
    case other
    obtain p st1 where p: "registry_path lib m row = Inr p"
      "materialize_registry_file lib (networked m) (repo_root m) p row st = (Inr (), st1)" "st' p = st1 p"
    proof (cases "row_kind row = ''overlay'' \<or> row_kind row = ''patch''")
      case True
      then obtain p st1 i f where "registry_path lib m row = Inr p"
        "materialize_registry_file lib (networked m) (repo_root m) p row st = (Inr (), st1)"
        "seed_repository_cache lib (repository_cache m) p (row_sha row) i st1 = (Inr f, st')"
        using a other by (auto simp: acquire_row_def acquire_patch_def bindA_Inr)
      moreover from this other have "st' p = st1 p"
        by (intro seed) (auto simp: row_writes_def row_place_def)
      ultimately show ?thesis using that by blast
    next
      case False
      then show ?thesis using a other that by (auto simp: acquire_row_def acquire_registry_def bindA_Inr)
    qed
    then have "pinned lib st' row p" using materialized_pinned(1) [OF sz] pinned_cong by metis
    then show ?thesis using p(1) other by (auto simp: verify_row_def dest!: pinned_read)
  qed
qed
section \<open>The whole mirror\<close>

lemma manifest_fields_row:
  assumes "manifest_fields lib n md version kind u sha sz = Inr r"
  shows "row_kind r \<in> set VALID_KINDS \<and> sha_text (row_sha r)
    \<and> (prefix ''https://'' (row_url r) \<or> row_kind r \<noteq> ''source-archive'' \<and> (\<exists>p. repo_url_path lib (row_url r) = Inr p))"
  using assms by (auto simp: manifest_fields_def bad_line_def REPO_LOCAL_KINDS_def split: if_splits)

lemma manifest_line_row:
  assumes "manifest_line lib nl = Inr rs" "r \<in> set rs"
  shows "\<exists>n md version kind u sha sz. manifest_fields lib n md version kind u sha sz = Inr r"
proof -
  have "\<exists>fs. manifest_fields lib (fst nl) (fs ! 0) (fs ! 1) (fs ! 2) (fs ! 3) (fs ! 4) (fs ! 5) = Inr r"
    using assms unfolding manifest_line_def Let_def bad_line_def
    by (intro exI [of _ "split_on tab (strip (snd nl))"]) (auto simp del: split_on.simps split: if_split_asm)
  then show ?thesis by blast
qed

lemma load_manifest_rows:
  assumes "load_manifest lib contents = Inr rows" "r \<in> set rows"
  shows "row_kind r \<in> set VALID_KINDS \<and> sha_text (row_sha r)
    \<and> (prefix ''https://'' (row_url r) \<or> row_kind r \<noteq> ''source-archive'' \<and> (\<exists>p. repo_url_path lib (row_url r) = Inr p))"
proof -
  obtain nl rs where "manifest_line lib nl = Inr rs" "r \<in> set rs"
    using concatE_in [OF assms(1) [unfolded load_manifest_def] assms(2)] by blast
  from manifest_line_row [OF this] show ?thesis using manifest_fields_row by blast
qed

lemma sha_text_relative: "sha_text s \<Longrightarrow> \<not> prefix ''/'' s"
  by (cases s) (auto simp: sha_text_def lower_hex_def is_digit_def)

definition separate :: "bcr_lib \<Rightarrow> mirror \<Rightarrow> manifest_row list \<Rightarrow> bool" where
  \<comment> \<open>no two files of the mirror have the same place, and all are below its root\<close>
  "separate lib m rows =
     (distinct (concat (map (row_writes lib m) rows) @ map (metadata_path m \<circ> fst) (module_versions rows))
      \<and> list_all (\<lambda>p. relative_to p (bcr_root m))
           (concat (map (row_writes lib m) rows) @ map (metadata_path m \<circ> fst) (module_versions rows)))"

lemma acquired_rows_verify:
  assumes "forA (acquire_row lib m rows) xs st = (Inr u, st')"
    and "distinct (concat (map (row_writes lib m) xs))"
    and "\<And>p. p \<in> set (concat (map (row_writes lib m) xs)) \<Longrightarrow> \<not> relative_to p (repository_cache m)"
    and "\<And>r. r \<in> set xs \<Longrightarrow> sizes_true lib r \<and> \<not> prefix ''/'' (row_sha r)"
  shows "\<forall>r\<in>set xs. verify_row lib m st' rows r = Inr ()"
  using assms
proof (induction xs arbitrary: st)
  case (Cons x xs)
  obtain st1 where st1: "acquire_row lib m rows x st = (Inr (), st1)" "forA (acquire_row lib m rows) xs st1 = (Inr u, st')"
    using Cons.prems(1) by (auto simp: bindA_Inr)
  have "verify_row lib m st1 rows x = Inr ()"
    by (rule acquired_row_verifies [OF st1(1)]) (use Cons.prems(2-4) in auto)
  moreover have "st' p = st1 p" if p: "p \<in> set (row_writes lib m x)" for p
  proof -
    have "only_writes (\<lambda>p. p \<in> set (concat (map (row_writes lib m) xs)) \<or> relative_to p (repository_cache m))
        (forA (acquire_row lib m rows) xs)"
    proof (rule only_writes_for)
      fix r assume "r \<in> set xs"
      then show "only_writes (\<lambda>p. p \<in> set (concat (map (row_writes lib m) xs)) \<or> relative_to p (repository_cache m))
          (acquire_row lib m rows r)"
        using Cons.prems(4) by (intro only_writes_mono [OF acquire_row_writes]) auto
    qed
    from only_writes_D [OF this st1(2), of p] show ?thesis using p Cons.prems(2,3) by auto
  qed
  moreover have "\<forall>r\<in>set xs. verify_row lib m st' rows r = Inr ()"
    using Cons.prems(2-4) by (intro Cons.IH [OF st1(2)]) auto
  ultimately show ?case using verify_row_cong verified_place by (metis set_ConsD)
qed simp

lemma synthetic_writes:
  "only_writes (\<lambda>p. p \<in> set (map (metadata_path m \<circ> fst) (module_versions rows))) (write_synthetic_metadata lib m rows)"
  unfolding write_synthetic_metadata_def
  by (intro only_writes_for) (force intro!: only_writes_file)


section \<open>The repository cache\<close>

definition cache_sound :: "bcr_lib \<Rightarrow> ppath \<Rightarrow> store \<Rightarrow> bool" where
  \<comment> \<open>a cached file has the hash that its place names\<close>
  "cache_sound lib cache st = (\<forall>sha b. sha_text sha \<longrightarrow> st (cache_file cache sha) = Some b \<longrightarrow> sha256 lib b = sha)"
lemma keeps_writes:
  assumes "only_writes P m" "\<And>p. P p \<Longrightarrow> \<not> relative_to p cache"
  shows "keeps (cache_sound lib cache) m"
  unfolding keeps_iff cache_sound_def
proof (intro allI impI)
  fix st r st' sha b
  assume m: "m st = (r, st')" and I: "\<forall>sha b. sha_text sha \<longrightarrow> st (cache_file cache sha) = Some b \<longrightarrow> sha256 lib b = sha"
    and sha: "sha_text sha" "st' (cache_file cache sha) = Some b"
  have "relative_to (cache_file cache sha) cache" by (rule cache_file_relative [OF sha_text_relative [OF sha(1)]])
  then have "st' (cache_file cache sha) = st (cache_file cache sha)"
    using only_writes_D [OF assms(1) m] assms(2) by blast
  then show "sha256 lib b = sha" using I sha by simp
qed

lemma sha_text_names: "sha_text s \<Longrightarrow> parse s = PPath Rel [s]"
  by (rule parse_name) (auto simp: sha_text_def real_name_def list_all_iff lower_hex_def is_digit_def)

lemma cache_file_inj: "sha_text a \<Longrightarrow> sha_text b \<Longrightarrow> cache_file cache a = cache_file cache b \<Longrightarrow> a = b"
  by (simp add: cache_file_eq sha_text_relative sha_text_names)

lemma id_name: "sha_text h \<Longrightarrow> parse (''id-'' @ h) = PPath Rel [''id-'' @ h]"
  by (rule parse_name) (auto simp: sha_text_def real_name_def list_all_iff lower_hex_def is_digit_def)

lemma keeps_seed:
  assumes sha: "sha_text sha" and hashes: "\<And>b. sha_text (sha256 lib b)"
  shows "keeps (cache_sound lib cache) (seed_repository_cache lib cache archive sha ids)"
proof -
  have touch: "keeps (cache_sound lib cache) (touch (slash (parent (cache_file cache sha)) (''id-'' @ sha256 lib i)))" for i
  proof -
    have i: "parse (''id-'' @ sha256 lib i) = PPath Rel [''id-'' @ sha256 lib i]" by (rule id_name [OF hashes])
    have "cache_file cache s \<noteq> slash (parent (cache_file cache sha)) (''id-'' @ sha256 lib i)" if "sha_text s" for s
      unfolding i using that sha
      by (simp add: cache_file_eq sha_text_relative sha_text_names joinpath_def absolute_def parent_def butlast_append)
    then show ?thesis
      by (auto simp: keeps_iff touch_def cache_sound_def split: option.splits)
  qed
  have copy: "keeps (cache_sound lib cache) (copy_verified_archive lib archive (cache_file cache sha) sha)"
    using cache_file_inj [OF _ sha]
    by (auto simp: keeps_iff copy_verified_archive_def bindA_def pureA_def read_file_def write_file_def cache_sound_def
        split: option.splits if_splits sum.splits prod.splits)
  have read: "keeps (cache_sound lib cache) (read_file archive)" by (simp add: keeps_iff read_file_def)
  show ?thesis
    unfolding seed_repository_cache_def Let_def
    by (intro keeps_bind keeps_if keeps_get keeps_pure keeps_for touch copy read)
qed
lemma keeps_row:
  assumes sha: "sha_text (row_sha row)" and hashes: "\<And>b. sha_text (sha256 lib b)"
    and w: "\<And>p. p \<in> set (row_writes lib m row) \<Longrightarrow> \<not> relative_to p (repository_cache m)"
  shows "keeps (cache_sound lib (repository_cache m)) (acquire_row lib m rows row)"
proof (cases "row_place lib m row")
  case (Inl e)
  then show ?thesis
    by (auto simp: row_place_def acquire_row_def acquire_archive_def acquire_source_json_def acquire_patch_def
        acquire_registry_def bind_pure keeps_pure split: if_splits option.splits)
next
  case (Inr p)
  note seed = keeps_seed [OF sha hashes, of "repository_cache m"]
  have p: "\<not> relative_to p (repository_cache m)" using w Inr by (simp add: row_writes_def)
  have mat: "keeps (cache_sound lib (repository_cache m)) (materialize_registry_file lib net repo p row)"
    "keeps (cache_sound lib (repository_cache m)) (materialize_archive lib net repo p row)" for net repo
    by (rule keeps_writes [OF only_writes_materialize(1) [of "\<lambda>q. q = p"]]; use p in simp)
       (rule keeps_writes [OF only_writes_materialize(2) [of "\<lambda>q. q = p"]]; use p in simp)
  show ?thesis
  proof (cases "row_kind row = ''source-archive''")
    case True
    then have "archive_store_path lib (bcr_root m) row = Inr p" using Inr by (simp add: row_place_def)
    then show ?thesis
      using True by (simp add: acquire_row_def acquire_archive_def bind_pure) (intro keeps_bind keeps_pure mat seed)
  next
    case False
    then have reg: "registry_path lib m row = Inr p" using Inr by (simp add: row_place_def)
    show ?thesis
    proof (cases "source_json_kind (row_kind row)")
      case True
      have o: "\<not> relative_to (original_path m row) (repository_cache m)" using w Inr True by (simp add: row_writes_def)
      have "keeps (cache_sound lib (repository_cache m)) (fetch_rewritten lib m row a p)" for a
        by (rule keeps_writes [OF only_writes_rewritten [of "\<lambda>q. q = p \<or> q = original_path m row"]]) (use o p in auto)
      moreover have "keeps (cache_sound lib (repository_cache m)) (check_rewritten lib m row a p)" for a
        by (rule keeps_writes [OF only_writes_check [of "\<lambda>q. False"]]) simp
      ultimately have "keeps (cache_sound lib (repository_cache m)) (acquire_source_json lib m rows row)"
        unfolding acquire_source_json_def reg bind_pure
        by (cases "archive_of rows (row_module row) (row_version row)")
          (simp_all only: option.case, intro keeps_pure, intro keeps_get keeps_if)
      then show ?thesis using False True by (simp add: acquire_row_def)
    next
      case sj: False
      have "keeps (cache_sound lib (repository_cache m)) (acquire_patch lib m rows row)"
        unfolding acquire_patch_def reg bind_pure by (intro keeps_bind keeps_pure mat seed)
      moreover have "keeps (cache_sound lib (repository_cache m)) (acquire_registry lib m row)"
        unfolding acquire_registry_def reg bind_pure by (rule mat)
      ultimately show ?thesis using False sj by (simp add: acquire_row_def)
    qed
  qed
qed

text \<open>
  C24. The repository cache stays sound: if every file of the cache has the hash that its place names,
  this is so after an acquisition too, also when the acquisition stops with an error.
\<close>

theorem repository_cache_stays_sound:
  assumes "acquire lib (mirror_at estate registry repo net) manifest st = (r, st')"
    and "cache_sound lib (repository_cache (mirror_at estate registry repo net)) st"
    and "load_manifest lib manifest = Inr rows" "separate lib (mirror_at estate registry repo net) rows"
    and hashes: "\<And>b. sha_text (sha256 lib b)"
  shows "cache_sound lib (repository_cache (mirror_at estate registry repo net)) st'"
proof -
  define m where "m = mirror_at estate registry repo net"
  have sep: "\<not> relative_to p (repository_cache m)"
    if "p \<in> set (concat (map (row_writes lib m) rows)) \<union> set (map (metadata_path m \<circ> fst) (module_versions rows))" for p
    using assms(4) that mirror_disjoint unfolding separate_def m_def by (auto simp: list_all_iff)
  have "keeps (cache_sound lib (repository_cache m)) (forA (acquire_row lib m rows) rows)"
    by (intro keeps_for keeps_row) (use load_manifest_rows [OF assms(3)] hashes sep in auto)
  moreover have "keeps (cache_sound lib (repository_cache m)) (write_synthetic_metadata lib m rows)"
    by (rule keeps_writes [OF synthetic_writes]) (use sep in auto)
  ultimately have "keeps (cache_sound lib (repository_cache m)) (acquire lib m manifest)"
    unfolding acquire_def assms(3) bind_pure by (intro keeps_bind keeps_pure)
  then show ?thesis using assms(1,2) unfolding keeps_iff m_def by blast
qed

section \<open>A sample mirror\<close>

definition sample_lib :: bcr_lib where
  "sample_lib =
     \<lparr>sha256 = (\<lambda>b. replicate 64 (CHR ''a'')), loads = (\<lambda>s. Inr (JObj [])), dumps = (\<lambda>v. ''{}''), netloc_ok = (\<lambda>s. True),
      unquote = id, download = (\<lambda>u. Inr ''x'')\<rparr>"

definition sample_manifest :: string where
  "sample_manifest =
     join [tab] [''m'', ''1'', ''module'', ''https://h/m'', replicate 64 (CHR ''a''), ''0'']"

definition sample_estate :: ppath where
  "sample_estate = PPath Slash [''e'']"

abbreviation sample_mirror :: mirror where
  "sample_mirror \<equiv> mirror_at sample_estate ''current'' (PPath Slash [''r'']) True"

lemma sample_rows:
  "load_manifest sample_lib sample_manifest =
     Inr [\<lparr>row_module = ''m'', row_version = ''1'', row_kind = ''module'', row_url = ''https://h/m'',
           row_sha = replicate 64 (CHR ''a''), row_size = 0\<rparr>]"
  by code_simp

lemma sample_acquired: "fst (acquire sample_lib sample_mirror sample_manifest (\<lambda>p. None)) = Inr (1, 0, 0)"
  by code_simp
definition sample_list :: "manifest_row list" where
  "sample_list = (case load_manifest sample_lib sample_manifest of Inr rows \<Rightarrow> rows | Inl e \<Rightarrow> [])"

lemma sample_list: "load_manifest sample_lib sample_manifest = Inr sample_list"
  by (simp add: sample_list_def sample_rows)

lemma sample_separate: "separate sample_lib sample_mirror sample_list"
  by code_simp

lemma sample_store:
  obtains st' where "acquire sample_lib sample_mirror sample_manifest (\<lambda>p. None) = (Inr (1, 0, 0), st')"
  using sample_acquired by (metis prod.collapse)


lemma repository_cache_stays_sound_witness:
  "\<exists>st'. cache_sound sample_lib (repository_cache sample_mirror) st'
     \<and> acquire sample_lib sample_mirror sample_manifest (\<lambda>p. None) = (Inr (1, 0, 0), st')"
proof -
  obtain st' where a: "acquire sample_lib sample_mirror sample_manifest (\<lambda>p. None) = (Inr (1, 0, 0), st')"
    by (rule sample_store)
  have "cache_sound sample_lib (repository_cache sample_mirror) (\<lambda>p. None)" by (simp add: cache_sound_def)
  moreover have "sha_text (sha256 sample_lib b)" for b
    by (simp add: sample_lib_def sha_text_def lower_hex_def list_all_iff)
  ultimately show ?thesis using repository_cache_stays_sound [OF a _ sample_list sample_separate] a by blast
qed

end
