(* ===== verification/BuildInputsRun.thy ===== *)
theory BuildInputsRun
  imports BuildInputs BcrMirrorRun
begin

text \<open>
  The source closure of a selection is what its build files reach, and an input that was installed is
  found again with its hash.
\<close>

section \<open>The source closure\<close>

inductive needed :: "repo_view \<Rightarrow> string list \<Rightarrow> string \<Rightarrow> bool" for view start where
  start: "n \<in> set start \<Longrightarrow> map_of (repos view) n \<noteq> None \<Longrightarrow> needed view start n"
| step: "needed view start m \<Longrightarrow> n \<in> set (repo_refs view m) \<Longrightarrow> map_of (repos view) n \<noteq> None \<Longrightarrow> needed view start n"

definition asset_of :: "repo_view \<Rightarrow> string \<Rightarrow> asset \<Rightarrow> bool" where
  "asset_of view n a =
     (case map_of (repos view) n of None \<Rightarrow> False
      | Some attrs \<Rightarrow> (case repo_assets n attrs of Inl e \<Rightarrow> False | Inr as \<Rightarrow> a \<in> set as))"

text \<open>What holds of the loop: everything found so far is needed, and what is needed is reached from the pending names.\<close>

definition closing :: "repo_view \<Rightarrow> string list \<Rightarrow> string list \<Rightarrow> string list \<Rightarrow> asset list \<Rightarrow> bool" where
  "closing view start pending visited assets =
     (distinct visited \<and> (\<forall>n\<in>set visited. needed view start n)
      \<and> (\<forall>n\<in>set pending. map_of (repos view) n \<noteq> None \<longrightarrow> needed view start n)
      \<and> (\<forall>n\<in>set start. map_of (repos view) n \<noteq> None \<longrightarrow> n \<in> set visited \<union> set pending)
      \<and> (\<forall>m\<in>set visited. \<forall>n\<in>set (repo_refs view m). map_of (repos view) n \<noteq> None \<longrightarrow> n \<in> set visited \<union> set pending)
      \<and> (\<forall>a. a \<in> set assets \<longleftrightarrow> (\<exists>n\<in>set visited. asset_of view n a)))"

lemma closing_skip:
  assumes "closing view start (n # rest) visited assets" "map_of (repos view) n = None \<or> n \<in> set visited"
  shows "closing view start rest visited assets"
proof (cases "map_of (repos view) n = None")
  case True
  then show ?thesis using assms(1) unfolding closing_def by (auto 0 3)
next
  case False
  then show ?thesis using assms unfolding closing_def by (auto 0 3)
qed

lemma closing_visit:
  assumes "closing view start (n # rest) visited assets" "map_of (repos view) n = Some attrs" "n \<notin> set visited"
    and "repo_assets n attrs = Inr found"
  shows "closing view start (rev (repo_refs view n) @ rest) (n # visited) (assets @ found)"
proof -
  have c: "distinct visited" "\<forall>n\<in>set visited. needed view start n"
    "\<forall>m\<in>set (n # rest). map_of (repos view) m \<noteq> None \<longrightarrow> needed view start m"
    "\<forall>m\<in>set start. map_of (repos view) m \<noteq> None \<longrightarrow> m \<in> set visited \<union> set (n # rest)"
    "\<forall>m\<in>set visited. \<forall>k\<in>set (repo_refs view m). map_of (repos view) k \<noteq> None \<longrightarrow> k \<in> set visited \<union> set (n # rest)"
    "\<forall>a. a \<in> set assets \<longleftrightarrow> (\<exists>n\<in>set visited. asset_of view n a)"
    using assms(1) unfolding closing_def by blast+
  have n: "needed view start n" using c(3) assms(2) by simp
  have "asset_of view n a \<longleftrightarrow> a \<in> set found" for a using assms(2,4) by (simp add: asset_of_def)
  then show ?thesis
    unfolding closing_def using c n assms(3) by (auto intro: needed.step [OF n]) blast+
qed

lemma close_repos_closes:
  "close_repos view pending visited assets = Inr (visited', assets') \<Longrightarrow>
   closing view start pending visited assets \<Longrightarrow> closing view start [] visited' assets'"
proof (induction view pending visited assets rule: close_repos.induct)
  case (1 view pending visited assets)
  show ?case
  proof (cases pending)
    case Nil
    then show ?thesis using "1.prems" by (simp add: close_repos.simps)
  next
    case (Cons n rest)
    show ?thesis
    proof (cases "map_of (repos view) n")
      case None
      then show ?thesis
        using "1.IH"(1) [OF Cons None] "1.prems" closing_skip Cons by (simp add: close_repos.simps [of view "n # rest"])
    next
      case (Some attrs)
      show ?thesis
      proof (cases "n \<in> set visited")
        case True
        then show ?thesis
          using "1.IH"(2) [OF Cons Some True] "1.prems" closing_skip Cons Some
          by (simp add: close_repos.simps [of view "n # rest"])
      next
        case False
        then obtain found where m: "repo_assets n attrs = Inr found"
          using "1.prems"(1) Cons Some by (auto simp: close_repos.simps [of view "n # rest"])
        then show ?thesis
          using "1.IH"(3) [OF Cons Some False m] "1.prems" closing_visit [OF _ Some False m] Cons Some False
          by (simp add: close_repos.simps [of view "n # rest"])
      qed
    qed
  qed
qed

text \<open>
  C27. The closure of the sources of a selection ends for every set of declarations, cyclic or not;
  the repositories it visits, each once, are exactly those declared ones that the build files name or
  that a visited declaration names, and its assets are exactly the assets of those declarations.
\<close>

theorem closure_is_reachable:
  assumes "close_repos view pending [] [] = Inr (visited, assets)"
  shows "distinct visited \<and> set visited = {n. needed view pending n}
    \<and> (\<forall>a. a \<in> set assets \<longleftrightarrow> (\<exists>n. needed view pending n \<and> asset_of view n a))"
proof -
  have c: "closing view pending [] visited assets"
    by (rule close_repos_closes [OF assms]) (auto simp: closing_def intro: needed.start)
  have "n \<in> set visited" if "needed view pending n" for n
    using that
  proof induction
    case (start n)
    then show ?case using c unfolding closing_def by fastforce
  next
    case (step m n)
    then show ?case using c unfolding closing_def by fastforce
  qed
  moreover have "distinct visited" "\<forall>n\<in>set visited. needed view pending n"
    and as: "\<forall>a. a \<in> set assets \<longleftrightarrow> (\<exists>n\<in>set visited. asset_of view n a)"
    using c unfolding closing_def by blast+
  ultimately have v: "distinct visited" "set visited = {n. needed view pending n}" by auto
  then show ?thesis using as by simp
qed

section \<open>Installed inputs\<close>

lemma has_hash_update: "sha256 lib b = sha \<Longrightarrow> has_hash lib st p sha \<Longrightarrow> has_hash lib (st(q := Some b)) p sha"
  by (simp add: has_hash_def)

lemma touch_keeps_hash: "keeps (\<lambda>st. has_hash lib st p sha) (touch q)"
  by (auto simp: keeps_iff touch_def has_hash_def split: option.splits)

lemma copy_verified_Inr:
  assumes "copy_verified_archive lib source dest sha st = (Inr p, st')"
  shows "p = dest \<and> has_hash lib st' dest sha \<and> (has_hash lib st q sha \<longrightarrow> has_hash lib st' q sha)"
  using assms
  by (auto simp: copy_verified_archive_def bindA_Inr has_hash_def read_file_def split: if_splits option.splits)

lemma seeded_has_hash:
  assumes "seed_repository_cache lib cache archive sha ids st = (Inr p, st')"
  shows "p = cache_file cache sha \<and> has_hash lib st' (cache_file cache sha) sha"
proof -
  let ?dest = "cache_file cache sha"
  obtain q st1 st2 where c: "(if has_hash lib st ?dest sha then pureA (Inr ?dest) else copy_verified_archive lib archive ?dest sha) st = (Inr q, st1)"
    and t: "forA (\<lambda>i. touch (slash (parent ?dest) (''id-'' @ sha256 lib i))) ids st1 = (Inr (), st2)"
    and e: "p = ?dest" "st' = st2"
    using assms by (auto simp: seed_repository_cache_def bindA_Inr Let_def read_file_def split: option.splits if_splits)
  have "has_hash lib st1 ?dest sha" using c copy_verified_Inr [of lib archive ?dest sha st q st1] by (auto split: if_splits)
  then have "has_hash lib st2 ?dest sha"
    using t keeps_for [of ids _ "\<lambda>i. touch (slash (parent ?dest) (''id-'' @ sha256 lib i))", OF touch_keeps_hash]
    unfolding keeps_iff by blast
  then show ?thesis using e by simp
qed

lemma install_distdir_Inr:
  assumes "install_distdir lib cached sha dest st = (Inr u, st')"
  shows "has_hash lib st' dest sha \<and> (has_hash lib st p sha \<longrightarrow> has_hash lib st' p sha)"
proof -
  consider (there) "st dest \<noteq> None" "has_hash lib st dest sha" "st' = st"
    | (copied) q where "copy_verified_archive lib cached dest sha st = (Inr q, st')"
    using assms by (auto simp: install_distdir_def bindA_Inr split: if_splits)
  then show ?thesis using copy_verified_Inr by cases blast+
qed

text \<open>
  C28. Find after install: an input that was installed without an error is found, first in the
  repository cache of the estate, with the hash of its pin; when it has a distdir filename, the file of
  that name has the hash as well.
\<close>

theorem installed_input_is_found:
  assumes "install_input lib s a source st = (Inr u, st')" "input_names lib a = Inr ns"
  shows "find_input lib s a st' = Inr (Some (cache_file (repository_cache_of (in_estate s)) (asset_sha a)))
    \<and> has_hash lib st' (cache_file (repository_cache_of (in_estate s)) (asset_sha a)) (asset_sha a)
    \<and> (case asset_file a of None \<Rightarrow> True
       | Some f \<Rightarrow> f \<noteq> [] \<longrightarrow> has_hash lib st' (slash (slash (in_estate s) ''sources/jax/distdir'') f) (asset_sha a))"
proof -
  let ?c = "cache_file (repository_cache_of (in_estate s)) (asset_sha a)"
  define distdir where "distdir f = slash (slash (in_estate s) ''sources/jax/distdir'') f" for f
  obtain p st1 where s1: "seed_repository_cache lib (repository_cache_of (in_estate s)) source (asset_sha a)
              (asset_urls a @ [join '' '' (asset_urls a)]) st = (Inr p, st1)"
    and rest: "(case asset_file a of
       Some (c # cs) \<Rightarrow> install_distdir lib p (asset_sha a) (distdir (c # cs)) | _ \<Rightarrow> pureA (Inr ())) st1 = (Inr u, st')"
    using assms(1) unfolding install_input_def bindA_Inr distdir_def by blast
  have h1: "has_hash lib st1 ?c (asset_sha a)" using seeded_has_hash [OF s1] by simp
  have "has_hash lib st' ?c (asset_sha a) \<and> (case asset_file a of None \<Rightarrow> True
       | Some f \<Rightarrow> f \<noteq> [] \<longrightarrow> has_hash lib st' (distdir f) (asset_sha a))"
  proof (cases "asset_file a")
    case None
    then show ?thesis using rest h1 by simp
  next
    case (Some f)
    then show ?thesis
      using rest h1 install_distdir_Inr [of lib p "asset_sha a" "distdir f" st1 u st' ?c] by (cases f) auto
  qed
  then show ?thesis using assms(2) unfolding distdir_def
    by (simp add: find_input_def input_candidates_def store_estates_def cong: option.case_cong)
qed
section \<open>Sample inputs\<close>

text \<open>Two declarations that name each other, and an input of the sample mirror's archive.\<close>

definition closure_view :: repo_view where
  "closure_view =
     \<lparr>repos = [(''a'', [(''name'', JStr ''a'')]), (''b'', [(''name'', JStr ''b'')]), (''c'', [])], texts = (\<lambda>p. []),
      repr = (\<lambda>d. if dget d ''name'' = JStr ''a'' then ''@b//'' else ''@a//:x @z//''), nested = JNull, cccl = (JNull, JNull)\<rparr>"

lemma closure_is_reachable_witness: "{n. needed closure_view [''a''] n} = {''a'', ''b''}"
proof -
  have "close_repos closure_view [''a''] [] [] = Inr ([''b'', ''a''], [])" by code_simp
  from closure_is_reachable [OF this] show ?thesis by auto
qed

definition sample_asset :: asset where
  "sample_asset = \<lparr>owner = ''o'', asset_sha = replicate 64 (CHR ''a''), asset_urls = [''https://h/f''], asset_file = None\<rparr>"

definition sample_inputs :: input_store where
  "sample_inputs = \<lparr>in_estate = PPath Slash [''e''], in_seed = None\<rparr>"

definition input_files :: store where
  "input_files p = Some ''x''"

lemma installed_input_is_found_witness:
  "\<exists>st'. install_input sample_lib sample_inputs sample_asset (PPath Slash [''s'']) input_files = (Inr (), st')
     \<and> find_input sample_lib sample_inputs sample_asset st'
         = Inr (Some (cache_file (repository_cache_of (PPath Slash [''e''])) (replicate 64 (CHR ''a''))))"
proof -
  have "fst (install_input sample_lib sample_inputs sample_asset (PPath Slash [''s'']) input_files) = Inr ()"
    by code_simp
  then obtain st' where i: "install_input sample_lib sample_inputs sample_asset (PPath Slash [''s'']) input_files = (Inr (), st')"
    by (metis prod.collapse)
  have "input_names sample_lib sample_asset = Inr [''f'']" by code_simp
  from installed_input_is_found [OF i this] i show ?thesis by (simp add: sample_inputs_def sample_asset_def)
qed

end
