(* ===== verification/BuildArtifactsRun.thy ===== *)
theory BuildArtifactsRun
  imports BuildArtifacts
begin

text \<open>The inventory of release wheels lies below the execution root and keeps what Bazel declared.\<close>

section \<open>The inventory\<close>

definition wheel_entry :: "file_view \<Rightarrow> ppath \<Rightarrow> ppath \<Rightarrow> dict \<Rightarrow> bool" where
  "wheel_entry fs output_base relative a =
     (wf_path relative \<and> \<not> absolute relative \<and> ''..'' \<notin> set (names relative)
      \<and> list_ex wheelhouse_dir (butlast (names relative))
      \<and> dget a ''name'' = JStr (final_name relative)
      \<and> map_of a ''path'' = Some (JStr (path_text (joinpath (execroot output_base) relative)))
      \<and> (\<exists>n. dget a ''size_bytes'' = JInt n) \<and> (\<exists>s. dget a ''digest'' = JStr s)
      \<and> dget a ''exists'' = JBool (regular fs (joinpath (execroot output_base) relative)))"

definition inventory_ok :: "file_view \<Rightarrow> ppath \<Rightarrow> inventory \<Rightarrow> bool" where
  "inventory_ok fs output_base st =
     (distinct (map fst (fst st))
      \<and> (\<forall>k a. map_of (fst st) k = Some a \<longrightarrow>
           (\<exists>relative. k = path_text relative \<and> wheel_entry fs output_base relative a)
           \<and> (\<forall>n. map_of (snd st) k = Some n \<longrightarrow> dget a ''size_bytes'' = JInt n)))"

definition declared_length :: "dict \<Rightarrow> int option" where
  "declared_length d = (case dget d ''length'' of JInt n \<Rightarrow> Some n | JStr s \<Rightarrow> py_int s | _ \<Rightarrow> None)"

text \<open>What the event said of a wheel is in the inventory.\<close>

definition reported :: "file_view \<Rightarrow> ppath \<Rightarrow> ppath \<times> dict \<Rightarrow> inventory \<Rightarrow> bool" where
  "reported fs output_base rd st =
     (\<exists>a. map_of (fst st) (path_text (fst rd)) = Some a \<and> wheel_entry fs output_base (fst rd) a
       \<and> (\<forall>n. declared_length (snd rd) = Some n \<longrightarrow>
            map_of (snd st) (path_text (fst rd)) = Some n \<and> dget a ''size_bytes'' = JInt n)
       \<and> (\<forall>s. map_of (snd rd) ''digest'' = Some (JStr s) \<longrightarrow> s \<noteq> [] \<longrightarrow> dget a ''digest'' = JStr s))"

lemma wf_prefix_path: "prefix_path d = Inr p \<Longrightarrow> wf_path p"
proof -
  have "wf_path (PPath Rel [])" by (simp add: wf_path_def)
  moreover have "wf_path p0 \<Longrightarrow> wf_path (foldl (\<lambda>p v. case v of JStr s \<Rightarrow> slash p s | _ \<Rightarrow> p) p0 ps)" for p0 ps
    by (induction ps arbitrary: p0) (auto intro: wf_joinpath split: json.split)
  ultimately show "prefix_path d = Inr p \<Longrightarrow> wf_path p"
    by (auto simp: prefix_path_def split: option.splits json.splits if_splits)
qed

lemma wheel_file_safe:
  assumes "wheel_file item = Inr (Some (relative, d))"
  shows "wf_path relative \<and> \<not> absolute relative \<and> ''..'' \<notin> set (names relative)
    \<and> list_ex wheelhouse_dir (butlast (names relative)) \<and> item = JObj d"
  using assms
  by (cases item) (auto simp: wheel_file_def unsafe_path_def Let_def intro!: wf_joinpath dest: wf_prefix_path
      split: option.splits json.splits if_splits)

lemma declared_size_Inr:
  assumes "declared_size relative key lengths (dget d ''length'') = Inr (sz, lengths')"
  shows "(\<forall>k n. map_of lengths k = Some n \<longrightarrow> map_of lengths' k = Some n)
    \<and> map_of lengths' key = sz \<and> (\<forall>n. declared_length d = Some n \<longrightarrow> sz = Some n)
    \<and> (\<forall>k. k \<noteq> key \<longrightarrow> map_of lengths' k = map_of lengths k)"
  using assms
  by (auto simp: declared_size_def Let_def declared_length_def update_conv'
      split: json.splits option.splits if_splits)

lemma declared_digest_Inr:
  assumes "declared_digest relative known d = Inr dg"
  shows "(known \<noteq> [] \<longrightarrow> dg = known) \<and> (\<forall>s. map_of d ''digest'' = Some (JStr s) \<longrightarrow> s \<noteq> [] \<longrightarrow> dg = s)"
  using assms by (auto simp: declared_digest_def split: json.splits option.splits if_splits)

lemma record_wheel_Inr:
  assumes "record_wheel fs output_base (artifacts, lengths) (relative, d) = Inr st'"
  obtains sz lengths' dg a where
    "declared_size relative (path_text relative) lengths (dget d ''length'') = Inr (sz, lengths')"
    "declared_digest relative (known_digest artifacts (path_text relative)) d = Inr dg"
    "st' = (AList.update (path_text relative) a artifacts, lengths')"
    "dget a ''name'' = JStr (final_name relative)"
    "map_of a ''path'' = Some (JStr (path_text (joinpath (execroot output_base) relative)))"
    "dget a ''size_bytes'' = JInt (case sz of Some n \<Rightarrow> n | None \<Rightarrow>
        (case stat_size fs (joinpath (execroot output_base) relative) of Some n \<Rightarrow> n | None \<Rightarrow> 0))"
    "dget a ''digest'' = JStr dg"
    "dget a ''exists'' = JBool (regular fs (joinpath (execroot output_base) relative))"
  using assms by (force simp: record_wheel_def Let_def dict_simps)
lemma record_wheel_step:
  assumes rec: "record_wheel fs output_base st (relative, d) = Inr st'"
    and ok: "inventory_ok fs output_base st"
    and safe: "wf_path relative" "\<not> absolute relative" "''..'' \<notin> set (names relative)"
      "list_ex wheelhouse_dir (butlast (names relative))"
  shows "inventory_ok fs output_base st' \<and> reported fs output_base (relative, d) st'
    \<and> (reported fs output_base rd st \<longrightarrow> reported fs output_base rd st')"
proof -
  obtain artifacts lengths where st: "st = (artifacts, lengths)" by (cases st)
  define key where "key = path_text relative"
  define host where "host = joinpath (execroot output_base) relative"
  obtain sz lengths' dg a where r:
    "declared_size relative key lengths (dget d ''length'') = Inr (sz, lengths')"
    "declared_digest relative (known_digest artifacts key) d = Inr dg"
    "st' = (AList.update key a artifacts, lengths')"
    "dget a ''name'' = JStr (final_name relative)"
    "map_of a ''path'' = Some (JStr (path_text host))"
    "dget a ''size_bytes'' = JInt (case sz of Some n \<Rightarrow> n | None \<Rightarrow> (case stat_size fs host of Some n \<Rightarrow> n | None \<Rightarrow> 0))"
    "dget a ''digest'' = JStr dg" "dget a ''exists'' = JBool (regular fs host)"
    using rec unfolding st key_def host_def by (rule record_wheel_Inr)
  note sz = declared_size_Inr [OF r(1)] and dig = declared_digest_Inr [OF r(2)]
  have entry: "wheel_entry fs output_base relative a"
    using safe r(4-8) by (simp add: wheel_entry_def host_def)
  have size: "dget a ''size_bytes'' = JInt n" if "map_of lengths' key = Some n" for n
    using that sz r(6) by simp
  have "inventory_ok fs output_base st'"
    unfolding inventory_ok_def r(3) fst_conv snd_conv
  proof (intro conjI allI impI)
    show "distinct (map fst (AList.update key a artifacts))"
      using ok by (simp add: inventory_ok_def st distinct_update)
  next
    fix k b assume k: "map_of (AList.update key a artifacts) k = Some b"
    show "\<exists>relative. k = path_text relative \<and> wheel_entry fs output_base relative b"
      using k entry ok by (cases "k = key") (auto simp: update_conv' inventory_ok_def st key_def)
    fix n assume "map_of lengths' k = Some n"
    then show "dget b ''size_bytes'' = JInt n"
      using k size sz ok by (cases "k = key") (auto simp: update_conv' inventory_ok_def st)
  qed
  moreover have new: "reported fs output_base (relative, d) st'"
    using entry sz dig r(7) size by (auto simp: reported_def r(3) key_def [symmetric] update_conv')
  moreover have "reported fs output_base rd st'" if old: "reported fs output_base rd st"
  proof (cases "path_text (fst rd) = key")
    case False
    then show ?thesis using old sz by (auto simp: reported_def st r(3) update_conv')
  next
    case True
    obtain b where b: "map_of artifacts key = Some b" "wheel_entry fs output_base (fst rd) b"
      "\<forall>n. declared_length (snd rd) = Some n \<longrightarrow> map_of lengths key = Some n"
      "\<forall>s. map_of (snd rd) ''digest'' = Some (JStr s) \<longrightarrow> s \<noteq> [] \<longrightarrow> dget b ''digest'' = JStr s"
      using old True by (auto simp: reported_def st)
    have "fst rd = relative"
      using True b(2) safe(1) parse_path_text unfolding key_def wheel_entry_def by metis
    moreover have "dg = s" if "map_of (snd rd) ''digest'' = Some (JStr s)" "s \<noteq> []" for s
      using b(1,4) that dig by (simp add: known_digest_def)
    ultimately show ?thesis
      using entry b(3) sz size r(7) by (auto simp: reported_def r(3) key_def [symmetric] update_conv')
  qed
  ultimately show ?thesis by blast
qed

lemma read_item_step:
  assumes "read_item fs output_base st item = Inr st'" "inventory_ok fs output_base st"
  shows "inventory_ok fs output_base st'
    \<and> (\<forall>rd. wheel_file item = Inr (Some rd) \<longrightarrow> reported fs output_base rd st')
    \<and> (reported fs output_base rd0 st \<longrightarrow> reported fs output_base rd0 st')"
proof (cases "wheel_file item")
  case (Inr w)
  show ?thesis
  proof (cases w)
    case (Some rd)
    obtain relative d where rd: "rd = (relative, d)" by fastforce
    have "record_wheel fs output_base st (relative, d) = Inr st'"
      using assms(1) Inr Some rd by (simp add: read_item_def)
    from record_wheel_step [OF this assms(2), of rd0] wheel_file_safe [of item relative d]
    show ?thesis using Inr Some rd by auto
  qed (use assms Inr in \<open>simp add: read_item_def\<close>)
qed (use assms in \<open>simp add: read_item_def\<close>)

lemma located_Inr [simp]: "located n r = Inr x \<longleftrightarrow> r = Inr x"
  by (auto simp: located_def split: sum.splits pyexn.splits)

lemma read_event_Inr:
  assumes "read_event fs output_base st (n, l) = Inr st'"
  obtains v files where "l = Some v" "event_files v = Inr files"
    "foldE (read_item fs output_base) st files = Inr st'"
  using assms by (auto simp: read_event_def split: option.splits)

lemma read_event_step:
  assumes "read_event fs output_base st nl = Inr st'" "inventory_ok fs output_base st"
  shows "inventory_ok fs output_base st'
    \<and> (\<forall>v files item rd. snd nl = Some v \<longrightarrow> event_files v = Inr files \<longrightarrow> item \<in> set files
         \<longrightarrow> wheel_file item = Inr (Some rd) \<longrightarrow> reported fs output_base rd st')
    \<and> (reported fs output_base rd0 st \<longrightarrow> reported fs output_base rd0 st')"
proof -
  obtain v files where v: "snd nl = Some v" "event_files v = Inr files"
    and f: "foldE (read_item fs output_base) st files = Inr st'"
    using assms(1) by (cases nl) (auto elim: read_event_Inr)
  have "inventory_ok fs output_base st' \<and> (reported fs output_base rd0 st \<longrightarrow> reported fs output_base rd0 st')"
    using foldE_keeps [OF f, of "\<lambda>s. inventory_ok fs output_base s \<and> (reported fs output_base rd0 st \<longrightarrow> reported fs output_base rd0 s)"]
      assms(2) read_item_step by blast
  moreover have "reported fs output_base rd st'" if "item \<in> set files" "wheel_file item = Inr (Some rd)" for item rd
    by (rule foldE_establishes [OF f that(1), of "inventory_ok fs output_base"])
       (use assms(2) that(2) read_item_step in \<open>blast+\<close>)
  ultimately show ?thesis using v by auto
qed

lemma inventory_empty: "inventory_ok fs output_base ([], [])"
  by (simp add: inventory_ok_def)

lemma artifacts_Inr:
  assumes "build_event_artifacts fs (Some evs) output_base = Inr artifacts"
  obtains st where "inventory_ok fs output_base st" "artifacts = sort_key artifact_name (map snd (fst st))"
    "\<And>v files item rd. Some v \<in> set evs \<Longrightarrow> event_files v = Inr files \<Longrightarrow> item \<in> set files \<Longrightarrow>
       wheel_file item = Inr (Some rd) \<Longrightarrow> reported fs output_base rd st"
proof -
  obtain st where f: "foldE (read_event fs output_base) ([], []) (enumerate 1 evs) = Inr st"
    and a: "artifacts = sort_key artifact_name (map snd (fst st))"
    using assms by (auto simp: build_event_artifacts_def)
  have "inventory_ok fs output_base st"
    using foldE_keeps [OF f, of "inventory_ok fs output_base"] inventory_empty read_event_step by blast
  moreover have "reported fs output_base rd st"
    if ev: "Some v \<in> set evs" "event_files v = Inr files" "item \<in> set files" "wheel_file item = Inr (Some rd)"
    for v files item rd
  proof -
    obtain i where "i < length evs" "evs ! i = Some v" using ev(1) by (auto simp: in_set_conv_nth)
    then have "(Suc i, Some v) \<in> set (enumerate 1 evs)" by (simp add: in_set_enumerate_eq)
    then obtain n where "(n, Some v) \<in> set (enumerate 1 evs)" by blast
    then show ?thesis
    proof (rule foldE_establishes [where P = "inventory_ok fs output_base", OF f _ inventory_empty])
      fix s s' assume "inventory_ok fs output_base s" "read_event fs output_base s (n, Some v) = Inr s'"
      then show "reported fs output_base rd s'"
        using read_event_step [of fs output_base s "(n, Some v)" s'] ev(2-4) by (cases rd) auto
    next
      fix s y s' assume "inventory_ok fs output_base s" "read_event fs output_base s y = Inr s'"
      then show "inventory_ok fs output_base s' \<and> (reported fs output_base rd s \<longrightarrow> reported fs output_base rd s')"
        using read_event_step by simp
    qed
  qed
  ultimately show ?thesis using a that by blast
qed
section \<open>The inventory of a build\<close>

text \<open>
  An inventory that was read keeps what Bazel declared: a release wheel that an event names is in
  it, with the length and the digest of that event where the event has them (whatever the other events
  of the same path left out), and whether its file exists.
\<close>

theorem inventory_keeps_declared:
  assumes "build_event_artifacts fs (Some evs) output_base = Inr artifacts"
    and "Some v \<in> set evs" "event_files v = Inr files" "item \<in> set files" "wheel_file item = Inr (Some (relative, d))"
  shows "\<exists>a\<in>set artifacts. dget a ''path'' = JStr (path_text (joinpath (execroot output_base) relative))
    \<and> (case declared_length d of Some n \<Rightarrow> dget a ''size_bytes'' = JInt n | None \<Rightarrow> True)
    \<and> (nonempty_str (dget d ''digest'') \<longrightarrow> dget a ''digest'' = dget d ''digest'')
    \<and> dget a ''exists'' = JBool (regular fs (joinpath (execroot output_base) relative))"
proof -
  obtain st where st: "artifacts = sort_key artifact_name (map snd (fst st))"
    and r: "\<And>v files item rd. Some v \<in> set evs \<Longrightarrow> event_files v = Inr files \<Longrightarrow> item \<in> set files \<Longrightarrow>
       wheel_file item = Inr (Some rd) \<Longrightarrow> reported fs output_base rd st"
    using artifacts_Inr [OF assms(1)] by metis
  obtain a where a: "map_of (fst st) (path_text relative) = Some a" "wheel_entry fs output_base relative a"
    "\<forall>n. declared_length d = Some n \<longrightarrow> dget a ''size_bytes'' = JInt n"
    "\<forall>s. map_of d ''digest'' = Some (JStr s) \<longrightarrow> s \<noteq> [] \<longrightarrow> dget a ''digest'' = JStr s"
    using r [OF assms(2-5)] by (auto simp: reported_def)
  have "a \<in> set artifacts" using map_of_SomeD [OF a(1)] st by force
  moreover have "dget a ''digest'' = dget d ''digest''" if "nonempty_str (dget d ''digest'')"
  proof -
    obtain s where "dget d ''digest'' = JStr s" "s \<noteq> []" using \<open>nonempty_str _\<close> by (auto simp: nonempty_str_iff)
    moreover from this have "map_of d ''digest'' = Some (JStr s)" using dget_not_null [of d "''digest''"] by simp
    ultimately show ?thesis using a(4) by simp
  qed
  ultimately show ?thesis
    using a(2,3) by (intro bexI [of _ a]) (auto simp: wheel_entry_def dget_Some split: option.split)
qed

lemma inventory_entries:
  assumes "build_event_artifacts fs (Some evs) output_base = Inr artifacts" "a \<in> set artifacts"
  shows "\<exists>relative. wheel_entry fs output_base relative a"
proof -
  obtain st where ok: "inventory_ok fs output_base st" and a: "artifacts = sort_key artifact_name (map snd (fst st))"
    using artifacts_Inr [OF assms(1)] by metis
  then obtain k where "(k, a) \<in> set (fst st)" using assms(2) by auto
  then have "map_of (fst st) k = Some a" using ok by (auto simp: inventory_ok_def)
  then show ?thesis using ok unfolding inventory_ok_def by metis
qed

lemma wf_execroot: "wf_path output_base \<Longrightarrow> wf_path (execroot output_base)"
  by (simp add: execroot_def wf_joinpath)

lemma wheelhouses_entry:
  assumes "wheel_entry fs output_base relative a" "wf_path output_base"
  shows "wheelhouses_of output_base a =
    Inr (map (\<lambda>i. take i (bin_relative (names relative))) [0..<length (bin_relative (names relative))])"
proof -
  have e: "map_of a ''path'' = Some (JStr (path_text (joinpath (execroot output_base) relative)))"
    and r: "wf_path relative" "\<not> absolute relative" using assms(1) by (auto simp: wheel_entry_def)
  have "parse (path_text (joinpath (execroot output_base) relative)) = joinpath (execroot output_base) relative"
    using assms(2) r by (intro parse_path_text wf_joinpath wf_execroot)
  then show ?thesis using e r by (simp add: wheelhouses_of_def artifact_path_def ditem_def Let_def)
qed

lemma concatE_Inr: "list_all (\<lambda>x. f x = Inr (g x)) xs \<Longrightarrow> concatE f xs = Inr (concat (map g xs))"
  by (induction xs) auto

lemma find_first_char: "c \<in> set s \<Longrightarrow> \<exists>i. find_first [c] s = Some i"
  by (induction s) auto

lemma split_target_Inr:
  assumes "CHR '':'' \<in> set (removeprefix t ''//'')"
  shows "\<exists>pn. split_target t = Inr pn"
proof -
  obtain i where "find_first '':'' (removeprefix t ''//'') = Some i" using find_first_char [OF assms] by blast
  then show ?thesis by (simp add: split_target_def Let_def)
qed

text \<open>The release wheel of a target is in an inventory when a wheel lies below its wheelhouse.\<close>

definition wheel_below :: "ppath \<Rightarrow> dict \<Rightarrow> ppath \<Rightarrow> bool" where
  "wheel_below output_base a house =
     (\<exists>relative. wf_path relative \<and> \<not> absolute relative
       \<and> dget a ''path'' = JStr (path_text (joinpath (execroot output_base) relative))
       \<and> (\<exists>i<length (bin_relative (names relative)). PPath Rel (take i (bin_relative (names relative))) = house))"

lemma wheel_below_entry:
  assumes "wheel_entry fs output_base relative a" "wf_path output_base"
  shows "wheel_below output_base a house \<longleftrightarrow>
    house \<in> PPath Rel ` set (map (\<lambda>i. take i (bin_relative (names relative))) [0..<length (bin_relative (names relative))])"
proof -
  have e: "dget a ''path'' = JStr (path_text (joinpath (execroot output_base) relative))"
    and r: "wf_path relative" "\<not> absolute relative" using assms(1) by (auto simp: wheel_entry_def dget_Some)
  have uniq: "q = relative" if q: "wf_path q" "\<not> absolute q"
    "path_text (joinpath (execroot output_base) relative) = path_text (joinpath (execroot output_base) q)" for q
  proof -
    have "joinpath (execroot output_base) q = joinpath (execroot output_base) relative"
      using parse_path_text [OF wf_joinpath [OF wf_execroot [OF assms(2)] q(1)]]
        parse_path_text [OF wf_joinpath [OF wf_execroot [OF assms(2)] r(1)]] q(3) by simp
    then show ?thesis using q(2) r(2) by (cases q; cases relative) (auto simp: joinpath_def absolute_def)
  qed
  let ?ns = "bin_relative (names relative)"
  have "wheel_below output_base a house \<longleftrightarrow> (\<exists>i<length ?ns. PPath Rel (take i ?ns) = house)"
  proof
    assume "wheel_below output_base a house"
    then obtain q where q: "wf_path q" "\<not> absolute q"
      "dget a ''path'' = JStr (path_text (joinpath (execroot output_base) q))"
      "\<exists>i<length (bin_relative (names q)). PPath Rel (take i (bin_relative (names q))) = house"
      unfolding wheel_below_def by blast
    have "q = relative" using uniq [OF q(1,2)] q(3) e by simp
    then show "\<exists>i<length ?ns. PPath Rel (take i ?ns) = house" using q(4) by simp
  next
    assume "\<exists>i<length ?ns. PPath Rel (take i ?ns) = house"
    then show "wheel_below output_base a house" unfolding wheel_below_def using e r by blast
  qed
  then show ?thesis by auto
qed

lemma missing_targets_exact_gen:
  assumes "build_event_artifacts fs (Some evs) output_base = Inr artifacts" "wf_path output_base"
    and "list_all (\<lambda>t. CHR '':'' \<in> set (removeprefix t ''//'')) targets"
  shows "missing_wheel_targets artifacts output_base targets =
    Inr (filter (\<lambda>t. \<not> list_ex (\<lambda>a. case split_target t of Inr pn \<Rightarrow> wheel_below output_base a (target_house pn) | Inl e \<Rightarrow> False)
                        artifacts) targets)"
proof -
  define rel where "rel a = (SOME relative. wheel_entry fs output_base relative a)" for a
  define houses where "houses a = (let ns = bin_relative (names (rel a)) in map (\<lambda>i. take i ns) [0..<length ns])" for a
  have rel: "wheel_entry fs output_base (rel a) a" if "a \<in> set artifacts" for a
    using someI_ex [OF inventory_entries [OF assms(1) that]] by (simp add: rel_def)
  have "concatE (wheelhouses_of output_base) artifacts = Inr (concat (map houses artifacts))"
    using wheelhouses_entry [OF rel assms(2)] by (intro concatE_Inr) (simp add: list_all_iff houses_def Let_def)
  moreover have h: "target_house pn \<in> set (map (PPath Rel) (concat (map houses artifacts)))
      \<longleftrightarrow> list_ex (\<lambda>a. wheel_below output_base a (target_house pn)) artifacts" for pn
    using wheel_below_entry [OF rel assms(2)] by (auto simp: list_ex_iff houses_def Let_def)
  moreover have "concatE (\<lambda>t. bindE (split_target t) (\<lambda>pn. Inr (if Q pn then [] else [t]))) ts
      = Inr (filter (\<lambda>t. \<not> (case split_target t of Inr pn \<Rightarrow> Q pn | Inl e \<Rightarrow> False)) ts)"
    if "list_all (\<lambda>t. CHR '':'' \<in> set (removeprefix t ''//'')) ts" for Q ts
    using that
  proof (induction ts)
    case (Cons t ts)
    then have "CHR '':'' \<in> set (removeprefix t ''//'')" by simp
    from split_target_Inr [OF this] obtain pn where "split_target t = Inr pn" by blast
    then show ?case using Cons by simp
  qed simp
  moreover have "(case split_target t of Inr pn \<Rightarrow> target_house pn \<in> set (map (PPath Rel) (concat (map houses artifacts))) | Inl e \<Rightarrow> False)
      = list_ex (\<lambda>a. case split_target t of Inr pn \<Rightarrow> wheel_below output_base a (target_house pn) | Inl e \<Rightarrow> False) artifacts" for t
    unfolding h by (cases "split_target t") (simp_all add: list_ex_iff)
  ultimately show ?thesis using assms(3) by (simp add: missing_wheel_targets_def del: set_map set_concat)
qed

text \<open>
  For an inventory that was read, and targets that name a package and a rule, the search for
  missing wheels runs without an error, and the targets it reports are exactly those below whose
  wheelhouse no wheel of the inventory lies.
\<close>

theorem missing_targets_exact:
  assumes "build_event_artifacts fs (Some evs) output_base = Inr artifacts" "wf_path output_base"
    and "list_all (\<lambda>t. CHR '':'' \<in> set (removeprefix t ''//'')) targets"
  shows "missing_wheel_targets artifacts output_base targets =
    Inr (filter (\<lambda>t. \<not> list_ex (\<lambda>a. case split_target t of Inr pn \<Rightarrow> wheel_below output_base a (target_house pn) | Inl e \<Rightarrow> False)
                        artifacts) targets)"
  by (rule missing_targets_exact_gen [OF assms])
section \<open>A sample inventory\<close>

definition sample_item :: dict where
  "sample_item = [(''name'', JStr ''native/jaxlib/jaxlib_release_wheels_wheelhouse/j.whl''), (''length'', JStr ''7''), (''digest'', JStr ''d'')]"

definition sample_event :: json where
  "sample_event = JObj [(''namedSetOfFiles'', JObj [(''files'', JList [JObj sample_item])])]"

definition sample_files :: file_view where
  "sample_files = \<lparr>stat_size = (\<lambda>p. Some 7), regular = (\<lambda>p. True)\<rparr>"

definition sample_inventory :: "dict list" where
  "sample_inventory =
     (case build_event_artifacts sample_files (Some [Some sample_event]) (PPath Slash [''o'']) of Inr xs \<Rightarrow> xs | Inl e \<Rightarrow> [])"

lemma sample_inventory:
  "build_event_artifacts sample_files (Some [Some sample_event]) (PPath Slash [''o'']) = Inr sample_inventory"
proof -
  have "case build_event_artifacts sample_files (Some [Some sample_event]) (PPath Slash [''o'']) of Inr xs \<Rightarrow> True | Inl e \<Rightarrow> False"
    by code_simp
  then show ?thesis by (simp add: sample_inventory_def split: sum.splits)
qed

lemma sample_wheel:
  "wheel_file (JObj sample_item) =
     Inr (Some (PPath Rel [''native'', ''jaxlib'', ''jaxlib_release_wheels_wheelhouse'', ''j.whl''], sample_item))"
  by code_simp

lemma inventory_keeps_declared_witness: "\<exists>a\<in>set sample_inventory. dget a ''digest'' = JStr ''d''"
proof -
  have "event_files sample_event = Inr [JObj sample_item]" by (simp add: event_files_def sample_event_def)
  from inventory_keeps_declared [OF sample_inventory _ this _ sample_wheel] obtain a where
    "a \<in> set sample_inventory" "nonempty_str (dget sample_item ''digest'') \<longrightarrow> dget a ''digest'' = dget sample_item ''digest''"
    by auto
  moreover have "dget sample_item ''digest'' = JStr ''d''" by (simp add: sample_item_def dget_def)
  ultimately show ?thesis by (auto simp: nonempty_str_iff)
qed

lemma missing_targets_exact_witness:
  "\<exists>missing. missing_wheel_targets sample_inventory (PPath Slash [''o'']) [''//native/jaxlib:jaxlib_release_wheels''] = Inr missing"
  using missing_targets_exact [OF sample_inventory, of "[''//native/jaxlib:jaxlib_release_wheels'']"]
  by (simp add: wf_path_def real_name_def removeprefix_def)

end
