(* ===== verification/BuildVariantsRun.thy ===== *)
theory BuildVariantsRun
  imports BuildVariants BuildSessionRun BuildInputsRun BuildArtifactsRun
begin

text \<open>
  Every run of a request that returns an exit code leaves a closed, saved record: no stage and no
  variant is running, and the status says what the exit code says.
\<close>

section \<open>What the steps keep\<close>

definition closed_stages :: "session \<Rightarrow> bool" where
  "closed_stages s = list_all (\<lambda>e. dget e ''status'' \<noteq> JStr ''running'') (stages s)"

text \<open>A property of stages and variants only.\<close>

definition on_record :: "(dict list \<Rightarrow> dict list \<Rightarrow> bool) \<Rightarrow> session \<times> 'w \<Rightarrow> bool" where
  "on_record I sw = (closed_stages (fst sw) \<and> I (stages (fst sw)) (variants (fst sw)))"

definition same_lists :: "(session \<Rightarrow> session) \<Rightarrow> bool" where
  "same_lists f = (\<forall>s. stages (f s) = stages s \<and> variants (f s) = variants s)"

lemma same_lists_simps [simp]:
  "same_lists (save os)" "same_lists (event os n x)" "same_lists (set_phase os ph)" "same_lists (put_head fixed)"
  "same_lists (\<lambda>s. put_head (new s) s)" "same_lists (integrity_failure a act)"
  by (simp_all add: same_lists_def session_simps set_phase_def put_head_def integrity_failure_def Let_def)

lemma same_lists_comp [simp]:
  "same_lists (\<lambda>s. save os (put_head (new s) s))"
  "same_lists (\<lambda>s. save os (integrity_failure a b s))"
  "same_lists (\<lambda>s. save os (event os n x (put_head fixed s)))"
  by (simp_all add: same_lists_def session_simps put_head_def integrity_failure_def Let_def)

lemma keeps_doS: "same_lists f \<Longrightarrow> keeps (on_record I) (doS f)"
  by (auto simp: keeps_iff doS_def on_record_def same_lists_def closed_stages_def)

lemma keeps_liftS: "keeps (on_record I) (liftS env m)"
  by (auto simp: keeps_iff liftS_def on_record_def split: prod.splits)

lemma keeps_readW: "keeps P (readW f)"
  by (auto simp: keeps_iff readW_def split: prod.splits)

lemma keeps_check: "keeps P (check_source os)"
  by (auto simp: keeps_iff check_source_def split: prod.splits)

lemma keeps_eta: "(\<And>s w. keeps P (f s w)) \<Longrightarrow> keeps P (\<lambda>(s, w). f s w (s, w))"
  by (auto simp: keeps_iff)

text \<open>A stage keeps what does not depend on the stages.\<close>

lemma stage_keeps:
  "keeps (on_record (\<lambda>_. I)) (run_stage env name command line profile)"
  unfolding keeps_iff
proof (intro allI impI, clarify)
  fix s w r s' w'
  assume st: "run_stage env name command line profile (s, w) = (r, s', w')" and I: "on_record (\<lambda>_. I) (s, w)"
  show "on_record (\<lambda>_. I) (s', w')"
  proof (cases "source_identity (build env) w = Inr (identity s)")
    case True
    from st have "stage (build env) name command line profile (s, w) = (r, (s', w'))" by (simp add: run_stage_def)
    from this True show ?thesis
    proof (rule stage_runs)
      fix entry outcome
      assume e: "stages s' = stages s @ [entry]" "dget entry ''status'' = JStr (stage_status outcome)" "same_run s s'"
      have "stage_status outcome \<noteq> ''running''" using stage_status_range [of outcome] by auto
      then show ?thesis using e I by (simp add: on_record_def closed_stages_def same_run_def)
    qed
  next
    case False
    then show ?thesis using stage_refused [of "build env" w s name command line profile] st I by (auto simp: run_stage_def)
  qed
qed

lemmas keeps_steps = keeps_bind keeps_pure keeps_get keeps_for keeps_if keeps_doS keeps_liftS keeps_readW keeps_check
  stage_keeps

lemma preflight_keeps: "keeps (on_record (\<lambda>_. I)) (preflight env req)"
  unfolding preflight_def Let_def by (intro keeps_steps) simp

lemma try_url_keeps: "keeps (on_record (\<lambda>_. I)) (try_url env req a partial source u)"
proof -
  have "keeps (on_record (\<lambda>_. I)) (fetch_attempt env req a partial source u)"
    unfolding fetch_attempt_def by (intro keeps_steps) simp_all
  then show ?thesis
    using keeps_liftS [of "\<lambda>_. I" env "unlink_path partial"]
    unfolding keeps_iff try_url_def by (fastforce split: prod.splits)
qed

lemma try_urls_keeps: "keeps (on_record (\<lambda>_. I)) (try_urls env req a partial source us)"
  by (induction us) (auto intro!: keeps_steps try_url_keeps)

lemma keeps_case_option: "keeps P a \<Longrightarrow> (\<And>x. keeps P (f x)) \<Longrightarrow> keeps P (case opt of None \<Rightarrow> a | Some x \<Rightarrow> f x)"
  by (cases opt) auto

lemma prepare_asset_keeps: "keeps (on_record (\<lambda>_. I)) (prepare_asset env req a)"
proof -
  have "keeps (on_record (\<lambda>_. I)) (\<lambda>(s, w). bindA (try_urls env req a (p s) source (asset_urls a)) (\<lambda>_. pureA (Inr source)) (s, w))"
    for p source
    by (rule keeps_eta) (intro keeps_bind keeps_pure try_urls_keeps)
  then show ?thesis
    unfolding prepare_asset_def find_asset_def Let_def by (intro keeps_steps keeps_case_option) simp_all
qed

lemma prepare_inputs_keeps: "keeps (on_record (\<lambda>_. I)) (prepare_inputs env req)"
proof -
  have "keeps (on_record (\<lambda>_. I)) (\<lambda>(s, w). liftS env (write_file (p s) b) (s, w))" for p b
    by (rule keeps_eta) (rule keeps_liftS)
  then show ?thesis
    unfolding prepare_inputs_def Let_def prepare_each_def
    by (intro keeps_steps prepare_asset_keeps) simp_all
qed
section \<open>One variant\<close>

definition vkey :: "dict \<Rightarrow> json \<times> json" where
  "vkey v = (dget v ''line'', dget v ''profile'')"

text \<open>Only the variant at \<open>i\<close> may have changed, and not its line and profile.\<close>

definition vframe :: "nat \<Rightarrow> dict list \<Rightarrow> dict list \<Rightarrow> bool" where
  "vframe i vs vs' = (length vs' = length vs \<and> (\<forall>j<length vs. j \<noteq> i \<longrightarrow> vs' ! j = vs ! j) \<and> map vkey vs' = map vkey vs)"

lemma vframe_refl [simp]: "vframe i vs vs"
  by (simp add: vframe_def)

lemma vframe_trans: "vframe i a b \<Longrightarrow> vframe i b c \<Longrightarrow> vframe i a c"
  by (simp add: vframe_def)

lemma vframe_update:
  assumes "list_all (\<lambda>k. k \<noteq> ''line'' \<and> k \<noteq> ''profile'') (map fst new)"
  shows "vframe i (variants s) (variants (update_variant i new s))"
proof -
  have "''line'' \<notin> fst ` set new" "''profile'' \<notin> fst ` set new" using assms by (auto simp: list_all_iff)
  then have "vkey (update_all new v) = vkey v" for v by (simp add: vkey_def dget_update_all_other)
  then have "map vkey ((variants s)[i := update_all new (variants s ! i)]) = map vkey (variants s)"
    by (simp add: map_update) (metis list_update_id map_update nth_map list_update_beyond not_le_imp_less length_map)
  then show ?thesis by (simp add: vframe_def update_variant_def)
qed

lemma update_variant_stages [simp]: "stages (update_variant i new s) = stages s"
  by (simp add: update_variant_def)

lemma variant_at_Some:
  assumes "variant_at line profile vs = Some i"
  shows "i < length vs \<and> vkey (vs ! i) = (JStr line, JStr profile)"
proof -
  have "List.find (\<lambda>i. dget (vs ! i) ''line'' = JStr line \<and> dget (vs ! i) ''profile'' = JStr profile) [0..<length vs] = Some i"
    using assms by (simp add: variant_at_def split: option.splits)
  then show ?thesis by (auto simp: find_Some_iff vkey_def)
qed

lemma finish_variant_frame:
  "stages (finish_variant os sh i start err s) = stages s"
  "vframe i (variants s) (variants (finish_variant os sh i start err s))"
proof -
  show "stages (finish_variant os sh i start err s) = stages s"
    by (simp add: finish_variant_def Let_def session_simps split: option.split)
  define s1 where "s1 = (case err of None \<Rightarrow> s | Some e \<Rightarrow> update_variant i [(''error'', JStr (sh e))] s)"
  define s3 where "s3 = s1\<lparr>readings := Suc (Suc (readings s1))\<rparr>"
  define st where "st = (case err of None \<Rightarrow> ''built'' | Some e \<Rightarrow> if interruption e then ''interrupted'' else ''failed'')"
  define s4 where "s4 = update_variant i [(''status'', JStr st), (''finished_at'', JStr (utc_at os (readings s1))),
      (''duration_seconds'', seconds os (mono_at os (Suc (readings s1))) start)] s3"
  define s5 where "s5 = (if stages s4 \<noteq> [] then update_variant i [(''log'', dget (last (stages s4)) ''log'')] s4 else s4)"
  have v: "variants (finish_variant os sh i start err s) = variants s5"
    by (simp add: finish_variant_def Let_def session_simps s1_def s3_def st_def s4_def s5_def)
  have "vframe i (variants s) (variants s1)"
    by (cases err) (simp_all add: s1_def vframe_update)
  moreover have "variants s3 = variants s1" by (simp add: s3_def)
  moreover have "vframe i (variants s3) (variants s4)" unfolding s4_def by (rule vframe_update) simp
  moreover have "vframe i (variants s4) (variants s5)" by (simp add: s5_def vframe_update)
  ultimately show "vframe i (variants s) (variants (finish_variant os sh i start err s))"
    unfolding v using vframe_trans by metis
qed

lemma finish_variant_status:
  assumes "i < length (variants s)"
  shows "dget (variants (finish_variant os sh i start err s) ! i) ''status'' =
    JStr (case err of None \<Rightarrow> ''built'' | Some e \<Rightarrow> if interruption e then ''interrupted'' else ''failed'')"
  using assms
  by (simp add: finish_variant_def Let_def session_simps update_variant_def dict_simps split: option.split)

lemma body_keeps:
  "keeps (on_record (\<lambda>_. vframe i vs)) (variant_body env line profile i)"
proof -
  have art: "keeps (on_record (\<lambda>_. vframe i vs)) (doS (update_variant i [(''artifacts'', x)]))" for x
    unfolding keeps_iff doS_def on_record_def closed_stages_def
    using vframe_update [of "[(''artifacts'', x)]" i] vframe_trans by fastforce
  have inner: "keeps (on_record (\<lambda>_. vframe i vs)) (\<lambda>(s1, w1). bindA (readW (f s1 w1)) (\<lambda>artifacts.
      bindA (doS (update_variant i [(''artifacts'', g artifacts)])) (\<lambda>_. readW (h s1 w1 artifacts))) (s1, w1))" for f g h
    by (rule keeps_eta) (intro keeps_bind keeps_readW art)
  have "keeps (on_record (\<lambda>_. vframe i vs)) (\<lambda>(s, w).
     bindA (run_stage env (''build-'' @ line @ ''-'' @ profile) (build_command s line profile) line profile) (\<lambda>_. m) (s, w))"
    if "keeps (on_record (\<lambda>_. vframe i vs)) m" for m
    by (rule keeps_eta) (intro keeps_bind stage_keeps that)
  from this [OF inner] show ?thesis unfolding variant_body_def Let_def .
qed

lemma build_variant_Inr:
  assumes "build_variant env line profile (s, w) = (r, (s', w'))" "closed_stages s"
    and "variant_at line profile (variants s) = Some i"
  shows "closed_stages s' \<and> vframe i (variants s) (variants s')
    \<and> (r = Inr () \<longrightarrow> dget (variants s' ! i) ''status'' = JStr ''built'')"
proof -
  note i = variant_at_Some [OF assms(3)]
  obtain s3 r1 s4 w4 where b: "variant_body env line profile i (s3, w) = (r1, (s4, w4))"
    and s3: "stages s3 = stages s" "vframe i (variants s) (variants s3)"
    and fin: "r = (case r1 of Inr u \<Rightarrow> Inr () | Inl e \<Rightarrow> Inl e)"
      "s' = (case r1 of Inr u \<Rightarrow> finish_variant (build env) (show_error env) i (mono_at (build env) (readings s)) None s4
             | Inl e \<Rightarrow> if caught e then finish_variant (build env) (show_error env) i (mono_at (build env) (readings s)) (Some e) s4 else s4)"
  proof -
    define s2 where "s2 = s\<lparr>readings := Suc (Suc (readings s))\<rparr>"
    define s3 where "s3 = save (build env) (event (build env) ''variant_started'' [(''line'', JStr line), (''profile'', JStr profile)]
                     (update_variant i [(''status'', JStr ''running''), (''started_at'', JStr (utc_at (build env) (Suc (readings s))))] s2))"
    obtain r1 s4 w4 where b: "variant_body env line profile i (s3, w) = (r1, (s4, w4))" by (metis prod.exhaust)
    have "vframe i (variants s2) (variants s3)"
      unfolding s3_def session_simps by (rule vframe_update) simp
    then have v: "vframe i (variants s) (variants s3)" by (simp add: s2_def)
    have "stages s3 = stages s" by (simp add: s3_def s2_def session_simps)
    moreover have "(r, (s', w')) = (case r1 of
        Inr u \<Rightarrow> (Inr (), (finish_variant (build env) (show_error env) i (mono_at (build env) (readings s)) None s4, w4))
      | Inl e \<Rightarrow> (Inl e, (if caught e then finish_variant (build env) (show_error env) i (mono_at (build env) (readings s)) (Some e) s4 else s4, w4)))"
      using assms(1) b unfolding build_variant_def with_variant_def prod.case assms(3) option.case session_clock Let_def s3_def s2_def
      by (cases r1) auto
    ultimately show ?thesis using that [OF b _ v] by (cases r1) simp_all
  qed
  have "on_record (\<lambda>_. vframe i (variants s)) (s3, w)"
    using assms(2) s3 by (simp add: on_record_def closed_stages_def)
  then have "on_record (\<lambda>_. vframe i (variants s)) (s4, w4)"
    using body_keeps b unfolding keeps_iff by blast
  then have s4: "closed_stages s4" "vframe i (variants s) (variants s4)" by (simp_all add: on_record_def)
  then have len: "i < length (variants s4)" using i by (simp add: vframe_def)
  have "closed_stages s'" using s4(1) fin(2) by (simp add: closed_stages_def finish_variant_frame split: sum.splits)
  moreover have "vframe i (variants s) (variants s')"
  proof -
    have "vframe i (variants s) (variants (finish_variant (build env) (show_error env) i t e s4))" for t e
      by (rule vframe_trans [OF s4(2) finish_variant_frame(2)])
    then show ?thesis using s4(2) fin(2) by (simp split: sum.splits)
  qed
  moreover have "dget (variants s' ! i) ''status'' = JStr ''built''" if "r = Inr ()"
    using that fin finish_variant_status [OF len, of _ _ _ None] by (cases r1) simp_all
  ultimately show ?thesis by blast
qed
section \<open>All variants\<close>

definition planned_keys :: "(string \<times> string) list \<Rightarrow> session \<Rightarrow> bool" where
  "planned_keys ps s = (map vkey (variants s) = map (\<lambda>(l, p). (JStr l, JStr p)) ps)"

lemma variant_at_planned:
  assumes "planned_keys ps s" "distinct ps" "k < length ps" "ps ! k = (line, profile)"
  shows "variant_at line profile (variants s) = Some k"
proof -
  have len: "length (variants s) = length ps" using assms(1) by (metis planned_keys_def length_map)
  have key: "vkey (variants s ! j) = (JStr (fst (ps ! j)), JStr (snd (ps ! j)))" if j: "j < length ps" for j
  proof -
    have "map vkey (variants s) ! j = map (\<lambda>(l, p). (JStr l, JStr p)) ps ! j"
      using assms(1) by (simp add: planned_keys_def)
    then show ?thesis using j len by (simp add: case_prod_beta)
  qed
  have uniq: "j = k" if j: "j < length ps" "vkey (variants s ! j) = (JStr line, JStr profile)" for j
  proof -
    have "ps ! j = ps ! k" using key [OF j(1)] j(2) assms(4) by (simp add: prod_eq_iff)
    then show ?thesis using assms(2,3) j(1) nth_eq_iff_index_eq by blast
  qed
  have "List.find (\<lambda>i. vkey (variants s ! i) = (JStr line, JStr profile)) [0..<length (variants s)] = Some k"
    unfolding find_Some_iff
  proof (intro exI [of _ k] conjI allI impI)
    show "vkey (variants s ! ([0..<length (variants s)] ! k)) = (JStr line, JStr profile)"
      using key [OF assms(3)] assms(3,4) len by simp
    fix j assume "j < k"
    then show "vkey (variants s ! ([0..<length (variants s)] ! j)) \<noteq> (JStr line, JStr profile)"
      using uniq [of j] assms(3) len by auto
  qed (use assms(3) len in simp_all)
  then show ?thesis by (simp add: variant_at_def vkey_def)
qed

lemma build_loop:
  assumes "forA (\<lambda>(line, profile). build_variant env line profile) (drop k ps) (s, w) = (r, (s', w'))"
    and "planned_keys ps s" "distinct ps" "closed_stages s" "k \<le> length ps"
    and "\<forall>j<k. dget (variants s ! j) ''status'' = JStr ''built''"
  shows "closed_stages s' \<and> (r = Inr () \<longrightarrow> length (variants s') = length ps
    \<and> (\<forall>j<length ps. dget (variants s' ! j) ''status'' = JStr ''built''))"
  using assms
proof (induction "length ps - k" arbitrary: k s w)
  case 0
  then have "length (variants s) = length ps" by (metis planned_keys_def length_map)
  then show ?case using 0 by (auto simp: pureA_def)
next
  case (Suc n)
  then have k: "k < length ps" by simp
  obtain line profile where lp: "ps ! k = (line, profile)" by fastforce
  have len: "length (variants s) = length ps" using Suc.prems(2) by (metis planned_keys_def length_map)
  obtain r1 s1 w1 where b: "build_variant env line profile (s, w) = (r1, (s1, w1))" by (metis prod.exhaust)
  note step = build_variant_Inr [OF b Suc.prems(4) variant_at_planned [OF Suc.prems(2,3) k lp]]
  have f: "bindA (build_variant env line profile) (\<lambda>_. forA (\<lambda>(line, profile). build_variant env line profile) (drop (Suc k) ps)) (s, w) = (r, (s', w'))"
    using Suc.prems(1) lp by (simp add: Cons_nth_drop_Suc [OF k, symmetric])
  show ?case
  proof (cases r1)
    case (Inl e)
    then show ?thesis using f b step by (auto simp: bindA_def)
  next
    case (Inr u)
    have "forA (\<lambda>(line, profile). build_variant env line profile) (drop (Suc k) ps) (s1, w1) = (r, (s', w'))"
      using f b Inr by (simp add: bindA_def)
    moreover have "planned_keys ps s1" using Suc.prems(2) step by (simp add: planned_keys_def vframe_def)
    moreover have "\<forall>j<Suc k. dget (variants s1 ! j) ''status'' = JStr ''built''"
      using step Suc.prems(6) Inr k len by (auto simp: vframe_def less_Suc_eq)
    ultimately show ?thesis using Suc.hyps(1) [of "Suc k" s1 w1] Suc.hyps(2) Suc.prems(3) step k by simp
  qed
qed

section \<open>The whole run\<close>

lemma execute_closed:
  assumes "execute_request env req (s, w) = (r, (s', w'))" "closed_stages s"
    and "planned_keys (List.product (req_lines req) (req_profiles req)) s"
    and "distinct (req_lines req)" "distinct (req_profiles req)"
    and "list_all (\<lambda>v. dget v ''status'' = JStr ''pending'') (variants s)"
  shows "closed_stages s' \<and> (r = Inr () \<longrightarrow>
    dget (head s') ''status'' = JStr (if req_prepare_only req then ''prepared'' else ''built'')
    \<and> list_all (\<lambda>v. dget v ''status'' = JStr (if req_prepare_only req then ''pending'' else ''built'')) (variants s'))"
proof -
  let ?ps = "List.product (req_lines req) (req_profiles req)"
  have dp: "distinct ?ps" using assms(4,5) by (rule distinct_product)
  define prep where "prep = bindA (preflight env req) (\<lambda>_. bindA (prepare_inputs env req) (\<lambda>_. check_source (build env)))"
  define rest where "rest = (if req_prepare_only req then doS (put_head [(''status'', JStr ''prepared'')])
     else bindA (doS (set_phase (build env) ''native builds'')) (\<lambda>_.
          bindA (forA (\<lambda>(line, profile). build_variant env line profile) ?ps) (\<lambda>_.
          doS (put_head [(''status'', JStr ''built'')]))))"
  have ex: "execute_request env req (s, w) = bindA prep (\<lambda>_. rest) (s, w)"
    by (simp add: execute_request_def prep_def rest_def bindA_def split: prod.splits sum.splits)
  obtain r1 s1 w1 where p: "prep (s, w) = (r1, (s1, w1))" by (metis prod.exhaust)
  have "keeps (on_record (\<lambda>_ vs. vs = variants s)) prep"
    unfolding prep_def by (intro keeps_bind preflight_keeps prepare_inputs_keeps keeps_check)
  moreover have "on_record (\<lambda>_ vs. vs = variants s) (s, w)" using assms(2) by (simp add: on_record_def)
  ultimately have "on_record (\<lambda>_ vs. vs = variants s) (s1, w1)" using p unfolding keeps_iff by blast
  then have s1: "closed_stages s1" "variants s1 = variants s" by (simp_all add: on_record_def)
  show ?thesis
  proof (cases r1)
    case (Inl e)
    then show ?thesis using assms(1) ex p s1(1) by (auto simp: bindA_def)
  next
    case (Inr u)
    have rest: "rest (s1, w1) = (r, (s', w'))" using assms(1) ex p Inr by (simp add: bindA_def)
    show ?thesis
    proof (cases "req_prepare_only req")
      case True
      then have "s' = put_head [(''status'', JStr ''prepared'')] s1" using rest by (simp add: rest_def doS_def)
      then show ?thesis using True s1 assms(6) by (simp add: put_head_def closed_stages_def)
    next
      case False
      define s2 where "s2 = set_phase (build env) ''native builds'' s1"
      have s2: "closed_stages s2" "variants s2 = variants s"
        using s1 by (simp_all add: s2_def closed_stages_def set_phase_def session_simps)
      obtain r3 s3 w3 where l: "forA (\<lambda>(line, profile). build_variant env line profile) ?ps (s2, w1) = (r3, (s3, w3))"
        by (metis prod.exhaust)
      have loop: "closed_stages s3 \<and> (r3 = Inr () \<longrightarrow> length (variants s3) = length ?ps
          \<and> (\<forall>j<length ?ps. dget (variants s3 ! j) ''status'' = JStr ''built''))"
        by (rule build_loop [where k = 0]) (use l s2 assms(3) dp in \<open>simp_all add: planned_keys_def\<close>)
      have "(r, (s', w')) = (case r3 of Inl e \<Rightarrow> (Inl e, (s3, w3)) | Inr u \<Rightarrow> (Inr (), (put_head [(''status'', JStr ''built'')] s3, w3)))"
        using rest False l by (cases r3) (auto simp: rest_def bindA_def doS_def s2_def)
      then show ?thesis
        using loop False by (cases r3) (auto simp: put_head_def closed_stages_def list_all_length)
    qed
  qed
qed
lemma finish_record:
  assumes "s' = finish os status err s"
  shows "stages s' = stages s" "\<exists>now. variants s' = close_variants status now (variants s)"
    "dget (head s') ''status'' = JStr status" "dget (head s') ''phase'' = JStr ''complete''"
    "dget (head s') ''current_stage'' = JNull" "saved s' = Some (report_of s')" "result s' = Some (report_of s')"
proof -
  define s3 where "s3 = s\<lparr>readings := Suc (Suc (readings s)), variants := close_variants status (utc_at os (readings s)) (variants s),
     head := update_all [(''status'', JStr status), (''phase'', JStr ''complete''), (''current_stage'', JNull),
       (''finished_at'', JStr (utc_at os (readings s))), (''duration_seconds'', seconds os (mono_at os (Suc (readings s))) (started s))] (head s)\<rparr>"
  define s4 where "s4 = (case err of Some (c # cs) \<Rightarrow> s3\<lparr>head := dput ''error'' (JStr (c # cs)) (head s3)\<rparr> | _ \<Rightarrow> s3)"
  define s5 where "s5 = save os (event os ''run_finished'' [(''status'', JStr status),
                 (''error'', case err of None \<Rightarrow> JNull | Some e \<Rightarrow> JStr e)] s4)"
  have s': "s' = s5\<lparr>result := Some (report_of s5)\<rparr>"
    unfolding assms finish_def session_clock prod.case Let_def s5_def s4_def s3_def
    by (simp cong: option.case_cong list.case_cong)
  have h3: "dget (head s3) ''status'' = JStr status" "dget (head s3) ''phase'' = JStr ''complete''" "dget (head s3) ''current_stage'' = JNull"
    by (simp_all add: s3_def dict_simps)
  have h4: "dget (head s4) ''status'' = JStr status" "dget (head s4) ''phase'' = JStr ''complete''" "dget (head s4) ''current_stage'' = JNull"
    using h3 by (simp_all add: s4_def dict_simps split: option.split list.split)
  have l4: "stages s4 = stages s" "variants s4 = close_variants status (utc_at os (readings s)) (variants s)"
    by (simp_all add: s4_def s3_def split: option.split list.split)
  have "map_of (head s5) k = map_of (head s4) k" if "k \<noteq> ''updated_at''" "k \<noteq> ''duration_seconds''" for k
    using that by (simp add: s5_def save_head session_simps)
  then have h5: "dget (head s5) k = dget (head s4) k" if "k \<noteq> ''updated_at''" "k \<noteq> ''duration_seconds''" for k
    using that by (simp add: dget_def)
  show "stages s' = stages s" "\<exists>now. variants s' = close_variants status now (variants s)"
    using l4 by (auto simp: s' s5_def session_simps)
  show "dget (head s') ''status'' = JStr status" "dget (head s') ''phase'' = JStr ''complete''"
    "dget (head s') ''current_stage'' = JNull" using h4 h5 by (simp_all add: s')
  show "saved s' = Some (report_of s')" "result s' = Some (report_of s')"
    by (simp_all add: s' s5_def session_simps report_of_def)
qed

lemma close_variants_not_running:
  "status = ''failed'' \<or> status = ''interrupted'' \<Longrightarrow>
   list_all (\<lambda>v. dget v ''status'' \<noteq> JStr ''running'') (close_variants status now vs)"
  by (auto simp: close_variants_def list_all_iff)

lemma opened_session:
  assumes "open_session os w estate run_id lines profiles targets pid mode = Inr s"
  shows "stages s = []" "planned_keys (List.product lines profiles) s"
    "list_all (\<lambda>v. dget v ''status'' = JStr ''pending'') (variants s)"
proof -
  define vs where "vs = planned_variants estate (slash (joinpath estate (parse ''agents/build-variants'')) run_id) lines profiles targets"
  have s: "stages s = []" "variants s = vs"
    using assms by (auto simp: open_session_def Let_def session_simps vs_def)
  have "vkey (planned_variant e d targets lp) = (case lp of (l, p) \<Rightarrow> (JStr l, JStr p))"
    "dget (planned_variant e d targets lp) ''status'' = JStr ''pending''" for e d lp
    by (cases lp; simp add: planned_variant_def vkey_def dict_simps)+
  then show "stages s = []" "planned_keys (List.product lines profiles) s"
    "list_all (\<lambda>v. dget v ''status'' = JStr ''pending'') (variants s)"
    using s by (simp_all add: planned_keys_def vs_def planned_variants_def list_all_iff)
qed

section \<open>What a built variant has\<close>

lemma size_mismatch_Nil:
  assumes "size_mismatch fs a = Inr []" "dget a ''size_bytes'' = JInt n" "map_of a ''path'' = Some (JStr p)"
  shows "stat_size fs (parse p) = Some n"
  using assms by (auto simp: size_mismatch_def artifact_path_def ditem_def Let_def split: option.splits if_splits)

lemma profile_targets:
  "list_all (\<lambda>p. list_all (\<lambda>t. CHR '':'' \<in> set (removeprefix t ''//'')) (of_profile TARGETS p)) (map fst PACKAGES)"
  by code_simp

text \<open>
  The checks of a build on the inventory that was read from its events: when they pass, there is a
  wheel, every wheel is a regular file of the size in the inventory, and for every release target of
  the profile a wheel lies below its wheelhouse.
\<close>

theorem checked_wheels_complete:
  assumes "build_event_artifacts fs (Some evs) ob = Inr artifacts" "check_artifacts fs line profile ob artifacts = Inr ()"
    and "wf_path ob" "profile \<in> set (map fst PACKAGES)"
  shows "artifacts \<noteq> []
    \<and> list_all (\<lambda>a. \<exists>p n. dget a ''path'' = JStr p \<and> dget a ''size_bytes'' = JInt n
         \<and> regular fs (parse p) \<and> stat_size fs (parse p) = Some n) artifacts
    \<and> list_all (\<lambda>t. list_ex (\<lambda>a. case split_target t of Inr pn \<Rightarrow> wheel_below ob a (target_house pn) | Inl e \<Rightarrow> False) artifacts)
         (of_profile TARGETS profile)"
proof -
  let ?ts = "of_profile TARGETS profile"
  have ne: "artifacts \<noteq> []" and ex: "\<forall>a\<in>set artifacts. truthy (dget a ''exists'')"
    and sz: "artifact_size_mismatches fs artifacts = Inr []" and un: "missing_wheel_targets artifacts ob ?ts = Inr []"
    using assms(2) by (auto simp: check_artifacts_def Let_def filter_empty_conv split: if_splits)
  have "\<exists>p n. dget a ''path'' = JStr p \<and> dget a ''size_bytes'' = JInt n
         \<and> regular fs (parse p) \<and> stat_size fs (parse p) = Some n" if a: "a \<in> set artifacts" for a
  proof -
    obtain relative where e: "wheel_entry fs ob relative a" using inventory_entries [OF assms(1) a] by blast
    let ?p = "joinpath (execroot ob) relative"
    obtain n where n: "dget a ''size_bytes'' = JInt n" using e by (auto simp: wheel_entry_def)
    have p: "map_of a ''path'' = Some (JStr (path_text ?p))" using e by (simp add: wheel_entry_def)
    have pp: "parse (path_text ?p) = ?p"
      using e assms(3) by (intro parse_path_text wf_joinpath wf_execroot) (simp_all add: wheel_entry_def)
    have "size_mismatch fs a = Inr []" using sz a by (simp add: artifact_size_mismatches_def concatE_Nil)
    from size_mismatch_Nil [OF this n p] have "stat_size fs ?p = Some n" by (simp add: pp)
    moreover have "regular fs ?p" using ex a e by (auto simp: wheel_entry_def)
    ultimately show ?thesis using n p pp by (intro exI [of _ "path_text ?p"] exI [of _ n]) (simp add: dget_Some)
  qed
  moreover have "list_all (\<lambda>t. CHR '':'' \<in> set (removeprefix t ''//'')) ?ts"
    using profile_targets assms(4) unfolding list_all_iff by blast
  from missing_targets_exact_gen [OF assms(1,3) this] un
  have "filter (\<lambda>t. \<not> list_ex (\<lambda>a. case split_target t of Inr pn \<Rightarrow> wheel_below ob a (target_house pn) | Inl e \<Rightarrow> False) artifacts) ?ts = []"
    by simp
  ultimately show ?thesis using ne by (simp add: list_all_iff filter_empty_conv)
qed

section \<open>A sample run\<close>

text \<open>A checkout whose files can be listed when the session opens, and not any more when it runs.\<close>

definition sample_env :: "bool runner_env" where
  "sample_env =
     \<lparr>build = \<lparr>ls_files = (\<lambda>w. if w then Inr ''a'' else Inl OSError), entry_at = (\<lambda>w p. LinkTo ''t''), sha256 = id,
        dir_first = (\<lambda>w p. None), launch = (\<lambda>env e w. (Inl ''none'', w)), poll_interval = 30, log_tail = (\<lambda>w l n. []),
        log_size = (\<lambda>w l. None), utc_at = (\<lambda>n. ''t''), mono_at = (\<lambda>n. 0), round3 = id\<rparr>,
      store_of = (\<lambda>w p. None), with_store = (\<lambda>st w. w), lib = sample_lib, sources_view = (\<lambda>w. Inl OSError),
      runtime_asset = (\<lambda>w. Inl OSError), event_lines = (\<lambda>w p. None), files = (\<lambda>w. \<lparr>stat_size = (\<lambda>p. None), regular = (\<lambda>p. False)\<rparr>),
      executable = ''python'', repo_path = PPath Slash [''r''], inventory_text = (\<lambda>as. []), show_error = (\<lambda>e. ''error'')\<rparr>"

definition sample_request :: build_request where
  "sample_request = request_for ''cu129'' ''torch'' False False (PPath Slash [''e'']) None"

lemma checked_wheels_complete_witness:
  "list_ex (\<lambda>a. wheel_below (PPath Slash [''o'']) a (target_house (''native/jaxlib'', ''jaxlib_release_wheels''))) sample_inventory"
proof -
  have c: "check_artifacts sample_files ''cu129'' ''jax'' (PPath Slash [''o'']) sample_inventory = Inr ()" by code_simp
  have t: "of_profile TARGETS ''jax'' = [''//native/jaxlib:jaxlib_release_wheels'']" by code_simp
  have s: "split_target ''//native/jaxlib:jaxlib_release_wheels'' = Inr (''native/jaxlib'', ''jaxlib_release_wheels'')" by code_simp
  have "wf_path (PPath Slash [''o''])" "''jax'' \<in> set (map fst PACKAGES)"
    by (simp_all add: wf_path_def real_name_def PACKAGES_def)
  from checked_wheels_complete [OF sample_inventory c this] show ?thesis by (simp add: t s)
qed

end
