(* ===== verification/Candidate.thy ===== *)
theory Candidate
  imports PosixPath Effects
begin

text \<open>
  \<^verbatim>\<open>tools/release/candidate.py\<close>: the selection of six components that a release candidate
  freezes, the check of its document, and the check of the payloads that an estate restored. The
  hash is SHA-256 of the bytes of a text, and \<open>canonical\<close> the JSON text of
  \<^verbatim>\<open>tools/release/evidence.py\<close>. The file system answers reads of one moment: what a path resolves
  to, whether it exists and what it holds; no content is an \<^verbatim>\<open>OSError\<close>.
\<close>

section \<open>The document\<close>

definition CANDIDATE_LINES :: "string list" where
  "CANDIDATE_LINES = [''cu129'', ''cu130'']"

definition MATRIX :: "(string \<times> string) list" where
  "MATRIX = [(line, profile). line \<leftarrow> CANDIDATE_LINES, profile \<leftarrow> [''torch'', ''jax'']]"

record release_lib =
  sha256 :: "string \<Rightarrow> string"
  canonical :: "json \<Rightarrow> string"
  loads :: "string \<Rightarrow> json res"

definition member_name_ok :: "string \<Rightarrow> bool" where
  "member_name_ok n =
     (n \<noteq> [] \<and> parts (parse n) \<noteq> [] \<and> char_of (0::nat) \<notin> set n \<and> \<not> absolute (parse n)
      \<and> ''..'' \<notin> set (parts (parse n)) \<and> path_text (parse n) = n)"

definition safe_member :: "json \<Rightarrow> unit res" where
  "safe_member v =
     (case v of
        JStr n \<Rightarrow> guardE (member_name_ok n) (ValueError ''invalid artifact member: {}'' [v])
      | _ \<Rightarrow> Inl (ValueError ''invalid artifact member: expected a string'' []))"

text \<open>\<open>matches p v\<close>: a string that the pattern matches as a whole. The patterns are functions.\<close>

fun matches :: "(string \<Rightarrow> bool) \<Rightarrow> json \<Rightarrow> bool" where
  "matches p (JStr s) = p s"
| "matches p _ = False"

definition alnum :: "char \<Rightarrow> bool" where
  "alnum c = (let n = (of_char c :: nat) in is_digit c \<or> (65 \<le> n \<and> n \<le> 90) \<or> (97 \<le> n \<and> n \<le> 122))"

definition name_pattern :: "string \<Rightarrow> bool" where
  \<comment> \<open>\<^verbatim>\<open>[A-Za-z0-9][A-Za-z0-9._-]*\<close>\<close>
  "name_pattern s = (s \<noteq> [] \<and> alnum (hd s) \<and> list_all (\<lambda>c. alnum c \<or> c \<in> set ''._-'') (tl s))"

definition hex_pattern :: "nat \<Rightarrow> string \<Rightarrow> bool" where
  \<comment> \<open>\<^verbatim>\<open>[0-9a-f]{n}\<close>\<close>
  "hex_pattern n s = (length s = n \<and> list_all (\<lambda>c. is_digit c \<or> c \<in> set ''abcdef'') s)"

definition at_sign :: string where
  "at_sign = [CHR 0x40]"

definition reference_pattern :: "string \<Rightarrow> bool" where
  \<comment> \<open>\<^verbatim>\<open>ghcr\.io/[^\s@]+@sha256:[0-9a-f]{64}\<close>\<close>
  "reference_pattern s =
     (prefix ''ghcr.io/'' s \<and>
      (let rest = drop 8 s; repo = takeWhile (\<lambda>c. \<not> is_space c \<and> c \<notin> set at_sign) rest;
           tail = drop (length repo) rest; mark = at_sign @ ''sha256:''
       in repo \<noteq> [] \<and> prefix mark tail \<and> hex_pattern 64 (drop (length mark) tail)))"

definition need :: "bool \<Rightarrow> string \<Rightarrow> unit res" where
  "need b message = guardE b (ValueError message [])"

definition check_fields :: "nat \<Rightarrow> dict \<Rightarrow> (string \<times> string \<times> string option) res" where
  \<comment> \<open>the key of a component\<close>
  "check_fields index item =
     (case dget item ''kind'' of
        JStr kind \<Rightarrow>
          (case dget item ''line'' of
             JStr line \<Rightarrow>
               (case dget item ''profile'' of
                  JNull \<Rightarrow> Inr (kind, line, None)
                | JStr profile \<Rightarrow> Inr (kind, line, Some profile)
                | _ \<Rightarrow> Inl (ValueError ''component {}: expected a string profile'' [JInt (int index)]))
           | _ \<Rightarrow> Inl (ValueError ''component {}: expected a string line'' [JInt (int index)]))
      | _ \<Rightarrow> Inl (ValueError ''component {}: expected a string kind'' [JInt (int index)]))"

definition check_file :: "string \<times> json \<Rightarrow> unit res" where
  "check_file f =
     bindE (safe_member (JStr (fst f))) (\<lambda>_. need (matches (hex_pattern 64) (snd f)) ''invalid file hash'')"

definition check_archive :: "dict \<Rightarrow> dict \<Rightarrow> unit res" where
  "check_archive item pins =
     bindE (safe_member (dget item ''archive'')) (\<lambda>_.
     bindE (need (matches (hex_pattern 64) (dget item ''archive_sha256'')) ''invalid archive hash'') (\<lambda>_.
     bindE (need (dhas pins ''rootfs-bundle.json'') ''rootfs component must pin rootfs-bundle.json'') (\<lambda>_.
     case dget item ''archive'' of
       JStr archive \<Rightarrow>
         need (case map_of pins archive of
                 None \<Rightarrow> True
               | Some pinned \<Rightarrow> pinned = dget item ''archive_sha256'')
           ''conflicting rootfs archive hashes''
     | _ \<Rightarrow> Inr ())))"

type_synonym component_id = "string \<times> string \<times> string option"

definition check_component :: "component_id list \<Rightarrow> nat \<times> json \<Rightarrow> component_id list res" where
  "check_component seen entry =
     (case snd entry of
        JObj item \<Rightarrow>
          bindE (check_fields (fst entry) item) (\<lambda>key.
          bindE (need (key \<notin> set seen) ''duplicate candidate component'') (\<lambda>_.
          bindE (need (matches reference_pattern (dget item ''reference''))
                   ''component must use an immutable GHCR digest'') (\<lambda>_.
          case dget item ''files'' of
            JObj pins \<Rightarrow>
              bindE (need (pins \<noteq> []) ''component has no file hashes'') (\<lambda>_.
              bindE (mapE check_file pins) (\<lambda>_.
              bindE (if fst key = ''rootfs'' then check_archive item pins else Inr ()) (\<lambda>_.
              Inr (key # seen))))
          | _ \<Rightarrow> Inl (ValueError ''component has no file hashes'' []))))
      | _ \<Rightarrow> Inl (ValueError ''component {}: expected an object'' [JInt (int (fst entry))]))"

definition expected_keys :: "component_id list" where
  "expected_keys =
     map (\<lambda>line. (''rootfs'', line, None)) CANDIDATE_LINES
     @ map (\<lambda>(line, profile). (''release'', line, Some profile)) MATRIX"

definition check_source_field :: "json \<Rightarrow> unit res" where
  "check_source_field source =
     (case source of
        JObj d \<Rightarrow>
          bindE (need (matches (hex_pattern 40) (dget d ''commit'')) ''missing source commit'') (\<lambda>_.
          need (matches (hex_pattern 40) (dget d ''tree'')) ''missing source tree'')
      | _ \<Rightarrow> Inl (ValueError ''candidate source: expected an object'' []))"

definition policy_of :: "dict \<Rightarrow> json" where
  "policy_of doc = (case map_of doc ''qualification_policy'' of None \<Rightarrow> JObj [] | Some v \<Rightarrow> v)"

definition validate :: "release_lib \<Rightarrow> json \<Rightarrow> dict res" where
  \<comment> \<open>the document, when it is accepted\<close>
  "validate lib v =
     (case v of
        JObj doc \<Rightarrow>
          bindE (need (dget doc ''schema_version'' = JInt 1 \<and> dget doc ''kind'' = JStr ''vaso-release-candidate'')
                   ''unsupported candidate schema'') (\<lambda>_.
          bindE (need (matches name_pattern (dget doc ''name'')) ''invalid candidate name'') (\<lambda>_.
          bindE (check_source_field (dget doc ''source'')) (\<lambda>_.
          case dget doc ''components'' of
            JList items \<Rightarrow>
              bindE (foldE check_component [] (enumerate 0 items)) (\<lambda>seen.
              bindE (need (set seen = set expected_keys)
                       ''candidate must contain two rootfs and four profile releases'') (\<lambda>_.
              bindE (need (is_obj (policy_of doc)) ''qualification policy: expected an object'') (\<lambda>_.
              bindE (need (dget doc ''qualification_policy_sha256'' = JStr (sha256 lib (canonical lib (policy_of doc))))
                       ''qualification policy hash mismatch'') (\<lambda>_.
              Inr doc))))
          | _ \<Rightarrow> Inl (ValueError ''candidate components: expected a list'' []))))
      | _ \<Rightarrow> Inl (ValueError ''expected a candidate object'' []))"

definition load_verified :: "release_lib \<Rightarrow> string option \<Rightarrow> string \<Rightarrow> dict res" where
  "load_verified lib content pinned =
     (case content of
        None \<Rightarrow> Inl OSError
      | Some data \<Rightarrow>
          if sha256 lib data \<noteq> pinned then Inl (ValueError ''candidate checksum mismatch: {}'' [])
          else (case bindE (loads lib data) (validate lib) of
                  Inl (ValueError m a) \<Rightarrow> Inl (ValueError (''{}: '' @ m) a)
                | r \<Rightarrow> r))"

section \<open>A new candidate\<close>

definition FIELDS :: "string list" where
  "FIELDS = [''kind'', ''line'', ''profile'', ''reference'', ''files'', ''archive'', ''archive_sha256'',
             ''source_commit'', ''rootfs_manifest_digest'', ''ecosystem_lock_sha256'', ''release_python'']"

definition SELECTIONS :: "string list" where
  "SELECTIONS =
     [''foundry/MODULE.bazel'', ''foundry/plans/keys.json'', ''foundry/rootfs/cuda_ecosystem.lock.json'',
      ''tools/release/determinism_allowlist.json'', ''tools/release/determinism_compare.py'',
      ''tools/release/qualification_recipe.json'']"

definition selected_fields :: "json \<Rightarrow> json res" where
  \<comment> \<open>\<^verbatim>\<open>{key: item[key] for key in fields if key in item}\<close>\<close>
  "selected_fields item =
     (case item of
        JObj d \<Rightarrow> Inr (JObj (List.map_filter (\<lambda>k. map_option (\<lambda>v. (k, v)) (map_of d k)) FIELDS))
      | JStr s \<Rightarrow> if list_ex (contains s) FIELDS then Inl TypeError else Inr (JObj [])
      | JList xs \<Rightarrow> if list_ex (\<lambda>k. JStr k \<in> set xs) FIELDS then Inl TypeError else Inr (JObj [])
      | _ \<Rightarrow> Inl TypeError)"

fun iterated :: "json \<Rightarrow> json list res" where
  \<comment> \<open>what a \<^verbatim>\<open>for\<close> loop over the value visits\<close>
  "iterated (JList xs) = Inr xs"
| "iterated (JObj d) = Inr (map (JStr \<circ> fst) d)"
| "iterated (JStr s) = Inr (map (\<lambda>c. JStr [c]) s)"
| "iterated _ = Inl TypeError"

definition freeze ::
  "release_lib \<Rightarrow> string \<Rightarrow> string \<Rightarrow> (string \<Rightarrow> string res) \<Rightarrow> string \<Rightarrow> json \<Rightarrow> string \<Rightarrow> dict res" where
  \<comment> \<open>\<open>show_file\<close> is \<^verbatim>\<open>git show\<close> at the commit\<close>
  "freeze lib commit tree show_file inventory policy name =
     bindE (loads lib inventory) (\<lambda>inv.
     bindE (case inv of JObj d \<Rightarrow> ditem d ''artifacts'' | _ \<Rightarrow> Inl TypeError) (\<lambda>artifacts.
     bindE (iterated artifacts) (\<lambda>items.
         bindE (mapE selected_fields items) (\<lambda>components.
         bindE (mapE (\<lambda>p. bindE (show_file p) (\<lambda>data. Inr (p, JStr (sha256 lib data)))) SELECTIONS) (\<lambda>selections.
         validate lib (JObj
           [(''schema_version'', JInt 1), (''kind'', JStr ''vaso-release-candidate''), (''name'', JStr name),
            (''source'', JObj [(''commit'', JStr commit), (''tree'', JStr tree)]),
            (''selection_sha256'', JObj selections), (''components'', JList components),
            (''inventory_sha256'', JStr (sha256 lib inventory)), (''qualification_policy'', policy),
            (''qualification_policy_sha256'', JStr (sha256 lib (canonical lib policy)))]))))))"

section \<open>The payloads of an estate\<close>

record payload_fs =
  resolved :: "ppath \<Rightarrow> ppath"
  exists_at :: "ppath \<Rightarrow> bool"
  content :: "ppath \<Rightarrow> string option"

definition str_of :: "json \<Rightarrow> string" where
  "str_of v = (case v of JStr s \<Rightarrow> s | _ \<Rightarrow> [])"

definition item_str :: "dict \<Rightarrow> string \<Rightarrow> string" where
  "item_str item k = str_of (dget item k)"

definition component_name :: "dict \<Rightarrow> string" where
  "component_name item =
     join ''-'' ([item_str item ''kind'']
                @ (if item_str item ''kind'' = ''release'' then [item_str item ''profile''] else [])
                @ [item_str item ''line''])"

definition component_dir :: "ppath \<Rightarrow> dict \<Rightarrow> ppath" where
  "component_dir estate item = slash (slash estate ''downloads'') (component_name item)"

definition pins_of :: "dict \<Rightarrow> (string \<times> string) list" where
  "pins_of item = (case dget item ''files'' of JObj pins \<Rightarrow> map (\<lambda>(k, v). (k, str_of v)) pins | _ \<Rightarrow> [])"

definition rootfs_item :: "dict \<Rightarrow> bool" where
  "rootfs_item item = (dget item ''kind'' = JStr ''rootfs'')"

definition expected_pins :: "dict \<Rightarrow> (string \<times> string) list" where
  "expected_pins item =
     (if rootfs_item item
      then AList.update (item_str item ''archive'') (item_str item ''archive_sha256'') (pins_of item)
      else pins_of item)"

definition omitted_part :: "payload_fs \<Rightarrow> ppath \<Rightarrow> dict \<Rightarrow> string \<Rightarrow> bool" where
  "omitted_part fs estate item n =
     (rootfs_item item \<and> contains n ''.tar.zst.part''
      \<and> \<not> exists_at fs (slash (component_dir estate item) n))"

definition check_hash :: "release_lib \<Rightarrow> payload_fs \<Rightarrow> ppath \<Rightarrow> string \<Rightarrow> string \<Rightarrow> unit res" where
  "check_hash lib fs p digest message =
     (case content fs p of
        None \<Rightarrow> Inl OSError
      | Some data \<Rightarrow> need (sha256 lib data = digest) message)"

definition check_pin :: "release_lib \<Rightarrow> payload_fs \<Rightarrow> ppath \<Rightarrow> string \<times> string \<Rightarrow> unit res" where
  "check_pin lib fs dir pin =
     (let p = slash dir (fst pin) in
      if \<not> relative_to (resolved fs p) (resolved fs dir)
      then Inl (ValueError ''{} is not in the subpath of {}'' [])
      else check_hash lib fs p (snd pin) ''checksum mismatch'')"

type_synonym payload_error = "string \<times> string \<times> pyexn"

definition error_of :: "string \<Rightarrow> string \<Rightarrow> unit res \<Rightarrow> payload_error list" where
  "error_of component n r = (case r of Inl e \<Rightarrow> [(component, n, e)] | Inr _ \<Rightarrow> [])"

record payload_check =
  reference :: string
  verified_files :: nat
  expected_files :: nat
  reassembled_parts :: "string list"

definition check_payload ::
  "release_lib \<Rightarrow> payload_fs \<Rightarrow> ppath \<Rightarrow> dict \<Rightarrow> payload_check \<times> payload_error list" where
  "check_payload lib fs estate item =
     (let dir = component_dir estate item; pins = expected_pins item;
          omitted = filter (\<lambda>pin. omitted_part fs estate item (fst pin)) pins;
          checked = filter (\<lambda>pin. \<not> omitted_part fs estate item (fst pin)) pins;
          bundle = slash (slash (slash estate ''rootfs-lines'') (item_str item ''line'')) ''rootfs-bundle.json'';
          materialized =
            (if rootfs_item item
             then error_of (final_name dir) ''materialized/rootfs-bundle.json''
                    (case map_of (pins_of item) ''rootfs-bundle.json'' of
                       None \<Rightarrow> Inl (KeyError ''rootfs-bundle.json'')
                     | Some digest \<Rightarrow>
                         check_hash lib fs bundle digest ''materialized rootfs manifest differs from candidate'')
             else [])
      in (\<lparr>reference = item_str item ''reference'',
           verified_files = length (filter (\<lambda>pin. check_pin lib fs dir pin = Inr ()) checked),
           expected_files = length pins,
           reassembled_parts = map fst omitted\<rparr>,
          concat (map (\<lambda>pin. error_of (final_name dir) (fst pin) (check_pin lib fs dir pin)) checked)
            @ materialized))"

record payload_report =
  report_status :: string
  report_checks :: "payload_check list"
  report_errors :: "payload_error list"

definition components_of :: "dict \<Rightarrow> dict list" where
  "components_of doc =
     (case dget doc ''components'' of
        JList items \<Rightarrow> List.map_filter (\<lambda>v. case v of JObj d \<Rightarrow> Some d | _ \<Rightarrow> None) items
      | _ \<Rightarrow> [])"

definition verify_payloads :: "release_lib \<Rightarrow> payload_fs \<Rightarrow> json \<Rightarrow> ppath \<Rightarrow> payload_report res" where
  "verify_payloads lib fs v estate =
     bindE (validate lib v) (\<lambda>doc.
     let results = map (check_payload lib fs estate) (components_of doc);
         errors = concat (map snd results)
     in Inr \<lparr>report_status = (if errors = [] then ''passed'' else ''failed''),
             report_checks = map fst results, report_errors = errors\<rparr>)"

section \<open>The checkout\<close>

record checkout =
  head_commit :: "string res"
  head_tree :: "string res"
  dirty :: "string res"

definition source_field :: "dict \<Rightarrow> string \<Rightarrow> string" where
  "source_field doc k = (case dget doc ''source'' of JObj d \<Rightarrow> item_str d k | _ \<Rightarrow> [])"

definition verify_checkout_source :: "dict \<Rightarrow> checkout \<Rightarrow> unit res" where
  "verify_checkout_source doc c =
     bindE (head_commit c) (\<lambda>commit.
     bindE (need (commit = source_field doc ''commit'') ''checkout commit does not match candidate'') (\<lambda>_.
     bindE (head_tree c) (\<lambda>tree.
     bindE (need (tree = source_field doc ''tree'') ''checkout tree does not match candidate'') (\<lambda>_.
     bindE (dirty c) (\<lambda>status. need (status = []) ''candidate checkout must be clean'')))))"

end
