(* ===== verification/QualificationPlan.thy ===== *)
theory QualificationPlan
  imports Candidate
begin

text \<open>
  \<^verbatim>\<open>tools/release/qualification_policy.py\<close>: the policies that the runner supports, the recipe that
  a pinned source declares, the stages of a qualification and the command of each, with the
  reader of workload declarations, \<^verbatim>\<open>foundry/workloads/resource_metadata.py\<close>. The declarations are
  read from the syntax tree that \<^verbatim>\<open>ast.parse\<close> returns.
\<close>

section \<open>Workload declarations\<close>

text \<open>
  A node is a literal, a call of a name with positional arguments and a flag for keyword arguments, a
  dictionary display, or anything else. \<^verbatim>\<open>ast.literal_eval\<close> accepts literals only.
\<close>

datatype node =
    Literal json
  | NamedCall string "node list" bool
  | DictDisplay "(node \<times> node) list"
  | OtherNode

definition declared_workload :: "(string \<times> int) list \<Rightarrow> node \<times> node \<Rightarrow> (string \<times> int) list option" where
  "declared_workload result entry =
     (case entry of
        (Literal (JStr n), NamedCall f [Literal a, _, Literal (JInt m), _] kw) \<Rightarrow>
          if map_of result n = None \<and> f = ''Workload'' \<and> \<not> kw \<and> a = JStr n \<and> 1 \<le> m
          then Some (AList.update n m result) else None
      | _ \<Rightarrow> None)"

fun declared_workloads :: "(string \<times> int) list \<Rightarrow> (node \<times> node) list \<Rightarrow> (string \<times> int) list option" where
  "declared_workloads result [] = Some result"
| "declared_workloads result (e # es) =
     (case declared_workload result e of None \<Rightarrow> None | Some r \<Rightarrow> declared_workloads r es)"

definition minimum_gpus :: "node list option \<Rightarrow> (string \<times> int) list res" where
  \<comment> \<open>\<open>declarations\<close>: the values annotated as \<^verbatim>\<open>WORKLOADS\<close>; none when the source does not parse\<close>
  "minimum_gpus declarations =
     (case declarations of
        Some [DictDisplay entries] \<Rightarrow>
          (case declared_workloads [] entries of
             Some (w # ws) \<Rightarrow> Inr (w # ws)
           | _ \<Rightarrow> Inl (ValueError ''invalid Foundry workload resource declarations in {}: {}'' []))
      | _ \<Rightarrow> Inl (ValueError ''invalid Foundry workload resource declarations in {}: {}'' []))"

section \<open>The recipe\<close>

record recipe_row =
  row_workloads :: "string list"
  row_gates :: "string list"
  row_consumer :: string

type_synonym recipe = "((string \<times> string) \<times> recipe_row) list"

fun recipe_strings :: "json list \<Rightarrow> string list option" where
  "recipe_strings [] = Some []"
| "recipe_strings (v # vs) =
     (case v of JStr s \<Rightarrow> map_option (Cons s) (recipe_strings vs) | _ \<Rightarrow> None)"

definition lower_word :: "char \<Rightarrow> bool" where
  "lower_word c = (let n = (of_char c :: nat) in is_digit c \<or> (97 \<le> n \<and> n \<le> 122) \<or> c = CHR ''_'')"

definition gate_pattern :: "string \<Rightarrow> bool" where
  \<comment> \<open>\<^verbatim>\<open>[a-z][a-z0-9_]*\<close>\<close>
  "gate_pattern s = (s \<noteq> [] \<and> list_all lower_word s \<and> \<not> is_digit (hd s) \<and> hd s \<noteq> CHR ''_'')"

definition consumer_pattern :: "string \<Rightarrow> bool" where
  \<comment> \<open>\<^verbatim>\<open>python_consumers\.verify_[a-z0-9_]+\<close>\<close>
  "consumer_pattern s =
     (let p = ''python_consumers.verify_'' in
      prefix p s \<and> drop (length p) s \<noteq> [] \<and> list_all lower_word (drop (length p) s))"

definition named_list :: "(string \<Rightarrow> bool) \<Rightarrow> json \<Rightarrow> string list option" where
  \<comment> \<open>a list, not empty, of distinct recipe_strings that all pass the test\<close>
  "named_list ok v =
     (case v of
        JList vs \<Rightarrow>
          (case recipe_strings vs of
             Some ss \<Rightarrow> if ss \<noteq> [] \<and> distinct ss \<and> list_all ok ss then Some ss else None
           | None \<Rightarrow> None)
      | _ \<Rightarrow> None)"

definition recipe_row_of :: "(string \<times> int) list \<Rightarrow> json \<Rightarrow> ((string \<times> string) \<times> recipe_row) option" where
  "recipe_row_of minimum v =
     (case v of
        JObj d \<Rightarrow>
          (case (dget d ''line'', dget d ''profile'', dget d ''consumer'',
                 named_list (\<lambda>w. map_of minimum w \<noteq> None) (dget d ''workloads''),
                 named_list gate_pattern (dget d ''gates'')) of
             (JStr line, JStr profile, JStr consumer, Some workloads, Some gates) \<Rightarrow>
               if consumer_pattern consumer
               then Some ((line, profile),
                 \<lparr>row_workloads = workloads, row_gates = gates, row_consumer = consumer\<rparr>)
               else None
           | _ \<Rightarrow> None)
      | _ \<Rightarrow> None)"

fun recipe_rows :: "(string \<times> int) list \<Rightarrow> json list \<Rightarrow> recipe option" where
  "recipe_rows minimum [] = Some []"
| "recipe_rows minimum (v # vs) =
     (case recipe_row_of minimum v of
        None \<Rightarrow> None
      | Some r \<Rightarrow> map_option (Cons r) (recipe_rows minimum vs))"

text \<open>
  The files of the pinned checkout; every defect of the recipe is one \<^verbatim>\<open>ValueError\<close>. The hashes of
  the bytes that were read are the identities that the plan is bound to.
\<close>

record pinned_source =
  recipe_bytes :: "string option"
  resource_bytes :: "string option"
  workload_nodes :: "string \<Rightarrow> node list option"

definition bad_recipe :: "'a res" where
  "bad_recipe = Inl (ValueError ''invalid maintained qualification recipe: {}'' [])"

definition checked_recipe :: "(string \<times> int) list \<Rightarrow> json \<Rightarrow> recipe res" where
  "checked_recipe minimum v =
     (case v of
        JObj d \<Rightarrow>
          (case dget d ''matrix'' of
             JList rows \<Rightarrow>
               (case recipe_rows minimum rows of
                  Some recipe \<Rightarrow>
                    if length recipe = 4 \<and> set (map fst recipe) = set MATRIX
                       \<and> map_of minimum ''W4'' \<noteq> None \<and> map_of minimum ''W5b'' \<noteq> None
                    then Inr recipe else bad_recipe
                | None \<Rightarrow> bad_recipe)
           | _ \<Rightarrow> bad_recipe)
      | _ \<Rightarrow> bad_recipe)"

definition recipe_inputs ::
  "release_lib \<Rightarrow> pinned_source \<Rightarrow> (recipe \<times> (string \<times> int) list \<times> (string \<times> string) list) res" where
  "recipe_inputs lib source =
     (case recipe_bytes source of
        None \<Rightarrow> Inl (ValueError ''maintained qualification recipe unavailable in pinned source'' [])
      | Some recipe_data \<Rightarrow>
          (case (loads lib recipe_data, resource_bytes source) of
             (Inr v, Some resources) \<Rightarrow>
               (case minimum_gpus (workload_nodes source resources) of
                  Inr minimum \<Rightarrow>
                    bindE (checked_recipe minimum v) (\<lambda>recipe.
                    Inr (recipe, minimum,
                      [(''tools/release/qualification_recipe.json'', sha256 lib recipe_data),
                       (''foundry/workloads/run_workloads.py'', sha256 lib resources)]))
                | Inl e \<Rightarrow> bad_recipe)
           | _ \<Rightarrow> bad_recipe))"

section \<open>The policy\<close>

definition dget_obj :: "dict \<Rightarrow> string \<Rightarrow> json" where
  \<comment> \<open>\<^verbatim>\<open>d.get(k, {})\<close>\<close>
  "dget_obj d k = (case map_of d k of None \<Rightarrow> JObj [] | Some v \<Rightarrow> v)"

definition dget_list :: "dict \<Rightarrow> string \<Rightarrow> json" where
  \<comment> \<open>\<^verbatim>\<open>d.get(k, [])\<close>\<close>
  "dget_list d k = (case map_of d k of None \<Rightarrow> JList [] | Some v \<Rightarrow> v)"

fun is_bool :: "json \<Rightarrow> bool" where
  "is_bool (JBool b) = True"
| "is_bool _ = False"

definition hardware_ok :: "json \<Rightarrow> bool" where
  "hardware_ok v =
     (case v of
        JObj h \<Rightarrow>
          \<not> is_bool (dget h ''gpu_count'')
          \<and> (py_eq (dget h ''gpu_count'') (JInt 1) \<or> py_eq (dget h ''gpu_count'') (JInt 8))
          \<and> dget h ''gpu_model'' = JStr ''NVIDIA B200'' \<and> dget h ''os'' = JStr ''Linux''
          \<and> dget h ''arch'' = JStr ''x86_64''
      | _ \<Rightarrow> False)"

definition REQUIRED_TRUE :: "string list" where
  "REQUIRED_TRUE = [''retain_all_attempts'', ''unexplained_failures_block_promotion'',
     ''sample_occupancy_during_execution'', ''co_residence_and_consumers_required'']"

definition policy_row :: "json \<Rightarrow> (string \<times> string) option" where
  "policy_row v =
     (case v of
        JObj d \<Rightarrow>
          (case (dget d ''line'', dget d ''profile'') of
             (JStr line, JStr profile) \<Rightarrow> Some (line, profile)
           | _ \<Rightarrow> None)
      | _ \<Rightarrow> None)"

definition matrix_ok :: "json \<Rightarrow> bool" where
  "matrix_ok v =
     (case v of
        JList rows \<Rightarrow> length rows = 4 \<and> set (map policy_row rows) = Some ` set MATRIX
      | _ \<Rightarrow> False)"

definition DIAGNOSTICS :: json where
  "DIAGNOSTICS = JObj
     [(''line'', JStr ''cu130''), (''workload'', JStr ''W5b''),
      (''isolated_fresh_process_cold_cache_attempts'', JInt 3),
      (''isolated_fresh_process_reused_cache_attempts'', JInt 3),
      (''full_profile_cold_cache_attempts'', JInt 1), (''full_profile_reused_cache_attempts'', JInt 1),
      (''stop_on_uncontaminated_timeout_recurrence'', JBool True)]"

definition ROUNDS :: json where
  "ROUNDS = JList
     [JObj [(''id'', JInt 1), (''cache'', JStr ''fresh'')],
      JObj [(''id'', JInt 2), (''cache'', JStr ''verified-reuse'')],
      JObj [(''id'', JInt 3), (''cache'', JStr ''verified-reuse'')]]"

definition is_true :: "dict \<Rightarrow> string \<Rightarrow> bool" where
  "is_true d k = (dget d k = JBool True)"

definition gpu_count_of :: "dict \<Rightarrow> json" where
  "gpu_count_of policy = (case dget_obj policy ''hardware'' of JObj h \<Rightarrow> dget h ''gpu_count'' | _ \<Rightarrow> JNull)"

definition single_gpu_ok :: "dict \<Rightarrow> bool" where
  "single_gpu_ok policy =
     (dget policy ''supported_runtime_scope'' = JStr ''single-gpu''
      \<and> is_true policy ''selected_device_cooperative_lease_and_occupancy_checks_required''
      \<and> (case dget policy ''jax_diagnostics'' of
           JObj d \<Rightarrow> dget d ''status'' = JStr ''deferred-with-multi-gpu-support''
         | _ \<Rightarrow> False))"

definition validate_policy :: "json \<Rightarrow> dict res" where
  \<comment> \<open>the policy, when it is supported\<close>
  "validate_policy v =
     (case v of
        JObj policy \<Rightarrow>
          bindE (need (hardware_ok (dget_obj policy ''hardware'')) ''unsupported qualification hardware policy'') (\<lambda>_.
          bindE (mapE (\<lambda>f. guardE (is_true policy f) (ValueError ''unsupported qualification policy: {}'' [JStr f]))
                   REQUIRED_TRUE) (\<lambda>_.
          bindE (need (dget policy ''launched_mpi_supported'' = JBool False)
                   ''launched MPI is outside the supported policy'') (\<lambda>_.
          bindE (need (matrix_ok (dget_list policy ''matrix'')) ''unsupported qualification matrix policy'') (\<lambda>_.
          bindE (if py_eq (gpu_count_of policy) (JInt 8)
                 then need (py_eq (dget policy ''jax_diagnostics'') DIAGNOSTICS
                            \<and> is_true policy ''exclusive_physical_gpu_reservation_required'')
                        ''unsupported eight-GPU diagnostic or reservation policy''
                 else need (single_gpu_ok policy) ''unsupported single-GPU qualification policy'') (\<lambda>_.
          bindE (need (py_eq (dget policy ''rounds'') ROUNDS) ''runner requires the approved three-round policy'') (\<lambda>_.
          Inr policy))))))
      | _ \<Rightarrow> Inl (ValueError ''qualification policy: expected an object'' []))"

section \<open>The stages\<close>

text \<open>Only the plan for one device sets the fields of what it omits; without them nothing is omitted.\<close>

record plan_stage =
  stage_name :: string
  stage_line :: string
  stage_profile :: string
  cache_group :: string
  reuse :: bool
  stage_workloads :: "string list"
  stage_gates :: "string list"
  stage_consumer :: "string option"
  omitted_workloads :: "string list"
  omitted_gates :: "string list"
  gpu_count :: nat

definition add_stage ::
  "recipe \<Rightarrow> string \<Rightarrow> string \<Rightarrow> string \<Rightarrow> string \<Rightarrow> bool \<Rightarrow> string list option \<Rightarrow> plan_stage res" where
  "add_stage rows stage line profile cgroup reused only =
     bindE (if profile = ''coresidence'' then Inr None
            else case map_of rows (line, profile) of
                   None \<Rightarrow> Inl (KeyError profile)
                 | Some row \<Rightarrow> Inr (Some row)) (\<lambda>row.
     case (only, row) of
       (None, None) \<Rightarrow> Inl TypeError
     | (Some ws, _) \<Rightarrow>
         Inr \<lparr>stage_name = stage, stage_line = line, stage_profile = profile, cache_group = cgroup,
              reuse = reused, stage_workloads = ws, stage_gates = [], stage_consumer = None,
              omitted_workloads = [], omitted_gates = [], gpu_count = 8\<rparr>
     | (None, Some r) \<Rightarrow>
         Inr \<lparr>stage_name = stage, stage_line = line, stage_profile = profile, cache_group = cgroup,
              reuse = reused, stage_workloads = row_workloads r, stage_gates = row_gates r,
              stage_consumer = Some (row_consumer r),
              omitted_workloads = [], omitted_gates = [], gpu_count = 8\<rparr>)"

definition diagnostic_stages :: "recipe \<Rightarrow> plan_stage list res" where
  "diagnostic_stages rows =
     bindE (mapE (\<lambda>n. add_stage rows (''jax-diagnostic-cold-'' @ string_of_nat (n + 1)) ''cu130'' ''jax''
                        (''jax-cold-'' @ string_of_nat (n + 1)) False (Some [''W5b''])) [0..<3]) (\<lambda>cold.
     bindE (mapE (\<lambda>n. add_stage rows (''jax-diagnostic-reuse-'' @ string_of_nat (n + 1)) ''cu130'' ''jax''
                        ''jax-cold-1'' True (Some [''W5b''])) [0..<3]) (\<lambda>reused.
     bindE (add_stage rows ''jax-profile-cold'' ''cu130'' ''jax'' ''jax-profile'' False None) (\<lambda>profile_cold.
     bindE (add_stage rows ''jax-profile-reuse'' ''cu130'' ''jax'' ''jax-profile'' True None) (\<lambda>profile_reuse.
     Inr (cold @ reused @ [profile_cold, profile_reuse])))))"

definition stage_title :: "nat \<Rightarrow> string \<Rightarrow> string \<Rightarrow> string" where
  "stage_title n line profile = ''round-'' @ string_of_nat n @ ''-'' @ line @ ''-'' @ profile"

definition line_stages :: "recipe \<Rightarrow> nat \<Rightarrow> string \<Rightarrow> plan_stage list res" where
  "line_stages rows n line =
     bindE (mapE (\<lambda>profile. add_stage rows (stage_title n line profile) line profile
                              (line @ ''-'' @ profile) (1 < n) None) [''torch'', ''jax'']) (\<lambda>profiles.
     bindE (add_stage rows (stage_title n line ''coresidence'') line ''coresidence''
              (line @ ''-coresidence'') (1 < n) (Some [''W4''])) (\<lambda>coresidence.
     Inr (profiles @ [coresidence])))"

definition round_stages :: "recipe \<Rightarrow> plan_stage list res" where
  "round_stages rows = concatE (\<lambda>n. concatE (line_stages rows n) CANDIDATE_LINES) [1..<4]"

definition MULTI_GPU_GATES :: "string list" where
  "MULTI_GPU_GATES = [''nccl_distributed'', ''jax_psum_2gpu'']"

definition needs :: "(string \<times> int) list \<Rightarrow> string \<Rightarrow> int res" where
  "needs minimum w = (case map_of minimum w of None \<Rightarrow> Inl (KeyError w) | Some m \<Rightarrow> Inr m)"

definition restrict_stage :: "(string \<times> int) list \<Rightarrow> plan_stage \<Rightarrow> plan_stage res" where
  "restrict_stage minimum s =
     bindE (mapE (needs minimum) (stage_workloads s)) (\<lambda>_.
     let fits = (\<lambda>w. case map_of minimum w of None \<Rightarrow> False | Some m \<Rightarrow> m \<le> 1);
         multi = (\<lambda>g. g \<in> set MULTI_GPU_GATES)
     in Inr (s\<lparr>omitted_workloads := filter (\<lambda>w. \<not> fits w) (stage_workloads s),
               stage_workloads := filter fits (stage_workloads s),
               omitted_gates := filter multi (stage_gates s),
               stage_gates := filter (\<lambda>g. \<not> multi g) (stage_gates s), gpu_count := 1\<rparr>))"

definition plan_stages :: "recipe \<Rightarrow> (string \<times> int) list \<Rightarrow> int option \<Rightarrow> plan_stage list res" where
  "plan_stages rows minimum gpu_index =
     bindE (diagnostic_stages rows) (\<lambda>diagnostics.
     bindE (round_stages rows) (\<lambda>rounds.
     case gpu_index of
       None \<Rightarrow> Inr (diagnostics @ rounds)
     | Some _ \<Rightarrow>
         mapE (restrict_stage minimum)
           (filter (\<lambda>s. prefix ''round-'' (stage_name s)) (diagnostics @ rounds))))"

definition make_plan ::
  "release_lib \<Rightarrow> json \<Rightarrow> pinned_source \<Rightarrow> int option \<Rightarrow> (plan_stage list \<times> (string \<times> string) list) res" where
  \<comment> \<open>the stages and the identities of the inputs\<close>
  "make_plan lib v source gpu_index =
     bindE (validate lib v) (\<lambda>doc.
     bindE (ditem doc ''qualification_policy'') (\<lambda>p.
     bindE (validate_policy p) (\<lambda>policy.
     bindE (guardE (\<not> (py_eq (gpu_count_of policy) (JInt 1) \<and> gpu_index = None))
              (ValueError ''single-GPU candidate requires an explicit --gpu-index'' [])) (\<lambda>_.
     bindE (recipe_inputs lib source) (\<lambda>recipe.
     bindE (plan_stages (fst recipe) (fst (snd recipe)) gpu_index) (\<lambda>stages.
     Inr (stages, snd (snd recipe))))))))"

section \<open>Commands\<close>

text \<open>\<^verbatim>\<open>shlex.join\<close>: an argument without unsafe characters stays as it is.\<close>

definition shell_safe :: "char \<Rightarrow> bool" where
  "shell_safe c = (alnum c \<or> c \<in> set (''_%+=:,./-'' @ at_sign))"

definition sq :: char where
  "sq = char_of (39::nat)"

definition shell_quote :: "string \<Rightarrow> string" where
  "shell_quote s =
     (if s = [] then [sq, sq]
      else if list_all shell_safe s then s
      else sq # concat (map (\<lambda>c. if c = sq then [sq, CHR 0x22, sq, CHR 0x22, sq] else [c]) s) @ [sq])"

definition shell_join :: "string list \<Rightarrow> string" where
  "shell_join args = join '' '' (map shell_quote args)"

definition workload_command :: "plan_stage \<Rightarrow> string list" where
  "workload_command s =
     [''python3'', ''-m'', ''workloads.run_workloads'', ''--from-release'', ''--line'', stage_line s,
      ''--gpus'', string_of_nat (gpu_count s), ''--out'', ''/run/vaso/run/workloads'',
      ''--only'', join '','' (stage_workloads s)]"

definition gate_command :: "plan_stage \<Rightarrow> string list" where
  "gate_command s =
     [''python3'', ''native/pytorch/gates.py'', ''--from-release'', ''--out-dir'', ''/run/vaso/run/gates'',
      ''--results-out'', ''/run/vaso/run/gates/results.json'', ''--only'', join '','' (stage_gates s), ''--execute'']
     @ concat (map (\<lambda>g. [''--block-group'', g])
         (if stage_profile s = ''torch'' then [''core'', ''compile'', ''vision_audio''] else [''jax'']))"

definition consumer_command :: "string \<Rightarrow> string list" where
  "consumer_command consumer =
     [''env'', ''PYTHONPATH=/workspace/experiment/examples/consumers:/workspace/experiment'',
      ''python3'', ''-m'', consumer]"

definition stage_command :: "plan_stage \<Rightarrow> ppath \<Rightarrow> ppath \<Rightarrow> string list" where
  "stage_command s source release =
     (let commands =
            [shell_join (workload_command s)]
            @ (if stage_gates s \<noteq> [] then [shell_join (gate_command s)] else [])
            @ (case stage_consumer s of None \<Rightarrow> [] | Some c \<Rightarrow> if c = [] then [] else [shell_join (consumer_command c)])
      in [path_text (slash source ''foundry/insula.sh''), ''--line'', stage_line s,
          ''--release'', path_text release, ''--gpus'', string_of_nat (gpu_count s),
          ''--'', ''/bin/bash'', ''-c'', ''set -euo pipefail'' @ [lf] @ join [lf] commands])"

end
