(* ===== verification/CandidateRun.thy ===== *)
theory CandidateRun
  imports Candidate
begin

text \<open>
  What an accepted candidate promises: its six components, each with pins that stay below its own
  directory, and what a passing payload verification has compared.
\<close>

section \<open>Accepted documents\<close>

definition component_key :: "dict \<Rightarrow> component_id" where
  "component_key item =
     (item_str item ''kind'', item_str item ''line'',
      case dget item ''profile'' of JStr p \<Rightarrow> Some p | _ \<Rightarrow> None)"

definition archive_ok :: "dict \<Rightarrow> bool" where
  "archive_ok item =
     (\<exists>a h. dget item ''archive'' = JStr a \<and> member_name_ok a \<and> dget item ''archive_sha256'' = JStr h
        \<and> hex_pattern 64 h \<and> ''rootfs-bundle.json'' \<in> fst ` set (pins_of item)
        \<and> (a \<in> fst ` set (pins_of item) \<longrightarrow> map_of (pins_of item) a = Some h))"

definition component_ok :: "dict \<Rightarrow> bool" where
  "component_ok item =
     (matches reference_pattern (dget item ''reference'') \<and> pins_of item \<noteq> []
      \<and> (\<forall>(n, digest)\<in>set (pins_of item). member_name_ok n \<and> hex_pattern 64 digest)
      \<and> (rootfs_item item \<longrightarrow> archive_ok item))"

lemma need_Inr [simp]: "need b m = Inr u \<longleftrightarrow> b"
  by (simp add: need_def)

lemma matches_iff: "matches p v \<longleftrightarrow> (\<exists>s. v = JStr s \<and> p s)"
  by (cases v) auto

lemma safe_member_Inr: "safe_member v = Inr u \<longleftrightarrow> (\<exists>n. v = JStr n \<and> member_name_ok n)"
  by (cases v) (auto simp: safe_member_def)

lemma check_fields_Inr: "check_fields i item = Inr key \<Longrightarrow> key = component_key item"
  by (auto simp: check_fields_def component_key_def item_str_def str_of_def split: json.splits)

lemma check_fields_kind: "check_fields i item = Inr key \<Longrightarrow> fst key = ''rootfs'' \<longleftrightarrow> rootfs_item item"
  by (auto simp: check_fields_def rootfs_item_def split: json.splits)

lemma pins_of_JObj: "dget item ''files'' = JObj pins \<Longrightarrow> pins_of item = map (\<lambda>(k, v). (k, str_of v)) pins"
  by (simp add: pins_of_def)

lemma map_of_str: "map_of (map (\<lambda>(k, v). (k, str_of v)) pins) k = map_option str_of (map_of pins k)"
  by (induction pins) auto

lemma check_file_Inr: "check_file f = Inr u \<longleftrightarrow> member_name_ok (fst f) \<and> (\<exists>h. snd f = JStr h \<and> hex_pattern 64 h)"
  by (auto simp: check_file_def safe_member_Inr matches_iff)

lemma check_files_Inr:
  assumes "mapE check_file pins = Inr us" "(n, digest) \<in> set (map (\<lambda>(k, v). (k, str_of v)) pins)"
  shows "member_name_ok n \<and> hex_pattern 64 digest"
proof -
  from assms(2) obtain v where v: "(n, v) \<in> set pins" "digest = str_of v" by auto
  then obtain u where "check_file (n, v) = Inr u" using mapE_Inr_in_set [OF assms(1) v(1)] by auto
  then show ?thesis using v(2) by (auto simp: check_file_Inr str_of_def)
qed

lemma check_archive_Inr:
  assumes "check_archive item pins = Inr u" "dget item ''files'' = JObj pins"
  shows "archive_ok item"
proof -
  from assms(1) obtain a where a: "dget item ''archive'' = JStr a" "member_name_ok a"
    by (auto simp: check_archive_def safe_member_Inr)
  from assms(1) obtain h where h: "dget item ''archive_sha256'' = JStr h" "hex_pattern 64 h"
    by (auto simp: check_archive_def matches_iff)
  from assms(1) have bndl: "map_of pins ''rootfs-bundle.json'' \<noteq> None"
    by (auto simp: check_archive_def dhas_def)
  have conflict: "case map_of pins a of None \<Rightarrow> True | Some pinned \<Rightarrow> pinned = JStr h"
    using assms(1) a(1) unfolding check_archive_def h(1) by (auto cong: option.case_cong)
  have bndl': "''rootfs-bundle.json'' \<in> fst ` set (pins_of item)"
  proof -
    have "map_of (pins_of item) ''rootfs-bundle.json'' \<noteq> None"
      using bndl by (simp add: pins_of_JObj [OF assms(2)] map_of_str)
    then show ?thesis by (simp add: map_of_eq_None_iff)
  qed
  have "map_of (pins_of item) a = Some h" if "a \<in> fst ` set (pins_of item)"
  proof -
    have eq: "map_of (pins_of item) a = map_option str_of (map_of pins a)"
      by (simp add: pins_of_JObj [OF assms(2)] map_of_str)
    have "map_of (pins_of item) a \<noteq> None" using that by (simp add: map_of_eq_None_iff)
    then show ?thesis using conflict by (cases "map_of pins a") (simp_all add: eq str_of_def)
  qed
  then show ?thesis unfolding archive_ok_def using a h bndl' by blast
qed

lemma check_component_Inr:
  assumes "check_component seen (i, v) = Inr seen'"
  shows "\<exists>item. v = JObj item \<and> seen' = component_key item # seen \<and> component_key item \<notin> set seen \<and> component_ok item"
proof (cases v)
  case (JObj item)
  from assms JObj obtain key where key: "check_fields i item = Inr key" "key \<notin> set seen"
    and ref: "matches reference_pattern (dget item ''reference'')"
    by (auto simp: check_component_def)
  from assms JObj key obtain pins us where pins: "dget item ''files'' = JObj pins" "pins \<noteq> []"
      "mapE check_file pins = Inr us" "fst key = ''rootfs'' \<Longrightarrow> check_archive item pins = Inr ()"
    and seen': "seen' = key # seen"
    by (auto simp: check_component_def split: json.splits if_splits)
  have files: "pins_of item \<noteq> []" using pins(1,2) by (simp add: pins_of_def)
  have each: "\<forall>(n, digest)\<in>set (pins_of item). member_name_ok n \<and> hex_pattern 64 digest"
    using check_files_Inr [OF pins(3)] unfolding pins_of_JObj [OF pins(1)] by blast
  have "archive_ok item" if "rootfs_item item"
    using check_archive_Inr [OF pins(4) pins(1)] check_fields_kind [OF key(1)] that by simp
  then have "component_ok item" unfolding component_ok_def using ref files each by simp
  then show ?thesis using JObj seen' key check_fields_Inr [OF key(1)] by simp
qed (use assms in \<open>simp_all add: check_component_def\<close>)

lemma check_components_Inr:
  "foldE check_component seen (enumerate i vs) = Inr seen' \<Longrightarrow>
   \<exists>ds. vs = map JObj ds \<and> seen' = rev (map component_key ds) @ seen
      \<and> distinct (map component_key ds) \<and> (\<forall>d\<in>set ds. component_key d \<notin> set seen \<and> component_ok d)"
proof (induction vs arbitrary: i seen)
  case Nil
  then show ?case by simp
next
  case (Cons v vs)
  then obtain s1 where s1: "check_component seen (i, v) = Inr s1"
    and rest: "foldE check_component s1 (enumerate (Suc i) vs) = Inr seen'" by auto
  from check_component_Inr [OF s1] obtain item where item: "v = JObj item"
    "s1 = component_key item # seen" "component_key item \<notin> set seen" "component_ok item" by blast
  from Cons.IH [OF rest] obtain ds where ds: "vs = map JObj ds" "seen' = rev (map component_key ds) @ s1"
    "distinct (map component_key ds)" "\<forall>d\<in>set ds. component_key d \<notin> set s1 \<and> component_ok d" by blast
  show ?case
    by (rule exI [of _ "item # ds"]) (use item ds in \<open>auto simp: image_iff\<close>)
qed

lemma map_filter_objects: "List.map_filter (\<lambda>v. case v of JObj d \<Rightarrow> Some d | _ \<Rightarrow> None) (map JObj ds) = ds"
  by (induction ds) (simp_all add: map_filter_simps)

lemma validate_Inr:
  assumes "validate lib v = Inr doc"
  shows "v = JObj doc" "distinct (map component_key (components_of doc))"
    "component_key ` set (components_of doc) = set expected_keys"
    "\<forall>item\<in>set (components_of doc). component_ok item"
proof -
  from assms show doc: "v = JObj doc"
    by (auto simp: validate_def split: json.splits)
  from assms doc obtain items seen where items: "dget doc ''components'' = JList items"
    "foldE check_component [] (enumerate 0 items) = Inr seen" "set seen = set expected_keys"
    by (auto simp: validate_def split: json.splits)
  from check_components_Inr [OF items(2)] obtain ds where ds: "items = map JObj ds"
    "seen = rev (map component_key ds)" "distinct (map component_key ds)" "\<forall>d\<in>set ds. component_ok d"
    by auto
  have "components_of doc = ds"
    using items(1) ds(1) map_filter_objects by (simp add: components_of_def)
  then show "distinct (map component_key (components_of doc))"
    "component_key ` set (components_of doc) = set expected_keys"
    "\<forall>item\<in>set (components_of doc). component_ok item"
    using ds items(3) by auto
qed

lemma expected_keys_distinct: "distinct expected_keys" "length expected_keys = 6"
  by (code_simp, code_simp)

lemma validate_six:
  assumes "validate lib v = Inr doc"
  shows "length (components_of doc) = 6"
proof -
  have "length (components_of doc) = card (set (map component_key (components_of doc)))"
    using distinct_card [OF validate_Inr(2) [OF assms]] by simp
  also have "\<dots> = card (set expected_keys)" using validate_Inr(3) [OF assms] by simp
  also have "\<dots> = 6" using distinct_card [OF expected_keys_distinct(1)] expected_keys_distinct(2) by simp
  finally show ?thesis .
qed

text \<open>A safe member stays below the directory it is joined to.\<close>

lemma member_name_below:
  assumes "member_name_ok n"
  shows "relative_to (slash dir n) dir" "names (parse n) \<noteq> []" "''..'' \<notin> set (names (parse n))"
  using assms by (auto simp: member_name_ok_def parts_def split: if_splits)

lemma expected_pins_ok:
  assumes "component_ok item" "(n, digest) \<in> set (expected_pins item)"
  shows "member_name_ok n \<and> hex_pattern 64 digest"
proof (cases "(n, digest) \<in> set (pins_of item)")
  case True
  then show ?thesis using assms(1) by (auto simp: component_ok_def)
next
  case False
  then have "rootfs_item item" using assms(2) by (auto simp: expected_pins_def split: if_splits)
  then obtain a h where ah: "dget item ''archive'' = JStr a" "member_name_ok a"
    "dget item ''archive_sha256'' = JStr h" "hex_pattern 64 h"
    using assms(1) by (auto simp: component_ok_def archive_ok_def)
  have "(n, digest) = (a, h)"
    using assms(2) False \<open>rootfs_item item\<close> ah set_update [of a h "pins_of item"]
    by (auto simp: expected_pins_def item_str_def str_of_def)
  then show ?thesis using ah by simp
qed

section \<open>A sample candidate\<close>

definition sample_release_lib :: release_lib where
  "sample_release_lib =
     \<lparr>sha256 = (\<lambda>s. replicate 64 (if even (length s) then CHR ''0'' else CHR ''1'')),
      canonical = (\<lambda>v. ''{}''), loads = (\<lambda>s. Inl (ValueError s []))\<rparr>"

abbreviation zeros :: string where
  "zeros \<equiv> replicate 64 (CHR ''0'')"

definition sample_reference :: json where
  "sample_reference = JStr (''ghcr.io/vaso/part'' @ at_sign @ ''sha256:'' @ zeros)"

definition sample_rootfs :: "string \<Rightarrow> string \<Rightarrow> json" where
  "sample_rootfs archive line =
     JObj [(''kind'', JStr ''rootfs''), (''line'', JStr line), (''reference'', sample_reference),
           (''files'', JObj [(''rootfs-bundle.json'', JStr zeros)]),
           (''archive'', JStr archive), (''archive_sha256'', JStr zeros)]"

definition sample_release_item :: "string \<times> string \<Rightarrow> json" where
  "sample_release_item key =
     JObj [(''kind'', JStr ''release''), (''line'', JStr (fst key)), (''profile'', JStr (snd key)),
           (''reference'', sample_reference), (''files'', JObj [(''wheels/a.whl'', JStr zeros)])]"

definition sample_doc :: "string \<Rightarrow> dict" where
  "sample_doc archive =
     [(''schema_version'', JInt 1), (''kind'', JStr ''vaso-release-candidate''), (''name'', JStr ''preview-1''),
      (''source'', JObj [(''commit'', JStr (replicate 40 (CHR ''a''))), (''tree'', JStr (replicate 40 (CHR ''b'')))]),
      (''components'', JList (map (sample_rootfs archive) CANDIDATE_LINES @ map sample_release_item MATRIX)),
      (''qualification_policy_sha256'', JStr zeros)]"

lemma hex_zeros: "hex_pattern 64 zeros"
  by (simp add: hex_pattern_def list_all_iff is_digit_def)

lemma sample_reference_ok: "matches reference_pattern sample_reference"
proof -
  have "takeWhile (\<lambda>c. \<not> is_space c \<and> c \<notin> set at_sign) (''vaso/part'' @ at_sign @ ''sha256:'' @ zeros) = ''vaso/part''"
    by (simp add: at_sign_def is_space_def)
  then show ?thesis by (simp add: sample_reference_def reference_pattern_def Let_def at_sign_def hex_zeros)
qed

lemma sample_rootfs_ok:
  assumes "member_name_ok archive" "archive \<noteq> ''rootfs-bundle.json''" "(''rootfs'', line, None) \<notin> set seen"
  shows "check_component seen (i, sample_rootfs archive line) = Inr ((''rootfs'', line, None) # seen)"
proof -
  have "member_name_ok ''rootfs-bundle.json''" by code_simp
  then show ?thesis
    using assms sample_reference_ok
    by (simp add: check_component_def sample_rootfs_def check_fields_def dget_Cons dget_Nil need_def check_file_def
        check_archive_def safe_member_def hex_zeros dhas_def)
qed

lemma sample_release_ok:
  assumes "(''release'', line, Some profile) \<notin> set seen"
  shows "check_component seen (i, sample_release_item (line, profile)) = Inr ((''release'', line, Some profile) # seen)"
proof -
  have "member_name_ok ''wheels/a.whl''" by code_simp
  then show ?thesis
    using assms sample_reference_ok
    by (simp add: check_component_def sample_release_item_def check_fields_def dget_Cons dget_Nil need_def check_file_def
        safe_member_def hex_zeros)
qed

lemma sample_checked:
  assumes "member_name_ok archive" "archive \<noteq> ''rootfs-bundle.json''"
  shows "\<exists>seen. foldE check_component [] (enumerate 0 (map (sample_rootfs archive) CANDIDATE_LINES @ map sample_release_item MATRIX)) = Inr seen
           \<and> set seen = set expected_keys"
  by (simp add: CANDIDATE_LINES_def MATRIX_def expected_keys_def sample_rootfs_ok [OF assms] sample_release_ok insert_commute)

lemma sample_candidate_valid:
  assumes "member_name_ok archive" "archive \<noteq> ''rootfs-bundle.json''"
  shows "validate sample_release_lib (JObj (sample_doc archive)) = Inr (sample_doc archive)"
proof -
  have head: "matches name_pattern (JStr ''preview-1'')" by code_simp
  have source: "check_source_field (JObj [(''commit'', JStr (replicate 40 (CHR ''a''))), (''tree'', JStr (replicate 40 (CHR ''b'')))]) = Inr ()"
    by (simp add: check_source_field_def dget_Cons hex_pattern_def list_all_iff)
  have hash: "sha256 sample_release_lib (canonical sample_release_lib v) = zeros" for v by (simp add: sample_release_lib_def)
  from sample_checked [OF assms] obtain seen where
    "foldE check_component [] (enumerate 0 (map (sample_rootfs archive) CANDIDATE_LINES @ map sample_release_item MATRIX)) = Inr seen"
    "set seen = set expected_keys" by blast
  with head source hash show ?thesis
    by (simp add: validate_def sample_doc_def dget_Cons dget_Nil policy_of_def need_def del: enumerate_append_eq)
qed

lemma sample_accepted: "validate sample_release_lib (JObj (sample_doc ''rootfs.tar.zst'')) = Inr (sample_doc ''rootfs.tar.zst'')"
proof (rule sample_candidate_valid)
  show "member_name_ok ''rootfs.tar.zst''" by code_simp
qed simp

lemma sample_part_accepted:
  "validate sample_release_lib (JObj (sample_doc ''rootfs.tar.zst.part'')) = Inr (sample_doc ''rootfs.tar.zst.part'')"
proof (rule sample_candidate_valid)
  show "member_name_ok ''rootfs.tar.zst.part''" by code_simp
qed simp

section \<open>What a candidate promises\<close>

text \<open>
  C29. A candidate that is accepted lists exactly one component for each rootfs line and for each line and
  profile of the release matrix, six in all. Each is named by an immutable digest and pins at least
  one file; every pin is a SHA-256 value for a place below the directory of its own component,
  reached without a parent step; a rootfs pins its bundle manifest and the archive it is made from,
  with one hash for it.
\<close>

theorem accepted_candidate_is_complete:
  assumes "validate lib v = Inr doc"
  shows "v = JObj doc \<and> length (components_of doc) = 6
    \<and> (\<forall>key\<in>set expected_keys. \<exists>!item. item \<in> set (components_of doc) \<and> component_key item = key)
    \<and> (\<forall>item\<in>set (components_of doc).
         matches reference_pattern (dget item ''reference'') \<and> expected_pins item \<noteq> []
         \<and> (\<forall>(n, digest)\<in>set (expected_pins item).
              hex_pattern 64 digest \<and> ''..'' \<notin> set (names (parse n))
              \<and> relative_to (slash (component_dir estate item) n) (component_dir estate item))
         \<and> (rootfs_item item \<longrightarrow> archive_ok item))"
proof (intro conjI ballI)
  show "v = JObj doc" by (rule validate_Inr(1) [OF assms])
  show "length (components_of doc) = 6" by (rule validate_six [OF assms])
next
  fix key assume "key \<in> set expected_keys"
  then have "key \<in> component_key ` set (components_of doc)" using validate_Inr(3) [OF assms] by simp
  then obtain item where "item \<in> set (components_of doc)" "component_key item = key" by auto
  then show "\<exists>!item. item \<in> set (components_of doc) \<and> component_key item = key"
    using validate_Inr(2) [OF assms] by (auto simp: distinct_map dest: inj_onD)
next
  fix item assume item: "item \<in> set (components_of doc)"
  then have ok: "component_ok item" using validate_Inr(4) [OF assms] by simp
  then show "matches reference_pattern (dget item ''reference'')" by (simp add: component_ok_def)
  show "rootfs_item item \<longrightarrow> archive_ok item" using ok by (simp add: component_ok_def)
  show "expected_pins item \<noteq> []"
    using ok by (cases "pins_of item") (auto simp: component_ok_def expected_pins_def split: if_splits)
  fix pin assume pin: "pin \<in> set (expected_pins item)"
  show "case pin of (n, digest) \<Rightarrow>
          hex_pattern 64 digest \<and> ''..'' \<notin> set (names (parse n))
          \<and> relative_to (slash (component_dir estate item) n) (component_dir estate item)"
    using expected_pins_ok [OF ok] pin member_name_below by (cases pin) auto
qed

lemma accepted_candidate_is_complete_witness:
  "length (components_of (sample_doc ''rootfs.tar.zst'')) = 6"
  by (rule conjunct1 [OF conjunct2 [OF accepted_candidate_is_complete [OF sample_accepted]]])

lemma check_hash_Inr:
  "check_hash lib fs p digest m = Inr u \<longleftrightarrow> (\<exists>data. content fs p = Some data \<and> sha256 lib data = digest)"
  by (auto simp: check_hash_def split: option.splits)

lemma error_of_Nil [simp]: "error_of c n r = [] \<longleftrightarrow> (\<exists>u. r = Inr u)"
  by (cases r) (simp_all add: error_of_def)

definition pin_holds :: "release_lib \<Rightarrow> payload_fs \<Rightarrow> ppath \<Rightarrow> string \<times> string \<Rightarrow> bool" where
  \<comment> \<open>the pinned file lies below the directory also when links are followed, and has its hash\<close>
  "pin_holds lib fs dir pin =
     (let p = slash dir (fst pin) in
      relative_to (resolved fs p) (resolved fs dir)
      \<and> (case content fs p of None \<Rightarrow> False | Some data \<Rightarrow> sha256 lib data = snd pin))"

lemma check_pin_Inr: "check_pin lib fs dir pin = Inr u \<longleftrightarrow> pin_holds lib fs dir pin"
  by (auto simp: check_pin_def pin_holds_def Let_def check_hash_Inr split: option.splits)

definition bundle_holds :: "release_lib \<Rightarrow> payload_fs \<Rightarrow> ppath \<Rightarrow> dict \<Rightarrow> bool" where
  "bundle_holds lib fs estate item =
     (case content fs (slash (slash (slash estate ''rootfs-lines'') (item_str item ''line'')) ''rootfs-bundle.json'') of
        None \<Rightarrow> False
      | Some data \<Rightarrow> map_of (pins_of item) ''rootfs-bundle.json'' = Some (sha256 lib data))"

lemma concat_filter_Nil:
  "concat (map f (filter (\<lambda>x. \<not> P x) xs)) = [] \<longleftrightarrow> (\<forall>x\<in>set xs. P x \<or> f x = [])"
  by auto

lemma bundle_error_Nil:
  "error_of c n
     (case map_of (pins_of item) ''rootfs-bundle.json'' of
        None \<Rightarrow> Inl (KeyError ''rootfs-bundle.json'')
      | Some digest \<Rightarrow>
          check_hash lib fs (slash (slash (slash estate ''rootfs-lines'') (item_str item ''line'')) ''rootfs-bundle.json'')
            digest m) = []
   \<longleftrightarrow> bundle_holds lib fs estate item"
  by (auto simp: check_hash_Inr bundle_holds_def split: option.splits)

lemma payload_errors_Nil:
  "snd (check_payload lib fs estate item) = [] \<longleftrightarrow>
     (\<forall>pin\<in>set (expected_pins item).
        omitted_part fs estate item (fst pin) \<or> pin_holds lib fs (component_dir estate item) pin)
     \<and> (rootfs_item item \<longrightarrow> bundle_holds lib fs estate item)"
  unfolding check_payload_def Let_def snd_conv append_is_Nil_conv concat_filter_Nil error_of_Nil check_pin_Inr
  using bundle_error_Nil by simp

lemma verify_payloads_Inr:
  "verify_payloads lib fs v estate = Inr r \<longleftrightarrow>
     (\<exists>doc. validate lib v = Inr doc \<and>
        r = \<lparr>report_status = (if \<forall>item\<in>set (components_of doc). snd (check_payload lib fs estate item) = []
                             then ''passed'' else ''failed''),
             report_checks = map (fst \<circ> check_payload lib fs estate) (components_of doc),
             report_errors = concat (map (snd \<circ> check_payload lib fs estate) (components_of doc))\<rparr>)"
  by (auto simp: verify_payloads_def Let_def)

text \<open>
  C30. The verification of the payloads passes exactly when every pinned file of the six components is
  there with its hash, also after links are followed, save transport parts that are gone, and the
  manifest of each materialized rootfs has the hash that the candidate pins. No content is
  mentioned twice or left out: the archive of a rootfs counts, whatever became of its parts, when
  its name is not that of a part.
\<close>

theorem payloads_pass_iff:
  assumes "verify_payloads lib fs v estate = Inr r" "v = JObj doc"
  shows "(report_status r = ''passed'' \<longleftrightarrow>
      (\<forall>item\<in>set (components_of doc).
         (\<forall>pin\<in>set (expected_pins item).
            omitted_part fs estate item (fst pin) \<or> pin_holds lib fs (component_dir estate item) pin)
         \<and> (rootfs_item item \<longrightarrow> bundle_holds lib fs estate item)))
    \<and> (report_status r = ''passed'' \<longrightarrow>
        (\<forall>item\<in>set (components_of doc). rootfs_item item \<longrightarrow> \<not> contains (item_str item ''archive'') ''.tar.zst.part'' \<longrightarrow>
           pin_holds lib fs (component_dir estate item) (item_str item ''archive'', item_str item ''archive_sha256'')))"
proof -
  have doc: "validate lib v = Inr doc"
    using assms validate_Inr(1) unfolding verify_payloads_Inr by blast
  then have iff: "report_status r = ''passed'' \<longleftrightarrow>
      (\<forall>item\<in>set (components_of doc). snd (check_payload lib fs estate item) = [])"
    using assms(1) unfolding verify_payloads_Inr by auto
  have archive: "(item_str item ''archive'', item_str item ''archive_sha256'') \<in> set (expected_pins item)"
    if "rootfs_item item" for item
    using that by (auto simp: expected_pins_def update_conv' intro!: map_of_SomeD)
  show ?thesis unfolding iff payload_errors_Nil
    using archive by (force simp: omitted_part_def)
qed

definition sample_payload_fs :: payload_fs where
  "sample_payload_fs = \<lparr>resolved = id, exists_at = (\<lambda>p. final_name p \<noteq> ''rootfs.tar.zst.part''),
     content = (\<lambda>p. if final_name p = ''rootfs.tar.zst.part'' then None else Some ''{}'')\<rparr>"

lemma payloads_pass_iff_witness:
  "\<exists>r. verify_payloads sample_release_lib sample_payload_fs (JObj (sample_doc ''rootfs.tar.zst'')) (parse ''/estate'') = Inr r
     \<and> (report_status r = ''passed'' \<longrightarrow>
         (\<forall>item\<in>set (components_of (sample_doc ''rootfs.tar.zst'')). rootfs_item item \<longrightarrow>
            \<not> contains (item_str item ''archive'') ''.tar.zst.part'' \<longrightarrow>
            pin_holds sample_release_lib sample_payload_fs (component_dir (parse ''/estate'') item)
              (item_str item ''archive'', item_str item ''archive_sha256'')))"
proof -
  obtain r where r: "verify_payloads sample_release_lib sample_payload_fs (JObj (sample_doc ''rootfs.tar.zst'')) (parse ''/estate'') = Inr r"
    by (simp add: verify_payloads_def sample_accepted Let_def)
  show ?thesis by (rule exI [of _ r], rule conjI [OF r], rule conjunct2 [OF payloads_pass_iff [OF r refl]])
qed

text \<open>
  A candidate may call its archive by the name of a transport part; the archive then counts as a
  part that the transport discarded, and the verification passes without any archive.
\<close>

lemma sample_item_passes:
  "list_all (\<lambda>item. snd (check_payload sample_release_lib sample_payload_fs (parse ''/estate'') item) = [])
     (components_of (sample_doc ''rootfs.tar.zst.part''))"
  by code_simp

theorem archive_named_as_part_is_skipped:
  "\<exists>r. verify_payloads sample_release_lib sample_payload_fs (JObj (sample_doc ''rootfs.tar.zst.part'')) (parse ''/estate'') = Inr r
     \<and> report_status r = ''passed''
     \<and> content sample_payload_fs (slash dir ''rootfs.tar.zst.part'') = None"
proof -
  have "content sample_payload_fs (slash dir ''rootfs.tar.zst.part'') = None"
    by (simp add: sample_payload_fs_def parse_name joinpath_def absolute_def final_name_def real_name_def)
  then show ?thesis
    using sample_item_passes sample_part_accepted
    by (simp add: verify_payloads_def Let_def list_all_iff)
qed

end
