(* ===== verification/QualificationPlanRun.thy ===== *)
theory QualificationPlanRun
  imports QualificationPlan CandidateRun
begin

text \<open>
  What a qualification plan covers: every row of the recipe in each of three rounds, no workload for
  more devices than it gets, and no stage that reuses a cache that no earlier stage made.
\<close>

section \<open>Tags of stages\<close>

lemma mapE_tags:
  "mapE f xs = Inr ys \<Longrightarrow> (\<And>x y. f x = Inr y \<Longrightarrow> g y = h x) \<Longrightarrow> map g ys = map h xs"
  by (induction xs arbitrary: ys) auto

lemma concatE_tags:
  "concatE f xs = Inr ys \<Longrightarrow> (\<And>x y. f x = Inr y \<Longrightarrow> map g y = h x) \<Longrightarrow> map g ys = concat (map h xs)"
  by (induction xs arbitrary: ys) auto

definition tag :: "plan_stage \<Rightarrow> string \<times> string \<times> bool" where
  "tag s = (stage_name s, cache_group s, reuse s)"

lemma add_stage_tag: "add_stage rows n line profile g r only = Inr s \<Longrightarrow> tag s = (n, g, r)"
  unfolding add_stage_def bindE_eq_Inr by (cases only) (auto simp: tag_def split: option.splits)

definition diagnostic_tags :: "(string \<times> string \<times> bool) list" where
  "diagnostic_tags =
     map (\<lambda>n. (''jax-diagnostic-cold-'' @ string_of_nat (n + 1), ''jax-cold-'' @ string_of_nat (n + 1), False)) [0..<3]
     @ map (\<lambda>n. (''jax-diagnostic-reuse-'' @ string_of_nat (n + 1), ''jax-cold-1'', True)) [0..<3]
     @ [(''jax-profile-cold'', ''jax-profile'', False), (''jax-profile-reuse'', ''jax-profile'', True)]"

lemma diagnostic_stages_tags:
  assumes "diagnostic_stages rows = Inr ss"
  shows "map tag ss = diagnostic_tags"
proof -
  from assms obtain cold reused pc pr where ss: "ss = cold @ reused @ [pc, pr]"
    and cold: "mapE (\<lambda>n. add_stage rows (''jax-diagnostic-cold-'' @ string_of_nat (n + 1)) ''cu130'' ''jax''
                        (''jax-cold-'' @ string_of_nat (n + 1)) False (Some [''W5b''])) [0..<3] = Inr cold"
    and reused: "mapE (\<lambda>n. add_stage rows (''jax-diagnostic-reuse-'' @ string_of_nat (n + 1)) ''cu130'' ''jax''
                        ''jax-cold-1'' True (Some [''W5b''])) [0..<3] = Inr reused"
    and pc: "add_stage rows ''jax-profile-cold'' ''cu130'' ''jax'' ''jax-profile'' False None = Inr pc"
    and pr: "add_stage rows ''jax-profile-reuse'' ''cu130'' ''jax'' ''jax-profile'' True None = Inr pr"
    unfolding diagnostic_stages_def bindE_eq_Inr by blast
  have "map tag cold = map (\<lambda>n. (''jax-diagnostic-cold-'' @ string_of_nat (n + 1),
                                 ''jax-cold-'' @ string_of_nat (n + 1), False)) [0..<3]"
    by (rule mapE_tags [OF cold]) (rule add_stage_tag)
  moreover have "map tag reused = map (\<lambda>n. (''jax-diagnostic-reuse-'' @ string_of_nat (n + 1),
                                 ''jax-cold-1'', True)) [0..<3]"
    by (rule mapE_tags [OF reused]) (rule add_stage_tag)
  ultimately show ?thesis
    unfolding ss diagnostic_tags_def by (simp only: map_append list.map add_stage_tag [OF pc] add_stage_tag [OF pr])
qed

definition line_tags :: "nat \<Rightarrow> string \<Rightarrow> (string \<times> string \<times> bool) list" where
  "line_tags n line =
     map (\<lambda>profile. (stage_title n line profile, line @ ''-'' @ profile, 1 < n)) [''torch'', ''jax'']
     @ [(stage_title n line ''coresidence'', line @ ''-coresidence'', 1 < n)]"

lemma line_stages_tags:
  assumes "line_stages rows n line = Inr ss"
  shows "map tag ss = line_tags n line"
proof -
  from assms obtain ps c where ss: "ss = ps @ [c]"
    and ps: "mapE (\<lambda>profile. add_stage rows (stage_title n line profile) line profile
                              (line @ ''-'' @ profile) (1 < n) None) [''torch'', ''jax''] = Inr ps"
    and c: "add_stage rows (stage_title n line ''coresidence'') line ''coresidence''
              (line @ ''-coresidence'') (1 < n) (Some [''W4'']) = Inr c"
    unfolding line_stages_def bindE_eq_Inr by blast
  have "map tag ps = map (\<lambda>profile. (stage_title n line profile, line @ ''-'' @ profile, 1 < n)) [''torch'', ''jax'']"
    by (rule mapE_tags [OF ps]) (rule add_stage_tag)
  then show ?thesis unfolding ss line_tags_def map_append using add_stage_tag [OF c] by simp
qed

definition round_tags :: "(string \<times> string \<times> bool) list" where
  "round_tags = concat (map (\<lambda>n. concat (map (line_tags n) CANDIDATE_LINES)) [1..<4])"

lemma round_stages_tags:
  assumes "round_stages rows = Inr ss"
  shows "map tag ss = round_tags"
  unfolding round_tags_def
  by (rule concatE_tags [OF assms [unfolded round_stages_def]]) (erule concatE_tags, erule line_stages_tags)

lemma restrict_tag: "restrict_stage minimum s = Inr s' \<Longrightarrow> tag s' = tag s"
  by (auto simp: restrict_stage_def Let_def tag_def)

section \<open>Caches\<close>

text \<open>Every stage that reuses a cache comes after one that made a cache of its group afresh.\<close>

definition reuse_primed :: "plan_stage list \<Rightarrow> bool" where
  "reuse_primed ss =
     (\<forall>i<length ss. reuse (ss ! i) \<longrightarrow> (\<exists>j<i. cache_group (ss ! j) = cache_group (ss ! i) \<and> \<not> reuse (ss ! j)))"

fun primed :: "string list \<Rightarrow> (string \<times> string \<times> bool) list \<Rightarrow> bool" where
  "primed seen [] = True"
| "primed seen ((n, g, r) # ts) = ((r \<longrightarrow> g \<in> set seen) \<and> primed (if r then seen else g # seen) ts)"

lemma primed_index:
  "primed seen ts \<Longrightarrow> i < length ts \<Longrightarrow> snd (snd (ts ! i)) \<Longrightarrow>
   fst (snd (ts ! i)) \<in> set seen
   \<or> (\<exists>j<i. fst (snd (ts ! j)) = fst (snd (ts ! i)) \<and> \<not> snd (snd (ts ! j)))"
proof (induction seen ts arbitrary: i rule: primed.induct)
  case (2 seen n g r ts)
  show ?case
  proof (cases i)
    case 0
    then show ?thesis using "2.prems" by simp
  next
    case (Suc k)
    have "fst (snd (ts ! k)) \<in> set (if r then seen else g # seen)
        \<or> (\<exists>j<k. fst (snd (ts ! j)) = fst (snd (ts ! k)) \<and> \<not> snd (snd (ts ! j)))"
      by (rule "2.IH") (use "2.prems" Suc in simp_all)
    then show ?thesis
    proof
      assume "\<exists>j<k. fst (snd (ts ! j)) = fst (snd (ts ! k)) \<and> \<not> snd (snd (ts ! j))"
      then obtain j where "j < k" "fst (snd (ts ! j)) = fst (snd (ts ! k))" "\<not> snd (snd (ts ! j))" by blast
      then have "\<exists>j<i. fst (snd (((n, g, r) # ts) ! j)) = fst (snd (((n, g, r) # ts) ! i))
          \<and> \<not> snd (snd (((n, g, r) # ts) ! j))"
        using Suc by (intro exI [of _ "Suc j"]) simp
      then show ?thesis ..
    next
      assume "fst (snd (ts ! k)) \<in> set (if r then seen else g # seen)"
      then consider "fst (snd (ts ! k)) \<in> set seen" | "\<not> r" "fst (snd (ts ! k)) = g" by (auto split: if_splits)
      then show ?thesis using Suc by cases (auto intro!: exI [of _ 0])
    qed
  qed
qed simp

lemma primed_reuse: "primed [] (map tag ss) \<Longrightarrow> reuse_primed ss"
  unfolding reuse_primed_def
proof (intro allI impI)
  fix i assume "primed [] (map tag ss)" "i < length ss" "reuse (ss ! i)"
  with primed_index [of "[]" "map tag ss" i]
  have "\<exists>j<i. fst (snd (map tag ss ! j)) = fst (snd (map tag ss ! i)) \<and> \<not> snd (snd (map tag ss ! j))"
    by (simp add: tag_def)
  then show "\<exists>j<i. cache_group (ss ! j) = cache_group (ss ! i) \<and> \<not> reuse (ss ! j)"
    using \<open>i < length ss\<close> by (auto simp: tag_def)
qed

lemma full_plan_primed: "primed [] (diagnostic_tags @ round_tags)"
  by code_simp

lemma round_plan_primed: "primed [] (filter (\<lambda>t. prefix ''round-'' (fst t)) (diagnostic_tags @ round_tags))"
  by code_simp
section \<open>Plans\<close>

lemma make_plan_Inr:
  assumes "make_plan lib v source gpu = Inr (stages, ids)"
  obtains rows minimum diagnostics rounds where
    "recipe_inputs lib source = Inr (rows, minimum, ids)"
    "diagnostic_stages rows = Inr diagnostics" "round_stages rows = Inr rounds"
    "gpu = None \<longrightarrow> stages = diagnostics @ rounds"
    "gpu \<noteq> None \<longrightarrow> mapE (restrict_stage minimum)
       (filter (\<lambda>s. prefix ''round-'' (stage_name s)) (diagnostics @ rounds)) = Inr stages"
proof -
  from assms obtain rows minimum where
    recipe: "recipe_inputs lib source = Inr (rows, minimum, ids)" "plan_stages rows minimum gpu = Inr stages"
    unfolding make_plan_def bindE_eq_Inr by force
  then obtain diagnostics rounds where
    ds: "diagnostic_stages rows = Inr diagnostics" "round_stages rows = Inr rounds" and
    last: "(case gpu of
       None \<Rightarrow> Inr (diagnostics @ rounds)
     | Some _ \<Rightarrow>
         mapE (restrict_stage minimum)
           (filter (\<lambda>s. prefix ''round-'' (stage_name s)) (diagnostics @ rounds))) = Inr stages"
    unfolding plan_stages_def bindE_eq_Inr by blast
  show thesis by (rule that [OF recipe(1) ds]) (use last in \<open>cases gpu; simp\<close>)+
qed

lemma restrict_stages_tags:
  "mapE (restrict_stage minimum) ss = Inr ss' \<Longrightarrow> map tag ss' = map tag ss"
  by (rule mapE_tags) (auto dest: restrict_tag)

lemma filter_tags:
  "map tag (filter (\<lambda>s. P (stage_name s)) ss) = filter (\<lambda>t. P (fst t)) (map tag ss)"
  by (induction ss) (auto simp: tag_def)

text \<open>
  C31. Whatever the recipe and the device, no stage of a plan reuses a cache that the plan has not
  made: an earlier stage of the same cache group starts it afresh.
\<close>

theorem reuse_follows_fresh_cache:
  assumes "make_plan lib v source gpu = Inr (stages, ids)"
  shows "reuse_primed stages"
proof (rule primed_reuse)
  from assms obtain rows minimum diagnostics rounds where
    "recipe_inputs lib source = Inr (rows, minimum, ids)" and
    ds: "diagnostic_stages rows = Inr diagnostics" "round_stages rows = Inr rounds" and
    all: "gpu = None \<longrightarrow> stages = diagnostics @ rounds" and
    one: "gpu \<noteq> None \<longrightarrow> mapE (restrict_stage minimum)
       (filter (\<lambda>s. prefix ''round-'' (stage_name s)) (diagnostics @ rounds)) = Inr stages"
    by (rule make_plan_Inr)
  have tags: "map tag (diagnostics @ rounds) = diagnostic_tags @ round_tags"
    by (simp only: map_append diagnostic_stages_tags [OF ds(1)] round_stages_tags [OF ds(2)])
  show "primed [] (map tag stages)"
  proof (cases "gpu = None")
    case True
    then have st: "stages = diagnostics @ rounds" using all by simp
    show ?thesis unfolding st tags by (rule full_plan_primed)
  next
    case False
    then have "map tag stages = filter (\<lambda>t. prefix ''round-'' (fst t)) (diagnostic_tags @ round_tags)"
      using restrict_stages_tags [OF one [THEN mp, OF False]] by (simp only: filter_tags tags)
    then show ?thesis by (simp only: round_plan_primed)
  qed
qed

text \<open>The stage of a round for one row of the matrix, and what is left of it on one device.\<close>

definition row_stage :: "recipe_row \<Rightarrow> nat \<Rightarrow> string \<Rightarrow> string \<Rightarrow> plan_stage" where
  "row_stage row n line profile =
     \<lparr>stage_name = stage_title n line profile, stage_line = line, stage_profile = profile,
      cache_group = line @ ''-'' @ profile, reuse = (1 < n), stage_workloads = row_workloads row,
      stage_gates = row_gates row, stage_consumer = Some (row_consumer row),
      omitted_workloads = [], omitted_gates = [], gpu_count = 8\<rparr>"

definition on_one_device :: "(string \<times> int) list \<Rightarrow> plan_stage \<Rightarrow> plan_stage" where
  "on_one_device minimum s =
     (let fits = (\<lambda>w. \<exists>m. map_of minimum w = Some m \<and> m \<le> 1) in
      s\<lparr>stage_workloads := filter fits (stage_workloads s),
        omitted_workloads := filter (\<lambda>w. \<not> fits w) (stage_workloads s),
        stage_gates := filter (\<lambda>g. g \<notin> set MULTI_GPU_GATES) (stage_gates s),
        omitted_gates := filter (\<lambda>g. g \<in> set MULTI_GPU_GATES) (stage_gates s), gpu_count := 1\<rparr>)"

lemma restrict_stage_Inr: "restrict_stage minimum s = Inr s' \<Longrightarrow> s' = on_one_device minimum s"
proof -
  assume r: "restrict_stage minimum s = Inr s'"
  have fits: "(\<lambda>w. case map_of minimum w of None \<Rightarrow> False | Some m \<Rightarrow> m \<le> 1)
      = (\<lambda>w. \<exists>m. map_of minimum w = Some m \<and> m \<le> (1::int))"
    by (rule ext) (simp split: option.split)
  show ?thesis using r unfolding restrict_stage_def on_one_device_def Let_def fits by auto
qed

lemma line_stages_row:
  assumes "line_stages rows n line = Inr ss" "profile \<in> {''torch'', ''jax''}"
  shows "\<exists>row. map_of rows (line, profile) = Some row \<and> row_stage row n line profile \<in> set ss"
proof -
  from assms(1) obtain ps where
    ps: "mapE (\<lambda>profile. add_stage rows (stage_title n line profile) line profile
                              (line @ ''-'' @ profile) (1 < n) None) [''torch'', ''jax''] = Inr ps" "set ps \<subseteq> set ss"
    unfolding line_stages_def bindE_eq_Inr by auto
  have "profile \<in> set [''torch'', ''jax'']" using assms(2) by simp
  from mapE_Inr_in_set [OF ps(1) this] obtain s where s: "s \<in> set ps"
    "add_stage rows (stage_title n line profile) line profile (line @ ''-'' @ profile) (1 < n) None = Inr s" by auto
  have "profile \<noteq> ''coresidence''" using assms(2) by auto
  with s(2) have "\<exists>row. map_of rows (line, profile) = Some row \<and> s = row_stage row n line profile"
    by (cases "map_of rows (line, profile)") (simp_all add: add_stage_def row_stage_def)
  then show ?thesis using s(1) ps(2) by auto
qed

lemma round_stages_row:
  assumes "round_stages rows = Inr ss" "n \<in> {1, 2, 3}" "(line, profile) \<in> set MATRIX"
  shows "\<exists>row. map_of rows (line, profile) = Some row \<and> row_stage row n line profile \<in> set ss"
proof -
  have n: "n \<in> set [1..<4]" using assms(2) by auto
  have key: "line \<in> set CANDIDATE_LINES" "profile \<in> {''torch'', ''jax''}" using assms(3) by (auto simp: MATRIX_def CANDIDATE_LINES_def)
  from concatE_part [OF assms(1) [unfolded round_stages_def] n]
  obtain rs where rs: "concatE (line_stages rows n) CANDIDATE_LINES = Inr rs" "set rs \<subseteq> set ss" by blast
  from concatE_part [OF rs(1) key(1)] obtain ls where "line_stages rows n line = Inr ls" "set ls \<subseteq> set rs" by blast
  then show ?thesis using line_stages_row [OF _ key(2)] rs(2) by blast
qed

text \<open>
  C32. A plan runs every row of the pinned recipe in each of the three rounds, with all its workloads,
  gates and its consumer, afresh in the first round and on the retained cache later. On one
  device the same stages are there, without exactly the workloads that need more than one device
  and the two gates that do, which the plan lists as omitted.
\<close>

theorem plan_covers_recipe:
  assumes "make_plan lib v source gpu = Inr (stages, ids)"
  shows "\<exists>rows minimum. recipe_inputs lib source = Inr (rows, minimum, ids)
    \<and> (\<forall>n\<in>{1, 2, 3}. \<forall>(line, profile)\<in>set MATRIX.
         \<exists>row. map_of rows (line, profile) = Some row
           \<and> (if gpu = None then row_stage row n line profile
              else on_one_device minimum (row_stage row n line profile)) \<in> set stages)"
proof -
  from assms obtain rows minimum diagnostics rounds where
    recipe: "recipe_inputs lib source = Inr (rows, minimum, ids)" and
    ds: "diagnostic_stages rows = Inr diagnostics" "round_stages rows = Inr rounds" and
    all: "gpu = None \<longrightarrow> stages = diagnostics @ rounds" and
    one: "gpu \<noteq> None \<longrightarrow> mapE (restrict_stage minimum)
       (filter (\<lambda>s. prefix ''round-'' (stage_name s)) (diagnostics @ rounds)) = Inr stages"
    by (rule make_plan_Inr)
  have "\<exists>row. map_of rows (line, profile) = Some row
           \<and> (if gpu = None then row_stage row n line profile
              else on_one_device minimum (row_stage row n line profile)) \<in> set stages"
    if n: "n \<in> {1, 2, 3}" and key: "(line, profile) \<in> set MATRIX" for n line profile
  proof -
    obtain row where row: "map_of rows (line, profile) = Some row" "row_stage row n line profile \<in> set rounds"
      using round_stages_row [OF ds(2) n key] by auto
    have "on_one_device minimum (row_stage row n line profile) \<in> set stages" if "gpu \<noteq> None"
    proof -
      have "prefix ''round-'' (stage_name (row_stage row n line profile))"
        by (simp add: row_stage_def stage_title_def)
      then have "row_stage row n line profile
          \<in> set (filter (\<lambda>s. prefix ''round-'' (stage_name s)) (diagnostics @ rounds))"
        using row(2) by simp
      from mapE_Inr_in_set [OF one [THEN mp, OF that] this] show ?thesis
        using restrict_stage_Inr by auto
    qed
    then show ?thesis using row all by auto
  qed
  then show ?thesis using recipe by blast
qed
section \<open>When there is a plan\<close>

text \<open>A recipe that was accepted, with what its declarations know.\<close>

definition recipe_known :: "recipe \<Rightarrow> (string \<times> int) list \<Rightarrow> bool" where
  "recipe_known rows minimum =
     ((\<forall>key\<in>set MATRIX. map_of rows key \<noteq> None)
      \<and> (\<forall>row\<in>snd ` set rows. \<forall>w\<in>set (row_workloads row). map_of minimum w \<noteq> None)
      \<and> map_of minimum ''W4'' \<noteq> None \<and> map_of minimum ''W5b'' \<noteq> None)"

lemma recipe_row_known:
  assumes "recipe_row_of minimum v = Some r"
  shows "\<forall>w\<in>set (row_workloads (snd r)). map_of minimum w \<noteq> None"
proof -
  from assms obtain ws where "named_list (\<lambda>w. map_of minimum w \<noteq> None) ws = Some (row_workloads (snd r))"
    by (auto simp: recipe_row_of_def split: json.splits option.splits if_splits)
  then show ?thesis by (auto simp: named_list_def list_all_iff split: json.splits option.splits if_splits)
qed

lemma recipe_rows_known:
  "recipe_rows minimum vs = Some rows \<Longrightarrow>
   \<forall>row\<in>snd ` set rows. \<forall>w\<in>set (row_workloads row). map_of minimum w \<noteq> None"
proof (induction vs arbitrary: rows)
  case (Cons v vs)
  then obtain r rs where "recipe_row_of minimum v = Some r" "recipe_rows minimum vs = Some rs" "rows = r # rs"
    by (auto split: option.splits)
  then show ?case using Cons.IH recipe_row_known by auto
qed simp

lemma checked_recipe_known:
  assumes "checked_recipe minimum v = Inr rows"
  shows "recipe_known rows minimum"
proof -
  from assms obtain vs where vs: "recipe_rows minimum vs = Some rows" "set (map fst rows) = set MATRIX"
      "map_of minimum ''W4'' \<noteq> None" "map_of minimum ''W5b'' \<noteq> None"
    by (auto simp: checked_recipe_def bad_recipe_def split: json.splits option.splits if_splits)
  have "map_of rows key \<noteq> None" if "key \<in> set MATRIX" for key
    using that unfolding vs(2) [symmetric] by (simp add: map_of_eq_None_iff)
  then show ?thesis unfolding recipe_known_def using recipe_rows_known [OF vs(1)] vs(3,4) by simp
qed

lemma recipe_inputs_known:
  assumes "recipe_inputs lib source = Inr (rows, minimum, ids)"
  shows "recipe_known rows minimum"
proof -
  from assms obtain v where "checked_recipe minimum v = Inr rows"
    by (auto simp: recipe_inputs_def bad_recipe_def split: option.splits sum.splits)
  then show ?thesis by (rule checked_recipe_known)
qed

definition workloads_known :: "(string \<times> int) list \<Rightarrow> plan_stage \<Rightarrow> bool" where
  "workloads_known minimum s = (\<forall>w\<in>set (stage_workloads s). map_of minimum w \<noteq> None)"

lemma add_stage_total:
  assumes "only \<noteq> None \<or> profile \<noteq> ''coresidence''"
    "profile = ''coresidence'' \<or> map_of rows (line, profile) \<noteq> None"
  shows "\<exists>s. add_stage rows n line profile g r only = Inr s"
  using assms by (cases only) (auto simp: add_stage_def split: option.split)

lemma add_stage_known:
  assumes "add_stage rows n line profile g r only = Inr s" "recipe_known rows minimum"
    "only \<in> {None, Some [''W4''], Some [''W5b'']}"
  shows "workloads_known minimum s"
proof (cases only)
  case None
  then obtain row where "map_of rows (line, profile) = Some row" "stage_workloads s = row_workloads row"
    using assms(1) unfolding add_stage_def by (auto split: option.splits if_splits)
  then have "row \<in> snd ` set rows" by (force dest: map_of_SomeD)
  then show ?thesis
    using assms(2) unfolding workloads_known_def \<open>stage_workloads s = _\<close> recipe_known_def by blast
next
  case (Some ws)
  then have "stage_workloads s = ws" using assms(1) unfolding add_stage_def bindE_eq_Inr by auto
  then show ?thesis using assms(2,3) Some by (auto simp: recipe_known_def workloads_known_def)
qed

lemma matrix_key: "line \<in> set CANDIDATE_LINES \<Longrightarrow> profile \<in> {''torch'', ''jax''} \<Longrightarrow> (line, profile) \<in> set MATRIX"
  by (auto simp: MATRIX_def CANDIDATE_LINES_def)

lemma row_stage_total:
  assumes "recipe_known rows minimum" "line \<in> set CANDIDATE_LINES" "profile \<in> {''torch'', ''jax''}"
  shows "\<exists>s. add_stage rows n line profile g r only = Inr s"
proof (rule add_stage_total)
  show "only \<noteq> None \<or> profile \<noteq> ''coresidence''" using assms(3) by auto
  show "profile = ''coresidence'' \<or> map_of rows (line, profile) \<noteq> None"
    using assms(1) matrix_key [OF assms(2,3)] unfolding recipe_known_def by blast
qed

lemma diagnostic_stages_total:
  assumes "recipe_known rows minimum"
  shows "\<exists>ss. diagnostic_stages rows = Inr ss \<and> (\<forall>s\<in>set ss. workloads_known minimum s)"
proof -
  have total: "\<exists>s. add_stage rows n ''cu130'' ''jax'' g r only = Inr s" for n g r only
    by (rule row_stage_total [OF assms]) (simp_all add: CANDIDATE_LINES_def)
  obtain cold where cold: "mapE (\<lambda>n. add_stage rows (''jax-diagnostic-cold-'' @ string_of_nat (n + 1)) ''cu130'' ''jax''
        (''jax-cold-'' @ string_of_nat (n + 1)) False (Some [''W5b''])) [0..<3] = Inr cold"
    using mapE_total [OF ballI, OF total] by fast
  obtain reused where reused: "mapE (\<lambda>n. add_stage rows (''jax-diagnostic-reuse-'' @ string_of_nat (n + 1)) ''cu130'' ''jax''
        ''jax-cold-1'' True (Some [''W5b''])) [0..<3] = Inr reused"
    using mapE_total [OF ballI, OF total] by fast
  obtain pc where pc: "add_stage rows ''jax-profile-cold'' ''cu130'' ''jax'' ''jax-profile'' False None = Inr pc"
    using total by blast
  obtain pr where pr: "add_stage rows ''jax-profile-reuse'' ''cu130'' ''jax'' ''jax-profile'' True None = Inr pr"
    using total by blast
  have "diagnostic_stages rows = Inr (cold @ reused @ [pc, pr])"
    by (simp only: diagnostic_stages_def cold reused pc pr bindE_simps)
  moreover have "workloads_known minimum s" if s: "s \<in> set (cold @ reused @ [pc, pr])" for s
  proof -
    consider "s \<in> set cold" | "s \<in> set reused" | "s = pc" | "s = pr" using s by auto
    then show ?thesis
    proof cases
      case 1
      from mapE_in [OF cold this] show ?thesis using add_stage_known [OF _ assms] by auto
    next
      case 2
      from mapE_in [OF reused this] show ?thesis using add_stage_known [OF _ assms] by auto
    next
      case 3
      show ?thesis unfolding 3 by (rule add_stage_known [OF pc assms]) simp
    next
      case 4
      show ?thesis unfolding 4 by (rule add_stage_known [OF pr assms]) simp
    qed
  qed
  ultimately show ?thesis by blast
qed

lemma line_stages_total:
  assumes "recipe_known rows minimum" "line \<in> set CANDIDATE_LINES"
  shows "\<exists>ss. line_stages rows n line = Inr ss \<and> (\<forall>s\<in>set ss. workloads_known minimum s)"
proof -
  have total: "\<forall>profile\<in>set [''torch'', ''jax'']. \<exists>s. add_stage rows (stage_title n line profile) line profile
      (line @ ''-'' @ profile) (1 < n) None = Inr s"
    by (intro ballI row_stage_total [OF assms]) simp
  obtain ps where ps: "mapE (\<lambda>profile. add_stage rows (stage_title n line profile) line profile
      (line @ ''-'' @ profile) (1 < n) None) [''torch'', ''jax''] = Inr ps"
    using mapE_total [OF total] by blast
  have "\<exists>c. add_stage rows (stage_title n line ''coresidence'') line ''coresidence''
      (line @ ''-coresidence'') (1 < n) (Some [''W4'']) = Inr c"
    by (rule add_stage_total) simp_all
  then obtain c where c: "add_stage rows (stage_title n line ''coresidence'') line ''coresidence''
      (line @ ''-coresidence'') (1 < n) (Some [''W4'']) = Inr c" ..
  have "line_stages rows n line = Inr (ps @ [c])"
    by (simp only: line_stages_def ps c bindE_simps)
  moreover have "workloads_known minimum s" if "s \<in> set (ps @ [c])" for s
  proof (cases "s = c")
    case True
    show ?thesis unfolding True by (rule add_stage_known [OF c assms(1)]) simp
  next
    case False
    then have "s \<in> set ps" using that by simp
    from mapE_in [OF ps this] show ?thesis using add_stage_known [OF _ assms(1)] by auto
  qed
  ultimately show ?thesis by blast
qed

lemma concatE_all:
  assumes "\<And>x. x \<in> set xs \<Longrightarrow> \<exists>ys. f x = Inr ys \<and> (\<forall>y\<in>set ys. P y)"
  shows "\<exists>ys. concatE f xs = Inr ys \<and> (\<forall>y\<in>set ys. P y)"
  using assms
proof (induction xs)
  case (Cons x xs)
  obtain as where "f x = Inr as" "\<forall>y\<in>set as. P y" using Cons.prems [of x] by auto
  moreover obtain bs where "concatE f xs = Inr bs" "\<forall>y\<in>set bs. P y" using Cons by auto
  ultimately show ?case by auto
qed simp

lemma plan_stages_total:
  assumes "recipe_known rows minimum"
  shows "\<exists>ss. plan_stages rows minimum gpu = Inr ss"
proof -
  obtain diagnostics where d: "diagnostic_stages rows = Inr diagnostics" "\<forall>s\<in>set diagnostics. workloads_known minimum s"
    using diagnostic_stages_total [OF assms] by blast
  have "\<exists>ss. concatE (line_stages rows n) CANDIDATE_LINES = Inr ss \<and> (\<forall>s\<in>set ss. workloads_known minimum s)" for n
    by (rule concatE_all) (rule line_stages_total [OF assms])
  then have "\<exists>ss. round_stages rows = Inr ss \<and> (\<forall>s\<in>set ss. workloads_known minimum s)"
    unfolding round_stages_def by (rule concatE_all)
  then obtain rounds where r: "round_stages rows = Inr rounds" "\<forall>s\<in>set rounds. workloads_known minimum s"
    by blast
  have each: "\<exists>s'. restrict_stage minimum s = Inr s'" if "s \<in> set (filter p (diagnostics @ rounds))" for s p
  proof -
    have "workloads_known minimum s" using that d(2) r(2) by auto
    then have "\<forall>w\<in>set (stage_workloads s). \<exists>m. needs minimum w = Inr m"
      by (auto simp: workloads_known_def needs_def)
    from mapE_total [OF this] show ?thesis by (auto simp: restrict_stage_def Let_def)
  qed
  have "\<exists>ss. mapE (restrict_stage minimum)
      (filter (\<lambda>s. prefix ''round-'' (stage_name s)) (diagnostics @ rounds)) = Inr ss"
    by (rule mapE_total) (intro ballI, erule each)
  then show ?thesis
    unfolding plan_stages_def d(1) r(1) bindE_simps by (cases gpu) simp_all
qed

text \<open>
  There is a plan exactly when the candidate is accepted and holds a policy that the runner
  supports, a device is named if the policy is for one, and the pinned source has a valid
  recipe. No later step of the planning fails.
\<close>

theorem plan_exists_iff:
  "(\<exists>r. make_plan lib v source gpu = Inr r) \<longleftrightarrow>
     (\<exists>doc p policy recipe.
        validate lib v = Inr doc \<and> map_of doc ''qualification_policy'' = Some p
        \<and> validate_policy p = Inr policy \<and> \<not> (py_eq (gpu_count_of policy) (JInt 1) \<and> gpu = None)
        \<and> recipe_inputs lib source = Inr recipe)"
proof
  assume "\<exists>r. make_plan lib v source gpu = Inr r"
  then show "\<exists>doc p policy recipe.
        validate lib v = Inr doc \<and> map_of doc ''qualification_policy'' = Some p
        \<and> validate_policy p = Inr policy \<and> \<not> (py_eq (gpu_count_of policy) (JInt 1) \<and> gpu = None)
        \<and> recipe_inputs lib source = Inr recipe"
    unfolding make_plan_def bindE_eq_Inr ditem_Inr guardE_eq_Inr by blast
next
  assume "\<exists>doc p policy recipe.
        validate lib v = Inr doc \<and> map_of doc ''qualification_policy'' = Some p
        \<and> validate_policy p = Inr policy \<and> \<not> (py_eq (gpu_count_of policy) (JInt 1) \<and> gpu = None)
        \<and> recipe_inputs lib source = Inr recipe"
  then obtain doc p policy rows minimum ids where
    ok: "validate lib v = Inr doc" "map_of doc ''qualification_policy'' = Some p" "validate_policy p = Inr policy"
      "\<not> (py_eq (gpu_count_of policy) (JInt 1) \<and> gpu = None)" "recipe_inputs lib source = Inr (rows, minimum, ids)"
    by auto
  obtain ss where "plan_stages rows minimum gpu = Inr ss"
    using plan_stages_total [OF recipe_inputs_known [OF ok(5)]] by blast
  then show "\<exists>r. make_plan lib v source gpu = Inr r"
    unfolding make_plan_def bindE_eq_Inr ditem_Inr guardE_eq_Inr using ok by auto
qed

section \<open>A sample plan\<close>

definition sample_policy :: dict where
  "sample_policy =
     ([(''hardware'', JObj [(''os'', JStr ''Linux''), (''arch'', JStr ''x86_64''), (''gpu_model'', JStr ''NVIDIA B200''),
        (''gpu_count'', JInt 1)]),
       (''matrix'', JList (map (\<lambda>(l, p). JObj [(''line'', JStr l), (''profile'', JStr p)]) MATRIX)),
       (''rounds'', ROUNDS), (''launched_mpi_supported'', JBool False),
       (''supported_runtime_scope'', JStr ''single-gpu''),
       (''selected_device_cooperative_lease_and_occupancy_checks_required'', JBool True),
       (''jax_diagnostics'', JObj [(''status'', JStr ''deferred-with-multi-gpu-support'')])]
      @ map (\<lambda>f. (f, JBool True)) REQUIRED_TRUE)"

definition sample_recipe :: json where
  "sample_recipe = JObj [(''matrix'', JList (map (\<lambda>(l, p). JObj
     [(''line'', JStr l), (''profile'', JStr p), (''workloads'', JList [JStr ''W1a'', JStr ''W5b'']),
      (''gates'', JList [JStr ''import_cuda'', JStr ''nccl_distributed'']),
      (''consumer'', JStr ''python_consumers.verify_torch'')]) MATRIX))]"

definition declare_workload :: "string \<times> int \<Rightarrow> node \<times> node" where
  "declare_workload w =
     (Literal (JStr (fst w)),
      NamedCall ''Workload'' [Literal (JStr (fst w)), Literal (JStr ''module''), Literal (JInt (snd w)), Literal (JStr ''text'')] False)"

definition sample_source :: pinned_source where
  "sample_source =
     \<lparr>recipe_bytes = Some ''recipe'', resource_bytes = Some ''workloads'',
      workload_nodes = (\<lambda>s. Some [DictDisplay (map declare_workload [(''W1a'', 1), (''W4'', 1), (''W5b'', 8)])])\<rparr>"

definition plan_lib :: release_lib where
  "plan_lib = sample_release_lib\<lparr>loads := (\<lambda>s. Inr sample_recipe)\<rparr>"

definition plan_doc :: dict where
  "plan_doc = (''qualification_policy'', JObj sample_policy) # sample_doc ''rootfs.tar.zst''"

lemma plan_lib_validate:
  assumes "validate sample_release_lib (JObj doc) = Inr doc"
  shows "validate plan_lib (JObj ((''qualification_policy'', JObj p) # doc)) = Inr ((''qualification_policy'', JObj p) # doc)"
  using assms
  by (auto simp: validate_def dget_Cons plan_lib_def sample_release_lib_def policy_of_def split: json.splits)

lemma plan_doc_accepted: "validate plan_lib (JObj plan_doc) = Inr plan_doc"
  unfolding plan_doc_def by (rule plan_lib_validate [OF sample_accepted])

lemma sample_policy_parts:
  "hardware_ok (dget_obj sample_policy ''hardware'')" "\<not> py_eq (gpu_count_of sample_policy) (JInt 8)"
  "list_all (is_true sample_policy) REQUIRED_TRUE" "dget sample_policy ''launched_mpi_supported'' = JBool False"
  "matrix_ok (dget_list sample_policy ''matrix'')" "single_gpu_ok sample_policy"
  "py_eq (dget sample_policy ''rounds'') ROUNDS"
proof -
  show "hardware_ok (dget_obj sample_policy ''hardware'')"
    by (simp add: sample_policy_def dget_obj_def dget_def hardware_ok_def)
  show "\<not> py_eq (gpu_count_of sample_policy) (JInt 8)"
    by (simp add: sample_policy_def dget_obj_def gpu_count_of_def dget_def)
  show "list_all (is_true sample_policy) REQUIRED_TRUE" by code_simp
  show "dget sample_policy ''launched_mpi_supported'' = JBool False" by code_simp
  show "matrix_ok (dget_list sample_policy ''matrix'')" by code_simp
  show "single_gpu_ok sample_policy" by code_simp
  show "py_eq (dget sample_policy ''rounds'') ROUNDS" by (simp add: sample_policy_def dget_def ROUNDS_def)
qed

lemma sample_policy_supported: "validate_policy (JObj sample_policy) = Inr sample_policy"
proof -
  have "\<exists>us. mapE (\<lambda>f. guardE (is_true sample_policy f)
      (ValueError ''unsupported qualification policy: {}'' [JStr f])) REQUIRED_TRUE = Inr us"
    by (rule mapE_total) (use sample_policy_parts(3) in \<open>simp add: list_all_iff\<close>)
  then show ?thesis using sample_policy_parts by (auto simp: validate_policy_def need_def)
qed

lemma plan_doc_policy: "ditem plan_doc ''qualification_policy'' = Inr (JObj sample_policy)"
  by (simp add: ditem_def plan_doc_def)

lemma sample_recipe_valid: "\<exists>recipe. recipe_inputs plan_lib sample_source = Inr recipe"
proof -
  have "case checked_recipe [(''W1a'', 1), (''W4'', 1), (''W5b'', 8)] sample_recipe of Inl _ \<Rightarrow> False | Inr _ \<Rightarrow> True"
    by code_simp
  moreover have "minimum_gpus (workload_nodes sample_source ''workloads'') = Inr [(''W1a'', 1), (''W4'', 1), (''W5b'', 8)]"
    by code_simp
  ultimately show ?thesis
    by (simp add: recipe_inputs_def sample_source_def plan_lib_def split: sum.splits)
qed

lemma sample_plan_exists: "\<exists>stages ids. make_plan plan_lib (JObj plan_doc) sample_source (Some 0) = Inr (stages, ids)"
proof -
  obtain rows minimum ids where recipe: "recipe_inputs plan_lib sample_source = Inr (rows, minimum, ids)"
    using sample_recipe_valid by auto
  moreover obtain ss where "plan_stages rows minimum (Some 0) = Inr ss"
    using plan_stages_total [OF recipe_inputs_known [OF recipe]] by blast
  ultimately show ?thesis
    by (simp add: make_plan_def plan_doc_accepted plan_doc_policy sample_policy_supported)
qed

lemma reuse_follows_fresh_cache_witness:
  "\<exists>stages ids. make_plan plan_lib (JObj plan_doc) sample_source (Some 0) = Inr (stages, ids) \<and> reuse_primed stages"
  using sample_plan_exists reuse_follows_fresh_cache by blast

lemma plan_covers_recipe_witness:
  "\<exists>stages ids rows minimum. make_plan plan_lib (JObj plan_doc) sample_source (Some 0) = Inr (stages, ids)
     \<and> recipe_inputs plan_lib sample_source = Inr (rows, minimum, ids)"
  using sample_plan_exists plan_covers_recipe by meson

end
