(* ===== verification/NightlySelect.thy ===== *)
theory NightlySelect
  imports PosixPath Effects RelayGate
begin

text \<open>
  \<^verbatim>\<open>tools/release/nightly_selection.py\<close>: which nightly run may be cut into a release. A summary is a
  path with its decoded object; \<open>str\<close> is Python's text of a value that is not a string.
\<close>

section \<open>Stages\<close>

definition RELEASE_LINES :: "string list" where
  "RELEASE_LINES = [''cu129'', ''cu130'']"

definition stage_passed :: "(json \<Rightarrow> string) \<Rightarrow> dict \<Rightarrow> bool" where
  "stage_passed str stage = (lower (str_or_empty str (dget stage ''verdict'')) = ''passed'')"

definition release_gate_matches :: "(json \<Rightarrow> string) \<Rightarrow> string \<Rightarrow> string \<Rightarrow> dict \<Rightarrow> bool" where
  "release_gate_matches str profile line stage =
     (dget stage ''kind'' = JStr ''release_gate'' \<and> dget stage ''profile'' = JStr profile
      \<and> dget stage ''line'' = JStr line \<and> dget stage ''release'' = JBool True
      \<and> stage_passed str stage
      \<and> lower (let v = dget stage ''acceptance_verdict'' in
               if truthy v then str_or_empty str v else ''passed'') = ''passed'')"

definition determinism_matches :: "(json \<Rightarrow> string) \<Rightarrow> string \<Rightarrow> string \<Rightarrow> dict \<Rightarrow> bool" where
  "determinism_matches str profile line stage =
     (dget stage ''kind'' = JStr ''determinism'' \<and> dget stage ''profile'' = JStr profile
      \<and> dget stage ''line'' = JStr line \<and> stage_passed str stage)"

definition objects :: "json list \<Rightarrow> dict list" where
  \<comment> \<open>the items that are dictionaries\<close>
  "objects vs = List.map_filter (\<lambda>v. case v of JObj d \<Rightarrow> Some d | _ \<Rightarrow> None) vs"

definition release_gate_candidates :: "json list \<Rightarrow> string \<Rightarrow> string \<Rightarrow> dict list" where
  "release_gate_candidates stages profile line =
     filter (\<lambda>d. dget d ''kind'' = JStr ''release_gate'' \<and> dget d ''profile'' = JStr profile
                 \<and> dget d ''line'' = JStr line \<and> dget d ''release'' = JBool True) (objects stages)"

definition determinism_candidates :: "json list \<Rightarrow> string \<Rightarrow> string \<Rightarrow> dict list" where
  "determinism_candidates stages profile line =
     filter (\<lambda>d. dget d ''kind'' = JStr ''determinism'' \<and> dget d ''profile'' = JStr profile
                 \<and> dget d ''line'' = JStr line) (objects stages)"

definition details :: "(json \<Rightarrow> string) \<Rightarrow> dict \<Rightarrow> string list" where
  "details str d =
     List.map_filter
       (\<lambda>field. let value = str_or_empty str (dget d field) in
          if value \<noteq> [] \<and> lower value \<noteq> ''passed'' then Some (field @ ''='' @ value) else None)
       [''verdict'', ''acceptance_verdict'']"

definition about_stage :: "string \<Rightarrow> string \<Rightarrow> string \<Rightarrow> string \<Rightarrow> string" where
  "about_stage kind profile line rest = kind @ '' '' @ profile @ ''/'' @ line @ '' '' @ rest"

definition release_gate_issue ::
  "(json \<Rightarrow> string) \<Rightarrow> json list \<Rightarrow> string \<Rightarrow> string \<Rightarrow> dict option \<times> string option" where
  "release_gate_issue str stages profile line =
     (let candidates = release_gate_candidates stages profile line in
      case filter (release_gate_matches str profile line) candidates of
        stage # _ \<Rightarrow> (Some stage, None)
      | [] \<Rightarrow>
          (case candidates of
             [] \<Rightarrow> (None, Some (about_stage ''release_gate'' profile line ''missing''))
           | c # _ \<Rightarrow>
               let ds = details str c in
               (None, Some (about_stage ''release_gate'' profile line
                 (''red'' @ (if ds = [] then [] else '' ('' @ join '', '' ds @ '')''))))))"

definition determinism_issue ::
  "(json \<Rightarrow> string) \<Rightarrow> json list \<Rightarrow> string \<Rightarrow> string \<Rightarrow> dict option \<times> string option" where
  "determinism_issue str stages profile line =
     (let candidates = determinism_candidates stages profile line in
      case filter (determinism_matches str profile line) candidates of
        stage # _ \<Rightarrow> (Some stage, None)
      | [] \<Rightarrow>
          (case candidates of
             [] \<Rightarrow> (None, Some (about_stage ''determinism'' profile line ''missing''))
           | c # _ \<Rightarrow>
               let red = str_or_empty str (dget c ''verdict'') in
               (None, Some (about_stage ''determinism'' profile line
                 (''red'' @ (if red = [] then [] else '' (verdict='' @ red @ '')''))))))"

definition listed :: "'a option \<Rightarrow> 'a list" where
  "listed x = (case x of None \<Rightarrow> [] | Some y \<Rightarrow> [y])"

type_synonym found_stages = "(string \<times> dict) list"

definition line_status ::
  "(json \<Rightarrow> string) \<Rightarrow> json list \<Rightarrow> string \<Rightarrow> string \<Rightarrow> found_stages \<times> found_stages \<times> string list" where
  "line_status str stages profile line =
     (let (gate, gate_issue) = release_gate_issue str stages profile line;
          (det, det_issue) = determinism_issue str stages profile line
      in (map (Pair line) (listed gate), map (Pair line) (listed det), listed gate_issue @ listed det_issue))"

definition required_stage_status ::
  "(json \<Rightarrow> string) \<Rightarrow> json list \<Rightarrow> string \<Rightarrow> found_stages \<times> found_stages \<times> string list" where
  "required_stage_status str stages profile =
     (let rs = map (line_status str stages profile) RELEASE_LINES
      in (concat (map fst rs), concat (map (fst \<circ> snd) rs), concat (map (snd \<circ> snd) rs)))"

section \<open>Selection\<close>

type_synonym sort_key = "string \<times> string"

definition summary_sort_key :: "(json \<Rightarrow> string) \<Rightarrow> ppath \<Rightarrow> dict \<Rightarrow> sort_key" where
  "summary_sort_key str p doc = (str_or_empty str (dget doc ''finished_utc''), final_name (parent p))"

record green =
  green_path :: ppath
  green_doc :: dict
  green_release :: dict
  green_determinism :: dict

text \<open>A summary is of another commit, rejected with its issues, or green with its two stages.\<close>

datatype nightly_verdict =
    Skipped
  | Rejected "string list"
  | Green green

definition judge_summary :: "(json \<Rightarrow> string) \<Rightarrow> string \<Rightarrow> string \<Rightarrow> string \<Rightarrow> ppath \<times> dict \<Rightarrow> nightly_verdict res" where
  "judge_summary str profile line sha s =
     (let (p, doc) = s in
      if dget doc ''commit'' \<noteq> JStr sha then Inr Skipped
      else case (case map_of doc ''stages'' of None \<Rightarrow> JList [] | Some v \<Rightarrow> v) of
        JList stages \<Rightarrow>
          (let (gates, dets, issues) = required_stage_status str stages profile;
               all_issues = issues
                 @ (if dget doc ''verdict'' \<noteq> JStr ''passed''
                    then [''summary verdict '' @ (if truthy (dget doc ''verdict'')
                                                then str_or_empty str (dget doc ''verdict'') else ''missing'')]
                    else [])
           in if all_issues \<noteq> [] then Inr (Rejected all_issues)
              else case (map_of gates line, map_of dets line) of
                (Some gate, Some det) \<Rightarrow>
                  Inr (Green \<lparr>green_path = p, green_doc = doc, green_release = gate, green_determinism = det\<rparr>)
              | _ \<Rightarrow> Inl (KeyError line))
      | _ \<Rightarrow> Inr (Rejected [''stages missing'']))"

text \<open>
  \<open>sorted(xs)[-1]\<close> for tuples that start with a key and a path: the last of the greatest. Where two
  tuples agree on both, Python compares what follows, which the callers' distinct paths exclude.
\<close>

definition order_of :: "(json \<Rightarrow> string) \<Rightarrow> ppath \<times> dict \<Rightarrow> sort_key \<times> ppath" where
  "order_of str s = (summary_sort_key str (fst s) (snd s), fst s)"

fun latest :: "('a \<Rightarrow> 'b::linorder) \<Rightarrow> 'a \<Rightarrow> 'a list \<Rightarrow> 'a" where
  "latest key best [] = best"
| "latest key best (x # xs) = latest key (if key best \<le> key x then x else best) xs"

definition select_nightly ::
  "(json \<Rightarrow> string) \<Rightarrow> (ppath \<times> dict) list \<Rightarrow> string \<Rightarrow> string \<Rightarrow> string \<Rightarrow> green res" where
  "select_nightly str summaries profile line sha =
     bindE (mapE (\<lambda>s. bindE (judge_summary str profile line sha s) (\<lambda>v. Inr (s, v))) summaries) (\<lambda>judged.
     let matches = List.map_filter (\<lambda>(s, v). case v of Green g \<Rightarrow> Some (s, g) | _ \<Rightarrow> None) judged;
         rejected = List.map_filter (\<lambda>(s, v). case v of Rejected is \<Rightarrow> Some (s, is) | _ \<Rightarrow> None) judged
     in case matches of
          m # ms \<Rightarrow> Inr (snd (latest (\<lambda>x. order_of str (fst x)) m ms))
        | [] \<Rightarrow>
            let message = ''no passed nightly for sha {} with release_gate and determinism {} on cu129, cu130'' in
            (case rejected of
               [] \<Rightarrow> fail message [JStr sha, JStr profile]
             | r # rs \<Rightarrow>
                 let (s, is) = latest (\<lambda>x. order_of str (fst x)) r rs in
                 fail (message @ ''; latest matching summary {}: {}'')
                   [JStr sha, JStr profile, JStr (path_text (fst s)), JStr (join ''; '' is)]))"

end
