(* ===== verification/NightlySelectRun.thy ===== *)
theory NightlySelectRun
  imports NightlySelect
begin

text \<open>
  The selection of a nightly run against its specification: the latest run of the commit that is green
  on both CUDA lines, or an exit when there is none.
\<close>

section \<open>Green runs\<close>

definition gate_is_green :: "(json \<Rightarrow> string) \<Rightarrow> json list \<Rightarrow> string \<Rightarrow> string \<Rightarrow> bool" where
  "gate_is_green str stages profile line =
     ((\<exists>d\<in>set (objects stages). release_gate_matches str profile line d)
      \<and> (\<exists>d\<in>set (objects stages). determinism_matches str profile line d))"

definition stages_of :: "dict \<Rightarrow> json list option" where
  "stages_of doc = (case (case map_of doc ''stages'' of None \<Rightarrow> JList [] | Some v \<Rightarrow> v) of JList vs \<Rightarrow> Some vs | _ \<Rightarrow> None)"

definition is_green :: "(json \<Rightarrow> string) \<Rightarrow> string \<Rightarrow> string \<Rightarrow> ppath \<times> dict \<Rightarrow> bool" where
  "is_green str profile sha s =
     (dget (snd s) ''commit'' = JStr sha \<and> dget (snd s) ''verdict'' = JStr ''passed''
      \<and> (\<exists>stages. stages_of (snd s) = Some stages \<and> (\<forall>line\<in>set RELEASE_LINES. gate_is_green str stages profile line)))"

lemma gate_candidates:
  "filter (release_gate_matches str profile line) (release_gate_candidates stages profile line)
     = filter (release_gate_matches str profile line) (objects stages)"
  by (auto simp: release_gate_candidates_def release_gate_matches_def intro: filter_cong)

lemma determinism_green:
  "filter (determinism_matches str profile line) (determinism_candidates stages profile line)
     = filter (determinism_matches str profile line) (objects stages)"
  by (auto simp: determinism_candidates_def determinism_matches_def intro: filter_cong)

lemma release_gate_issue_cases:
  "(\<exists>d\<in>set (objects stages). release_gate_matches str profile line d
      \<and> release_gate_issue str stages profile line = (Some d, None))
   \<or> (\<not> (\<exists>d\<in>set (objects stages). release_gate_matches str profile line d)
      \<and> (\<exists>m. release_gate_issue str stages profile line = (None, Some m)))"
proof (cases "filter (release_gate_matches str profile line) (objects stages)")
  case Nil
  then have "\<not> (\<exists>d\<in>set (objects stages). release_gate_matches str profile line d)"
    by (simp add: filter_empty_conv)
  then show ?thesis
    using Nil by (simp add: release_gate_issue_def Let_def gate_candidates split: list.split)
next
  case (Cons d ds)
  then have "d \<in> set (objects stages)" "release_gate_matches str profile line d"
    using filter_set [of "release_gate_matches str profile line" "objects stages"] by auto
  then show ?thesis using Cons by (auto simp: release_gate_issue_def Let_def gate_candidates)
qed

lemma determinism_issue_cases:
  "(\<exists>d\<in>set (objects stages). determinism_matches str profile line d
      \<and> determinism_issue str stages profile line = (Some d, None))
   \<or> (\<not> (\<exists>d\<in>set (objects stages). determinism_matches str profile line d)
      \<and> (\<exists>m. determinism_issue str stages profile line = (None, Some m)))"
proof (cases "filter (determinism_matches str profile line) (objects stages)")
  case Nil
  then have "\<not> (\<exists>d\<in>set (objects stages). determinism_matches str profile line d)"
    by (simp add: filter_empty_conv)
  then show ?thesis
    using Nil by (simp add: determinism_issue_def Let_def determinism_green split: list.split)
next
  case (Cons d ds)
  then have "d \<in> set (objects stages)" "determinism_matches str profile line d"
    using filter_set [of "determinism_matches str profile line" "objects stages"] by auto
  then show ?thesis using Cons by (auto simp: determinism_issue_def Let_def determinism_green)
qed

lemma line_status_cases:
  "(\<exists>gate det. line_status str stages profile line = ([(line, gate)], [(line, det)], [])
      \<and> release_gate_matches str profile line gate \<and> determinism_matches str profile line det
      \<and> gate_is_green str stages profile line)
   \<or> (snd (snd (line_status str stages profile line)) \<noteq> [] \<and> \<not> gate_is_green str stages profile line)"
  using release_gate_issue_cases [of stages str profile line] determinism_issue_cases [of stages str profile line]
  by (auto simp: line_status_def gate_is_green_def listed_def)

lemma required_status_cases:
  "(\<exists>gates dets. required_stage_status str stages profile = (gates, dets, [])
      \<and> (\<forall>line\<in>set RELEASE_LINES. \<exists>gate det. map_of gates line = Some gate \<and> map_of dets line = Some det
           \<and> release_gate_matches str profile line gate \<and> determinism_matches str profile line det)
      \<and> (\<forall>line\<in>set RELEASE_LINES. gate_is_green str stages profile line))
   \<or> (snd (snd (required_stage_status str stages profile)) \<noteq> []
      \<and> \<not> (\<forall>line\<in>set RELEASE_LINES. gate_is_green str stages profile line))"
  using line_status_cases [of str stages profile "''cu129''"] line_status_cases [of str stages profile "''cu130''"]
  by (auto simp: required_stage_status_def RELEASE_LINES_def)

lemma judge_summary_cases:
  assumes "line \<in> set RELEASE_LINES"
  shows "(is_green str profile sha s \<and> (\<exists>g. judge_summary str profile line sha s = Inr (Green g)
            \<and> green_path g = fst s \<and> green_doc g = snd s
            \<and> release_gate_matches str profile line (green_release g)
            \<and> determinism_matches str profile line (green_determinism g)))
       \<or> (\<not> is_green str profile sha s
            \<and> (judge_summary str profile line sha s = Inr Skipped \<or> (\<exists>is. judge_summary str profile line sha s = Inr (Rejected is))))"
proof (cases "dget (snd s) ''commit'' = JStr sha \<and> stages_of (snd s) \<noteq> None")
  case False
  then show ?thesis
    by (cases s) (auto simp: judge_summary_def is_green_def stages_of_def split: json.splits option.splits)
next
  case True
  then obtain stages where commit: "dget (snd s) ''commit'' = JStr sha"
    and stages: "(case map_of (snd s) ''stages'' of None \<Rightarrow> JList [] | Some v \<Rightarrow> v) = JList stages"
    by (auto simp: stages_of_def split: json.splits)
  then have of_s: "stages_of (snd s) = Some stages" by (simp add: stages_of_def)
  from required_status_cases [of str stages profile] show ?thesis
  proof
    assume "\<exists>gates dets. required_stage_status str stages profile = (gates, dets, [])
      \<and> (\<forall>line\<in>set RELEASE_LINES. \<exists>gate det. map_of gates line = Some gate \<and> map_of dets line = Some det
           \<and> release_gate_matches str profile line gate \<and> determinism_matches str profile line det)
      \<and> (\<forall>line\<in>set RELEASE_LINES. gate_is_green str stages profile line)"
    then obtain gates dets gate det where r: "required_stage_status str stages profile = (gates, dets, [])"
      "map_of gates line = Some gate" "map_of dets line = Some det"
      "release_gate_matches str profile line gate" "determinism_matches str profile line det"
      "\<forall>line\<in>set RELEASE_LINES. gate_is_green str stages profile line"
      using assms by blast
    show ?thesis
      using r commit stages of_s
      by (cases s; cases "dget (snd s) ''verdict'' = JStr ''passed''") (simp_all add: judge_summary_def is_green_def)
  next
    assume "snd (snd (required_stage_status str stages profile)) \<noteq> []
      \<and> \<not> (\<forall>line\<in>set RELEASE_LINES. gate_is_green str stages profile line)"
    then show ?thesis
      using commit stages of_s
      by (cases s; cases "required_stage_status str stages profile") (auto simp: judge_summary_def is_green_def)
  qed
qed

section \<open>The latest\<close>

lemma latest_spec: "latest key best xs \<in> set (best # xs) \<and> (\<forall>x\<in>set (best # xs). key x \<le> key (latest key best xs))"
proof (induction xs arbitrary: best)
  case (Cons x xs)
  show ?case using Cons [of "if key best \<le> key x then x else best"] by (auto split: if_splits)
qed simp

lemma map_filter_in: "y \<in> set (List.map_filter f xs) \<longleftrightarrow> (\<exists>x\<in>set xs. f x = Some y)"
  by (induction xs) (auto simp: map_filter_simps split: option.splits)

section \<open>The selection\<close>

text \<open>The verdict on each summary, and what the selection makes of the list of them.\<close>

definition judged :: "(json \<Rightarrow> string) \<Rightarrow> string \<Rightarrow> string \<Rightarrow> string \<Rightarrow> ppath \<times> dict \<Rightarrow> nightly_verdict" where
  "judged str profile line sha s = (case judge_summary str profile line sha s of Inr v \<Rightarrow> v | Inl _ \<Rightarrow> Skipped)"

lemma judged_all:
  assumes "line \<in> set RELEASE_LINES"
  shows "mapE (\<lambda>s. bindE (judge_summary str profile line sha s) (\<lambda>v. Inr (s, v))) summaries
           = Inr (map (\<lambda>s. (s, judged str profile line sha s)) summaries)"
proof (rule mapE_Inr_map)
  fix s
  show "bindE (judge_summary str profile line sha s) (\<lambda>v. Inr (s, v)) = Inr (s, judged str profile line sha s)"
    using judge_summary_cases [OF assms, of str profile sha s] by (auto simp: judged_def)
qed

definition matches_of :: "(json \<Rightarrow> string) \<Rightarrow> string \<Rightarrow> string \<Rightarrow> string \<Rightarrow> (ppath \<times> dict) list \<Rightarrow> ((ppath \<times> dict) \<times> green) list" where
  "matches_of str profile line sha summaries =
     List.map_filter (\<lambda>(s, v). case v of Green g \<Rightarrow> Some (s, g) | _ \<Rightarrow> None)
       (map (\<lambda>s. (s, judged str profile line sha s)) summaries)"

lemma judged_green: "judged str profile line sha s = Green g \<longleftrightarrow> judge_summary str profile line sha s = Inr (Green g)"
  by (simp add: judged_def split: sum.split)

lemma matches_of_in:
  "(s, g) \<in> set (matches_of str profile line sha summaries) \<longleftrightarrow>
     s \<in> set summaries \<and> judge_summary str profile line sha s = Inr (Green g)"
proof -
  have "(case judged str profile line sha t of Green g \<Rightarrow> Some (t, g) | _ \<Rightarrow> None) = Some (s, g)
      \<longleftrightarrow> t = s \<and> judge_summary str profile line sha s = Inr (Green g)" for t
    unfolding judged_green [symmetric] by (auto split: nightly_verdict.splits)
  then show ?thesis unfolding matches_of_def map_filter_in by auto
qed

lemma matches_of_green:
  assumes "line \<in> set RELEASE_LINES"
  shows "(\<exists>g. (s, g) \<in> set (matches_of str profile line sha summaries)) \<longleftrightarrow>
           s \<in> set summaries \<and> is_green str profile sha s"
  unfolding matches_of_in
  using judge_summary_cases [OF assms, of str profile sha s] by auto

lemma select_nightly_cases:
  assumes "line \<in> set RELEASE_LINES"
  shows "(case matches_of str profile line sha summaries of
            m # ms \<Rightarrow> select_nightly str summaries profile line sha = Inr (snd (latest (\<lambda>x. order_of str (fst x)) m ms))
          | [] \<Rightarrow> \<exists>t a. select_nightly str summaries profile line sha = fail t a)"
  by (auto simp: select_nightly_def judged_all [OF assms] matches_of_def Let_def split: list.split prod.split)

text \<open>
  C33. For a CUDA line of the release matrix the selection succeeds exactly when some summary is of the
  requested commit, passed, and holds a passed release gate and a passed determinism stage for the
  profile on both lines. What it returns is then such a summary, with the two stages of the
  requested line, and no other such summary comes later; otherwise it exits with a message.
\<close>

theorem select_nightly_decides:
  assumes "line \<in> set RELEASE_LINES"
  shows "if \<exists>s\<in>set summaries. is_green str profile sha s
    then \<exists>s g. select_nightly str summaries profile line sha = Inr g
           \<and> s \<in> set summaries \<and> is_green str profile sha s \<and> (green_path g, green_doc g) = s
           \<and> release_gate_matches str profile line (green_release g)
           \<and> determinism_matches str profile line (green_determinism g)
           \<and> (\<forall>t\<in>set summaries. is_green str profile sha t \<longrightarrow> order_of str t \<le> order_of str s)
    else \<exists>t a. select_nightly str summaries profile line sha = fail t a"
proof (cases "matches_of str profile line sha summaries")
  case Nil
  then have "\<not> (\<exists>s\<in>set summaries. is_green str profile sha s)"
    using matches_of_green [OF assms, of _ str profile sha summaries] by auto
  then show ?thesis using select_nightly_cases [OF assms, of str summaries profile sha] Nil by simp
next
  case (Cons m ms)
  define sg where "sg = latest (\<lambda>x. order_of str (fst x)) m ms"
  have sel: "select_nightly str summaries profile line sha = Inr (snd sg)"
    using select_nightly_cases [OF assms, of str summaries profile sha] Cons by (simp add: sg_def)
  have spec: "sg \<in> set (m # ms)" "\<forall>x\<in>set (m # ms). order_of str (fst x) \<le> order_of str (fst sg)"
    using latest_spec [of "\<lambda>x. order_of str (fst x)" m ms] by (simp_all add: sg_def)
  then have s: "fst sg \<in> set summaries" "judge_summary str profile line sha (fst sg) = Inr (Green (snd sg))"
    using matches_of_in [of "fst sg" "snd sg" str profile line sha summaries] Cons by auto
  have green: "is_green str profile sha (fst sg)" "(green_path (snd sg), green_doc (snd sg)) = fst sg"
    "release_gate_matches str profile line (green_release (snd sg))"
    "determinism_matches str profile line (green_determinism (snd sg))"
    using judge_summary_cases [OF assms, of str profile sha "fst sg"] s(2) by auto
  have "order_of str t \<le> order_of str (fst sg)" if t: "t \<in> set summaries" "is_green str profile sha t" for t
  proof -
    obtain g where "(t, g) \<in> set (m # ms)" using matches_of_green [OF assms] t Cons by metis
    then show ?thesis using spec(2) by force
  qed
  note later = this
  have "\<exists>s\<in>set summaries. is_green str profile sha s" using s(1) green(1) by (rule bexI [rotated])
  then show ?thesis
    unfolding if_P [OF \<open>\<exists>s\<in>set summaries. is_green str profile sha s\<close>]
    by (intro exI [of _ "fst sg"] exI [of _ "snd sg"] conjI ballI impI sel s(1) green later)
qed

definition sample_stage :: "string \<Rightarrow> string \<Rightarrow> json" where
  "sample_stage kind line = JObj [(''kind'', JStr kind), (''profile'', JStr ''torch''), (''line'', JStr line),
     (''release'', JBool True), (''verdict'', JStr ''passed'')]"

definition sample_stages :: "json list" where
  "sample_stages = [sample_stage ''release_gate'' ''cu129'', sample_stage ''determinism'' ''cu129'',
                    sample_stage ''release_gate'' ''cu130'', sample_stage ''determinism'' ''cu130'']"

definition sample_summary :: "string \<Rightarrow> ppath \<times> dict" where
  "sample_summary day = (parse (''/nightly/'' @ day @ ''/summary.json''),
     [(''commit'', JStr ''c1''), (''verdict'', JStr ''passed''), (''finished_utc'', JStr day),
      (''stages'', JList sample_stages)])"

lemma select_nightly_decides_witness:
  "''cu130'' \<in> set RELEASE_LINES
   \<and> (case select_nightly (\<lambda>v. []) [sample_summary ''2'', sample_summary ''1''] ''torch'' ''cu130'' ''c1'' of
        Inl e \<Rightarrow> False
      | Inr g \<Rightarrow> (green_path g, green_doc g) \<in> {sample_summary ''2'', sample_summary ''1''})"
proof
  show line: "''cu130'' \<in> set RELEASE_LINES" by (simp add: RELEASE_LINES_def)
  have "list_all (gate_is_green (\<lambda>v. []) sample_stages ''torch'') RELEASE_LINES" by code_simp
  moreover have "stages_of (snd (sample_summary ''2'')) = Some sample_stages"
    by (simp add: stages_of_def sample_summary_def)
  ultimately have "is_green (\<lambda>v. []) ''torch'' ''c1'' (sample_summary ''2'')"
    by (simp add: is_green_def list_all_iff) (simp add: sample_summary_def dget_Cons)
  then show "case select_nightly (\<lambda>v. []) [sample_summary ''2'', sample_summary ''1''] ''torch'' ''cu130'' ''c1'' of
        Inl e \<Rightarrow> False
      | Inr g \<Rightarrow> (green_path g, green_doc g) \<in> {sample_summary ''2'', sample_summary ''1''}"
    using select_nightly_decides [OF line, of "[sample_summary ''2'', sample_summary ''1'']" "\<lambda>v. []" "''torch''" "''c1''"]
    by auto
qed

end
