(* ===== verification/DeterminismCompare.thy ===== *)
theory DeterminismCompare
  imports SpackLock
begin

text \<open>
  \<^verbatim>\<open>tools/release/determinism_compare.py\<close>: the comparison of two wheelhouses, member by member, and of the
  prefix manifests of their native dependencies, against a list of differences that are allowed.

  The file system answers what the code asks: the JSON at a path (missing, unreadable, or a value),
  the names of the wheels in a directory, the members of a wheel with their contents in the order of
  the archive (none for a file that is no archive), the manifests that the glob finds, and the tree
  below \<^verbatim>\<open>bazel-out\<close> without the links to directories. \<open>text_of\<close> is \<^verbatim>\<open>str()\<close> of a value that is
  no string.
\<close>

section \<open>Host\<close>

datatype out_tree = OutDir (files_in: "string list") (dirs_in: "(string \<times> out_tree) list")

record wheel_host =
  doc_at :: "ppath \<Rightarrow> json option option"
  wheels_in :: "ppath \<Rightarrow> string list option"
  bytes_at :: "ppath \<Rightarrow> string"
  zip_members :: "ppath \<Rightarrow> (string \<times> string) list option"
  dir_at :: "ppath \<Rightarrow> bool"
  external_manifests :: "ppath \<Rightarrow> ppath list"
  out_tree_at :: "ppath \<Rightarrow> out_tree option"
  digest_hex :: "string \<Rightarrow> string"
  value_text :: "json \<Rightarrow> string"

definition text_value :: "wheel_host \<Rightarrow> json \<Rightarrow> string" where
  "text_value host v = (case v of JStr s \<Rightarrow> s | _ \<Rightarrow> value_text host v)"

section \<open>Wheels\<close>

definition NORMALIZED_RECORD_SHA :: string where
  "NORMALIZED_RECORD_SHA = ''sha256:normalized-record''"

definition prefixed_sha :: "wheel_host \<Rightarrow> string \<Rightarrow> string" where
  "prefixed_sha host data = ''sha256:'' @ digest_hex host data"

definition is_record_path :: "string \<Rightarrow> bool" where
  "is_record_path path = (endswith path ''.dist-info/RECORD'' \<or> contains path ''.dist-info/RECORD/'')"

definition add_member ::
  "wheel_host \<Rightarrow> ppath \<Rightarrow> (string \<times> string) list \<Rightarrow> string \<times> string \<Rightarrow> (string \<times> string) list res" where
  "add_member host path files info =
     (case info of (name, data) \<Rightarrow>
        if endswith name ''/'' then Inr files
        else if map_of files name \<noteq> None
        then Inl (ValueError ''{} contains duplicate wheel member: {}'' [JStr (final_name path), JStr name])
        else Inr (files @ [(name, if is_record_path name then NORMALIZED_RECORD_SHA else prefixed_sha host data)]))"

definition wheel_files :: "wheel_host \<Rightarrow> ppath \<Rightarrow> (string \<times> string) list res" where
  "wheel_files host path =
     (case zip_members host path of
        None \<Rightarrow> Inl (LibError ''BadZipFile'')
      | Some infos \<Rightarrow> foldE (add_member host path) [] (sort_key fst infos))"

definition wheelhouse :: "wheel_host \<Rightarrow> ppath \<Rightarrow> (string \<times> ppath) list res" where
  "wheelhouse host path =
     (case wheels_in host path of
        None \<Rightarrow> Inl (ValueError ''wheelhouse is not a directory: {}'' [JStr (path_text path)])
      | Some [] \<Rightarrow> Inl (ValueError ''wheelhouse contains no wheels: {}'' [JStr (path_text path)])
      | Some ns \<Rightarrow> Inr (map (\<lambda>n. (n, slash path n)) (sort ns)))"

section \<open>Allowed differences\<close>

type_synonym allow_key = "string \<times> string \<times> string \<times> string"
type_synonym allowlist = "(allow_key \<times> string) list"

definition check_allow_item :: "string \<Rightarrow> string list \<Rightarrow> nat \<times> json \<Rightarrow> dict res" where
  "check_allow_item what keys entry =
     (case entry of
        (idx, JObj item) \<Rightarrow>
          let missing = filter (\<lambda>k. \<not> truthy (dget item k)) keys in
          if missing \<noteq> []
          then Inl (ValueError (what @ '' {} is missing non-empty field(s): {}'')
                 [JInt (int idx), JStr (join '', '' missing)])
          else Inr item
      | (idx, v) \<Rightarrow> Inl (ValueError (what @ '' {} must be an object'') [JInt (int idx)]))"

definition allowed_wheel :: "wheel_host \<Rightarrow> dict \<Rightarrow> allow_key \<times> string" where
  "allowed_wheel host item =
     (let t = (\<lambda>k. text_value host (dget item k)) in
      ((t ''profile'', t ''line'', t ''wheel'', t ''path''), t ''reason''))"

definition allowed_dependency :: "wheel_host \<Rightarrow> dict \<Rightarrow> allow_key \<times> string" where
  "allowed_dependency host item =
     (let t = (\<lambda>k. text_value host (dget item k)) in
      ((t ''profile'', t ''line'', t ''dependency'', if dhas item ''manifest'' then t ''manifest'' else []), t ''reason''))"

definition allow_list :: "dict \<Rightarrow> string \<Rightarrow> json list option" where
  \<comment> \<open>\<^verbatim>\<open>raw.get(k, [])\<close> when it is a list\<close>
  "allow_list raw k = (case map_of raw k of None \<Rightarrow> Some [] | Some (JList xs) \<Rightarrow> Some xs | Some v \<Rightarrow> None)"

definition allowlist_index :: "(allow_key \<times> string) list \<Rightarrow> allowlist" where
  "allowlist_index entries = foldl (\<lambda>d (k, r). AList.update k r d) [] entries"

definition load_allowlist :: "wheel_host \<Rightarrow> ppath \<Rightarrow> (allowlist \<times> allowlist) res" where
  "load_allowlist host path =
     (case doc_at host path of
        None \<Rightarrow> Inl (ValueError ''allowlist is missing: {}'' [JStr (path_text path)])
      | Some None \<Rightarrow> Inl (ValueError ''allowlist is not valid JSON: {}'' [JStr (path_text path)])
      | Some (Some (JObj raw)) \<Rightarrow>
          if \<not> py_eq (dget raw ''schema_version'') (JInt 1)
          then Inl (ValueError ''allowlist must be an object with schema_version=1'' [])
          else (case (allow_list raw ''entries'', allow_list raw ''dep_entries'') of
            (None, _) \<Rightarrow> Inl (ValueError ''allowlist entries must be a list'' [])
          | (Some _, None) \<Rightarrow> Inl (ValueError ''allowlist dep_entries must be a list'' [])
          | (Some entries, Some dep_entries) \<Rightarrow>
              bindE (mapE (check_allow_item ''allowlist entry'' [''profile'', ''line'', ''wheel'', ''path'', ''reason''])
                (enumerate 0 entries)) (\<lambda>items.
              bindE (mapE (check_allow_item ''allowlist dep_entries entry'' [''profile'', ''line'', ''dependency'', ''reason''])
                (enumerate 0 dep_entries)) (\<lambda>dep_items.
              Inr (allowlist_index (map (allowed_wheel host) items),
                   allowlist_index (map (allowed_dependency host) dep_items)))))
      | _ \<Rightarrow> Inl (ValueError ''allowlist must be an object with schema_version=1'' []))"

definition dependency_allowlist_reason :: "allowlist \<Rightarrow> string \<Rightarrow> string \<Rightarrow> string \<Rightarrow> string \<Rightarrow> string option" where
  "dependency_allowlist_reason allow profile line dependency manifest =
     (case map_of allow (profile, line, dependency, manifest) of
        Some (c # cs) \<Rightarrow> Some (c # cs)
      | _ \<Rightarrow> map_of allow (profile, line, dependency, []))"

section \<open>Prefix manifests\<close>

record prefix_manifest =
  manifest_key :: string
  dependency :: string
  tree_sha256 :: string
  manifest_entries :: "dict list"

definition strip_at :: "string \<Rightarrow> string" where
  "strip_at s = (let sign = (\<lambda>c. c = CHR ''@'') in rev (dropWhile sign (rev (dropWhile sign s))))"

definition normalize_dependency_name :: "string \<Rightarrow> string" where
  "normalize_dependency_name value =
     (let n0 = strip_at value;
          segments = filter (\<lambda>p. p \<noteq> []) (split_on (CHR ''+'') n0);
          n1 = (if startswith n0 ''+'' \<and> segments \<noteq> [] then last segments else n0);
          n2 = removeprefix (removeprefix n1 ''vaso_'') ''spack_'';
          n3 = removesuffix n2 ''_native''
      in map (\<lambda>c. if c = CHR ''_'' then CHR ''-'' else c) n3)"

definition manifest_relative_path :: "ppath \<Rightarrow> ppath \<Rightarrow> string" where
  "manifest_relative_path path output_base =
     (if relative_to path output_base
      then path_text (PPath Rel (drop (length (names output_base)) (names path)))
      else path_text path)"

definition path_stem :: "ppath \<Rightarrow> string" where
  "path_stem p = (let n = final_name p in take (length n - length (suffix_of p)) n)"

definition dependency_name :: "ppath \<Rightarrow> ppath \<Rightarrow> dict \<Rightarrow> string" where
  "dependency_name path output_base document =
     (case dget document ''name'' of
        JStr (c # cs) \<Rightarrow> c # cs
      | _ \<Rightarrow>
          let rel_parts = parts (parse (manifest_relative_path path output_base)); filename = final_name path in
          if 3 \<le> length rel_parts \<and> rel_parts ! 0 = ''external''
          then normalize_dependency_name (rel_parts ! 1)
          else if filename = ''prefix_manifest.json''
          then normalize_dependency_name (final_name (parent path))
          else if endswith filename ''_prefix_manifest.json''
          then normalize_dependency_name (removesuffix filename ''_prefix_manifest.json'')
          else normalize_dependency_name (path_stem path))"

definition prefix_entry :: "ppath \<Rightarrow> nat \<times> json \<Rightarrow> dict res" where
  "prefix_entry path entry =
     (case entry of (idx, v) \<Rightarrow>
        case v of
          JObj e \<Rightarrow> if is_str (dget e ''path'') then Inr e
            else Inl (ValueError ''prefix manifest entry {} is missing a path: {}'' [JInt (int idx), JStr (path_text path)])
        | _ \<Rightarrow> Inl (ValueError ''prefix manifest entry {} is missing a path: {}'' [JInt (int idx), JStr (path_text path)]))"

definition load_prefix_manifest :: "wheel_host \<Rightarrow> ppath \<Rightarrow> ppath \<Rightarrow> prefix_manifest res" where
  "load_prefix_manifest host output_base path =
     (case doc_at host path of
        None \<Rightarrow> Inl OSError
      | Some None \<Rightarrow> Inl (ValueError ''prefix manifest is not valid JSON: {}'' [JStr (path_text path)])
      | Some (Some (JObj raw)) \<Rightarrow>
          if \<not> py_eq (dget raw ''schema_version'') (JInt 1)
          then Inl (ValueError ''prefix manifest must be an object with schema_version=1: {}'' [JStr (path_text path)])
          else (case dget raw ''tree_sha256'' of
            JStr (c # cs) \<Rightarrow>
              (case dget raw ''entries'' of
                 JList xs \<Rightarrow> bindE (mapE (prefix_entry path) (enumerate 0 xs)) (\<lambda>es. Inr
                   \<lparr>manifest_key = manifest_relative_path path output_base,
                    dependency = dependency_name path output_base raw, tree_sha256 = c # cs, manifest_entries = es\<rparr>)
               | _ \<Rightarrow> Inl (ValueError ''prefix manifest entries must be a list: {}'' [JStr (path_text path)]))
          | _ \<Rightarrow> Inl (ValueError ''prefix manifest is missing tree_sha256: {}'' [JStr (path_text path)]))
      | _ \<Rightarrow> Inl (ValueError ''prefix manifest must be an object with schema_version=1: {}'' [JStr (path_text path)]))"

fun walk_manifests :: "ppath \<Rightarrow> out_tree \<Rightarrow> ppath list" where
  "walk_manifests dir (OutDir files dirs) =
     map (slash dir) (filter (\<lambda>f. endswith f ''prefix_manifest.json'') (sort files))
     @ concat (map (\<lambda>(d, t). walk_manifests (slash dir d) t) (sort_key fst dirs))"
definition manifest_paths :: "wheel_host \<Rightarrow> ppath \<Rightarrow> ppath list" where
  "manifest_paths host output_base =
     (let external = slash output_base ''external''; out = slash output_base ''execroot/_main/bazel-out'' in
      (if dir_at host external then sort (external_manifests host external) else [])
      @ (case out_tree_at host out of None \<Rightarrow> [] | Some t \<Rightarrow> walk_manifests out t))"

definition prefix_manifests :: "wheel_host \<Rightarrow> ppath \<Rightarrow> (string \<times> prefix_manifest) list res" where
  "prefix_manifests host output_base =
     (if \<not> dir_at host output_base
      then Inl (ValueError ''output base is not a directory: {}'' [JStr (path_text output_base)])
      else foldE (\<lambda>d path. bindE (load_prefix_manifest host output_base path) (\<lambda>m.
             Inr (AList.update (manifest_key m) m d))) [] (manifest_paths host output_base))"

section \<open>Differences\<close>

definition entry_by_path :: "dict list \<Rightarrow> (string \<times> dict) list res" where
  "entry_by_path entries =
     foldE (\<lambda>d e. bindE (str_item e ''path'') (\<lambda>path.
       if map_of d path \<noteq> None
       then Inl (ValueError ''prefix manifest contains duplicate entry path: {}'' [JStr path])
       else Inr (d @ [(path, e)]))) [] entries"

definition entry_summary :: "dict option \<Rightarrow> json" where
  "entry_summary entry =
     (case entry of
        None \<Rightarrow> JNull
      | Some e \<Rightarrow> JObj (map (\<lambda>k. (k, dget e k))
          (filter (dhas e) [''mode'', ''sha256'', ''size'', ''target'', ''type''])))"

definition same_entry :: "dict option \<Rightarrow> dict option \<Rightarrow> bool" where
  "same_entry a b =
     (case (a, b) of
        (None, None) \<Rightarrow> True
      | (Some d, Some e) \<Rightarrow> py_eq (JObj d) (JObj e)
      | _ \<Rightarrow> False)"

definition presence :: "'a option \<Rightarrow> json" where
  "presence m = JStr (if m = None then ''missing'' else ''present'')"

definition first_differing_entries :: "prefix_manifest option \<Rightarrow> prefix_manifest option \<Rightarrow> nat \<Rightarrow> json list res" where
  "first_differing_entries first second limit =
     (case (first, second) of
        (Some a, Some b) \<Rightarrow>
          bindE (entry_by_path (manifest_entries a)) (\<lambda>as.
          bindE (entry_by_path (manifest_entries b)) (\<lambda>bs. Inr (take limit
            (map (\<lambda>p. JObj [(''first'', entry_summary (map_of as p)), (''path'', JStr p),
                            (''second'', entry_summary (map_of bs p))])
               (filter (\<lambda>p. \<not> same_entry (map_of as p) (map_of bs p))
                 (sorted_set (map fst as @ map fst bs)))))))
      | _ \<Rightarrow> Inr [JObj [(''first'', presence first), (''path'', JStr ''<manifest>''), (''second'', presence second)]])"

definition reason_json :: "string option \<Rightarrow> json" where
  "reason_json reason = (case reason of None \<Rightarrow> JNull | Some r \<Rightarrow> JStr r)"

text \<open>
  One turn of the loop over the manifests of both output bases: a manifest of one side only, or two
  with different trees.
\<close>

definition unmaterialized ::
  "(string \<times> prefix_manifest) list \<Rightarrow> (string \<times> prefix_manifest) list \<Rightarrow> string \<Rightarrow> dict list" where
  "unmaterialized firsts seconds key =
     (case (map_of firsts key, map_of seconds key) of
        (Some m, None) \<Rightarrow> [[(''dependency'', JStr (dependency m)), (''manifest'', JStr key), (''present_in'', JStr ''first'')]]
      | (None, Some m) \<Rightarrow> [[(''dependency'', JStr (dependency m)), (''manifest'', JStr key), (''present_in'', JStr ''second'')]]
      | _ \<Rightarrow> [])"

definition mismatched_dep ::
  "allowlist \<Rightarrow> string \<Rightarrow> string \<Rightarrow> (string \<times> prefix_manifest) list \<Rightarrow> (string \<times> prefix_manifest) list
    \<Rightarrow> string \<Rightarrow> dict list res" where
  "mismatched_dep allow profile line firsts seconds key =
     (case (map_of firsts key, map_of seconds key) of
        (Some a, Some b) \<Rightarrow>
          if tree_sha256 a = tree_sha256 b then Inr []
          else let reason = dependency_allowlist_reason allow profile line (dependency a) key in
            bindE (first_differing_entries (Some a) (Some b) 5) (\<lambda>differing. Inr
              [[(''allowed'', JBool (reason \<noteq> None)), (''dependency'', JStr (dependency a)),
                (''differing_files'', JList differing), (''first_manifest'', JStr (manifest_key a)),
                (''first_tree_sha256'', JStr (tree_sha256 a)), (''reason'', reason_json reason),
                (''second_manifest'', JStr (manifest_key b)), (''second_tree_sha256'', JStr (tree_sha256 b))]])
      | _ \<Rightarrow> Inr [])"

definition compare_dep_manifests ::
  "wheel_host \<Rightarrow> allowlist \<Rightarrow> string \<Rightarrow> string \<Rightarrow> ppath \<Rightarrow> ppath \<Rightarrow> dict res" where
  "compare_dep_manifests host allow profile line first_output_base second_output_base =
     bindE (prefix_manifests host first_output_base) (\<lambda>firsts.
     bindE (prefix_manifests host second_output_base) (\<lambda>seconds.
       let keys = sorted_set (map fst firsts @ map fst seconds) in
       bindE (concatE (mismatched_dep allow profile line firsts seconds) keys) (\<lambda>mismatched.
         let missing = concat (map (unmaterialized firsts seconds) keys) in Inr
         [(''first_output_base'', JStr (path_text first_output_base)),
          (''identical'', JBool (mismatched = [] \<and> missing = [])),
          (''mismatched_deps'', JList (map JObj mismatched)),
          (''second_output_base'', JStr (path_text second_output_base)),
          (''unmaterialized_manifests'', JList (map JObj missing))])))"

definition difference ::
  "allowlist \<Rightarrow> string \<Rightarrow> string \<Rightarrow> string \<Rightarrow> string \<Rightarrow> string option \<Rightarrow> string option \<Rightarrow> dict" where
  "difference allow profile line wheel path first_hash second_hash =
     (let reason = map_of allow (profile, line, wheel, path) in
      [(''allowed'', JBool (reason \<noteq> None)), (''first_sha256'', reason_json first_hash), (''path'', JStr path),
       (''reason'', reason_json reason), (''second_sha256'', reason_json second_hash), (''wheel'', JStr wheel)])"

definition compare_wheel ::
  "wheel_host \<Rightarrow> allowlist \<Rightarrow> string \<Rightarrow> string \<Rightarrow> (string \<times> ppath) list \<Rightarrow> (string \<times> ppath) list
    \<Rightarrow> string \<Rightarrow> dict list res" where
  "compare_wheel host allow profile line firsts seconds wheel =
     (case (map_of firsts wheel, map_of seconds wheel) of
        (Some p, Some q) \<Rightarrow>
          bindE (wheel_files host p) (\<lambda>fs. bindE (wheel_files host q) (\<lambda>gs. Inr
            (map (\<lambda>member. difference allow profile line wheel member (map_of fs member) (map_of gs member))
              (filter (\<lambda>member. map_of fs member \<noteq> map_of gs member) (sorted_set (map fst fs @ map fst gs))))))
      | (p, q) \<Rightarrow>
          let sha = map_option (\<lambda>path. prefixed_sha host (bytes_at host path)) in
          Inr [difference allow profile line wheel ''<wheel>'' (sha p) (sha q)])"

definition path_json :: "ppath option \<Rightarrow> json" where
  "path_json p = (case p of None \<Rightarrow> JNull | Some q \<Rightarrow> JStr (path_text q))"

definition compare_deps ::
  "wheel_host \<Rightarrow> allowlist \<Rightarrow> string \<Rightarrow> string \<Rightarrow> ppath option \<Rightarrow> ppath option \<Rightarrow> dict res" where
  "compare_deps host allow profile line first_base second_base =
     (case (first_base, second_base) of
        (Some p, Some q) \<Rightarrow> compare_dep_manifests host allow profile line p q
      | (None, None) \<Rightarrow> Inr
          [(''first_output_base'', JNull), (''identical'', JBool True), (''mismatched_deps'', JList []),
           (''second_output_base'', JNull)]
      | _ \<Rightarrow> Inl (ValueError ''--first-output-base and --second-output-base must be provided together'' []))"

definition compare_wheelhouses ::
  "wheel_host \<Rightarrow> string \<Rightarrow> string \<Rightarrow> ppath \<Rightarrow> ppath \<Rightarrow> ppath \<Rightarrow> ppath option \<Rightarrow> ppath option \<Rightarrow> dict res" where
  "compare_wheelhouses host profile line first second allowlist_path first_base second_base =
     bindE (load_allowlist host allowlist_path) (\<lambda>(allow, dep_allow).
     bindE (wheelhouse host first) (\<lambda>firsts.
     bindE (wheelhouse host second) (\<lambda>seconds.
     bindE (concatE (compare_wheel host allow profile line firsts seconds)
       (sorted_set (map fst firsts @ map fst seconds))) (\<lambda>differing.
     bindE (compare_deps host dep_allow profile line first_base second_base) (\<lambda>deps. Inr
       [(''schema_version'', JInt 1), (''profile'', JStr profile), (''line'', JStr line),
        (''first'', JStr (path_text first)), (''second'', JStr (path_text second)),
        (''identical'', JBool (differing = [] \<and> truthy (dget deps ''identical''))),
        (''differing_files'', JList (map JObj differing)), (''dep_determinism'', JObj deps)])))))"

definition objects_in :: "dict \<Rightarrow> string \<Rightarrow> dict list" where
  \<comment> \<open>a list of objects that the comparison has written\<close>
  "objects_in d k =
     (case dget d k of JList xs \<Rightarrow> List.map_filter (\<lambda>v. case v of JObj e \<Rightarrow> Some e | _ \<Rightarrow> None) xs | _ \<Rightarrow> [])"

definition compare_main ::
  "wheel_host \<Rightarrow> bool \<Rightarrow> string \<Rightarrow> string \<Rightarrow> ppath \<Rightarrow> ppath \<Rightarrow> ppath \<Rightarrow> ppath option \<Rightarrow> ppath option
    \<Rightarrow> (int \<times> dict option) res" where
  \<comment> \<open>the exit code, and the document that is written; the second argument tells whether
     \<^verbatim>\<open>VASO_ESTATE_ROOT\<close> is set\<close>
  "compare_main host estate profile line first second allowlist_path first_base second_base =
     (if \<not> estate then Inr (2, None)
      else case compare_wheelhouses host profile line first second allowlist_path first_base second_base of
        Inl OSError \<Rightarrow> Inr (2, None)
      | Inl (ValueError what args) \<Rightarrow> Inr (2, None)
      | Inl (LibError what) \<Rightarrow> if what = ''BadZipFile'' then Inr (2, None) else Inl (LibError what)
      | Inl e \<Rightarrow> Inl e
      | Inr result \<Rightarrow>
          let deps = (case dget result ''dep_determinism'' of JObj d \<Rightarrow> d | _ \<Rightarrow> []);
              unallowed = filter (\<lambda>e. \<not> truthy (dget e ''allowed''))
                (objects_in result ''differing_files'' @ objects_in deps ''mismatched_deps'');
              missing = objects_in deps ''unmaterialized_manifests''
          in Inr (if unallowed \<noteq> [] \<or> missing \<noteq> [] then 1 else 0, Some result))"

end
