(* ===== verification/DeterminismCompareRun.thy ===== *)
theory DeterminismCompareRun
  imports DeterminismCompare SortedDict
begin

text \<open>
  What the comparison decides: exit code 0 means that every difference is on the list and that no
  manifest is missing on a side, and \<open>identical\<close> that there is no difference, where the digest has no
  collision.
\<close>

section \<open>What a wheelhouse holds\<close>

definition member_hash :: "wheel_host \<Rightarrow> ppath \<Rightarrow> string \<Rightarrow> string option" where
  \<comment> \<open>of a member of a wheel that is no directory; one value for all records\<close>
  "member_hash host path m =
     (if endswith m ''/'' then None
      else (case zip_members host path of
        None \<Rightarrow> None
      | Some infos \<Rightarrow> map_option (\<lambda>data. if is_record_path m then NORMALIZED_RECORD_SHA else prefixed_sha host data)
          (map_of infos m)))"

definition wheel_names :: "wheel_host \<Rightarrow> ppath \<Rightarrow> string set" where
  "wheel_names host path = (case wheels_in host path of None \<Rightarrow> {} | Some ns \<Rightarrow> set ns)"

definition wheel_accepted :: "wheel_host \<Rightarrow> (string \<Rightarrow> string \<Rightarrow> bool) \<Rightarrow> ppath \<Rightarrow> ppath \<Rightarrow> string \<Rightarrow> bool" where
  \<comment> \<open>the differences of one wheel are listed\<close>
  "wheel_accepted host listed first second w =
     (if w \<in> wheel_names host first \<and> w \<in> wheel_names host second
      then \<forall>m. member_hash host (slash first w) m \<noteq> member_hash host (slash second w) m \<longrightarrow> listed w m
      else listed w ''<wheel>'')"

definition deps_accepted ::
  "wheel_host \<Rightarrow> (string \<Rightarrow> string \<Rightarrow> bool) \<Rightarrow> ppath option \<Rightarrow> ppath option \<Rightarrow> bool" where
  \<comment> \<open>both output bases have the same manifests, and trees that differ are listed\<close>
  "deps_accepted host listed first_base second_base =
     (case (first_base, second_base) of
        (Some p, Some q) \<Rightarrow>
          (\<exists>firsts seconds. prefix_manifests host p = Inr firsts \<and> prefix_manifests host q = Inr seconds
             \<and> fst ` set firsts = fst ` set seconds
             \<and> (\<forall>key a b. map_of firsts key = Some a \<longrightarrow> map_of seconds key = Some b \<longrightarrow>
                  tree_sha256 a \<noteq> tree_sha256 b \<longrightarrow> listed (dependency a) key))
      | (None, None) \<Rightarrow> True
      | _ \<Rightarrow> False)"

lemma concatE_every:
  "concatE f xs = Inr ys \<Longrightarrow>
    (\<forall>y\<in>set ys. P y) \<longleftrightarrow> (\<forall>x\<in>set xs. \<exists>zs. f x = Inr zs \<and> (\<forall>z\<in>set zs. P z))"
  by (induction xs arbitrary: ys) auto

lemma concatE_each: "concatE f xs = Inr ys \<Longrightarrow> x \<in> set xs \<Longrightarrow> \<exists>zs. f x = Inr zs"
  by (induction xs arbitrary: ys) auto

lemma map_of_None: "map_of d k = None \<longleftrightarrow> k \<notin> fst ` set d"
  by (rule map_of_eq_None_iff)

lemma add_members:
  "foldE (add_member host p) files infos = Inr fs \<Longrightarrow>
    map_of fs m = (case map_of files m of
        Some h \<Rightarrow> Some h
      | None \<Rightarrow> if endswith m ''/'' then None
          else map_option (\<lambda>data. if is_record_path m then NORMALIZED_RECORD_SHA else prefixed_sha host data)
            (map_of infos m))"
proof (induction infos arbitrary: files)
  case (Cons info infos)
  obtain name data where info: "info = (name, data)" by (cases info)
  obtain files' where f: "add_member host p files info = Inr files'" "foldE (add_member host p) files' infos = Inr fs"
    using Cons.prems by auto
  show ?case
  proof (cases "endswith name ''/''")
    case True
    then have "files' = files" using f(1) by (simp add: add_member_def info)
    then show ?thesis using Cons.IH [OF f(2)] True by (auto simp: info split: option.splits)
  next
    case False
    then have n: "map_of files name = None"
      and files': "files' = files @ [(name, if is_record_path name then NORMALIZED_RECORD_SHA else prefixed_sha host data)]"
      using f(1) by (auto simp: add_member_def info split: if_splits)
    show ?thesis
      using Cons.IH [OF f(2)] n False
      by (auto simp: info files' map_of_append map_add_def split: option.splits)
  qed
qed (auto split: option.splits)

lemma wheel_files_hash: "wheel_files host p = Inr fs \<Longrightarrow> map_of fs m = member_hash host p m"
  by (auto simp: wheel_files_def member_hash_def dict_simps split: option.splits dest!: add_members [where m = m])

lemma wheelhouse_names:
  assumes "wheelhouse host path = Inr ws"
  shows "fst ` set ws = wheel_names host path"
    and "map_of ws w = (if w \<in> wheel_names host path then Some (slash path w) else None)"
proof -
  obtain ns where ns: "wheels_in host path = Some ns" and ws: "ws = map (\<lambda>n. (n, slash path n)) (sort ns)"
    using assms by (auto simp: wheelhouse_def split: option.splits list.splits)
  show "fst ` set ws = wheel_names host path" by (force simp: ws wheel_names_def ns)
  have "map_of (map (\<lambda>n. (n, slash path n)) xs) w = (if w \<in> set xs then Some (slash path w) else None)" for xs
    by (induction xs) auto
  then show "map_of ws w = (if w \<in> wheel_names host path then Some (slash path w) else None)"
    by (simp add: ws wheel_names_def ns)
qed
section \<open>The comparison\<close>

lemma difference_allowed: "truthy (dget (difference allow profile line w m h g) ''allowed'') \<longleftrightarrow>
    map_of allow (profile, line, w, m) \<noteq> None"
  by (simp add: difference_def Let_def dget_Cons)

lemma compare_wheel_spec:
  assumes "wheelhouse host first = Inr firsts" "wheelhouse host second = Inr seconds"
    and "compare_wheel host allow profile line firsts seconds w = Inr ds"
    and w: "w \<in> wheel_names host first \<union> wheel_names host second"
  shows "(\<forall>d\<in>set ds. truthy (dget d ''allowed'')) \<longleftrightarrow>
      wheel_accepted host (\<lambda>w m. map_of allow (profile, line, w, m) \<noteq> None) first second w"
    and "ds = [] \<longleftrightarrow> wheel_accepted host (\<lambda>w m. False) first second w"
proof -
  note f = wheelhouse_names(2) [OF assms(1), of w] wheelhouse_names(2) [OF assms(2), of w]
  have "((\<forall>d\<in>set ds. truthy (dget d ''allowed'')) \<longleftrightarrow>
      wheel_accepted host (\<lambda>w m. map_of allow (profile, line, w, m) \<noteq> None) first second w)
    \<and> (ds = [] \<longleftrightarrow> wheel_accepted host (\<lambda>w m. False) first second w)"
  proof (cases "w \<in> wheel_names host first \<and> w \<in> wheel_names host second")
    case True
    obtain fs gs where fs: "wheel_files host (slash first w) = Inr fs" "wheel_files host (slash second w) = Inr gs"
      and ds: "ds = map (\<lambda>m. difference allow profile line w m (map_of fs m) (map_of gs m))
        (filter (\<lambda>m. map_of fs m \<noteq> map_of gs m) (sorted_set (map fst fs @ map fst gs)))"
      using assms(3) True f by (auto simp: compare_wheel_def)
    note h = wheel_files_hash [OF fs(1)] wheel_files_hash [OF fs(2)]
    have "m \<in> fst ` set fs \<union> fst ` set gs" if "map_of fs m \<noteq> map_of gs m" for m
      using that map_of_None [of fs m] map_of_None [of gs m] by auto
    then have S: "set (filter (\<lambda>m. map_of fs m \<noteq> map_of gs m) (sorted_set (map fst fs @ map fst gs)))
        = {m. member_hash host (slash first w) m \<noteq> member_hash host (slash second w) m}"
      by (auto simp: h)
    have "(\<forall>d\<in>set ds. truthy (dget d ''allowed'')) \<longleftrightarrow>
        (\<forall>m\<in>{m. member_hash host (slash first w) m \<noteq> member_hash host (slash second w) m}.
           map_of allow (profile, line, w, m) \<noteq> None)"
      unfolding ds set_map S by (simp add: difference_allowed del: not_None_eq)
    moreover have "ds = [] \<longleftrightarrow> {m. member_hash host (slash first w) m \<noteq> member_hash host (slash second w) m} = {}"
      by (simp only: ds S [symmetric] map_is_Nil_conv set_empty)
    ultimately show ?thesis using True by (simp add: wheel_accepted_def del: not_None_eq)
  next
    case False
    then have "\<exists>h g. ds = [difference allow profile line w ''<wheel>'' h g]"
      using assms(3) w f by (auto simp: compare_wheel_def Let_def split: option.splits)
    then show ?thesis using False by (auto simp: wheel_accepted_def difference_allowed simp del: not_None_eq)
  qed
  then show "(\<forall>d\<in>set ds. truthy (dget d ''allowed'')) \<longleftrightarrow>
      wheel_accepted host (\<lambda>w m. map_of allow (profile, line, w, m) \<noteq> None) first second w"
    "ds = [] \<longleftrightarrow> wheel_accepted host (\<lambda>w m. False) first second w" by blast+
qed

lemma objects_in_map: "dget d k = JList (map JObj es) \<Longrightarrow> objects_in d k = es"
  by (induction es arbitrary: d) (auto simp: objects_in_def List.map_filter_def comp_def)

lemma mismatched_spec:
  assumes "mismatched_dep allow profile line firsts seconds key = Inr ds"
  shows "(\<forall>d\<in>set ds. truthy (dget d ''allowed'')) \<longleftrightarrow>
      (\<forall>a b. map_of firsts key = Some a \<longrightarrow> map_of seconds key = Some b \<longrightarrow> tree_sha256 a \<noteq> tree_sha256 b \<longrightarrow>
         dependency_allowlist_reason allow profile line (dependency a) key \<noteq> None)"
    and "ds = [] \<longleftrightarrow>
      (\<forall>a b. map_of firsts key = Some a \<longrightarrow> map_of seconds key = Some b \<longrightarrow> tree_sha256 a = tree_sha256 b)"
  using assms by (auto simp: mismatched_dep_def Let_def dget_Cons split: option.splits if_splits)

lemma unmaterialized_spec: "unmaterialized firsts seconds key = [] \<longleftrightarrow> (map_of firsts key = None \<longleftrightarrow> map_of seconds key = None)"
  by (auto simp: unmaterialized_def split: option.splits)

lemma compare_deps_spec:
  assumes "compare_deps host allow profile line first_base second_base = Inr deps"
  shows "(\<forall>d\<in>set (objects_in deps ''mismatched_deps''). truthy (dget d ''allowed''))
      \<and> objects_in deps ''unmaterialized_manifests'' = [] \<longleftrightarrow>
      deps_accepted host (\<lambda>dep key. dependency_allowlist_reason allow profile line dep key \<noteq> None) first_base second_base"
    and "truthy (dget deps ''identical'') \<longleftrightarrow> deps_accepted host (\<lambda>dep key. False) first_base second_base"
proof -
  let ?A = "(\<forall>d\<in>set (objects_in deps ''mismatched_deps''). truthy (dget d ''allowed''))
      \<and> objects_in deps ''unmaterialized_manifests'' = []"
  consider p q where "first_base = Some p" "second_base = Some q" | "first_base = None" "second_base = None"
    using assms by (cases first_base; cases second_base) (auto simp: compare_deps_def)
  then have "(?A \<longleftrightarrow> deps_accepted host (\<lambda>dep key. dependency_allowlist_reason allow profile line dep key \<noteq> None) first_base second_base)
    \<and> (truthy (dget deps ''identical'') \<longleftrightarrow> deps_accepted host (\<lambda>dep key. False) first_base second_base)"
  proof cases
    case 1
    obtain firsts seconds mismatched missing where m: "prefix_manifests host p = Inr firsts" "prefix_manifests host q = Inr seconds"
      and mm: "concatE (mismatched_dep allow profile line firsts seconds) (sorted_set (map fst firsts @ map fst seconds)) = Inr mismatched"
      and mi: "missing = concat (map (unmaterialized firsts seconds) (sorted_set (map fst firsts @ map fst seconds)))"
      and d: "dget deps ''mismatched_deps'' = JList (map JObj mismatched)"
        "dget deps ''unmaterialized_manifests'' = JList (map JObj missing)"
        "dget deps ''identical'' = JBool (mismatched = [] \<and> missing = [])"
      using assms 1 by (auto simp: compare_deps_def compare_dep_manifests_def Let_def dget_Cons)
    let ?keys = "set (sorted_set (map fst firsts @ map fst seconds))"
    have keys: "key \<in> ?keys" if "map_of firsts key = Some a" for key a
      using that map_of_None [of firsts key] by auto
    have "missing = [] \<longleftrightarrow> (\<forall>key\<in>?keys. map_of firsts key = None \<longleftrightarrow> map_of seconds key = None)"
      by (simp add: mi unmaterialized_spec)
    also have "\<dots> \<longleftrightarrow> fst ` set firsts = fst ` set seconds"
      by (simp only: map_of_None set_sorted_set set_append set_map) blast
    finally have miss: "missing = [] \<longleftrightarrow> fst ` set firsts = fst ` set seconds" .
    have each: "\<exists>zs. mismatched_dep allow profile line firsts seconds key = Inr zs" if "key \<in> ?keys" for key
      using concatE_each [OF mm that] .
    have ok: "(\<forall>d\<in>set mismatched. truthy (dget d ''allowed'')) \<longleftrightarrow>
        (\<forall>key a b. map_of firsts key = Some a \<longrightarrow> map_of seconds key = Some b \<longrightarrow> tree_sha256 a \<noteq> tree_sha256 b \<longrightarrow>
           dependency_allowlist_reason allow profile line (dependency a) key \<noteq> None)"
      unfolding concatE_every [OF mm] using mismatched_spec(1) each keys by (smt (verit, best))
    have same: "mismatched = [] \<longleftrightarrow>
        (\<forall>key a b. map_of firsts key = Some a \<longrightarrow> map_of seconds key = Some b \<longrightarrow> tree_sha256 a = tree_sha256 b)"
    proof -
      have "mismatched = [] \<longleftrightarrow> (\<forall>key\<in>?keys. mismatched_dep allow profile line firsts seconds key = Inr [])"
        using concatE_Nil [of "mismatched_dep allow profile line firsts seconds" "sorted_set (map fst firsts @ map fst seconds)"] mm
        by simp
      then show ?thesis using mismatched_spec(2) each keys by (smt (verit, best))
    qed
    show ?thesis
      using miss ok same m by (auto simp: deps_accepted_def 1 objects_in_map [OF d(1)] objects_in_map [OF d(2)] d(3))
  next
    case 2
    then have "deps = [(''first_output_base'', JNull), (''identical'', JBool True), (''mismatched_deps'', JList []),
           (''second_output_base'', JNull)]"
      using assms by (simp add: compare_deps_def)
    then show ?thesis by (simp add: 2 deps_accepted_def objects_in_def dget_Cons dget_Nil List.map_filter_simps)
  qed
  then show "?A \<longleftrightarrow> deps_accepted host (\<lambda>dep key. dependency_allowlist_reason allow profile line dep key \<noteq> None) first_base second_base"
    "truthy (dget deps ''identical'') \<longleftrightarrow> deps_accepted host (\<lambda>dep key. False) first_base second_base" by blast+
qed
lemma compare_main_result:
  assumes "compare_wheelhouses host profile line first second path b1 b2 = Inr result"
    and "dget result ''differing_files'' = JList (map JObj differing)" "dget result ''dep_determinism'' = JObj deps"
  shows "compare_main host True profile line first second path b1 b2 = Inr
    (if (\<forall>d\<in>set differing. truthy (dget d ''allowed''))
        \<and> (\<forall>d\<in>set (objects_in deps ''mismatched_deps''). truthy (dget d ''allowed''))
        \<and> objects_in deps ''unmaterialized_manifests'' = [] then 0 else 1, Some result)"
proof -
  have "filter (\<lambda>e. \<not> truthy (dget e ''allowed'')) (xs @ ys) \<noteq> [] \<or> zs \<noteq> [] \<longleftrightarrow>
      \<not> ((\<forall>d\<in>set xs. truthy (dget d ''allowed'')) \<and> (\<forall>d\<in>set ys. truthy (dget d ''allowed'')) \<and> zs = [])"
    for xs ys zs :: "dict list"
    by (auto simp: filter_empty_conv)
  then show ?thesis
    by (simp only: compare_main_def assms(1,3) objects_in_map [OF assms(2)] Let_def sum.case json.case if_False not_True_eq_False) simp
qed

lemma determinism_decides:
  assumes "load_allowlist host path = Inr (allow, dep_allow)"
    and "compare_wheelhouses host profile line first second path b1 b2 = Inr result"
  shows "\<exists>code. compare_main host True profile line first second path b1 b2 = Inr (code, Some result) \<and> code \<in> {0, 1}
    \<and> (code = 0 \<longleftrightarrow>
         (\<forall>w \<in> wheel_names host first \<union> wheel_names host second.
            wheel_accepted host (\<lambda>w m. map_of allow (profile, line, w, m) \<noteq> None) first second w)
         \<and> deps_accepted host (\<lambda>dep key. dependency_allowlist_reason dep_allow profile line dep key \<noteq> None) b1 b2)
    \<and> (dget result ''identical'' = JBool True \<longleftrightarrow>
         (\<forall>w \<in> wheel_names host first \<union> wheel_names host second. wheel_accepted host (\<lambda>w m. False) first second w)
         \<and> deps_accepted host (\<lambda>dep key. False) b1 b2)"
proof -
  obtain firsts seconds differing deps where w: "wheelhouse host first = Inr firsts" "wheelhouse host second = Inr seconds"
    and c: "concatE (compare_wheel host allow profile line firsts seconds) (sorted_set (map fst firsts @ map fst seconds)) = Inr differing"
    and d: "compare_deps host dep_allow profile line b1 b2 = Inr deps"
    and r: "dget result ''differing_files'' = JList (map JObj differing)" "dget result ''dep_determinism'' = JObj deps"
      "dget result ''identical'' = JBool (differing = [] \<and> truthy (dget deps ''identical''))"
    using assms(2) unfolding compare_wheelhouses_def assms(1)
    by (auto simp: dget_Cons simp del: set_map)
  let ?W = "wheel_names host first \<union> wheel_names host second"
  have keys: "set (sorted_set (map fst firsts @ map fst seconds)) = ?W"
    using wheelhouse_names(1) [OF w(1)] wheelhouse_names(1) [OF w(2)] by simp
  have each: "\<exists>ds. compare_wheel host allow profile line firsts seconds x = Inr ds" if "x \<in> ?W" for x
    using concatE_each [OF c] that keys by blast
  have all: "(\<forall>d\<in>set differing. truthy (dget d ''allowed'')) \<longleftrightarrow>
      (\<forall>x\<in>?W. wheel_accepted host (\<lambda>w m. map_of allow (profile, line, w, m) \<noteq> None) first second x)"
  proof -
    have "(\<exists>zs. compare_wheel host allow profile line firsts seconds x = Inr zs \<and> (\<forall>d\<in>set zs. truthy (dget d ''allowed'')))
        \<longleftrightarrow> wheel_accepted host (\<lambda>w m. map_of allow (profile, line, w, m) \<noteq> None) first second x" if x: "x \<in> ?W" for x
      using each [OF x] compare_wheel_spec(1) [OF w _ x, of allow profile line] by auto
    then show ?thesis unfolding concatE_every [OF c] keys by blast
  qed
  have none: "differing = [] \<longleftrightarrow> (\<forall>x\<in>?W. wheel_accepted host (\<lambda>w m. False) first second x)"
  proof -
    have "compare_wheel host allow profile line firsts seconds x = Inr [] \<longleftrightarrow> wheel_accepted host (\<lambda>w m. False) first second x"
      if x: "x \<in> ?W" for x
      using each [OF x] compare_wheel_spec(2) [OF w _ x, of allow profile line] by auto
    moreover have "differing = [] \<longleftrightarrow> (\<forall>x\<in>?W. compare_wheel host allow profile line firsts seconds x = Inr [])"
      using concatE_Nil [of "compare_wheel host allow profile line firsts seconds" "sorted_set (map fst firsts @ map fst seconds)"] c keys
      by simp
    ultimately show ?thesis by blast
  qed
  note deps = compare_deps_spec [OF d]
  let ?ok = "(\<forall>d\<in>set differing. truthy (dget d ''allowed''))
        \<and> (\<forall>d\<in>set (objects_in deps ''mismatched_deps''). truthy (dget d ''allowed''))
        \<and> objects_in deps ''unmaterialized_manifests'' = []"
  show ?thesis
  proof (intro exI conjI)
    show "compare_main host True profile line first second path b1 b2 = Inr (if ?ok then 0 else 1, Some result)"
      by (rule compare_main_result [OF assms(2) r(1,2)])
    show "(if ?ok then 0 else 1) \<in> {0, 1 :: int}" by simp
    show "(if ?ok then 0 else 1 :: int) = 0 \<longleftrightarrow>
         (\<forall>w \<in> ?W. wheel_accepted host (\<lambda>w m. map_of allow (profile, line, w, m) \<noteq> None) first second w)
         \<and> deps_accepted host (\<lambda>dep key. dependency_allowlist_reason dep_allow profile line dep key \<noteq> None) b1 b2"
      unfolding all [symmetric] deps(1) [symmetric] by simp
    show "dget result ''identical'' = JBool True \<longleftrightarrow>
         (\<forall>w \<in> ?W. wheel_accepted host (\<lambda>w m. False) first second w) \<and> deps_accepted host (\<lambda>dep key. False) b1 b2"
      unfolding none [symmetric] deps(2) [symmetric] by (simp add: r(3))
  qed
qed

text \<open>
  C34. The determinism check. A comparison that runs through ends with 0 or 1: with 0 exactly when each
  wheel of the two wheelhouses is in both and every member that differs, up to the records of the
  wheel, is on the list for this profile and line, or the wheel itself is; and, when output bases are
  given, both have the same manifests and each tree that differs is on the list for its
  dependency. The document says \<open>identical\<close> exactly when there is nothing to allow.
\<close>

theorem determinism_exit_decides:
  assumes "load_allowlist host path = Inr (allow, dep_allow)"
    and "compare_wheelhouses host profile line first second path b1 b2 = Inr result"
  shows "\<exists>code. compare_main host True profile line first second path b1 b2 = Inr (code, Some result) \<and> code \<in> {0, 1}
    \<and> (code = 0 \<longleftrightarrow>
         (\<forall>w \<in> wheel_names host first \<union> wheel_names host second.
            wheel_accepted host (\<lambda>w m. map_of allow (profile, line, w, m) \<noteq> None) first second w)
         \<and> deps_accepted host (\<lambda>dep key. dependency_allowlist_reason dep_allow profile line dep key \<noteq> None) b1 b2)
    \<and> (dget result ''identical'' = JBool True \<longleftrightarrow>
         (\<forall>w \<in> wheel_names host first \<union> wheel_names host second. wheel_accepted host (\<lambda>w m. False) first second w)
         \<and> deps_accepted host (\<lambda>dep key. False) b1 b2)"
  by (rule determinism_decides [OF assms])

section \<open>Identical wheelhouses\<close>

definition contents :: "wheel_host \<Rightarrow> ppath \<Rightarrow> string set" where
  "contents host path = (case zip_members host path of None \<Rightarrow> {} | Some infos \<Rightarrow> snd ` set infos)"

text \<open>Where the digest has no collision among the members, equal digests are equal members.\<close>

lemma member_hash_eq:
  assumes "zip_members host p = Some as" "zip_members host q = Some bs" "inj_on (digest_hex host) (contents host p \<union> contents host q)"
    and "member_hash host p m = member_hash host q m" "\<not> is_record_path m" "\<not> endswith m ''/''"
  shows "map_of as m = map_of bs m"
proof -
  have eq: "map_option (prefixed_sha host) (map_of as m) = map_option (prefixed_sha host) (map_of bs m)"
    using assms(4-6) by (simp add: member_hash_def assms(1,2))
  show ?thesis
  proof (cases "map_of as m")
    case None
    then show ?thesis using eq by simp
  next
    case (Some x)
    then obtain y where y: "map_of bs m = Some y" "prefixed_sha host x = prefixed_sha host y"
      using eq by (cases "map_of bs m") auto
    have "x \<in> contents host p" unfolding contents_def assms(1) option.case
      by (rule image_eqI [where x = "(m, x)"]) (simp_all add: map_of_SomeD [OF Some])
    moreover have "y \<in> contents host q" unfolding contents_def assms(2) option.case
      by (rule image_eqI [where x = "(m, y)"]) (simp_all add: map_of_SomeD [OF y(1)])
    moreover have "digest_hex host x = digest_hex host y" using y(2) by (simp add: prefixed_sha_def)
    ultimately have "x = y" using assms(3) by (auto dest: inj_onD)
    then show ?thesis using Some y(1) by simp
  qed
qed
text \<open>
  Identical wheelhouses, where the digest has no collision among their members: they have the same
  wheels, and in each the same files with the same bytes, up to the records.
\<close>

theorem identical_wheels_are_equal:
  assumes "compare_wheelhouses host profile line first second path b1 b2 = Inr result"
    and "dget result ''identical'' = JBool True"
    and "w \<in> wheel_names host first \<union> wheel_names host second"
    and "inj_on (digest_hex host) (contents host (slash first w) \<union> contents host (slash second w))"
  shows "w \<in> wheel_names host first \<inter> wheel_names host second
    \<and> (\<forall>as bs m. zip_members host (slash first w) = Some as \<longrightarrow> zip_members host (slash second w) = Some bs \<longrightarrow>
         \<not> is_record_path m \<longrightarrow> \<not> endswith m ''/'' \<longrightarrow> map_of as m = map_of bs m)"
proof -
  obtain allow dep_allow where "load_allowlist host path = Inr (allow, dep_allow)"
    using assms(1) by (auto simp: compare_wheelhouses_def)
  then have acc: "wheel_accepted host (\<lambda>w m. False) first second w"
    using determinism_decides [OF _ assms(1)] assms(2,3) by blast
  then have both: "w \<in> wheel_names host first \<inter> wheel_names host second"
    and same: "member_hash host (slash first w) m = member_hash host (slash second w) m" for m
    by (auto simp: wheel_accepted_def split: if_splits)
  have "map_of as m = map_of bs m"
    if "zip_members host (slash first w) = Some as" "zip_members host (slash second w) = Some bs"
      "\<not> is_record_path m" "\<not> endswith m ''/''" for as bs m
    by (rule member_hash_eq [OF that(1,2) assms(4) same that(3,4)])
  then show ?thesis using both by blast
qed

section \<open>A comparison with one listed difference\<close>

definition wheel_sample :: wheel_host where
  "wheel_sample = \<lparr>
     doc_at = (\<lambda>p. if p = parse ''/allow.json'' then Some (Some (JObj
       [(''schema_version'', JInt 1), (''entries'', JList [JObj
          [(''profile'', JStr ''p''), (''line'', JStr ''cu129''), (''wheel'', JStr ''t.whl''), (''path'', JStr ''t.so''),
           (''reason'', JStr ''time stamp'')]])])) else None),
     wheels_in = (\<lambda>p. Some [''t.whl'']), bytes_at = (\<lambda>p. []),
     zip_members = (\<lambda>p. Some [(''t.so'', path_text p), (''t.dist-info/RECORD'', path_text p), (''t.py'', ''x'')]),
     dir_at = (\<lambda>p. False), external_manifests = (\<lambda>p. []), out_tree_at = (\<lambda>p. None),
     digest_hex = (\<lambda>s. s), value_text = (\<lambda>v. [])\<rparr>"

lemma sample_comparison:
  "\<exists>allow deps. load_allowlist wheel_sample (parse ''/allow.json'') = Inr (allow, deps)"
  "\<exists>result. compare_wheelhouses wheel_sample ''p'' ''cu129'' (parse ''/a'') (parse ''/b'') (parse ''/allow.json'') None None = Inr result"
proof -
  have "case load_allowlist wheel_sample (parse ''/allow.json'') of Inr r \<Rightarrow> True | Inl e \<Rightarrow> False" by code_simp
  then show "\<exists>allow deps. load_allowlist wheel_sample (parse ''/allow.json'') = Inr (allow, deps)"
    by (auto split: sum.splits)
  have "case compare_wheelhouses wheel_sample ''p'' ''cu129'' (parse ''/a'') (parse ''/b'') (parse ''/allow.json'') None None of
      Inr r \<Rightarrow> True | Inl e \<Rightarrow> False" by code_simp
  then show "\<exists>result. compare_wheelhouses wheel_sample ''p'' ''cu129'' (parse ''/a'') (parse ''/b'') (parse ''/allow.json'') None None = Inr result"
    by (auto split: sum.splits)
qed

theorem determinism_exit_decides_witness:
  "\<exists>code result. compare_main wheel_sample True ''p'' ''cu129'' (parse ''/a'') (parse ''/b'') (parse ''/allow.json'') None None
      = Inr (code, Some result) \<and> code \<in> {0, 1}"
proof -
  obtain allow deps result where "load_allowlist wheel_sample (parse ''/allow.json'') = Inr (allow, deps)"
    "compare_wheelhouses wheel_sample ''p'' ''cu129'' (parse ''/a'') (parse ''/b'') (parse ''/allow.json'') None None = Inr result"
    using sample_comparison by blast
  from determinism_exit_decides [OF this] show ?thesis by blast
qed

lemma sample_exit_codes:
  "case compare_main wheel_sample True ''p'' ''cu129'' (parse ''/a'') (parse ''/b'') (parse ''/allow.json'') None None of
     Inr (code, Some result) \<Rightarrow> code = 0 \<and> dget result ''identical'' = JBool False | _ \<Rightarrow> False"
  "case compare_main wheel_sample True ''p'' ''cu130'' (parse ''/a'') (parse ''/b'') (parse ''/allow.json'') None None of
     Inr (code, Some result) \<Rightarrow> code = 1 | _ \<Rightarrow> False"
  by code_simp+

end
