(* ===== verification/RedRegistry.thy ===== *)
theory RedRegistry
  imports Effects "HOL-Library.Product_Lexorder"
begin

text \<open>
  \<^verbatim>\<open>tools/agents/red_registry.py\<close>: the registry of failing targets that the standing verification
  keeps, one JSON file for each target, and the escalation of a failure that two agents see or that
  is an hour old. One call runs under the lock of the registry, so a call is a step on the files and
  on the attention log; the replacement of a file and the append succeed. Hash, time stamps and the
  arithmetic of floats are parameters.
\<close>

section \<open>Records\<close>

record red_lib =
  sha256 :: "string \<Rightarrow> string"
  stamp :: "rat \<Rightarrow> string"
  to_float :: "int \<Rightarrow> rat"
  float_minus :: "rat \<Rightarrow> rat \<Rightarrow> rat"

text \<open>\<open>re.sub(r"[^A-Za-z0-9_.-]+", "_", value)\<close>: one underscore for each run of other characters.\<close>

definition name_char :: "char \<Rightarrow> bool" where
  "name_char c = (let n = (of_char c :: nat) in
     is_digit c \<or> (65 \<le> n \<and> n \<le> 90) \<or> (97 \<le> n \<and> n \<le> 122) \<or> c \<in> set ''_.-'')"

fun underscored :: "bool \<Rightarrow> string \<Rightarrow> string" where
  "underscored in_run [] = []"
| "underscored in_run (c # cs) =
     (if name_char c then c # underscored False cs
      else if in_run then underscored True cs
      else CHR ''_'' # underscored True cs)"

definition strip_underscores :: "string \<Rightarrow> string" where
  "strip_underscores s = rstrip_char (CHR ''_'') (dropWhile (\<lambda>c. c = CHR ''_'') s)"

definition red_file_name :: "red_lib \<Rightarrow> string \<Rightarrow> string" where
  "red_file_name lib target =
     (let base = strip_underscores (underscored False target)
      in (if base = [] then ''red'' else base) @ ''-'' @ take 8 (sha256 lib target) @ ''.json'')"

definition text_field_ok :: "dict \<Rightarrow> string \<Rightarrow> bool" where
  "text_field_ok d k = nonempty_str (dget d k)"

definition agents_ok :: "dict \<Rightarrow> bool" where
  "agents_ok d = (case dget d ''agents'' of JList as \<Rightarrow> as \<noteq> [] \<and> list_all nonempty_str as | _ \<Rightarrow> False)"

text \<open>An integer that rounds to infinity raises \<^verbatim>\<open>OverflowError\<close> in \<^verbatim>\<open>math.isfinite\<close>.\<close>

definition epoch_ok :: "dict \<Rightarrow> string \<Rightarrow> bool" where
  "epoch_ok d k =
     (case dget d k of
        JInt i \<Rightarrow> 0 \<le> i \<and> i < 2 ^ 1024 - 2 ^ 970
      | JFloat (Fin r) \<Rightarrow> 0 \<le> r
      | _ \<Rightarrow> False)"

definition flag_ok :: "dict \<Rightarrow> string \<Rightarrow> bool" where
  "flag_ok d k = (case dget d k of JBool b \<Rightarrow> True | _ \<Rightarrow> False)"

definition TEXT_FIELDS :: "string list" where
  "TEXT_FIELDS = [''target'', ''stage'', ''sha'', ''first_seen'', ''last_seen'']"

definition need_field :: "(dict \<Rightarrow> string \<Rightarrow> bool) \<Rightarrow> string \<Rightarrow> dict \<Rightarrow> string \<Rightarrow> unit res" where
  "need_field ok message d k = guardE (ok d k) (ValueError message [JStr k])"

definition read_red_json :: "json option option \<Rightarrow> dict res" where
  \<comment> \<open>no file, no JSON in UTF-8, or a value\<close>
  "read_red_json content =
     (case content of
        None \<Rightarrow> Inr []
      | Some None \<Rightarrow> Inl (ValueError ''{}: invalid JSON'' [])
      | Some (Some v) \<Rightarrow>
          (case v of
             JObj d \<Rightarrow>
               if dget d ''schema_version'' \<noteq> JInt 1
               then Inl (ValueError ''{}: expected a registry object with schema_version=1'' [])
               else
                 bindE (mapE (need_field text_field_ok ''{}: {} must be a nonempty string'' d) TEXT_FIELDS) (\<lambda>_.
                 bindE (guardE (agents_ok d) (ValueError ''{}: agents must be a nonempty list of names'' [])) (\<lambda>_.
                 bindE (mapE (need_field epoch_ok ''{}: {} must be a finite nonnegative number'' d)
                          [''first_seen_epoch'', ''last_seen_epoch'']) (\<lambda>_.
                 bindE (mapE (need_field flag_ok ''{}: {} must be boolean'' d)
                          [''shared_escalated'', ''stale_escalated'']) (\<lambda>_.
                 Inr d))))
           | _ \<Rightarrow> Inl (ValueError ''{}: expected a registry object with schema_version=1'' [])))"

section \<open>One call\<close>

record red_world =
  root_exists :: bool
  red_files :: "(string \<times> json option) list"
  attention :: "string list"

record red_call =
  action :: string
  agent :: string
  sha :: string
  stage :: string
  target :: string
  call_time :: rat

definition list_of :: "json \<Rightarrow> json list" where
  "list_of v = (case v of JList vs \<Rightarrow> vs | _ \<Rightarrow> [])"

definition previous_agents :: "dict \<Rightarrow> json list" where
  "previous_agents existing = list_of (dget existing ''agents'')"

definition flag :: "dict \<Rightarrow> string \<Rightarrow> bool" where
  "flag existing k = truthy (dget existing k)"

definition first_epoch :: "red_lib \<Rightarrow> red_call \<Rightarrow> dict \<Rightarrow> rat" where
  "first_epoch lib c existing =
     (case map_of existing ''first_seen_epoch'' of
        Some (JInt i) \<Rightarrow> to_float lib i
      | Some (JFloat (Fin r)) \<Rightarrow> r
      | _ \<Rightarrow> call_time c)"

definition truncated :: "rat \<Rightarrow> int" where
  "truncated r = (if r < 0 then - \<lfloor>- r\<rfloor> else \<lfloor>r\<rfloor>)"

definition age :: "red_lib \<Rightarrow> red_call \<Rightarrow> dict \<Rightarrow> int" where
  "age lib c existing = max 0 (truncated (float_minus lib (call_time c) (first_epoch lib c existing)))"

definition newly_shared :: "red_call \<Rightarrow> dict \<Rightarrow> bool" where
  "newly_shared c existing =
     (JStr (agent c) \<notin> set (previous_agents existing) \<and> 1 \<le> length (previous_agents existing)
      \<and> \<not> flag existing ''shared_escalated'')"

definition newly_stale :: "red_lib \<Rightarrow> red_call \<Rightarrow> dict \<Rightarrow> bool" where
  "newly_stale lib c existing = (3600 \<le> age lib c existing \<and> \<not> flag existing ''stale_escalated'')"

definition all_agents :: "red_call \<Rightarrow> dict \<Rightarrow> json list" where
  "all_agents c existing =
     (let previous = previous_agents existing
      in if JStr (agent c) \<in> set previous then previous else previous @ [JStr (agent c)])"

definition new_red_record :: "red_lib \<Rightarrow> red_call \<Rightarrow> dict \<Rightarrow> dict" where
  "new_red_record lib c existing =
     [(''schema_version'', JInt 1), (''target'', JStr (target c)), (''stage'', JStr (stage c)),
      (''agents'', JList (all_agents c existing)),
      (''first_seen'', case map_of existing ''first_seen'' of
                         Some v \<Rightarrow> v | None \<Rightarrow> JStr (stamp lib (call_time c))),
      (''first_seen_epoch'', JFloat (Fin (first_epoch lib c existing))),
      (''last_seen'', JStr (stamp lib (call_time c))), (''last_seen_epoch'', JFloat (Fin (call_time c))),
      (''sha'', JStr (sha c)),
      (''shared_escalated'', JBool (flag existing ''shared_escalated'' \<or> newly_shared c existing)),
      (''stale_escalated'', JBool (flag existing ''stale_escalated'' \<or> newly_stale lib c existing))]"

definition text_of :: "json \<Rightarrow> string" where
  "text_of v = (case v of JStr s \<Rightarrow> s | _ \<Rightarrow> [])"

definition attention_line :: "red_lib \<Rightarrow> red_call \<Rightarrow> dict \<Rightarrow> string" where
  "attention_line lib c existing =
     stamp lib (call_time c) @ '' SHARED_RED '' @ target c @ '' agents=''
     @ join '','' (map text_of (all_agents c existing)) @ '' age='' @ string_of_int (age lib c existing) @ ''s''"

definition record_red :: "red_lib \<Rightarrow> red_call \<Rightarrow> (red_world, unit) act" where
  "record_red lib c w =
     (let path = red_file_name lib (target c) in
      case read_red_json (map_of (red_files w) path) of
        Inl e \<Rightarrow> (Inl e, w)
      | Inr existing \<Rightarrow>
          let w1 = w\<lparr>red_files := AList.update path (Some (JObj (new_red_record lib c existing))) (red_files w)\<rparr> in
          (Inr (),
           if newly_shared c existing \<or> newly_stale lib c existing
           then w1\<lparr>attention := attention w1 @ [attention_line lib c existing]\<rparr> else w1))"

definition is_record_file :: "string \<Rightarrow> bool" where
  \<comment> \<open>\<^verbatim>\<open>glob("*.json")\<close>\<close>
  "is_record_file n = suffix ''.json'' n"

definition clear_stage :: "red_call \<Rightarrow> (red_world, unit) act" where
  "clear_stage c w =
     (let files = sort_key fst (filter (\<lambda>f. is_record_file (fst f)) (red_files w)) in
      case mapE (\<lambda>f. bindE (read_red_json (Some (snd f))) (\<lambda>d. Inr (fst f, d))) files of
        Inl e \<Rightarrow> (Inl e, w)
      | Inr records \<Rightarrow>
          (let cleared = map fst (filter (\<lambda>r. dget (snd r) ''stage'' = JStr (stage c)) records)
           in (Inr (), w\<lparr>red_files := filter (\<lambda>f. fst f \<notin> set cleared) (red_files w)\<rparr>)))"

definition red_main :: "red_lib \<Rightarrow> red_call \<Rightarrow> (red_world, unit) act" where
  "red_main lib c w =
     (if action c = ''clear-stage'' \<and> \<not> root_exists w then (Inr (), w)
      else
        let w1 = w\<lparr>root_exists := True\<rparr> in
        if action c = ''record'' then record_red lib c w1
        else if action c = ''clear-stage'' then clear_stage c w1
        else (fail ''unknown red registry action: {}'' [JStr (action c)], w1))"

text \<open>Several calls, one after the other; a failed one leaves the registry as it was.\<close>

definition red_calls :: "red_lib \<Rightarrow> red_call list \<Rightarrow> red_world \<Rightarrow> red_world" where
  "red_calls lib cs w = foldl (\<lambda>w c. snd (red_main lib c w)) w cs"

end
