(* ===== verification/RedRegistryRun.thy ===== *)
theory RedRegistryRun
  imports RedRegistry
begin

text \<open>
  What the registry of failing targets promises: what it writes it can read, a failure that two
  agents see is escalated, and no failure more than once for each reason.
\<close>

section \<open>A record is readable\<close>

text \<open>The parts of a call that a record needs, and what the parameters keep.\<close>

definition call_ok :: "red_lib \<Rightarrow> red_call \<Rightarrow> bool" where
  "call_ok lib c =
     (agent c \<noteq> [] \<and> sha c \<noteq> [] \<and> stage c \<noteq> [] \<and> target c \<noteq> [] \<and> 0 \<le> call_time c
      \<and> stamp lib (call_time c) \<noteq> [] \<and> (\<forall>i\<ge>0. 0 \<le> to_float lib i))"

definition readable :: "dict \<Rightarrow> bool" where
  "readable d =
     (dget d ''schema_version'' = JInt 1 \<and> list_all (text_field_ok d) TEXT_FIELDS \<and> agents_ok d
      \<and> epoch_ok d ''first_seen_epoch'' \<and> epoch_ok d ''last_seen_epoch''
      \<and> flag_ok d ''shared_escalated'' \<and> flag_ok d ''stale_escalated'')"

lemma mapE_need_field: "(\<exists>us. mapE (need_field ok m d) ks = Inr us) \<longleftrightarrow> list_all (ok d) ks"
  by (induction ks) (auto simp: need_field_def)

lemma read_red_json_JObj: "read_red_json (Some (Some (JObj d))) = Inr e \<longleftrightarrow> e = d \<and> readable d"
  using mapE_need_field [of text_field_ok _ d TEXT_FIELDS]
    mapE_need_field [of epoch_ok _ d "[''first_seen_epoch'', ''last_seen_epoch'']"]
    mapE_need_field [of flag_ok _ d "[''shared_escalated'', ''stale_escalated'']"]
  by (auto simp: read_red_json_def readable_def)

lemma read_red_json_Some: "read_red_json (Some content) = Inr d \<longleftrightarrow> content = Some (JObj d) \<and> readable d"
proof (cases content)
  case (Some v)
  then show ?thesis using read_red_json_JObj by (cases v) (auto simp: read_red_json_def)
qed (simp add: read_red_json_def)

lemma agents_of_readable:
  assumes "readable d"
  shows "previous_agents d \<noteq> []" "list_all nonempty_str (previous_agents d)"
  using assms by (auto simp: readable_def agents_ok_def previous_agents_def list_of_def split: json.splits)

text \<open>What a record keeps of the one before: nothing, or a readable one.\<close>

definition earlier :: "dict \<Rightarrow> bool" where
  "earlier d = (d = [] \<or> readable d)"

lemma first_epoch_nonneg:
  assumes "earlier d" "call_ok lib c"
  shows "0 \<le> first_epoch lib c d"
  using assms
  by (auto simp: earlier_def first_epoch_def readable_def epoch_ok_def dget_def call_ok_def
      split: option.splits json.splits pyfloat.splits)

lemma all_agents_ok:
  assumes "earlier d" "call_ok lib c"
  shows "all_agents c d \<noteq> [] \<and> list_all nonempty_str (all_agents c d)"
proof -
  have "list_all nonempty_str (previous_agents d)"
    using assms(1) agents_of_readable(2) by (auto simp: earlier_def previous_agents_def dget_def list_of_def)
  then show ?thesis
    using assms(2) by (auto simp: all_agents_def Let_def call_ok_def nonempty_str_def)
qed

lemma first_seen_ok:
  assumes "earlier d" "call_ok lib c"
  shows "nonempty_str (case map_of d ''first_seen'' of Some v \<Rightarrow> v | None \<Rightarrow> JStr (stamp lib (call_time c)))"
  using assms
  by (auto simp: earlier_def readable_def text_field_ok_def TEXT_FIELDS_def dget_def call_ok_def nonempty_str_def
      split: option.splits)

lemma new_record_readable:
  assumes "earlier d" "call_ok lib c"
  shows "readable (new_red_record lib c d)"
  unfolding readable_def
  using first_seen_ok [OF assms] all_agents_ok [OF assms] first_epoch_nonneg [OF assms] assms(2)
  by (simp add: new_red_record_def dget_Cons text_field_ok_def TEXT_FIELDS_def agents_ok_def epoch_ok_def flag_ok_def
      call_ok_def nonempty_str_def)

lemma new_record_fields:
  "previous_agents (new_red_record lib c d) = all_agents c d"
  "flag (new_red_record lib c d) ''shared_escalated'' = (flag d ''shared_escalated'' \<or> newly_shared c d)"
  "flag (new_red_record lib c d) ''stale_escalated'' = (flag d ''stale_escalated'' \<or> newly_stale lib c d)"
  by (simp_all add: new_red_record_def previous_agents_def flag_def dget_Cons list_of_def)

section \<open>Escalations\<close>

text \<open>The calls that record at one file of the registry, and how many of them reach the attention log.\<close>

definition records_at :: "red_lib \<Rightarrow> string \<Rightarrow> red_call \<Rightarrow> bool" where
  "records_at lib path c = (action c = ''record'' \<and> red_file_name lib (target c) = path)"

fun escalations :: "red_lib \<Rightarrow> string \<Rightarrow> red_call list \<Rightarrow> red_world \<Rightarrow> nat" where
  "escalations lib path [] w = 0"
| "escalations lib path (c # cs) w =
     (let w' = snd (red_main lib c w)
      in (if records_at lib path c \<and> attention w' \<noteq> attention w then 1 else 0) + escalations lib path cs w')"

text \<open>
  The state of one file after some calls: the agents that recorded, and how its flags account for the
  number of escalations.
\<close>

definition red_accounted :: "string \<Rightarrow> string set \<Rightarrow> nat \<Rightarrow> red_world \<Rightarrow> bool" where
  "red_accounted path seen n w =
     (case map_of (red_files w) path of
        None \<Rightarrow> seen = {} \<and> n = 0
      | Some content \<Rightarrow>
          \<exists>d. content = Some (JObj d) \<and> readable d \<and> set (previous_agents d) = JStr ` seen
            \<and> (card seen \<le> 1 \<or> flag d ''shared_escalated'')
            \<and> (flag d ''shared_escalated'' \<or> flag d ''stale_escalated'' \<longrightarrow> 1 \<le> n)
            \<and> n \<le> of_bool (flag d ''shared_escalated'') + of_bool (flag d ''stale_escalated''))"

lemma red_main_other:
  assumes "\<not> records_at lib path c" "action c \<noteq> ''clear-stage''"
  shows "map_of (red_files (snd (red_main lib c w))) path = map_of (red_files w) path"
  using assms
  by (auto simp: red_main_def record_red_def records_at_def Let_def update_conv' split: sum.splits)

lemma red_main_record:
  assumes "records_at lib path c"
  shows "red_main lib c w = record_red lib c (w\<lparr>root_exists := True\<rparr>)"
  using assms by (simp add: red_main_def records_at_def Let_def)

lemma all_agents_set: "set (all_agents c d) = insert (JStr (agent c)) (set (previous_agents d))"
  by (auto simp: all_agents_def Let_def)

lemma earlier_read:
  assumes "red_accounted path seen n w"
  obtains d where "read_red_json (map_of (red_files w) path) = Inr d" "earlier d"
    "set (previous_agents d) = JStr ` seen" "card seen \<le> 1 \<or> flag d ''shared_escalated''"
    "flag d ''shared_escalated'' \<or> flag d ''stale_escalated'' \<longrightarrow> 1 \<le> n"
    "n \<le> of_bool (flag d ''shared_escalated'') + of_bool (flag d ''stale_escalated'')"
proof (cases "map_of (red_files w) path")
  case None
  show thesis
    by (rule that [of "[]"])
      (use assms None in \<open>simp_all add: red_accounted_def read_red_json_def earlier_def previous_agents_def dget_def list_of_def flag_def\<close>)
next
  case (Some content)
  with assms obtain d where d: "content = Some (JObj d)" "readable d" "set (previous_agents d) = JStr ` seen"
    "card seen \<le> 1 \<or> flag d ''shared_escalated''"
    "flag d ''shared_escalated'' \<or> flag d ''stale_escalated'' \<longrightarrow> 1 \<le> n"
    "n \<le> of_bool (flag d ''shared_escalated'') + of_bool (flag d ''stale_escalated'')"
    by (auto simp: red_accounted_def)
  show thesis
    by (rule that [of d]) (use d Some read_red_json_JObj in \<open>simp_all add: earlier_def\<close>)
qed

lemma second_agent_shares:
  assumes "set (previous_agents d) = JStr ` seen" "finite seen" "card seen \<le> 1 \<or> flag d ''shared_escalated''"
  shows "card (insert (agent c) seen) \<le> 1 \<or> flag d ''shared_escalated'' \<or> newly_shared c d"
proof (cases "seen = {} \<or> agent c \<in> seen \<or> flag d ''shared_escalated''")
  case True
  then show ?thesis using assms by (auto simp: insert_absorb)
next
  case False
  then have "previous_agents d \<noteq> []" "JStr (agent c) \<notin> set (previous_agents d)" using assms(1) by auto
  then have "newly_shared c d" using False by (simp add: newly_shared_def Suc_leI)
  then show ?thesis by simp
qed

lemma accounted_step:
  assumes acc: "red_accounted path seen n w" "finite seen" and c: "records_at lib path c" "call_ok lib c"
  shows "red_accounted path (insert (agent c) seen)
           (n + (if attention (snd (red_main lib c w)) \<noteq> attention w then 1 else 0)) (snd (red_main lib c w))"
proof -
  obtain d where d: "read_red_json (map_of (red_files w) path) = Inr d" "earlier d"
    "set (previous_agents d) = JStr ` seen" "card seen \<le> 1 \<or> flag d ''shared_escalated''"
    "flag d ''shared_escalated'' \<or> flag d ''stale_escalated'' \<longrightarrow> 1 \<le> n"
    "n \<le> of_bool (flag d ''shared_escalated'') + of_bool (flag d ''stale_escalated'')"
    using earlier_read [OF acc(1)] .
  define w' where "w' = snd (red_main lib c w)"
  have path: "red_file_name lib (target c) = path" using c(1) by (simp add: records_at_def)
  have files: "map_of (red_files w') path = Some (Some (JObj (new_red_record lib c d)))"
    unfolding w'_def red_main_record [OF c(1)] by (simp add: record_red_def path d(1) Let_def update_conv')
  have att: "attention w' \<noteq> attention w \<longleftrightarrow> newly_shared c d \<or> newly_stale lib c d"
    unfolding w'_def red_main_record [OF c(1)] by (simp add: record_red_def path d(1) Let_def)
  have new: "newly_shared c d \<Longrightarrow> \<not> flag d ''shared_escalated''" "newly_stale lib c d \<Longrightarrow> \<not> flag d ''stale_escalated''"
    by (simp_all add: newly_shared_def newly_stale_def)
  have "red_accounted path (insert (agent c) seen) (n + (if attention w' \<noteq> attention w then 1 else 0)) w'"
    unfolding red_accounted_def files option.case
  proof (intro exI [of _ "new_red_record lib c d"] conjI)
    show "readable (new_red_record lib c d)" by (rule new_record_readable [OF d(2) c(2)])
    show "set (previous_agents (new_red_record lib c d)) = JStr ` insert (agent c) seen"
      by (simp add: new_record_fields all_agents_set d(3))
    show "card (insert (agent c) seen) \<le> 1 \<or> flag (new_red_record lib c d) ''shared_escalated''"
      using second_agent_shares [OF d(3) acc(2) d(4)] by (simp add: new_record_fields)
    show "flag (new_red_record lib c d) ''shared_escalated'' \<or> flag (new_red_record lib c d) ''stale_escalated''
        \<longrightarrow> 1 \<le> n + (if attention w' \<noteq> attention w then 1 else 0)"
      using d(5) by (auto simp: new_record_fields att)
    show "n + (if attention w' \<noteq> attention w then 1 else 0)
        \<le> of_bool (flag (new_red_record lib c d) ''shared_escalated'') + of_bool (flag (new_red_record lib c d) ''stale_escalated'')"
      using d(6) new by (auto simp: new_record_fields att of_bool_def split: if_splits)
  qed simp
  then show ?thesis by (simp add: w'_def)
qed

definition recorders :: "red_lib \<Rightarrow> string \<Rightarrow> red_call list \<Rightarrow> string set" where
  "recorders lib path cs = agent ` set (filter (records_at lib path) cs)"

lemma accounted_calls:
  assumes "red_accounted path seen n w" "finite seen"
    "\<And>c. c \<in> set cs \<Longrightarrow> action c \<noteq> ''clear-stage'' \<and> call_ok lib c"
  shows "red_accounted path (seen \<union> recorders lib path cs) (n + escalations lib path cs w) (red_calls lib cs w)"
  using assms
proof (induction cs arbitrary: seen n w)
  case Nil
  then show ?case by (simp add: recorders_def red_calls_def)
next
  case (Cons c cs)
  have ok: "action c \<noteq> ''clear-stage''" "call_ok lib c" using Cons.prems(3) [of c] by simp_all
  define w' where "w' = snd (red_main lib c w)"
  have rest: "red_calls lib (c # cs) w = red_calls lib cs w'" by (simp add: red_calls_def w'_def)
  show ?case
  proof (cases "records_at lib path c")
    case True
    have "red_accounted path (insert (agent c) seen) (n + (if attention w' \<noteq> attention w then 1 else 0)) w'"
      unfolding w'_def by (rule accounted_step [OF Cons.prems(1,2) True ok(2)])
    from Cons.IH [OF this] Cons.prems(2,3) have
      "red_accounted path (insert (agent c) seen \<union> recorders lib path cs)
        ((n + (if attention w' \<noteq> attention w then 1 else 0)) + escalations lib path cs w') (red_calls lib cs w')"
      by simp
    then show ?thesis using True by (simp add: rest recorders_def w'_def [symmetric] Let_def ac_simps)
  next
    case False
    have "red_accounted path seen n w'"
      using Cons.prems(1) red_main_other [OF False ok(1), of w] by (simp add: red_accounted_def w'_def)
    from Cons.IH [OF this Cons.prems(2)] Cons.prems(3) show ?thesis
      using False by (simp add: rest recorders_def w'_def [symmetric] Let_def)
  qed
qed

text \<open>
  C35. A target that is not in the registry, then any calls that record, of any agents, also for other
  targets: its failures reach the attention log at most twice, once for being shared and once for
  being stale, and at least once when two agents recorded it. What the registry then holds for
  the target is a record that its reader accepts, and it names the agents.
\<close>

theorem escalates_once_per_reason:
  assumes "map_of (red_files w) path = None"
    and "\<And>c. c \<in> set cs \<Longrightarrow> action c \<noteq> ''clear-stage'' \<and> call_ok lib c"
    and "a \<in> recorders lib path cs"
  shows "escalations lib path cs w \<le> 2
    \<and> (b \<in> recorders lib path cs \<and> a \<noteq> b \<longrightarrow> 1 \<le> escalations lib path cs w)
    \<and> (\<exists>d. read_red_json (map_of (red_files (red_calls lib cs w)) path) = Inr d
         \<and> set (previous_agents d) = JStr ` recorders lib path cs)"
proof -
  have "red_accounted path {} 0 w" using assms(1) by (simp add: red_accounted_def)
  from accounted_calls [OF this _ assms(2)]
  have acc: "red_accounted path (recorders lib path cs) (escalations lib path cs w) (red_calls lib cs w)" by simp
  then obtain d where d: "map_of (red_files (red_calls lib cs w)) path = Some (Some (JObj d))" "readable d"
    "set (previous_agents d) = JStr ` recorders lib path cs"
    "card (recorders lib path cs) \<le> 1 \<or> flag d ''shared_escalated''"
    "flag d ''shared_escalated'' \<or> flag d ''stale_escalated'' \<longrightarrow> 1 \<le> escalations lib path cs w"
    "escalations lib path cs w \<le> of_bool (flag d ''shared_escalated'') + of_bool (flag d ''stale_escalated'')"
    using assms(3) by (auto simp: red_accounted_def split: option.splits)
  have "1 \<le> escalations lib path cs w" if "b \<in> recorders lib path cs" "a \<noteq> b"
  proof -
    have "card {a, b} \<le> card (recorders lib path cs)"
      by (rule card_mono) (use assms(3) that in \<open>auto simp: recorders_def\<close>)
    then show ?thesis using d(4,5) that(2) by simp
  qed
  moreover have "escalations lib path cs w \<le> 2"
    using d(6) by (auto simp: of_bool_def split: if_splits)
  ultimately show ?thesis using d(1,2,3) read_red_json_JObj by simp
qed

definition sample_red_lib :: red_lib where
  "sample_red_lib = \<lparr>sha256 = (\<lambda>s. ''00000000''), stamp = (\<lambda>t. ''now''), to_float = rat_of_int, float_minus = (-)\<rparr>"

definition sample_call :: "string \<Rightarrow> red_call" where
  "sample_call a = \<lparr>action = ''record'', agent = a, sha = ''c1'', stage = ''bazel'', target = ''//a:b'', call_time = 5\<rparr>"

lemma sample_red_file: "red_file_name sample_red_lib (target (sample_call a)) = ''a_b-00000000.json''"
proof -
  have "strip_underscores (underscored False ''//a:b'') = ''a_b''" by code_simp
  then show ?thesis by (simp add: sample_call_def sample_red_lib_def red_file_name_def Let_def)
qed

lemma sample_recorder: "a \<in> {''x'', ''y''} \<Longrightarrow>
    a \<in> recorders sample_red_lib ''a_b-00000000.json'' [sample_call ''x'', sample_call ''y'']"
  using sample_red_file [of "''x''"] sample_red_file [of "''y''"]
  by (auto simp: recorders_def records_at_def sample_call_def)

lemma sample_calls_ok: "c \<in> set [sample_call ''x'', sample_call ''y''] \<Longrightarrow>
    action c \<noteq> ''clear-stage'' \<and> call_ok sample_red_lib c"
  by (auto simp: sample_call_def call_ok_def sample_red_lib_def)

definition empty_registry :: red_world where
  "empty_registry = \<lparr>root_exists = False, red_files = [], attention = []\<rparr>"

lemma escalates_once_per_reason_witness:
  "1 \<le> escalations sample_red_lib ''a_b-00000000.json'' [sample_call ''x'', sample_call ''y''] empty_registry"
proof -
  have none: "map_of (red_files empty_registry) ''a_b-00000000.json'' = None" by (simp add: empty_registry_def)
  have two: "''y'' \<in> recorders sample_red_lib ''a_b-00000000.json'' [sample_call ''x'', sample_call ''y''] \<and> ''x'' \<noteq> ''y''"
    using sample_recorder [of "''y''"] by simp
  have "escalations sample_red_lib ''a_b-00000000.json'' [sample_call ''x'', sample_call ''y''] empty_registry \<le> 2
    \<and> (''y'' \<in> recorders sample_red_lib ''a_b-00000000.json'' [sample_call ''x'', sample_call ''y''] \<and> ''x'' \<noteq> ''y''
         \<longrightarrow> 1 \<le> escalations sample_red_lib ''a_b-00000000.json'' [sample_call ''x'', sample_call ''y''] empty_registry)
    \<and> (\<exists>d. read_red_json (map_of (red_files (red_calls sample_red_lib [sample_call ''x'', sample_call ''y''] empty_registry))
              ''a_b-00000000.json'') = Inr d
         \<and> set (previous_agents d) = JStr ` recorders sample_red_lib ''a_b-00000000.json'' [sample_call ''x'', sample_call ''y''])"
    by (rule escalates_once_per_reason [OF none]) (erule sample_calls_ok, rule sample_recorder, simp)
  from mp [OF conjunct1 [OF conjunct2 [OF this]] two] show ?thesis .
qed

text \<open>A stage that passes clears exactly its own records, or none when some record is unreadable.\<close>

lemma clear_stage_exact:
  assumes "clear_stage c w = (r, w')"
  shows "(\<exists>e. r = Inl e) \<and> w' = w
    \<or> r = Inr () \<and> attention w' = attention w
      \<and> (\<forall>f\<in>set (red_files w). is_record_file (fst f) \<longrightarrow> (\<exists>d. snd f = Some (JObj d) \<and> readable d))
      \<and> (\<forall>f\<in>set (red_files w). \<forall>d. is_record_file (fst f) \<and> snd f = Some (JObj d) \<and> dget d ''stage'' = JStr (stage c)
           \<longrightarrow> f \<notin> set (red_files w'))"
proof -
  define fs where "fs = sort_key fst (filter (\<lambda>f. is_record_file (fst f)) (red_files w))"
  show ?thesis
  proof (cases "mapE (\<lambda>f. bindE (read_red_json (Some (snd f))) (\<lambda>d. Inr (fst f, d))) fs")
    case (Inl e)
    then show ?thesis using assms by (auto simp: clear_stage_def fs_def)
  next
    case (Inr records)
    have each: "\<exists>d. snd f = Some (JObj d) \<and> readable d \<and> (fst f, d) \<in> set records"
      if "f \<in> set (red_files w)" "is_record_file (fst f)" for f
    proof -
      have "f \<in> set fs" using that by (simp add: fs_def)
      from mapE_Inr_in_set [OF Inr this] show ?thesis by (auto simp: read_red_json_Some)
    qed
    have w': "r = Inr ()" "w' = w\<lparr>red_files := filter (\<lambda>f. fst f \<notin> set (map fst
        (filter (\<lambda>r. dget (snd r) ''stage'' = JStr (stage c)) records))) (red_files w)\<rparr>"
      using assms Inr by (simp_all add: clear_stage_def fs_def)
    have gone: "f \<notin> set (red_files w')"
      if f: "f \<in> set (red_files w)" "is_record_file (fst f)" "snd f = Some (JObj d)" "dget d ''stage'' = JStr (stage c)" for f d
    proof -
      have "(fst f, d) \<in> set records" using each [OF f(1,2)] f(3) by auto
      then have "fst f \<in> set (map fst (filter (\<lambda>r. dget (snd r) ''stage'' = JStr (stage c)) records))"
        using f(4) by (auto simp: image_iff intro!: bexI [of _ "(fst f, d)"])
      then show ?thesis unfolding w'(2) by simp
    qed
    have "attention w' = attention w" unfolding w'(2) by simp
    then show ?thesis using w'(1) each gone by blast
  qed
qed

end
