(* ===== verification/Worklist.thy ===== *)
theory Worklist
  imports Prelude
begin

text \<open>
  The contract of a search with a queue: it skips what it has seen, and otherwise marks the first
  entry and puts its successors on the queue, in whatever order. Such a search ends and returns what
  the first queue reaches.
\<close>

locale worklist =
  fixes search :: "'a list \<Rightarrow> 'a list \<Rightarrow> 'a list"
    and successors :: "'a \<Rightarrow> 'a list"
    and universe :: "'a set"
  assumes search_done: "search seen [] = seen"
    and search_skip: "p \<in> set seen \<Longrightarrow> search seen (p # queue) = search seen queue"
    and search_visit: "p \<notin> set seen \<Longrightarrow>
      \<exists>queue'. set queue' = set queue \<union> set (successors p) \<and> search seen (p # queue) = search (p # seen) queue'"
    and finite_universe: "finite universe"
    and successors_universe: "set (successors p) \<subseteq> universe"
begin

definition follows :: "('a \<times> 'a) set" where
  "follows = {(p, q). q \<in> set (successors p)}"

text \<open>The order in which the turns of the search go down.\<close>

definition left_over :: "'a list \<times> 'a list \<Rightarrow> nat \<times> nat" where
  "left_over = (\<lambda>(seen, queue). (card ((universe \<union> set queue) - set seen), length queue))"

lemma search_induct [case_names finished skipped visited]:
  assumes "\<And>seen. P seen []"
    and "\<And>seen p queue. p \<in> set seen \<Longrightarrow> P seen queue \<Longrightarrow> P seen (p # queue)"
    and "\<And>seen p queue queue'. p \<notin> set seen \<Longrightarrow> set queue' = set queue \<union> set (successors p) \<Longrightarrow>
      search seen (p # queue) = search (p # seen) queue' \<Longrightarrow> P (p # seen) queue' \<Longrightarrow> P seen (p # queue)"
  shows "P seen queue"
proof (induction "(seen, queue)" arbitrary: seen queue
    rule: wf_induct_rule [OF wf_inv_image [OF wf_lex_prod [OF wf_less_than wf_less_than], of left_over]])
  case (1 seen queue)
  show ?case
  proof (cases queue)
    case Nil
    then show ?thesis using assms(1) by simp
  next
    case (Cons p rest)
    show ?thesis
    proof (cases "p \<in> set seen")
      case True
      have "card ((universe \<union> set rest) - set seen) \<le> card ((universe \<union> set (p # rest)) - set seen)"
        by (rule card_mono) (use finite_universe in auto)
      then have "P seen rest" using 1 [of seen rest] Cons by (auto simp: left_over_def le_less)
      then show ?thesis using assms(2) True Cons by simp
    next
      case False
      then obtain queue' where q: "set queue' = set rest \<union> set (successors p)"
        "search seen (p # rest) = search (p # seen) queue'" using search_visit by blast
      have "card ((universe \<union> set queue') - set (p # seen)) < card ((universe \<union> set (p # rest)) - set seen)"
        by (rule psubset_card_mono) (use finite_universe False q(1) successors_universe [of p] in auto)
      then have "P (p # seen) queue'" using 1 [of "p # seen" queue'] Cons by (simp add: left_over_def)
      then show ?thesis using assms(3) [OF False q] Cons by simp
    qed
  qed
qed

lemma search_closed:
  "(\<And>p q. p \<in> set seen \<Longrightarrow> (p, q) \<in> follows \<Longrightarrow> q \<in> set seen \<union> set queue) \<Longrightarrow>
   set seen \<union> set queue \<subseteq> set (search seen queue)
   \<and> (\<forall>p q. p \<in> set (search seen queue) \<longrightarrow> (p, q) \<in> follows \<longrightarrow> q \<in> set (search seen queue))"
proof (induction seen queue rule: search_induct)
  case (finished seen)
  then show ?case by (auto simp: search_done)
next
  case (skipped seen p queue)
  then have "set seen \<union> set queue \<subseteq> set (search seen queue)
      \<and> (\<forall>p q. p \<in> set (search seen queue) \<longrightarrow> (p, q) \<in> follows \<longrightarrow> q \<in> set (search seen queue))" by auto
  then show ?case using skipped.hyps by (auto simp: search_skip)
next
  case (visited seen p queue queue')
  have "set (p # seen) \<union> set queue' \<subseteq> set (search (p # seen) queue')
      \<and> (\<forall>x q. x \<in> set (search (p # seen) queue') \<longrightarrow> (x, q) \<in> follows \<longrightarrow> q \<in> set (search (p # seen) queue'))"
    by (rule visited.IH) (use visited.prems visited.hyps(2) in \<open>fastforce simp: follows_def\<close>)
  then show ?case unfolding visited.hyps(3) using visited.hyps(2) by auto
qed

lemma search_sound:
  "(\<And>p. p \<in> set seen \<union> set queue \<Longrightarrow> p \<in> R) \<Longrightarrow> (\<And>p q. p \<in> R \<Longrightarrow> (p, q) \<in> follows \<Longrightarrow> q \<in> R) \<Longrightarrow>
   set (search seen queue) \<subseteq> R"
proof (induction seen queue rule: search_induct)
  case (visited seen p queue queue')
  have "set (search (p # seen) queue') \<subseteq> R"
    by (rule visited.IH) (use visited.prems visited.hyps(2) in \<open>auto simp: follows_def\<close>)
  then show ?case by (simp add: visited.hyps(3))
qed (auto simp: search_done search_skip)

lemma search_successors: "set (search [] (successors p)) = {q. (p, q) \<in> follows\<^sup>+}"
proof -
  have closed: "set (successors p) \<subseteq> set (search [] (successors p))"
    "\<And>x q. x \<in> set (search [] (successors p)) \<Longrightarrow> (x, q) \<in> follows \<Longrightarrow> q \<in> set (search [] (successors p))"
    using search_closed [of "[]" "successors p"] by auto
  have "q \<in> set (search [] (successors p))" if "(p, q) \<in> follows\<^sup>+" for q
    using that by (induction rule: trancl_induct) (use closed in \<open>auto simp: follows_def\<close>)
  moreover have "set (search [] (successors p)) \<subseteq> {q. (p, q) \<in> follows\<^sup>+}"
    by (rule search_sound) (auto simp: follows_def intro: trancl_into_trancl)
  ultimately show ?thesis by auto
qed

end

end
