(* ===== verification/RebuildRules.thy ===== *)
theory RebuildRules
  imports PosixPath Effects Worklist
begin

text \<open>
  \<^verbatim>\<open>foundry/tools/rebuild_impact.py\<close>, the part that both modes of the check share: the names a changed
  path may have, the rules of the manifest and the paths they match, the order of the packages, what
  depends on a native package, the result of a package and the report. \<open>str\<close> is Python's text of a
  value that is neither a string nor an integer.
\<close>

section \<open>Paths\<close>

definition lstrip_chars :: "string \<Rightarrow> string \<Rightarrow> string" where
  \<comment> \<open>\<^verbatim>\<open>s.lstrip(chars)\<close>\<close>
  "lstrip_chars chars s = dropWhile (\<lambda>c. c \<in> set chars) s"

definition GRAPH_PREFIXES :: "string list" where
  "GRAPH_PREFIXES = [''foundry/'', ''graph/'', ''experiments/spack-bazel-graph/'']"

fun first_of :: "'a list \<Rightarrow> 'a list" where
  \<comment> \<open>\<^verbatim>\<open>dict.fromkeys(xs)\<close>: each value once, in the order of first occurrence\<close>
  "first_of [] = []"
| "first_of (x # xs) = x # filter (\<lambda>y. y \<noteq> x) (first_of xs)"

definition stripped :: "string \<Rightarrow> string" where
  "stripped path = lstrip_chars ''./'' (strip path)"

definition graph_relative_path :: "string \<Rightarrow> string option" where
  "graph_relative_path path =
     (case filter (\<lambda>p. prefix p (stripped path)) GRAPH_PREFIXES of
        [] \<Rightarrow> None
      | p # _ \<Rightarrow> Some (drop (length p) (stripped path)))"

definition candidate_paths :: "string \<Rightarrow> string list" where
  "candidate_paths path =
     (let p = stripped path; rel = graph_relative_path path;
          r = (case rel of None \<Rightarrow> p | Some r \<Rightarrow> r)
      in first_of ([p] @ (case rel of None \<Rightarrow> [] | Some r \<Rightarrow> [r]) @ map (\<lambda>q. q @ r) GRAPH_PREFIXES))"

fun drop_dots :: "string \<Rightarrow> string" where
  "drop_dots (c # d # cs) = (if c = CHR ''.'' \<and> d = CHR ''/'' then drop_dots cs else c # d # cs)"
| "drop_dots s = s"

definition source_repo_candidates :: "string \<Rightarrow> string list" where
  "source_repo_candidates path =
     (let n = drop_dots (strip path)
      in if n = [] \<or> absolute (parse n) \<or> list_ex (\<lambda>p. prefix p n) [''../'', ''bazel-out/'', ''external/'']
         then [] else candidate_paths n)"

section \<open>Glob patterns\<close>

text \<open>\<^verbatim>\<open>fnmatch.fnmatchcase\<close>: a pattern as tokens, and the match of a whole string.\<close>

datatype glob_token =
    Star
  | AnyChar
  | Char char
  | Class bool "(char \<times> char) list"

fun class_ranges :: "string \<Rightarrow> (char \<times> char) list" where
  "class_ranges (c # d # e # cs) = (if d = CHR ''-'' then (c, e) # class_ranges cs else (c, c) # class_ranges (d # e # cs))"
| "class_ranges (c # cs) = (c, c) # class_ranges cs"
| "class_ranges [] = []"

definition class_token :: "string \<Rightarrow> glob_token" where
  "class_token stuff =
     (case stuff of
        CHR ''!'' # rest \<Rightarrow> Class False (class_ranges rest)
      | _ \<Rightarrow> Class True (class_ranges stuff))"

text \<open>After an opening bracket: the content up to its closing one, which cannot be the first character.\<close>

definition class_content :: "string \<Rightarrow> string option" where
  "class_content s =
     (let neg = (if prefix ''!'' s then 1 else 0);
          skip = (if prefix '']'' (drop neg s) then neg + 1 else neg);
          n = skip + length (takeWhile (\<lambda>c. c \<noteq> CHR '']'') (drop skip s))
      in if n < length s then Some (take n s) else None)"

lemma class_content_shorter: "class_content s = Some stuff \<Longrightarrow> length stuff < length s"
  by (auto simp: class_content_def Let_def split: if_splits)

function glob_tokens :: "string \<Rightarrow> glob_token list" where
  "glob_tokens [] = []"
| "glob_tokens (c # cs) =
     (if c = CHR ''*'' then Star # glob_tokens cs
      else if c = CHR ''?'' then AnyChar # glob_tokens cs
      else if c = CHR ''['' then
        (case class_content cs of
           None \<Rightarrow> Char c # glob_tokens cs
         | Some stuff \<Rightarrow> class_token stuff # glob_tokens (drop (length stuff + 1) cs))
      else Char c # glob_tokens cs)"
  by pat_completeness auto
termination by (relation "measure length") (auto simp: less_Suc_eq_le)

fun token_accepts :: "glob_token \<Rightarrow> char \<Rightarrow> bool" where
  "token_accepts Star c = True"
| "token_accepts AnyChar c = True"
| "token_accepts (Char d) c = (c = d)"
| "token_accepts (Class pos ranges) c =
     (list_ex (\<lambda>(a, b). (of_char a :: nat) \<le> of_char c \<and> (of_char c :: nat) \<le> of_char b) ranges = pos)"

fun glob_match :: "glob_token list \<Rightarrow> string \<Rightarrow> bool" where
  "glob_match [] s = (s = [])"
| "glob_match (Star # ts) [] = glob_match ts []"
| "glob_match (Star # ts) (c # cs) = (glob_match ts (c # cs) \<or> glob_match (Star # ts) cs)"
| "glob_match (t # ts) [] = False"
| "glob_match (t # ts) (c # cs) = (token_accepts t c \<and> glob_match ts cs)"

definition fnmatch :: "string \<Rightarrow> string \<Rightarrow> bool" where
  "fnmatch s pattern = glob_match (glob_tokens pattern) s"

section \<open>Rules\<close>

definition CAUSE_RANK :: "(string \<times> nat) list" where
  "CAUSE_RANK = [(''source'', 1), (''toolchain'', 2), (''flags'', 3), (''other'', 4)]"

definition STATUS_RANK :: "(string \<times> nat) list" where
  "STATUS_RANK = [(''unchanged'', 0), (''needs-insula'', 0), (''may-rebuild'', 1), (''rebuild'', 2)]"

definition rank :: "(string \<times> nat) list \<Rightarrow> string \<Rightarrow> nat" where
  "rank ranks s = (case map_of ranks s of None \<Rightarrow> 0 | Some n \<Rightarrow> n)"

definition normalise_cause :: "string \<Rightarrow> string" where
  "normalise_cause value = (if value \<in> fst ` set CAUSE_RANK then value else ''other'')"

definition normalise_status :: "string \<Rightarrow> string" where
  "normalise_status value = (if value \<in> fst ` set STATUS_RANK then value else ''rebuild'')"

definition text_of_json :: "(json \<Rightarrow> string) \<Rightarrow> json \<Rightarrow> string" where
  "text_of_json str v = (case v of JStr s \<Rightarrow> s | JInt i \<Rightarrow> string_of_int i | _ \<Rightarrow> str v)"

definition text_or :: "(json \<Rightarrow> string) \<Rightarrow> json \<Rightarrow> string \<Rightarrow> string" where
  \<comment> \<open>\<^verbatim>\<open>str(v or default)\<close>\<close>
  "text_or str v fallback = (if truthy v then text_of_json str v else fallback)"

record input_rule =
  rule_path :: "string option"
  rule_glob :: "string option"
  rule_cause :: string
  rule_status :: string
  rule_detail :: string

definition opt_str :: "json \<Rightarrow> string option" where
  "opt_str v = (case v of JStr s \<Rightarrow> Some s | _ \<Rightarrow> None)"

definition rule_of :: "(json \<Rightarrow> string) \<Rightarrow> dict \<Rightarrow> input_rule option" where
  "rule_of str d =
     (let p = opt_str (dget d ''path''); g = opt_str (dget d ''glob'') in
      if p = None \<and> g = None then None
      else
        let shown = (case p of Some (c # cs) \<Rightarrow> c # cs
                     | _ \<Rightarrow> (case g of Some s \<Rightarrow> s | None \<Rightarrow> text_of_json str JNull))
        in Some \<lparr>rule_path = p, rule_glob = g,
                rule_cause = normalise_cause (text_or str (dget d ''cause'') ''other''),
                rule_status = normalise_status (text_or str (dget d ''status'') ''rebuild''),
                rule_detail = text_or str (dget d ''detail'') (''matched native input '' @ shown)\<rparr>)"

definition input_rules :: "(json \<Rightarrow> string) \<Rightarrow> json list \<Rightarrow> input_rule list" where
  "input_rules str raw = List.map_filter (\<lambda>v. case v of JObj d \<Rightarrow> rule_of str d | _ \<Rightarrow> None) raw"

definition nonempty :: "string option \<Rightarrow> string option" where
  "nonempty x = (case x of Some (c # cs) \<Rightarrow> Some (c # cs) | _ \<Rightarrow> None)"

definition path_matches :: "input_rule \<Rightarrow> string \<Rightarrow> bool" where
  "path_matches rule changed =
     (let candidates = candidate_paths changed in
      case nonempty (rule_path rule) of
        Some p \<Rightarrow>
          let exact = stripped p in
          list_ex (\<lambda>c. c = exact \<or> prefix (rstrip_char (CHR ''/'') exact @ ''/'') c) candidates
      | None \<Rightarrow>
          (case nonempty (rule_glob rule) of
             Some g \<Rightarrow> list_ex (\<lambda>c. fnmatch c (stripped g)) candidates
           | None \<Rightarrow> False))"

section \<open>The manifest\<close>

definition as_list :: "json \<Rightarrow> json list" where
  "as_list v = (case v of JList xs \<Rightarrow> xs | _ \<Rightarrow> [])"

definition obj_or_empty :: "json \<Rightarrow> dict" where
  "obj_or_empty v = (case v of JObj d \<Rightarrow> d | _ \<Rightarrow> [])"

definition PACKAGE_ORDER :: "string list" where
  "PACKAGE_ORDER = [''bzip2'', ''xz'', ''zstd'', ''zlib-ng'', ''pytorch'', ''torchvision'', ''torchaudio'', ''triton'', ''jaxlib'']"

definition MNEMONIC_BY_PACKAGE :: "(string \<times> string) list" where
  "MNEMONIC_BY_PACKAGE =
     [(''bzip2'', ''Bzip2ActionPrefix''), (''xz'', ''XzActionPrefix''), (''zstd'', ''ZstdActionPrefix''),
      (''zlib-ng'', ''ZlibNgActionPrefix''), (''pytorch'', ''PytorchNativePrefix''),
      (''torchvision'', ''TorchvisionNativePrefix''), (''torchaudio'', ''TorchaudioNativePrefix''),
      (''triton'', ''TritonNativePrefix''), (''jaxlib'', ''JaxlibNativePrefix'')]"

definition NATIVE_MNEMONICS :: "string list" where
  \<comment> \<open>the keys of \<^verbatim>\<open>PACKAGE_BY_MNEMONIC\<close>\<close>
  "NATIVE_MNEMONICS = map snd MNEMONIC_BY_PACKAGE"

definition PACKAGE_DIRS :: "(string \<times> string) list" where
  "PACKAGE_DIRS =
     [(''bzip2'', ''native/bzip2''), (''xz'', ''native/xz''), (''zstd'', ''native/zstd''),
      (''zlib-ng'', ''native/zlib_ng''), (''pytorch'', ''native/pytorch''),
      (''torchvision'', ''native/torchvision''), (''torchaudio'', ''native/torchaudio''),
      (''triton'', ''native/triton''), (''jaxlib'', ''native/jaxlib'')]"

definition package_manifest :: "dict \<Rightarrow> string \<Rightarrow> dict" where
  "package_manifest manifest package = obj_or_empty (dget (obj_or_empty (dget manifest ''packages'')) package)"

definition rules_for_package :: "(json \<Rightarrow> string) \<Rightarrow> dict \<Rightarrow> string \<Rightarrow> input_rule list" where
  "rules_for_package str manifest package =
     input_rules str (as_list (dget manifest ''common_inputs'')
                      @ as_list (dget (package_manifest manifest package) ''inputs''))"

definition package_mnemonic :: "dict \<Rightarrow> string \<Rightarrow> string" where
  "package_mnemonic manifest package =
     (case nonempty (opt_str (dget (package_manifest manifest package) ''mnemonic'')) of
        Some m \<Rightarrow> m
      | None \<Rightarrow> (case map_of MNEMONIC_BY_PACKAGE package of Some m \<Rightarrow> m | None \<Rightarrow> ''RepositoryRuleNative''))"

definition manifest_package_order :: "dict \<Rightarrow> string list" where
  "manifest_package_order manifest =
     (case dget manifest ''packages'' of
        JObj packages \<Rightarrow>
          first_of (filter (\<lambda>p. p \<in> fst ` set packages) (List.map_filter opt_str (as_list (dget manifest ''package_order'')))
                    @ filter (\<lambda>p. p \<in> fst ` set packages) PACKAGE_ORDER
                    @ sort (map fst packages))
      | _ \<Rightarrow> PACKAGE_ORDER)"

definition manifest_package_dirs :: "dict \<Rightarrow> (string \<times> string) list" where
  "manifest_package_dirs manifest =
     foldl (\<lambda>out (p, v). case opt_str v of Some d \<Rightarrow> AList.update p d out | None \<Rightarrow> out) PACKAGE_DIRS
       (obj_or_empty (dget (obj_or_empty (dget manifest ''repository_rule_native_graph'')) ''package_dirs''))"

definition manifest_dependency_edges :: "dict \<Rightarrow> (string \<times> string list) list" where
  "manifest_dependency_edges manifest =
     map (\<lambda>(p, v). (p, List.map_filter opt_str (as_list v)))
       (obj_or_empty (dget (obj_or_empty (dget manifest ''repository_rule_native_graph'')) ''dependency_edges''))"

section \<open>Dependents\<close>

definition edges_of :: "(string \<times> string list) list \<Rightarrow> string \<Rightarrow> string list" where
  "edges_of edges p = (case map_of edges p of None \<Rightarrow> [] | Some ds \<Rightarrow> ds)"

text \<open>Every package that occurs as a dependent; a turn that does not shorten the queue marks one of them.\<close>

definition all_dependents :: "(string \<times> string list) list \<Rightarrow> string set" where
  "all_dependents edges = set (concat (map snd edges))"

lemma edges_of_subset: "set (edges_of edges p) \<subseteq> all_dependents edges"
proof (cases "map_of edges p")
  case (Some ds)
  then show ?thesis using map_of_SomeD [OF Some] by (force simp: edges_of_def all_dependents_def)
qed (simp add: edges_of_def)

function dependents_loop :: "(string \<times> string list) list \<Rightarrow> string list \<Rightarrow> string list \<Rightarrow> string list" where
  "dependents_loop edges seen [] = seen"
| "dependents_loop edges seen (p # queue) =
     (if p \<in> set seen then dependents_loop edges seen queue
      else dependents_loop edges (p # seen) (queue @ edges_of edges p))"
  by pat_completeness auto
termination
proof (relation "inv_image (less_than <*lex*> less_than)
    (\<lambda>(edges, seen, queue). (card ((all_dependents edges \<union> set queue) - set seen), length queue))", goal_cases)
  case (2 edges seen p queue)
  have "(all_dependents edges \<union> set queue) - set seen \<subseteq> (all_dependents edges \<union> set (p # queue)) - set seen" by auto
  then show ?case
    using card_mono [of "(all_dependents edges \<union> set (p # queue)) - set seen"]
    by (auto simp: all_dependents_def le_less)
next
  case (3 edges seen p queue)
  have "(all_dependents edges \<union> set (queue @ edges_of edges p)) - set (p # seen)
      \<subset> (all_dependents edges \<union> set (p # queue)) - set seen"
    using 3 edges_of_subset [of edges p] by auto
  then have "card ((all_dependents edges \<union> set (queue @ edges_of edges p)) - set (p # seen))
      < card ((all_dependents edges \<union> set (p # queue)) - set seen)"
    by (intro psubset_card_mono) (auto simp: all_dependents_def)
  then show ?case by simp
qed auto

interpretation dependents: worklist "dependents_loop edges" "edges_of edges" "all_dependents edges" for edges
proof (unfold_locales, goal_cases)
  case (3 p seen queue)
  then show ?case by (intro exI [of _ "queue @ edges_of edges p"]) simp
next
  case 4
  then show ?case by (simp add: all_dependents_def)
qed (simp_all add: edges_of_subset)

fun place_in :: "string list \<Rightarrow> string \<Rightarrow> nat" where
  "place_in [] p = 0"
| "place_in (q # qs) p = (if p = q then 0 else Suc (place_in qs p))"

definition transitive_native_dependents :: "dict \<Rightarrow> string \<Rightarrow> string list" where
  "transitive_native_dependents manifest package =
     (let edges = manifest_dependency_edges manifest; order = manifest_package_order manifest;
          seen = dependents_loop edges [] (edges_of edges package)
      in sort_key (place_in order) (sort seen))"

section \<open>Definitions of native repositories\<close>

definition below_directory :: "string \<Rightarrow> string \<Rightarrow> bool" where
  "below_directory directory c = (c = directory \<or> prefix (directory @ ''/'') c)"

definition package_for_changed_path :: "(string \<times> string) list \<Rightarrow> string \<Rightarrow> string option" where
  "package_for_changed_path dirs path =
     (case filter (\<lambda>(p, d). list_ex (below_directory d) (candidate_paths path)) dirs of
        [] \<Rightarrow> None
      | (p, d) # _ \<Rightarrow> Some p)"

definition is_definition_file :: "string \<Rightarrow> string \<Rightarrow> bool" where
  "is_definition_file directory c =
     (below_directory directory c \<and>
      (let tail = lstrip_chars ''/'' (drop (length directory) c) in
       tail \<noteq> [] \<and> CHR ''/'' \<notin> set tail
       \<and> (tail \<in> {''BUILD'', ''BUILD.bazel'', ''plan.py''} \<or> suffix ''.bzl'' tail)))"

definition definition_package :: "dict \<Rightarrow> string \<Rightarrow> string option" where
  \<comment> \<open>\<^verbatim>\<open>repository_rule_native_definition_package\<close>\<close>
  "definition_package manifest path =
     (case filter (\<lambda>(p, d). list_ex (is_definition_file d) (candidate_paths path)) (manifest_package_dirs manifest) of
        [] \<Rightarrow> None
      | (p, d) # _ \<Rightarrow> Some p)"

section \<open>Results\<close>

record cause =
  cause_path :: string
  cause_class :: string
  cause_detail :: string

record package_result =
  result_mnemonic :: string
  result_status :: string
  result_causes :: "cause list"
  action_keys :: "(string option \<times> string option) option"
  result_note :: "string option"

type_synonym results = "(string \<times> package_result) list"

definition fresh_result :: "string \<Rightarrow> package_result" where
  "fresh_result mnemonic =
     \<lparr>result_mnemonic = mnemonic, result_status = ''unchanged'', result_causes = [], action_keys = None, result_note = None\<rparr>"

definition add_cause :: "string \<Rightarrow> string \<Rightarrow> string \<Rightarrow> string \<Rightarrow> package_result \<Rightarrow> package_result" where
  \<comment> \<open>\<^verbatim>\<open>result.add(path, cause, detail, status)\<close>\<close>
  "add_cause path cls detail status r =
     (let status' = normalise_status (if status = [] then ''rebuild'' else status);
          item = \<lparr>cause_path = path, cause_class = normalise_cause (if cls = [] then ''other'' else cls), cause_detail = detail\<rparr>
      in r\<lparr>result_causes := (if item \<in> set (result_causes r) then result_causes r else result_causes r @ [item]),
           result_status := (if rank STATUS_RANK (result_status r) < rank STATUS_RANK status' then status' else result_status r)\<rparr>)"

definition initial_results :: "dict \<Rightarrow> results" where
  "initial_results manifest =
     map (\<lambda>p. (p, fresh_result (package_mnemonic manifest p))) (manifest_package_order manifest)"

definition add_native_impact :: "dict \<Rightarrow> string \<Rightarrow> string \<Rightarrow> results \<Rightarrow> string \<Rightarrow> results" where
  \<comment> \<open>one affected package of the loop\<close>
  "add_native_impact manifest path package results affected =
     (let r = (case map_of results affected of Some r \<Rightarrow> r | None \<Rightarrow> fresh_result (package_mnemonic manifest affected));
          detail = (if affected = package then ''repository-rule native package definition changed''
                    else ''depends on repository-rule native '' @ package)
      in AList.update affected
           (if path \<in> cause_path ` set (result_causes r) then r
            else add_cause path ''flags'' detail ''rebuild'' r) results)"

definition add_repository_rule_native_impacts :: "dict \<Rightarrow> string \<Rightarrow> results \<Rightarrow> results" where
  "add_repository_rule_native_impacts manifest path results =
     (case definition_package manifest path of
        None \<Rightarrow> results
      | Some package \<Rightarrow>
          foldl (add_native_impact manifest path package) results
            (package # transitive_native_dependents manifest package))"

section \<open>The report\<close>

record rebuild_report =
  report_packages :: results
  exit_code :: nat
  highest_status :: string
  highest_cause :: string

fun first_max :: "(string \<Rightarrow> nat) \<Rightarrow> string \<Rightarrow> string list \<Rightarrow> string" where
  \<comment> \<open>\<^verbatim>\<open>max(xs, key=...)\<close>: the first of the greatest\<close>
  "first_max key best [] = best"
| "first_max key best (x # xs) = first_max key (if key best < key x then x else best) xs"

definition make_report :: "results \<Rightarrow> rebuild_report" where
  "make_report results =
     (let classes = concat (map (\<lambda>(p, r). map cause_class (result_causes r)) results);
          statuses = map (\<lambda>(p, r). result_status r) results
      in \<lparr>report_packages = results,
          exit_code = (if ''other'' \<in> set classes then 20
                       else if list_ex (\<lambda>s. s = ''may-rebuild'' \<or> s = ''rebuild'') statuses then 10 else 0),
          highest_status = (case statuses of [] \<Rightarrow> ''unchanged'' | s # ss \<Rightarrow> first_max (rank STATUS_RANK) s ss),
          highest_cause = (case classes of [] \<Rightarrow> ''none'' | c # cs \<Rightarrow> first_max (rank CAUSE_RANK) c cs)\<rparr>)"

end
