(* ===== verification/RebuildContent.thy ===== *)
theory RebuildContent
  imports RebuildRules
begin

text \<open>
  The content context of \<^verbatim>\<open>foundry/tools/rebuild_impact.py\<close>: what an input of an action holds. A source
  file is a blob of git, at a commit or in the work tree; what Bazel made is a file or a tree below
  the output base, digested without its place on the host. The answers of git and of the file system
  are parameters; an answer is asked for once per path and kept, which a deterministic answer does not
  show, so the caches are left out.
\<close>

section \<open>JSON text\<close>

text \<open>\<^verbatim>\<open>json.dumps(entries, ensure_ascii=True, separators=(",", ":"))\<close> on lists of lists of strings.\<close>

definition backslash :: char where
  "backslash = char_of (92::nat)"

definition quote_mark :: char where
  "quote_mark = char_of (34::nat)"

definition json_char :: "char \<Rightarrow> string" where
  "json_char c = (let n = (of_char c :: nat) in
     if n = 34 \<or> n = 92 then [backslash, c]
     else if n = 10 then [backslash, CHR ''n'']
     else if n = 13 then [backslash, CHR ''r'']
     else if n = 9 then [backslash, CHR ''t'']
     else if n = 12 then [backslash, CHR ''f'']
     else if n = 8 then [backslash, CHR ''b'']
     else if n < 32 \<or> 126 < n then [backslash, CHR ''u'', CHR ''0'', CHR ''0'', hex_digit (n div 16), hex_digit (n mod 16)]
     else [c])"

definition json_string :: "string \<Rightarrow> string" where
  "json_string s = quote_mark # concat (map json_char s) @ [quote_mark]"

definition json_list :: "('a \<Rightarrow> string) \<Rightarrow> 'a list \<Rightarrow> string" where
  "json_list f xs = ''['' @ join '','' (map f xs) @ '']''"

definition dump_entries :: "string list list \<Rightarrow> string" where
  "dump_entries = json_list (json_list json_string)"

section \<open>Files and trees\<close>

text \<open>
  What lies at a resolved path. A folder lists its names, each with the text of the link when the entry
  is one.
\<close>

datatype file_node =
    Regular string bool
  | Folder "(string \<times> string option) list"
  | Special

record disk =
  resolve_strict :: "ppath \<Rightarrow> ppath res"
  disk_nodes :: "(ppath \<times> file_node) list"

definition FileNotFound :: pyexn where
  "FileNotFound = LibError ''FileNotFoundError''"

definition executable_mark :: "bool \<Rightarrow> string" where
  "executable_mark x = '':executable='' @ (if x then ''1'' else ''0'')"

definition linked_entry :: "string \<Rightarrow> string \<Rightarrow> string res \<Rightarrow> string list res" where
  "linked_entry name target content =
     (case content of
        Inr c \<Rightarrow> Inr [name, ''symlink'', target, c]
      | Inl e \<Rightarrow> if e = FileNotFound then Inr [name, ''symlink'', target, ''missing-target''] else Inl e)"

text \<open>A step down adds a folder to the active ones, and there are only finitely many folders.\<close>

lemma active_grows:
  assumes "map_of (disk_nodes disk) r = Some node" "r \<notin> set active"
  shows "card (fst ` set (disk_nodes disk) - insert r (set active)) < card (fst ` set (disk_nodes disk) - set active)"
proof (rule psubset_card_mono)
  have "r \<in> fst ` set (disk_nodes disk)" using map_of_SomeD [OF assms(1)] by force
  then show "fst ` set (disk_nodes disk) - insert r (set active) \<subset> fst ` set (disk_nodes disk) - set active"
    using assms(2) by auto
qed simp

text \<open>\<open>active\<close> holds the folders on the way down; a folder that is met again ends the walk with an error.\<close>

function materialized_input_digest :: "(string \<Rightarrow> string) \<Rightarrow> disk \<Rightarrow> ppath list \<Rightarrow> ppath \<Rightarrow> string res" where
  "materialized_input_digest sha256 disk active path =
     bindE (resolve_strict disk path) (\<lambda>resolved.
     case map_of (disk_nodes disk) resolved of
       None \<Rightarrow> Inl FileNotFound
     | Some (Regular data x) \<Rightarrow> Inr (''file-sha256:'' @ sha256 data @ executable_mark x)
     | Some Special \<Rightarrow> Inl OSError
     | Some (Folder children) \<Rightarrow>
         if resolved \<in> set active then Inl OSError
         else
           bindE (mapE (\<lambda>(name, link).
               let content = materialized_input_digest sha256 disk (resolved # active) (slash resolved name)
               in case link of
                    Some target \<Rightarrow> linked_entry name target content
                  | None \<Rightarrow> bindE content (\<lambda>c. Inr [name, c]))
             (sort_key fst children)) (\<lambda>entries.
           Inr (''tree-sha256:'' @ sha256 (dump_entries entries))))"
  by pat_completeness auto

termination
  by (relation "measure (\<lambda>(sha256, disk, active, path). card (fst ` set (disk_nodes disk) - set active))")
     (auto intro: active_grows)

declare materialized_input_digest.simps [simp del]

section \<open>Source files\<close>

record git_view =
  ls_tree :: "(string \<times> (string \<times> string \<times> string)) list"
  blob_text :: "string \<Rightarrow> string res"

definition dirname :: "string \<Rightarrow> string" where
  \<comment> \<open>\<^verbatim>\<open>os.path.dirname\<close>\<close>
  "dirname p =
     (let head = rev (dropWhile (\<lambda>c. c \<noteq> CHR ''/'') (rev p)) in
      if list_all (\<lambda>c. c = CHR ''/'') head then head else rstrip_char (CHR ''/'') head)"

definition path_join :: "string \<Rightarrow> string \<Rightarrow> string" where
  \<comment> \<open>\<^verbatim>\<open>os.path.join\<close>\<close>
  "path_join a b =
     (if prefix ''/'' b then b else if a = [] \<or> suffix ''/'' a then a @ b else a @ ''/'' @ b)"

definition link_referent :: "string \<Rightarrow> string \<Rightarrow> string" where
  "link_referent repo_path target = normpath (path_join (dirname repo_path) target)"

function git_blob_at_ref :: "git_view \<Rightarrow> string list \<Rightarrow> string \<Rightarrow> string option res" where
  "git_blob_at_ref git seen repo_path =
     (if repo_path \<in> set seen then Inl OSError
      else
        case map_of (ls_tree git) repo_path of
          None \<Rightarrow> Inr None
        | Some (mode, kind, object_id) \<Rightarrow>
            if mode = ''120000'' then
              bindE (blob_text git object_id) (\<lambda>target.
              let referent = link_referent repo_path target in
              if prefix ''/'' referent \<or> prefix ''../'' referent then Inl OSError
              else
                bindE (git_blob_at_ref git (repo_path # seen) referent) (\<lambda>value.
                if value = None then Inl OSError else Inr value))
            else if kind = ''blob'' then Inr (Some (object_id @ executable_mark (mode = ''100755'')))
            else Inl OSError)"
  by pat_completeness auto
termination
proof (relation "measure (\<lambda>(git, seen, path). card (fst ` set (ls_tree git) - set seen))", goal_cases)
  case (2 git seen repo_path entry mode rest kind object_id target referent)
  then have "repo_path \<in> fst ` set (ls_tree git)" by (force dest: map_of_SomeD)
  then have "fst ` set (ls_tree git) - set (repo_path # seen) \<subset> fst ` set (ls_tree git) - set seen" using 2 by auto
  then show ?case by (auto intro!: psubset_card_mono)
qed simp

declare git_blob_at_ref.simps [simp del]

section \<open>The context\<close>

record content_view =
  at_ref :: "git_view option"
  repo_root :: ppath
  tree_root :: "ppath option"
  output_base :: "ppath option"
  plain_file :: "ppath \<Rightarrow> bool"
  symbolic_link :: "ppath \<Rightarrow> bool"
  hash_object :: "ppath \<Rightarrow> string option res"
  content_disk :: disk

definition worktree_source_path :: "content_view \<Rightarrow> string \<Rightarrow> ppath option" where
  "worktree_source_path ctx repo_path =
     find (\<lambda>p. plain_file ctx p \<or> symbolic_link ctx p)
       (slash (repo_root ctx) repo_path
        # (case (tree_root ctx, graph_relative_path repo_path) of
             (Some tree, Some relative) \<Rightarrow> [slash tree relative]
           | _ \<Rightarrow> []))"

text \<open>The blob of one name of the input; \<^verbatim>\<open>None\<close> when there is none under this name.\<close>

definition source_blob :: "content_view \<Rightarrow> string \<Rightarrow> string option res" where
  "source_blob ctx repo_path =
     (case at_ref ctx of
        Some git \<Rightarrow> git_blob_at_ref git [] repo_path
      | None \<Rightarrow>
          (case worktree_source_path ctx repo_path of
             None \<Rightarrow> Inr None
           | Some p \<Rightarrow> hash_object ctx p))"

definition available_file_candidates :: "content_view \<Rightarrow> string \<Rightarrow> ppath list" where
  "available_file_candidates ctx path =
     (if absolute (parse path) then [parse path]
      else
        let below_tree = (case tree_root ctx of
                            None \<Rightarrow> []
                          | Some tree \<Rightarrow>
                              slash tree path
                              # (case graph_relative_path path of None \<Rightarrow> [] | Some relative \<Rightarrow> [slash tree relative]))
        in case output_base ctx of
             None \<Rightarrow> below_tree
           | Some base \<Rightarrow>
               (if prefix ''../'' path then slash (slash base ''external'') (drop 3 path) else slash base path)
               # map (\<lambda>execroot. slash (slash (slash base ''execroot'') execroot) path) [''_main'', ''__main__'', ''main'']
               @ (if list_ex (\<lambda>p. prefix p path) [''external/'', ''bazel-out/'', ''../''] then [] else below_tree))"

definition os_or_runtime :: "pyexn \<Rightarrow> bool" where
  \<comment> \<open>what \<^verbatim>\<open>except (OSError, RuntimeError)\<close> catches\<close>
  "os_or_runtime e =
     (e = OSError \<or> e = FileNotFound \<or> e = RecursionError \<or> (case e of RuntimeError _ _ \<Rightarrow> True | _ \<Rightarrow> False))"

fun hash_available_file :: "(string \<Rightarrow> string) \<Rightarrow> disk \<Rightarrow> ppath list \<Rightarrow> string option res" where
  "hash_available_file sha256 disk [] = Inr None"
| "hash_available_file sha256 disk (c # cs) =
     (case materialized_input_digest sha256 disk [] c of
        Inr d \<Rightarrow> Inr (Some d)
      | Inl e \<Rightarrow> if os_or_runtime e then hash_available_file sha256 disk cs else Inl e)"

fun first_source_blob :: "content_view \<Rightarrow> string list \<Rightarrow> string option res" where
  \<comment> \<open>the loop over the names of a source file\<close>
  "first_source_blob ctx [] = Inr None"
| "first_source_blob ctx (p # ps) =
     bindE (source_blob ctx p) (\<lambda>blob. case blob of None \<Rightarrow> first_source_blob ctx ps | Some b \<Rightarrow> Inr (Some b))"

definition unverified :: "string option \<times> string option" where
  "unverified = (None, Some ''unverified-content'')"

definition digest_input :: "(string \<Rightarrow> string) \<Rightarrow> content_view \<Rightarrow> string \<Rightarrow> (string option \<times> string option) res" where
  "digest_input sha256 ctx path =
     (case first_source_blob ctx (source_repo_candidates (strip path)) of
        Inl e \<Rightarrow> if os_or_runtime e then Inr unverified else Inl e
      | Inr (Some blob) \<Rightarrow> Inr (Some (''git-blob:'' @ blob), None)
      | Inr None \<Rightarrow>
          bindE (hash_available_file sha256 (content_disk ctx) (available_file_candidates ctx (strip path))) (\<lambda>found.
          case found of
            Some d \<Rightarrow> Inr (Some d, None)
          | None \<Rightarrow> Inr unverified))"

end
