(* ===== verification/RebuildContentRun.thy ===== *)
theory RebuildContentRun
  imports RebuildContent
begin

text \<open>
  What a digest of the content context says: two inputs have one digest exactly when they hold the same
  files, links and trees, and what Bazel made is never read from the other snapshot.
\<close>

section \<open>JSON text can be read in one way\<close>

definition readable :: "('a \<Rightarrow> string) \<Rightarrow> bool" where
  \<comment> \<open>a text followed by anything tells its value\<close>
  "readable f = (\<forall>x y r r'. f x @ r = f y @ r' \<longrightarrow> x = y \<and> r = r')"

lemma readableD: "readable f \<Longrightarrow> f x @ r = f y @ r' \<Longrightarrow> x = y \<and> r = r'"
  unfolding readable_def by blast

lemma readable_inj: "readable f \<Longrightarrow> f x = f y \<Longrightarrow> x = y"
  using readableD [of f x "[]" y "[]"] by simp

definition hex_value :: "char \<Rightarrow> nat" where
  "hex_value c = (let n = of_char c in if n < 58 then n - 48 else n - 87)"

lemma hex_value [simp]: "n < 16 \<Longrightarrow> hex_value (hex_digit n) = n"
  by (auto simp: hex_value_def hex_digit_def)

text \<open>The first character of a text, and what follows its code.\<close>

definition read_char :: "string \<Rightarrow> char \<times> string" where
  "read_char s =
     (let b = hd s; k = hd (tl s); rest = tl (tl s) in
      if b \<noteq> backslash then (b, tl s)
      else if k = CHR ''u'' then (char_of (16 * hex_value (rest ! 2) + hex_value (rest ! 3)), drop 4 rest)
      else if k = CHR ''n'' then (char_of (10::nat), rest)
      else if k = CHR ''r'' then (char_of (13::nat), rest)
      else if k = CHR ''t'' then (char_of (9::nat), rest)
      else if k = CHR ''f'' then (char_of (12::nat), rest)
      else if k = CHR ''b'' then (char_of (8::nat), rest)
      else (k, rest))"

lemma code_bound: "(of_char c :: nat) < 256"
  using of_char_mod_256 [of c, where ?'a = nat] by (metis mod_less_divisor zero_less_numeral)

lemma char_code: "(of_char c :: nat) = n \<Longrightarrow> char_of n = c"
  using char_of_char [of c] by blast

lemma read_json_char: "read_char (json_char c @ r) = (c, r)"
proof -
  define n where "n = (of_char c :: nat)"
  have c: "char_of n = c" by (simp add: n_def)
  consider "n = 34 \<or> n = 92" | "n = 10" | "n = 13" | "n = 9" | "n = 12" | "n = 8"
    | "n \<notin> {34, 92, 10, 13, 9, 12, 8}" "n < 32 \<or> 126 < n" | "n \<notin> {34, 92, 10, 13, 9, 12, 8}" "\<not> (n < 32 \<or> 126 < n)"
    by auto
  then show ?thesis
  proof cases
    case 1
    then have "c \<notin> {CHR ''u'', CHR ''n'', CHR ''r'', CHR ''t'', CHR ''f'', CHR ''b''}"
      unfolding n_def by auto
    then show ?thesis using 1 by (simp add: json_char_def n_def [symmetric] read_char_def Let_def)
  next
    case 7
    have "16 * (n div 16) + n mod 16 = n" by simp
    moreover have "n div 16 < 16" using code_bound [of c] unfolding n_def by (simp add: less_mult_imp_div_less)
    ultimately show ?thesis using 7 c
      by (simp add: json_char_def n_def [symmetric] read_char_def Let_def nth_append)
  next
    case 8
    then have "c \<noteq> backslash" unfolding n_def backslash_def by auto
    then show ?thesis using 8 by (simp add: json_char_def n_def [symmetric] read_char_def Let_def)
  qed (use c in \<open>simp_all add: json_char_def n_def [symmetric] read_char_def Let_def\<close>)
qed

lemma json_char_unquoted: "\<exists>c' cs. json_char c = c' # cs \<and> c' \<noteq> quote_mark"
proof -
  have "backslash \<noteq> quote_mark" by code_simp
  moreover have "(of_char c :: nat) \<noteq> 34 \<Longrightarrow> c \<noteq> quote_mark" by (auto simp: quote_mark_def)
  ultimately show ?thesis by (auto simp: json_char_def Let_def)
qed

lemma readable_char: "readable json_char"
  unfolding readable_def using read_json_char by (metis prod.inject)

lemma readable_string: "readable json_string"
proof -
  have "s = t \<and> r = r'"
    if "concat (map json_char s) @ quote_mark # r = concat (map json_char t) @ quote_mark # r'" for s t r r'
    using that
  proof (induction s arbitrary: t)
    case Nil
    then show ?case
    proof (cases t)
      case (Cons d t')
      obtain c' cs where "json_char d = c' # cs" "c' \<noteq> quote_mark" using json_char_unquoted by blast
      then show ?thesis using Nil Cons by simp
    qed simp
  next
    case (Cons c s)
    show ?case
    proof (cases t)
      case Nil
      obtain c' cs where "json_char c = c' # cs" "c' \<noteq> quote_mark" using json_char_unquoted by blast
      then show ?thesis using Cons Nil by simp
    next
      case (Cons d t')
      have "json_char c @ (concat (map json_char s) @ quote_mark # r)
          = json_char d @ (concat (map json_char t') @ quote_mark # r')"
        using Cons.prems Cons by simp
      from readableD [OF readable_char this] show ?thesis using Cons.IH [of t'] Cons by simp
    qed
  qed
  note inner = this
  show ?thesis unfolding readable_def
  proof (intro allI impI)
    fix s t r r'
    assume "json_string s @ r = json_string t @ r'"
    then have "concat (map json_char s) @ quote_mark # r = concat (map json_char t) @ quote_mark # r'"
      by (simp add: json_string_def)
    then show "s = t \<and> r = r'" by (rule inner)
  qed
qed

text \<open>A list is readable when its elements are and none starts with the closing bracket.\<close>

definition opens :: "('a \<Rightarrow> string) \<Rightarrow> bool" where
  "opens f = (\<forall>x. \<exists>c cs. f x = c # cs \<and> c \<noteq> CHR '']'')"

lemma opensD: "opens f \<Longrightarrow> \<exists>c cs. f x = c # cs \<and> c \<noteq> CHR '']''"
  unfolding opens_def by blast

lemma list_tail: "join '','' (f x # map f xs) = f x @ concat (map (\<lambda>y. CHR '','' # f y) xs)"
  by (induction xs arbitrary: x) auto

lemma readable_tail:
  assumes "readable f"
  shows "concat (map (\<lambda>y. CHR '','' # f y) xs) @ CHR '']'' # r = concat (map (\<lambda>y. CHR '','' # f y) ys) @ CHR '']'' # r'
    \<Longrightarrow> xs = ys \<and> r = r'"
proof (induction xs arbitrary: ys)
  case Nil
  then show ?case by (cases ys) auto
next
  case (Cons x xs)
  show ?case
  proof (cases ys)
    case Nil
    then show ?thesis using Cons.prems by simp
  next
    case (Cons y ys')
    have "f x @ (concat (map (\<lambda>y. CHR '','' # f y) xs) @ CHR '']'' # r)
        = f y @ (concat (map (\<lambda>y. CHR '','' # f y) ys') @ CHR '']'' # r')"
      using Cons.prems Cons by simp
    from readableD [OF assms this] show ?thesis using Cons.IH [of ys'] Cons by simp
  qed
qed

lemma readable_list:
  assumes "readable f" "opens f"
  shows "readable (json_list f)"
  unfolding readable_def
proof (intro allI impI)
  fix xs ys r r'
  assume eq: "json_list f xs @ r = json_list f ys @ r'"
  show "xs = ys \<and> r = r'"
  proof (cases xs)
    case Nil
    show ?thesis
    proof (cases ys)
      case (Cons y ys')
      obtain c cs where "f y = c # cs" "c \<noteq> CHR '']''" using opensD [OF assms(2), of y] by blast
      then show ?thesis using eq [unfolded Nil Cons json_list_def list.map list_tail] by simp
    qed (use eq Nil in \<open>simp add: json_list_def\<close>)
  next
    case (Cons x xs')
    show ?thesis
    proof (cases ys)
      case Nil
      obtain c cs where "f x = c # cs" "c \<noteq> CHR '']''" using opensD [OF assms(2), of x] by blast
      then show ?thesis using eq [unfolded Nil Cons json_list_def list.map list_tail] by simp
    next
      case (Cons y ys')
      have "f x @ (concat (map (\<lambda>y. CHR '','' # f y) xs') @ CHR '']'' # r)
          = f y @ (concat (map (\<lambda>y. CHR '','' # f y) ys') @ CHR '']'' # r')"
        using eq \<open>xs = x # xs'\<close> Cons by (simp add: json_list_def list_tail)
      from readableD [OF assms(1) this] show ?thesis
        using readable_tail [OF assms(1), of xs' r ys' r'] \<open>xs = x # xs'\<close> Cons by simp
    qed
  qed
qed

lemma dump_entries_inj: "dump_entries xs = dump_entries ys \<Longrightarrow> xs = ys"
proof -
  have "quote_mark \<noteq> CHR '']''" by code_simp
  then have "opens json_string" "opens (json_list json_string)"
    by (simp_all add: opens_def json_string_def json_list_def)
  then have "readable dump_entries"
    unfolding dump_entries_def by (intro readable_list readable_string)
  then show "dump_entries xs = dump_entries ys \<Longrightarrow> xs = ys" by (rule readable_inj)
qed

section \<open>What a path holds\<close>

text \<open>
  The value behind a digest: files with their executable bit, and folders with the entries in the order
  of their names, each with the text of its link, if it is one, and what lies behind it, if anything.
\<close>

datatype content =
    FileContent string bool
  | TreeContent "(string \<times> string option \<times> content option) list"

function contents :: "disk \<Rightarrow> ppath list \<Rightarrow> ppath \<Rightarrow> content res" where
  "contents disk active path =
     bindE (resolve_strict disk path) (\<lambda>resolved.
     case map_of (disk_nodes disk) resolved of
       None \<Rightarrow> Inl FileNotFound
     | Some (Regular data x) \<Rightarrow> Inr (FileContent data x)
     | Some Special \<Rightarrow> Inl OSError
     | Some (Folder children) \<Rightarrow>
         if resolved \<in> set active then Inl OSError
         else
           bindE (mapE (\<lambda>(name, link).
               let content = contents disk (resolved # active) (slash resolved name)
               in case link of
                    Some target \<Rightarrow>
                      (case content of
                         Inr c \<Rightarrow> Inr (name, Some target, Some c)
                       | Inl e \<Rightarrow> if e = FileNotFound then Inr (name, Some target, None) else Inl e)
                  | None \<Rightarrow> bindE content (\<lambda>c. Inr (name, None, Some c)))
             (sort_key fst children)) (\<lambda>entries.
           Inr (TreeContent entries)))"
  by pat_completeness auto

termination
  by (relation "measure (\<lambda>(disk, active, path). card (fst ` set (disk_nodes disk) - set active))")
     (auto intro: active_grows)

declare contents.simps [simp del]

fun content_digest :: "(string \<Rightarrow> string) \<Rightarrow> content \<Rightarrow> string" where
  "content_digest sha256 (FileContent data x) = ''file-sha256:'' @ sha256 data @ executable_mark x"
| "content_digest sha256 (TreeContent entries) =
     ''tree-sha256:'' @ sha256 (dump_entries (map (\<lambda>(name, link, c).
        name # (case link of Some target \<Rightarrow> [''symlink'', target] | None \<Rightarrow> [])
        @ [case c of Some x \<Rightarrow> content_digest sha256 x | None \<Rightarrow> ''missing-target'']) entries))"

definition entry_text :: "(string \<Rightarrow> string) \<Rightarrow> string \<times> string option \<times> content option \<Rightarrow> string list" where
  "entry_text sha256 = (\<lambda>(name, link, c).
     name # (case link of Some target \<Rightarrow> [''symlink'', target] | None \<Rightarrow> [])
     @ [case c of Some x \<Rightarrow> content_digest sha256 x | None \<Rightarrow> ''missing-target''])"

lemma content_digest_tree:
  "content_digest sha256 (TreeContent entries) = ''tree-sha256:'' @ sha256 (dump_entries (map (entry_text sha256) entries))"
  by (simp add: entry_text_def)

lemma mapE_map_sum:
  "(\<And>x. x \<in> set xs \<Longrightarrow> f x = map_sum id h (g x)) \<Longrightarrow> mapE f xs = map_sum id (map h) (mapE g xs)"
proof (induction xs)
  case (Cons x xs)
  then have "f x = map_sum id h (g x)" "mapE f xs = map_sum id (map h) (mapE g xs)" by (auto simp: id_def)
  then show ?case by (cases "g x"; cases "mapE g xs") (simp_all add: bindE_def)
qed simp

lemma digest_of_contents:
  "materialized_input_digest sha256 disk active path = map_sum id (content_digest sha256) (contents disk active path)"
proof (induction disk active path rule: contents.induct)
  case (1 disk active path)
  show ?case
  proof (cases "resolve_strict disk path")
    case (Inl e)
    then show ?thesis by (simp add: materialized_input_digest.simps [of _ _ _ path] contents.simps [of _ _ path])
  next
    case (Inr resolved)
    show ?thesis
    proof (cases "map_of (disk_nodes disk) resolved")
      case None
      then show ?thesis using Inr
        by (simp add: materialized_input_digest.simps [of _ _ _ path] contents.simps [of _ _ path])
    next
      case (Some node)
      show ?thesis
      proof (cases node)
        case (Folder children)
        show ?thesis
        proof (cases "resolved \<in> set active")
          case True
          then show ?thesis using Inr Some Folder
            by (simp add: materialized_input_digest.simps [of _ _ _ path] contents.simps [of _ _ path])
        next
          case False
          have IH: "materialized_input_digest sha256 disk (resolved # active) (slash resolved name)
              = map_sum id (content_digest sha256) (contents disk (resolved # active) (slash resolved name))"
            if "(name, link) \<in> set (sort_key fst children)" for name link
            using "1.IH" [OF Inr Some Folder False that] by (simp add: id_def)
          define reads where "reads = (\<lambda>(name :: string, link :: string option).
               let content = contents disk (resolved # active) (slash resolved name)
               in case link of
                    Some target \<Rightarrow>
                      (case content of
                         Inr c \<Rightarrow> Inr (name, Some target, Some c)
                       | Inl e \<Rightarrow> if e = FileNotFound then Inr (name, Some target, None) else Inl e)
                  | None \<Rightarrow> bindE content (\<lambda>c. Inr (name, None, Some c)))"
          define digests where "digests = (\<lambda>(name, link).
               let content = materialized_input_digest sha256 disk (resolved # active) (slash resolved name)
               in case link of
                    Some target \<Rightarrow> linked_entry name target content
                  | None \<Rightarrow> bindE content (\<lambda>c. Inr [name, c]))"
          have "digests e = map_sum id (entry_text sha256) (reads e)" if "e \<in> set (sort_key fst children)" for e
          proof -
            obtain name link where e: "e = (name, link)" by fastforce
            show ?thesis
              using IH [of name link] that e
              by (cases "contents disk (resolved # active) (slash resolved name)"; cases link)
                 (simp_all add: digests_def reads_def linked_entry_def entry_text_def Let_def bindE_def)
          qed
          from mapE_map_sum [OF this]
          have m: "mapE digests (sort_key fst children) = map_sum id (map (entry_text sha256)) (mapE reads (sort_key fst children))" .
          have "materialized_input_digest sha256 disk active path
              = bindE (mapE digests (sort_key fst children)) (\<lambda>entries. Inr (''tree-sha256:'' @ sha256 (dump_entries entries)))"
            unfolding digests_def using Inr Some Folder False
            by (simp add: materialized_input_digest.simps [of _ _ _ path])
          moreover have "contents disk active path = bindE (mapE reads (sort_key fst children)) (\<lambda>entries. Inr (TreeContent entries))"
            unfolding reads_def using Inr Some Folder False by (simp add: contents.simps [of _ _ path])
          ultimately show ?thesis unfolding m
            by (cases "mapE reads (sort_key fst children)") (simp_all add: bindE_def content_digest_tree del: content_digest.simps(2))
        qed
      qed (use Inr Some in \<open>simp_all add: materialized_input_digest.simps [of _ _ _ path] contents.simps [of _ _ path]\<close>)
    qed
  qed
qed

section \<open>A digest tells its content\<close>

lemma map_determined:
  "map f xs = map f ys \<Longrightarrow> (\<And>x y. x \<in> set xs \<Longrightarrow> f x = f y \<Longrightarrow> x = y) \<Longrightarrow> xs = ys"
proof (induction xs arbitrary: ys)
  case (Cons x xs)
  then obtain y ys' where ys: "ys = y # ys'" "f x = f y" "map f xs = map f ys'" by auto
  have "x = y" using Cons.prems(2) [of x y] ys by simp
  moreover have "xs = ys'" using Cons.IH [OF ys(3)] Cons.prems(2) by auto
  ultimately show ?case using ys by simp
qed simp

lemma executable_mark_inj: "a @ executable_mark x = b @ executable_mark y \<Longrightarrow> a = b \<and> x = y"
  by (auto simp: executable_mark_def split: if_splits)

lemma content_digest_inj:
  assumes "inj sha256"
  shows "content_digest sha256 c = content_digest sha256 d \<Longrightarrow> c = d"
proof (induction c arbitrary: d)
  case (FileContent data x)
  then show ?case
    using executable_mark_inj [of "sha256 data" x] injD [OF assms] by (cases d) auto
next
  case (TreeContent entries)
  show ?case
  proof (cases d)
    case (FileContent data x)
    then show ?thesis using TreeContent.prems by simp
  next
    case inner: (TreeContent others)
    have "map (entry_text sha256) entries = map (entry_text sha256) others"
      using TreeContent.prems dump_entries_inj injD [OF assms]
      by (simp add: inner content_digest_tree del: content_digest.simps(2))
    moreover have "e = f" if "e \<in> set entries" "entry_text sha256 e = entry_text sha256 f" for e f
    proof -
      obtain name link c where e: "e = (name, link, c)" by (cases e)
      obtain name' link' c' where f: "f = (name', link', c')" by (cases f)
      have missing: "content_digest sha256 x \<noteq> ''missing-target''" for x by (cases x) auto
      have same: "x = y" if "c = Some x" "content_digest sha256 x = content_digest sha256 y" for x y
        using TreeContent.IH [OF \<open>e \<in> set entries\<close>] that e by (auto simp: prod_set_defs)
      show ?thesis
        using that(2) same missing unfolding e f entry_text_def
        by (auto split: option.splits)
    qed
    ultimately have "entries = others" by (rule map_determined)
    then show ?thesis using inner by simp
  qed
qed


definition sample_disk :: "bool \<Rightarrow> disk" where
  \<comment> \<open>a folder with a file and a link to itself, which ends the walk, or without that link\<close>
  "sample_disk cyclic =
     \<lparr>resolve_strict = (\<lambda>p. if p = parse ''/t/self'' then Inr (parse ''/t'')
                         else if p \<in> {parse ''/t'', parse ''/t/a'', parse ''/u'', parse ''/u/a''} then Inr p
                         else Inl FileNotFound),
      disk_nodes =
        [(parse ''/t'', Folder ([(''gone'', Some ''x''), (''a'', None)] @ (if cyclic then [(''self'', Some ''.'')] else []))),
         (parse ''/t/a'', Regular ''data'' True),
         (parse ''/u'', Folder [(''a'', None), (''gone'', Some ''x'')]), (parse ''/u/a'', Regular ''data'' True)]\<rparr>"

lemma sample_disk_values:
  "materialized_input_digest id (sample_disk False) [] (parse ''/t'')
     = Inr ''tree-sha256:[[\"a\",\"file-sha256:data:executable=1\"],[\"gone\",\"symlink\",\"x\",\"missing-target\"]]''"
  "materialized_input_digest id (sample_disk False) [] (parse ''/u'')
     = Inr ''tree-sha256:[[\"a\",\"file-sha256:data:executable=1\"],[\"gone\",\"symlink\",\"x\",\"missing-target\"]]''"
  "materialized_input_digest id (sample_disk True) [] (parse ''/t'') = Inl OSError"
  by code_simp+


section \<open>Where a digest comes from\<close>

definition made_by_bazel :: "string \<Rightarrow> bool" where
  "made_by_bazel path = (prefix ''external/'' path \<or> prefix ''bazel-out/'' path)"

lemma no_source_name: "made_by_bazel path \<Longrightarrow> strip path = path \<Longrightarrow> source_repo_candidates path = []"
proof -
  assume a: "made_by_bazel path" "strip path = path"
  obtain c d cs where p: "path = c # d # cs" "c \<noteq> CHR ''.''" using a(1) by (auto simp: made_by_bazel_def prefix_def)
  then have "drop_dots path = path" by simp
  then show ?thesis using a unfolding source_repo_candidates_def by (auto simp: made_by_bazel_def Let_def)
qed

lemma below_base: "relative_to (joinpath base q) base" if "\<not> absolute q"
  using that by (simp add: relative_to_def joinpath_def)

lemma made_relative: "made_by_bazel path \<Longrightarrow> \<not> absolute (parse path)"
  by (auto simp: made_by_bazel_def absolute_def parse_def splitroot_def prefix_def)

lemma hash_available_agrees:
  "(\<And>c. c \<in> set cs \<Longrightarrow> materialized_input_digest sha256 disk [] c = materialized_input_digest sha256 disk' [] c) \<Longrightarrow>
   hash_available_file sha256 disk cs = hash_available_file sha256 disk' cs"
  by (induction cs) (auto split: sum.splits)

text \<open>
  What Bazel made, in the output tree or in an external repository, is only ever read below the
  output base of its own snapshot: the digest of such an input is the same under every other work
  tree, repository, git and disk, as long as what lies below the output base reads the same. A file
  that is missing there is unverified and never taken from a checkout.
\<close>

theorem outputs_stay_in_output_base:
  assumes "made_by_bazel path" "strip path = path"
    and "output_base ctx = Some base" "output_base ctx' = Some base"
    and "\<And>p. relative_to p base \<Longrightarrow>
      materialized_input_digest sha256 (content_disk ctx) [] p = materialized_input_digest sha256 (content_disk ctx') [] p"
  shows "digest_input sha256 ctx path = digest_input sha256 ctx' path"
proof -
  have candidates: "available_file_candidates ctx path = available_file_candidates ctx' path"
    using assms(1,3,4) made_relative [OF assms(1)]
    by (auto simp: available_file_candidates_def made_by_bazel_def)
  have "relative_to p base" if "p \<in> set (available_file_candidates ctx path)" for p
  proof -
    have "p = slash base path \<or> (\<exists>e\<in>{''_main'', ''__main__'', ''main''}. p = slash (slash (slash base ''execroot'') e) path)"
      using that assms(1,3) made_relative [OF assms(1)]
      by (auto simp: available_file_candidates_def made_by_bazel_def prefix_def)
    then show ?thesis
      using made_relative [OF assms(1)] by (auto simp: relative_to_def joinpath_def absolute_def parse_def splitroot_def)
  qed
  then have "hash_available_file sha256 (content_disk ctx) (available_file_candidates ctx path)
      = hash_available_file sha256 (content_disk ctx') (available_file_candidates ctx' path)"
    unfolding candidates by (intro hash_available_agrees assms(5)) (simp add: candidates)
  then show ?thesis
    by (simp add: digest_input_def assms(2) no_source_name [OF assms(1,2)])
qed

definition sample_content :: "ppath option \<Rightarrow> content_view" where
  "sample_content tree =
     \<lparr>at_ref = None, repo_root = parse ''/r'', tree_root = tree, output_base = Some (parse ''/t''),
      plain_file = (\<lambda>p. p = parse ''/u/bazel-out/a''), symbolic_link = (\<lambda>_. False),
      hash_object = (\<lambda>_. Inr (Some ''b'')), content_disk = sample_disk False\<rparr>"

lemma outputs_stay_in_output_base_witness:
  "digest_input id (sample_content None) ''bazel-out/a'' = digest_input id (sample_content (Some (parse ''/u''))) ''bazel-out/a''"
proof (rule outputs_stay_in_output_base)
  show "made_by_bazel ''bazel-out/a''" by code_simp
  show "strip ''bazel-out/a'' = ''bazel-out/a''" by code_simp
  show "output_base (sample_content None) = Some (parse ''/t'')" "output_base (sample_content (Some (parse ''/u''))) = Some (parse ''/t'')"
    by (simp_all add: sample_content_def)
qed (simp add: sample_content_def)

end
