(* ===== verification/RebuildLines.thy ===== *)
theory RebuildLines
  imports RebuildContent
begin

text \<open>
  The lines that the fast mode of \<^verbatim>\<open>foundry/tools/rebuild_impact.py\<close> knows to be harmless: what a change of a
  script may consist of without reaching a native action. The source writes them as regular expressions
  over a whole line, each a list of alternatives made of fixed text, optional or required blanks and a
  free rest after the sign of a comment; here they are those alternatives. Blanks before the text are
  accepted by every one of them. Expressions that are only searched for are lists of fixed words.
\<close>

section \<open>Lines\<close>

datatype piece =
    Lit string
  | Blanks
  | Spaces
  | Rest

fun blank_tails :: "string \<Rightarrow> string list" where
  \<comment> \<open>what is left after any number of blanks\<close>
  "blank_tails [] = [[]]"
| "blank_tails (c # cs) = (c # cs) # (if is_space c then blank_tails cs else [])"

fun pieces_match :: "piece list \<Rightarrow> string \<Rightarrow> bool" where
  "pieces_match [] s = (s = [])"
| "pieces_match (Lit w # ps) s = (prefix w s \<and> pieces_match ps (drop (length w) s))"
| "pieces_match (Blanks # ps) s = list_ex (pieces_match ps) (blank_tails s)"
| "pieces_match (Spaces # ps) s = list_ex (pieces_match ps) (tl (blank_tails s))"
| "pieces_match (Rest # ps) s = (ps = [])"

definition line_matches :: "piece list list \<Rightarrow> string \<Rightarrow> bool" where
  "line_matches alternatives s = list_ex (\<lambda>ps. pieces_match (Blanks # ps) s) alternatives"

definition mentions :: "string list \<Rightarrow> string \<Rightarrow> bool" where
  \<comment> \<open>a search for one of some fixed words\<close>
  "mentions words s = list_ex (contains s) words"

section \<open>The tables\<close>

definition ESTATE_ONLY_LINES :: "piece list list" where
  "ESTATE_ONLY_LINES =
     [[],
      [Lit ''#'', Rest],
      [Lit '':'', Blanks, Lit ''\"${VASO_ESTATE_ROOT:?set VASO_ESTATE_ROOT}\"''],
      [Lit ''--root'', Spaces, Lit ''\"$VASO_ESTATE_ROOT\"'', Blanks],
      [Lit ''--root'', Spaces, Lit ''\"$VASO_ESTATE_ROOT\"'', Blanks, Lit [backslash]],
      [Lit ''exec'', Spaces, Lit ''./run.sh'', Spaces, Lit ''--insula-cmd'', Spaces, Lit ''bash'', Spaces, Lit ''scripts/agents/triumvirate-gate-insula.sh'', Spaces, Lit ''\"${args[@]}\"''],
      [Lit ''exec'', Spaces, Lit ''./run.sh'', Spaces, Lit ''--insula-cmd'', Spaces, Lit ''env'', Spaces, Lit ''VASO_ESTATE_ROOT=/vaso'', Spaces, Lit ''bash'', Spaces, Lit ''scripts/agents/triumvirate-gate-insula.sh'', Spaces, Lit ''\"${args[@]}\"'']]"

definition HOST_GATE_COPYBACK_DISTINCTIVE_LINES :: "string list" where
  "HOST_GATE_COPYBACK_DISTINCTIVE_LINES =
     [''ensure_stage_root'',
      ''stage_root_'',
      ''acceptance_out_stage_host'',
      ''out_dir_stage_host'',
      ''copy_rc'',
      ''map_estate_path_for_insula'']"

definition HOST_GATE_COPYBACK_ALLOWED_LINES :: "string list" where
  "HOST_GATE_COPYBACK_ALLOWED_LINES =
     [[],
      (''printf '' @ [CHR 0x27] @ ''%s'' @ [backslash] @ ''n'' @ [CHR 0x27] @ '' \"$raw_path\"''),
      (''[[ -n \"$estate_root\" && \"$raw_path\" == /* ]] || { printf '' @ [CHR 0x27] @ ''%s'' @ [backslash] @ ''n'' @ [CHR 0x27] @ '' \"$raw_path\"; return 0; }''),
      (''printf '' @ [CHR 0x27] @ ''/vaso/agents'' @ [backslash] @ ''n'' @ [CHR 0x27]),
      (''printf '' @ [CHR 0x27] @ ''/vaso/agents/%s'' @ [backslash] @ ''n'' @ [CHR 0x27] @ '' \"${raw_path#\"$estate_agents_root/\"}\"''),
      ''stage_root_host=\"\"'',
      ''stage_root_insula=\"\"'',
      ''acceptance_out_host=\"\"'',
      ''acceptance_out_stage_host=\"\"'',
      ''out_dir_host=\"\"'',
      ''out_dir_stage_host=\"\"'',
      ''map_estate_path_for_insula() {'',
      ''local raw_path=\"$1\"'',
      ''local estate_root=\"${VASO_ESTATE_ROOT:-}\"'',
      ''}'',
      ''raw_path=\"$(readlink -m \"$raw_path\")\"'',
      ''local estate_agents_root'',
      ''estate_agents_root=\"$(readlink -m \"$estate_root/agents\")\"'',
      ''if [[ \"$raw_path\" == \"$estate_agents_root\" ]]; then'',
      ''elif [[ \"$raw_path\" == \"$estate_agents_root/\"* ]]; then'',
      ''else'',
      ''fi'',
      ''ensure_stage_root'',
      ''ensure_stage_root() {'',
      ''[[ -n \"$stage_root_host\" ]] && return 0'',
      ''local agent=\"${VASO_AGENT:-trae}\"'',
      ''if [[ ! \"$agent\" =~ ^[A-Za-z0-9_.-]+$ ]]; then'',
      ''echo \"VASO_AGENT must contain only letters, numbers, dot, underscore or dash, got: $agent\" >&2'',
      ''exit 2'',
      ''local tmpdir=\"$VASO_ESTATE_ROOT/agents/$agent/tmp\"'',
      ''mkdir -p \"$tmpdir\"'',
      ''local TMPDIR=\"$tmpdir\"'',
      ''stage_root_host=\"$(mktemp -d -p \"$TMPDIR\" triumvirate-gate.XXXXXX)\"'',
      ''stage_root_insula=\"/vaso/agents/$agent/tmp/$(basename \"$stage_root_host\")\"'',
      ''args+=(\"$1\" \"$(map_estate_path_for_insula \"$2\")\")'',
      ''case \"$1\" in'',
      ''--acceptance-out)'',
      ''acceptance_out_host=\"$(readlink -m \"$2\")\"'',
      ''acceptance_out_stage_host=\"$stage_root_host/acceptance.json\"'',
      ''args+=(\"$1\" \"$stage_root_insula/acceptance.json\")'',
      '';;'',
      ''--out-dir)'',
      ''out_dir_host=\"$(readlink -m \"$2\")\"'',
      ''out_dir_stage_host=\"$stage_root_host/out-dir\"'',
      ''args+=(\"$1\" \"$stage_root_insula/out-dir\")'',
      ''esac'',
      ''exec ./run.sh --insula-cmd env VASO_ESTATE_ROOT=/vaso bash scripts/agents/triumvirate-gate-insula.sh \"${args[@]}\"'',
      ''./run.sh --insula-cmd env VASO_ESTATE_ROOT=/vaso bash scripts/agents/triumvirate-gate-insula.sh \"${args[@]}\"'',
      ''set +e'',
      ''run_rc=$?'',
      ''set -e'',
      ''copy_rc=0'',
      ''if [[ -n \"$acceptance_out_host\" ]]; then'',
      ''if [[ -f \"$acceptance_out_stage_host\" ]]; then'',
      ''mkdir -p \"$(dirname \"$acceptance_out_host\")\"'',
      ''cp \"$acceptance_out_stage_host\" \"$acceptance_out_host\" || copy_rc=$?'',
      ''elif [[ \"$run_rc\" == \"0\" ]]; then'',
      ''echo \"acceptance output was not produced inside the insula: $stage_root_insula/acceptance.json\" >&2'',
      ''copy_rc=1'',
      ''if [[ -n \"$out_dir_host\" ]]; then'',
      ''if [[ -d \"$out_dir_stage_host\" ]]; then'',
      ''mkdir -p \"$out_dir_host\"'',
      ''cp -a \"$out_dir_stage_host\"/. \"$out_dir_host\"/ || copy_rc=$?'',
      ''echo \"output directory was not produced inside the insula: $stage_root_insula/out-dir\" >&2'',
      ''if [[ \"$copy_rc\" == \"0\" && -n \"$stage_root_host\" ]]; then'',
      ''rm -rf \"$stage_root_host\"'',
      ''if [[ \"$run_rc\" == \"0\" && \"$copy_rc\" != \"0\" ]]; then'',
      ''exit \"$copy_rc\"'',
      ''exit \"$run_rc\"'']"

definition GRAPH_RUN_ROOT_RELOCATION_ALLOWED_LINES :: "string list" where
  "GRAPH_RUN_ROOT_RELOCATION_ALLOWED_LINES =
     [''REPO_ROOT=\"$(cd \"$EXP_DIR/../..\" && pwd)\"'',
      ''REPO_ROOT=\"$(cd \"$EXP_DIR/..\" && pwd)\"'']"

definition GRAPH_GATE_ROOT_RELOCATION_ALLOWED_LINES :: "string list" where
  "GRAPH_GATE_ROOT_RELOCATION_ALLOWED_LINES =
     [''EXP_DIR=\"$ROOT/experiments/spack-bazel-graph\"'',
      ''EXP_DIR=\"$ROOT/graph\"'',
      ''EXP_DIR=\"$ROOT/foundry\"'']"

definition GRAPH_ROOT_RELOCATION_DISTINCTIVE_LINES :: "piece list list" where
  "GRAPH_ROOT_RELOCATION_DISTINCTIVE_LINES =
     [[Lit ''REPO_ROOT=\"$(cd \"$EXP_DIR/..\" && pwd)\"''],
      [Lit ''REPO_ROOT=\"$(cd \"$EXP_DIR/../..\" && pwd)\"''],
      [Lit ''EXP_DIR=\"$ROOT/experiments/spack-bazel-graph\"''],
      [Lit ''EXP_DIR=\"$ROOT/graph\"''],
      [Lit ''EXP_DIR=\"$ROOT/foundry\"'']]"

definition THIRD_PARTY_MOUNT_ALLOWED_LINES :: "string list" where
  "THIRD_PARTY_MOUNT_ALLOWED_LINES =
     [''MP_ARGS+=(--mountpoint /workspace/third_party)'',
      ''--ro-bind \"$REPO_ROOT/third_party\" /workspace/third_party'']"

definition GRAPH_CAPTURE_RELOCATION_FILES :: "string list" where
  "GRAPH_CAPTURE_RELOCATION_FILES =
     [''py_torch_214_full_cu130_build_graph.json'',
      ''py_torch_214_full_cu129_build_graph.json'',
      ''py_triton_pytorch_pin_cu130_build_graph.json'',
      ''py_triton_pytorch_pin_cu129_build_graph.json'',
      ''py_jax_0102_cu130_build_graph.json'',
      ''py_jax_0102_cu129_build_graph.json'']"

definition DISK_CACHE_GC_LINES :: "piece list list" where
  "DISK_CACHE_GC_LINES =
     [[],
      [Lit ''#'', Rest],
      [Lit (''native_bazel_disk_cache_gc_max_size() { printf \"%s'' @ [backslash] @ ''n\" \"80G\"; }'')],
      [Lit (''native_bazel_disk_cache_gc_max_age() { printf \"%s'' @ [backslash] @ ''n\" \"72h\"; }'')],
      [Lit ''append_native_bazel_disk_cache_gc_args() { local -n out=\"$1\"; out+=(\"--experimental_disk_cache_gc_max_size=$(native_bazel_disk_cache_gc_max_size)\" \"--experimental_disk_cache_gc_max_age=$(native_bazel_disk_cache_gc_max_age)\"); }''],
      [Lit ''bazel_disk_cache_gc_args=()''],
      [Lit ''append_native_bazel_disk_cache_gc_args bazel_disk_cache_gc_args''],
      [Lit ''append_native_bazel_disk_cache_gc_args args''],
      [Lit ''\"${bazel_disk_cache_gc_args[@]}\"'', Blanks, Lit [backslash]]]"

definition COREUTILS_OFFLINE_FETCH_LINES :: "piece list list" where
  "COREUTILS_OFFLINE_FETCH_LINES =
     [[],
      [Lit ''#'', Rest],
      [Lit ''\"@coreutils_native\"''],
      [Lit ''\"@coreutils_native\")''],
      [Lit ''FETCH_SOURCE_URL=\"https://ftpmirror.gnu.org/coreutils/coreutils-9.10.tar.xz\"''],
      [Lit ''FETCH_SOURCE_SHA256=\"16535a9adf0b10037364e2d612aad3d9f4eca3a344949ced74d12faf4bd51d25\"''],
      [Lit ''FETCH_SOURCE_FILENAME=\"coreutils-9.10.tar.xz\"''],
      [Lit ''FETCH_SOURCE_DISTDIR_HOST=\"$NATIVE_SOURCE_DISTDIR_HOST\"''],
      [Lit ''FETCH_SOURCE_DISTDIR_SB=\"$NATIVE_SOURCE_DISTDIR_SB\"''],
      [Lit '';;''],
      [Lit ''if [[ \"${1:-}\" == \"--cubin-guard-offline-check\" ]]; then''],
      [Lit ''shift''],
      [Lit ''echo \"== cubin_guard offline check (inside insula, downloads disabled) ==\"''],
      [Lit ''bazel_insula test //tools:cubin_guard_test --test_output=all --announce_rc \"$@\"''],
      [Lit ''echo \"cubin-guard-offline-check: ok line=$VASO_CUDA_LINE\"''],
      [Lit ''exit 0''],
      [Lit ''fi'']]"

definition COREUTILS_OFFLINE_FETCH_DISTINCTIVE_LINES :: "string list" where
  "COREUTILS_OFFLINE_FETCH_DISTINCTIVE_LINES =
     [''@coreutils_native'',
      ''coreutils-9.10.tar.xz'',
      ''16535a9adf0b10037364e2d612aad3d9f4eca3a344949ced74d12faf4bd51d25'',
      ''--cubin-guard-offline-check'',
      ''cubin_guard_test'']"

definition LEAF_ACTION_OFFLINE_FETCH_LINES :: "piece list list" where
  "LEAF_ACTION_OFFLINE_FETCH_LINES =
     [[],
      [Lit ''#'', Rest],
      [Lit ''\"@bzip2_action_archive\"''],
      [Lit ''\"@xz_action_archive\"''],
      [Lit ''\"@zstd_action_archive\"''],
      [Lit ''\"@bzip2_action_archive\")''],
      [Lit ''\"@xz_action_archive\")''],
      [Lit ''\"@zstd_action_archive\")''],
      [Lit ''FETCH_SOURCE_URL=\"https://sourceware.org/pub/bzip2/bzip2-1.0.8.tar.gz\"''],
      [Lit ''FETCH_SOURCE_URL=\"https://github.com/tukaani-project/xz/releases/download/v5.8.3/xz-5.8.3.tar.gz\"''],
      [Lit ''FETCH_SOURCE_URL=\"https://github.com/facebook/zstd/archive/v1.5.7.tar.gz\"''],
      [Lit ''FETCH_SOURCE_SHA256=\"ab5a03176ee106d3f0fa90e381da478ddae405918153cca248e682cd0c4a2269\"''],
      [Lit ''FETCH_SOURCE_SHA256=\"3d3a1b973af218114f4f889bbaa2f4c037deaae0c8e815eec381c3d546b974a0\"''],
      [Lit ''FETCH_SOURCE_SHA256=\"37d7284556b20954e56e1ca85b80226768902e2edabd3b649e9e72c0c9012ee3\"''],
      [Lit ''FETCH_SOURCE_FILENAME=\"bzip2-1.0.8.tar.gz\"''],
      [Lit ''FETCH_SOURCE_FILENAME=\"xz-5.8.3.tar.gz\"''],
      [Lit ''FETCH_SOURCE_FILENAME=\"zstd-1.5.7.tar.gz\"''],
      [Lit ''FETCH_SOURCE_DISTDIR_HOST=\"$NATIVE_SOURCE_DISTDIR_HOST\"''],
      [Lit ''FETCH_SOURCE_DISTDIR_SB=\"$NATIVE_SOURCE_DISTDIR_SB\"''],
      [Lit '';;'']]"

definition LEAF_ACTION_OFFLINE_FETCH_DISTINCTIVE_LINES :: "string list" where
  "LEAF_ACTION_OFFLINE_FETCH_DISTINCTIVE_LINES =
     [''@bzip2_action_archive'',
      ''@xz_action_archive'',
      ''@zstd_action_archive'',
      ''bzip2-1.0.8.tar.gz'',
      ''xz-5.8.3.tar.gz'',
      ''zstd-1.5.7.tar.gz'',
      ''ab5a03176ee106d3f0fa90e381da478ddae405918153cca248e682cd0c4a2269'',
      ''3d3a1b973af218114f4f889bbaa2f4c037deaae0c8e815eec381c3d546b974a0'',
      ''37d7284556b20954e56e1ca85b80226768902e2edabd3b649e9e72c0c9012ee3'']"

definition CONSUMER_CONFORMANCE_GATE_LINES :: "piece list list" where
  "CONSUMER_CONFORMANCE_GATE_LINES =
     [[],
      [Lit ''#'', Rest],
      [Lit ''run_release_stage'', Blanks, Lit [backslash]],
      [Lit ''\"consumer_conformance\"'', Blanks, Lit [backslash]],
      [Lit ''env'', Spaces, Lit ''VASO_GPUS=0'', Spaces, Lit ''\"$EXPERIMENT_ROOT/examples/consumers/run.sh\"'', Spaces, Lit ''--line'', Spaces, Lit ''\"$line\"''],
      [Lit ''env'', Spaces, Lit ''VASO_PROFILE=\"$profile\"'', Spaces, Lit ''\"INSULA_RELEASE_PYTHON_PREFIX_HOST=$release_python_prefix\"'', Spaces, Lit ''\"$EXPERIMENT_ROOT/examples/consumers/run.sh\"'', Blanks, Lit [backslash]],
      [Lit ''--line'', Spaces, Lit ''\"$line\"'', Blanks, Lit [backslash]],
      [Lit ''--release-dir'', Spaces, Lit ''\"$release_dir\"'']]"

definition CONSUMER_CONFORMANCE_GATE_DISTINCTIVE_LINES :: "string list" where
  "CONSUMER_CONFORMANCE_GATE_DISTINCTIVE_LINES =
     [''consumer_conformance'',
      ''examples/consumers/run.sh'']"

definition NATIVE_PREFIX_CQUERY_GATE_DISTINCTIVE_LINES :: "string list" where
  "NATIVE_PREFIX_CQUERY_GATE_DISTINCTIVE_LINES =
     [''bazel_cquery_single_file'',
      ''resolve_default_action_prefixes'',
      ''native_prefix_paths'',
      ''_action_prefix'',
      ''release_wheel_manifest_targets'']"

definition NATIVE_PREFIX_CQUERY_GATE_ALLOWED_LINES :: "string list" where
  "NATIVE_PREFIX_CQUERY_GATE_ALLOWED_LINES =
     [[],
      '')'',
      ''\"$bazel_command\"'',
      ''\"jax-runtime-deps=//tools:jax_runtime_release_wheelhouse_manifest\"'',
      '':'',
      ''\"jaxlib=//tools:jaxlib_release_wheels_manifest\"'',
      ''\"pytorch=//tools:pytorch_release_wheel_manifest\"'',
      ''\"torch-runtime-deps=//tools:torch_runtime_release_wheelhouse_manifest\"'',
      ''\"torchaudio=//tools:torchaudio_release_wheel_manifest\"'',
      ''\"torchvision=//tools:torchvision_release_wheel_manifest\"'',
      ''\"triton=//tools:triton_release_wheel_manifest\"'',
      ''[[ -n \"$file\" ]] || continue'',
      ''fi'',
      ''actual=\"$(bazel_cquery_single_file \"$target\")\" || return'',
      ''add_release_tokens args'',
      ''add_release_tokens out_args'',
      ''append_native_bazel_disk_cache_gc_args args'',
      ''append_native_bazel_disk_cache_gc_args out_args'',
      ''append_native_determinism_bazel_args args \"$line\" \"$REPO_ROOT\" \"$commit\" \"$release_bazel_ob\" \"/vaso/lines/$line/work\" \"$source_date_epoch\"'',
      ''append_native_determinism_bazel_args out_args \"$line\" \"$REPO_ROOT\" \"$commit\" \"$release_bazel_ob\" \"/vaso/lines/$line/work\" \"$source_date_epoch\"'',
      ''append_runtime_args jax_runtime_prefixes jax_runtime_args'',
      ''append_runtime_args jaxlib_deps_prefixes jaxlib_deps_runtime_args'',
      ''append_runtime_args torch_runtime_prefixes torch_runtime_args'',
      ''args+=(--nofetch --repository_disable_download --output=files)'',
      ''assert_named_cquery_files release_runtime_wheel_manifest_targets release_runtime_wheel_manifests || return $?'',
      ''return $?'',
      ''assert_named_cquery_files release_wheel_manifest_targets release_wheel_manifests || return $?'',
      ''assert_named_cquery_files() {'',
      ''bazel_cquery_single_file() {'',
      ''bazel_exe=\"$(bazel_executable)\"'',
      ''bazel_exe=\"bazel\"'',
      ''bazel_executable() {'',
      ''bazel_profile_build_stage() {'',
      ''build'',
      ''bazel_profile_command_args args build'',
      ''bazel_profile_command_args args cquery'',
      ''bazel_profile_command_args() {'',
      ''break'',
      ''configure_default_runtime_prefixes'',
      ''configure_default_runtime_prefixes() {'',
      ''done'',
      ''echo \"cquery path drift for $name: expected $expected, got $actual\" >&2'',
      ''echo \"expected exactly one cquery file for $target, got ${#nonempty[@]}\" >&2'',
      ''}'',
      ''echo \"missing expected path for cquery target $target_item\" >&2'',
      ''echo \"no Bazel targets configured for $target_array_name\" >&2'',
      ''else'',
      ''expected=\"\"'',
      ''expected=\"${path_item#*=}\"'',
      ''file=\"${nonempty[0]}\"'',
      ''for file in \"${files[@]}\"; do'',
      ''for path_item in \"${paths[@]}\"; do'',
      ''for target_item in \"${targets[@]}\"; do'',
      ''found=0'',
      ''found=1'',
      ''if [[ ! -x \"$bazel_exe\" ]]; then'',
      ''if [[ \"$actual\" != \"$expected\" ]]; then'',
      ''if [[ \"$file\" == /* ]]; then'',
      ''if [[ \"$found\" != \"1\" ]]; then'',
      ''if [[ \"$jaxlib_prefix_overridden\" == \"0\" ]]; then'',
      ''if [[ \"$last_stage_rc\" != \"0\" ]]; then'',
      ''if [[ \"$profile\" == \"torch\" ]]; then'',
      ''if [[ \"$torch_prefix_overridden\" == \"0\" ]]; then'',
      ''if [[ \"$torch_ref_prefix_overridden\" == \"0\" ]]; then'',
      ''if [[ \"$torchaudio_prefix_overridden\" == \"0\" ]]; then'',
      ''if [[ \"$torchvision_prefix_overridden\" == \"0\" ]]; then'',
      ''if [[ \"$triton_prefix_overridden\" == \"0\" ]]; then'',
      ''if [[ \"${#build_targets[@]}\" -eq 0 ]]; then'',
      ''if [[ \"${#nonempty[@]}\" -ne 1 ]]; then'',
      ''if [[ \"${#runtime_prefixes[@]}\" -eq 0 ]]; then'',
      ''if [[ \"${#runtime_prefixes[@]}\" -ne 0 ]]; then'',
      ''if [[ \"${path_item%%=*}\" == \"$name\" ]]; then'',
      ''if query_output=\"$(\"$bazel_exe\" \"${args[@]}\" \"$target\")\"; then'',
      ''jax_runtime_prefixes=(\"${runtime_prefixes[@]}\")'',
      ''jaxlib_deps_prefixes=(\"${runtime_prefixes[@]}\")'',
      ''jaxlib_prefix=\"$(bazel_cquery_single_file //tools:jaxlib_action_prefix)\" || return'',
      ''jaxlib_prefix=\"${jaxlib_prefix:-$ob/execroot/_main/bazel-out/k8-fastbuild/bin/native/jaxlib/jaxlib_action_prefix}\"'',
      ''jaxlib_prefix_overridden=0'',
      ''jaxlib_prefix_overridden=1'',
      ''local -n build_targets=\"$target_array_name\"'',
      ''local -n out_args=\"$1\"'',
      ''local -n paths=\"$path_array_name\"'',
      ''local -n targets=\"$target_array_name\"'',
      ''local args=('',
      ''local args=()'',
      ''local bazel_command=\"$2\"'',
      ''local bazel_exe'',
      ''local bazel_exe=\"${VASO_BAZEL_EXE:-/vaso/tools/bin/bazel}\"'',
      ''local file'',
      ''local files=()'',
      ''local nonempty=()'',
      ''local path_array_name=\"$2\"'',
      ''local pytorch_jobs'',
      ''local query_output'',
      ''local target=\"$1\"'',
      ''local target_array_name=\"$1\"'',
      ''local target_item path_item name target expected actual found'',
      ''mapfile -t files <<<\"$query_output\"'',
      ''mkdir -p \"/vaso/lines/$line/state/native\"'',
      ''name=\"${target_item%%=*}\"'',
      ''nonempty+=(\"$file\")'',
      ''out_args=('',
      (''printf '' @ [CHR 0x27] @ ''  %s'' @ [backslash] @ ''n'' @ [CHR 0x27] @ '' \"${nonempty[@]}\" >&2''),
      (''printf '' @ [CHR 0x27] @ ''%s'' @ [backslash] @ ''n'' @ [CHR 0x27] @ '' \"$bazel_exe\"''),
      (''printf '' @ [CHR 0x27] @ ''%s'' @ [backslash] @ ''n'' @ [CHR 0x27] @ '' \"$file\"''),
      (''printf '' @ [CHR 0x27] @ ''%s'' @ [backslash] @ ''n'' @ [CHR 0x27] @ '' \"$pytorch_jobs\" > \"/vaso/lines/$line/state/native/pytorch_jobs.txt\"''),
      (''printf '' @ [CHR 0x27] @ ''%s'' @ [backslash] @ ''n'' @ [CHR 0x27] @ '' \"$release_bazel_ob/execroot/_main/$file\"''),
      ''pytorch_jobs=\"$(release_max_jobs VASO_PYTORCH_MAX_JOBS)\"'',
      ''release_pipeline_failed=1'',
      ''release_runtime_wheel_manifest_targets=('',
      ''release_runtime_wheel_manifest_targets=()'',
      ''release_wheel_manifest_targets=('',
      ''release_wheel_manifest_targets=()'',
      ''resolve_default_action_prefixes() {'',
      ''return 0'',
      ''return 2'',
      ''run_stage \"native_prefix_paths\" \"native_prefixes\" resolve_default_action_prefixes'',
      ''target=\"${target_item#*=}\"'',
      ''torch_prefix=\"$(bazel_cquery_single_file //tools:pytorch_action_prefix)\" || return'',
      ''torch_prefix=\"${torch_prefix:-$ob/execroot/_main/bazel-out/k8-fastbuild/bin/native/pytorch/pytorch_action_prefix}\"'',
      ''torch_prefix_overridden=0'',
      ''torch_prefix_overridden=1'',
      ''torch_ref_prefix=\"$torch_prefix\"'',
      ''torch_ref_prefix=\"${torch_ref_prefix:-$torch_prefix}\"'',
      ''torch_ref_prefix_overridden=0'',
      ''torch_ref_prefix_overridden=1'',
      ''torch_runtime_prefixes=(\"${runtime_prefixes[@]}\")'',
      ''torchaudio_prefix=\"$(bazel_cquery_single_file //tools:torchaudio_action_prefix)\" || return'',
      ''torchaudio_prefix=\"${torchaudio_prefix:-$ob/execroot/_main/bazel-out/k8-fastbuild/bin/native/torchaudio/torchaudio_action_prefix}\"'',
      ''torchaudio_prefix_overridden=0'',
      ''torchaudio_prefix_overridden=1'',
      ''torchvision_prefix=\"$(bazel_cquery_single_file //tools:torchvision_action_prefix)\" || return'',
      ''torchvision_prefix=\"${torchvision_prefix:-$ob/execroot/_main/bazel-out/k8-fastbuild/bin/native/torchvision/torchvision_action_prefix}\"'',
      ''torchvision_prefix_overridden=0'',
      ''torchvision_prefix_overridden=1'',
      ''triton_prefix=\"$(bazel_cquery_single_file //tools:triton_action_prefix)\" || return'',
      ''triton_prefix=\"${triton_prefix:-$ob/execroot/_main/bazel-out/k8-fastbuild/bin/native/triton/triton_action_prefix}\"'',
      ''triton_prefix_overridden=0'',
      ''triton_prefix_overridden=1'',
      ''write_native_job_state || return'',
      ''write_native_job_state() {'']"

end
