(* ===== verification/RebuildExact.thy ===== *)
theory RebuildExact
  imports RebuildRules
begin

text \<open>
  The exact mode of \<^verbatim>\<open>foundry/tools/rebuild_impact.py\<close>: the actions of a Bazel \<^verbatim>\<open>aquery\<close> with their
  inputs, and the comparison of two such snapshots. \<open>str\<close> is Python's text of other JSON values,
  \<open>digest\<close> answers what the content context says of an input, and the hash is SHA-256.
\<close>

section \<open>Causes of a difference\<close>

text \<open>\<open>\b(?:w)\b\<close> for a word of letters and underscores: an occurrence with no word character next to it.\<close>

definition re_word_char :: "char \<Rightarrow> bool" where
  "re_word_char c = (let n = (of_char c :: nat) in
     is_digit c \<or> (65 \<le> n \<and> n \<le> 90) \<or> (97 \<le> n \<and> n \<le> 122) \<or> n = 95
     \<or> n \<in> {170, 178, 179, 181, 185, 186, 188, 189, 190}
     \<or> (192 \<le> n \<and> n \<le> 255 \<and> n \<noteq> 215 \<and> n \<noteq> 247))"

fun word_from :: "bool \<Rightarrow> string \<Rightarrow> string \<Rightarrow> bool" where
  \<comment> \<open>\<open>inside\<close>: the character before is a word character\<close>
  "word_from inside w [] = False"
| "word_from inside w (c # cs) =
     (\<not> inside \<and> prefix w (c # cs) \<and> (case drop (length w) (c # cs) of [] \<Rightarrow> True | d # _ \<Rightarrow> \<not> re_word_char d)
      \<or> word_from (re_word_char c) w cs)"

definition has_word :: "string \<Rightarrow> string \<Rightarrow> bool" where
  "has_word s w = word_from False w s"

definition ascii_lower :: "string \<Rightarrow> string" where
  "ascii_lower s = map (\<lambda>c. let n = (of_char c :: nat) in if 65 \<le> n \<and> n \<le> 90 then char_of (n + 32) else c) s"

definition env_flag :: "string \<Rightarrow> bool" where
  "env_flag s = (contains s ''--action_env='' \<or> contains s ''--repo_env='')"

definition per_commit :: "string \<Rightarrow> bool" where
  "per_commit s = list_ex (has_word s)
     [''release_git_sha'', ''deterministic_seed'', ''source_date_epoch'', ''SOURCE_DATE_EPOCH'']"

definition job_setting :: "string \<Rightarrow> bool" where
  "job_setting s = list_ex (has_word s) [''max_jobs'', ''MAX_JOBS'', ''local_resources'', ''VASO_HOST_CPU_JOBS'']"

definition path_leak :: "string \<Rightarrow> bool" where
  "path_leak s = list_ex (contains s)
     [''/tmp'', ''/var/tmp'', ''/vaso/lines/'', ''output_base'', ''VASO_BAZEL_OB'', ''$PWD'', ''execroot'']"

definition toolchain_word :: "string \<Rightarrow> bool" where
  "toolchain_word s = list_ex (has_word (ascii_lower s))
     [''cc'', ''cxx'', ''cmake'', ''cuda'', ''cudnn'', ''nccl'', ''nvshmem'', ''compiler'', ''toolchain'', ''rootfs'']"

definition classify_arg_or_env :: "string \<Rightarrow> string \<Rightarrow> string" where
  "classify_arg_or_env n v =
     (let joined = n @ ''='' @ v in
      if env_flag joined then ''other''
      else if per_commit joined \<or> job_setting joined \<or> path_leak joined then ''other''
      else if toolchain_word joined then ''toolchain''
      else ''flags'')"

definition run_or_gate_script :: "string \<Rightarrow> bool" where
  "run_or_gate_script path =
     list_ex (\<lambda>c. c \<in> set [''run.sh'', ''scripts/agents/triumvirate-gate-insula.sh'', ''scripts/agents/triumvirate-gate.sh''])
       (candidate_paths path)"

definition classify_path :: "(json \<Rightarrow> string) \<Rightarrow> dict \<Rightarrow> string \<Rightarrow> string \<Rightarrow> string" where
  "classify_path str manifest package path =
     (let cs = candidate_paths path in
      case filter (\<lambda>r. path_matches r path) (rules_for_package str manifest package) of
        r # _ \<Rightarrow> rule_cause r
      | [] \<Rightarrow>
          if list_ex (\<lambda>c. prefix ''toolchains/'' c \<or> c = ''rootfs/cuda_ecosystem.lock.json'') cs then ''toolchain''
          else if list_ex (\<lambda>c. prefix ''locks/'' c \<or> suffix ''upstream_pins.json'' c) cs then ''source''
          else if list_ex (\<lambda>c. contains c ''/patches/'' \<or> suffix ''-submodules.json'' c \<or> suffix ''nested_http_archives.json'' c) cs
          then ''source''
          else if list_ex (\<lambda>c. suffix ''plan.py'' c \<or> suffix ''.plan.json'' c \<or> suffix ''BUILD.bazel'' c) cs then ''flags''
          else if list_ex (\<lambda>c. run_or_gate_script c \<or> c = ''tools/native_determinism_args.sh'') cs then ''flags''
          else ''other'')"

section \<open>The graph of an aquery\<close>

definition items_with_id :: "json \<Rightarrow> dict list" where
  "items_with_id v =
     filter (\<lambda>d. dhas d ''id'') (List.map_filter (\<lambda>x. case x of JObj d \<Rightarrow> Some d | _ \<Rightarrow> None) (as_list v))"

definition id_of :: "(json \<Rightarrow> string) \<Rightarrow> dict \<Rightarrow> string" where
  "id_of str d = text_of_json str (dget d ''id'')"

definition collect :: "('a \<Rightarrow> (string \<times> 'b) list) \<Rightarrow> 'a list \<Rightarrow> (string \<times> 'b) list" where
  \<comment> \<open>a dictionary that a loop fills: what each item sets, in turn\<close>
  "collect f xs = foldl (\<lambda>out (k, v). AList.update k v out) [] (concat (map f xs))"

type_synonym fragments = "(string \<times> (string \<times> string option)) list"

definition path_fragments :: "(json \<Rightarrow> string) \<Rightarrow> dict \<Rightarrow> fragments" where
  "path_fragments str doc =
     collect (\<lambda>d. [(id_of str d, (text_or str (dget d ''label'') [],
                    case dget d ''parentId'' of JNull \<Rightarrow> None | v \<Rightarrow> Some (text_of_json str v)))])
       (items_with_id (dget doc ''pathFragments''))"

function fragment_labels :: "fragments \<Rightarrow> string list \<Rightarrow> string option \<Rightarrow> string list" where
  \<comment> \<open>the labels from the fragment up to its root\<close>
  "fragment_labels fragments seen current =
     (case nonempty current of
        None \<Rightarrow> []
      | Some c \<Rightarrow>
          (case map_of fragments c of
             None \<Rightarrow> []
           | Some (label, up) \<Rightarrow>
               if c \<in> set seen then []
               else (if label = [] then [] else [label]) @ fragment_labels fragments (c # seen) up))"
  by pat_completeness auto
termination
proof (relation "measure (\<lambda>(fragments, seen, current). card (fst ` set fragments - set seen))", goal_cases)
  case (2 fragments seen current c entry label up)
  then have "c \<in> fst ` set fragments" by (force dest: map_of_SomeD)
  then have "fst ` set fragments - set (c # seen) \<subset> fst ` set fragments - set seen" using 2 by auto
  then show ?case by (auto intro!: psubset_card_mono)
qed simp

declare fragment_labels.simps [simp del]

definition resolve_fragment :: "fragments \<Rightarrow> string \<Rightarrow> string" where
  "resolve_fragment fragments fragment = join ''/'' (rev (fragment_labels fragments [] (Some fragment)))"

definition artifact_paths :: "(json \<Rightarrow> string) \<Rightarrow> dict \<Rightarrow> (string \<times> string) list" where
  "artifact_paths str doc =
     (let fragments = path_fragments str doc in
      collect (\<lambda>d.
          let direct = (if truthy (dget d ''execPath'') then dget d ''execPath'' else dget d ''path'');
              path = (if truthy direct then text_of_json str direct
                      else if dget d ''pathFragmentId'' \<noteq> JNull
                      then resolve_fragment fragments (text_of_json str (dget d ''pathFragmentId'')) else [])
          in if path = [] then [] else [(id_of str d, path)])
        (items_with_id (dget doc ''artifacts'')))"

type_synonym dep_sets = "(string \<times> (string list \<times> string list)) list"

definition dep_sets_of :: "(json \<Rightarrow> string) \<Rightarrow> dict \<Rightarrow> dep_sets" where
  \<comment> \<open>the identifiers of the direct artifacts and of the transitive sets\<close>
  "dep_sets_of str doc =
     collect (\<lambda>d. [(id_of str d,
                    (map (text_of_json str) (as_list (dget d ''directArtifactIds'')),
                     map (text_of_json str) (as_list (dget d ''transitiveDepSetIds''))))])
       (items_with_id (dget doc ''depSetOfFiles''))"

definition dep_item :: "dep_sets \<Rightarrow> string \<Rightarrow> string list \<times> string list" where
  "dep_item sets i = (case map_of sets i of None \<Rightarrow> ([], []) | Some x \<Rightarrow> x)"

definition direct_paths :: "(string \<times> string) list \<Rightarrow> dep_sets \<Rightarrow> string \<Rightarrow> string set" where
  "direct_paths artifacts sets i = set (List.map_filter (map_of artifacts) (fst (dep_item sets i)))"

type_synonym memo = "(string \<times> string set) list"

text \<open>
  The recursion of \<^verbatim>\<open>visit\<close> with its memo; \<open>depth\<close> is how far Python lets it recurse. A cycle uses it
  up and ends in \<^verbatim>\<open>RecursionError\<close>.
\<close>

fun visit :: "(string \<times> string) list \<Rightarrow> dep_sets \<Rightarrow> nat \<Rightarrow> memo \<Rightarrow> string \<Rightarrow> memo res" where
  "visit artifacts sets 0 memo i = Inl RecursionError"
| "visit artifacts sets (Suc depth) memo i =
     (if map_of memo i \<noteq> None then Inr memo
      else
        bindE (foldE (visit artifacts sets depth) memo (snd (dep_item sets i))) (\<lambda>memo'.
        Inr ((i, direct_paths artifacts sets i
                 \<union> \<Union> (set (map (\<lambda>j. case map_of memo' j of Some s \<Rightarrow> s | None \<Rightarrow> {}) (snd (dep_item sets i))))) # memo')))"

definition depset_inputs :: "nat \<Rightarrow> (json \<Rightarrow> string) \<Rightarrow> dict \<Rightarrow> memo res" where
  "depset_inputs depth str doc =
     (let sets = dep_sets_of str doc in
      bindE (foldE (visit (artifact_paths str doc) sets depth) [] (map fst sets)) (\<lambda>memo.
      Inr (map (\<lambda>i. (i, case map_of memo i of Some s \<Rightarrow> s | None \<Rightarrow> {})) (map fst sets))))"

section \<open>Snapshots\<close>

record snapshot =
  snap_mnemonic :: string
  snap_label :: string
  snap_key :: "string option"
  snap_inputs :: "string set"
  snap_arguments :: "string list"
  snap_env :: "(string \<times> string) list"
  input_digests :: "(string \<times> string) list"
  unverified_inputs :: "(string \<times> string) list"

definition target_labels :: "(json \<Rightarrow> string) \<Rightarrow> dict \<Rightarrow> (string \<times> string) list" where
  "target_labels str doc =
     collect (\<lambda>d. [(id_of str d, text_or str (dget d ''label'') [])]) (items_with_id (dget doc ''targets''))"

definition env_map :: "(json \<Rightarrow> string) \<Rightarrow> dict \<Rightarrow> (string \<times> string) list" where
  "env_map str action =
     collect (\<lambda>d.
         let key = (if dhas d ''name'' then dget d ''name'' else dget d ''key'')
         in if key = JNull then [] else [(text_of_json str key, text_or str (dget d ''value'') [])])
       (List.map_filter (\<lambda>x. case x of JObj d \<Rightarrow> Some d | _ \<Rightarrow> None) (as_list (dget action ''environmentVariables'')))"

text \<open>What the content context says of an input: its digest, or why there is none.\<close>

type_synonym content_context = "string \<Rightarrow> string option \<times> string option"

definition digest_inputs ::
  "content_context \<Rightarrow> string list \<Rightarrow> (string \<times> string) list \<times> (string \<times> string) list" where
  "digest_inputs digest inputs =
     (List.map_filter (\<lambda>p. map_option (Pair p) (fst (digest p))) inputs,
      List.map_filter (\<lambda>p. case digest p of
          (Some _, _) \<Rightarrow> None
        | (None, reason) \<Rightarrow> Some (p, case nonempty reason of Some r \<Rightarrow> r | None \<Rightarrow> ''unverified-content'')) inputs)"

definition action_snapshot ::
  "(json \<Rightarrow> string) \<Rightarrow> content_context option \<Rightarrow> (string \<times> string) list \<Rightarrow> memo \<Rightarrow> dict \<Rightarrow> snapshot" where
  "action_snapshot str context labels inputs_of action =
     (let inputs = \<Union> (set (map (\<lambda>v. case map_of inputs_of (text_of_json str v) of Some s \<Rightarrow> s | None \<Rightarrow> {})
                               (as_list (dget action ''inputDepSetIds''))));
          (digests, unverified) =
            (case context of None \<Rightarrow> ([], []) | Some digest \<Rightarrow> digest_inputs digest (sorted_list_of_set inputs));
          key = text_or str (dget action ''actionKey'') []
      in \<lparr>snap_mnemonic = text_or str (dget action ''mnemonic'') [],
          snap_label = (if dget action ''targetId'' = JNull then []
                        else case map_of labels (text_of_json str (dget action ''targetId'')) of Some l \<Rightarrow> l | None \<Rightarrow> []),
          snap_key = (if key = [] then None else Some key),
          snap_inputs = inputs, snap_arguments = map (text_of_json str) (as_list (dget action ''arguments'')),
          snap_env = env_map str action, input_digests = digests, unverified_inputs = unverified\<rparr>)"

definition nul_char :: string where
  "nul_char = [char_of (0::nat)]"

definition signature_parts :: "(string option \<Rightarrow> string) \<Rightarrow> snapshot \<Rightarrow> string" where
  \<comment> \<open>what one of several actions of a mnemonic adds to their common key\<close>
  "signature_parts shown a =
     snap_label a @ nul_char @ shown (snap_key a) @ nul_char
     @ concat (map (\<lambda>(p, d). p @ nul_char @ d @ nul_char) (sort_key fst (input_digests a)))
     @ concat (map (\<lambda>(p, r). p @ nul_char @ r @ nul_char) (sort_key fst (unverified_inputs a)))"

definition shown_key :: "string option \<Rightarrow> string" where
  "shown_key k = (case k of None \<Rightarrow> ''None'' | Some s \<Rightarrow> s)"

definition update_pairs :: "(string \<times> 'a) list \<Rightarrow> (string \<times> 'a) list \<Rightarrow> (string \<times> 'a) list" where
  "update_pairs out new = foldl (\<lambda>out (k, v). AList.update k v out) out new"

definition merge_actions :: "(string \<Rightarrow> string) \<Rightarrow> string \<Rightarrow> snapshot list \<Rightarrow> snapshot" where
  "merge_actions sha256 mnemonic actions =
     (case sort_key snap_label actions of
        [a] \<Rightarrow> a
      | as \<Rightarrow>
          \<lparr>snap_mnemonic = mnemonic, snap_label = join '','' (map snap_label as),
           snap_key = Some (sha256 (concat (map (signature_parts shown_key) as))),
           snap_inputs = \<Union> (set (map snap_inputs as)), snap_arguments = concat (map snap_arguments as),
           snap_env = update_pairs [] (concat (map (\<lambda>a. map (\<lambda>(k, v). (snap_label a @ '':'' @ k, v)) (snap_env a)) as)),
           input_digests = update_pairs [] (concat (map (\<lambda>a. sort_key fst (input_digests a)) as)),
           unverified_inputs = update_pairs [] (concat (map (\<lambda>a. sort_key fst (unverified_inputs a)) as))\<rparr>)"

definition parse_aquery ::
  "(string \<Rightarrow> string) \<Rightarrow> nat \<Rightarrow> (json \<Rightarrow> string) \<Rightarrow> content_context option \<Rightarrow> json \<Rightarrow> (string \<times> snapshot) list res" where
  "parse_aquery sha256 depth str context v =
     (case v of
        JObj doc \<Rightarrow>
          bindE (depset_inputs depth str doc) (\<lambda>inputs_of.
          let actions = filter (\<lambda>a. text_or str (dget a ''mnemonic'') [] \<in> set NATIVE_MNEMONICS)
                (List.map_filter (\<lambda>x. case x of JObj d \<Rightarrow> Some d | _ \<Rightarrow> None) (as_list (dget doc ''actions'')));
              snaps = map (action_snapshot str context (target_labels str doc) inputs_of) actions
          in Inr (map (\<lambda>m. (m, merge_actions sha256 m (filter (\<lambda>s. snap_mnemonic s = m) snaps)))
                    (first_of (map snap_mnemonic snaps))))
      | _ \<Rightarrow> fail ''{} must contain a JSON object'' [])"
section \<open>The comparison\<close>

definition first_diff :: "string list \<Rightarrow> string list \<Rightarrow> string list \<times> string list" where
  "first_diff before after =
     (filter (\<lambda>x. x \<notin> set after) before, filter (\<lambda>x. x \<notin> set before) after)"

definition either_label :: "snapshot \<Rightarrow> snapshot \<Rightarrow> string" where
  "either_label before after = (if snap_label before \<noteq> [] then snap_label before else snap_label after)"

definition changed_contents :: "snapshot \<Rightarrow> snapshot \<Rightarrow> string list" where
  "changed_contents before after =
     filter (\<lambda>p. case (map_of (input_digests before) p, map_of (input_digests after) p) of
                   (Some old, Some new) \<Rightarrow> old \<noteq> new
                 | _ \<Rightarrow> False)
       (sorted_list_of_set (snap_inputs before \<inter> snap_inputs after))"

definition unverified_paths :: "snapshot \<Rightarrow> snapshot \<Rightarrow> string list" where
  "unverified_paths before after =
     sorted_list_of_set (fst ` set (unverified_inputs before) \<union> fst ` set (unverified_inputs after))"

definition unverified_detail :: "snapshot \<Rightarrow> snapshot \<Rightarrow> string" where
  "unverified_detail before after =
     (let ps = unverified_paths before after; n = length ps;
          count = (\<lambda>s. string_of_nat (length (filter (\<lambda>p. p \<in> fst ` set (unverified_inputs s)) ps)))
      in ''unverified-content: '' @ string_of_nat n @ '' input(s) could not be digested (base='' @ count before
         @ '', head='' @ count after @ ''; examples: '' @ join '', '' (take 5 ps)
         @ (if 5 < n then '', ... (+'' @ string_of_nat (n - 5) @ '' more)'' else []) @ '')'')"

definition add_input_content_causes ::
  "(json \<Rightarrow> string) \<Rightarrow> dict \<Rightarrow> string \<Rightarrow> snapshot \<Rightarrow> snapshot \<Rightarrow> package_result \<Rightarrow> package_result" where
  "add_input_content_causes str manifest package before after r =
     (let r1 = foldl (\<lambda>r p. add_cause p (classify_path str manifest package p) (''input content changed: '' @ p) ''rebuild'' r)
                 r (changed_contents before after)
      in if unverified_paths before after = [] then r1
         else add_cause (either_label before after) ''other'' (unverified_detail before after) ''may-rebuild'' r1)"

definition add_input_causes ::
  "(json \<Rightarrow> string) \<Rightarrow> dict \<Rightarrow> string \<Rightarrow> snapshot \<Rightarrow> snapshot \<Rightarrow> package_result \<Rightarrow> package_result" where
  "add_input_causes str manifest package before after r =
     foldl (\<lambda>r p. add_cause p (classify_path str manifest package p) (''input changed: '' @ p) ''rebuild'' r) r
       (sorted_list_of_set ((snap_inputs before - snap_inputs after) \<union> (snap_inputs after - snap_inputs before)))"

definition add_argument_causes :: "snapshot \<Rightarrow> snapshot \<Rightarrow> package_result \<Rightarrow> package_result" where
  "add_argument_causes before after r =
     (let (removed, added) = first_diff (snap_arguments before) (snap_arguments after) in
      if removed = [] \<and> added = [] then r
      else
        let detail = ''args changed: '' @ join ''; '' (map (\<lambda>a. ''- '' @ a) (take 5 removed) @ map (\<lambda>a. ''+ '' @ a) (take 5 added));
            cls = (if list_ex (\<lambda>a. classify_arg_or_env ''arg'' a = ''other'') (removed @ added) then ''other'' else ''flags'')
        in add_cause (either_label before after) cls detail ''rebuild'' r)"

definition shown_value :: "string option \<Rightarrow> string" where
  "shown_value v = (case v of None \<Rightarrow> ''None'' | Some s \<Rightarrow> s)"

definition add_env_cause :: "snapshot \<Rightarrow> snapshot \<Rightarrow> package_result \<Rightarrow> string \<Rightarrow> package_result" where
  "add_env_cause before after r key =
     (let old = map_of (snap_env before) key; new = map_of (snap_env after) key;
          change = shown_value old @ ''->'' @ shown_value new
      in if old = new then r
         else add_cause (either_label before after) (classify_arg_or_env key change)
                (''env '' @ key @ '' changed: '' @ shown_value old @ '' -> '' @ shown_value new) ''rebuild'' r)"

definition add_env_causes :: "snapshot \<Rightarrow> snapshot \<Rightarrow> package_result \<Rightarrow> package_result" where
  "add_env_causes before after r =
     foldl (add_env_cause before after) r
       (sorted_list_of_set (fst ` set (snap_env before) \<union> fst ` set (snap_env after)))"

definition add_key_cause :: "snapshot \<Rightarrow> snapshot \<Rightarrow> package_result \<Rightarrow> package_result" where
  "add_key_cause before after r =
     (if snap_key before \<noteq> snap_key after \<and> result_causes r = []
      then add_cause (either_label before after) ''other''
             ''action key changed without visible input, argument, or environment diff'' ''rebuild'' r
      else r)"

definition compare_snapshots ::
  "(json \<Rightarrow> string) \<Rightarrow> dict \<Rightarrow> string \<Rightarrow> snapshot \<Rightarrow> snapshot \<Rightarrow> package_result \<Rightarrow> package_result" where
  "compare_snapshots str manifest package before after r =
     add_key_cause before after
       (add_env_causes before after
         (add_argument_causes before after
           (add_input_content_causes str manifest package before after
             (add_input_causes str manifest package before after r))))"

definition HOST_EXACT_PACKAGES :: "string list" where
  "HOST_EXACT_PACKAGES = [''bzip2'', ''xz'', ''zlib-ng'', ''zstd'']"

definition compare_package ::
  "(json \<Rightarrow> string) \<Rightarrow> dict \<Rightarrow> bool \<Rightarrow> (string \<times> snapshot) list \<Rightarrow> (string \<times> snapshot) list
     \<Rightarrow> string \<times> package_result \<Rightarrow> string \<times> package_result" where
  "compare_package str manifest insula base head entry =
     (let (package, r) = entry; m = result_mnemonic r in
      if m \<notin> set NATIVE_MNEMONICS then entry
      else
        let before = map_of base m; after = map_of head m;
            keyed = r\<lparr>action_keys := Some (case before of None \<Rightarrow> None | Some b \<Rightarrow> snap_key b,
                                          case after of None \<Rightarrow> None | Some a \<Rightarrow> snap_key a)\<rparr>
        in (package,
            case (before, after) of
              (None, None) \<Rightarrow>
                if \<not> insula \<and> package \<notin> set HOST_EXACT_PACKAGES
                then r\<lparr>result_status := ''needs-insula'',
                       result_note := Some ''host aquery cannot analyse this native action; rerun --exact --insula inside foundry/insula.sh''\<rparr>
                else add_cause m ''other'' ''native action is missing from both snapshots; absence is not proof of unchanged inputs''
                       ''may-rebuild'' r
            | (Some b, Some a) \<Rightarrow> compare_snapshots str manifest package b a keyed
            | _ \<Rightarrow> add_cause [] ''other'' ''native action is present on only one side of the comparison'' ''rebuild'' keyed))"

definition compare_exact_actions ::
  "(json \<Rightarrow> string) \<Rightarrow> dict \<Rightarrow> bool \<Rightarrow> (string \<times> snapshot) list \<Rightarrow> (string \<times> snapshot) list \<Rightarrow> rebuild_report" where
  "compare_exact_actions str manifest insula base head =
     make_report (map (compare_package str manifest insula base head) (initial_results manifest))"

definition exact_from_json ::
  "(string \<Rightarrow> string) \<Rightarrow> nat \<Rightarrow> (json \<Rightarrow> string) \<Rightarrow> dict \<Rightarrow> bool \<Rightarrow> content_context \<Rightarrow> content_context \<Rightarrow> json \<Rightarrow> json
     \<Rightarrow> rebuild_report res" where
  "exact_from_json sha256 depth str manifest insula base_context head_context base head =
     bindE (parse_aquery sha256 depth str (Some base_context) base) (\<lambda>b.
     bindE (parse_aquery sha256 depth str (Some head_context) head) (\<lambda>h.
     Inr (compare_exact_actions str manifest insula b h)))"

end
