(* ===== verification/RebuildFast.thy ===== *)
theory RebuildFast
  imports RebuildLines RebuildExact
begin

text \<open>
  The fast mode of \<^verbatim>\<open>foundry/tools/rebuild_impact.py\<close>: the lines of a diff, the changes of scripts that
  are exempt, the hazards in the changed lines, and the report over the changed paths. What git answers
  is a parameter: \<open>before\<close> and \<open>after\<close> give the text of a path on the two sides of the comparison.
\<close>

section \<open>The lines of a diff\<close>

definition without_b :: "string \<Rightarrow> string" where
  "without_b p = (if prefix ''b/'' p then drop 2 p else p)"

definition diff_git_line :: "string \<Rightarrow> bool" where
  "diff_git_line line = prefix ''diff --git '' line"

definition next_path :: "string \<Rightarrow> string \<Rightarrow> string" where
  \<comment> \<open>the path that a header line names\<close>
  "next_path current line =
     (if diff_git_line line then
        (let ws = words_of line in if 4 \<le> length ws then without_b (ws ! 3) else current)
      else
        (let p = strip (drop 4 line) in if prefix ''b/'' p then drop 2 p else current))"

definition header_line :: "string \<Rightarrow> bool" where
  "header_line line = (diff_git_line line \<or> prefix ''+++ '' line)"

definition changed_line :: "string \<Rightarrow> bool" where
  "changed_line line =
     (\<not> prefix ''+++'' line \<and> \<not> prefix ''---'' line \<and> \<not> prefix (''@'' @ ''@'') line
      \<and> (prefix ''+'' line \<or> prefix ''-'' line))"

type_synonym lines_by_path = "(string \<times> string list) list"

definition append_line :: "string \<Rightarrow> string \<Rightarrow> lines_by_path \<Rightarrow> lines_by_path" where
  \<comment> \<open>\<^verbatim>\<open>lines.setdefault(path, []).append(line)\<close>\<close>
  "append_line p line m = AList.update p ((case map_of m p of None \<Rightarrow> [] | Some ls \<Rightarrow> ls) @ [line]) m"

definition diff_step :: "bool \<Rightarrow> string \<times> lines_by_path \<Rightarrow> string \<Rightarrow> string \<times> lines_by_path" where
  "diff_step keep_sign state line =
     (let (current, m) = state in
      if header_line line then (next_path current line, m)
      else if current \<noteq> [] \<and> changed_line line
      then (current, append_line current (if keep_sign then line else tl line) m)
      else (current, m))"

definition changed_lines_by_path :: "bool \<Rightarrow> string \<Rightarrow> lines_by_path" where
  "changed_lines_by_path keep_sign diff = snd (foldl (diff_step keep_sign) ([], []) (splitlines False diff))"

definition share_name :: "string \<Rightarrow> string \<Rightarrow> bool" where
  "share_name p q = (\<exists>c\<in>set (candidate_paths p). c \<in> set (candidate_paths q))"

definition changed_lines_for_path :: "string \<Rightarrow> lines_by_path \<Rightarrow> string list" where
  "changed_lines_for_path path m = concat (map snd (filter (\<lambda>(p, ls). share_name path p) m))"

section \<open>Exempt changes of scripts\<close>

definition named_as :: "string list \<Rightarrow> string \<Rightarrow> bool" where
  \<comment> \<open>one of the names of the path is in the list\<close>
  "named_as ns path = list_ex (\<lambda>c. c \<in> set ns) (candidate_paths path)"

definition only_lines :: "(string \<Rightarrow> bool) \<Rightarrow> (string \<Rightarrow> bool) \<Rightarrow> string list \<Rightarrow> bool" where
  \<comment> \<open>there are lines, one of them is distinctive, and all are allowed\<close>
  "only_lines distinctive allowed lines = (lines \<noteq> [] \<and> list_ex distinctive lines \<and> list_all allowed lines)"

definition GATE_SCRIPT :: string where
  "GATE_SCRIPT = ''scripts/agents/triumvirate-gate.sh''"

definition GATE_INSULA_SCRIPT :: string where
  "GATE_INSULA_SCRIPT = ''scripts/agents/triumvirate-gate-insula.sh''"

definition estate_only_script_change :: "string \<Rightarrow> lines_by_path \<Rightarrow> bool" where
  "estate_only_script_change path m =
     (run_or_gate_script path
      \<and> only_lines (\<lambda>_. True) (line_matches ESTATE_ONLY_LINES) (changed_lines_for_path path m))"

definition host_gate_copyback_only_script_change :: "string \<Rightarrow> lines_by_path \<Rightarrow> bool" where
  "host_gate_copyback_only_script_change path m =
     (named_as [GATE_SCRIPT] path
      \<and> only_lines (mentions HOST_GATE_COPYBACK_DISTINCTIVE_LINES) (\<lambda>l. l \<in> set HOST_GATE_COPYBACK_ALLOWED_LINES)
          (map strip (changed_lines_for_path path m)))"

definition disk_cache_gc_only_script_change :: "string \<Rightarrow> lines_by_path \<Rightarrow> bool" where
  "disk_cache_gc_only_script_change path m =
     (list_ex (\<lambda>c. run_or_gate_script c \<or> c = ''tools/native_determinism_args.sh'') (candidate_paths path)
      \<and> only_lines (\<lambda>_. True) (line_matches DISK_CACHE_GC_LINES) (changed_lines_for_path path m))"

definition coreutils_offline_fetch_only_script_change :: "string \<Rightarrow> lines_by_path \<Rightarrow> bool" where
  "coreutils_offline_fetch_only_script_change path m =
     (named_as [''run.sh''] path
      \<and> only_lines (mentions COREUTILS_OFFLINE_FETCH_DISTINCTIVE_LINES) (line_matches COREUTILS_OFFLINE_FETCH_LINES)
          (changed_lines_for_path path m))"

definition leaf_action_offline_fetch_only_script_change :: "string \<Rightarrow> lines_by_path \<Rightarrow> bool" where
  "leaf_action_offline_fetch_only_script_change path m =
     (named_as [''run.sh''] path
      \<and> only_lines (mentions LEAF_ACTION_OFFLINE_FETCH_DISTINCTIVE_LINES) (line_matches LEAF_ACTION_OFFLINE_FETCH_LINES)
          (changed_lines_for_path path m))"

definition consumer_conformance_gate_only_script_change :: "string \<Rightarrow> lines_by_path \<Rightarrow> bool" where
  "consumer_conformance_gate_only_script_change path m =
     (named_as [GATE_INSULA_SCRIPT] path
      \<and> only_lines (mentions CONSUMER_CONFORMANCE_GATE_DISTINCTIVE_LINES) (line_matches CONSUMER_CONFORMANCE_GATE_LINES)
          (changed_lines_for_path path m))"

definition native_prefix_cquery_gate_only_script_change :: "string \<Rightarrow> lines_by_path \<Rightarrow> bool" where
  "native_prefix_cquery_gate_only_script_change path m =
     (named_as [GATE_INSULA_SCRIPT] path
      \<and> only_lines (mentions NATIVE_PREFIX_CQUERY_GATE_DISTINCTIVE_LINES) (\<lambda>l. l \<in> set NATIVE_PREFIX_CQUERY_GATE_ALLOWED_LINES)
          (map strip (changed_lines_for_path path m)))"

definition NATIVE_PREFIX_QUERY_TARGETS :: "(string \<times> (string \<times> string \<times> string)) list" where
  "NATIVE_PREFIX_QUERY_TARGETS =
     [(''jaxlib'', (''jaxlib_action_prefix_path'', ''jaxlib_action'', ''jax'')),
      (''pytorch'', (''pytorch_action_prefix_path'', ''pytorch_action'', ''torch'')),
      (''torchaudio'', (''torchaudio_action_prefix_path'', ''torchaudio_action'', ''torch'')),
      (''torchvision'', (''torchvision_action_prefix_path'', ''torchvision_action'', ''torch'')),
      (''triton'', (''triton_action_prefix_path'', ''triton_action'', ''torch''))]"

definition query_target :: "string \<Rightarrow> (string \<times> string \<times> string) option" where
  \<comment> \<open>the first name of the path that is a build file of a queried package\<close>
  "query_target path =
     (case List.map_filter (\<lambda>c. map_option snd (find (\<lambda>(d, _). c = ''native/'' @ d @ ''/BUILD.bazel'') NATIVE_PREFIX_QUERY_TARGETS))
             (candidate_paths path) of
        [] \<Rightarrow> None
      | t # _ \<Rightarrow> Some t)"

definition native_prefix_path_query_build_only_change :: "string \<Rightarrow> lines_by_path \<Rightarrow> bool" where
  "native_prefix_path_query_build_only_change path m =
     (case query_target path of
        None \<Rightarrow> False
      | Some (name, output_basename, profile) \<Rightarrow>
          only_lines (\<lambda>l. contains l ''native_action_prefix_path'')
            (\<lambda>l. l \<in> set [[], ''load(\"//native/common:native_output_path_query.bzl\", \"native_action_prefix_path\")'',
                         ''native_action_prefix_path('', ''name = \"'' @ name @ ''\",'',
                         ''output_basename = \"'' @ output_basename @ ''\",'', ''profile = \"'' @ profile @ ''\",'',
                         ''tags = [\"manual\"],'', '')''])
            (map strip (changed_lines_for_path path m)))"

definition native_prefix_cquery_only_change :: "string \<Rightarrow> lines_by_path \<Rightarrow> bool" where
  "native_prefix_cquery_only_change path m =
     (native_prefix_cquery_gate_only_script_change path m \<or> native_prefix_path_query_build_only_change path m)"

section \<open>Moves of the graph root\<close>

type_synonym blobs = "string \<Rightarrow> string option"

definition RUN_SCRIPTS :: "string list" where
  "RUN_SCRIPTS = map (\<lambda>p. p @ ''run.sh'') GRAPH_PREFIXES"

definition stripped_lines :: "string \<Rightarrow> string list" where
  "stripped_lines s = map strip (splitlines False s)"

definition REPO_ROOT_LINE :: string where
  "REPO_ROOT_LINE = ''REPO_ROOT=\"$(cd \"$EXP_DIR/..\" && pwd)\"''"

definition relocated_run_script :: "blobs \<Rightarrow> blobs \<Rightarrow> bool" where
  \<comment> \<open>the branch for the run script: it moved forward, once, and finds its root from there\<close>
  "relocated_run_script before after =
     (let locations = rev RUN_SCRIPTS;
          origins = filter (\<lambda>l. before l \<noteq> None) locations;
          destinations = filter (\<lambda>l. after l \<noteq> None) locations
      in case (origins, destinations) of
           ([origin], [destination]) \<Rightarrow>
             destination \<noteq> hd locations \<and> place_in locations origin \<le> place_in locations destination
             \<and> (case after destination of
                  None \<Rightarrow> False
                | Some text \<Rightarrow> filter (prefix ''REPO_ROOT='') (stripped_lines text) = [REPO_ROOT_LINE])
         | _ \<Rightarrow> False)"

definition EXP_DIR_LINES :: "string list" where
  "EXP_DIR_LINES = map (\<lambda>p. ''EXP_DIR=\"$ROOT/'' @ rstrip_char (CHR ''/'') p @ ''\"'') (rev GRAPH_PREFIXES)"

definition relocated_gate_script :: "blobs \<Rightarrow> blobs \<Rightarrow> bool" where
  "relocated_gate_script before after =
     (case (after GATE_SCRIPT, before GATE_SCRIPT) of
        (Some new_text, Some old_text) \<Rightarrow>
          (case (filter (prefix ''EXP_DIR='') (stripped_lines old_text), filter (prefix ''EXP_DIR='') (stripped_lines new_text)) of
             ([old], [new]) \<Rightarrow>
               old \<in> set EXP_DIR_LINES \<and> new \<in> set EXP_DIR_LINES \<and> place_in EXP_DIR_LINES old < place_in EXP_DIR_LINES new
           | _ \<Rightarrow> False)
      | _ \<Rightarrow> False)"

definition valid_relocated_script :: "blobs \<Rightarrow> blobs \<Rightarrow> string \<Rightarrow> bool" where
  "valid_relocated_script before after path =
     (if path \<in> set RUN_SCRIPTS then relocated_run_script before after
      else if path = GATE_SCRIPT then relocated_gate_script before after
      else False)"

definition first_blob :: "blobs \<Rightarrow> string \<Rightarrow> string option" where
  "first_blob blobs rel =
     (case List.map_filter (\<lambda>p. blobs (p @ rel)) GRAPH_PREFIXES of [] \<Rightarrow> None | b # _ \<Rightarrow> Some b)"

definition path_only_graph_root_relocation :: "blobs \<Rightarrow> blobs \<Rightarrow> string \<Rightarrow> bool" where
  "path_only_graph_root_relocation before after path =
     (case graph_relative_path path of
        None \<Rightarrow> False
      | Some rel \<Rightarrow>
          if rel = ''run.sh'' \<and> \<not> valid_relocated_script before after path then False
          else first_blob before rel \<noteq> None \<and> first_blob before rel = first_blob after rel)"

definition graph_root_relocation_only_script_change :: "blobs \<Rightarrow> blobs \<Rightarrow> string \<Rightarrow> lines_by_path \<Rightarrow> bool" where
  "graph_root_relocation_only_script_change before after path m =
     (valid_relocated_script before after path
      \<and> only_lines (line_matches GRAPH_ROOT_RELOCATION_DISTINCTIVE_LINES)
          (\<lambda>l. l \<in> set (if path = GATE_SCRIPT then GRAPH_GATE_ROOT_RELOCATION_ALLOWED_LINES
                        else GRAPH_RUN_ROOT_RELOCATION_ALLOWED_LINES))
          (map strip (changed_lines_for_path path m)))"

definition third_party_mount_only_script_change :: "blobs \<Rightarrow> blobs \<Rightarrow> string \<Rightarrow> lines_by_path \<Rightarrow> bool" where
  "third_party_mount_only_script_change before after path m =
     (path \<in> set RUN_SCRIPTS \<and> valid_relocated_script before after path
      \<and> only_lines (\<lambda>l. l \<in> set THIRD_PARTY_MOUNT_ALLOWED_LINES)
          (\<lambda>l. l \<in> set THIRD_PARTY_MOUNT_ALLOWED_LINES \<union> set GRAPH_RUN_ROOT_RELOCATION_ALLOWED_LINES)
          (map strip (changed_lines_for_path path m)))"

text \<open>The names that a list of signed lines takes away and adds below \<^verbatim>\<open>graphs/\<close>, if they do nothing else.\<close>

fun capture_moves :: "string list \<Rightarrow> (string list \<times> string list) option" where
  "capture_moves [] = Some ([], [])"
| "capture_moves (line # lines) =
     (let content = strip (tl line); graphs = prefix ''graphs/'' content;
          name = (if graphs then drop 7 content else content)
      in if (prefix ''+'' line \<and> graphs \<or> prefix ''-'' line \<and> \<not> graphs) \<and> name \<in> set GRAPH_CAPTURE_RELOCATION_FILES
         then map_option (\<lambda>(removed, added). if graphs then (removed, name # added) else (name # removed, added))
                (capture_moves lines)
         else None)"

definition graph_capture_path_relocation_only_script_change :: "string \<Rightarrow> lines_by_path \<Rightarrow> bool" where
  "graph_capture_path_relocation_only_script_change path signed =
     (named_as [GATE_INSULA_SCRIPT] path
      \<and> (case capture_moves (changed_lines_for_path path signed) of
           None \<Rightarrow> False
         | Some (removed, added) \<Rightarrow> removed \<noteq> [] \<and> sort removed = sort added))"

section \<open>Hazards\<close>

definition add_to :: "string \<Rightarrow> (package_result \<Rightarrow> package_result) \<Rightarrow> results \<Rightarrow> results res" where
  \<comment> \<open>\<^verbatim>\<open>results[package].add(...)\<close>\<close>
  "add_to package f results =
     (case map_of results package of
        None \<Rightarrow> Inl (KeyError package)
      | Some r \<Rightarrow> Inr (AList.update package (f r) results))"

definition add_common_hazard :: "string \<Rightarrow> string \<Rightarrow> string \<Rightarrow> results \<Rightarrow> results" where
  "add_common_hazard path cls detail results = map (\<lambda>(p, r). (p, add_cause path cls detail ''may-rebuild'' r)) results"

definition GENERATED_PREFIX_MANIFEST_PACKAGES :: "string list" where
  "GENERATED_PREFIX_MANIFEST_PACKAGES = [''pytorch'', ''torchvision'', ''torchaudio'', ''triton'', ''jaxlib'']"

definition GENERATED_PREFIX_MANIFEST_DETAIL :: string where
  "GENERATED_PREFIX_MANIFEST_DETAIL =
     ''Bzlmod source-repo changes can rematerialize native repository-rule prefixes; ''
     @ ''their generated prefix_manifest.json files are declared action inputs''"

definition add_generated_prefix_manifest_hazard :: "string \<Rightarrow> results \<Rightarrow> results res" where
  "add_generated_prefix_manifest_hazard path results =
     foldE (\<lambda>rs p. add_to p (add_cause path ''other'' GENERATED_PREFIX_MANIFEST_DETAIL ''rebuild'') rs) results
       GENERATED_PREFIX_MANIFEST_PACKAGES"

definition LEAF_ACTION_ARCHIVE_MARKERS :: "(string \<times> string list) list" where
  "LEAF_ACTION_ARCHIVE_MARKERS =
     [(''bzip2'', [''bzip2_action_archive'', ''bzip2-1.0.8.tar.gz'',
                   ''ab5a03176ee106d3f0fa90e381da478ddae405918153cca248e682cd0c4a2269'']),
      (''xz'', [''xz_action_archive'', ''xz-5.8.3.tar.gz'',
                ''3d3a1b973af218114f4f889bbaa2f4c037deaae0c8e815eec381c3d546b974a0'']),
      (''zstd'', [''zstd_action_archive'', ''zstd-1.5.7.tar.gz'', ''v1.5.7.tar.gz'',
                  ''37d7284556b20954e56e1ca85b80226768902e2edabd3b649e9e72c0c9012ee3''])]"

definition marked_packages :: "string \<Rightarrow> string list" where
  "marked_packages line = map fst (filter (\<lambda>(p, markers). list_ex (contains line) markers) LEAF_ACTION_ARCHIVE_MARKERS)"

definition dev_module_leaf_action_archive_packages :: "string list \<Rightarrow> string list option" where
  "dev_module_leaf_action_archive_packages lines =
     (let significant = map strip (filter (\<lambda>l. strip l \<noteq> [] \<and> \<not> prefix ''#'' (lstrip l)) lines) in
      if significant = [] then Some []
      else if list_ex (\<lambda>l. marked_packages l = [] \<and> l \<notin> set [''http_file('', ''dev_dependency = True,'', '')'']) significant
      then None
      else
        (case first_of (concat (map marked_packages significant)) of
           [] \<Rightarrow> None
         | ps \<Rightarrow> Some ps))"

definition dev_module_file :: "string \<Rightarrow> bool" where
  "dev_module_file path = named_as [''dev.MODULE.bazel''] path"

definition starlark_or_build_file :: "string \<Rightarrow> bool" where
  "starlark_or_build_file path =
     list_ex (\<lambda>c. suffix ''.bzl'' c \<or> suffix ''.bazel'' c \<or> suffix ''/BUILD'' c) (candidate_paths path)"

text \<open>\<^verbatim>\<open>BZLMOD_SOURCE_REPO_RE.search\<close>: a call of one of the rules, or one of the attributes set.\<close>

definition then_char :: "char \<Rightarrow> string \<Rightarrow> bool" where
  "then_char c s = (case dropWhile is_space s of [] \<Rightarrow> False | d # _ \<Rightarrow> d = c)"

definition source_repo_here :: "string \<Rightarrow> bool" where
  "source_repo_here s =
     (list_ex (\<lambda>w. prefix w s \<and> then_char (CHR ''('') (drop (length w) s))
        [''http_archive'', ''http_file'', ''git_repository'', ''local_repository'', ''archive_override'', ''git_override'',
         ''local_path_override'', ''use_repo_rule'', ''use_repo'', ''bazel_dep'']
      \<or> list_ex (\<lambda>w. prefix w s \<and> then_char (CHR ''='') (drop (length w) s))
        [''sha256'', ''integrity'', ''urls'', ''url'', ''downloaded_file_path'', ''patches''])"

fun source_repo_from :: "bool \<Rightarrow> string \<Rightarrow> bool" where
  "source_repo_from inside [] = False"
| "source_repo_from inside (c # cs) =
     (\<not> inside \<and> source_repo_here (c # cs) \<or> source_repo_from (re_word_char c) cs)"

definition bzlmod_source_repo :: "string \<Rightarrow> bool" where
  "bzlmod_source_repo s = source_repo_from False s"

fun env_flag_text :: "string \<Rightarrow> string option" where
  \<comment> \<open>\<^verbatim>\<open>ENV_FLAG_RE.search(s).group(0)\<close>\<close>
  "env_flag_text [] = None"
| "env_flag_text (c # cs) =
     (if prefix ''--action_env='' (c # cs) then Some ''--action_env=''
      else if prefix ''--repo_env='' (c # cs) then Some ''--repo_env=''
      else env_flag_text cs)"

definition exempt_lines :: "lines_by_path \<Rightarrow> lines_by_path \<Rightarrow> string \<Rightarrow> bool" where
  \<comment> \<open>the changes that no hazard is looked for in\<close>
  "exempt_lines changed signed path =
     (native_prefix_cquery_only_change path changed \<or> host_gate_copyback_only_script_change path changed
      \<or> graph_capture_path_relocation_only_script_change path signed)"

definition archive_pins :: "lines_by_path \<Rightarrow> lines_by_path \<Rightarrow> string \<times> string list \<Rightarrow> string list option" where
  \<comment> \<open>the packages whose archive pins are all that changed in a module file\<close>
  "archive_pins changed signed entry =
     (let (path, lines) = entry in
      if exempt_lines changed signed path \<or> \<not> dev_module_file path then None
      else dev_module_leaf_action_archive_packages lines)"

definition add_archive_pin :: "string \<Rightarrow> results \<Rightarrow> string \<Rightarrow> results res" where
  "add_archive_pin path results package =
     bindE (add_to package (add_cause path ''source'' (package @ '' action source archive pin changed'') ''rebuild'') results) (\<lambda>rs.
     if package = ''zstd''
     then add_to ''pytorch'' (add_cause path ''source'' ''PyTorch consumes the zstd action prefix key'' ''rebuild'') rs
     else Inr rs)"

definition add_archive_pins :: "lines_by_path \<Rightarrow> lines_by_path \<Rightarrow> results \<Rightarrow> results res" where
  "add_archive_pins changed signed results =
     foldE (\<lambda>rs entry. case archive_pins changed signed entry of
                         None \<Rightarrow> Inr rs
                       | Some ps \<Rightarrow> foldE (add_archive_pin (fst entry)) rs ps) results changed"

definition DETERMINISM_FILES :: "string list" where
  "DETERMINISM_FILES =
     [''tools/native_determinism_args.sh'', ''native/common/native_action_toolchain.bzl'', ''run.sh'',
      GATE_INSULA_SCRIPT, GATE_SCRIPT]"

definition SHELL_ENV_DETAIL :: string where
  "SHELL_ENV_DETAIL = ''new use_default_shell_env=True can admit ambient action_env into native keys''"

definition add_source_repo_hazard :: "string \<Rightarrow> string \<Rightarrow> results \<Rightarrow> results res" where
  "add_source_repo_hazard path changed results =
     (if dev_module_file path \<and> \<not> prefix ''#'' (lstrip changed) \<and> bzlmod_source_repo changed
      then add_generated_prefix_manifest_hazard path results else Inr results)"

definition add_env_flag_hazard :: "string \<Rightarrow> string \<Rightarrow> results \<Rightarrow> results" where
  "add_env_flag_hazard path changed results =
     (case env_flag_text changed of
        None \<Rightarrow> results
      | Some flag \<Rightarrow>
          if run_or_gate_script path
          then add_common_hazard path ''other'' (''Bazel environment option changed: '' @ flag) results else results)"

definition add_determinism_hazard :: "string \<Rightarrow> string \<Rightarrow> results \<Rightarrow> results" where
  "add_determinism_hazard path changed results =
     (if per_commit changed \<and> named_as DETERMINISM_FILES path
      then add_common_hazard path ''other'' ''per-commit determinism input changed: seed/source date/git sha'' results
      else results)"

definition add_shell_env_hazard :: "dict \<Rightarrow> string \<Rightarrow> string \<Rightarrow> results \<Rightarrow> results res" where
  "add_shell_env_hazard manifest path line results =
     (if prefix ''+'' line \<and> starlark_or_build_file path
         \<and> contains (tl line) ''use_default_shell_env'' \<and> contains (tl line) ''True''
      then
        (case package_for_changed_path (manifest_package_dirs manifest) path of
           None \<Rightarrow> Inr (add_common_hazard path ''other'' SHELL_ENV_DETAIL results)
         | Some package \<Rightarrow> add_to package (add_cause path ''other'' SHELL_ENV_DETAIL ''may-rebuild'') results)
      else Inr results)"

definition line_hazards :: "dict \<Rightarrow> string \<Rightarrow> string \<Rightarrow> results \<Rightarrow> results res" where
  "line_hazards manifest path line results =
     bindE (add_source_repo_hazard path (tl line) results) (\<lambda>rs.
     add_shell_env_hazard manifest path line
       (add_determinism_hazard path (tl line) (add_env_flag_hazard path (tl line) rs)))"

definition hazard_step ::
  "dict \<Rightarrow> lines_by_path \<Rightarrow> lines_by_path \<Rightarrow> string \<times> results \<Rightarrow> string \<Rightarrow> (string \<times> results) res" where
  "hazard_step manifest changed signed state line =
     (let (current, results) = state in
      if header_line line then Inr (next_path current line, results)
      else if current = [] \<or> \<not> changed_line line \<or> exempt_lines changed signed current
              \<or> (dev_module_file current \<and> list_ex (\<lambda>e. fst e = current \<and> archive_pins changed signed e \<noteq> None) changed)
      then Inr (current, results)
      else bindE (line_hazards manifest current line results) (\<lambda>rs. Inr (current, rs)))"

definition scan_diff_hazards :: "dict \<Rightarrow> string \<Rightarrow> results \<Rightarrow> results res" where
  "scan_diff_hazards manifest diff results =
     (let changed = changed_lines_by_path False diff; signed = changed_lines_by_path True diff in
      bindE (add_archive_pins changed signed results) (\<lambda>rs.
      bindE (foldE (hazard_step manifest changed signed) ([], rs) (splitlines False diff)) (\<lambda>(current, rs').
      Inr rs')))"

section \<open>The report of the changed paths\<close>

definition nul_separated :: "string \<Rightarrow> string list" where
  \<comment> \<open>the sorted set of the paths that git lists\<close>
  "nul_separated out = sort (remdups (filter (\<lambda>p. p \<noteq> []) (split_on (char_of (0::nat)) out)))"

definition skipped_path :: "blobs \<Rightarrow> blobs \<Rightarrow> lines_by_path \<Rightarrow> lines_by_path \<Rightarrow> string \<Rightarrow> bool" where
  "skipped_path before after changed signed path =
     (native_prefix_cquery_only_change path changed \<or> host_gate_copyback_only_script_change path changed
      \<or> graph_root_relocation_only_script_change before after path changed
      \<or> third_party_mount_only_script_change before after path changed
      \<or> graph_capture_path_relocation_only_script_change path signed)"

definition harmless_script_change :: "lines_by_path \<Rightarrow> string \<Rightarrow> bool" where
  \<comment> \<open>the changes of scripts that no rule is applied to\<close>
  "harmless_script_change changed path =
     ((estate_only_script_change path changed \<and> run_or_gate_script path)
      \<or> disk_cache_gc_only_script_change path changed \<or> coreutils_offline_fetch_only_script_change path changed
      \<or> leaf_action_offline_fetch_only_script_change path changed
      \<or> consumer_conformance_gate_only_script_change path changed)"

definition apply_rules :: "(json \<Rightarrow> string) \<Rightarrow> dict \<Rightarrow> string \<Rightarrow> string \<Rightarrow> package_result \<Rightarrow> package_result" where
  "apply_rules str manifest path package r =
     foldl (\<lambda>r rule. add_cause path (rule_cause rule) (rule_detail rule) (rule_status rule) r) r
       (filter (\<lambda>rule. path_matches rule path) (rules_for_package str manifest package))"

definition path_impact ::
  "(json \<Rightarrow> string) \<Rightarrow> dict \<Rightarrow> blobs \<Rightarrow> blobs \<Rightarrow> lines_by_path \<Rightarrow> lines_by_path \<Rightarrow> results \<Rightarrow> string \<Rightarrow> results" where
  "path_impact str manifest before after changed signed results path =
     (if skipped_path before after changed signed path then results
      else
        add_repository_rule_native_impacts manifest path
          (if harmless_script_change changed path then results
           else map (\<lambda>(p, r). (p, apply_rules str manifest path p r)) results))"

definition impact_paths :: "blobs \<Rightarrow> blobs \<Rightarrow> string \<Rightarrow> string list" where
  "impact_paths before after out = filter (\<lambda>p. \<not> path_only_graph_root_relocation before after p) (nul_separated out)"

definition fast_impact ::
  "(json \<Rightarrow> string) \<Rightarrow> dict \<Rightarrow> blobs \<Rightarrow> blobs \<Rightarrow> string \<Rightarrow> string \<Rightarrow> rebuild_report res" where
  \<comment> \<open>\<open>out\<close> is git's list of the changed paths, \<open>diff\<close> its diff\<close>
  "fast_impact str manifest before after out diff =
     (let paths = impact_paths before after out;
          diff_text = (if paths = [] then [] else diff);
          changed = changed_lines_by_path False diff_text;
          signed = changed_lines_by_path True diff_text;
          results = foldl (path_impact str manifest before after changed signed) (initial_results manifest) paths
      in bindE (if paths = [] then Inr results else scan_diff_hazards manifest diff_text results) (\<lambda>rs.
         Inr (make_report rs)))"

end
