(* ===== verification/RebuildRun.thy ===== *)
theory RebuildRun
  imports RebuildExact
begin

text \<open>
  What the rebuild check promises: the inputs of an action are what its sets reach, an unchanged
  verdict means that both snapshots agree in everything that is compared, and a changed definition
  marks everything that depends on it.
\<close>

section \<open>Inputs of actions\<close>

definition child_rel :: "dep_sets \<Rightarrow> (string \<times> string) set" where
  "child_rel sets = {(i, j). j \<in> set (snd (dep_item sets i))}"

definition reached_inputs :: "(string \<times> string) list \<Rightarrow> dep_sets \<Rightarrow> string \<Rightarrow> string set" where
  "reached_inputs artifacts sets i = (\<Union>j\<in>{j. (i, j) \<in> (child_rel sets)\<^sup>*}. direct_paths artifacts sets j)"

lemma reached_inputs_unfold:
  "reached_inputs artifacts sets i =
     direct_paths artifacts sets i \<union> (\<Union>j\<in>set (snd (dep_item sets i)). reached_inputs artifacts sets j)"
proof -
  have "(i, k) \<in> (child_rel sets)\<^sup>* \<longleftrightarrow> k = i \<or> (\<exists>j\<in>set (snd (dep_item sets i)). (j, k) \<in> (child_rel sets)\<^sup>*)" for k
    by (auto simp: child_rel_def elim: converse_rtranclE intro: converse_rtrancl_into_rtrancl)
  then show ?thesis by (auto simp: reached_inputs_def)
qed

text \<open>A memo whose entries are right, each with its children in the entries before it.\<close>

fun memo_ok :: "(string \<times> string) list \<Rightarrow> dep_sets \<Rightarrow> memo \<Rightarrow> bool" where
  "memo_ok artifacts sets [] = True"
| "memo_ok artifacts sets ((i, s) # memo) =
     (s = reached_inputs artifacts sets i
      \<and> set (snd (dep_item sets i)) \<subseteq> fst ` set memo \<and> memo_ok artifacts sets memo)"

lemma memo_ok_lookup: "memo_ok artifacts sets memo \<Longrightarrow> map_of memo i = Some s \<Longrightarrow> s = reached_inputs artifacts sets i"
  by (induction memo) (auto split: if_splits)

lemma memo_ok_children:
  "memo_ok artifacts sets memo \<Longrightarrow> i \<in> fst ` set memo \<Longrightarrow> set (snd (dep_item sets i)) \<subseteq> fst ` set memo"
proof (induction memo)
  case (Cons e memo)
  then have "set (snd (dep_item sets i)) \<subseteq> fst ` set memo" by (cases e) auto
  then show ?case by auto
qed simp

text \<open>The place of the oldest entry, counted from the oldest of all, falls along the children: there is no cycle.\<close>

fun age_in :: "memo \<Rightarrow> string \<Rightarrow> nat" where
  "age_in [] i = 0"
| "age_in (e # memo) i = (if i \<in> fst ` set memo then age_in memo i else Suc (length memo))"

lemma age_in_le: "age_in memo i \<le> length memo"
  by (induction memo) auto

lemma memo_ok_age:
  "memo_ok artifacts sets memo \<Longrightarrow> i \<in> fst ` set memo \<Longrightarrow> j \<in> set (snd (dep_item sets i)) \<Longrightarrow>
   age_in memo j < age_in memo i"
proof (induction memo)
  case (Cons e memo)
  have ok: "memo_ok artifacts sets memo" using Cons.prems(1) by (cases e) simp
  show ?case
  proof (cases "i \<in> fst ` set memo")
    case True
    then have "j \<in> fst ` set memo" using memo_ok_children [OF ok] Cons.prems(3) by blast
    then show ?thesis using Cons.IH [OF ok True Cons.prems(3)] True by simp
  next
    case False
    then have "j \<in> fst ` set memo" using Cons.prems by (cases e) auto
    then show ?thesis using False age_in_le [of memo j] by simp
  qed
qed simp

lemma memo_ok_acyclic:
  assumes ok: "memo_ok artifacts sets memo" and i: "i \<in> fst ` set memo"
  shows "(i, i) \<notin> (child_rel sets)\<^sup>+"
proof
  have "j \<in> fst ` set memo \<and> age_in memo j < age_in memo i" if "(i, j) \<in> (child_rel sets)\<^sup>+" for j
    using that
  proof (induction rule: trancl_induct)
    case (base j)
    then have "j \<in> set (snd (dep_item sets i))" by (simp add: child_rel_def)
    then show ?case using memo_ok_age [OF ok i] subsetD [OF memo_ok_children [OF ok i]] by blast
  next
    case (step j k)
    then have "k \<in> set (snd (dep_item sets j))" by (simp add: child_rel_def)
    then have "age_in memo k < age_in memo j" "k \<in> fst ` set memo"
      using memo_ok_age [OF ok] subsetD [OF memo_ok_children [OF ok]] step.IH by blast+
    then show ?case using step.IH by simp
  qed
  moreover assume "(i, i) \<in> (child_rel sets)\<^sup>+"
  ultimately show False by blast
qed

lemma foldE_visit:
  assumes step: "\<And>memo memo' i. visit artifacts sets depth memo i = Inr memo' \<Longrightarrow> memo_ok artifacts sets memo \<Longrightarrow>
      memo_ok artifacts sets memo' \<and> i \<in> fst ` set memo' \<and> fst ` set memo \<subseteq> fst ` set memo'"
  shows "foldE (visit artifacts sets depth) memo is = Inr memo' \<Longrightarrow> memo_ok artifacts sets memo \<Longrightarrow>
      memo_ok artifacts sets memo' \<and> set is \<subseteq> fst ` set memo' \<and> fst ` set memo \<subseteq> fst ` set memo'"
proof (induction "is" arbitrary: memo)
  case (Cons i "is")
  then obtain m1 where m1: "visit artifacts sets depth memo i = Inr m1"
    "foldE (visit artifacts sets depth) m1 is = Inr memo'" by auto
  have one: "memo_ok artifacts sets m1" "i \<in> fst ` set m1" "fst ` set memo \<subseteq> fst ` set m1"
    using step [OF m1(1) Cons.prems(2)] by blast+
  show ?case using Cons.IH [OF m1(2) one(1)] one by (simp add: subset_iff)
qed simp

lemma visit_ok:
  "visit artifacts sets depth memo i = Inr memo' \<Longrightarrow> memo_ok artifacts sets memo \<Longrightarrow>
   memo_ok artifacts sets memo' \<and> i \<in> fst ` set memo' \<and> fst ` set memo \<subseteq> fst ` set memo'"
proof (induction depth arbitrary: memo memo' i)
  case (Suc depth)
  show ?case
  proof (cases "map_of memo i = None")
    case False
    then have "memo' = memo" using Suc.prems(1) by simp
    moreover have "i \<in> fst ` set memo" using False by (simp add: map_of_eq_None_iff)
    ultimately show ?thesis using Suc.prems(2) by simp
  next
    case True
    then obtain m1 where m1: "foldE (visit artifacts sets depth) memo (snd (dep_item sets i)) = Inr m1"
      and memo': "memo' = (i, direct_paths artifacts sets i
                 \<union> \<Union> (set (map (\<lambda>j. case map_of m1 j of Some s \<Rightarrow> s | None \<Rightarrow> {}) (snd (dep_item sets i))))) # m1"
      using Suc.prems(1) by auto
    from foldE_visit [OF Suc.IH m1 Suc.prems(2)]
    have ok: "memo_ok artifacts sets m1" "set (snd (dep_item sets i)) \<subseteq> fst ` set m1" "fst ` set memo \<subseteq> fst ` set m1"
      by auto
    have child: "(case map_of m1 j of Some s \<Rightarrow> s | None \<Rightarrow> {}) = reached_inputs artifacts sets j"
      if "j \<in> set (snd (dep_item sets i))" for j
    proof -
      have "map_of m1 j \<noteq> None" using ok(2) that by (auto simp: map_of_eq_None_iff)
      then show ?thesis using memo_ok_lookup [OF ok(1)] by auto
    qed
    have "direct_paths artifacts sets i
            \<union> \<Union> (set (map (\<lambda>j. case map_of m1 j of Some s \<Rightarrow> s | None \<Rightarrow> {}) (snd (dep_item sets i))))
          = reached_inputs artifacts sets i"
      unfolding reached_inputs_unfold [of artifacts sets i] using child by simp
    then show ?thesis using memo' ok by auto
  qed
qed simp

text \<open>A depth above every chain of sets is enough.\<close>

lemma foldE_visit_total:
  assumes "\<And>memo i. i \<in> set is \<Longrightarrow> \<exists>memo'. visit artifacts sets depth memo i = Inr memo'"
  shows "\<exists>memo'. foldE (visit artifacts sets depth) memo is = Inr memo'"
  using assms
proof (induction "is" arbitrary: memo)
  case (Cons i "is")
  obtain m1 where "visit artifacts sets depth memo i = Inr m1" using Cons.prems [of i memo] by auto
  then show ?case using Cons by simp
qed simp

lemma visit_total:
  assumes "\<And>i j. j \<in> set (snd (dep_item sets i)) \<Longrightarrow> rk j < (rk i :: nat)"
  shows "rk i < depth \<Longrightarrow> \<exists>memo'. visit artifacts sets depth memo i = Inr memo'"
proof (induction depth arbitrary: memo i)
  case (Suc depth)
  have "\<exists>m1. foldE (visit artifacts sets depth) memo (snd (dep_item sets i)) = Inr m1"
    by (rule foldE_visit_total, rule Suc.IH) (use assms Suc.prems in force)
  then show ?case by auto
qed simp

lemma map_of_keyed: "i \<in> set xs \<Longrightarrow> map_of (map (\<lambda>i. (i, f i)) xs) i = Some (f i)"
  by (induction xs) auto

lemma depset_inputs_gen:
  assumes "depset_inputs depth str doc = Inr m" "i \<in> fst ` set (dep_sets_of str doc)"
  shows "map_of m i = Some (reached_inputs (artifact_paths str doc) (dep_sets_of str doc) i)"
    and "(i, i) \<notin> (child_rel (dep_sets_of str doc))\<^sup>+"
proof -
  define sets where "sets = dep_sets_of str doc"
  define artifacts where "artifacts = artifact_paths str doc"
  from assms(1) obtain memo where memo: "foldE (visit artifacts sets depth) [] (map fst sets) = Inr memo"
    and m: "m = map (\<lambda>i. (i, case map_of memo i of Some s \<Rightarrow> s | None \<Rightarrow> {})) (map fst sets)"
    by (auto simp: depset_inputs_def Let_def sets_def artifacts_def)
  from foldE_visit [OF visit_ok memo] have ok: "memo_ok artifacts sets memo" "set (map fst sets) \<subseteq> fst ` set memo"
    by auto
  have i: "i \<in> set (map fst sets)" using assms(2) by (simp add: sets_def)
  then have key: "i \<in> fst ` set memo" using ok(2) by blast
  then have "map_of memo i \<noteq> None" by (simp add: map_of_eq_None_iff)
  then have "map_of memo i = Some (reached_inputs artifacts sets i)" using memo_ok_lookup [OF ok(1)] by auto
  then show "map_of m i = Some (reached_inputs (artifact_paths str doc) (dep_sets_of str doc) i)"
    unfolding m map_of_keyed [OF i] by (simp add: sets_def artifacts_def)
  show "(i, i) \<notin> (child_rel (dep_sets_of str doc))\<^sup>+"
    using memo_ok_acyclic [OF ok(1) key] by (simp add: sets_def)
qed

lemma depset_inputs_keys:
  assumes "depset_inputs depth str doc = Inr m"
  shows "fst ` set m = fst ` set (dep_sets_of str doc)"
  using assms by (force simp: depset_inputs_def Let_def)

lemma depset_inputs_total:
  assumes "\<And>i j. (i, j) \<in> child_rel (dep_sets_of str doc) \<Longrightarrow> rk j < (rk i :: nat)" "\<And>i. rk i < depth"
  shows "\<exists>m. depset_inputs depth str doc = Inr m"
proof -
  have "\<exists>memo. foldE (visit (artifact_paths str doc) (dep_sets_of str doc) depth) [] (map fst (dep_sets_of str doc)) = Inr memo"
    by (rule foldE_visit_total, rule visit_total [of _ rk]) (use assms in \<open>simp_all add: child_rel_def\<close>)
  then show ?thesis by (auto simp: depset_inputs_def Let_def)
qed

text \<open>
  The inputs of an action graph: when the sets of files are resolved, each set is mapped to the
  paths of all artifacts that it or a set it reaches lists, and no set reaches itself. They are
  resolved whenever every chain of sets is shorter than the recursion that Python allows.
\<close>

theorem depset_inputs_reached:
  "(depset_inputs depth str doc = Inr m \<longrightarrow>
      (\<forall>i\<in>fst ` set (dep_sets_of str doc).
         map_of m i = Some (reached_inputs (artifact_paths str doc) (dep_sets_of str doc) i)
         \<and> (i, i) \<notin> (child_rel (dep_sets_of str doc))\<^sup>+))
   \<and> ((\<forall>i j. (i, j) \<in> child_rel (dep_sets_of str doc) \<longrightarrow> rk j < (rk i :: nat)) \<and> (\<forall>i. rk i < depth)
      \<longrightarrow> (\<exists>m. depset_inputs depth str doc = Inr m))"
  using depset_inputs_gen [of depth str doc m] depset_inputs_total [of str doc rk depth] by blast

definition sample_sets :: dict where
  "sample_sets =
     [(''artifacts'', JList [JObj [(''id'', JInt 7), (''execPath'', JStr ''a'')], JObj [(''id'', JInt 8), (''execPath'', JStr ''b'')]]),
      (''depSetOfFiles'', JList [JObj [(''id'', JInt 1), (''directArtifactIds'', JList [JInt 7]), (''transitiveDepSetIds'', JList [JInt 4])],
         JObj [(''id'', JInt 4), (''directArtifactIds'', JList [JInt 8])]])]"

lemma sample_sets_values:
  "depset_inputs 5 (\<lambda>_. []) sample_sets = Inr [(''1'', {''a'', ''b''}), (''4'', {''b''})]"
  "map fst (dep_sets_of (\<lambda>_. []) sample_sets) = [''1'', ''4'']"
  by code_simp+

lemma depset_inputs_reached_witness:
  "reached_inputs (artifact_paths (\<lambda>_. []) sample_sets) (dep_sets_of (\<lambda>_. []) sample_sets) ''1'' = {''a'', ''b''}"
proof -
  have "''1'' \<in> set (map fst (dep_sets_of (\<lambda>_. []) sample_sets))" unfolding sample_sets_values by simp
  then have "''1'' \<in> fst ` set (dep_sets_of (\<lambda>_. []) sample_sets)" by simp
  then show ?thesis
    using depset_inputs_reached [of 5 "\<lambda>_. []" sample_sets] sample_sets_values(1) by fastforce
qed

section \<open>What a result says\<close>

definition loud :: "package_result \<Rightarrow> bool" where
  \<comment> \<open>the result asks for a rebuild\<close>
  "loud r = (result_status r = ''may-rebuild'' \<or> result_status r = ''rebuild'')"

definition truthful :: "package_result \<Rightarrow> bool" where
  \<comment> \<open>a result asks for a rebuild exactly when it has a cause\<close>
  "truthful r = (loud r \<longleftrightarrow> result_causes r \<noteq> [])"

lemma truthful_fresh: "truthful (fresh_result m)" "result_causes (fresh_result m) = []" "result_mnemonic (fresh_result m) = m"
  by (simp_all add: truthful_def loud_def fresh_result_def)

lemma rank_pos: "0 < rank STATUS_RANK s \<Longrightarrow> s = ''may-rebuild'' \<or> s = ''rebuild''"
  by (auto simp: rank_def STATUS_RANK_def split: if_splits)

lemma add_cause_loud:
  assumes "status = ''may-rebuild'' \<or> status = ''rebuild''"
  shows "result_causes (add_cause p cls detail status r) \<noteq> []" "truthful (add_cause p cls detail status r)"
proof -
  show causes: "result_causes (add_cause p cls detail status r) \<noteq> []" by (auto simp: add_cause_def Let_def)
  have "normalise_status (if status = [] then ''rebuild'' else status) = status" "0 < rank STATUS_RANK status"
    using assms by (auto simp: normalise_status_def STATUS_RANK_def rank_def)
  then have "loud (add_cause p cls detail status r)"
    using assms rank_pos [of "result_status r"] by (auto simp: loud_def add_cause_def Let_def)
  then show "truthful (add_cause p cls detail status r)" using causes by (simp add: truthful_def)
qed

lemma add_cause_has:
  "cause_path ` set (result_causes (add_cause p cls detail status r)) = insert p (cause_path ` set (result_causes r))"
  by (force simp: add_cause_def Let_def)

lemma add_causes:
  assumes "status = ''may-rebuild'' \<or> status = ''rebuild''"
  shows "result_causes (foldl (\<lambda>r p. add_cause p (cls p) (detail p) status r) r ps) = [] \<longleftrightarrow> result_causes r = [] \<and> ps = []"
    and "truthful r \<Longrightarrow> truthful (foldl (\<lambda>r p. add_cause p (cls p) (detail p) status r) r ps)"
  by (induction ps arbitrary: r) (simp_all add: add_cause_loud [OF assms])

lemma add_env_list:
  "result_causes (foldl (add_env_cause b a) r ks) = [] \<longleftrightarrow>
     result_causes r = [] \<and> (\<forall>k\<in>set ks. map_of (snap_env b) k = map_of (snap_env a) k)"
  "truthful r \<Longrightarrow> truthful (foldl (add_env_cause b a) r ks)"
  by (induction ks arbitrary: r) (simp_all add: add_env_cause_def Let_def add_cause_loud)

lemma add_env_causes_spec:
  "result_causes (add_env_causes b a r) = [] \<longleftrightarrow> result_causes r = [] \<and> map_of (snap_env b) = map_of (snap_env a)"
  "truthful r \<Longrightarrow> truthful (add_env_causes b a r)"
proof -
  have "(\<forall>k\<in>fst ` set (snap_env b) \<union> fst ` set (snap_env a). map_of (snap_env b) k = map_of (snap_env a) k)
      \<longleftrightarrow> map_of (snap_env b) = map_of (snap_env a)"
    by (metis UnI1 UnI2 ext map_of_eq_None_iff)
  then show "result_causes (add_env_causes b a r) = [] \<longleftrightarrow> result_causes r = [] \<and> map_of (snap_env b) = map_of (snap_env a)"
    by (simp add: add_env_causes_def add_env_list)
qed (simp add: add_env_causes_def add_env_list)

lemma add_argument_causes_spec:
  "result_causes (add_argument_causes b a r) = [] \<longleftrightarrow>
     result_causes r = [] \<and> set (snap_arguments b) = set (snap_arguments a)"
  "truthful r \<Longrightarrow> truthful (add_argument_causes b a r)"
  by (auto simp: add_argument_causes_def first_diff_def Let_def add_cause_loud filter_empty_conv)

lemma add_key_cause_spec:
  "result_causes (add_key_cause b a r) = [] \<longleftrightarrow> result_causes r = [] \<and> snap_key b = snap_key a"
  "truthful r \<Longrightarrow> truthful (add_key_cause b a r)"
  by (auto simp: add_key_cause_def add_cause_loud)

lemma add_input_causes_spec:
  assumes "finite (snap_inputs b)" "finite (snap_inputs a)"
  shows "result_causes (add_input_causes str manifest p b a r) = [] \<longleftrightarrow> result_causes r = [] \<and> snap_inputs b = snap_inputs a"
    and "truthful r \<Longrightarrow> truthful (add_input_causes str manifest p b a r)"
  using assms by (auto simp: add_input_causes_def add_causes sorted_list_of_set_eq_Nil_iff)

definition same_contents :: "snapshot \<Rightarrow> snapshot \<Rightarrow> bool" where
  "same_contents b a =
     (unverified_inputs b = [] \<and> unverified_inputs a = []
      \<and> (\<forall>p\<in>snap_inputs b \<inter> snap_inputs a. \<forall>x y.
           map_of (input_digests b) p = Some x \<and> map_of (input_digests a) p = Some y \<longrightarrow> x = y))"

lemma changed_contents_empty:
  "finite (snap_inputs b) \<Longrightarrow> changed_contents b a = [] \<longleftrightarrow>
     (\<forall>p\<in>snap_inputs b \<inter> snap_inputs a. \<forall>x y.
        map_of (input_digests b) p = Some x \<and> map_of (input_digests a) p = Some y \<longrightarrow> x = y)"
  by (auto simp: changed_contents_def filter_empty_conv split: option.splits)

lemma unverified_paths_empty: "unverified_paths b a = [] \<longleftrightarrow> unverified_inputs b = [] \<and> unverified_inputs a = []"
  by (auto simp: unverified_paths_def sorted_list_of_set_eq_Nil_iff)

lemma add_input_content_causes_spec:
  assumes "finite (snap_inputs b)"
  shows "result_causes (add_input_content_causes str manifest p b a r) = [] \<longleftrightarrow> result_causes r = [] \<and> same_contents b a"
    and "truthful r \<Longrightarrow> truthful (add_input_content_causes str manifest p b a r)"
  using assms
  by (auto simp: add_input_content_causes_def Let_def add_cause_loud add_causes unverified_paths_empty same_contents_def
      changed_contents_empty)

definition same_action :: "snapshot \<Rightarrow> snapshot \<Rightarrow> bool" where
  "same_action b a =
     (snap_inputs b = snap_inputs a \<and> same_contents b a \<and> set (snap_arguments b) = set (snap_arguments a)
      \<and> map_of (snap_env b) = map_of (snap_env a) \<and> snap_key b = snap_key a)"

lemma compare_snapshots_spec:
  assumes "finite (snap_inputs b)" "finite (snap_inputs a)" "truthful r" "result_causes r = []"
  shows "truthful (compare_snapshots str manifest p b a r)"
    and "result_causes (compare_snapshots str manifest p b a r) = [] \<longleftrightarrow> same_action b a"
  using assms
  by (auto simp: compare_snapshots_def same_action_def add_key_cause_spec add_env_causes_spec add_argument_causes_spec
      add_input_content_causes_spec add_input_causes_spec)

lemma truthful_keyed: "truthful (r\<lparr>action_keys := k\<rparr>) = truthful r"
  by (simp add: truthful_def loud_def)

definition package_same :: "(string \<times> snapshot) list \<Rightarrow> (string \<times> snapshot) list \<Rightarrow> string \<Rightarrow> bool" where
  "package_same base head m =
     (m \<in> set NATIVE_MNEMONICS \<longrightarrow>
      (\<exists>b a. map_of base m = Some b \<and> map_of head m = Some a \<and> same_action b a))"

definition finite_inputs :: "(string \<times> snapshot) list \<Rightarrow> bool" where
  "finite_inputs snaps = (\<forall>s\<in>snd ` set snaps. finite (snap_inputs s))"

lemma compare_package_spec:
  assumes "finite_inputs base" "finite_inputs head"
  shows "truthful (snd (compare_package str manifest True base head (p, fresh_result m)))
    \<and> (result_causes (snd (compare_package str manifest True base head (p, fresh_result m))) = [] \<longleftrightarrow> package_same base head m)"
proof (cases "m \<in> set NATIVE_MNEMONICS")
  case False
  then show ?thesis by (simp add: compare_package_def package_same_def truthful_fresh)
next
  case True
  show ?thesis
  proof (cases "map_of base m")
    case None
    then show ?thesis using True
      by (cases "map_of head m")
         (simp_all add: compare_package_def package_same_def truthful_fresh Let_def add_cause_loud)
  next
    case (Some b)
    show ?thesis
    proof (cases "map_of head m")
      case None
      then show ?thesis using True Some
        by (simp add: compare_package_def package_same_def truthful_fresh Let_def add_cause_loud)
    next
      case (Some a)
      have fin: "finite (snap_inputs b)" "finite (snap_inputs a)"
        using assms \<open>map_of base m = Some b\<close> Some map_of_SomeD unfolding finite_inputs_def by force+
      show ?thesis using True Some \<open>map_of base m = Some b\<close>
        by (simp add: compare_package_def package_same_def truthful_fresh truthful_keyed Let_def
            compare_snapshots_spec [OF fin])
    qed
  qed
qed

lemma exit_code_zero:
  assumes "\<And>p r. (p, r) \<in> set results \<Longrightarrow> truthful r"
  shows "exit_code (make_report results) = 0 \<longleftrightarrow> (\<forall>(p, r)\<in>set results. result_causes r = [])"
proof -
  have "exit_code (make_report results) = 0 \<longleftrightarrow>
      (\<forall>(p, r)\<in>set results. ''other'' \<notin> cause_class ` set (result_causes r)) \<and> (\<forall>(p, r)\<in>set results. \<not> loud r)"
    by (auto simp: make_report_def Let_def loud_def list_ex_iff)
  then show ?thesis using assms by (fastforce simp: truthful_def)
qed

lemma compare_exact_zero:
  assumes "finite_inputs base" "finite_inputs head"
  shows "exit_code (compare_exact_actions str manifest True base head) = 0 \<longleftrightarrow>
     (\<forall>p\<in>set (manifest_package_order manifest). package_same base head (package_mnemonic manifest p))"
proof -
  note spec = compare_package_spec [OF assms]
  have each: "truthful r" if mem: "(p, r) \<in> set (map (compare_package str manifest True base head) (initial_results manifest))" for p r
  proof -
    obtain q where "(p, r) = compare_package str manifest True base head (q, fresh_result (package_mnemonic manifest q))"
      using mem by (auto simp: initial_results_def)
    then have "r = snd (compare_package str manifest True base head (q, fresh_result (package_mnemonic manifest q)))"
      by (metis snd_conv)
    then show ?thesis using spec by simp
  qed
  have "exit_code (compare_exact_actions str manifest True base head) = 0 \<longleftrightarrow>
      (\<forall>(p, r)\<in>set (map (compare_package str manifest True base head) (initial_results manifest)). result_causes r = [])"
    unfolding compare_exact_actions_def by (rule exit_code_zero) (rule each)
  also have "\<dots> \<longleftrightarrow> (\<forall>p\<in>set (manifest_package_order manifest).
      result_causes (snd (compare_package str manifest True base head (p, fresh_result (package_mnemonic manifest p)))) = [])"
    by (simp add: initial_results_def split_beta)
  finally show ?thesis using spec by simp
qed

section \<open>Parsed snapshots\<close>

lemma reached_inputs_finite: "finite (reached_inputs artifacts sets i)"
proof (rule finite_subset)
  have "map_of artifacts x = Some p \<Longrightarrow> p \<in> snd ` set artifacts" for x p by (force dest: map_of_SomeD)
  then show "reached_inputs artifacts sets i \<subseteq> snd ` set artifacts"
    by (auto simp: reached_inputs_def direct_paths_def map_filter_def)
qed simp

lemma depset_inputs_finite:
  assumes "depset_inputs depth str doc = Inr m" "map_of m i = Some s"
  shows "finite s"
proof -
  have "i \<in> fst ` set m" using assms(2) by (force dest: map_of_SomeD)
  then have "map_of m i = Some (reached_inputs (artifact_paths str doc) (dep_sets_of str doc) i)"
    using depset_inputs_gen [OF assms(1)] depset_inputs_keys [OF assms(1)] by blast
  then show ?thesis using assms(2) by (simp add: reached_inputs_finite)
qed

definition digested :: "content_context \<Rightarrow> snapshot \<Rightarrow> bool" where
  \<comment> \<open>the digests of a snapshot are those of its context, with every other input unverified\<close>
  "digested digest s =
     (finite (snap_inputs s)
      \<and> (\<forall>p. map_of (input_digests s) p = (if p \<in> snap_inputs s then fst (digest p) else None))
      \<and> fst ` set (unverified_inputs s) = {p \<in> snap_inputs s. fst (digest p) = None})"

definition digested_entries :: "content_context \<Rightarrow> snapshot \<Rightarrow> bool" where
  "digested_entries digest s =
     (finite (snap_inputs s)
      \<and> (\<forall>(p, d)\<in>set (input_digests s). fst (digest p) = Some d)
      \<and> fst ` set (input_digests s) = {p \<in> snap_inputs s. fst (digest p) \<noteq> None}
      \<and> fst ` set (unverified_inputs s) = {p \<in> snap_inputs s. fst (digest p) = None})"

lemma digest_inputs_entries:
  "(p, d) \<in> set (fst (digest_inputs digest ps)) \<Longrightarrow> fst (digest p) = Some d"
  by (induction ps) (auto simp: digest_inputs_def map_filter_simps split: option.splits)

lemma digest_inputs_spec:
  "fst ` set (fst (digest_inputs digest ps)) = {p \<in> set ps. fst (digest p) \<noteq> None}"
  "fst ` set (snd (digest_inputs digest ps)) = {p \<in> set ps. fst (digest p) = None}"
proof -
  show "fst ` set (fst (digest_inputs digest ps)) = {p \<in> set ps. fst (digest p) \<noteq> None}"
    by (induction ps) (auto simp: digest_inputs_def map_filter_simps split: option.splits)
  show "fst ` set (snd (digest_inputs digest ps)) = {p \<in> set ps. fst (digest p) = None}"
    by (induction ps) (auto simp: digest_inputs_def map_filter_simps split: option.splits prod.splits)
qed

lemma action_snapshot_digested:
  assumes "\<And>i s. map_of inputs_of i = Some s \<Longrightarrow> finite s"
  shows "digested_entries digest (action_snapshot str (Some digest) labels inputs_of action)"
proof -
  define inputs where "inputs = \<Union> (set (map (\<lambda>v. case map_of inputs_of (text_of_json str v) of Some s \<Rightarrow> s | None \<Rightarrow> {})
                                           (as_list (dget action ''inputDepSetIds''))))"
  have fin: "finite inputs" using assms by (auto simp: inputs_def split: option.splits)
  obtain ds us where dig: "digest_inputs digest (sorted_list_of_set inputs) = (ds, us)" by fastforce
  have snap: "snap_inputs (action_snapshot str (Some digest) labels inputs_of action) = inputs"
    "input_digests (action_snapshot str (Some digest) labels inputs_of action) = ds"
    "unverified_inputs (action_snapshot str (Some digest) labels inputs_of action) = us"
    unfolding action_snapshot_def Let_def inputs_def [symmetric] option.case dig prod.case by simp_all
  show ?thesis
    using digest_inputs_spec [of digest "sorted_list_of_set inputs"] digest_inputs_entries [of _ _ digest "sorted_list_of_set inputs"] fin
    by (auto simp: digested_entries_def snap dig)
qed

lemma update_pairs_keys: "fst ` set (update_pairs out new) = fst ` set out \<union> fst ` set new"
proof (induction new arbitrary: out)
  case (Cons e new)
  then show ?case by (cases e) (simp add: update_pairs_def dom_update image_Un)
qed (simp add: update_pairs_def)

lemma map_of_agreeing:
  assumes "\<And>p d. (p, d) \<in> set xs \<Longrightarrow> f p = Some d"
  shows "map_of xs p = (if p \<in> fst ` set xs then f p else None)"
proof (cases "map_of xs p")
  case (Some d)
  then have "(p, d) \<in> set xs" by (rule map_of_SomeD)
  then show ?thesis using assms Some by force
qed (simp add: map_of_eq_None_iff)

text \<open>The entries of a snapshot are those of its context, whatever actions it merges.\<close>

lemma digested_entries_digested:
  assumes "digested_entries digest s"
  shows "digested digest s"
proof -
  have "fst (digest p) = Some d" if "(p, d) \<in> set (input_digests s)" for p d
    using that assms by (auto simp: digested_entries_def)
  note digests = map_of_agreeing [of "input_digests s" "\<lambda>p. fst (digest p)", OF this]
  show ?thesis using assms by (simp add: digested_entries_def digested_def digests)
qed

lemma update_pairs_entries: "set (update_pairs out new) \<subseteq> set out \<union> set new"
proof (induction new arbitrary: out)
  case (Cons e new)
  have "set (AList.update k v out) \<subseteq> insert (k, v) (set out)" for k v
    by (induction out) auto
  then show ?case using Cons [of "AList.update (fst e) (snd e) out"] by (cases e) (auto simp: update_pairs_def)
qed (simp add: update_pairs_def)

lemma merge_digested:
  assumes "\<And>s. s \<in> set actions \<Longrightarrow> digested_entries digest s"
  shows "digested_entries digest (merge_actions sha256 m actions)"
proof (cases "\<exists>a. sort_key snap_label actions = [a]")
  case True
  then obtain a where a: "sort_key snap_label actions = [a]" by blast
  then have "a \<in> set actions" by (metis list.set_intros(1) set_sort)
  then show ?thesis using assms a by (simp add: merge_actions_def)
next
  case False
  define merged where "merged = sort_key snap_label actions"
  have mem: "digested_entries digest s" if "s \<in> set merged" for s using that assms by (simp add: merged_def)
  have fields: "snap_inputs (merge_actions sha256 m actions) = \<Union> (snap_inputs ` set merged)"
    "input_digests (merge_actions sha256 m actions) = update_pairs [] (concat (map (\<lambda>a. sort_key fst (input_digests a)) merged))"
    "unverified_inputs (merge_actions sha256 m actions) = update_pairs [] (concat (map (\<lambda>a. sort_key fst (unverified_inputs a)) merged))"
    using False unfolding merge_actions_def merged_def [symmetric] by (auto split: list.splits)
  have "fst (digest p) = Some d" if "(p, d) \<in> set (input_digests (merge_actions sha256 m actions))" for p d
  proof -
    have "(p, d) \<in> set (concat (map (\<lambda>a. sort_key fst (input_digests a)) merged))"
      using that subsetD [OF update_pairs_entries] by (fastforce simp: fields)
    then obtain s where s: "s \<in> set merged" "(p, d) \<in> set (input_digests s)" by auto
    then show ?thesis using mem [OF s(1)] by (auto simp: digested_entries_def)
  qed
  moreover have "fst ` set (input_digests (merge_actions sha256 m actions)) = (\<Union>s\<in>set merged. fst ` set (input_digests s))"
    "fst ` set (unverified_inputs (merge_actions sha256 m actions)) = (\<Union>s\<in>set merged. fst ` set (unverified_inputs s))"
    by (simp_all add: fields update_pairs_keys image_UN)
  ultimately show ?thesis using mem by (auto simp: digested_entries_def fields)
qed

lemma parse_shape:
  assumes "parse_aquery sha256 depth str context v = Inr snaps"
  shows "\<exists>doc inputs_of actions ms. depset_inputs depth str doc = Inr inputs_of
    \<and> snaps = map (\<lambda>m. (m, merge_actions sha256 m (filter (\<lambda>s. snap_mnemonic s = m)
                  (map (action_snapshot str context (target_labels str doc) inputs_of) actions)))) ms"
  using assms unfolding parse_aquery_def by (auto simp: Let_def split: json.splits)

lemma parse_digested:
  assumes "parse_aquery sha256 depth str (Some digest) v = Inr snaps" "map_of snaps m = Some s"
  shows "digested_entries digest s"
proof -
  from parse_shape [OF assms(1)] obtain doc inputs_of actions ms
    where d: "depset_inputs depth str doc = Inr inputs_of"
      and snaps: "snaps = map (\<lambda>m. (m, merge_actions sha256 m (filter (\<lambda>s. snap_mnemonic s = m)
                  (map (action_snapshot str (Some digest) (target_labels str doc) inputs_of) actions)))) ms"
    by blast
  have "digested_entries digest (action_snapshot str (Some digest) labels inputs_of a)" for labels a
    using depset_inputs_finite [OF d] by (rule action_snapshot_digested)
  then have "digested_entries digest (merge_actions sha256 k (filter (\<lambda>s. snap_mnemonic s = k)
                  (map (action_snapshot str (Some digest) (target_labels str doc) inputs_of) actions)))" for k
    by (intro merge_digested) auto
  moreover have "(m, s) \<in> set snaps" using assms(2) by (rule map_of_SomeD)
  ultimately show ?thesis unfolding snaps by auto
qed

lemma keyed_pair: "(m, s) \<in> set (map (\<lambda>m. (m, f m)) ms) \<Longrightarrow> map_of (map (\<lambda>m. (m, f m)) ms) m = Some s"
  by (induction ms) auto

lemma parse_finite:
  assumes "parse_aquery sha256 depth str (Some digest) v = Inr snaps"
  shows "finite_inputs snaps"
proof -
  have "finite (snap_inputs s)" if "(m, s) \<in> set snaps" for m s
  proof -
    from parse_shape [OF assms] obtain doc inputs_of actions ms
      where snaps: "snaps = map (\<lambda>m. (m, merge_actions sha256 m (filter (\<lambda>s. snap_mnemonic s = m)
                  (map (action_snapshot str (Some digest) (target_labels str doc) inputs_of) actions)))) ms"
      by blast
    have "map_of snaps m = Some s" using keyed_pair [OF that [unfolded snaps]] by (simp add: snaps)
    then show ?thesis using parse_digested [OF assms] by (auto simp: digested_entries_def)
  qed
  then show ?thesis by (auto simp: finite_inputs_def)
qed

lemma unverified_empty: "digested digest s \<Longrightarrow> unverified_inputs s = [] \<longleftrightarrow> (\<forall>p\<in>snap_inputs s. fst (digest p) \<noteq> None)"
  by (metis (mono_tags, lifting) digested_def empty_Collect_eq image_is_empty set_empty)

lemma same_contents_iff:
  assumes "digested base_digest x" "digested head_digest y" "snap_inputs x = snap_inputs y"
  shows "same_contents x y \<longleftrightarrow> (\<forall>i\<in>snap_inputs x. \<exists>d. fst (base_digest i) = Some d \<and> fst (head_digest i) = Some d)"
proof -
  have "map_of (input_digests x) p = fst (base_digest p)" "map_of (input_digests y) p = fst (head_digest p)"
    if "p \<in> snap_inputs x" for p
    using that assms by (simp_all add: digested_def)
  then show ?thesis
    using unverified_empty [OF assms(1)] unverified_empty [OF assms(2)] assms(3)
    by (auto simp: same_contents_def) (metis option.exhaust option.inject)+
qed

text \<open>
  C36. The exact check decides: given two parsed snapshots, the report inside the insula has exit code
  0 exactly when every package built by a native action has that action in both snapshots, with the
  same inputs, each with one known digest on both sides, the same arguments (as a set), the same
  environment and the same action key. A package with any other mnemonic is not looked at.
\<close>

theorem exact_check_decides:
  assumes "parse_aquery sha256 depth str (Some base_digest) base = Inr b"
    and "parse_aquery sha256 depth str (Some head_digest) head = Inr h"
  shows "\<exists>rep. exact_from_json sha256 depth str manifest True base_digest head_digest base head = Inr rep \<and>
    (exit_code rep = 0 \<longleftrightarrow>
      (\<forall>p\<in>set (manifest_package_order manifest). package_mnemonic manifest p \<in> set NATIVE_MNEMONICS \<longrightarrow>
        (\<exists>x y. map_of b (package_mnemonic manifest p) = Some x \<and> map_of h (package_mnemonic manifest p) = Some y
          \<and> snap_inputs x = snap_inputs y
          \<and> (\<forall>i\<in>snap_inputs x. \<exists>d. fst (base_digest i) = Some d \<and> fst (head_digest i) = Some d)
          \<and> set (snap_arguments x) = set (snap_arguments y)
          \<and> map_of (snap_env x) = map_of (snap_env y) \<and> snap_key x = snap_key y)))"
proof -
  have dig: "digested base_digest x" if "map_of b m = Some x" for m x
    using parse_digested [OF assms(1) that] by (rule digested_entries_digested)
  have dig': "digested head_digest y" if "map_of h m = Some y" for m y
    using parse_digested [OF assms(2) that] by (rule digested_entries_digested)
  note zero = compare_exact_zero [OF assms [THEN parse_finite], of str manifest]
  have "same_action x y \<longleftrightarrow> snap_inputs x = snap_inputs y
          \<and> (\<forall>i\<in>snap_inputs x. \<exists>d. fst (base_digest i) = Some d \<and> fst (head_digest i) = Some d)
          \<and> set (snap_arguments x) = set (snap_arguments y)
          \<and> map_of (snap_env x) = map_of (snap_env y) \<and> snap_key x = snap_key y"
    if "map_of b m = Some x" "map_of h m = Some y" for m x y
    unfolding same_action_def using same_contents_iff [OF dig [OF that(1)] dig' [OF that(2)]] by auto
  then show ?thesis
    using assms zero by (simp add: exact_from_json_def package_same_def cong: conj_cong)
qed


definition sample_query :: json where
  "sample_query = JObj
     [(''actions'', JList [JObj [(''mnemonic'', JStr ''XzActionPrefix''), (''actionKey'', JStr ''k''),
         (''inputDepSetIds'', JList [JInt 1]), (''arguments'', JList [JStr ''-O2'']),
         (''environmentVariables'', JList [JObj [(''key'', JStr ''CC''), (''value'', JStr ''gcc'')]])]]),
      (''artifacts'', JList [JObj [(''id'', JInt 7), (''pathFragmentId'', JInt 2)], JObj [(''id'', JInt 8), (''execPath'', JStr ''b'')]]),
      (''pathFragments'', JList [JObj [(''id'', JInt 2), (''label'', JStr ''a''), (''parentId'', JInt 3)],
         JObj [(''id'', JInt 3), (''label'', JStr ''src'')]]),
      (''depSetOfFiles'', JList [JObj [(''id'', JInt 1), (''directArtifactIds'', JList [JInt 7]), (''transitiveDepSetIds'', JList [JInt 4])],
         JObj [(''id'', JInt 4), (''directArtifactIds'', JList [JInt 8])]])]"

definition sample_rules :: dict where
  "sample_rules = [(''packages'', JObj [(''xz'', JObj [])])]"

lemma sample_parses:
  "(case parse_aquery id 5 (\<lambda>_. []) (Some (\<lambda>p. (Some p, None))) sample_query of
      Inr b \<Rightarrow> map (\<lambda>(m, s). (m, sorted_list_of_set (snap_inputs s))) b = [(''XzActionPrefix'', [''b'', ''src/a''])]
    | Inl e \<Rightarrow> False)"
  by code_simp

lemma sample_packages:
  "map (package_mnemonic sample_rules) (manifest_package_order sample_rules) = [''XzActionPrefix'']"
  by code_simp

lemma exact_check_decides_witness:
  "\<exists>rep. exact_from_json id 5 (\<lambda>_. []) sample_rules True (\<lambda>p. (Some p, None)) (\<lambda>p. (Some p, None)) sample_query sample_query
       = Inr rep \<and> exit_code rep = 0"
proof -
  obtain b where b: "parse_aquery id 5 (\<lambda>_. []) (Some (\<lambda>p. (Some p, None))) sample_query = Inr b"
    and keys: "map (\<lambda>(m, s). (m, sorted_list_of_set (snap_inputs s))) b = [(''XzActionPrefix'', [''b'', ''src/a''])]"
    using sample_parses by (auto split: sum.splits)
  obtain s where "b = [(''XzActionPrefix'', s)]" using keys by (auto simp: split_beta)
  moreover have "package_mnemonic sample_rules p = ''XzActionPrefix''" if "p \<in> set (manifest_package_order sample_rules)" for p
  proof -
    have "package_mnemonic sample_rules p \<in> set (map (package_mnemonic sample_rules) (manifest_package_order sample_rules))"
      using that by simp
    then show ?thesis unfolding sample_packages by simp
  qed
  ultimately show ?thesis using exact_check_decides [OF b b, of sample_rules] by auto
qed

section \<open>Changed definitions\<close>

definition dependent_rel :: "dict \<Rightarrow> (string \<times> string) set" where
  "dependent_rel manifest = {(p, q). q \<in> set (edges_of (manifest_dependency_edges manifest) p)}"

lemma transitive_dependents:
  "set (transitive_native_dependents manifest p) = {q. (p, q) \<in> (dependent_rel manifest)\<^sup>+}"
  using dependents.search_successors [of "manifest_dependency_edges manifest" p]
  by (simp add: transitive_native_dependents_def Let_def dependent_rel_def dependents.follows_def)

definition impacted :: "dict \<Rightarrow> string \<Rightarrow> string \<Rightarrow> string \<Rightarrow> package_result option \<Rightarrow> package_result" where
  \<comment> \<open>what the change of a definition makes of the result of an affected package\<close>
  "impacted manifest path package q before =
     (let r = (case before of Some r \<Rightarrow> r | None \<Rightarrow> fresh_result (package_mnemonic manifest q)) in
      if path \<in> cause_path ` set (result_causes r) then r
      else add_cause path ''flags''
             (if q = package then ''repository-rule native package definition changed''
              else ''depends on repository-rule native '' @ package) ''rebuild'' r)"

lemma impacted_has_path: "path \<in> cause_path ` set (result_causes (impacted manifest path package q before))"
  by (simp add: impacted_def Let_def add_cause_has)

lemma impacted_twice:
  "impacted manifest path package q (Some (impacted manifest path package q before)) = impacted manifest path package q before"
  using impacted_has_path [of path manifest package q before] by (simp add: impacted_def [of _ _ _ _ "Some _"])

lemma add_cause_rebuild: "result_status (add_cause p cls detail ''rebuild'' r) = ''rebuild''"
proof -
  have "result_status r = ''rebuild''" if "\<not> rank STATUS_RANK (result_status r) < 2"
    using that by (auto simp: rank_def STATUS_RANK_def split: if_splits)
  moreover have "normalise_status ''rebuild'' = ''rebuild''" "rank STATUS_RANK ''rebuild'' = 2" by code_simp+
  ultimately show ?thesis by (auto simp: add_cause_def Let_def)
qed

lemma impacted_status: "result_status (impacted manifest path package q before) = ''rebuild'' \<or> before = Some (impacted manifest path package q before)"
  by (auto simp: impacted_def Let_def add_cause_rebuild fresh_result_def split: option.splits)

lemma add_native_impact_map:
  "map_of (add_native_impact manifest path package results q)
     = (map_of results)(q \<mapsto> impacted manifest path package q (map_of results q))"
  by (simp add: add_native_impact_def impacted_def update_conv' Let_def)

lemma add_native_impacts_map:
  "map_of (foldl (add_native_impact manifest path package) results ps) q =
     (if q \<in> set ps then Some (impacted manifest path package q (map_of results q)) else map_of results q)"
  by (induction ps arbitrary: results) (simp_all add: add_native_impact_map impacted_twice)

text \<open>
  C37. A changed definition of a native repository marks its package and every package that depends on
  it, directly or through others: each gets the changed path as a cause and asks for a rebuild, unless
  it had that cause before. The result of any other package stays as it was.
\<close>

theorem native_definition_marks_dependents:
  assumes "definition_package manifest path = Some package"
  shows "(\<forall>q. (package, q) \<in> (dependent_rel manifest)\<^sup>* \<longrightarrow>
       (\<exists>r. map_of (add_repository_rule_native_impacts manifest path results) q = Some r
          \<and> path \<in> cause_path ` set (result_causes r)
          \<and> (result_status r = ''rebuild'' \<or> map_of results q = Some r)))
    \<and> (\<forall>q. (package, q) \<notin> (dependent_rel manifest)\<^sup>* \<longrightarrow>
         map_of (add_repository_rule_native_impacts manifest path results) q = map_of results q)"
proof -
  have "q \<in> set (package # transitive_native_dependents manifest package) \<longleftrightarrow> (package, q) \<in> (dependent_rel manifest)\<^sup>*" for q
    by (auto simp: transitive_dependents rtrancl_eq_or_trancl)
  then have "map_of (add_repository_rule_native_impacts manifest path results) q =
      (if (package, q) \<in> (dependent_rel manifest)\<^sup>* then Some (impacted manifest path package q (map_of results q))
       else map_of results q)" for q
    unfolding add_repository_rule_native_impacts_def assms option.case add_native_impacts_map by simp
  then show ?thesis using impacted_has_path impacted_status by simp
qed

definition sample_graph :: dict where
  "sample_graph = [(''repository_rule_native_graph'', JObj
     [(''package_dirs'', JObj [(''protobuf'', JStr ''native/protobuf'')]),
      (''dependency_edges'', JObj [(''protobuf'', JList [JStr ''py_protobuf'']), (''py_protobuf'', JList [JStr ''pytorch''])])])]"

lemma sample_graph_values:
  "definition_package sample_graph ''foundry/native/protobuf/protobuf.bzl'' = Some ''protobuf''"
  "edges_of (manifest_dependency_edges sample_graph) ''protobuf'' = [''py_protobuf'']"
  "edges_of (manifest_dependency_edges sample_graph) ''py_protobuf'' = [''pytorch'']"
  by code_simp+

lemma native_definition_marks_dependents_witness:
  "\<exists>r. map_of (add_repository_rule_native_impacts sample_graph ''foundry/native/protobuf/protobuf.bzl'' []) ''pytorch'' = Some r
     \<and> result_status r = ''rebuild''"
proof -
  have "(''protobuf'', ''py_protobuf'') \<in> dependent_rel sample_graph" "(''py_protobuf'', ''pytorch'') \<in> dependent_rel sample_graph"
    unfolding dependent_rel_def by (simp_all add: sample_graph_values)
  then have "(''protobuf'', ''pytorch'') \<in> (dependent_rel sample_graph)\<^sup>*"
    by (rule converse_rtrancl_into_rtrancl [OF _ r_into_rtrancl])
  then show ?thesis
    using native_definition_marks_dependents [OF sample_graph_values(1), of "[]"] by fastforce
qed

end
