(* ===== verification/RebuildFastRun.thy ===== *)
theory RebuildFastRun
  imports RebuildFast RebuildRun
begin

text \<open>
  What the fast mode reports: every rule that a changed path matches is in the report, unless the change
  is one of the exempt ones, and what later steps add never takes it back. And what it does not see: a
  removed line that begins with two dashes.
\<close>

section \<open>Results only grow\<close>

definition grown :: "package_result \<Rightarrow> package_result \<Rightarrow> bool" where
  "grown r r' = (set (result_causes r) \<subseteq> set (result_causes r')
     \<and> rank STATUS_RANK (result_status r) \<le> rank STATUS_RANK (result_status r'))"

definition grown_results :: "results \<Rightarrow> results \<Rightarrow> bool" where
  "grown_results rs rs' = (\<forall>p r. map_of rs p = Some r \<longrightarrow> (\<exists>r'. map_of rs' p = Some r' \<and> grown r r'))"

named_theorems growing \<open>steps that only add to the results\<close>

lemma grown_refl [simp]: "grown r r"
  by (simp add: grown_def)

lemma grown_trans: "grown a b \<Longrightarrow> grown b c \<Longrightarrow> grown a c"
  by (auto simp: grown_def)

lemma add_cause_grown [growing]: "grown r (add_cause p cls detail status r)"
  by (auto simp: grown_def add_cause_def Let_def)

lemma grown_results_refl [simp]: "grown_results rs rs"
  by (simp add: grown_results_def)

lemma grown_results_trans: "grown_results a b \<Longrightarrow> grown_results b c \<Longrightarrow> grown_results a c"
  unfolding grown_results_def using grown_trans by blast

lemma grown_fold: "(\<And>x r. grown r (f r x)) \<Longrightarrow> grown r (foldl f r xs)"
  by (induction xs arbitrary: r) (auto intro: grown_trans)

lemma grown_results_fold: "(\<And>x rs. grown_results rs (f rs x)) \<Longrightarrow> grown_results rs (foldl f rs xs)"
  by (induction xs arbitrary: rs) (auto intro: grown_results_trans)

lemma grown_results_foldE:
  "(\<And>x rs rs'. f rs x = Inr rs' \<Longrightarrow> grown_results rs rs') \<Longrightarrow> foldE f rs xs = Inr rs' \<Longrightarrow> grown_results rs rs'"
proof (induction xs arbitrary: rs)
  case (Cons x xs)
  then obtain rs1 where "f rs x = Inr rs1" "foldE f rs1 xs = Inr rs'" by auto
  then show ?case using Cons.IH [of rs1] Cons.prems(1) grown_results_trans by blast
qed simp

lemma map_of_results: "map_of (map (\<lambda>(p, r). (p, f p r)) rs) p = map_option (f p) (map_of rs p)"
  by (induction rs) auto

lemma grown_results_map: "(\<And>p r. grown r (f p r)) \<Longrightarrow> grown_results rs (map (\<lambda>(p, r). (p, f p r)) rs)"
  by (simp add: grown_results_def map_of_results)

lemma grown_results_update:
  "(\<And>r. map_of rs p = Some r \<Longrightarrow> grown r r') \<Longrightarrow> grown_results rs (AList.update p r' rs)"
  by (simp add: grown_results_def update_conv')

lemma add_to_grown [growing]: "add_to p f rs = Inr rs' \<Longrightarrow> (\<And>r. grown r (f r)) \<Longrightarrow> grown_results rs rs'"
  by (auto simp: add_to_def intro!: grown_results_update split: option.splits)

lemma apply_rules_grown [growing]: "grown r (apply_rules str manifest path p r)"
  unfolding apply_rules_def by (rule grown_fold) (rule add_cause_grown)

lemma native_impacts_grown [growing]: "grown_results rs (add_repository_rule_native_impacts manifest path rs)"
proof -
  have "grown_results rs (add_native_impact manifest path package rs q)" for package rs q
    unfolding add_native_impact_def Let_def
    by (rule grown_results_update) (auto intro: add_cause_grown)
  then show ?thesis
    unfolding add_repository_rule_native_impacts_def
    by (cases "definition_package manifest path") (simp_all add: grown_results_fold del: foldl_Cons)
qed

lemma path_impact_grown [growing]: "grown_results rs (path_impact str manifest before after changed signed rs path)"
  unfolding path_impact_def
  by (auto intro!: grown_results_trans [OF _ native_impacts_grown] grown_results_map apply_rules_grown)

lemma common_hazard_grown [growing]: "grown_results rs (add_common_hazard path cls detail rs)"
  unfolding add_common_hazard_def by (rule grown_results_map) (rule add_cause_grown)

lemma line_hazards_grown [growing]:
  assumes "line_hazards manifest path line rs = Inr rs'"
  shows "grown_results rs rs'"
proof -
  obtain r1 where r1: "add_source_repo_hazard path (tl line) rs = Inr r1"
    and r2: "add_shell_env_hazard manifest path line (add_determinism_hazard path (tl line) (add_env_flag_hazard path (tl line) r1)) = Inr rs'"
    using assms by (auto simp: line_hazards_def)
  have "grown_results rs r1"
    using r1 unfolding add_source_repo_hazard_def add_generated_prefix_manifest_hazard_def
    by (auto intro!: grown_results_foldE [OF add_to_grown [OF _ add_cause_grown]] split: if_splits)
  moreover have "grown_results r1 (add_env_flag_hazard path (tl line) r1)"
    by (auto simp: add_env_flag_hazard_def intro: common_hazard_grown split: option.splits)
  moreover have "grown_results rs (add_determinism_hazard path (tl line) rs)" for rs
    by (auto simp: add_determinism_hazard_def intro: common_hazard_grown)
  moreover have "add_shell_env_hazard manifest path line rs = Inr rs' \<Longrightarrow> grown_results rs rs'" for rs
    by (auto simp: add_shell_env_hazard_def intro: common_hazard_grown add_to_grown [OF _ add_cause_grown]
        split: if_splits option.splits)
  ultimately show ?thesis using r2 by (meson grown_results_trans)
qed

lemma scan_grown [growing]:
  assumes "scan_diff_hazards manifest diff rs = Inr rs'"
  shows "grown_results rs rs'"
proof -
  define changed signed where "changed = changed_lines_by_path False diff" and "signed = changed_lines_by_path True diff"
  obtain r1 s where r1: "add_archive_pins changed signed rs = Inr r1"
    and s: "foldE (hazard_step manifest changed signed) ([], r1) (splitlines False diff) = Inr s" and rs': "rs' = snd s"
    using assms by (auto simp: scan_diff_hazards_def Let_def changed_def signed_def split: prod.splits)
  have pin: "add_archive_pin path rs p = Inr rs' \<Longrightarrow> grown_results rs rs'" for path rs p rs'
    unfolding add_archive_pin_def
    by (auto split: if_splits intro: grown_results_trans add_to_grown [OF _ add_cause_grown])
  have pins: "foldE (add_archive_pin path) rs ps = Inr rs' \<Longrightarrow> grown_results rs rs'" for path rs ps rs'
    by (rule grown_results_foldE [OF pin])
  have "grown_results rs r1"
    by (rule grown_results_foldE [OF _ r1 [unfolded add_archive_pins_def]]) (auto split: option.splits intro: pins)
  moreover have "foldE (hazard_step manifest changed signed) (c, rs) ls = Inr s \<Longrightarrow> grown_results rs (snd s)" for c rs ls s
  proof (induction ls arbitrary: c rs)
    case (Cons l ls)
    then obtain c1 rs1 where l: "hazard_step manifest changed signed (c, rs) l = Inr (c1, rs1)"
      "foldE (hazard_step manifest changed signed) (c1, rs1) ls = Inr s" by auto
    have "grown_results rs rs1"
      using l(1) by (auto simp: hazard_step_def split: if_splits intro: line_hazards_grown)
    then show ?case using Cons.IH [OF l(2)] grown_results_trans by blast
  qed auto
  ultimately show ?thesis using s rs' grown_results_trans by blast
qed

section \<open>Every matching rule is reported\<close>

definition rule_entry :: "string \<Rightarrow> input_rule \<Rightarrow> cause" where
  "rule_entry path rule = \<lparr>cause_path = path, cause_class = rule_cause rule, cause_detail = rule_detail rule\<rparr>"

definition reports_rule :: "string \<Rightarrow> input_rule \<Rightarrow> package_result \<Rightarrow> bool" where
  "reports_rule path rule r =
     (rule_entry path rule \<in> set (result_causes r)
      \<and> rank STATUS_RANK (rule_status rule) \<le> rank STATUS_RANK (result_status r))"

lemma reports_rule_grown: "reports_rule path rule r \<Longrightarrow> grown r r' \<Longrightarrow> reports_rule path rule r'"
  by (auto simp: reports_rule_def grown_def)

lemma map_filter_some: "x \<in> set (List.map_filter f xs) \<Longrightarrow> \<exists>v. f v = Some x"
  by (auto simp: map_filter_def)

lemma rule_of_normal:
  "rule_of str d = Some rule \<Longrightarrow> \<exists>c s. rule_cause rule = normalise_cause c \<and> rule_status rule = normalise_status s"
  by (auto simp: rule_of_def Let_def split: if_splits)

lemma rules_normal:
  assumes "rule \<in> set (rules_for_package str manifest p)"
  shows "normalise_cause (if rule_cause rule = [] then ''other'' else rule_cause rule) = rule_cause rule"
    and "normalise_status (if rule_status rule = [] then ''rebuild'' else rule_status rule) = rule_status rule"
proof -
  obtain v where "(case v of JObj d \<Rightarrow> rule_of str d | _ \<Rightarrow> None) = Some rule"
    using map_filter_some [OF assms [unfolded rules_for_package_def input_rules_def]] by blast
  then obtain d where "rule_of str d = Some rule" by (cases v) auto
  then obtain c s where "rule_cause rule = normalise_cause c" "rule_status rule = normalise_status s"
    using rule_of_normal by blast
  then show "normalise_cause (if rule_cause rule = [] then ''other'' else rule_cause rule) = rule_cause rule"
    "normalise_status (if rule_status rule = [] then ''rebuild'' else rule_status rule) = rule_status rule"
    by (auto simp: normalise_cause_def normalise_status_def CAUSE_RANK_def STATUS_RANK_def)
qed

lemma add_cause_reports:
  assumes "rule \<in> set (rules_for_package str manifest p)"
  shows "reports_rule path rule (add_cause path (rule_cause rule) (rule_detail rule) (rule_status rule) r)"
  unfolding reports_rule_def add_cause_def rules_normal [OF assms] Let_def rule_entry_def by auto

lemma apply_rules_reports:
  assumes "rule \<in> set (rules_for_package str manifest p)" "path_matches rule path"
  shows "reports_rule path rule (apply_rules str manifest path p r)"
proof -
  have "rule \<in> set (filter (\<lambda>rule. path_matches rule path) (rules_for_package str manifest p))" using assms by simp
  then obtain xs ys where split: "filter (\<lambda>rule. path_matches rule path) (rules_for_package str manifest p) = xs @ rule # ys"
    by (meson split_list)
  define step where "step = (\<lambda>r (rule :: input_rule). add_cause path (rule_cause rule) (rule_detail rule) (rule_status rule) r)"
  have "reports_rule path rule (step (foldl step r xs) rule)"
    unfolding step_def by (rule add_cause_reports [OF assms(1)])
  moreover have "grown (step (foldl step r xs) rule) (foldl step (step (foldl step r xs) rule) ys)"
    by (rule grown_fold) (simp add: step_def add_cause_grown)
  ultimately show ?thesis
    unfolding apply_rules_def split step_def [symmetric] by (auto intro: reports_rule_grown)
qed

lemma path_impact_reports:
  assumes "rule \<in> set (rules_for_package str manifest p)" "path_matches rule path"
    and "\<not> skipped_path before after changed signed path" "\<not> harmless_script_change changed path"
    and "map_of rs p = Some r"
  shows "\<exists>r'. map_of (path_impact str manifest before after changed signed rs path) p = Some r' \<and> reports_rule path rule r'"
proof -
  define rs1 where "rs1 = map (\<lambda>(p, r). (p, apply_rules str manifest path p r)) rs"
  have "map_of rs1 p = Some (apply_rules str manifest path p r)" using assms(5) by (simp add: rs1_def map_of_results)
  moreover have "grown_results rs1 (add_repository_rule_native_impacts manifest path rs1)" by (rule native_impacts_grown)
  ultimately obtain r' where "map_of (add_repository_rule_native_impacts manifest path rs1) p = Some r'"
    "grown (apply_rules str manifest path p r) r'"
    by (auto simp: grown_results_def)
  moreover from this have "reports_rule path rule r'"
    using reports_rule_grown [OF apply_rules_reports [OF assms(1,2)]] by blast
  ultimately show ?thesis
    using assms(3,4) by (simp add: path_impact_def rs1_def)
qed

lemma exit_code_loud:
  assumes "map_of rs p = Some r" "0 < rank STATUS_RANK (result_status r)"
  shows "exit_code (make_report rs) \<noteq> 0"
proof -
  have "(p, r) \<in> set rs" using assms(1) by (rule map_of_SomeD)
  then show ?thesis
    using rank_pos [OF assms(2)] by (force simp: make_report_def Let_def list_ex_iff)
qed

text \<open>
  C39. The fast check reports every rule that a changed path matches. When it returns a report, a path of
  the change that is not one of the exempt changes of scripts appears, for every package and every rule
  of the package that matches it, as a cause with the class and the detail of the rule, in a result
  whose status is at least that of the rule; and a rule that asks for a rebuild makes the exit code
  nonzero. Nothing that the later steps add takes this back.
\<close>

theorem fast_check_reports_matches:
  assumes "fast_impact str manifest before after out diff = Inr rep"
    and "path \<in> set (impact_paths before after out)"
    and "\<not> skipped_path before after (changed_lines_by_path False diff) (changed_lines_by_path True diff) path"
    and "\<not> harmless_script_change (changed_lines_by_path False diff) path"
    and "p \<in> set (manifest_package_order manifest)"
    and "rule \<in> set (rules_for_package str manifest p)" "path_matches rule path"
  shows "(\<exists>r. map_of (report_packages rep) p = Some r
      \<and> \<lparr>cause_path = path, cause_class = rule_cause rule, cause_detail = rule_detail rule\<rparr> \<in> set (result_causes r)
      \<and> rank STATUS_RANK (rule_status rule) \<le> rank STATUS_RANK (result_status r))
    \<and> (rule_status rule = ''rebuild'' \<or> rule_status rule = ''may-rebuild'' \<longrightarrow> exit_code rep \<noteq> 0)"
proof -
  define step where "step = path_impact str manifest before after (changed_lines_by_path False diff) (changed_lines_by_path True diff)"
  obtain xs ys where paths: "impact_paths before after out = xs @ path # ys" using assms(2) by (meson split_list)
  define rs where "rs = foldl step (initial_results manifest) xs"
  from assms(1) obtain rs' where scan: "scan_diff_hazards manifest diff (foldl step (step rs path) ys) = Inr rs'"
    and rep: "rep = make_report rs'"
    by (auto simp: fast_impact_def Let_def paths rs_def step_def)
  have "map_of (initial_results manifest) p = Some (fresh_result (package_mnemonic manifest p))"
    unfolding initial_results_def by (rule map_of_keyed [OF assms(5)])
  moreover have "grown_results (initial_results manifest) rs"
    unfolding rs_def by (rule grown_results_fold) (simp add: step_def path_impact_grown)
  ultimately obtain r0 where "map_of rs p = Some r0" by (auto simp: grown_results_def)
  then obtain r1 where r1: "map_of (step rs path) p = Some r1" "reports_rule path rule r1"
    using path_impact_reports [OF assms(6,7,3,4)] unfolding step_def by blast
  have "grown_results (step rs path) (foldl step (step rs path) ys)"
    by (rule grown_results_fold) (simp add: step_def path_impact_grown)
  from grown_results_trans [OF this scan_grown [OF scan]]
  obtain r where "map_of rs' p = Some r" "grown r1 r" using r1(1) unfolding grown_results_def by blast
  then have r: "map_of rs' p = Some r" "reports_rule path rule r" using reports_rule_grown [OF r1(2)] by blast+
  have "exit_code rep \<noteq> 0" if "rule_status rule = ''rebuild'' \<or> rule_status rule = ''may-rebuild''"
  proof -
    have "0 < rank STATUS_RANK (rule_status rule)" using that by (auto simp: rank_def STATUS_RANK_def)
    then show ?thesis unfolding rep using r by (intro exit_code_loud [OF r(1)]) (simp add: reports_rule_def)
  qed
  moreover have "report_packages rep = rs'" by (simp add: rep make_report_def Let_def)
  ultimately show ?thesis using r by (auto simp: reports_rule_def rule_entry_def)
qed

section \<open>What the diff hides\<close>

text \<open>
  C40. A removed line that begins with two dashes is taken for a header of the diff: neither the lines of
  a path nor the hazards see it, wherever it stands. A script that loses a line with a bare option, such
  as an action environment, changes as if it had not.
\<close>

theorem removed_options_are_invisible:
  "foldl (diff_step keep_sign) s (ls @ [''---'' @ option_text] @ ls') = foldl (diff_step keep_sign) s (ls @ ls')
   \<and> foldE (hazard_step manifest changed signed) t (ls @ [''---'' @ option_text] @ ls')
     = foldE (hazard_step manifest changed signed) t (ls @ ls')"
proof -
  have plain: "\<not> header_line (''---'' @ option_text)" "\<not> changed_line (''---'' @ option_text)"
    by (simp_all add: header_line_def diff_git_line_def changed_line_def)
  have "diff_step keep_sign s (''---'' @ option_text) = s" for s
    using plain by (cases s) (simp add: diff_step_def del: append_Cons append.simps)
  moreover have "hazard_step manifest changed signed t (''---'' @ option_text) = Inr t" for t
    using plain by (cases t) (simp add: hazard_step_def del: append_Cons append.simps)
  moreover have "foldE (hazard_step manifest changed signed) t (xs @ ys)
      = bindE (foldE (hazard_step manifest changed signed) t xs) (\<lambda>t. foldE (hazard_step manifest changed signed) t ys)" for t xs ys
    by (induction xs arbitrary: t) (auto simp: bindE_def split: sum.splits)
  ultimately show ?thesis by (simp del: append_Cons)
qed

definition sample_inputs :: dict where
  "sample_inputs =
     [(''packages'', JObj [(''xz'', JObj [(''inputs'', JList [JObj [(''path'', JStr ''native/xz''), (''cause'', JStr ''flags''), (''detail'', JStr ''d'')]])])])]"

definition sample_rule :: input_rule where
  "sample_rule = \<lparr>rule_path = Some ''native/xz'', rule_glob = None, rule_cause = ''flags'', rule_status = ''rebuild'', rule_detail = ''d''\<rparr>"

lemma sample_inputs_values:
  "rules_for_package (\<lambda>_. []) sample_inputs ''xz'' = [sample_rule]"
  "manifest_package_order sample_inputs = [''xz'']"
  "path_matches sample_rule ''foundry/native/xz/a.c''"
  "nul_separated ''foundry/native/xz/a.c'' = [''foundry/native/xz/a.c'']"
  by code_simp+

lemma sample_path_facts:
  "named_as [GATE_SCRIPT] ''foundry/native/xz/a.c'' = False" "named_as [GATE_INSULA_SCRIPT] ''foundry/native/xz/a.c'' = False"
  "named_as [''run.sh''] ''foundry/native/xz/a.c'' = False" "run_or_gate_script ''foundry/native/xz/a.c'' = False"
  "query_target ''foundry/native/xz/a.c'' = None" "''foundry/native/xz/a.c'' \<in> set RUN_SCRIPTS \<longleftrightarrow> False"
  "''foundry/native/xz/a.c'' = GATE_SCRIPT \<longleftrightarrow> False"
  "list_ex (\<lambda>c. run_or_gate_script c \<or> c = ''tools/native_determinism_args.sh'') (candidate_paths ''foundry/native/xz/a.c'') = False"
  by code_simp+

lemma sample_not_exempt:
  "\<not> skipped_path before after changed signed ''foundry/native/xz/a.c''"
  "\<not> harmless_script_change changed ''foundry/native/xz/a.c''"
  unfolding skipped_path_def harmless_script_change_def native_prefix_cquery_only_change_def
    native_prefix_cquery_gate_only_script_change_def native_prefix_path_query_build_only_change_def
    host_gate_copyback_only_script_change_def graph_root_relocation_only_script_change_def
    third_party_mount_only_script_change_def graph_capture_path_relocation_only_script_change_def valid_relocated_script_def
    estate_only_script_change_def disk_cache_gc_only_script_change_def coreutils_offline_fetch_only_script_change_def
    leaf_action_offline_fetch_only_script_change_def consumer_conformance_gate_only_script_change_def sample_path_facts
  by simp_all

lemma fast_check_reports_matches_witness:
  "\<exists>rep. fast_impact (\<lambda>_. []) sample_inputs (\<lambda>_. None) (\<lambda>_. Some ''x'') ''foundry/native/xz/a.c'' [] = Inr rep
     \<and> exit_code rep \<noteq> 0"
proof -
  have paths: "''foundry/native/xz/a.c'' \<in> set (impact_paths (\<lambda>_. None) (\<lambda>_. Some ''x'') ''foundry/native/xz/a.c'')"
    unfolding impact_paths_def sample_inputs_values by code_simp
  have scan: "scan_diff_hazards sample_inputs [] rs = Inr rs" for rs
    by (simp add: scan_diff_hazards_def changed_lines_by_path_def splitlines_def add_archive_pins_def Let_def)
  have "impact_paths (\<lambda>_. None) (\<lambda>_. Some ''x'') ''foundry/native/xz/a.c'' \<noteq> []" using paths by (rule list.set_cases) simp_all
  then obtain rep where rep: "fast_impact (\<lambda>_. []) sample_inputs (\<lambda>_. None) (\<lambda>_. Some ''x'') ''foundry/native/xz/a.c'' [] = Inr rep"
    by (simp add: fast_impact_def Let_def scan)
  have "''xz'' \<in> set (manifest_package_order sample_inputs)" "sample_rule \<in> set (rules_for_package (\<lambda>_. []) sample_inputs ''xz'')"
    unfolding sample_inputs_values by simp_all
  note report = fast_check_reports_matches [OF rep paths sample_not_exempt(1) sample_not_exempt(2) this sample_inputs_values(3)]
  then show ?thesis using rep by (simp add: sample_rule_def)
qed

end
