(* ===== verification/Spec2Isabelle.thy ===== *)
theory Spec2Isabelle
  imports
    SchemaSpec
    ExecutorRun
    PathMap
    OverlayRoot
    Estate
    LeaseRun
    RelayClaimRun
    RelayLandRun
    RelayTicketRun
    BuildGraphRun
    LockToolRun
    BuildVariantsRun
    QualificationPlanRun
    NightlySelectRun
    DeterminismCompareRun
    RedRegistryRun
    RebuildContentRun
    RebuildFastRun
begin

text \<open>
  Vaso builds scientific Python wheels (torch, triton, jax) with Bazel inside a sandbox, the
  ``insula'', on machines that several agents share, and releases what passes its qualification. This
  development models the Python programs that decide something on that way and proves what they
  promise. It is organised along the way of a build.

  \<^bold>\<open>Vocabulary.\<close> \<^verbatim>\<open>Prelude\<close> represents Python's values (\<open>json\<close>, \<open>dict\<close> as association lists in insertion
  order, \<open>res\<close> as a result or a \<open>pyexn\<close>), \<^verbatim>\<open>Effects\<close> actions on a world that survives an exception,
  \<^verbatim>\<open>PosixPath\<close> the paths of \<^verbatim>\<open>pathlib\<close>, \<^verbatim>\<open>Urls\<close> the part of \<^verbatim>\<open>urllib.parse\<close> that is used,
  \<^verbatim>\<open>SortedDict\<close> dictionaries in the order of their keys, and \<^verbatim>\<open>Worklist\<close> the
  contract of a search with a queue.

  \<^bold>\<open>Native builds\<close> (\<^verbatim>\<open>foundry/native/common\<close>). \<^verbatim>\<open>Template\<close> and \<^verbatim>\<open>PlanSchema\<close> are \<^verbatim>\<open>plan_schema.py\<close>: the
  validator of JSON plans, with the committed schema as data. \<^verbatim>\<open>SchemaSpec\<close> compares it with the
  inductive relation \<open>conforms\<close>. \<^verbatim>\<open>PlanExecutor\<close> is \<^verbatim>\<open>plan_executor.py\<close>, from the verification of sources and
  rootfs through the phases to the checks of the wheel. \<^verbatim>\<open>ExecutorSpec\<close>, \<^verbatim>\<open>ExecutorCalm\<close> and \<^verbatim>\<open>ExecutorRun\<close>
  show that an accepted plan cannot crash it, that a successful run has verified every recorded digest,
  and that the scan for leaked paths is complete.

  \<^bold>\<open>The shared machine\<close> (\<^verbatim>\<open>insula\<close>). \<^verbatim>\<open>PathMap\<close>, \<^verbatim>\<open>OverlayRoot\<close> and \<^verbatim>\<open>Estate\<close> are the files of
  \<^verbatim>\<open>insula/estate\<close>. \<^verbatim>\<open>LeaseState\<close> and \<^verbatim>\<open>Lease\<close> are \<^verbatim>\<open>lease_state.py\<close> and \<^verbatim>\<open>lease.py\<close>: the directory of leases is
  a store of files, each command a function on it that reads the clock, the processes and the devices
  of a machine given as a record of functions. \<^verbatim>\<open>LeasePolicy\<close> states the contract of a grant as the
  locales \<open>lease_policy\<close> and \<open>exclusive_policy\<close>; \<^verbatim>\<open>Lease\<close> interprets them on the rules of the code.
  \<^verbatim>\<open>LeaseSpec\<close> is the abstract machine whose steps are the locked sections of the commands, with its
  invariants over all interleavings; \<^verbatim>\<open>LeaseRun\<close> shows that the commands refine it and that they end.

  \<^bold>\<open>Agents\<close> (\<^verbatim>\<open>tools/agents\<close>). \<^verbatim>\<open>RelayClaim\<close>, \<^verbatim>\<open>RelayGate\<close>, \<^verbatim>\<open>RelayLand\<close> and \<^verbatim>\<open>RelayTicket\<close> are \<^verbatim>\<open>relay.py\<close>: claims
  of tickets as interleaved steps on exclusive files, the gates of a landing, the landing with its
  account of the dirty tree over an abstract git, and the ledger of a ticket. The theories that end in
  \<^verbatim>\<open>Run\<close> hold what they promise. \<^verbatim>\<open>RedRegistry\<close> is \<^verbatim>\<open>red_registry.py\<close>, the escalation of failing targets.

  \<^bold>\<open>Graphs and locks\<close> (\<^verbatim>\<open>foundry/tools\<close>). \<^verbatim>\<open>SpackLock\<close> is \<^verbatim>\<open>spack_to_bazel.py\<close>, \<^verbatim>\<open>TopoOrder\<close> its topological
  order, \<^verbatim>\<open>BuildGraph\<close> is \<^verbatim>\<open>build_graph.py\<close>. \<^verbatim>\<open>LockTool\<close> is \<^verbatim>\<open>lock_tool.py\<close>, the validation of the
  checked-in locks and their edits over a map of files; \<^verbatim>\<open>LockToolRun\<close> shows what a lock without errors
  promises, what the edits keep, and that a removal takes back an addition. \<^verbatim>\<open>RebuildRules\<close> and \<^verbatim>\<open>RebuildExact\<close> are \<^verbatim>\<open>rebuild_impact.py\<close>: rules,
  packages and their dependents, the reading of two \<^verbatim>\<open>aquery\<close> graphs and the verdict over them;
  \<^verbatim>\<open>RebuildContent\<close> is the digest of an input, \<^verbatim>\<open>RebuildLines\<close> and \<^verbatim>\<open>RebuildFast\<close> the fast mode over a diff
  with its tables of exempt lines. \<^verbatim>\<open>RebuildRun\<close> proves that the verdict ``unchanged'' says what it should, and
  for which packages, \<^verbatim>\<open>RebuildContentRun\<close> that a digest tells its content, \<^verbatim>\<open>RebuildFastRun\<close> that the fast
  mode reports every match, and which removed lines it does not see. The search for dependents is an
  instance of the locale \<open>worklist\<close>.

  \<^bold>\<open>Release builds\<close> (\<^verbatim>\<open>foundry/tools\<close>). \<^verbatim>\<open>BcrMirror\<close> is \<^verbatim>\<open>bcr_mirror.py\<close> with its repository cache,
  \<^verbatim>\<open>BuildInputs\<close> the source closure of \<^verbatim>\<open>build_inputs.py\<close>, \<^verbatim>\<open>BuildSession\<close> the record of a run in
  \<^verbatim>\<open>build_session.py\<close>, \<^verbatim>\<open>BuildReport\<close> its reader, \<^verbatim>\<open>BuildArtifacts\<close> the inventory of wheels and
  \<^verbatim>\<open>BuildVariants\<close> the runner in \<^verbatim>\<open>build_variants.py\<close> that composes them.

  \<^bold>\<open>Qualification\<close> (\<^verbatim>\<open>tools/release\<close>). \<^verbatim>\<open>Candidate\<close> is \<^verbatim>\<open>candidate.py\<close>, \<^verbatim>\<open>QualificationPlan\<close> is
  \<^verbatim>\<open>qualification_policy.py\<close> with \<^verbatim>\<open>resource_metadata.py\<close>, \<^verbatim>\<open>NightlySelect\<close> is \<^verbatim>\<open>nightly_selection.py\<close>,
  \<^verbatim>\<open>DeterminismCompare\<close> is \<^verbatim>\<open>determinism_compare.py\<close>: two wheelhouses, member by member, against a list of
  allowed differences; \<^verbatim>\<open>DeterminismCompareRun\<close> says what its exit code and its word ``identical'' mean.

  \<^bold>\<open>Parameters.\<close> What lies outside the sources is an argument of the definitions: hash functions,
  the text of JSON files where only their parsed value matters, Python's text of floats and of nested
  values, git, the clock, processes, devices, the result of a subprocess, and the file system as a map
  from paths to contents. A theorem that needs a law of one of them has it
  as a hypothesis.

  \<^bold>\<open>Bounds.\<close> The references of a schema are followed to depth 8; \<open>validator_decides\<close> shows that the
  committed schema needs no more. The recursion over sets of files has Python's recursion limit as its
  argument, and \<open>depset_inputs_reached\<close> says how long a chain it carries. A waiting loop counts its
  attempts; \<open>acquire_ends\<close> bounds them by the timeout. A claim is a machine whose steps are the file
  operations; a claim that runs alone ends within three passes. All other loops have measures.

  \<^bold>\<open>Not modelled.\<close> Argument parsers, console output and HTML; the watch loop of the relay; running
  Spack, Bazel, git and compilers; the derivation of the graph of native repositories from the text of
  Starlark files; the generators of plans, whose output the modelled schema checks; the
  guards that scan sources and ELF files with regular expressions and binutils; the numerical
  workloads; the agents' network clients; continuous integration, publishing and the preparation of
  root file systems.
\<close>

end
